(* ===== verification/Prelude.thy ===== *)
theory Prelude
  imports Main "HOL-Library.Sublist"
begin

text \<open>
  Shared vocabulary of the development: the outcome type of C++ code that may throw or
  run into undefined behaviour, the operations of \<^verbatim>\<open>std::string\<close> the sources call
  (\<^verbatim>\<open>substr\<close>, \<^verbatim>\<open>find\<close>, \<^verbatim>\<open>at\<close>), unsigned 64-bit subtraction, number parsing of the C library,
  and the lemmas on lists the component theories share.

  A \<^verbatim>\<open>std::string\<close> is a \<^typ>\<open>string\<close>, that is a list of bytes. An operation that can fail has
  the type \<open>'a res\<close>: \<open>Inl\<close> carries the exception or the undefined behaviour, \<open>Inr\<close> the
  value.
\<close>

named_theorems res_simps \<open>equations of the outcome monad\<close>
named_theorems str_simps \<open>equations of the string library\<close>

section \<open>Outcomes\<close>

datatype cpp_error =
    Out_of_range          \<comment> \<open>\<^verbatim>\<open>std::out_of_range\<close>\<close>
  | Invalid_argument      \<comment> \<open>\<^verbatim>\<open>std::invalid_argument\<close>\<close>
  | Thrown string         \<comment> \<open>\<^verbatim>\<open>throw "..."\<close>\<close>
  | Std_exception         \<comment> \<open>\<^verbatim>\<open>throw exception()\<close>\<close>
  | Diverges              \<comment> \<open>a recursion that does not return\<close>
  | Undefined_behaviour   \<comment> \<open>null dereference, signed overflow, uninitialised pointer, ...\<close>
  | Invalid_instance string      \<comment> \<open>\<^verbatim>\<open>sql::InvalidInstanceException\<close>\<close>
  | Sql_invalid_argument string  \<comment> \<open>\<^verbatim>\<open>sql::InvalidArgumentException\<close>\<close>
  | Non_scrollable               \<comment> \<open>\<^verbatim>\<open>sql::NonScrollableException\<close>\<close>
  | Not_implemented string       \<comment> \<open>\<^verbatim>\<open>sql::MethodNotImplementedException\<close>\<close>
  | Sql_exception string         \<comment> \<open>\<^verbatim>\<open>sql::SQLException\<close> with its message\<close>
  | Native_error nat             \<comment> \<open>\<^verbatim>\<open>sql::SQLException\<close> with the client library's error number\<close>
  | Unsupported_option string string  \<comment> \<open>\<^verbatim>\<open>sql::SQLUnsupportedOptionException\<close> with the reason and the option\<close>
  | Outside_model                \<comment> \<open>emitted text that does not compile, or that the model gives no meaning to\<close>

type_synonym 'a res = "cpp_error + 'a"

definition rbind :: "'a res \<Rightarrow> ('a \<Rightarrow> 'b res) \<Rightarrow> 'b res" where
  "rbind m f = (case m of Inl e \<Rightarrow> Inl e | Inr x \<Rightarrow> f x)"

lemma rbind_Inr [simp, res_simps]: "rbind (Inr x) f = f x"
  by (simp add: rbind_def)

lemma rbind_Inl [simp, res_simps]: "rbind (Inl e) f = Inl e"
  by (simp add: rbind_def)

lemma rbind_eq_Inr [res_simps]: "rbind m f = Inr y \<longleftrightarrow> (\<exists>x. m = Inr x \<and> f x = Inr y)"
  by (cases m) auto

lemma rbind_eq_Inl [res_simps]:
  "rbind m f = Inl e \<longleftrightarrow> m = Inl e \<or> (\<exists>x. m = Inr x \<and> f x = Inl e)"
  by (cases m) auto

lemma rbind_cong [fundef_cong]:
  "m = m' \<Longrightarrow> (\<And>x. m' = Inr x \<Longrightarrow> f x = f' x) \<Longrightarrow> rbind m f = rbind m' f'"
  by (cases m') auto

text \<open>A loop that appends the result of a fallible call for every element.\<close>

fun rmap :: "('a \<Rightarrow> 'b res) \<Rightarrow> 'a list \<Rightarrow> 'b list res" where
  "rmap f [] = Inr []"
| "rmap f (x # xs) = rbind (f x) (\<lambda>y. rbind (rmap f xs) (\<lambda>ys. Inr (y # ys)))"

lemma rmap_total: "(\<And>x. x \<in> set xs \<Longrightarrow> f x = Inr (g x)) \<Longrightarrow> rmap f xs = Inr (map g xs)"
  by (induction xs) auto

lemma rmap_Inr_length: "rmap f xs = Inr ys \<Longrightarrow> length ys = length xs"
  by (induction xs arbitrary: ys) (auto simp: res_simps)

lemma rmap_Inr_nth: "rmap f xs = Inr ys \<Longrightarrow> i < length xs \<Longrightarrow> f (xs ! i) = Inr (ys ! i)"
  by (induction xs arbitrary: ys i) (auto simp: res_simps nth_Cons split: nat.splits)

lemma rmap_append:
  "rmap f (xs @ ys) = rbind (rmap f xs) (\<lambda>us. rbind (rmap f ys) (\<lambda>vs. Inr (us @ vs)))"
  by (induction xs) (auto simp: rbind_def split: sum.splits)

text \<open>Concatenation of pieces some of which may fail.\<close>

fun rconcat :: "'a list res list \<Rightarrow> 'a list res" where
  "rconcat [] = Inr []"
| "rconcat (x # xs) = rbind x (\<lambda>a. rbind (rconcat xs) (\<lambda>b. Inr (a @ b)))"

lemma rconcat_Inr [simp]: "rconcat (Inr a # xs) = rbind (rconcat xs) (\<lambda>b. Inr (a @ b))"
  by simp

lemma rconcat_map_Inr: "rconcat (map (\<lambda>x. Inr (f x)) xs) = Inr (concat (map f xs))"
  by (induction xs) auto

text \<open>Guarding: continue only when the condition holds.\<close>

definition rguard :: "cpp_error \<Rightarrow> bool \<Rightarrow> 'a res \<Rightarrow> 'a res" where
  "rguard e b m = (if b then m else Inl e)"

section \<open>Bytes\<close>

abbreviation nl :: string where "nl \<equiv> [CHR 0x0A]"
abbreviation cr :: string where "cr \<equiv> [CHR 0x0D]"
abbreviation dquote :: char where "dquote \<equiv> CHR 0x22"
abbreviation squote :: char where "squote \<equiv> CHR 0x27"

definition tabs :: "nat \<Rightarrow> string" where
  "tabs n = replicate n (CHR 0x09)"

text \<open>One line of emitted code, indented by \<open>n\<close> tabs.\<close>

definition ln :: "nat \<Rightarrow> string \<Rightarrow> string" where
  "ln n s = tabs n @ s @ nl"

section \<open>\<^verbatim>\<open>std::string\<close>\<close>

text \<open>
  \<^verbatim>\<open>s.substr(pos, n)\<close> throws when \<open>pos\<close> is past the end; \<^verbatim>\<open>s.substr(pos)\<close> takes the rest.
  \<^verbatim>\<open>s.at(i)\<close> throws out of range; \<^verbatim>\<open>s[i]\<close> may be read up to and including \<^verbatim>\<open>size()\<close>, where it is
  the null character, and is undefined beyond.
\<close>

definition std_substr :: "string \<Rightarrow> nat \<Rightarrow> nat \<Rightarrow> string res" where
  "std_substr s pos n = (if pos \<le> length s then Inr (take n (drop pos s)) else Inl Out_of_range)"

definition std_substr_from :: "string \<Rightarrow> nat \<Rightarrow> string res" where
  "std_substr_from s pos = (if pos \<le> length s then Inr (drop pos s) else Inl Out_of_range)"

definition std_at :: "'a list \<Rightarrow> nat \<Rightarrow> 'a res" where
  "std_at s i = (if i < length s then Inr (s ! i) else Inl Out_of_range)"

definition std_index :: "string \<Rightarrow> nat \<Rightarrow> char res" where
  "std_index s i = (if i < length s then Inr (s ! i)
     else if i = length s then Inr (CHR 0x00) else Inl Undefined_behaviour)"

text \<open>\<^verbatim>\<open>s.find(needle)\<close>: the first position at which the needle occurs; \<open>None\<close> is \<^verbatim>\<open>npos\<close>.\<close>

fun std_find :: "string \<Rightarrow> string \<Rightarrow> nat option" where
  "std_find needle [] = (if needle = [] then Some 0 else None)"
| "std_find needle (c # s) =
     (if prefix needle (c # s) then Some 0 else map_option Suc (std_find needle s))"

definition contains :: "string \<Rightarrow> string \<Rightarrow> bool" where
  "contains s needle \<longleftrightarrow> std_find needle s \<noteq> None"

lemma std_find_Some_split:
  "std_find n s = Some i \<Longrightarrow> i + length n \<le> length s \<and> take (length n) (drop i s) = n
     \<and> s = take i s @ n @ drop (i + length n) s"
proof (induction s arbitrary: i)
  case Nil
  then show ?case by (auto split: if_splits)
next
  case (Cons c s)
  show ?case
  proof (cases "prefix n (c # s)")
    case True
    with Cons.prems prefix_length_le [OF True] show ?thesis by (auto simp: prefix_def)
  next
    case False
    with Cons.prems obtain j where j: "i = Suc j" "std_find n s = Some j" by auto
    from Cons.IH [OF j(2)] j(1) show ?thesis by auto
  qed
qed

lemma std_find_None_iff: "std_find n s = None \<longleftrightarrow> \<not> sublist n s"
  by (induction s) (auto simp: sublist_Cons_right)

lemma contains_iff_sublist [str_simps]: "contains s n \<longleftrightarrow> sublist n s"
  by (simp add: contains_def std_find_None_iff)

lemma std_find_char: "std_find [c] s = (if c \<in> set s then Some (length (takeWhile (\<lambda>x. x \<noteq> c) s)) else None)"
  by (induction s) (auto simp: prefix_def)

lemma std_find_char_split: "c \<notin> set u \<Longrightarrow> std_find [c] (u @ c # v) = Some (length u)"
  by (induction u) auto

section \<open>Unsigned 64-bit arithmetic\<close>

text \<open>
  Subtraction of \<^verbatim>\<open>size_t\<close> values wraps around below zero. The operands are sizes of strings
  and vectors, far below \<open>2 ^ 64\<close>.
\<close>

definition usub64 :: "nat \<Rightarrow> nat \<Rightarrow> nat" where
  "usub64 a b = (if b \<le> a then a - b else 2 ^ 64 + a - b)"

lemma usub64_ge [simp]: "b \<le> a \<Longrightarrow> usub64 a b = a - b"
  by (simp add: usub64_def)

section \<open>Numbers of the C library\<close>

abbreviation INT_MAX :: int where "INT_MAX \<equiv> 2147483647"
abbreviation INT_MIN :: int where "INT_MIN \<equiv> -2147483648"

definition in_int32 :: "int \<Rightarrow> bool" where
  "in_int32 i \<longleftrightarrow> INT_MIN \<le> i \<and> i \<le> INT_MAX"

definition in_int64 :: "int \<Rightarrow> bool" where
  "in_int64 i \<longleftrightarrow> - (2 ^ 63) \<le> i \<and> i < 2 ^ 63"

text \<open>The result of signed arithmetic: leaving the type is undefined.\<close>

definition as_int32 :: "int \<Rightarrow> int res" where
  "as_int32 i = (if in_int32 i then Inr i else Inl Undefined_behaviour)"

definition as_int64 :: "int \<Rightarrow> int res" where
  "as_int64 i = (if in_int64 i then Inr i else Inl Undefined_behaviour)"

definition is_digit :: "char \<Rightarrow> bool" where
  "is_digit c \<longleftrightarrow> (48::nat) \<le> of_char c \<and> of_char c \<le> (57::nat)"

definition digit_val :: "char \<Rightarrow> int" where
  "digit_val c = int (of_char c) - 48"

text \<open>\<^verbatim>\<open>isspace\<close> of the C locale.\<close>

definition is_cspace :: "char \<Rightarrow> bool" where
  "is_cspace c \<longleftrightarrow> c = CHR '' '' \<or> ((9::nat) \<le> of_char c \<and> of_char c \<le> (13::nat))"

fun digits_val :: "int \<Rightarrow> string \<Rightarrow> int" where
  "digits_val acc [] = acc"
| "digits_val acc (c # cs) = digits_val (acc * 10 + digit_val c) cs"

text \<open>
  \<^verbatim>\<open>strtol\<close> in base ten: blanks, an optional sign, then digits; \<open>None\<close> when there is no digit.
  The value is exact, the callers deal with the range.
\<close>

definition strtol10 :: "string \<Rightarrow> int option" where
  "strtol10 s =
     (let s1 = dropWhile is_cspace s;
          neg = (case s1 of [] \<Rightarrow> False | c # _ \<Rightarrow> c = CHR ''-'');
          s2 = (case s1 of [] \<Rightarrow> [] | c # r \<Rightarrow> if c = CHR ''-'' \<or> c = CHR ''+'' then r else s1);
          ds = takeWhile is_digit s2
      in if ds = [] then None else Some (if neg then - digits_val 0 ds else digits_val 0 ds))"

text \<open>
  \<^verbatim>\<open>std::stoi\<close> throws without digits and out of the range of \<^verbatim>\<open>int\<close>; \<^verbatim>\<open>atoi\<close> returns zero without
  digits and is undefined out of range.
\<close>

definition stoi :: "string \<Rightarrow> int res" where
  "stoi s = (case strtol10 s of None \<Rightarrow> Inl Invalid_argument
     | Some i \<Rightarrow> if in_int32 i then Inr i else Inl Out_of_range)"

definition atoi :: "string \<Rightarrow> int res" where
  "atoi s = (case strtol10 s of None \<Rightarrow> Inr 0
     | Some i \<Rightarrow> if in_int32 i then Inr i else Inl Undefined_behaviour)"

section \<open>Lists\<close>

text \<open>Fields joined by a separator.\<close>

fun join :: "string \<Rightarrow> string list \<Rightarrow> string" where
  "join sep [] = []"
| "join sep [w] = w"
| "join sep (w # v # ws) = w @ sep @ join sep (v # ws)"

lemma join_Cons: "ws \<noteq> [] \<Longrightarrow> join sep (w # ws) = w @ sep @ join sep ws"
  by (cases ws) auto

lemma join_snoc: "ws \<noteq> [] \<Longrightarrow> join sep (ws @ [w]) = join sep ws @ sep @ w"
  by (induction sep ws rule: join.induct) (auto simp: join_Cons)

lemma take_append_length [simp]: "take (length u) (u @ v) = u"
  by simp

lemma count_list_pos_iff: "0 < count_list xs x \<longleftrightarrow> x \<in> set xs"
  by (induction xs) auto

end
