(* ===== verification/Str.thy ===== *)
theory Str
  imports Prelude
begin

text \<open>
  The C++ string helpers of \<^verbatim>\<open>lib/str.cpp\<close>: \<open>explode\<close>, \<open>c_explode\<close>, \<open>split\<close>, \<open>ssplit\<close>,
  \<open>trim\<close>, \<open>str_replace\<close>, \<open>itoa\<close>, \<open>ltos\<close>, \<open>strpos_m\<close>, \<open>count\<close>, \<open>indexOfChar\<close>, \<open>getLast\<close> and
  the string version of \<open>strcompsub\<close>. Diagnostics on \<^verbatim>\<open>cout\<close>/\<^verbatim>\<open>cerr\<close> are not modelled. A null
  \<^verbatim>\<open>vector<string>*\<close> is \<open>None\<close>. Loops keep the source's index arithmetic: \<open>slength - qlength\<close>
  and \<open>slength - 1\<close> are unsigned and wrap around, and after a split the source sets
  \<^verbatim>\<open>i = 0\<close> and then runs the loop's \<^verbatim>\<open>i++\<close>, so the scan of the rest starts at index 1.
\<close>

section \<open>\<^verbatim>\<open>trim\<close>\<close>

definition is_blank :: "char \<Rightarrow> bool" where
  "is_blank c \<longleftrightarrow> c = CHR 0x0A \<or> c = CHR 0x0D \<or> c = CHR '' ''"

function trim_start :: "string \<Rightarrow> nat \<Rightarrow> nat \<Rightarrow> nat res" where
  "trim_start str end start =
     rbind (std_index str start) (\<lambda>c.
       if is_blank c \<and> start \<le> end then trim_start str end (start + 1) else Inr start)"
  by pat_completeness auto
termination
  by (relation "measure (\<lambda>(str, end, start). length str + 1 - start)")
    (auto simp: std_index_def split: if_splits)

function trim_end :: "string \<Rightarrow> nat \<Rightarrow> nat \<Rightarrow> nat res" where
  "trim_end str start end =
     rbind (std_index str end) (\<lambda>c.
       if is_blank c \<and> end > start then trim_end str start (end - 1) else Inr end)"
  by pat_completeness auto
termination
  by (relation "measure (\<lambda>(str, start, end). end)") auto

declare trim_start.simps [simp del] trim_end.simps [simp del]

definition trim :: "string \<Rightarrow> string res" where
  "trim str =
     rbind (trim_start str (length str) 0) (\<lambda>start.
     rbind (trim_end str start (length str)) (\<lambda>end.
       if end - start = 0 then Inr [] else std_substr str start (end - start)))"

lemma is_blank_null [simp]: "\<not> is_blank (CHR 0x00)"
  by (simp add: is_blank_def)

lemma trim_start_eq:
  "start \<le> length str \<Longrightarrow>
     trim_start str (length str) start = Inr (start + length (takeWhile is_blank (drop start str)))"
proof (induction "length str - start" arbitrary: start)
  case 0
  then show ?case by (simp add: trim_start.simps [of str] std_index_def)
next
  case (Suc n)
  then have lt: "start < length str" by simp
  have d: "drop start str = str ! start # drop (Suc start) str"
    using lt by (simp add: Cons_nth_drop_Suc)
  show ?case
    using Suc.hyps(1) [of "Suc start"] Suc.hyps(2) lt
    by (simp add: trim_start.simps [of str _ start] std_index_def d)
qed

lemma trim_eq [str_simps]: "trim str = Inr (dropWhile is_blank str)"
proof -
  define k where "k = length (takeWhile is_blank str)"
  have k: "k \<le> length str" by (simp add: k_def length_takeWhile_le)
  have "trim_start str (length str) 0 = Inr k"
    by (simp add: trim_start_eq k_def)
  moreover have "trim_end str k (length str) = Inr (length str)"
    by (simp add: trim_end.simps [of str k] std_index_def)
  ultimately show ?thesis
    using k by (auto simp: trim_def std_substr_def dropWhile_eq_drop k_def)
qed

section \<open>\<^verbatim>\<open>itoa\<close> and \<^verbatim>\<open>ltos\<close>\<close>

text \<open>
  Both negate a negative argument first, which overflows (undefined behaviour) at the least
  value of the type.
\<close>

definition dec_digit :: "int \<Rightarrow> string" where
  "dec_digit d = [char_of (nat (48 + d))]"

function itoa :: "int \<Rightarrow> string res" where
  "itoa i =
     (if i < 0 then
        (if i * -1 > INT_MAX then Inl Undefined_behaviour
         else rbind (itoa (i * -1)) (\<lambda>s. Inr (''-'' @ s)))
      else if i \<ge> 10 then rbind (itoa (i div 10)) (\<lambda>s. Inr (s @ dec_digit (i mod 10)))
      else Inr (dec_digit i))"
  by pat_completeness auto
termination
  by (relation "measure (\<lambda>i. nat (if i < 0 then - i + 1 else i))") auto

declare itoa.simps [simp del]

function ltos :: "int \<Rightarrow> string res" where
  "ltos i =
     (if i < 0 then
        (if i * -1 > 2 ^ 63 - 1 then Inl Undefined_behaviour
         else rbind (ltos (i * -1)) (\<lambda>s. Inr (''-'' @ s)))
      else if i \<ge> 10 then rbind (ltos (i div 10)) (\<lambda>s. Inr (s @ dec_digit (i mod 10)))
      else Inr (dec_digit i))"
  by pat_completeness auto
termination
  by (relation "measure (\<lambda>i. nat (if i < 0 then - i + 1 else i))") auto

declare ltos.simps [simp del]

section \<open>Substring searches\<close>

fun strcompsub_loop :: "string \<Rightarrow> string \<Rightarrow> nat \<Rightarrow> nat \<Rightarrow> nat \<Rightarrow> bool res" where
  "strcompsub_loop str1 str2 index i 0 = Inr True"
| "strcompsub_loop str1 str2 index i (Suc k) =
     rbind (std_index str1 (i - index)) (\<lambda>a.
     rbind (std_index str2 i) (\<lambda>b.
       if a \<noteq> b then Inr False else strcompsub_loop str1 str2 index (i + 1) k))"

definition strcompsub :: "string \<Rightarrow> string \<Rightarrow> nat \<Rightarrow> nat \<Rightarrow> bool res" where
  "strcompsub str1 str2 index len =
     (if len \<noteq> length str1 then Inr False
      else strcompsub_loop str1 str2 index index len)"

text \<open>\<open>count_loop\<close> runs \<open>k\<close> iterations from index \<open>i\<close>.\<close>

fun count_loop :: "string \<Rightarrow> string \<Rightarrow> nat \<Rightarrow> nat \<Rightarrow> int \<Rightarrow> int res" where
  "count_loop haystack needle i 0 c = Inr c"
| "count_loop haystack needle i (Suc k) c =
     rbind (std_index haystack i) (\<lambda>h.
     rbind (std_index needle 0) (\<lambda>n0.
       if h = n0 then
         rbind (strcompsub needle haystack i (length needle)) (\<lambda>m.
           count_loop haystack needle (i + 1) k (if m then c + 1 else c))
       else count_loop haystack needle (i + 1) k c))"

definition count :: "string \<Rightarrow> string \<Rightarrow> int res" where
  "count haystack needle =
     (if length haystack = 0 \<or> length needle > length haystack then Inr (- 1)
      else count_loop haystack needle 0 (length haystack - length needle + 1) 0)"

definition match_at :: "string \<Rightarrow> nat \<Rightarrow> string \<Rightarrow> bool" where
  "match_at haystack i w \<longleftrightarrow>
     haystack ! i = (case w of [] \<Rightarrow> CHR 0x00 | c # _ \<Rightarrow> c)
       \<and> take (length w) (drop i haystack) = w"

function strpos_m_loop :: "string \<Rightarrow> string list \<Rightarrow> nat \<Rightarrow> int" where
  "strpos_m_loop haystack comps i =
     (if i < length haystack then
        (if list_ex (match_at haystack i) comps then int i
         else strpos_m_loop haystack comps (i + 1))
      else - 1)"
  by pat_completeness auto
termination
  by (relation "measure (\<lambda>(h, c, i). length h - i)") auto

declare strpos_m_loop.simps [simp del]

definition strpos_m :: "string \<Rightarrow> string list \<Rightarrow> int" where
  "strpos_m haystack comps = strpos_m_loop haystack comps 0"

fun indexOfChar_loop :: "string \<Rightarrow> char \<Rightarrow> int \<Rightarrow> int" where
  "indexOfChar_loop [] needle i = - 1"
| "indexOfChar_loop (c # cs) needle i =
     (if c = needle then i else indexOfChar_loop cs needle (i + 1))"

definition indexOfChar :: "string \<Rightarrow> char \<Rightarrow> int" where
  "indexOfChar haystack needle = indexOfChar_loop haystack needle 0"

definition getLast :: "string \<Rightarrow> char res" where
  "getLast str = std_index str (usub64 (length str) 1)"

section \<open>Splitting\<close>

text \<open>
  \<^verbatim>\<open>split\<close> stores \<^verbatim>\<open>find\<close>'s result in an \<^verbatim>\<open>int\<close>: a miss becomes \<open>-1\<close>, so both substrings are
  the whole subject. \<^verbatim>\<open>ssplit\<close> pushes into an uninitialised pointer.
\<close>

definition split :: "char \<Rightarrow> string \<Rightarrow> string list" where
  "split quan subject =
     (case std_find [quan] subject of
        Some index \<Rightarrow> [take index subject, drop (index + 1) subject]
      | None \<Rightarrow> [subject, subject])"

definition ssplit :: "string \<Rightarrow> string \<Rightarrow> string list res" where
  "ssplit quan subject = Inl Undefined_behaviour"

text \<open>The common end of both \<open>explode\<close> functions: the rest is kept unless it is blank.\<close>

definition push_rest :: "string \<Rightarrow> string list \<Rightarrow> string list res" where
  "push_rest subj out =
     rbind (trim subj) (\<lambda>t. Inr (if length t > 0 then out @ [subj] else out))"

function c_explode_loop :: "char \<Rightarrow> string \<Rightarrow> nat \<Rightarrow> string list \<Rightarrow> string list res" where
  "c_explode_loop quan subj i out =
     (if i < usub64 (length subj) 1 then
        rbind (std_at subj i) (\<lambda>c.
          if quan = c then
            c_explode_loop quan (drop (i + 1) subj) 1 (out @ [take i subj])
          else c_explode_loop quan subj (i + 1) out)
      else push_rest subj out)"
  by pat_completeness auto
termination
  by (relation "measures [\<lambda>(q, s, i, out). length s, \<lambda>(q, s, i, out). length s - i]")
    (auto simp: std_at_def split: if_splits)

declare c_explode_loop.simps [simp del]

definition c_explode :: "char \<Rightarrow> string \<Rightarrow> string list res" where
  "c_explode quan subject = c_explode_loop quan subject 0 []"

text \<open>
  \<open>explode_loop q qs\<close> scans for the separator \<open>q # qs\<close>: the guard of \<open>explode\<close> rules the empty
  separator out.
\<close>

function explode_loop :: "char \<Rightarrow> string \<Rightarrow> string \<Rightarrow> nat \<Rightarrow> string list \<Rightarrow> string list res" where
  "explode_loop q qs subj i out =
     (if i < usub64 (length subj) (length (q # qs)) then
        rbind (std_substr subj i (length (q # qs))) (\<lambda>w.
          if q # qs = w then
            (if i + length (q # qs) \<le> length subj then
               explode_loop q qs (drop (i + length (q # qs)) subj) 1 (out @ [take i subj])
             else Inr (out @ [take i subj]))
          else explode_loop q qs subj (i + 1) out)
      else push_rest subj out)"
  by pat_completeness auto
termination
  by (relation "measures [\<lambda>(q, qs, s, i, out). length s, \<lambda>(q, qs, s, i, out). length s + 1 - i]")
    (auto simp: std_substr_def split: if_splits)

declare explode_loop.simps [simp del]

definition explode :: "string \<Rightarrow> string \<Rightarrow> string list option res" where
  "explode quan subject =
     (case quan of
        [] \<Rightarrow> Inr None
      | q # qs \<Rightarrow> if length subject = 0 then Inr None
                 else rbind (explode_loop q qs subject 0 []) (\<lambda>ws. Inr (Some ws)))"

section \<open>\<^verbatim>\<open>str_replace\<close>\<close>

text \<open>
  The recursion restarts on the whole replaced string, so it need not end (for example when
  the replacement contains the search string): not returning is \<open>None\<close>.
\<close>

partial_function (option) str_replace :: "string \<Rightarrow> string \<Rightarrow> string \<Rightarrow> string option" where
  [code]: "str_replace search replacement subject =
     (case std_find search subject of
        None \<Rightarrow> Some subject
      | Some start \<Rightarrow>
          (let first_chunk = take start subject in
           if start + length search < length subject then
             str_replace search replacement
               (first_chunk @ replacement @ drop (start + length search) subject)
           else str_replace search replacement (first_chunk @ replacement)))"

section \<open>\<^verbatim>\<open>c_explode\<close>: totality, losslessness, round trip\<close>

lemma c_explode_scan:
  "i \<le> length f \<Longrightarrow> q \<notin> set (drop i f) \<Longrightarrow> rest \<noteq> [] \<Longrightarrow>
     c_explode_loop q (f @ q # rest) i out = c_explode_loop q rest 1 (out @ [f])"
proof (induction "length f - i" arbitrary: i)
  case 0
  then show ?case
    by (subst c_explode_loop.simps) (cases rest; auto simp: std_at_def nth_append)
next
  case (Suc n)
  then have lt: "i < length f" by simp
  then have "f ! i \<in> set (drop i f)" by (auto simp: Cons_nth_drop_Suc [symmetric])
  with Suc.prems have ne: "f ! i \<noteq> q" by auto
  have tl: "q \<notin> set (drop (Suc i) f)"
    using Suc.prems(2) lt by (auto simp: Cons_nth_drop_Suc [symmetric])
  have "c_explode_loop q (f @ q # rest) i out = c_explode_loop q (f @ q # rest) (Suc i) out"
    using lt ne by (subst c_explode_loop.simps) (auto simp: std_at_def nth_append)
  also have "\<dots> = c_explode_loop q rest 1 (out @ [f])"
    using Suc.hyps(1) [of "Suc i"] Suc.hyps(2) lt tl Suc.prems(3) by simp
  finally show ?case .
qed

lemma c_explode_stop:
  "s \<noteq> [] \<Longrightarrow> i \<le> length s \<Longrightarrow> q \<notin> set (drop i s) \<Longrightarrow> c_explode_loop q s i out = push_rest s out"
proof (induction "length s - i" arbitrary: i)
  case 0
  then show ?case
    by (subst c_explode_loop.simps) (cases s; simp)
next
  case (Suc n)
  then have lt: "i < length s" by simp
  then have "s ! i \<in> set (drop i s)" by (auto simp: Cons_nth_drop_Suc [symmetric])
  with Suc.prems have ne: "s ! i \<noteq> q" by auto
  have tl: "q \<notin> set (drop (Suc i) s)"
    using Suc.prems(3) lt by (auto simp: Cons_nth_drop_Suc [symmetric])
  show ?case
    using Suc.hyps(1) [of "Suc i"] Suc.hyps(2) lt tl Suc.prems(1) ne
    by (subst c_explode_loop.simps) (auto simp: std_at_def)
qed

definition all_blank :: "string \<Rightarrow> bool" where
  "all_blank s \<longleftrightarrow> list_all is_blank s"

lemma push_rest_eq [str_simps]:
  "push_rest subj out = Inr (if all_blank subj then out else out @ [subj])"
  by (auto simp: push_rest_def trim_eq all_blank_def list_all_iff)

lemma c_explode_loop_total:
  "s \<noteq> [] \<Longrightarrow> \<exists>ws r. c_explode_loop q s i out = push_rest r (out @ ws) \<and> r \<noteq> []
     \<and> s = concat (map (\<lambda>w. w @ [q]) ws) @ r"
proof (induction q s i out rule: c_explode_loop.induct)
  case (1 q s i out)
  show ?case
  proof (cases "i < length s - 1")
    case False
    with "1.prems" have "c_explode_loop q s i out = push_rest s (out @ [])"
      by (subst c_explode_loop.simps) (cases s; simp)
    with "1.prems" show ?thesis by (intro exI [of _ "[]"] exI [of _ s]) auto
  next
    case True
    then have g: "i < usub64 (length s) 1" "std_at s i = Inr (s ! i)"
      by (auto simp: std_at_def)
    show ?thesis
    proof (cases "q = s ! i")
      case eq: True
      let ?s = "drop (i + 1) s"
      have ne: "?s \<noteq> []" using True by simp
      from "1.IH"(1) [OF g(1,2) eq ne] obtain ws r where
        "c_explode_loop q ?s 1 (out @ [take i s]) = push_rest r ((out @ [take i s]) @ ws)"
        "r \<noteq> []" "?s = concat (map (\<lambda>w. w @ [q]) ws) @ r" by blast
      moreover have "s = take i s @ q # ?s"
        using True eq by (simp add: id_take_nth_drop [symmetric])
      moreover have "c_explode_loop q s i out = c_explode_loop q ?s 1 (out @ [take i s])"
        using g eq by (subst c_explode_loop.simps) simp
      ultimately show ?thesis
        by (intro exI [of _ "take i s # ws"] exI [of _ r]) simp
    next
      case neq: False
      from "1.IH"(2) [OF g(1,2) neq "1.prems"] show ?thesis
        using g neq by (simp add: c_explode_loop.simps [of q s i])
    qed
  qed
qed

lemma c_explode_ok: "s \<noteq> [] \<Longrightarrow> \<exists>ws. c_explode q s = Inr ws"
  using c_explode_loop_total [of s q 0 "[]"] by (auto simp: c_explode_def push_rest_eq)

lemma c_explode_empty: "c_explode q [] = Inl Out_of_range"
  by (simp add: c_explode_def c_explode_loop.simps [of q] usub64_def std_at_def)

lemma concat_snoc_join:
  "concat (map (\<lambda>w. w @ [q]) ws) @ r = join [q] (ws @ [r])"
  by (induction ws) (auto simp: join_Cons)

lemma c_explode_lossless:
  "c_explode q s = Inr ws \<Longrightarrow> \<exists>r. all_blank r \<and> s = concat (map (\<lambda>w. w @ [q]) ws) @ r
     \<or> ws \<noteq> [] \<and> s = join [q] ws"
proof (cases "s = []")
  case True
  assume "c_explode q s = Inr ws"
  with True show ?thesis by (simp add: c_explode_empty)
next
  case False
  assume a: "c_explode q s = Inr ws"
  from c_explode_loop_total [OF False, of q 0 "[]"] obtain vs r where
    "c_explode_loop q s 0 [] = push_rest r vs" "s = concat (map (\<lambda>w. w @ [q]) vs) @ r" by auto
  with a show ?thesis
    by (auto simp: c_explode_def push_rest_eq concat_snoc_join split: if_splits)
qed

definition field_ok :: "char \<Rightarrow> string \<Rightarrow> bool" where
  "field_ok q w \<longleftrightarrow> w \<noteq> [] \<and> q \<notin> set w"

lemma join_nonempty: "ws \<noteq> [] \<Longrightarrow> list_all (field_ok q) ws \<Longrightarrow> join sep ws \<noteq> []"
  by (cases ws; cases "tl ws") (auto simp: field_ok_def)

lemma c_explode_loop_join:
  "ws \<noteq> [] \<Longrightarrow> list_all (field_ok q) ws \<Longrightarrow> i \<le> 1 \<Longrightarrow>
     c_explode_loop q (join [q] ws) i out = push_rest (last ws) (out @ butlast ws)"
proof (induction ws arbitrary: i out)
  case Nil
  then show ?case by simp
next
  case (Cons w ws)
  have w: "w \<noteq> []" "q \<notin> set (drop i w)" "i \<le> length w"
    using Cons.prems by (auto simp: field_ok_def dest: in_set_dropD) (cases w; auto)+
  show ?case
  proof (cases "ws = []")
    case True
    with w show ?thesis by (simp add: c_explode_stop)
  next
    case False
    have "join [q] ws \<noteq> []" using False Cons.prems(2) join_nonempty [of ws q] by simp
    then show ?thesis
      using w False Cons.IH [of 1 "out @ [w]"] Cons.prems
      by (simp add: join_Cons c_explode_scan)
  qed
qed

lemma c_explode_join:
  assumes "ws \<noteq> []" "list_all (field_ok q) ws" "\<not> all_blank (last ws)"
  shows "c_explode q (join [q] ws) = Inr ws"
  using assms by (simp add: c_explode_def c_explode_loop_join push_rest_eq)

section \<open>\<^verbatim>\<open>explode\<close>\<close>

lemma explode_scan:
  "i \<le> length f \<Longrightarrow> q \<notin> set f \<Longrightarrow> rest \<noteq> [] \<Longrightarrow>
     explode_loop q qs (f @ (q # qs) @ rest) i out = explode_loop q qs rest 1 (out @ [f])"
proof (induction "length f - i" arbitrary: i)
  case 0
  then show ?case
    by (subst explode_loop.simps) (cases rest; simp add: std_substr_def)
next
  case (Suc n)
  then have lt: "i < length f" by simp
  then have ne: "f ! i \<noteq> q" using Suc.prems(2) by auto
  let ?s = "f @ (q # qs) @ rest"
  have h: "take (length (q # qs)) (drop i ?s) = f ! i # take (length qs) (drop (Suc i) ?s)"
    using lt by (simp add: Cons_nth_drop_Suc [symmetric])
  have "explode_loop q qs ?s i out = explode_loop q qs ?s (Suc i) out"
    using lt ne h by (subst explode_loop.simps) (simp add: std_substr_def)
  also have "\<dots> = explode_loop q qs rest 1 (out @ [f])"
    using Suc.hyps(1) [of "Suc i"] Suc.hyps(2) lt Suc.prems by simp
  finally show ?case .
qed

lemma explode_stop:
  "length (q # qs) \<le> length s \<Longrightarrow> i \<le> length s \<Longrightarrow> q \<notin> set s \<Longrightarrow>
     explode_loop q qs s i out = push_rest s out"
proof (induction "length s - i" arbitrary: i)
  case 0
  then show ?case by (subst explode_loop.simps) auto
next
  case (Suc n)
  then have lt: "i < length s" by simp
  then have ne: "s ! i \<noteq> q" using Suc.prems by auto
  have h: "take (length (q # qs)) (drop i s) = s ! i # take (length qs) (drop (Suc i) s)"
    using lt by (simp add: Cons_nth_drop_Suc [symmetric])
  show ?case
    using Suc.hyps(1) [of "Suc i"] Suc.hyps(2) lt ne h Suc.prems
    by (subst explode_loop.simps) (simp add: std_substr_def)
qed

text \<open>
  A subject shorter than the separator makes the loop bound wrap around: the scan runs off the
  end and throws.
\<close>

lemma explode_short:
  "length s < length (q # qs) \<Longrightarrow> length (q # qs) < 2 ^ 63 \<Longrightarrow> i \<le> length s + 1 \<Longrightarrow>
     explode_loop q qs s i out = Inl Out_of_range"
proof (induction "length s + 1 - i" arbitrary: i)
  case 0
  then show ?case by (subst explode_loop.simps) (auto simp: std_substr_def usub64_def)
next
  case (Suc n)
  have b: "i < usub64 (length s) (length (q # qs))"
    using Suc by (simp add: usub64_def)
  have ne: "take (length (q # qs)) (drop i s) \<noteq> q # qs"
  proof
    assume "take (length (q # qs)) (drop i s) = q # qs"
    then have "length (take (length (q # qs)) (drop i s)) = length (q # qs)" by simp
    with Suc.prems(1) show False by simp
  qed
  have le: "i \<le> length s" using Suc by simp
  show ?case
    using Suc.hyps(1) [of "Suc i"] Suc.hyps(2) b ne le Suc.prems
    by (subst explode_loop.simps) (auto simp: std_substr_def)
qed

lemma explode_loop_join:
  "ws \<noteq> [] \<Longrightarrow> list_all (field_ok q) ws \<Longrightarrow> i \<le> 1 \<Longrightarrow>
     explode_loop q qs (join (q # qs) ws) i out =
       explode_loop q qs (last ws) (if length ws = 1 then i else 1) (out @ butlast ws)"
proof (induction ws arbitrary: i out)
  case Nil
  then show ?case by simp
next
  case (Cons w ws)
  have w: "q \<notin> set w" "i \<le> length w"
    using Cons.prems by (auto simp: field_ok_def) (cases w; auto)
  show ?case
  proof (cases "ws = []")
    case True
    then show ?thesis by simp
  next
    case False
    have "join (q # qs) ws \<noteq> []" using False Cons.prems(2) join_nonempty [of ws q] by simp
    then show ?thesis
      using w False Cons.IH [of 1 "out @ [w]"] Cons.prems
      by (simp add: join_Cons explode_scan [simplified])
  qed
qed

lemma explode_join:
  assumes "ws \<noteq> []" "list_all (field_ok q) ws" "\<not> all_blank (last ws)"
    and "length (q # qs) \<le> length (last ws)"
  shows "explode (q # qs) (join (q # qs) ws) = Inr (Some ws)"
proof -
  have "field_ok q (last ws)" using assms(1,2) by (simp add: list_all_iff)
  then have "q \<notin> set (last ws)" "1 \<le> length (last ws)"
    by (auto simp: field_ok_def Suc_le_eq)
  with assms join_nonempty [of ws q "q # qs"] show ?thesis
    by (simp add: explode_def explode_loop_join explode_stop push_rest_eq)
qed

lemma explode_short_last:
  assumes "ws \<noteq> []" "list_all (field_ok q) ws"
    and "length (last ws) < length (q # qs)" "length (q # qs) < 2 ^ 63"
  shows "explode (q # qs) (join (q # qs) ws) = Inl Out_of_range"
  using assms join_nonempty [of ws q "q # qs"]
  by (simp add: explode_def explode_loop_join explode_short)

section \<open>Replacing, searching, printing\<close>

lemma str_replace_unfold:
  "std_find search subject = None \<Longrightarrow> str_replace search rep subject = Some subject"
  "std_find search subject = Some start \<Longrightarrow>
     str_replace search rep subject =
       str_replace search rep (take start subject @ rep @ drop (start + length search) subject)"
  by (simp_all add: str_replace.simps [of search rep subject] Let_def)

lemma str_replace_char_aux:
  assumes "c \<notin> set rep" "c \<notin> set u"
  shows "str_replace [c] rep (u @ s) = Some (u @ concat (map (\<lambda>x. if x = c then rep else [x]) s))"
  using assms(2)
proof (induction s arbitrary: u rule: length_induct)
  case (1 s)
  show ?case
  proof (cases "c \<in> set s")
    case False
    then have "map (\<lambda>x. if x = c then rep else [x]) s = map (\<lambda>x. [x]) s" by auto
    with False "1.prems" show ?thesis
      by (simp add: str_replace_unfold(1) std_find_char del: map_eq_conv)
  next
    case True
    then obtain v w where s: "s = v @ c # w" "c \<notin> set v" by (meson split_list_first)
    have f: "std_find [c] (u @ s) = Some (length (u @ v))"
      using std_find_char_split [of c "u @ v" w] s "1.prems" by simp
    have v: "concat (map (\<lambda>x. if x = c then rep else [x]) v) = v"
      using s(2) by (induction v) auto
    have "str_replace [c] rep (u @ s) = str_replace [c] rep ((u @ v @ rep) @ w)"
      using str_replace_unfold(2) [OF f, of rep] by (simp add: s)
    also have "\<dots> = Some ((u @ v @ rep) @ concat (map (\<lambda>x. if x = c then rep else [x]) w))"
      using "1.IH" [rule_format, of w "u @ v @ rep"] s "1.prems" assms(1) by simp
    finally show ?thesis by (simp add: s v)
  qed
qed

lemma str_replace_char:
  "c \<notin> set rep \<Longrightarrow>
     str_replace [c] rep s = Some (concat (map (\<lambda>x. if x = c then rep else [x]) s))"
  using str_replace_char_aux [of c rep "[]" s] by simp

lemma strcompsub_single: "i < length h \<Longrightarrow> strcompsub [c] h i (Suc 0) = Inr (h ! i = c)"
  by (auto simp: strcompsub_def std_index_def)

lemma count_loop_char:
  "i + k \<le> length h \<Longrightarrow>
     count_loop h [c] i k a = Inr (a + int (count_list (take k (drop i h)) c))"
proof (induction k arbitrary: i a)
  case 0
  then show ?case by simp
next
  case (Suc k)
  then have "drop i h = h ! i # drop (Suc i) h" by (simp add: Cons_nth_drop_Suc)
  with Suc show ?case by (simp add: std_index_def strcompsub_single)
qed

lemma count_char [str_simps]:
  "count h [c] = Inr (if h = [] then - 1 else int (count_list h c))"
  by (cases h) (simp_all add: count_def count_loop_char del: count_loop.simps)

lemma strpos_m_loop_spec:
  "i \<le> length h \<Longrightarrow>
     (strpos_m_loop h ws i = - 1 \<and> (\<forall>j. i \<le> j \<and> j < length h \<longrightarrow> \<not> list_ex (match_at h j) ws))
   \<or> (\<exists>k. strpos_m_loop h ws i = int k \<and> i \<le> k \<and> k < length h \<and> list_ex (match_at h k) ws
        \<and> (\<forall>j. i \<le> j \<and> j < k \<longrightarrow> \<not> list_ex (match_at h j) ws))"
proof (induction h ws i rule: strpos_m_loop.induct)
  case (1 h ws i)
  show ?case
  proof (cases "i < length h \<and> \<not> list_ex (match_at h i) ws")
    case True
    with "1.IH" show ?thesis
      by (subst (1 2) strpos_m_loop.simps) (auto, (metis Suc_leI le_neq_implies_less)+)
  next
    case False
    with "1.prems" show ?thesis by (subst (1 2) strpos_m_loop.simps) auto
  qed
qed

lemma indexOfChar_loop_eq:
  "indexOfChar_loop s c i = (case std_find [c] s of None \<Rightarrow> - 1 | Some k \<Rightarrow> i + int k)"
  by (induction s arbitrary: i) (auto split: option.splits)

lemma indexOfChar_find: "indexOfChar s c = (case std_find [c] s of None \<Rightarrow> - 1 | Some k \<Rightarrow> int k)"
  by (simp add: indexOfChar_def indexOfChar_loop_eq split: option.splits)

lemma split_first: "c \<notin> set u \<Longrightarrow> split c (u @ c # v) = [u, v]"
  by (simp add: split_def std_find_char_split)

section \<open>\<^verbatim>\<open>itoa\<close> and \<^verbatim>\<open>stoi\<close>\<close>

lemma digits_val_append: "digits_val a (u @ v) = digits_val (digits_val a u) v"
  by (induction u arbitrary: a) auto

lemma of_char_dec_digit: "0 \<le> d \<Longrightarrow> d < 10 \<Longrightarrow> of_char (char_of (nat (48 + d))) = nat (48 + d)"
  by simp

lemma dec_digit_is_digit: "0 \<le> d \<Longrightarrow> d < 10 \<Longrightarrow> list_all is_digit (dec_digit d)"
  by (auto simp: dec_digit_def is_digit_def)

lemma dec_digit_val: "0 \<le> d \<Longrightarrow> d < 10 \<Longrightarrow> digits_val a (dec_digit d) = a * 10 + d"
  by (simp add: dec_digit_def digit_val_def)

lemma itoa_nonneg:
  "0 \<le> i \<Longrightarrow> \<exists>s. itoa i = Inr s \<and> s \<noteq> [] \<and> list_all is_digit s \<and> digits_val 0 s = i"
proof (induction i rule: itoa.induct)
  case (1 i)
  show ?case
  proof (cases "i \<ge> 10")
    case True
    then obtain s where s: "itoa (i div 10) = Inr s" "list_all is_digit s" "digits_val 0 s = i div 10"
      using "1.IH"(2) [OF _ True] by (auto simp: pos_imp_zdiv_nonneg_iff)
    have "itoa i = Inr (s @ dec_digit (i mod 10))"
      using True s(1) by (subst itoa.simps) simp
    with True s show ?thesis
      by (auto simp: digits_val_append dec_digit_val dec_digit_is_digit)
  next
    case False
    with "1.prems" have "itoa i = Inr (dec_digit i)" by (subst itoa.simps) simp
    with False "1.prems" show ?thesis
      by (auto simp: dec_digit_val dec_digit_is_digit) (simp add: dec_digit_def)
  qed
qed

lemma itoa_neg:
  "i < 0 \<Longrightarrow> itoa i = (if - i > INT_MAX then Inl Undefined_behaviour
     else rbind (itoa (- i)) (\<lambda>s. Inr (''-'' @ s)))"
  by (subst itoa.simps) simp

lemma digit_not_special:
  "is_digit c \<Longrightarrow> \<not> is_cspace c \<and> c \<noteq> CHR ''-'' \<and> c \<noteq> CHR ''+'' \<and> c \<noteq> CHR ''_'' \<and> c \<noteq> CHR ''.''"
  by (auto simp: is_digit_def is_cspace_def)

lemma takeWhile_all: "list_all P s \<Longrightarrow> takeWhile P s = s"
  by (induction s) auto

lemma strtol10_digits:
  assumes "s \<noteq> []" "list_all is_digit s"
  shows "strtol10 s = Some (digits_val 0 s)" "strtol10 (CHR ''-'' # s) = Some (- digits_val 0 s)"
proof -
  obtain c cs where s: "s = c # cs" using assms(1) by (cases s) auto
  with assms(2) have c: "\<not> is_cspace c" "c \<noteq> CHR ''-''" "c \<noteq> CHR ''+''"
    using digit_not_special [of c] by auto
  have t: "takeWhile is_digit s = s" by (rule takeWhile_all [OF assms(2)])
  have "dropWhile is_cspace s = s" using c(1) s by simp
  then show "strtol10 s = Some (digits_val 0 s)"
    using t c(2,3) assms(1) by (simp add: strtol10_def Let_def s)
  have "dropWhile is_cspace (CHR ''-'' # s) = CHR ''-'' # s" by (simp add: is_cspace_def)
  then show "strtol10 (CHR ''-'' # s) = Some (- digits_val 0 s)"
    using assms(1) by (simp add: strtol10_def Let_def t)
qed

lemma itoa_strtol10:
  assumes "INT_MIN < i"
  shows "\<exists>s. itoa i = Inr s \<and> strtol10 s = Some i"
proof (cases "i < 0")
  case True
  with itoa_nonneg [of "- i"] assms show ?thesis
    by (auto simp: itoa_neg strtol10_digits)
next
  case False
  with itoa_nonneg [of i] show ?thesis by (auto simp: strtol10_digits)
qed

lemma itoa_shape:
  assumes "INT_MIN < i" "itoa i = Inr s"
  shows "\<exists>d. d \<noteq> [] \<and> list_all is_digit d \<and> (s = d \<or> s = CHR ''-'' # d)"
proof (cases "i < 0")
  case True
  with itoa_nonneg [of "- i"] assms show ?thesis by (auto simp: itoa_neg)
next
  case False
  with itoa_nonneg [of i] assms(2) show ?thesis by auto
qed

lemma itoa_stoi:
  "INT_MIN < i \<Longrightarrow> i \<le> INT_MAX \<Longrightarrow> rbind (itoa i) stoi = Inr i"
  using itoa_strtol10 [of i] by (auto simp: stoi_def in_int32_def)

lemma itoa_atoi:
  "INT_MIN < i \<Longrightarrow> i \<le> INT_MAX \<Longrightarrow> itoa i = Inr s \<Longrightarrow> atoi s = Inr i"
  using itoa_strtol10 [of i] by (auto simp: atoi_def in_int32_def)

end
