(* ===== verification/Column.thy ===== *)
theory Column
  imports Str
begin

text \<open>
  \<^verbatim>\<open>lib/objects/column.h\<close>, \<^verbatim>\<open>column.cpp\<close>: the type codes of table columns, their C++ types, and the
  lookup of column names. The two enumerations share one \<^verbatim>\<open>int\<close> in the source, so they are one
  datatype here; \<open>CPP_INT\<close> has the value of \<open>CPP_INT64\<close>.
\<close>

datatype column_type =
    SQL_CHAR | SQL_VARCHAR | SQL_TEXT | SQL_BLOB | SQL_ENUM | SQL_SET | SQL_INT | SQL_UINT
  | SQL_FLOAT | SQL_DOUBLE | SQL_DECIMAL | SQL_DATE | SQL_DATETIME | SQL_TIMESTAMP | SQL_TIME
  | SQL_YEAR | SQL_NUMERIC | SQL_MONEY | SQL_REAL | SQL_BOOL
  | CPP_STRING | CPP_INT64 | CPP_FLOAT | CPP_DOUBLE | CPP_DATE | CPP_RAW | CPP_VECTOR

abbreviation CPP_INT :: column_type where "CPP_INT \<equiv> CPP_INT64"

fun type_code :: "column_type \<Rightarrow> int" where
  "type_code SQL_CHAR = 1" | "type_code SQL_VARCHAR = 2" | "type_code SQL_TEXT = 3"
| "type_code SQL_BLOB = 4" | "type_code SQL_ENUM = 5" | "type_code SQL_SET = 6"
| "type_code SQL_INT = 7" | "type_code SQL_UINT = 8" | "type_code SQL_FLOAT = 9"
| "type_code SQL_DOUBLE = 10" | "type_code SQL_DECIMAL = 11" | "type_code SQL_DATE = 12"
| "type_code SQL_DATETIME = 13" | "type_code SQL_TIMESTAMP = 14" | "type_code SQL_TIME = 15"
| "type_code SQL_YEAR = 16" | "type_code SQL_NUMERIC = 17" | "type_code SQL_MONEY = 18"
| "type_code SQL_REAL = 19" | "type_code SQL_BOOL = 20" | "type_code CPP_STRING = 21"
| "type_code CPP_INT64 = 22" | "type_code CPP_FLOAT = 23" | "type_code CPP_DOUBLE = 24"
| "type_code CPP_DATE = 25" | "type_code CPP_RAW = 26" | "type_code CPP_VECTOR = 27"

record column =
  col_type :: column_type
  col_ctype :: column_type
  col_name :: string

section \<open>Type tables\<close>

definition getOutCppType :: "column_type \<Rightarrow> string" where
  "getOutCppType t =
     (case t of
        SQL_CHAR \<Rightarrow> ''string'' | SQL_VARCHAR \<Rightarrow> ''string'' | SQL_TEXT \<Rightarrow> ''string''
      | SQL_DECIMAL \<Rightarrow> ''string'' | SQL_NUMERIC \<Rightarrow> ''string'' | SQL_MONEY \<Rightarrow> ''string''
      | SQL_REAL \<Rightarrow> ''string'' | CPP_STRING \<Rightarrow> ''string''
      | SQL_BLOB \<Rightarrow> ''uint8_t[10000]''
      | SQL_ENUM \<Rightarrow> ''vector<string>'' | SQL_SET \<Rightarrow> ''vector<string>''
      | CPP_INT64 \<Rightarrow> ''int64_t'' | SQL_YEAR \<Rightarrow> ''int64_t'' | SQL_INT \<Rightarrow> ''int64_t''
      | SQL_TIMESTAMP \<Rightarrow> ''int64_t'' | SQL_UINT \<Rightarrow> ''int64_t''
      | CPP_FLOAT \<Rightarrow> ''float'' | SQL_FLOAT \<Rightarrow> ''float''
      | CPP_DOUBLE \<Rightarrow> ''double'' | SQL_DOUBLE \<Rightarrow> ''double''
      | SQL_DATE \<Rightarrow> ''Date'' | SQL_DATETIME \<Rightarrow> ''Date'' | SQL_TIME \<Rightarrow> ''Date''
      | _ \<Rightarrow> '''')"

definition getCppType :: "column_type \<Rightarrow> column_type" where
  "getCppType t =
     (case t of
        SQL_CHAR \<Rightarrow> CPP_STRING | SQL_VARCHAR \<Rightarrow> CPP_STRING | SQL_TEXT \<Rightarrow> CPP_STRING
      | SQL_DECIMAL \<Rightarrow> CPP_STRING | SQL_NUMERIC \<Rightarrow> CPP_STRING | SQL_MONEY \<Rightarrow> CPP_STRING
      | SQL_REAL \<Rightarrow> CPP_STRING
      | SQL_BLOB \<Rightarrow> CPP_RAW
      | SQL_ENUM \<Rightarrow> CPP_VECTOR | SQL_SET \<Rightarrow> CPP_VECTOR
      | SQL_YEAR \<Rightarrow> CPP_INT64 | SQL_INT \<Rightarrow> CPP_INT64 | SQL_TIMESTAMP \<Rightarrow> CPP_INT64
      | SQL_UINT \<Rightarrow> CPP_INT64
      | SQL_FLOAT \<Rightarrow> CPP_FLOAT
      | SQL_DOUBLE \<Rightarrow> CPP_DOUBLE
      | SQL_DATE \<Rightarrow> CPP_DATE | SQL_DATETIME \<Rightarrow> CPP_DATE | SQL_TIME \<Rightarrow> CPP_DATE
      | _ \<Rightarrow> CPP_INT64)"

definition getType :: "string \<Rightarrow> column_type" where
  "getType s =
     (if contains s ''varchar'' then SQL_VARCHAR
      else if contains s ''char'' then SQL_CHAR
      else if contains s ''text'' then SQL_TEXT
      else if contains s ''enum'' then SQL_ENUM
      else if contains s ''set'' then SQL_SET
      else if contains s ''unsigned'' then SQL_UINT
      else if contains s ''int'' then SQL_INT
      else if contains s ''float'' then SQL_FLOAT
      else if contains s ''double'' then SQL_DOUBLE
      else if contains s ''decimal'' then SQL_DECIMAL
      else if contains s ''datetime'' then SQL_DATETIME
      else if contains s ''timestamp'' then SQL_TIMESTAMP
      else if contains s ''time'' then SQL_TIME
      else if contains s ''date'' then SQL_DATE
      else if contains s ''year'' then SQL_YEAR
      else if contains s ''blob'' then SQL_BLOB
      else if contains s ''numeric'' then SQL_NUMERIC
      else if contains s ''money'' then SQL_MONEY
      else if contains s ''real'' then SQL_REAL
      else SQL_BOOL)"

section \<open>Columns\<close>

definition Column_of_type :: "string \<Rightarrow> column_type \<Rightarrow> column" where
  "Column_of_type name t = \<lparr>col_type = t, col_ctype = getCppType t, col_name = name\<rparr>"

definition Column_of_string :: "string \<Rightarrow> string \<Rightarrow> column" where
  "Column_of_string name s =
     \<lparr>col_type = getType s, col_ctype = getCppType (getType s), col_name = name\<rparr>"

fun isColumn :: "string \<Rightarrow> column list \<Rightarrow> bool" where
  "isColumn col [] = False"
| "isColumn col (c # cs) = (if col = col_name c then True else isColumn col cs)"

fun hasColumn :: "string \<Rightarrow> column list \<Rightarrow> bool" where
  "hasColumn col [] = False"
| "hasColumn col (c # cs) = (if contains col (col_name c) then True else hasColumn col cs)"

lemma isColumn_iff: "isColumn col cs \<longleftrightarrow> col \<in> col_name ` set cs"
  by (induction cs) auto

lemma hasColumn_iff: "hasColumn col cs \<longleftrightarrow> (\<exists>c \<in> set cs. sublist (col_name c) col)"
  by (induction cs) (auto simp: contains_iff_sublist)

lemma isColumn_hasColumn: "isColumn col cs \<Longrightarrow> hasColumn col cs"
  by (auto simp: isColumn_iff hasColumn_iff)

text \<open>The type stored for a column by either constructor is the one its SQL type maps to.\<close>

definition column_wf :: "column \<Rightarrow> bool" where
  "column_wf c \<longleftrightarrow> col_ctype c = getCppType (col_type c)"

lemma Column_of_type_wf [simp]: "column_wf (Column_of_type n t)"
  by (simp add: column_wf_def Column_of_type_def)

lemma Column_of_string_wf [simp]: "column_wf (Column_of_string n s)"
  by (simp add: column_wf_def Column_of_string_def)

text \<open>
  The member type of a table column (from its SQL type) and the parameter type of the lookup
  helpers (from its C++ type) agree except for the seven SQL types listed.
\<close>

definition cpp_consistent :: "column_type \<Rightarrow> bool" where
  "cpp_consistent t \<longleftrightarrow> getOutCppType (getCppType t) = getOutCppType t"

lemma cpp_consistent_sql:
  "type_code t \<le> 20 \<Longrightarrow>
     cpp_consistent t \<longleftrightarrow>
       t \<notin> {SQL_BLOB, SQL_ENUM, SQL_SET, SQL_DATE, SQL_DATETIME, SQL_TIME, SQL_BOOL}"
  by (cases t) (simp_all add: cpp_consistent_def getOutCppType_def getCppType_def)

text \<open>\<^verbatim>\<open>information_schema\<close>'s \<^verbatim>\<open>DATA_TYPE\<close> names and how they are classified.\<close>

definition data_type_table :: "(string \<times> column_type) list" where
  "data_type_table =
     [(''char'', SQL_CHAR), (''varchar'', SQL_VARCHAR), (''text'', SQL_TEXT),
      (''tinytext'', SQL_TEXT), (''mediumtext'', SQL_TEXT), (''longtext'', SQL_TEXT),
      (''blob'', SQL_BLOB), (''longblob'', SQL_BLOB), (''enum'', SQL_ENUM), (''set'', SQL_SET),
      (''int'', SQL_INT), (''tinyint'', SQL_INT), (''bigint'', SQL_INT), (''float'', SQL_FLOAT),
      (''double'', SQL_DOUBLE), (''decimal'', SQL_DECIMAL), (''date'', SQL_DATE),
      (''datetime'', SQL_DATETIME), (''timestamp'', SQL_TIMESTAMP), (''time'', SQL_TIME),
      (''year'', SQL_YEAR), (''bit'', SQL_BOOL)]"

end
