(* ===== verification/Aggregate.thy ===== *)
theory Aggregate
  imports Str
begin

text \<open>
  \<^verbatim>\<open>lib/objects/aggregate.h\<close>, \<^verbatim>\<open>aggregate.cpp\<close>: an aggregate such as \<^verbatim>\<open>1_sum_quant\<close> (grouping variable,
  function, column), its parser and its printers. The C string handed to \<^verbatim>\<open>count\<close> by
  \<open>isAggregate\<close> ends at the first null character.
\<close>

record aggregate =
  group :: int
  func :: string
  acol :: string

definition new_Aggregate :: "string \<Rightarrow> aggregate res" where
  "new_Aggregate aggr =
     rbind (c_explode (CHR ''_'') aggr) (\<lambda>data.
       if length data = 3 then
         rbind (std_at data 0) (\<lambda>d0. rbind (atoi d0) (\<lambda>g.
         rbind (std_at data 1) (\<lambda>f. rbind (std_at data 2) (\<lambda>c.
           Inr \<lparr>group = g, func = f, acol = c\<rparr>))))
       else
         rbind (std_at data 0) (\<lambda>f. rbind (std_at data 1) (\<lambda>c.
           Inr \<lparr>group = 0, func = f, acol = c\<rparr>)))"

definition toESQL :: "aggregate \<Rightarrow> string res" where
  "toESQL a = rconcat [Inr (func a @ ''(''), itoa (group a), Inr (''.'' @ acol a @ '')'')]"

definition toSQL :: "aggregate \<Rightarrow> string" where
  "toSQL a = func a @ ''('' @ acol a @ '')''"

definition toString :: "aggregate \<Rightarrow> string res" where
  "toString a =
     rconcat [if group a \<noteq> 0 then rconcat [itoa (group a), Inr ''_''] else Inr [],
              Inr (func a @ ''_'' @ acol a)]"

definition toABSVar :: "aggregate \<Rightarrow> string res" where
  "toABSVar a =
     rconcat [Inr (func a @ ''_'' @ acol a),
              if group a \<noteq> 0 then rconcat [Inr ''_'', itoa (group a)] else Inr []]"

definition toVar :: "aggregate \<Rightarrow> string" where
  "toVar a = func a @ ''_'' @ acol a"

definition aggr_equals :: "aggregate \<Rightarrow> string \<Rightarrow> bool res" where
  "aggr_equals a aggr = rbind (toString a) (\<lambda>s. Inr (s = aggr))"

definition isAggregate :: "string \<Rightarrow> bool res" where
  "isAggregate aggr =
     rbind (count (takeWhile (\<lambda>c. c \<noteq> CHR 0x00) aggr) ''_'') (\<lambda>n. Inr (n > 0))"

lemma isAggregate_eq [str_simps]:
  "isAggregate s = Inr (CHR ''_'' \<in> set (takeWhile (\<lambda>c. c \<noteq> CHR 0x00) s))"
  by (auto simp: isAggregate_def count_char count_list_pos_iff)

section \<open>Well-formed aggregates\<close>

text \<open>
  What the input format gives: a function and a column name without underscores, and a group
  number that \<^verbatim>\<open>int\<close> can negate.
\<close>

definition aggr_wf :: "aggregate \<Rightarrow> bool" where
  "aggr_wf a \<longleftrightarrow> field_ok (CHR ''_'') (func a) \<and> field_ok (CHR ''_'') (acol a)
     \<and> \<not> all_blank (acol a) \<and> INT_MIN < group a \<and> group a \<le> INT_MAX"

lemma itoa_field:
  assumes "INT_MIN < i" "itoa i = Inr s"
  shows "field_ok (CHR ''_'') s" "\<not> all_blank s"
proof -
  obtain d where d: "d \<noteq> []" "list_all is_digit d" "s = d \<or> s = CHR ''-'' # d"
    using itoa_shape [OF assms] by blast
  have "CHR ''_'' \<notin> set d" using d(2) digit_not_special by (auto simp: list_all_iff)
  with d(1,3) show "field_ok (CHR ''_'') s" by (auto simp: field_ok_def)
  have "\<not> is_blank (hd d)" using d(1,2)
    by (cases d) (auto simp: is_blank_def is_digit_def)
  with d(1,3) show "\<not> all_blank s"
    by (cases d) (auto simp: all_blank_def is_blank_def)
qed

lemma toString_join:
  assumes "aggr_wf a"
  obtains g where "itoa (group a) = Inr g"
    and "toString a = Inr (join ''_'' (if group a = 0 then [func a, acol a] else [g, func a, acol a]))"
    and "toABSVar a = Inr (join ''_'' (if group a = 0 then [func a, acol a] else [func a, acol a, g]))"
proof -
  from itoa_strtol10 [of "group a"] assms obtain g where "itoa (group a) = Inr g"
    by (auto simp: aggr_wf_def)
  then show thesis by (intro that) (auto simp: toString_def toABSVar_def)
qed

lemma new_Aggregate_toString:
  assumes "aggr_wf a"
  shows "rbind (toString a) new_Aggregate = Inr a"
proof -
  obtain g where g: "itoa (group a) = Inr g"
    "toString a = Inr (join ''_'' (if group a = 0 then [func a, acol a] else [g, func a, acol a]))"
    using assms by (rule toString_join)
  have "field_ok (CHR ''_'') g" "atoi g = Inr (group a)"
    using g(1) assms itoa_field(1) itoa_atoi by (auto simp: aggr_wf_def)
  then have "c_explode (CHR ''_'') (join ''_'' (if group a = 0 then [func a, acol a] else [g, func a, acol a]))
      = Inr (if group a = 0 then [func a, acol a] else [g, func a, acol a])"
    using assms by (intro c_explode_join) (auto simp: aggr_wf_def)
  then show ?thesis
    using g(2) \<open>atoi g = Inr (group a)\<close>
    by (auto simp: new_Aggregate_def std_at_def)
qed

lemma toABSVar_fields:
  assumes "aggr_wf a" "toABSVar a = Inr v"
  obtains g where "itoa (group a) = Inr g"
    and "c_explode (CHR ''_'') v = Inr (if group a = 0 then [func a, acol a] else [func a, acol a, g])"
proof -
  obtain g where g: "itoa (group a) = Inr g"
    "toABSVar a = Inr (join ''_'' (if group a = 0 then [func a, acol a] else [func a, acol a, g]))"
    using assms(1) by (rule toString_join)
  have "field_ok (CHR ''_'') g" "\<not> all_blank g"
    using g(1) assms(1) itoa_field by (auto simp: aggr_wf_def)
  then have "c_explode (CHR ''_'') v = Inr (if group a = 0 then [func a, acol a] else [func a, acol a, g])"
    using assms g(2) by (auto intro!: c_explode_join simp: aggr_wf_def simp del: join.simps)
  with g(1) show thesis by (rule that)
qed

lemma itoa_inj: "INT_MIN < i \<Longrightarrow> INT_MIN < j \<Longrightarrow> itoa i = itoa j \<Longrightarrow> i = j"
  using itoa_strtol10 [of i] itoa_strtol10 [of j] by auto

lemma toABSVar_inj:
  assumes "aggr_wf a" "aggr_wf b" "toABSVar a = toABSVar b"
  shows "a = b"
proof -
  obtain v where v: "toABSVar a = Inr v" using assms(1) by (rule toString_join)
  obtain g where g: "itoa (group a) = Inr g"
    "c_explode (CHR ''_'') v = Inr (if group a = 0 then [func a, acol a] else [func a, acol a, g])"
    using assms(1) v by (rule toABSVar_fields)
  obtain h where h: "itoa (group b) = Inr h"
    "c_explode (CHR ''_'') v = Inr (if group b = 0 then [func b, acol b] else [func b, acol b, h])"
    using assms(2) v [unfolded assms(3)] by (rule toABSVar_fields)
  have "group a = group b" "func a = func b" "acol a = acol b"
    using g h assms(1,2) itoa_inj [of "group a" "group b"] by (auto simp: aggr_wf_def split: if_splits)
  then show ?thesis by simp
qed

end
