(* ===== verification/Condition.thy ===== *)
theory Condition
  imports Column Aggregate
begin

text \<open>
  \<^verbatim>\<open>lib/objects/condition.cpp\<close> and \<^verbatim>\<open>conditions.cpp\<close>: a single such-that condition
  (\<^verbatim>\<open>1.state='NY'\<close>), a chain of them joined by operators, their parsers and the C++ expressions
  they are translated to. \<^verbatim>\<open>config.h\<close> defines \<^verbatim>\<open>NULL_EXPR_FALSE\<close>, so the first branch of the
  conditional compilation in \<^verbatim>\<open>Condition::toCpp\<close> is the one translated.
\<close>

record condition =
  cgroup :: int
  ccolumn :: string
  cexp :: string
  cvalue :: string

section \<open>Parsing\<close>

definition replace_quotes :: "string \<Rightarrow> string res" where
  "replace_quotes tmp =
     (case str_replace [squote] [dquote] tmp of None \<Rightarrow> Inl Diverges | Some v \<Rightarrow> Inr v)"

definition cond_group :: "string \<Rightarrow> (int \<times> string) res" where
  "cond_group cond =
     (if std_find ''.'' cond \<noteq> None then
        (let s = split (CHR ''.'') cond in
         rbind (std_at s 0) (\<lambda>s0. rbind (stoi s0) (\<lambda>g. rbind (std_at s 1) (\<lambda>s1. Inr (g, s1)))))
      else Inr (0, cond))"

definition parse_comparison :: "int \<Rightarrow> string \<Rightarrow> condition res" where
  "parse_comparison g tmp =
     (let index = strpos_m tmp [''='', ''<'', ''>'', ''!''] in
      if index = - 1 then Inl (Thrown ''Error, invalid Condition'')
      else
        let i = nat index; column = take i tmp in
        if index = strpos_m tmp [''<='', ''>='', ''!='', ''<>''] then
          rbind (std_substr tmp i 2) (\<lambda>e.
          rbind (std_substr_from tmp (i + 2)) (\<lambda>rest.
          rbind (replace_quotes rest) (\<lambda>v.
            Inr \<lparr>cgroup = g, ccolumn = column,
                 cexp = (if e = ''<>'' then ''!='' else e), cvalue = v\<rparr>)))
        else
          rbind (std_substr tmp i 1) (\<lambda>e.
          rbind (std_substr_from tmp (i + 1)) (\<lambda>rest.
          rbind (replace_quotes rest) (\<lambda>v.
            Inr \<lparr>cgroup = g, ccolumn = column, cexp = e, cvalue = v\<rparr>))))"

definition new_Condition :: "string \<Rightarrow> condition res" where
  "new_Condition cond = rbind (cond_group cond) (\<lambda>(g, tmp). parse_comparison g tmp)"

section \<open>Translation to C++\<close>

text \<open>
  The end of every branch of \<^verbatim>\<open>Condition::toCpp\<close>: an \<^verbatim>\<open>avg\<close> in the column name adds
  \<^verbatim>\<open>.value()\<close>, a quote in the value turns the comparison into \<^verbatim>\<open>.compare(...) == 0\<close>, otherwise
  the operator is printed, \<^verbatim>\<open>=\<close> as \<^verbatim>\<open>==\<close>.
\<close>

definition value_call :: "string \<Rightarrow> string" where
  "value_call name = (if contains name ''avg'' then ''.value()'' else [])"

definition compare_with :: "condition \<Rightarrow> string \<Rightarrow> string" where
  "compare_with c rhs =
     (if contains (cvalue c) [dquote] then ''.compare('' @ rhs @ '') == 0''
      else if cexp c \<noteq> ''='' then '' '' @ cexp c @ '' '' @ rhs
      else '' == '' @ rhs)"

definition vfind_args :: "string \<Rightarrow> string list \<Rightarrow> string" where
  "vfind_args var select_columns = concat (map (\<lambda>jt. '','' @ var @ ''->'' @ jt) select_columns)"

definition Condition_toCpp :: "condition \<Rightarrow> string \<Rightarrow> string \<Rightarrow> string list \<Rightarrow> column list \<Rightarrow> string res" where
  "Condition_toCpp c var var2 select_columns columns =
     (let lhs = var @ ''->'' @ ccolumn c @ value_call (ccolumn c) in
      if isColumn (cvalue c) columns then
        Inr (lhs @ compare_with c (var2 @ ''->'' @ cvalue c))
      else
        rbind (isAggregate (cvalue c)) (\<lambda>is_aggr.
          if is_aggr then
            rbind (new_Aggregate (cvalue c)) (\<lambda>tmp.
            rbind (itoa (group tmp)) (\<lambda>g.
              let pos = ''vfind'' @ g @ ''(data'' @ g @ vfind_args var select_columns @ '')'';
                  val = ''data'' @ g @ ''->at('' @ pos @ '')->'' @ toVar tmp @ value_call (cvalue c)
              in Inr (''('' @ pos @ '' > 0 && '' @ lhs @ compare_with c val @ '')'')))
          else if hasColumn (cvalue c) columns then
            Inr (lhs @ compare_with c (var2 @ ''->'' @ cvalue c))
          else
            Inr (lhs @ compare_with c (cvalue c))))"

section \<open>Chains of conditions\<close>

record conditions =
  conds :: "condition list"
  ops :: "string list"

text \<open>Elements at even positions are conditions, those at odd positions operators.\<close>

fun conds_loop :: "nat \<Rightarrow> string list \<Rightarrow> condition list \<Rightarrow> string list \<Rightarrow> conditions res" where
  "conds_loop i [] cs os = Inr \<lparr>conds = cs, ops = os\<rparr>"
| "conds_loop i (a # args) cs os =
     (if i mod 2 = 0 then rbind (new_Condition a) (\<lambda>c. conds_loop (i + 1) args (cs @ [c]) os)
      else conds_loop (i + 1) args cs (os @ [a]))"

definition new_Conditions :: "string \<Rightarrow> conditions res" where
  "new_Conditions s =
     (if std_find '' '' s = None then
        rbind (new_Condition s) (\<lambda>c. Inr \<lparr>conds = [c], ops = []\<rparr>)
      else rbind (c_explode (CHR '' '') s) (\<lambda>args. conds_loop 0 args [] []))"

fun conds_print :: "string list \<Rightarrow> nat \<Rightarrow> string list \<Rightarrow> string res" where
  "conds_print os i [] = Inr []"
| "conds_print os i (e # es) =
     rbind (std_at os (i - 1)) (\<lambda>op. rbind (conds_print os (i + 1) es) (\<lambda>r.
       Inr ('' '' @ op @ '' '' @ e @ r)))"

definition Conditions_toCpp :: "conditions \<Rightarrow> string \<Rightarrow> string \<Rightarrow> string list \<Rightarrow> column list \<Rightarrow> string res" where
  "Conditions_toCpp c var var2 select_columns columns =
     (if conds c = [] then Inl Out_of_range
      else rbind (rmap (\<lambda>x. Condition_toCpp x var var2 select_columns columns) (conds c)) (\<lambda>es.
           rbind (conds_print (ops c) 1 (tl es)) (\<lambda>r. Inr (hd es @ r))))"

text \<open>\<^verbatim>\<open>Conditions::getConditions\<close>: a null or empty vector gives a null pointer.\<close>

definition getConditions :: "string list option \<Rightarrow> conditions list option res" where
  "getConditions cond =
     (case cond of
        None \<Rightarrow> Inr None
      | Some [] \<Rightarrow> Inr None
      | Some (s # ss) \<Rightarrow> rbind (rmap new_Conditions (s # ss)) (\<lambda>cs. Inr (Some cs)))"

section \<open>Lemmas\<close>

lemma replace_quotes_eq [str_simps]:
  "replace_quotes s = Inr (map (\<lambda>c. if c = squote then dquote else c) s)"
proof -
  have "concat (map (\<lambda>c. if c = squote then [dquote] else [c]) s)
      = map (\<lambda>c. if c = squote then dquote else c) s"
    by (induction s) auto
  then show ?thesis by (simp add: replace_quotes_def str_replace_char)
qed

text \<open>The operator characters, and scanning to the first of them.\<close>

definition is_op_char :: "char \<Rightarrow> bool" where
  "is_op_char c \<longleftrightarrow> c = CHR ''='' \<or> c = CHR ''<'' \<or> c = CHR ''>'' \<or> c = CHR ''!''"

lemma match_at_one: "i < length h \<Longrightarrow> match_at h i [c] \<longleftrightarrow> h ! i = c"
  by (auto simp: match_at_def take_Suc hd_drop_conv_nth drop_eq_Nil)

lemma match_at_two:
  assumes "i < length h"
  shows "match_at h i [c, d] \<longleftrightarrow> h ! i = c \<and> Suc i < length h \<and> h ! Suc i = d"
proof -
  have "drop i h = h ! i # drop (Suc i) h" using assms by (simp add: Cons_nth_drop_Suc)
  moreover have "take 1 (drop (Suc i) h) = [d] \<longleftrightarrow> Suc i < length h \<and> h ! Suc i = d"
    by (cases "Suc i < length h") (auto simp: take_Suc hd_drop_conv_nth)
  ultimately show ?thesis by (auto simp: match_at_def)
qed

lemma strpos_m_loop_skip:
  "i \<le> k \<Longrightarrow> k \<le> length h \<Longrightarrow> (\<And>j. i \<le> j \<Longrightarrow> j < k \<Longrightarrow> \<not> list_ex (match_at h j) ws) \<Longrightarrow>
     strpos_m_loop h ws i = strpos_m_loop h ws k"
proof (induction "k - i" arbitrary: i)
  case 0
  then show ?case by simp
next
  case (Suc n)
  have "strpos_m_loop h ws i = strpos_m_loop h ws (i + 1)"
    using Suc.hyps(2) Suc.prems(2) Suc.prems(3) [of i] by (subst strpos_m_loop.simps) auto
  also have "\<dots> = strpos_m_loop h ws k"
    using Suc.hyps Suc.prems by (intro Suc.hyps(1)) auto
  finally show ?case .
qed

lemma strpos_m_hit:
  assumes "k < length h" "list_ex (match_at h k) ws"
    and "\<And>j. j < k \<Longrightarrow> \<not> list_ex (match_at h j) ws"
  shows "strpos_m h ws = int k"
proof -
  have "strpos_m h ws = strpos_m_loop h ws k"
    unfolding strpos_m_def using assms by (intro strpos_m_loop_skip) auto
  also have "\<dots> = int k" using assms(1,2) by (subst strpos_m_loop.simps) simp
  finally show ?thesis .
qed

lemma strpos_m_imp_match: "strpos_m h ws = int k \<Longrightarrow> k < length h \<and> list_ex (match_at h k) ws"
  using strpos_m_loop_spec [of 0 h ws] by (auto simp: strpos_m_def)

text \<open>A condition text: a column without operator characters, an operator, the rest.\<close>

lemma strpos_m_op:
  assumes "list_all (\<lambda>c. \<not> is_op_char c) col" "is_op_char op"
  shows "strpos_m (col @ op # rest) [''='', ''<'', ''>'', ''!''] = int (length col)"
proof (rule strpos_m_hit)
  show "list_ex (match_at (col @ op # rest) (length col)) [''='', ''<'', ''>'', ''!'']"
    using assms(2) by (auto simp: match_at_one is_op_char_def)
next
  fix j assume "j < length col"
  then show "\<not> list_ex (match_at (col @ op # rest) j) [''='', ''<'', ''>'', ''!'']"
    using assms(1) by (auto simp: match_at_one nth_append list_all_length is_op_char_def)
qed simp

definition two_char_ops :: "string list" where
  "two_char_ops = [''<='', ''>='', ''!='', ''<>'']"

lemma strpos_m_op2:
  assumes "list_all (\<lambda>c. \<not> is_op_char c) col" "[op, op'] \<in> set two_char_ops"
  shows "strpos_m (col @ op # op' # rest) [''<='', ''>='', ''!='', ''<>''] = int (length col)"
proof (rule strpos_m_hit)
  show "list_ex (match_at (col @ op # op' # rest) (length col)) [''<='', ''>='', ''!='', ''<>'']"
    using assms(2) by (auto simp: match_at_two two_char_ops_def nth_append)
next
  fix j assume "j < length col"
  then show "\<not> list_ex (match_at (col @ op # op' # rest) j) [''<='', ''>='', ''!='', ''<>'']"
    using assms(1) by (auto simp: match_at_two nth_append list_all_length is_op_char_def)
qed simp

lemma strpos_m_op1:
  assumes "\<forall>c. rest \<noteq> [] \<and> hd rest = c \<longrightarrow> [op, c] \<notin> set two_char_ops"
  shows "strpos_m (col @ op # rest) [''<='', ''>='', ''!='', ''<>''] \<noteq> int (length col)"
proof
  assume "strpos_m (col @ op # rest) [''<='', ''>='', ''!='', ''<>''] = int (length col)"
  then have "list_ex (match_at (col @ op # rest) (length col)) [''<='', ''>='', ''!='', ''<>'']"
    by (blast dest: strpos_m_imp_match)
  with assms show False
    by (cases rest) (auto simp: match_at_two two_char_ops_def nth_append)
qed

abbreviation requote :: "string \<Rightarrow> string" where
  "requote \<equiv> map (\<lambda>c. if c = squote then dquote else c)"

lemma parse_comparison_op2:
  assumes "list_all (\<lambda>c. \<not> is_op_char c) col" "[op, op'] \<in> set two_char_ops"
  shows "parse_comparison g (col @ [op, op'] @ v) =
    Inr \<lparr>cgroup = g, ccolumn = col,
         cexp = (if [op, op'] = ''<>'' then ''!='' else [op, op']), cvalue = requote v\<rparr>"
proof -
  have "is_op_char op" using assms(2) by (auto simp: two_char_ops_def is_op_char_def)
  with assms show ?thesis
    by (simp add: parse_comparison_def strpos_m_op strpos_m_op2 Let_def std_substr_def
        std_substr_from_def replace_quotes_eq numeral_2_eq_2)
qed

lemma parse_comparison_op1:
  assumes "list_all (\<lambda>c. \<not> is_op_char c) col" "is_op_char op"
    and "\<forall>c. v \<noteq> [] \<and> hd v = c \<longrightarrow> [op, c] \<notin> set two_char_ops"
  shows "parse_comparison g (col @ [op] @ v) =
    Inr \<lparr>cgroup = g, ccolumn = col, cexp = [op], cvalue = requote v\<rparr>"
  using assms strpos_m_op1 [OF assms(3), of col]
  by (simp add: parse_comparison_def strpos_m_op Let_def std_substr_def std_substr_from_def
      replace_quotes_eq)

lemma cond_group_grouped:
  assumes "INT_MIN < g" "g \<le> INT_MAX" "itoa g = Inr s"
  shows "cond_group (s @ ''.'' @ tmp) = Inr (g, tmp)"
proof -
  obtain d where "list_all is_digit d" "s = d \<or> s = CHR ''-'' # d"
    using itoa_shape [OF assms(1,3)] by blast
  moreover have "\<not> is_digit (CHR ''.'')" by (simp add: is_digit_def)
  ultimately have "CHR ''.'' \<notin> set s" by (auto simp: list_all_iff)
  moreover have "stoi s = Inr g" using itoa_stoi [OF assms(1,2)] assms(3) by simp
  ultimately show ?thesis
    by (simp add: cond_group_def std_find_char_split split_first std_at_def)
qed

lemma cond_group_plain: "CHR ''.'' \<notin> set tmp \<Longrightarrow> cond_group tmp = Inr (0, tmp)"
  by (simp add: cond_group_def std_find_char)

text \<open>The operators of the input language and their C++ spelling.\<close>

definition rel_ops :: "string list" where
  "rel_ops = [''='', ''<'', ''>'', ''<='', ''>='', ''!='', ''<>'']"

definition canon_op :: "string \<Rightarrow> string" where
  "canon_op op = (if op = ''<>'' then ''!='' else op)"

lemma parse_comparison_rel:
  assumes "list_all (\<lambda>c. \<not> is_op_char c) col" "op \<in> set rel_ops"
    and "v \<noteq> []" "\<not> is_op_char (hd v)"
  shows "parse_comparison g (col @ op @ v) =
    Inr \<lparr>cgroup = g, ccolumn = col, cexp = canon_op op, cvalue = requote v\<rparr>"
proof (cases "length op = 2")
  case True
  then obtain a b where ab: "op = [a, b]" by (cases op; cases "tl op") auto
  with assms(2) have "[a, b] \<in> set two_char_ops" by (simp add: rel_ops_def two_char_ops_def)
  with parse_comparison_op2 [OF assms(1), of a b g v] ab show ?thesis by (simp add: canon_op_def)
next
  case False
  with assms(2) have "op \<in> {''='', ''<'', ''>''}" by (auto simp: rel_ops_def)
  then obtain a where a: "op = [a]" "is_op_char a" by (auto simp: is_op_char_def)
  have "\<forall>c. v \<noteq> [] \<and> hd v = c \<longrightarrow> [a, c] \<notin> set two_char_ops"
    using assms(4) by (auto simp: two_char_ops_def is_op_char_def)
  with parse_comparison_op1 [OF assms(1) a(2), of v g] a(1) show ?thesis
    by (simp add: canon_op_def)
qed

lemma new_Condition_grouped:
  assumes "INT_MIN < g" "g \<le> INT_MAX" "itoa g = Inr s"
    and "list_all (\<lambda>c. \<not> is_op_char c) col" "op \<in> set rel_ops" "v \<noteq> []" "\<not> is_op_char (hd v)"
  shows "new_Condition (s @ ''.'' @ col @ op @ v) =
    Inr \<lparr>cgroup = g, ccolumn = col, cexp = canon_op op, cvalue = requote v\<rparr>"
  by (simp only: new_Condition_def cond_group_grouped [OF assms(1-3)] rbind_Inr prod.case
      parse_comparison_rel [OF assms(4-7)])

lemma new_Condition_no_operator:
  assumes "list_all (\<lambda>c. \<not> is_op_char c) s" "CHR ''.'' \<notin> set s"
  shows "new_Condition s = Inl (Thrown ''Error, invalid Condition'')"
proof -
  have "strpos_m s [''='', ''<'', ''>'', ''!''] = - 1"
    using strpos_m_loop_spec [of 0 s "[''='', ''<'', ''>'', ''!'']"] assms(1)
    by (auto simp: strpos_m_def match_at_one list_all_length is_op_char_def)
  with assms(2) show ?thesis
    by (simp add: new_Condition_def cond_group_plain parse_comparison_def)
qed

section \<open>Operators and conditions stay aligned\<close>

lemma conds_loop_lengths:
  "conds_loop i args cs os = Inr r \<Longrightarrow> length cs = (i + 1) div 2 \<Longrightarrow> length os = i div 2 \<Longrightarrow>
     length (conds r) = (i + length args + 1) div 2 \<and> length (ops r) = (i + length args) div 2"
proof (induction i args cs os rule: conds_loop.induct)
  case (1 i cs os)
  then show ?case by auto
next
  case (2 i a args cs os)
  show ?case
  proof (cases "i mod 2 = 0")
    case True
    with "2.prems" obtain c where c: "new_Condition a = Inr c"
      "conds_loop (i + 1) args (cs @ [c]) os = Inr r" by (auto simp: rbind_eq_Inr)
    have "length (cs @ [c]) = (i + 1 + 1) div 2" "length os = (i + 1) div 2"
      using True "2.prems" by auto
    from "2.IH"(1) [OF True c this] show ?thesis by simp
  next
    case False
    with "2.prems" have "conds_loop (i + 1) args cs (os @ [a]) = Inr r" by simp
    moreover have "(i + 1) div 2 = i div 2 + 1" "(i + 1 + 1) div 2 = i div 2 + 1"
      using False by presburger+
    then have "length cs = (i + 1 + 1) div 2" "length (os @ [a]) = (i + 1) div 2"
      using "2.prems"(2,3) by simp_all
    ultimately show ?thesis using "2.IH"(2) [OF False] by simp
  qed
qed

definition conds_aligned :: "conditions \<Rightarrow> bool" where
  "conds_aligned c \<longleftrightarrow> length (ops c) = length (conds c) \<or> length (ops c) + 1 = length (conds c)"

lemma new_Conditions_aligned:
  assumes "new_Conditions s = Inr c"
  shows "conds_aligned c"
proof (cases "std_find '' '' s = None")
  case True
  with assms show ?thesis by (auto simp: new_Conditions_def rbind_eq_Inr conds_aligned_def)
next
  case False
  with assms obtain args where "conds_loop 0 args [] [] = Inr c"
    by (auto simp: new_Conditions_def rbind_eq_Inr)
  from conds_loop_lengths [OF this] show ?thesis
    by (auto simp: conds_aligned_def)
qed

lemma conds_print_total:
  "length es + i \<le> length os + 1 \<Longrightarrow> 1 \<le> i \<Longrightarrow> \<exists>r. conds_print os i es = Inr r"
proof (induction es arbitrary: i)
  case Nil
  then show ?case by simp
next
  case (Cons e es)
  then have "i - 1 < length os" "\<exists>r. conds_print os (i + 1) es = Inr r" by auto
  then show ?case by (auto simp: std_at_def)
qed

end
