(* ===== verification/Scan_Generator.thy ===== *)
theory Scan_Generator
  imports Condition
begin

text \<open>
  \<^verbatim>\<open>lib/objects/scan_generator.cpp\<close>: the text of the scans of the emitted program. Every C++ string
  literal of the source appears here with \<open>ln k\<close> for a line indented by \<open>k\<close> tabs. The meaning of
  the emitted text is the subject of the theory \<open>Emitted\<close>.
\<close>

record scan_generator =
  no_grouping_vars :: int
  columns :: "column list"
  select_columns :: "string list"
  select_aggregates :: "aggregate list"
  all_aggregates :: "aggregate list"
  select_conditions :: "conditions list option"
  having :: string
  grouping_attr :: "string list"
  emf :: bool

section \<open>Having clause, selection conditions, grouping of aggregates\<close>

definition is_avg :: "aggregate \<Rightarrow> bool" where
  "is_avg a \<longleftrightarrow> func a = ''avg'' \<or> func a = ''AVG''"

definition having_token :: "scan_generator \<Rightarrow> string \<Rightarrow> string res" where
  "having_token g t =
     rbind (isAggregate t) (\<lambda>is_aggr.
       if is_aggr then
         rbind (new_Aggregate t) (\<lambda>tmp.
           rconcat [Inr ''data'', itoa (group tmp), Inr (''->at(pos)->'' @ toVar tmp),
                    Inr (if is_avg tmp then ''.value()'' else [])])
       else if isColumn t (columns g) then Inr (''data->'' @ t)
       else Inr t)"

definition parse_having :: "scan_generator \<Rightarrow> string res" where
  "parse_having g =
     (if length (having g) < 1 then Inr ''true''
      else rbind (c_explode (CHR '' '') (having g)) (\<lambda>expl.
           rbind (rmap (having_token g) expl) (\<lambda>ts. Inr (join '' '' ts))))"

definition get_selection_cond :: "scan_generator \<Rightarrow> int \<Rightarrow> string res" where
  "get_selection_cond g grp =
     (if grp = 0 then Inr ''true''
      else case select_conditions g of
          None \<Rightarrow> Inl Undefined_behaviour
        | Some cs \<Rightarrow>
            if grp < 1 then Inl Out_of_range
            else rbind (std_at cs (nat (grp - 1))) (\<lambda>c.
                   Conditions_toCpp c ''(*it)'' ''(*xt)'' (grouping_attr g) (columns g)))"

text \<open>\<^verbatim>\<open>out.at(group).push_back(...)\<close>: a group number outside \<open>0 .. n\<close> throws.\<close>

fun group_loop :: "aggregate list \<Rightarrow> aggregate list list \<Rightarrow> aggregate list list res" where
  "group_loop [] out = Inr out"
| "group_loop (a # as) out =
     (if 0 \<le> group a \<and> nat (group a) < length out
      then group_loop as (out[nat (group a) := out ! nat (group a) @ [a]])
      else Inl Out_of_range)"

definition group_aggregates :: "scan_generator \<Rightarrow> aggregate list list res" where
  "group_aggregates g =
     group_loop (all_aggregates g) (replicate (nat (no_grouping_vars g + 1)) [])"

section \<open>First scan\<close>

definition prelim_group :: "scan_generator \<Rightarrow> int \<Rightarrow> string res" where
  "prelim_group g i =
     rbind (itoa i) (\<lambda>n.
       let type = ''struct group'' @ n; var = ''entry'' @ n in
       Inr (ln 2 (type @ ''* '' @ var @ '' = ('' @ type @ ''*)calloc(1,sizeof('' @ type @ ''));'') @
            concat (map (\<lambda>c. ln 2 (var @ ''->'' @ c @ '' = (*it)->'' @ c @ '';'')) (select_columns g)) @
            ln 2 (''data'' @ n @ ''->push_back('' @ var @ '');'')))"

definition prelim_decl :: "int \<Rightarrow> string res" where
  "prelim_decl i =
     rbind (itoa i) (\<lambda>n.
       Inr (ln 1 (''vector<struct group'' @ n @ ''*>* data'' @ n @ '' = new vector<struct group'' @ n @ ''*>();'')))"

definition prelim_scan :: "scan_generator \<Rightarrow> string res" where
  "prelim_scan g =
     rconcat
       ([Inr (ln 1 ''vector<struct sales*>* uniques = get_uniques(data);'')] @
        map prelim_decl [0..no_grouping_vars g] @
        [Inr (ln 1 ''for(vector<struct sales*>::iterator it = uniques->begin();it != uniques->end();it++){'' @
              ln 2 ''struct mf_structure* entry = (struct mf_structure*)calloc(1,sizeof(struct mf_structure));''),
         Inr (concat (map (\<lambda>c. ln 2 (''entry->'' @ c @ '' = (*it)->'' @ c @ '';'')) (select_columns g))),
         Inr (ln 2 ''mf_struct->push_back(entry);'')] @
        map (prelim_group g) [0..no_grouping_vars g] @
        [Inr (ln 1 ''}'')])"

section \<open>Aggregate scans\<close>

text \<open>
  The statement emitted for one aggregate, with \<open>src\<close> the row expression: \<^verbatim>\<open>(*it)\<close> in
  \<^verbatim>\<open>aggregate_scan\<close>, \<^verbatim>\<open>(*xt)\<close> in \<^verbatim>\<open>emf_aggregate_scan\<close>. An unknown function emits nothing.
\<close>

definition aggregate_stmt :: "string \<Rightarrow> aggregate \<Rightarrow> string res" where
  "aggregate_stmt src a =
     rbind (itoa (group a)) (\<lambda>n.
       let name = ''data'' @ n; field = toVar a; lhs = name @ ''->at(pos)->'' @ field;
           rhs = src @ ''->'' @ acol a
       in Inr (if func a = ''avg'' \<or> func a = ''AVG'' then ln 3 (lhs @ ''.add('' @ rhs @ '');'')
          else if func a = ''sum'' \<or> func a = ''SUM'' then ln 3 (lhs @ '' += '' @ rhs @ '';'')
          else if func a = ''count'' \<or> func a = ''COUNT'' then ln 3 (lhs @ '' += 1;'')
          else if func a = ''min'' \<or> func a = ''MIN'' then
            ln 3 (''if('' @ lhs @ ''> '' @ rhs @ ''){'') @ ln 4 (lhs @ '' = '' @ rhs @ '';'') @ ln 3 ''}''
          else if func a = ''max'' \<or> func a = ''MAX'' then
            ln 3 (''if('' @ lhs @ ''< '' @ rhs @ ''){'') @ ln 4 (lhs @ '' = '' @ rhs @ '';'') @ ln 3 ''}''
          else []))"

definition aggregate_scan_group :: "scan_generator \<Rightarrow> int \<Rightarrow> aggregate list \<Rightarrow> string res" where
  "aggregate_scan_group g i xt =
     rconcat
       ([Inr (ln 1 ''for(auto it = data->begin(); it != data->end();it++){'' @ ln 2 ''size_t pos;''),
         Inr (tabs 2 @ ''if(''), get_selection_cond g i, Inr (''){'' @ nl),
         Inr (tabs 3 @ ''pos = vfind''), itoa i, Inr ''(data'', itoa i,
         Inr (concat (map (\<lambda>j. '',(*it)->'' @ j) (grouping_attr g)) @ '');'' @ nl)] @
        map (aggregate_stmt ''(*it)'') xt @
        [Inr (ln 2 ''}'' @ ln 1 ''}'')])"

definition emf_scan_group :: "scan_generator \<Rightarrow> int \<Rightarrow> aggregate list \<Rightarrow> string res" where
  "emf_scan_group g i xt =
     rconcat
       ([Inr (ln 1 ''for(auto it = uniques->begin();it != uniques->end();it++)'' @
              ln 2 ''for(auto xt = data->begin(); xt != data->end();xt++){''),
         Inr (tabs 2 @ ''if(''), get_selection_cond g i, Inr (''){'' @ nl),
         Inr (ln 3 ''size_t pos = it - uniques->begin();'')] @
        map (aggregate_stmt ''(*xt)'') xt @
        [Inr (ln 2 ''}'' @ ln 1 ''}'')])"

fun scan_groups :: "(int \<Rightarrow> aggregate list \<Rightarrow> string res) \<Rightarrow> int \<Rightarrow> aggregate list list \<Rightarrow> string res" where
  "scan_groups f i [] = Inr []"
| "scan_groups f i (xt # xts) =
     rbind (f i xt) (\<lambda>a. rbind (scan_groups f (i + 1) xts) (\<lambda>b. Inr (a @ b)))"

definition aggregate_scan :: "scan_generator \<Rightarrow> string res" where
  "aggregate_scan g = rbind (group_aggregates g) (\<lambda>groups. scan_groups (aggregate_scan_group g) 0 groups)"

definition emf_aggregate_scan :: "scan_generator \<Rightarrow> string res" where
  "emf_aggregate_scan g = rbind (group_aggregates g) (\<lambda>groups. scan_groups (emf_scan_group g) 0 groups)"

section \<open>Third scan\<close>

definition fill_stmt :: "aggregate \<Rightarrow> string res" where
  "fill_stmt a =
     rbind (itoa (group a)) (\<lambda>n. rbind (toABSVar a) (\<lambda>v.
       Inr (tabs 2 @ ''(*it)->'' @ v @ '' = data'' @ n @ ''->at(pos)->'' @ toVar a @
            (if is_avg a then ''.value()'' else []) @ '';'' @ nl)))"

definition fill_mfstruct :: "scan_generator \<Rightarrow> string res" where
  "fill_mfstruct g =
     rconcat
       ([Inr (ln 1 ''for(auto it = mf_struct->begin();it != mf_struct->end(); it++){''),
         Inr (ln 2 (''int pos = vfind0(data0'' @ concat (map (\<lambda>j. '',(*it)->'' @ j) (grouping_attr g)) @ '');'')),
         Inr (tabs 2 @ ''if(!(''), parse_having g, Inr '')'',
         Inr (''){'' @ nl @
              ln 3 ''mf_struct->erase(it);'' @ ln 3 ''it--;'' @ ln 3 ''continue;'' @ ln 2 ''}'' @
              ln 2 ''if(pos == -1){'' @
              ln 3 ''mf_struct->erase(it);'' @ ln 3 ''it--;'' @ ln 3 ''continue;'' @ ln 2 ''}'')] @
        map fill_stmt (select_aggregates g) @
        [Inr (ln 1 ''}'')])"

definition scan_generate :: "scan_generator \<Rightarrow> string res" where
  "scan_generate g =
     rconcat [prelim_scan g, if emf g then emf_aggregate_scan g else aggregate_scan g,
              fill_mfstruct g]"

section \<open>Grouping the aggregates\<close>

lemma group_loop_spec:
  "group_loop as out = Inr out' \<Longrightarrow>
     length out' = length out \<and> (\<forall>i < length out. out' ! i = out ! i @ filter (\<lambda>a. group a = int i) as)"
proof (induction as out rule: group_loop.induct)
  case (1 out)
  then show ?case by simp
next
  case (2 a as out)
  then have g: "0 \<le> group a" "nat (group a) < length out" by (auto split: if_splits)
  let ?out = "out[nat (group a) := out ! nat (group a) @ [a]]"
  from 2 g have IH: "length out' = length ?out \<and>
      (\<forall>i < length ?out. out' ! i = ?out ! i @ filter (\<lambda>a. group a = int i) as)" by auto
  then show ?case using g by (auto simp: nth_list_update)
qed

lemma group_loop_total:
  "list_all (\<lambda>a. 0 \<le> group a \<and> group a < int (length out)) as \<Longrightarrow> \<exists>out'. group_loop as out = Inr out'"
proof (induction as out rule: group_loop.induct)
  case (1 out)
  then show ?case by simp
next
  case (2 a as out)
  then have "0 \<le> group a \<and> nat (group a) < length out" by auto
  with 2 show ?case by simp
qed

lemma group_loop_fails:
  "list_ex (\<lambda>a. \<not> (0 \<le> group a \<and> group a < int (length out))) as \<Longrightarrow> group_loop as out = Inl Out_of_range"
  by (induction as out rule: group_loop.induct) auto

text \<open>Every aggregate lands in the list of its own grouping variable, in input order.\<close>

lemma group_aggregates_spec:
  assumes "0 \<le> no_grouping_vars g"
    and "list_all (\<lambda>a. 0 \<le> group a \<and> group a \<le> no_grouping_vars g) (all_aggregates g)"
  shows "group_aggregates g =
    Inr (map (\<lambda>i. filter (\<lambda>a. group a = int i) (all_aggregates g)) [0..<nat (no_grouping_vars g + 1)])"
proof -
  let ?init = "replicate (nat (no_grouping_vars g + 1)) ([] :: aggregate list)"
  have "list_all (\<lambda>a. 0 \<le> group a \<and> group a < int (length ?init)) (all_aggregates g)"
    using assms by (auto simp: list_all_iff)
  then obtain out where o: "group_loop (all_aggregates g) ?init = Inr out"
    using group_loop_total by blast
  from group_loop_spec [OF o] have "out =
      map (\<lambda>i. filter (\<lambda>a. group a = int i) (all_aggregates g)) [0..<nat (no_grouping_vars g + 1)]"
    by (intro nth_equalityI) auto
  with o show ?thesis by (simp add: group_aggregates_def)
qed

end
