(* ===== verification/Average.thy ===== *)
theory Average
  imports Prelude "HOL-Library.Signed_Division"
begin

text \<open>
  \<^verbatim>\<open>lib/objects/average.h\<close>, \<^verbatim>\<open>average.tcc\<close>: the running average the emitted program uses, at the type
  \<^verbatim>\<open>int64_t\<close>. The sum is an \<^verbatim>\<open>int64_t\<close>, the count an \<^verbatim>\<open>int\<close>; leaving either is undefined. The division
  truncates towards zero as C++ does.
\<close>

record average =
  avg_count :: int
  avg_sum :: int

definition avg_new :: average where
  "avg_new = \<lparr>avg_count = 0, avg_sum = 0\<rparr>"

definition avg_add :: "int \<Rightarrow> average \<Rightarrow> average res" where
  "avg_add val a =
     rbind (as_int64 (avg_sum a + val)) (\<lambda>s.
     rbind (as_int32 (avg_count a + 1)) (\<lambda>c. Inr (a\<lparr>avg_sum := s, avg_count := c\<rparr>)))"

definition avg_value :: "average \<Rightarrow> int" where
  "avg_value a = (if avg_count a = 0 then 0 else avg_sum a sdiv avg_count a)"

text \<open>The same in exact integers, and when it is what the code does.\<close>

definition avg_exact :: "int \<Rightarrow> average \<Rightarrow> average" where
  "avg_exact val a = a\<lparr>avg_sum := avg_sum a + val, avg_count := avg_count a + 1\<rparr>"

lemma fold_avg_exact:
  "fold avg_exact vs a = \<lparr>avg_count = avg_count a + int (length vs), avg_sum = avg_sum a + sum_list vs\<rparr>"
  by (induction vs arbitrary: a) (auto simp: avg_exact_def)

lemma avg_value_fold:
  "avg_value (fold avg_exact vs avg_new) = (if vs = [] then 0 else sum_list vs sdiv int (length vs))"
  by (simp add: fold_avg_exact avg_new_def avg_value_def)

text \<open>
  Room for the values that are still to come: whatever their order, no sum on the way leaves the
  types.
\<close>

definition avg_room :: "int list \<Rightarrow> average \<Rightarrow> bool" where
  "avg_room vs a \<longleftrightarrow> \<bar>avg_sum a\<bar> + sum_list (map abs vs) < 2 ^ 63
     \<and> 0 \<le> avg_count a \<and> avg_count a + int (length vs) \<le> INT_MAX"

lemma avg_add_room:
  assumes "avg_room (v # vs) a"
  shows "avg_add v a = Inr (avg_exact v a) \<and> avg_room vs (avg_exact v a)"
proof -
  have n: "0 \<le> sum_list (map abs vs)" by (rule sum_list_nonneg) auto
  have r: "\<bar>avg_sum a\<bar> + (\<bar>v\<bar> + sum_list (map abs vs)) < 2 ^ 63" "0 \<le> avg_count a"
    "avg_count a + (int (length vs) + 1) \<le> INT_MAX"
    using assms by (simp_all add: avg_room_def)
  have s: "\<bar>avg_sum a + v\<bar> + sum_list (map abs vs) < 2 ^ 63" using r(1) by linarith
  then have "in_int64 (avg_sum a + v)" unfolding in_int64_def using n by linarith
  moreover have "in_int32 (avg_count a + 1)" unfolding in_int32_def using r(2,3) by linarith
  ultimately show ?thesis using s r(2,3)
    by (simp add: avg_add_def avg_exact_def as_int64_def as_int32_def avg_room_def)
qed

lemma avg_room_less: "avg_room (v # vs) a \<Longrightarrow> avg_room vs a"
  unfolding avg_room_def list.map sum_list.Cons list.size by linarith

text \<open>The reported value lies between the least and the greatest value added.\<close>

lemma sdiv_bounds:
  assumes "0 < (n::int)" "n * lo \<le> s" "s \<le> n * hi"
  shows "lo \<le> s sdiv n \<and> s sdiv n \<le> hi"
proof (cases "0 \<le> s")
  case True
  then have e: "s sdiv n = s div n" using assms(1) by (cases "s = 0") (simp_all add: signed_divide_int_def)
  have "lo \<le> s div n" using assms(1) zdiv_mono1 [OF assms(2) assms(1)] by simp
  moreover have "s div n \<le> hi"
    using assms(1,3) zdiv_mono1 [OF assms(3) assms(1)] by simp
  ultimately show ?thesis using e by simp
next
  case False
  then have e: "s sdiv n = - ((- s) div n)" using assms(1) by (simp add: signed_divide_int_def)
  have m: "(n * (- lo)) div n = - lo" "(n * (- hi)) div n = - hi"
    using assms(1) by (simp_all only: nonzero_mult_div_cancel_left)
  have "(- s) div n \<le> - lo"
    using zdiv_mono1 [of "- s" "n * (- lo)" n] assms(1,2) unfolding m(1) by simp
  moreover have "- hi \<le> (- s) div n"
    using zdiv_mono1 [of "n * (- hi)" "- s" n] assms(1,3) unfolding m(2) by simp
  ultimately show ?thesis using e by simp
qed

lemma sum_list_between:
  "list_all (\<lambda>v. lo \<le> v \<and> v \<le> hi) vs \<Longrightarrow>
     int (length vs) * lo \<le> sum_list vs \<and> sum_list vs \<le> int (length vs) * (hi::int)"
  by (induction vs) (auto simp: algebra_simps)

lemma avg_value_between:
  assumes "vs \<noteq> []" "list_all (\<lambda>v. lo \<le> v \<and> v \<le> hi) vs"
  shows "lo \<le> avg_value (fold avg_exact vs avg_new) \<and> avg_value (fold avg_exact vs avg_new) \<le> hi"
  using assms sum_list_between [OF assms(2)] sdiv_bounds [of "int (length vs)" lo "sum_list vs" hi]
  by (simp add: avg_value_fold)

end
