(* ===== verification/Emitted.thy ===== *)
theory Emitted
  imports Scan_Generator Average
begin

text \<open>
  The program the generator emits, as it runs. \<^verbatim>\<open>helpers.cpp\<close> prints the functions \<^verbatim>\<open>vfind<i>\<close>,
  \<^verbatim>\<open>is_unique\<close> and \<^verbatim>\<open>get_uniques\<close>; \<^verbatim>\<open>scan_generator.cpp\<close> prints the three scans of its \<^verbatim>\<open>main\<close>. The
  definitions here execute those printed statements, parametrised by what the generator
  substitutes into them: the grouping attributes, the selected columns, the aggregates and the
  conditions.

  A table row (\<^verbatim>\<open>struct sales\<close>) maps member names to values. Members of \<^verbatim>\<open>struct group<i>\<close> named
  \<^verbatim>\<open>func_column\<close> are kept in two maps, one for plain \<^verbatim>\<open>int64_t\<close> members and one for \<^verbatim>\<open>Average\<close> members, all
  zero after \<^verbatim>\<open>calloc\<close>; arithmetic that leaves \<^verbatim>\<open>int64_t\<close> (or the \<^verbatim>\<open>int\<close> count of an average) is
  \<open>Undefined_behaviour\<close>. String members that \<^verbatim>\<open>calloc\<close> zeroed are taken for empty strings, as the emitted
  assignments do. Members of types other than integers and strings, and aggregates whose member is not
  an integer, are \<open>Outside_model\<close>.
\<close>

datatype val = IntV int | StrV string

type_synonym row = "string \<Rightarrow> val"

definition int_member :: "val \<Rightarrow> int res" where
  "int_member v = (case v of IntV i \<Rightarrow> Inr i | StrV _ \<Rightarrow> Inl Outside_model)"

definition key :: "string list \<Rightarrow> row \<Rightarrow> val list" where
  "key attrs r = map r attrs"

record gstruct =
  gkey :: row
  gplain :: "string \<Rightarrow> int"
  gavg :: "string \<Rightarrow> average"

type_synonym groups = "gstruct list list"

record mfstruct =
  mkey :: row
  maggr :: "string \<Rightarrow> int"

section \<open>Emitted helper functions\<close>

fun is_unique :: "string list \<Rightarrow> row list \<Rightarrow> row \<Rightarrow> bool" where
  "is_unique attrs [] entry = True"
| "is_unique attrs (x # xs) entry =
     (if list_all (\<lambda>a. entry a = x a) attrs then False else is_unique attrs xs entry)"

fun uniques_loop :: "string list \<Rightarrow> row list \<Rightarrow> row list \<Rightarrow> row list" where
  "uniques_loop attrs out [] = out"
| "uniques_loop attrs out (r # rs) =
     uniques_loop attrs (if is_unique attrs out r then out @ [r] else out) rs"

definition get_uniques :: "string list \<Rightarrow> row list \<Rightarrow> row list" where
  "get_uniques attrs data = uniques_loop attrs [] data"

fun vfind_from :: "string list \<Rightarrow> gstruct list \<Rightarrow> row \<Rightarrow> int \<Rightarrow> int" where
  "vfind_from attrs [] r index = - 1"
| "vfind_from attrs (g # gs) r index =
     (if list_all (\<lambda>a. r a = gkey g a) attrs then index else vfind_from attrs gs r (index + 1))"

definition vfind :: "string list \<Rightarrow> gstruct list \<Rightarrow> row \<Rightarrow> int" where
  "vfind attrs data r = vfind_from attrs data r 0"

section \<open>First scan: one entry per distinct key\<close>

definition copy_columns :: "string list \<Rightarrow> row \<Rightarrow> row" where
  "copy_columns select r = (\<lambda>c. if c \<in> set select then r c else IntV 0)"

definition new_gstruct :: "string list \<Rightarrow> row \<Rightarrow> gstruct" where
  "new_gstruct select r = \<lparr>gkey = copy_columns select r, gplain = (\<lambda>_. 0), gavg = (\<lambda>_. avg_new)\<rparr>"

definition new_mfstruct :: "string list \<Rightarrow> row \<Rightarrow> mfstruct" where
  "new_mfstruct select r = \<lparr>mkey = copy_columns select r, maggr = (\<lambda>_. 0)\<rparr>"

definition run_prelim :: "string list \<Rightarrow> nat \<Rightarrow> row list \<Rightarrow> mfstruct list \<times> groups" where
  "run_prelim select n uniques =
     (map (new_mfstruct select) uniques, replicate (n + 1) (map (new_gstruct select) uniques))"

section \<open>Second scan: aggregates\<close>

definition set_plain :: "string \<Rightarrow> int \<Rightarrow> gstruct \<Rightarrow> gstruct" where
  "set_plain field v g = g\<lparr>gplain := (gplain g)(field := v)\<rparr>"

text \<open>
  The statement printed for an aggregate. The member of \<^verbatim>\<open>count\<close> is an \<^verbatim>\<open>int64_t\<close> for every column; that of
  \<^verbatim>\<open>COUNT\<close> has the type of the column.
\<close>

definition agg_step :: "aggregate \<Rightarrow> row \<Rightarrow> gstruct \<Rightarrow> gstruct res" where
  "agg_step a r g =
     (let field = toVar a; old = gplain g field; col = int_member (r (acol a)) in
      if func a = ''avg'' \<or> func a = ''AVG'' then
        rbind col (\<lambda>v. rbind (avg_add v (gavg g field)) (\<lambda>m. Inr (g\<lparr>gavg := (gavg g)(field := m)\<rparr>)))
      else if func a = ''sum'' \<or> func a = ''SUM'' then
        rbind col (\<lambda>v. rbind (as_int64 (old + v)) (\<lambda>n. Inr (set_plain field n g)))
      else if func a = ''count'' then rbind (as_int64 (old + 1)) (\<lambda>n. Inr (set_plain field n g))
      else if func a = ''COUNT'' then
        rbind col (\<lambda>_. rbind (as_int64 (old + 1)) (\<lambda>n. Inr (set_plain field n g)))
      else if func a = ''min'' \<or> func a = ''MIN'' then
        rbind col (\<lambda>v. Inr (if old > v then set_plain field v g else g))
      else if func a = ''max'' \<or> func a = ''MAX'' then
        rbind col (\<lambda>v. Inr (if old < v then set_plain field v g else g))
      else Inr g)"

text \<open>\<^verbatim>\<open>data<i>->at(pos)\<close>: the index \<open>-1\<close> of a failed lookup becomes a huge \<^verbatim>\<open>size_t\<close> and throws.\<close>

definition update_group :: "nat \<Rightarrow> int \<Rightarrow> (gstruct \<Rightarrow> gstruct res) \<Rightarrow> groups \<Rightarrow> groups res" where
  "update_group i pos f D =
     (if i < length D \<and> 0 \<le> pos \<and> nat pos < length (D ! i)
      then rbind (f (D ! i ! nat pos)) (\<lambda>g. Inr (D[i := (D ! i)[nat pos := g]])) else Inl Out_of_range)"

fun apply_aggs :: "aggregate list \<Rightarrow> row \<Rightarrow> int \<Rightarrow> groups \<Rightarrow> groups res" where
  "apply_aggs [] r pos D = Inr D"
| "apply_aggs (a # as) r pos D =
     rbind (update_group (nat (group a)) pos (agg_step a r) D) (apply_aggs as r pos)"

text \<open>
  \<^verbatim>\<open>aggregate_scan\<close> (MF queries): one pass over the rows per grouping variable. The condition may
  read the data of the other grouping variables.
\<close>

fun mf_scan :: "string list \<Rightarrow> (groups \<Rightarrow> row \<Rightarrow> bool res) \<Rightarrow> nat \<Rightarrow> aggregate list \<Rightarrow> row list \<Rightarrow> groups \<Rightarrow> groups res" where
  "mf_scan attrs cond i aggs [] D = Inr D"
| "mf_scan attrs cond i aggs (r # rs) D =
     rbind (rbind (cond D r) (\<lambda>b. if b then apply_aggs aggs r (vfind attrs (D ! i) r) D else Inr D))
       (mf_scan attrs cond i aggs rs)"

fun run_scans :: "(nat \<Rightarrow> aggregate list \<Rightarrow> groups \<Rightarrow> groups res) \<Rightarrow> nat \<Rightarrow> aggregate list list \<Rightarrow> groups \<Rightarrow> groups res" where
  "run_scans f i [] D = Inr D"
| "run_scans f i (xt # xts) D = rbind (f i xt D) (run_scans f (i + 1) xts)"

definition mf_scans :: "string list \<Rightarrow> (nat \<Rightarrow> groups \<Rightarrow> row \<Rightarrow> bool res) \<Rightarrow> aggregate list list \<Rightarrow> row list \<Rightarrow> groups \<Rightarrow> groups res" where
  "mf_scans attrs cond xts rows D = run_scans (\<lambda>i xt. mf_scan attrs (cond i) i xt rows) 0 xts D"

text \<open>
  \<^verbatim>\<open>emf_aggregate_scan\<close>: for every distinct key \<^verbatim>\<open>it\<close> and every row \<^verbatim>\<open>xt\<close>; the position is that of the
  key.
\<close>

fun emf_inner :: "(groups \<Rightarrow> row \<Rightarrow> row \<Rightarrow> bool res) \<Rightarrow> aggregate list \<Rightarrow> row \<Rightarrow> int \<Rightarrow> row list \<Rightarrow> groups \<Rightarrow> groups res" where
  "emf_inner cond aggs it pos [] D = Inr D"
| "emf_inner cond aggs it pos (xt # xts) D =
     rbind (rbind (cond D it xt) (\<lambda>b. if b then apply_aggs aggs xt pos D else Inr D)) (emf_inner cond aggs it pos xts)"

fun emf_scan :: "(groups \<Rightarrow> row \<Rightarrow> row \<Rightarrow> bool res) \<Rightarrow> aggregate list \<Rightarrow> row list \<Rightarrow> int \<Rightarrow> row list \<Rightarrow> groups \<Rightarrow> groups res" where
  "emf_scan cond aggs [] pos rows D = Inr D"
| "emf_scan cond aggs (it # its) pos rows D =
     rbind (emf_inner cond aggs it pos rows D) (emf_scan cond aggs its (pos + 1) rows)"

definition emf_scans :: "(nat \<Rightarrow> groups \<Rightarrow> row \<Rightarrow> row \<Rightarrow> bool res) \<Rightarrow> aggregate list list \<Rightarrow> row list \<Rightarrow> row list \<Rightarrow> groups \<Rightarrow> groups res" where
  "emf_scans cond xts uniques rows D = run_scans (\<lambda>i xt. emf_scan (cond i) xt uniques 0 rows) 0 xts D"

section \<open>Third scan: having clause and result\<close>

definition group_at :: "groups \<Rightarrow> nat \<Rightarrow> int \<Rightarrow> gstruct res" where
  "group_at D i pos = (if i < length D \<and> 0 \<le> pos \<and> nat pos < length (D ! i)
     then Inr (D ! i ! nat pos) else Inl Out_of_range)"

definition aggr_value :: "aggregate \<Rightarrow> gstruct \<Rightarrow> int" where
  "aggr_value a g = (if is_avg a then avg_value (gavg g (toVar a)) else gplain g (toVar a))"

fun fill_aggrs :: "aggregate list \<Rightarrow> groups \<Rightarrow> int \<Rightarrow> mfstruct \<Rightarrow> mfstruct res" where
  "fill_aggrs [] D pos e = Inr e"
| "fill_aggrs (a # as) D pos e =
     rbind (toABSVar a) (\<lambda>v. rbind (group_at D (nat (group a)) pos) (\<lambda>g.
       fill_aggrs as D pos (e\<lparr>maggr := (maggr e)(v := aggr_value a g)\<rparr>)))"

text \<open>
  \<^verbatim>\<open>erase(it); it--; continue\<close> and the loop's \<^verbatim>\<open>it++\<close> leave the index unchanged on the shortened
  vector, an iterator being a position in its array; at the first entry \<^verbatim>\<open>it--\<close> steps before \<^verbatim>\<open>begin()\<close>, which
  is undefined. \<open>hv\<close> is the value of the emitted having expression at a position.
\<close>

definition erase_at :: "nat \<Rightarrow> 'a list \<Rightarrow> 'a list" where
  "erase_at i xs = take i xs @ drop (i + 1) xs"

lemma length_erase_at: "i < length xs \<Longrightarrow> length (erase_at i xs) = length xs - 1"
  by (simp add: erase_at_def)

function fill_loop :: "string list \<Rightarrow> (groups \<Rightarrow> int \<Rightarrow> bool res) \<Rightarrow> aggregate list \<Rightarrow> groups \<Rightarrow> nat \<Rightarrow> mfstruct list \<Rightarrow> mfstruct list res" where
  "fill_loop attrs hv aggs D i mf =
     (if i < length mf then
        (let pos = vfind attrs (D ! 0) (mkey (mf ! i)) in
         rbind (hv D pos) (\<lambda>b.
           if \<not> b \<or> pos = - 1 then
             (if i = 0 then Inl Undefined_behaviour else fill_loop attrs hv aggs D i (erase_at i mf))
           else rbind (fill_aggrs aggs D pos (mf ! i)) (\<lambda>e.
                  fill_loop attrs hv aggs D (i + 1) (mf[i := e]))))
      else Inr mf)"
  by pat_completeness auto
termination
  by (relation "measure (\<lambda>(attrs, hv, aggs, D, i, mf). length mf - i)") (auto simp: length_erase_at)

declare fill_loop.simps [simp del]

section \<open>The whole program\<close>

record query =
  q_attrs :: "string list"
  q_select :: "string list"
  q_vars :: nat
  q_aggs :: "aggregate list list"
  q_out :: "aggregate list"
  q_having :: "groups \<Rightarrow> int \<Rightarrow> bool res"

definition run_mf :: "query \<Rightarrow> (nat \<Rightarrow> groups \<Rightarrow> row \<Rightarrow> bool res) \<Rightarrow> row list \<Rightarrow> mfstruct list res" where
  "run_mf q cond data =
     (let (mf, D) = run_prelim (q_select q) (q_vars q) (get_uniques (q_attrs q) data) in
      rbind (mf_scans (q_attrs q) cond (q_aggs q) data D) (\<lambda>D'.
        fill_loop (q_attrs q) (q_having q) (q_out q) D' 0 mf))"

definition run_emf :: "query \<Rightarrow> (nat \<Rightarrow> groups \<Rightarrow> row \<Rightarrow> row \<Rightarrow> bool res) \<Rightarrow> row list \<Rightarrow> mfstruct list res" where
  "run_emf q cond data =
     (let uniques = get_uniques (q_attrs q) data;
          (mf, D) = run_prelim (q_select q) (q_vars q) uniques in
      rbind (emf_scans cond (q_aggs q) uniques data D) (\<lambda>D'.
        fill_loop (q_attrs q) (q_having q) (q_out q) D' 0 mf))"

section \<open>Distinct keys\<close>

lemma key_eq_iff: "list_all (\<lambda>a. r a = s a) attrs \<longleftrightarrow> key attrs r = key attrs s"
  by (induction attrs) (auto simp: key_def)

lemma is_unique_iff: "is_unique attrs xs r \<longleftrightarrow> key attrs r \<notin> key attrs ` set xs"
  by (induction xs) (auto simp: key_eq_iff)

text \<open>The first occurrence of every key, in order.\<close>

fun first_occs :: "'k list \<Rightarrow> 'k list" where
  "first_occs [] = []"
| "first_occs (k # ks) = k # filter (\<lambda>x. x \<noteq> k) (first_occs ks)"

lemma set_first_occs [simp]: "set (first_occs ks) = set ks"
  by (induction ks) auto

lemma distinct_first_occs [simp]: "distinct (first_occs ks)"
  by (induction ks) auto

lemma uniques_loop_keys:
  "map (key attrs) (uniques_loop attrs out rs) =
     map (key attrs) out @ filter (\<lambda>k. k \<notin> key attrs ` set out) (first_occs (map (key attrs) rs))"
proof (induction rs arbitrary: out)
  case Nil
  then show ?case by simp
next
  case (Cons r rs)
  show ?case
  proof (cases "key attrs r \<in> key attrs ` set out")
    case True
    then have "filter (\<lambda>k. k \<notin> key attrs ` set out) (filter (\<lambda>x. x \<noteq> key attrs r) ks)
      = filter (\<lambda>k. k \<notin> key attrs ` set out) ks" for ks
      by (induction ks) auto
    with True Cons show ?thesis by (simp add: is_unique_iff)
  next
    case False
    with Cons show ?thesis
      by (auto simp: is_unique_iff intro: filter_cong)
  qed
qed

lemma get_uniques_keys: "map (key attrs) (get_uniques attrs data) = first_occs (map (key attrs) data)"
  by (simp add: get_uniques_def uniques_loop_keys)

lemma uniques_loop_subset: "set (uniques_loop attrs out rs) \<subseteq> set out \<union> set rs"
proof (induction rs arbitrary: out)
  case Nil
  then show ?case by simp
next
  case (Cons r rs)
  show ?case using Cons.IH [of "if is_unique attrs out r then out @ [r] else out"] by auto
qed

lemma get_uniques_subset: "set (get_uniques attrs data) \<subseteq> set data"
  using uniques_loop_subset [of attrs "[]" data] by (simp add: get_uniques_def)

section \<open>One pass over the rows computes every group's fold\<close>

text \<open>
  The interface behind both aggregate scans: a table of entries with distinct keys, and a step
  that keeps the key of the entry it changes. Applying a row to the entry with its key, row after
  row, leaves in every entry the fold of the rows of that key.
\<close>

locale keyed_fold =
  fixes gk :: "'g \<Rightarrow> 'k" and rk :: "'r \<Rightarrow> 'k" and step :: "'r \<Rightarrow> 'g \<Rightarrow> 'g"
  assumes step_key: "gk (step r g) = gk g"
begin

lemma fold_key: "gk (fold step rs g) = gk g"
  by (induction rs arbitrary: g) (auto simp: step_key)

lemma map_key_update: "k < length gs \<Longrightarrow> map gk (gs[k := step r (gs ! k)]) = map gk gs"
  by (simp add: map_update step_key list_update_same_conv)

lemma scatter_hit:
  assumes "distinct (map gk gs)" "k < length gs" "gk (gs ! k) = rk r" "P r"
  shows "map (\<lambda>g. fold step (filter (\<lambda>x. P x \<and> rk x = gk g) (r # rs)) g) gs =
    map (\<lambda>g. fold step (filter (\<lambda>x. P x \<and> rk x = gk g) rs) g) (gs[k := step r (gs ! k)])"
proof (rule nth_equalityI)
  fix j assume "j < length (map (\<lambda>g. fold step (filter (\<lambda>x. P x \<and> rk x = gk g) (r # rs)) g) gs)"
  then have j: "j < length gs" by simp
  show "map (\<lambda>g. fold step (filter (\<lambda>x. P x \<and> rk x = gk g) (r # rs)) g) gs ! j =
    map (\<lambda>g. fold step (filter (\<lambda>x. P x \<and> rk x = gk g) rs) g) (gs[k := step r (gs ! k)]) ! j"
  proof (cases "j = k")
    case True
    with j assms show ?thesis by (simp add: step_key)
  next
    case False
    then have "gk (gs ! j) \<noteq> rk r"
      using nth_eq_iff_index_eq [OF assms(1), of j k] assms(2,3) j by auto
    with j False show ?thesis by simp
  qed
qed simp

lemma scatter_miss:
  "\<not> P r \<Longrightarrow> map (\<lambda>g. fold step (filter (\<lambda>x. P x \<and> rk x = gk g) (r # rs)) g) gs =
     map (\<lambda>g. fold step (filter (\<lambda>x. P x \<and> rk x = gk g) rs) g) gs"
  by simp

end

text \<open>The statement of an aggregate in exact integers; a string counts as 0.\<close>

definition col_int :: "val \<Rightarrow> int" where
  "col_int v = (case v of IntV i \<Rightarrow> i | StrV _ \<Rightarrow> 0)"

definition agg_exact :: "aggregate \<Rightarrow> row \<Rightarrow> gstruct \<Rightarrow> gstruct" where
  "agg_exact a r g =
     (let field = toVar a; v = col_int (r (acol a)); old = gplain g field in
      if func a = ''avg'' \<or> func a = ''AVG'' then g\<lparr>gavg := (gavg g)(field := avg_exact v (gavg g field))\<rparr>
      else if func a = ''sum'' \<or> func a = ''SUM'' then set_plain field (old + v) g
      else if func a = ''count'' \<or> func a = ''COUNT'' then set_plain field (old + 1) g
      else if func a = ''min'' \<or> func a = ''MIN'' then (if old > v then set_plain field v g else g)
      else if func a = ''max'' \<or> func a = ''MAX'' then (if old < v then set_plain field v g else g)
      else g)"

lemma set_plain_simps [simp]:
  "gplain (set_plain f v g) = (gplain g)(f := v)" "gavg (set_plain f v g) = gavg g" "gkey (set_plain f v g) = gkey g"
  by (simp_all add: set_plain_def)

definition row_step :: "aggregate list \<Rightarrow> row \<Rightarrow> gstruct \<Rightarrow> gstruct" where
  "row_step aggs r g = fold (\<lambda>a. agg_exact a r) aggs g"

lemma agg_exact_gkey [simp]: "gkey (agg_exact a r g) = gkey g"
  by (simp add: agg_exact_def Let_def)

lemma row_step_gkey [simp]: "gkey (row_step aggs r g) = gkey g"
  by (induction aggs arbitrary: g) (auto simp: row_step_def)

interpretation scan: keyed_fold "\<lambda>g. key attrs (gkey g)" "key attrs" "row_step aggs"
  for attrs aggs
  by unfold_locales simp

definition is_sum :: "aggregate \<Rightarrow> bool" where
  "is_sum a \<longleftrightarrow> func a = ''sum'' \<or> func a = ''SUM''"

definition is_count :: "aggregate \<Rightarrow> bool" where
  "is_count a \<longleftrightarrow> func a = ''count'' \<or> func a = ''COUNT''"

definition is_min :: "aggregate \<Rightarrow> bool" where
  "is_min a \<longleftrightarrow> func a = ''min'' \<or> func a = ''MIN''"

definition is_max :: "aggregate \<Rightarrow> bool" where
  "is_max a \<longleftrightarrow> func a = ''max'' \<or> func a = ''MAX''"

lemmas func_kind_defs = is_avg_def is_sum_def is_count_def is_min_def is_max_def

lemma agg_exact_other:
  "toVar a \<noteq> v \<Longrightarrow> gplain (agg_exact a r g) v = gplain g v \<and> gavg (agg_exact a r g) v = gavg g v"
  by (simp add: agg_exact_def Let_def)

lemma fold_agg_exact_other:
  "v \<notin> toVar ` set aggs \<Longrightarrow>
     gplain (fold (\<lambda>a. agg_exact a r) aggs g) v = gplain g v
   \<and> gavg (fold (\<lambda>a. agg_exact a r) aggs g) v = gavg g v"
  by (induction aggs arbitrary: g) (auto simp: agg_exact_other)

text \<open>One row changes the members of an aggregate as that aggregate's statement alone does.\<close>

lemma row_step_member:
  assumes "distinct (map toVar aggs)" "a \<in> set aggs"
  shows "gplain (row_step aggs r g) (toVar a) = gplain (agg_exact a r g) (toVar a)
    \<and> gavg (row_step aggs r g) (toVar a) = gavg (agg_exact a r g) (toVar a)"
proof -
  from assms(2) obtain us vs where split: "aggs = us @ a # vs" by (meson split_list)
  with assms(1) have "toVar a \<notin> toVar ` set us" "toVar a \<notin> toVar ` set vs" by auto
  then show ?thesis
    using fold_agg_exact_other [of "toVar a" us r g]
      fold_agg_exact_other [of "toVar a" vs r "agg_exact a r (fold (\<lambda>a. agg_exact a r) us g)"]
    by (simp add: split row_step_def) (simp add: agg_exact_def Let_def)
qed

section \<open>Room in the members\<close>

text \<open>
  The members have room for the rows still to come: the columns are integers (for \<^verbatim>\<open>count\<close> any), and
  neither a sum nor a count leaves its type, whatever rows are chosen among them. Then the checked statement
  does what the exact one does, and there is room for the rest.
\<close>

abbreviation col_vals :: "aggregate \<Rightarrow> row list \<Rightarrow> int list" where
  "col_vals a rs \<equiv> map (\<lambda>r. col_int (r (acol a))) rs"

definition int_column :: "aggregate \<Rightarrow> row \<Rightarrow> bool" where
  "int_column a r \<longleftrightarrow> func a = ''count'' \<or> (case r (acol a) of IntV _ \<Rightarrow> True | StrV _ \<Rightarrow> False)"

definition room :: "row list \<Rightarrow> gstruct \<Rightarrow> aggregate \<Rightarrow> bool" where
  "room rs g a \<longleftrightarrow> list_all (int_column a) rs
     \<and> (is_avg a \<longrightarrow> avg_room (col_vals a rs) (gavg g (toVar a)))
     \<and> (is_sum a \<longrightarrow> \<bar>gplain g (toVar a)\<bar> + sum_list (map abs (col_vals a rs)) < 2 ^ 63)
     \<and> (is_count a \<longrightarrow> 0 \<le> gplain g (toVar a) \<and> gplain g (toVar a) + int (length rs) < 2 ^ 63)"

lemma room_cong:
  "gplain g (toVar a) = gplain h (toVar a) \<Longrightarrow> gavg g (toVar a) = gavg h (toVar a) \<Longrightarrow> room rs g a = room rs h a"
  by (simp add: room_def)

lemma room_less: "room (r # rs) g a \<Longrightarrow> room rs g a"
  using avg_room_less [of "col_int (r (acol a))" "col_vals a rs"]
  unfolding room_def list.map sum_list.Cons list.size list.pred_inject by (intro conjI impI) (blast | linarith)+

lemma int_member_column: "int_column a r \<Longrightarrow> func a \<noteq> ''count'' \<Longrightarrow> int_member (r (acol a)) = Inr (col_int (r (acol a)))"
  by (simp add: int_column_def int_member_def col_int_def split: val.splits)

lemma as_int64_abs: "\<bar>i\<bar> < 2 ^ 63 \<Longrightarrow> as_int64 i = Inr i"
  by (simp add: as_int64_def in_int64_def abs_less_iff)

lemma agg_step_room:
  assumes "room (r # rs) g a"
  shows "agg_step a r g = Inr (agg_exact a r g)"
proof -
  let ?v = "col_int (r (acol a))" and ?old = "gplain g (toVar a)"
  have n: "0 \<le> sum_list (map abs (col_vals a rs))" by (rule sum_list_nonneg) auto
  have m: "func a \<noteq> ''count'' \<Longrightarrow> int_member (r (acol a)) = Inr ?v"
    using assms int_member_column by (simp add: room_def)
  have "is_avg a \<Longrightarrow> avg_add ?v (gavg g (toVar a)) = Inr (avg_exact ?v (gavg g (toVar a)))"
    using assms avg_add_room [of ?v "col_vals a rs"] by (simp add: room_def)
  moreover have "is_sum a \<Longrightarrow> as_int64 (?old + ?v) = Inr (?old + ?v)"
    using assms n unfolding room_def list.map sum_list.Cons by (intro as_int64_abs) linarith
  moreover have "is_count a \<Longrightarrow> as_int64 (?old + 1) = Inr (?old + 1)"
    using assms unfolding room_def list.size by (intro as_int64_abs) linarith
  ultimately show ?thesis using m by (simp add: agg_step_def agg_exact_def Let_def func_kind_defs)
qed

lemma room_step:
  assumes "room (r # rs) g a"
  shows "room rs (agg_exact a r g) a"
proof -
  let ?v = "col_int (r (acol a))" and ?old = "gplain g (toVar a)" and ?g = "agg_exact a r g"
  have "is_avg a \<Longrightarrow> gavg ?g (toVar a) = avg_exact ?v (gavg g (toVar a))"
    by (simp add: agg_exact_def is_avg_def Let_def)
  then have "is_avg a \<Longrightarrow> avg_room (col_vals a rs) (gavg ?g (toVar a))"
    using assms avg_add_room [of ?v "col_vals a rs"] by (simp add: room_def)
  moreover have "is_sum a \<Longrightarrow> gplain ?g (toVar a) = ?old + ?v" by (auto simp: agg_exact_def is_sum_def Let_def)
  then have "is_sum a \<Longrightarrow> \<bar>gplain ?g (toVar a)\<bar> + sum_list (map abs (col_vals a rs)) < 2 ^ 63"
    using assms unfolding room_def list.map sum_list.Cons by linarith
  moreover have "is_count a \<Longrightarrow> gplain ?g (toVar a) = ?old + 1" by (auto simp: agg_exact_def is_count_def Let_def)
  then have "is_count a \<Longrightarrow> 0 \<le> gplain ?g (toVar a) \<and> gplain ?g (toVar a) + int (length rs) < 2 ^ 63"
    using assms by (simp add: room_def)
  ultimately show ?thesis using assms by (simp add: room_def)
qed

definition roomy :: "aggregate list \<Rightarrow> row list \<Rightarrow> gstruct \<Rightarrow> bool" where
  "roomy aggs rs g \<longleftrightarrow> distinct (map toVar aggs) \<and> list_all (room rs g) aggs"

lemma roomy_less: "roomy aggs (r # rs) g \<Longrightarrow> roomy aggs rs g"
  by (auto simp: roomy_def list_all_iff intro: room_less)

lemma roomy_step: "roomy aggs (r # rs) g \<Longrightarrow> roomy aggs rs (row_step aggs r g)"
  unfolding roomy_def list_all_iff by (metis row_step_member room_cong room_step)

lemma apply_aggs_eq:
  "i < length D \<Longrightarrow> p < length (D ! i) \<Longrightarrow> list_all (\<lambda>a. group a = int i) aggs \<Longrightarrow>
     roomy aggs (r # rs) (D ! i ! p) \<Longrightarrow>
     apply_aggs aggs r (int p) D = Inr (D[i := (D ! i)[p := row_step aggs r (D ! i ! p)]])"
proof (induction aggs arbitrary: D)
  case Nil
  then show ?case by (simp add: row_step_def)
next
  case (Cons a as)
  let ?D = "D[i := (D ! i)[p := agg_exact a r (D ! i ! p)]]"
  have "agg_step a r (D ! i ! p) = Inr (agg_exact a r (D ! i ! p))"
    using Cons.prems(4) by (intro agg_step_room [of _ rs]) (simp add: roomy_def)
  then have "apply_aggs (a # as) r (int p) D = apply_aggs as r (int p) ?D"
    using Cons.prems by (simp add: update_group_def)
  also have "\<dots> = Inr (?D[i := (?D ! i)[p := row_step as r (?D ! i ! p)]])"
  proof (rule Cons.IH)
    have "room (r # rs) (agg_exact a r (D ! i ! p)) b" if "b \<in> set as" for b
      using that Cons.prems(4) agg_exact_other [of a "toVar b" r "D ! i ! p"]
      by (subst room_cong [of _ _ "D ! i ! p"]) (auto simp: roomy_def list_all_iff)
    then show "roomy as (r # rs) (?D ! i ! p)" using Cons.prems by (simp add: roomy_def list_all_iff)
  qed (use Cons.prems in auto)
  finally show ?case using Cons.prems by (simp add: row_step_def)
qed

lemma vfind_from_hit:
  "distinct (map (\<lambda>g. key attrs (gkey g)) gs) \<Longrightarrow> k < length gs \<Longrightarrow>
     key attrs r = key attrs (gkey (gs ! k)) \<Longrightarrow> vfind_from attrs gs r idx = idx + int k"
proof (induction gs arbitrary: k idx)
  case Nil
  then show ?case by simp
next
  case (Cons g gs)
  show ?case
  proof (cases k)
    case 0
    with Cons.prems show ?thesis by (simp add: key_eq_iff)
  next
    case (Suc j)
    with Cons.prems have "key attrs r \<in> (\<lambda>g. key attrs (gkey g)) ` set gs" by auto
    with Cons.prems(1) have "key attrs r \<noteq> key attrs (gkey g)" by auto
    with Cons Suc show ?thesis by (simp add: key_eq_iff)
  qed
qed

lemma vfind_hit:
  "distinct (map (\<lambda>g. key attrs (gkey g)) gs) \<Longrightarrow> k < length gs \<Longrightarrow>
     key attrs r = key attrs (gkey (gs ! k)) \<Longrightarrow> vfind attrs gs r = int k"
  by (simp add: vfind_def vfind_from_hit)

lemma vfind_from_miss:
  "key attrs r \<notin> (\<lambda>g. key attrs (gkey g)) ` set gs \<Longrightarrow> vfind_from attrs gs r idx = - 1"
  by (induction gs arbitrary: idx) (auto simp: key_eq_iff)

lemma vfind_miss: "key attrs r \<notin> (\<lambda>g. key attrs (gkey g)) ` set gs \<Longrightarrow> vfind attrs gs r = - 1"
  by (simp add: vfind_def vfind_from_miss)

text \<open>A condition that does not read the data of grouping variable \<open>i\<close>.\<close>

definition frame :: "nat \<Rightarrow> (groups \<Rightarrow> 'b) \<Rightarrow> bool" where
  "frame i f \<longleftrightarrow> (\<forall>D gs. f (D[i := gs]) = f D)"

lemma frameD: "frame i f \<Longrightarrow> f (D[i := gs]) = f D"
  by (simp add: frame_def)

definition group_rows :: "string list \<Rightarrow> (row \<Rightarrow> bool) \<Rightarrow> row list \<Rightarrow> row \<Rightarrow> row list" where
  "group_rows attrs P rows u = filter (\<lambda>r. P r \<and> key attrs r = key attrs u) rows"

text \<open>
  A condition has the value \<open>c\<close> on the rows \<open>R\<close>, whatever the data of the \<open>n\<close> grouping variables are.
\<close>

definition decided :: "nat \<Rightarrow> 'r set \<Rightarrow> (groups \<Rightarrow> 'r \<Rightarrow> bool res) \<Rightarrow> (groups \<Rightarrow> 'r \<Rightarrow> bool) \<Rightarrow> bool" where
  "decided n R cond c \<longleftrightarrow> (\<forall>D r. length D = n \<longrightarrow> r \<in> R \<longrightarrow> cond D r = Inr (c D r))"

lemma decidedD: "decided n R cond c \<Longrightarrow> length D = n \<Longrightarrow> r \<in> R \<Longrightarrow> cond D r = Inr (c D r)"
  by (simp add: decided_def)

lemma mf_scan_eq:
  assumes "i < length D" "distinct (map (\<lambda>g. key attrs (gkey g)) (D ! i))"
    and "key attrs ` set rows \<subseteq> (\<lambda>g. key attrs (gkey g)) ` set (D ! i)"
    and "\<forall>g \<in> set (D ! i). roomy aggs rows g" "length D = n" "set rows \<subseteq> R"
    and "list_all (\<lambda>a. group a = int i) aggs" "frame i c" "decided n R cond c"
  shows "mf_scan attrs cond i aggs rows D =
    Inr (D[i := map (\<lambda>g. fold (row_step aggs) (group_rows attrs (c D) rows (gkey g)) g) (D ! i)])"
  using assms(1-6)
proof (induction rows arbitrary: D)
  case Nil
  then show ?case by (simp add: group_rows_def)
next
  case (Cons r rows)
  have cr: "cond D r = Inr (c D r)" using Cons.prems(5,6) by (intro decidedD [OF assms(9)]) auto
  show ?case
  proof (cases "c D r")
    case False
    have "\<forall>g \<in> set (D ! i). roomy aggs rows g" using Cons.prems(4) roomy_less by blast
    with False Cons cr show ?thesis by (simp add: group_rows_def)
  next
    case True
    from Cons.prems(3) obtain k where k: "k < length (D ! i)"
      "key attrs (gkey (D ! i ! k)) = key attrs r" by (auto simp: in_set_conv_nth)
    let ?gs = "(D ! i)[k := row_step aggs r (D ! i ! k)]"
    let ?D = "D[i := ?gs]"
    have nth: "?D ! i = ?gs" using Cons.prems(1) by simp
    have keys: "map (\<lambda>g. key attrs (gkey g)) ?gs = map (\<lambda>g. key attrs (gkey g)) (D ! i)"
      using k(1) by (rule scan.map_key_update)
    have vf: "vfind attrs (D ! i) r = int k"
      using Cons.prems(2) k by (intro vfind_hit) auto
    have "mf_scan attrs cond i aggs (r # rows) D = mf_scan attrs cond i aggs rows ?D"
      using True Cons.prems(1,4) k(1) assms(7) by (simp add: cr vf apply_aggs_eq [where rs = rows])
    also have "\<dots> = Inr (?D[i := map (\<lambda>g. fold (row_step aggs)
          (group_rows attrs (c ?D) rows (gkey g)) g) (?D ! i)])"
    proof (rule Cons.IH)
      show "i < length ?D" using Cons.prems(1) by simp
      show "distinct (map (\<lambda>g. key attrs (gkey g)) (?D ! i))"
        using Cons.prems(2) by (simp only: nth keys)
      have "(\<lambda>g. key attrs (gkey g)) ` set ?gs = (\<lambda>g. key attrs (gkey g)) ` set (D ! i)"
        using arg_cong [OF keys, of set] by simp
      with Cons.prems(3) show "key attrs ` set rows \<subseteq> (\<lambda>g. key attrs (gkey g)) ` set (?D ! i)"
        by (simp only: nth) auto
      have "roomy aggs rows (row_step aggs r (D ! i ! k))" using Cons.prems(4) k(1) by (simp add: roomy_step)
      moreover have "\<forall>g \<in> set (D ! i). roomy aggs rows g" using Cons.prems(4) roomy_less by blast
      ultimately show "\<forall>g \<in> set (?D ! i). roomy aggs rows g"
        unfolding nth by (auto dest!: set_update_subset_insert [THEN subsetD])
      show "length ?D = n" "set rows \<subseteq> R" using Cons.prems(5,6) by simp_all
    qed
    also have "\<dots> = Inr (D[i := map (\<lambda>g. fold (row_step aggs)
          (group_rows attrs (c D) (r # rows) (gkey g)) g) (D ! i)])"
      using scan.scatter_hit [where P = "c D" and rs = rows, OF Cons.prems(2) k True]
      by (simp only: nth list_update_overwrite frameD [OF assms(8)] group_rows_def)
    finally show ?thesis .
  qed
qed

section \<open>All grouping variables\<close>

text \<open>
  The condition of grouping variable \<open>i\<close> may read the data of the variables before it: \<open>early i\<close>
  says it reads nothing else.
\<close>

definition early :: "nat \<Rightarrow> (groups \<Rightarrow> 'b) \<Rightarrow> bool" where
  "early i f \<longleftrightarrow> (\<forall>D D'. length D = length D' \<and> take i D = take i D' \<longrightarrow> f D = f D')"

lemma earlyD: "early i f \<Longrightarrow> length D = length D' \<Longrightarrow> take i D = take i D' \<Longrightarrow> f D = f D'"
  unfolding early_def by blast

lemma early_frame: "early i f \<Longrightarrow> i \<le> j \<Longrightarrow> frame j f"
  unfolding frame_def by (intro allI, erule earlyD) simp_all

definition scanned :: "string list \<Rightarrow> (groups \<Rightarrow> row \<Rightarrow> bool) \<Rightarrow> aggregate list \<Rightarrow> row list \<Rightarrow> groups \<Rightarrow> gstruct list \<Rightarrow> gstruct list" where
  "scanned attrs cond aggs rows D gs =
     map (\<lambda>g. fold (row_step aggs) (group_rows attrs (cond D) rows (gkey g)) g) gs"

definition table_ok :: "string list \<Rightarrow> row list \<Rightarrow> gstruct list \<Rightarrow> bool" where
  "table_ok attrs rows gs \<longleftrightarrow> distinct (map (\<lambda>g. key attrs (gkey g)) gs)
     \<and> key attrs ` set rows \<subseteq> (\<lambda>g. key attrs (gkey g)) ` set gs"

lemma run_scans_eq:
  assumes step: "\<And>i xt D. i < length D \<Longrightarrow> length D = n \<Longrightarrow> ok i xt (D ! i) \<Longrightarrow> f i xt D = Inr (D[i := res i xt D (D ! i)])"
    and res: "\<And>i. early i (res' i)" "\<And>i xt D. res i xt D = res' i D xt"
  shows "length D = n \<Longrightarrow> length D = i + length xts \<Longrightarrow> (\<And>j. j < length xts \<Longrightarrow> ok (i + j) (xts ! j) (D ! (i + j))) \<Longrightarrow>
    \<exists>D'. run_scans f i xts D = Inr D' \<and> length D' = length D \<and> take i D' = take i D
      \<and> (\<forall>j < length xts. D' ! (i + j) = res (i + j) (xts ! j) D' (D ! (i + j)))"
proof (induction xts arbitrary: i D)
  case Nil
  then show ?case by simp
next
  case (Cons xt xts)
  let ?gs = "res i xt D (D ! i)"
  let ?D = "D[i := ?gs]"
  have i: "i < length D" using Cons.prems(2) by simp
  have st: "f i xt D = Inr ?D" using step [OF i Cons.prems(1)] Cons.prems(3) [of 0] by simp
  obtain D' where D': "run_scans f (i + 1) xts ?D = Inr D'" "length D' = length ?D"
    "take (i + 1) D' = take (i + 1) ?D"
    "\<forall>j < length xts. D' ! (i + 1 + j) = res (i + 1 + j) (xts ! j) D' (?D ! (i + 1 + j))"
  proof -
    have "length ?D = i + 1 + length xts" using Cons.prems(2) by simp
    moreover have "ok (i + 1 + j) (xts ! j) (?D ! (i + 1 + j))" if "j < length xts" for j
      using Cons.prems(3) [of "Suc j"] that by simp
    moreover have "length ?D = n" using Cons.prems(1) by simp
    ultimately show thesis using Cons.IH [of ?D "i + 1"] that by blast
  qed
  have t: "take i D' = take i D"
    using arg_cong [OF D'(3), of "take i"] by simp
  have di: "D' ! i = ?gs"
    using arg_cong [OF D'(3), of "\<lambda>xs. xs ! i"] i D'(2) by simp
  have "res' i D' = res' i D"
    using D'(2) by (intro earlyD [OF res(1)] t) simp
  then have "D' ! i = res i xt D' (D ! i)" by (simp only: di res(2))
  then have "D' ! (i + j) = res (i + j) ((xt # xts) ! j) D' (D ! (i + j))"
    if "j < length (xt # xts)" for j
    using that D'(4) by (cases j) auto
  with st D' t show ?case by auto
qed

lemma early_fun: "early i f \<Longrightarrow> early i (\<lambda>D. h (f D))"
  unfolding early_def by metis

lemma mf_scans_eq:
  assumes "\<And>j. early j (c j)" "length D = length xts"
    and "\<And>j. j < length xts \<Longrightarrow> table_ok attrs rows (D ! j)"
    and "\<And>j. j < length xts \<Longrightarrow> list_all (\<lambda>a. group a = int j) (xts ! j)"
    and "\<And>j. j < length xts \<Longrightarrow> \<forall>g \<in> set (D ! j). roomy (xts ! j) rows g"
    and "\<And>j. j < length xts \<Longrightarrow> decided (length xts) (set rows) (cond j) (c j)"
  shows "\<exists>D'. mf_scans attrs cond xts rows D = Inr D' \<and> length D' = length D
      \<and> (\<forall>j < length xts. D' ! j = scanned attrs (c j) (xts ! j) rows D' (D ! j))"
proof -
  let ?ok = "\<lambda>i xt gs. table_ok attrs rows gs \<and> list_all (\<lambda>a. group a = int i) xt \<and> (\<forall>g \<in> set gs. roomy xt rows g)"
  let ?res = "\<lambda>i xt. scanned attrs (c i) xt rows"
  have st: "mf_scan attrs (cond i) i xt rows D = Inr (D[i := ?res i xt D (D ! i)])"
    if "i < length D" "length D = length xts" "?ok i xt (D ! i)" for i xt D
    using that early_frame [OF assms(1), of i i] assms(6) [of i]
      mf_scan_eq [of i D attrs rows xt "length xts" "set rows" "c i" "cond i"]
    by (simp add: scanned_def table_ok_def)
  have "\<exists>D'. run_scans (\<lambda>i xt. mf_scan attrs (cond i) i xt rows) 0 xts D = Inr D'
      \<and> length D' = length D \<and> take 0 D' = take 0 D
      \<and> (\<forall>j < length xts. D' ! (0 + j) = ?res (0 + j) (xts ! j) D' (D ! (0 + j)))"
  proof (rule run_scans_eq [where ok = ?ok and n = "length xts"])
    show "early i (\<lambda>D xt gs. ?res i xt D gs)" for i
      unfolding scanned_def by (rule early_fun [OF assms(1)])
  qed (use st assms in auto)
  then show ?thesis by (simp add: mf_scans_def)
qed

section \<open>Filling the result\<close>

lemma fill_loop_eq:
  assumes "\<And>e. e \<in> set (drop i mf) \<Longrightarrow> 0 \<le> vfind attrs (D ! 0) (mkey e)"
    and "\<And>e. e \<in> set (drop i mf) \<Longrightarrow> hv D (vfind attrs (D ! 0) (mkey e)) = Inr (h e)"
    and "\<And>e. e \<in> set (drop i mf) \<Longrightarrow> h e \<Longrightarrow> fill_aggrs aggs D (vfind attrs (D ! 0) (mkey e)) e = Inr (f e)"
    and "i \<le> length mf" "i = 0 \<Longrightarrow> mf \<noteq> [] \<Longrightarrow> h (mf ! 0)"
  shows "fill_loop attrs hv aggs D i mf = Inr (take i mf @ map f (filter h (drop i mf)))"
  using assms
proof (induction "length mf - i" arbitrary: i mf)
  case 0
  then show ?case by (simp add: fill_loop.simps [of attrs hv aggs D i])
next
  case (Suc n)
  then have lt: "i < length mf" by simp
  have d: "drop i mf = mf ! i # drop (Suc i) mf" using lt by (simp add: Cons_nth_drop_Suc)
  have e: "mf ! i \<in> set (drop i mf)" by (simp add: d)
  show ?case
  proof (cases "h (mf ! i)")
    case False
    let ?mf = "erase_at i mf"
    have i: "i \<noteq> 0" using Suc.prems(5) False lt by (cases "i = 0") auto
    have dm: "drop i ?mf = drop (Suc i) mf" "take i ?mf = take i mf"
      using lt by (simp_all add: erase_at_def)
    have "fill_loop attrs hv aggs D i mf = fill_loop attrs hv aggs D i ?mf"
      using lt i False Suc.prems(2) [OF e] by (subst fill_loop.simps) (simp add: Let_def)
    also have "\<dots> = Inr (take i ?mf @ map f (filter h (drop i ?mf)))"
      using Suc.prems Suc.hyps(2) lt d by (intro Suc.hyps(1)) (auto simp: i length_erase_at dm)
    finally show ?thesis using False by (simp add: dm d)
  next
    case True
    let ?mf = "mf[i := f (mf ! i)]"
    have dm: "drop (Suc i) ?mf = drop (Suc i) mf" "take (Suc i) ?mf = take i mf @ [f (mf ! i)]"
      using lt by (simp_all add: take_Suc_conv_app_nth)
    have "fill_loop attrs hv aggs D i mf = fill_loop attrs hv aggs D (Suc i) ?mf"
      using lt True Suc.prems(1,2) [OF e] Suc.prems(3) [OF e True]
      by (subst fill_loop.simps) (auto simp: Let_def)
    also have "\<dots> = Inr (take (Suc i) ?mf @ map f (filter h (drop (Suc i) ?mf)))"
      using Suc.prems Suc.hyps(2) lt d by (intro Suc.hyps(1)) (auto simp: dm)
    finally show ?thesis using True by (simp add: dm d)
  qed
qed

lemma fill_loop_first:
  assumes "mf \<noteq> []" "hv D (vfind attrs (D ! 0) (mkey (mf ! 0))) = Inr False"
  shows "fill_loop attrs hv aggs D 0 mf = Inl Undefined_behaviour"
  using assms by (subst fill_loop.simps) (simp add: Let_def)

text \<open>The aggregate members of a result row, as a function of the final group data.\<close>

definition out_aggrs :: "aggregate list \<Rightarrow> groups \<Rightarrow> nat \<Rightarrow> (string \<Rightarrow> int) \<Rightarrow> (string \<Rightarrow> int)" where
  "out_aggrs aggs D p m =
     fold (\<lambda>a m. case toABSVar a of Inl _ \<Rightarrow> m | Inr v \<Rightarrow> m(v := aggr_value a (D ! nat (group a) ! p))) aggs m"

definition aggr_in :: "groups \<Rightarrow> nat \<Rightarrow> aggregate \<Rightarrow> bool" where
  "aggr_in D p a \<longleftrightarrow> aggr_wf a \<and> nat (group a) < length D \<and> p < length (D ! nat (group a))"

lemma fill_aggrs_eq:
  "list_all (aggr_in D p) aggs \<Longrightarrow>
     fill_aggrs aggs D (int p) e = Inr (e\<lparr>maggr := out_aggrs aggs D p (maggr e)\<rparr>)"
proof (induction aggs arbitrary: e)
  case Nil
  then show ?case by (simp add: out_aggrs_def)
next
  case (Cons a as)
  then have a: "aggr_wf a" "nat (group a) < length D" "p < length (D ! nat (group a))"
    by (auto simp: aggr_in_def)
  obtain v where v: "toABSVar a = Inr v" using a(1) by (rule toString_join)
  with Cons a show ?case by (simp add: group_at_def out_aggrs_def)
qed

lemma out_aggrs_other:
  "(\<And>b. b \<in> set aggs \<Longrightarrow> toABSVar b \<noteq> Inr v) \<Longrightarrow> out_aggrs aggs D p m v = m v"
  by (induction aggs arbitrary: m) (auto simp: out_aggrs_def split: sum.splits)

lemma out_aggrs_lookup:
  assumes "list_all aggr_wf aggs" "a \<in> set aggs" "toABSVar a = Inr v"
  shows "out_aggrs aggs D p m v = aggr_value a (D ! nat (group a) ! p)"
  using assms(1,2)
proof (induction aggs arbitrary: m)
  case Nil
  then show ?case by simp
next
  case (Cons b bs)
  show ?case
  proof (cases "a \<in> set bs")
    case True
    with Cons show ?thesis by (simp add: out_aggrs_def split: sum.splits)
  next
    case False
    with Cons.prems have "a = b" by simp
    have "toABSVar c \<noteq> Inr v" if "c \<in> set bs" for c
      using toABSVar_inj [of c a] that False Cons.prems assms(3) by (auto simp: list_all_iff)
    from out_aggrs_other [OF this, of bs D p] assms(3) \<open>a = b\<close> show ?thesis
      by (simp add: out_aggrs_def)
  qed
qed

section \<open>The MF program computes the MF query\<close>

text \<open>
  What the generator and the C++ compiler guarantee of a query: the grouping attributes are among
  the selected columns (they are members of \<^verbatim>\<open>struct mf_structure\<close>), there is a list of aggregates
  with distinct member names per grouping variable, and the selected aggregates refer to existing
  grouping variables.
\<close>

definition query_ok :: "query \<Rightarrow> bool" where
  "query_ok q \<longleftrightarrow> set (q_attrs q) \<subseteq> set (q_select q) \<and> length (q_aggs q) = q_vars q + 1
     \<and> (\<forall>i < length (q_aggs q). list_all (\<lambda>a. group a = int i) (q_aggs q ! i)
          \<and> distinct (map toVar (q_aggs q ! i)))
     \<and> list_all (\<lambda>a. aggr_wf a \<and> 0 \<le> group a \<and> group a \<le> int (q_vars q)) (q_out q)"

text \<open>
  The table fits: at most \<open>INT_MAX\<close> rows, the columns of aggregates are integers (for \<^verbatim>\<open>count\<close> any), and
  the absolute values of a column that is summed add up to less than \<open>2 ^ 63\<close>.
\<close>

definition agg_fits :: "row list \<Rightarrow> aggregate \<Rightarrow> bool" where
  "agg_fits rs a \<longleftrightarrow> list_all (int_column a) rs
     \<and> (is_avg a \<or> is_sum a \<longrightarrow> sum_list (map abs (col_vals a rs)) < 2 ^ 63)"

definition data_fits :: "query \<Rightarrow> row list \<Rightarrow> bool" where
  "data_fits q data \<longleftrightarrow> int (length data) \<le> INT_MAX \<and> list_all (list_all (agg_fits data)) (q_aggs q)"

lemma fits_roomy:
  assumes "query_ok q" "data_fits q data" "i < length (q_aggs q)"
  shows "roomy (q_aggs q ! i) data (new_gstruct select u)"
proof -
  have "distinct (map toVar (q_aggs q ! i))" using assms(1,3) by (simp add: query_ok_def)
  moreover have "list_all (agg_fits data) (q_aggs q ! i)" using assms(2,3) by (simp add: data_fits_def list_all_length)
  ultimately show ?thesis using assms(2)
    by (simp add: roomy_def list_all_iff room_def agg_fits_def data_fits_def new_gstruct_def avg_new_def avg_room_def)
qed

lemma key_copy_columns: "set attrs \<subseteq> set select \<Longrightarrow> key attrs (copy_columns select r) = key attrs r"
  by (auto simp: key_def copy_columns_def)

lemma gkey_new_gstruct [simp]: "gkey (new_gstruct select r) = copy_columns select r"
  by (simp add: new_gstruct_def)

lemma uniques_keys_distinct: "distinct (map (key attrs) (get_uniques attrs data))"
  by (simp add: get_uniques_keys)

lemma uniques_keys_cover: "key attrs ` set (get_uniques attrs data) = key attrs ` set data"
  using arg_cong [OF get_uniques_keys [of attrs data], of set] by simp

lemma prelim_table_ok:
  assumes "set attrs \<subseteq> set select"
  shows "table_ok attrs data (map (new_gstruct select) (get_uniques attrs data))"
proof -
  have m: "map (\<lambda>g. key attrs (gkey g)) (map (new_gstruct select) U) = map (key attrs) U" for U
    using assms by (simp add: key_copy_columns)
  have "(\<lambda>g. key attrs (gkey g)) ` set (map (new_gstruct select) U) = key attrs ` set U" for U
    using arg_cong [OF m [of U], of set] by (simp only: set_map)
  then show ?thesis
    unfolding table_ok_def m by (simp add: uniques_keys_distinct uniques_keys_cover)
qed

text \<open>The group data after the second scan.\<close>

definition mf_final :: "query \<Rightarrow> (nat \<Rightarrow> groups \<Rightarrow> row \<Rightarrow> bool) \<Rightarrow> row list \<Rightarrow> groups \<Rightarrow> bool" where
  "mf_final q cond data D \<longleftrightarrow> length D = q_vars q + 1 \<and>
     (\<forall>i \<le> q_vars q. D ! i = scanned (q_attrs q) (cond i) (q_aggs q ! i) data D
        (map (new_gstruct (q_select q)) (get_uniques (q_attrs q) data)))"

lemma mf_scans_final:
  assumes "query_ok q" "\<And>j. early j (c j)" "data_fits q data"
    and "\<And>j. j \<le> q_vars q \<Longrightarrow> decided (q_vars q + 1) (set data) (cond j) (c j)"
  shows "\<exists>D. mf_scans (q_attrs q) cond (q_aggs q) data
      (replicate (q_vars q + 1) (map (new_gstruct (q_select q)) (get_uniques (q_attrs q) data))) = Inr D
    \<and> mf_final q c data D"
proof -
  let ?D = "replicate (q_vars q + 1) (map (new_gstruct (q_select q)) (get_uniques (q_attrs q) data))"
  have "length ?D = length (q_aggs q)" using assms(1) by (simp add: query_ok_def)
  moreover have "table_ok (q_attrs q) data (?D ! j)" if "j < length (q_aggs q)" for j
    using that assms(1) by (simp add: query_ok_def prelim_table_ok del: replicate.simps)
  moreover have "list_all (\<lambda>a. group a = int j) (q_aggs q ! j)" if "j < length (q_aggs q)" for j
    using that assms(1) by (simp add: query_ok_def)
  moreover have "\<forall>g \<in> set (?D ! j). roomy (q_aggs q ! j) data g" if "j < length (q_aggs q)" for j
    using that assms(1) fits_roomy [OF assms(1,3) that] by (auto simp: query_ok_def simp del: replicate.simps)
  moreover have "decided (length (q_aggs q)) (set data) (cond j) (c j)" if "j < length (q_aggs q)" for j
    using that assms(1) assms(4) [of j] by (simp add: query_ok_def)
  ultimately obtain D where "mf_scans (q_attrs q) cond (q_aggs q) data ?D = Inr D"
    "length D = length ?D"
    "\<forall>j < length (q_aggs q). D ! j = scanned (q_attrs q) (c j) (q_aggs q ! j) data D (?D ! j)"
    using mf_scans_eq [of c ?D "q_aggs q" "q_attrs q" data cond, OF assms(2)] by blast
  then show ?thesis using assms(1)
    by (intro exI [of _ D]) (simp add: mf_final_def query_ok_def less_Suc_eq_le del: replicate.simps)
qed

definition mf_result :: "query \<Rightarrow> row list \<Rightarrow> groups \<Rightarrow> mfstruct list" where
  "mf_result q uniques D =
     map (\<lambda>p. \<lparr>mkey = copy_columns (q_select q) (uniques ! p), maggr = out_aggrs (q_out q) D p (\<lambda>_. 0)\<rparr>)
       (filter (\<lambda>p. q_having q D (int p) = Inr True) [0..<length uniques])"

text \<open>What the third scan leaves: when the first entry is rejected, the iterator steps before the vector.\<close>

definition mf_outcome :: "query \<Rightarrow> row list \<Rightarrow> groups \<Rightarrow> mfstruct list res" where
  "mf_outcome q uniques D =
     (if uniques \<noteq> [] \<and> q_having q D 0 = Inr False then Inl Undefined_behaviour else Inr (mf_result q uniques D))"

definition having_total :: "query \<Rightarrow> nat \<Rightarrow> bool" where
  "having_total q n \<longleftrightarrow> (\<forall>D. \<forall>p < n. \<exists>b. q_having q D (int p) = Inr b)"

text \<open>The third scan, on group data aligned with the distinct keys.\<close>

definition aligned :: "query \<Rightarrow> row list \<Rightarrow> groups \<Rightarrow> bool" where
  "aligned q uniques D \<longleftrightarrow> length D = q_vars q + 1 \<and>
     (\<forall>i \<le> q_vars q. map gkey (D ! i) = map (copy_columns (q_select q)) uniques)"

lemma fill_result:
  assumes "query_ok q" "aligned q uniques D" "having_total q (length uniques)"
    and "distinct (map (key (q_attrs q)) uniques)"
  shows "fill_loop (q_attrs q) (q_having q) (q_out q) D 0 (map (new_mfstruct (q_select q)) uniques)
    = mf_outcome q uniques D"
proof -
  let ?attrs = "q_attrs q" and ?sel = "q_select q" and ?n = "length uniques"
  let ?mf = "map (new_mfstruct ?sel) uniques"
  have sub: "set ?attrs \<subseteq> set ?sel" using assms(1) by (simp add: query_ok_def)
  have len: "length (D ! i) = ?n" if "i \<le> q_vars q" for i
    using assms(2) that by (metis aligned_def length_map)
  have keys: "map (\<lambda>g. key ?attrs (gkey g)) (D ! 0) = map (key ?attrs) uniques"
  proof -
    have "map gkey (D ! 0) = map (copy_columns ?sel) uniques"
      using assms(2) by (simp add: aligned_def)
    from arg_cong [OF this, of "map (key ?attrs)"] show ?thesis
      by (simp add: key_copy_columns [OF sub] comp_def)
  qed
  have vf: "vfind ?attrs (D ! 0) (mkey (?mf ! p)) = int p" if "p < ?n" for p
  proof (rule vfind_hit)
    show "distinct (map (\<lambda>g. key ?attrs (gkey g)) (D ! 0))" using keys assms(4) by simp
    show "p < length (D ! 0)" using len [of 0] that by simp
    then show "key ?attrs (mkey (?mf ! p)) = key ?attrs (gkey (D ! 0 ! p))"
      using arg_cong [OF keys, of "\<lambda>xs. xs ! p"] that
      by (simp add: new_mfstruct_def key_copy_columns [OF sub])
  qed
  let ?pos = "\<lambda>e. nat (vfind ?attrs (D ! 0) (mkey e))"
  let ?h = "\<lambda>e. q_having q D (int (?pos e)) = Inr True"
  let ?f = "\<lambda>e. e\<lparr>maggr := out_aggrs (q_out q) D (?pos e) (maggr e)\<rparr>"
  have idx: "\<exists>p < ?n. e = ?mf ! p" if "e \<in> set ?mf" for e
    using that by (metis in_set_conv_nth length_map)
  show ?thesis
  proof (cases "uniques \<noteq> [] \<and> q_having q D 0 = Inr False")
    case True
    with vf [of 0] have "fill_loop ?attrs (q_having q) (q_out q) D 0 ?mf = Inl Undefined_behaviour"
      by (intro fill_loop_first) auto
    with True show ?thesis by (simp add: mf_outcome_def)
  next
    case False
    have "fill_loop ?attrs (q_having q) (q_out q) D 0 ?mf = Inr (take 0 ?mf @ map ?f (filter ?h (drop 0 ?mf)))"
    proof (rule fill_loop_eq)
      fix e assume "e \<in> set (drop 0 ?mf)"
      then have "e \<in> set ?mf" by (simp only: drop_0)
      then obtain p where p: "p < ?n" "e = ?mf ! p" using idx by blast
      show "0 \<le> vfind ?attrs (D ! 0) (mkey e)" using vf p by simp
      show "q_having q D (vfind ?attrs (D ! 0) (mkey e)) = Inr (?h e)"
        using assms(3) vf [OF p(1)] p by (auto simp: having_total_def) (metis (full_types))
      have "list_all (aggr_in D p) (q_out q)"
        using assms(1,2) len p(1) by (auto simp: query_ok_def aligned_def aggr_in_def list_all_iff)
      then show "fill_aggrs (q_out q) D (vfind ?attrs (D ! 0) (mkey e)) e = Inr (?f e)"
        using vf [OF p(1)] p by (simp add: fill_aggrs_eq)
    next
      assume "?mf \<noteq> []"
      then have "\<exists>b. q_having q D (int 0) = Inr b"
        using assms(3) unfolding having_total_def by (metis length_greater_0_conv map_is_Nil_conv)
      with False \<open>?mf \<noteq> []\<close> vf [of 0] show "?h (?mf ! 0)" by auto
    qed simp
    also have "take 0 ?mf @ map ?f (filter ?h (drop 0 ?mf)) = map ?f (filter ?h (map (\<lambda>p. ?mf ! p) [0..<?n]))"
      by (simp add: map_nth [of ?mf, simplified length_map])
    also have "\<dots> = mf_result q uniques D"
      unfolding mf_result_def filter_map map_map
      by (intro map_cong filter_cong) (auto simp: vf new_mfstruct_def simp del: nth_map, auto simp: new_mfstruct_def)
    finally show ?thesis using False by (auto simp: mf_outcome_def)
  qed
qed

lemma scanned_gkey: "map gkey (scanned attrs cond aggs rows D gs) = map gkey gs"
proof -
  have "gkey (fold (row_step aggs) rs g) = gkey g" for rs g
    by (induction rs arbitrary: g) auto
  then show ?thesis by (simp add: scanned_def)
qed

lemma mf_final_aligned:
  assumes "mf_final q cond data D"
  shows "aligned q (get_uniques (q_attrs q) data) D"
proof -
  have "map gkey (D ! i) = map (copy_columns (q_select q)) (get_uniques (q_attrs q) data)"
    if "i \<le> q_vars q" for i
  proof -
    have "D ! i = scanned (q_attrs q) (cond i) (q_aggs q ! i) data D
        (map (new_gstruct (q_select q)) (get_uniques (q_attrs q) data))"
      using assms that unfolding mf_final_def by blast
    from arg_cong [OF this, of "map gkey"] show ?thesis unfolding scanned_gkey by simp
  qed
  then show ?thesis using assms by (simp add: mf_final_def aligned_def)
qed

lemma run_mf_eq:
  assumes "query_ok q" "\<And>j. early j (c j)" "data_fits q data"
    and "having_total q (length (get_uniques (q_attrs q) data))"
    and "\<And>j. j \<le> q_vars q \<Longrightarrow> decided (q_vars q + 1) (set data) (cond j) (c j)"
  shows "\<exists>D. mf_final q c data D
    \<and> run_mf q cond data = mf_outcome q (get_uniques (q_attrs q) data) D"
proof -
  let ?U = "get_uniques (q_attrs q) data"
  obtain D where D: "mf_scans (q_attrs q) cond (q_aggs q) data
      (replicate (q_vars q + 1) (map (new_gstruct (q_select q)) ?U)) = Inr D" "mf_final q c data D"
    using mf_scans_final [where c = c, OF assms(1-3,5)] by blast
  have "fill_loop (q_attrs q) (q_having q) (q_out q) D 0 (map (new_mfstruct (q_select q)) ?U)
      = mf_outcome q ?U D"
    by (rule fill_result [OF assms(1) mf_final_aligned [OF D(2)] assms(4) uniques_keys_distinct])
  with D show ?thesis by (auto simp: run_mf_def run_prelim_def simp del: replicate.simps)
qed

section \<open>Members of a group after a fold\<close>

lemma agg_exact_cong:
  "gplain g (toVar a) = gplain h (toVar a) \<Longrightarrow> gavg g (toVar a) = gavg h (toVar a) \<Longrightarrow>
     gplain (agg_exact a r g) (toVar a) = gplain (agg_exact a r h) (toVar a)
   \<and> gavg (agg_exact a r g) (toVar a) = gavg (agg_exact a r h) (toVar a)"
  by (simp add: agg_exact_def Let_def)

lemma fold_member:
  assumes "distinct (map toVar aggs)" "a \<in> set aggs"
  shows "gplain (fold (row_step aggs) rs g) (toVar a) = gplain (fold (agg_exact a) rs g) (toVar a)
    \<and> gavg (fold (row_step aggs) rs g) (toVar a) = gavg (fold (agg_exact a) rs g) (toVar a)"
proof -
  have "gplain g (toVar a) = gplain h (toVar a) \<Longrightarrow> gavg g (toVar a) = gavg h (toVar a) \<Longrightarrow>
    gplain (fold (row_step aggs) rs g) (toVar a) = gplain (fold (agg_exact a) rs h) (toVar a)
    \<and> gavg (fold (row_step aggs) rs g) (toVar a) = gavg (fold (agg_exact a) rs h) (toVar a)" for h
  proof (induction rs arbitrary: g h)
    case Nil
    then show ?case by simp
  next
    case (Cons r rs)
    show ?case
      using Cons.IH [of "row_step aggs r g" "agg_exact a r h"] row_step_member [OF assms, of r g]
        agg_exact_cong [OF Cons.prems, of r] by simp
  qed
  then show ?thesis by simp
qed

lemma fold_sum: "is_sum a \<Longrightarrow> gplain (fold (agg_exact a) rs g) (toVar a) = gplain g (toVar a) + sum_list (col_vals a rs)"
  by (induction rs arbitrary: g) (auto simp: agg_exact_def Let_def is_sum_def)

lemma fold_count: "is_count a \<Longrightarrow> gplain (fold (agg_exact a) rs g) (toVar a) = gplain g (toVar a) + int (length rs)"
  by (induction rs arbitrary: g) (auto simp: agg_exact_def Let_def is_count_def)

lemma fold_min: "is_min a \<Longrightarrow> gplain (fold (agg_exact a) rs g) (toVar a) = fold min (col_vals a rs) (gplain g (toVar a))"
  by (induction rs arbitrary: g) (auto simp: agg_exact_def Let_def is_min_def min_def)

lemma fold_max: "is_max a \<Longrightarrow> gplain (fold (agg_exact a) rs g) (toVar a) = fold max (col_vals a rs) (gplain g (toVar a))"
  by (induction rs arbitrary: g) (auto simp: agg_exact_def Let_def is_max_def max_def)

lemma fold_avg: "is_avg a \<Longrightarrow> gavg (fold (agg_exact a) rs g) (toVar a) = fold avg_exact (col_vals a rs) (gavg g (toVar a))"
  by (induction rs arbitrary: g) (auto simp: agg_exact_def Let_def is_avg_def)

text \<open>
  The aggregate functions over a list of values, and the value reported for an aggregate over a list of
  rows. The members of \<^verbatim>\<open>min\<close> and \<^verbatim>\<open>max\<close> start at zero, so zero is one of the values compared.
\<close>

definition agg_function :: "aggregate \<Rightarrow> int list \<Rightarrow> int" where
  "agg_function a vs =
     (if is_avg a then (if vs = [] then 0 else sum_list vs sdiv int (length vs))
      else if is_sum a then sum_list vs
      else if is_count a then int (length vs)
      else if is_min a then Min (set vs)
      else if is_max a then Max (set vs)
      else 0)"

definition reported :: "aggregate \<Rightarrow> row list \<Rightarrow> int" where
  "reported a rs = agg_function a (if is_min a \<or> is_max a then 0 # col_vals a rs else col_vals a rs)"

lemma kinds_apart:
  "is_min a \<Longrightarrow> \<not> is_avg a \<and> \<not> is_sum a \<and> \<not> is_count a \<and> \<not> is_max a"
  "is_max a \<Longrightarrow> \<not> is_avg a \<and> \<not> is_sum a \<and> \<not> is_count a \<and> \<not> is_min a"
  by (auto simp: func_kind_defs)

lemma agg_function_zero:
  "is_min a \<Longrightarrow> agg_function a (0 # vs) = fold min vs 0" "is_max a \<Longrightarrow> agg_function a (0 # vs) = fold max vs 0"
  unfolding agg_function_def Min.set_eq_fold [symmetric] Max.set_eq_fold [symmetric] by (simp_all only: kinds_apart if_True if_False)

lemma fold_unknown:
  "\<not> is_avg a \<Longrightarrow> \<not> is_sum a \<Longrightarrow> \<not> is_count a \<Longrightarrow> \<not> is_min a \<Longrightarrow> \<not> is_max a \<Longrightarrow> fold (agg_exact a) rs g = g"
  by (induction rs) (auto simp: agg_exact_def Let_def func_kind_defs)

lemma aggr_value_reported:
  assumes "distinct (map toVar aggs)" "a \<in> set aggs"
  shows "aggr_value a (fold (row_step aggs) rs (new_gstruct select u)) = reported a rs"
proof (cases "is_min a \<or> is_max a")
  case True
  then have "aggr_value a (fold (row_step aggs) rs (new_gstruct select u)) =
      (if is_min a then fold min (col_vals a rs) 0 else fold max (col_vals a rs) 0)"
    using fold_member [OF assms, of rs "new_gstruct select u"]
    by (auto simp: aggr_value_def kinds_apart fold_min fold_max new_gstruct_def)
  with True show ?thesis by (auto simp: reported_def agg_function_zero)
next
  case False
  then show ?thesis using fold_member [OF assms, of rs "new_gstruct select u"]
    by (auto simp: aggr_value_def reported_def agg_function_def fold_avg fold_sum fold_count
        fold_unknown avg_value_fold new_gstruct_def)
qed

section \<open>The EMF program\<close>

lemma emf_inner_eq:
  assumes "list_all (\<lambda>a. group a = int i) aggs" "frame i c" "decided n R (\<lambda>D. cond D it) (\<lambda>D. c D it)"
  shows "i < length D \<Longrightarrow> p < length (D ! i) \<Longrightarrow> length D = n \<Longrightarrow> set rows \<subseteq> R \<Longrightarrow> roomy aggs rows (D ! i ! p) \<Longrightarrow>
    emf_inner cond aggs it (int p) rows D =
      Inr (D[i := (D ! i)[p := fold (row_step aggs) (filter (c D it) rows) (D ! i ! p)]])"
proof (induction rows arbitrary: D)
  case Nil
  then show ?case by simp
next
  case (Cons xt rows)
  have cr: "cond D it xt = Inr (c D it xt)"
    using Cons.prems(3,4) decidedD [OF assms(3), of D xt] by simp
  show ?case
  proof (cases "c D it xt")
    case False
    with Cons cr show ?thesis by (simp add: roomy_less)
  next
    case True
    let ?D = "D[i := (D ! i)[p := row_step aggs xt (D ! i ! p)]]"
    have "emf_inner cond aggs it (int p) (xt # rows) D = emf_inner cond aggs it (int p) rows ?D"
      using True Cons.prems assms(1) by (simp add: cr apply_aggs_eq [where rs = rows])
    also have "\<dots> = Inr (?D[i := (?D ! i)[p := fold (row_step aggs) (filter (c ?D it) rows) (?D ! i ! p)]])"
      using Cons.prems by (intro Cons.IH) (auto intro: roomy_step)
    finally show ?thesis
      using True Cons.prems by (simp add: frameD [OF assms(2)])
  qed
qed

definition emf_scanned :: "(groups \<Rightarrow> row \<Rightarrow> row \<Rightarrow> bool) \<Rightarrow> aggregate list \<Rightarrow> row list \<Rightarrow> row list \<Rightarrow> groups \<Rightarrow> gstruct list \<Rightarrow> gstruct list" where
  "emf_scanned cond aggs its rows D gs =
     map (\<lambda>(it, g). fold (row_step aggs) (filter (cond D it) rows) g) (zip its gs)"

lemma emf_scan_eq_aux:
  assumes "list_all (\<lambda>a. group a = int i) aggs" "frame i c"
  shows "i < length D \<Longrightarrow> length (D ! i) = p + length its \<Longrightarrow> length D = n \<Longrightarrow>
    \<forall>g \<in> set (drop p (D ! i)). roomy aggs rows g \<Longrightarrow>
    \<forall>it \<in> set its. decided n (set rows) (\<lambda>D. cond D it) (\<lambda>D. c D it) \<Longrightarrow>
    emf_scan cond aggs its (int p) rows D =
      Inr (D[i := take p (D ! i) @ emf_scanned c aggs its rows D (drop p (D ! i))])"
proof (induction its arbitrary: p D)
  case Nil
  then show ?case by (simp add: emf_scanned_def)
next
  case (Cons it its)
  let ?g = "fold (row_step aggs) (filter (c D it) rows) (D ! i ! p)"
  let ?D = "D[i := (D ! i)[p := ?g]]"
  have p: "p < length (D ! i)" using Cons.prems(2) by simp
  have d: "drop p (D ! i) = D ! i ! p # drop (Suc p) (D ! i)" using p by (simp add: Cons_nth_drop_Suc)
  have dec: "decided n (set rows) (\<lambda>D. cond D it) (\<lambda>D. c D it)" using Cons.prems(5) by simp
  have "emf_scan cond aggs (it # its) (int p) rows D = emf_scan cond aggs its (int (p + 1)) rows ?D"
    using Cons.prems p d emf_inner_eq [where c = c and cond = cond and it = it, OF assms dec, of D p rows] by (simp add: add.commute)
  also have "\<dots> = Inr (?D[i := take (p + 1) (?D ! i) @ emf_scanned c aggs its rows ?D (drop (p + 1) (?D ! i))])"
    using Cons.prems d by (intro Cons.IH) auto
  finally show ?case
    using Cons.prems p
    by (simp add: emf_scanned_def frameD [OF assms(2)] d take_Suc_conv_app_nth)
qed

lemma emf_scan_eq:
  assumes "list_all (\<lambda>a. group a = int i) aggs" "frame i c"
    and "i < length D" "length (D ! i) = length its" "\<forall>g \<in> set (D ! i). roomy aggs rows g"
    and "\<forall>it \<in> set its. decided (length D) (set rows) (\<lambda>D. cond D it) (\<lambda>D. c D it)"
  shows "emf_scan cond aggs its 0 rows D = Inr (D[i := emf_scanned c aggs its rows D (D ! i)])"
  using emf_scan_eq_aux [OF assms(1-3), of 0 its "length D" rows cond] assms(4-6) by simp

lemma emf_scans_eq:
  assumes "\<And>j. early j (c j)" "length D = length xts"
    and "\<And>j. j < length xts \<Longrightarrow> length (D ! j) = length its"
    and "\<And>j. j < length xts \<Longrightarrow> list_all (\<lambda>a. group a = int j) (xts ! j)"
    and "\<And>j. j < length xts \<Longrightarrow> \<forall>g \<in> set (D ! j). roomy (xts ! j) rows g"
    and "\<And>j it. j < length xts \<Longrightarrow> it \<in> set its \<Longrightarrow> decided (length xts) (set rows) (\<lambda>D. cond j D it) (\<lambda>D. c j D it)"
  shows "\<exists>D'. emf_scans cond xts its rows D = Inr D' \<and> length D' = length D
      \<and> (\<forall>j < length xts. D' ! j = emf_scanned (c j) (xts ! j) its rows D' (D ! j))"
proof -
  let ?ok = "\<lambda>i xt gs. length gs = length its \<and> list_all (\<lambda>a. group a = int i) xt \<and> (\<forall>g \<in> set gs. roomy xt rows g)"
  let ?res = "\<lambda>i xt. emf_scanned (c i) xt its rows"
  have st: "emf_scan (cond i) xt its 0 rows D = Inr (D[i := ?res i xt D (D ! i)])"
    if "i < length D" "length D = length xts" "?ok i xt (D ! i)" for i xt D
    using that early_frame [OF assms(1), of i i] assms(6) [of i] by (intro emf_scan_eq) auto
  have "\<exists>D'. run_scans (\<lambda>i xt. emf_scan (cond i) xt its 0 rows) 0 xts D = Inr D'
      \<and> length D' = length D \<and> take 0 D' = take 0 D
      \<and> (\<forall>j < length xts. D' ! (0 + j) = ?res (0 + j) (xts ! j) D' (D ! (0 + j)))"
  proof (rule run_scans_eq [where ok = ?ok and n = "length xts"])
    show "early i (\<lambda>D xt gs. ?res i xt D gs)" for i
      unfolding emf_scanned_def by (rule early_fun [OF assms(1)])
  qed (use st assms in auto)
  then show ?thesis by (simp add: emf_scans_def)
qed

definition emf_final :: "query \<Rightarrow> (nat \<Rightarrow> groups \<Rightarrow> row \<Rightarrow> row \<Rightarrow> bool) \<Rightarrow> row list \<Rightarrow> groups \<Rightarrow> bool" where
  "emf_final q cond data D \<longleftrightarrow> length D = q_vars q + 1 \<and>
     (\<forall>i \<le> q_vars q. D ! i = emf_scanned (cond i) (q_aggs q ! i) (get_uniques (q_attrs q) data) data D
        (map (new_gstruct (q_select q)) (get_uniques (q_attrs q) data)))"

lemma emf_scanned_gkey: "length its = length gs \<Longrightarrow> map gkey (emf_scanned cond aggs its rows D gs) = map gkey gs"
proof -
  assume len: "length its = length gs"
  have "gkey (fold (row_step aggs) rs g) = gkey g" for rs g
    by (induction rs arbitrary: g) auto
  then have "map gkey (emf_scanned cond aggs its rows D gs) = map gkey (map snd (zip its gs))"
    by (auto simp: emf_scanned_def)
  then show ?thesis using len by simp
qed

lemma emf_final_aligned:
  assumes "emf_final q cond data D"
  shows "aligned q (get_uniques (q_attrs q) data) D"
proof -
  let ?U = "get_uniques (q_attrs q) data"
  have "map gkey (D ! i) = map (copy_columns (q_select q)) ?U" if "i \<le> q_vars q" for i
  proof -
    have "D ! i = emf_scanned (cond i) (q_aggs q ! i) ?U data D (map (new_gstruct (q_select q)) ?U)"
      using assms that unfolding emf_final_def by blast
    from arg_cong [OF this, of "map gkey"] show ?thesis
      by (subst (asm) emf_scanned_gkey) simp_all
  qed
  then show ?thesis using assms by (simp add: emf_final_def aligned_def)
qed

lemma run_emf_eq:
  assumes "query_ok q" "\<And>j. early j (c j)" "data_fits q data"
    and "having_total q (length (get_uniques (q_attrs q) data))"
    and "\<And>j it. j \<le> q_vars q \<Longrightarrow> it \<in> set data \<Longrightarrow> decided (q_vars q + 1) (set data) (\<lambda>D. cond j D it) (\<lambda>D. c j D it)"
  shows "\<exists>D. emf_final q c data D
    \<and> run_emf q cond data = mf_outcome q (get_uniques (q_attrs q) data) D"
proof -
  let ?U = "get_uniques (q_attrs q) data"
  let ?D = "replicate (q_vars q + 1) (map (new_gstruct (q_select q)) ?U)"
  have "length ?D = length (q_aggs q)" using assms(1) by (simp add: query_ok_def)
  moreover have "length (?D ! j) = length ?U" if "j < length (q_aggs q)" for j
    using that assms(1) by (simp add: query_ok_def del: replicate.simps)
  moreover have "list_all (\<lambda>a. group a = int j) (q_aggs q ! j)" if "j < length (q_aggs q)" for j
    using that assms(1) by (simp add: query_ok_def)
  moreover have "\<forall>g \<in> set (?D ! j). roomy (q_aggs q ! j) data g" if "j < length (q_aggs q)" for j
    using that assms(1) fits_roomy [OF assms(1,3) that] by (auto simp: query_ok_def simp del: replicate.simps)
  moreover have "decided (length (q_aggs q)) (set data) (\<lambda>D. cond j D it) (\<lambda>D. c j D it)"
    if "j < length (q_aggs q)" "it \<in> set ?U" for j it
    using that assms(1) assms(5) [of j it] get_uniques_subset [of "q_attrs q" data] by (auto simp: query_ok_def)
  ultimately obtain D where D: "emf_scans cond (q_aggs q) ?U data ?D = Inr D" "length D = length ?D"
    "\<forall>j < length (q_aggs q). D ! j = emf_scanned (c j) (q_aggs q ! j) ?U data D (?D ! j)"
    using emf_scans_eq [of c ?D "q_aggs q" ?U data cond, OF assms(2)] by blast
  have fin: "emf_final q c data D"
    using D(2,3) assms(1) by (simp add: emf_final_def query_ok_def less_Suc_eq_le del: replicate.simps)
  have "fill_loop (q_attrs q) (q_having q) (q_out q) D 0 (map (new_mfstruct (q_select q)) ?U)
      = mf_outcome q ?U D"
    by (rule fill_result [OF assms(1) emf_final_aligned [OF fin] assms(4) uniques_keys_distinct])
  with D(1) fin show ?thesis by (auto simp: run_emf_def run_prelim_def Let_def simp del: replicate.simps)
qed

section \<open>Reported values\<close>

text \<open>The selected aggregates are among those computed.\<close>

definition out_computed :: "query \<Rightarrow> bool" where
  "out_computed q \<longleftrightarrow> list_all (\<lambda>a. a \<in> set (q_aggs q ! nat (group a))) (q_out q)"

lemma out_member:
  assumes "query_ok q" "out_computed q" "a \<in> set (q_out q)" "toABSVar a = Inr v"
  shows "out_aggrs (q_out q) D p m v = aggr_value a (D ! nat (group a) ! p)"
    and "nat (group a) \<le> q_vars q" "a \<in> set (q_aggs q ! nat (group a))"
    and "distinct (map toVar (q_aggs q ! nat (group a)))"
proof -
  have "list_all aggr_wf (q_out q)" using assms(1) by (auto simp: query_ok_def list_all_iff)
  then show "out_aggrs (q_out q) D p m v = aggr_value a (D ! nat (group a) ! p)"
    using assms(3,4) by (rule out_aggrs_lookup)
  show n: "nat (group a) \<le> q_vars q" using assms(1,3) by (auto simp: query_ok_def list_all_iff)
  show "a \<in> set (q_aggs q ! nat (group a))" using assms(2,3) by (simp add: out_computed_def list_all_iff)
  show "distinct (map toVar (q_aggs q ! nat (group a)))"
    using assms(1) n by (simp add: query_ok_def)
qed

lemma mf_reported:
  assumes "query_ok q" "out_computed q" "mf_final q cond data D"
    and "a \<in> set (q_out q)" "toABSVar a = Inr v" "p < length (get_uniques (q_attrs q) data)"
  shows "out_aggrs (q_out q) D p m v =
    reported a (group_rows (q_attrs q) (cond (nat (group a)) D) data (get_uniques (q_attrs q) data ! p))"
proof -
  let ?U = "get_uniques (q_attrs q) data" and ?i = "nat (group a)"
  note m = out_member [OF assms(1,2,4,5)]
  have "D ! ?i = scanned (q_attrs q) (cond ?i) (q_aggs q ! ?i) data D (map (new_gstruct (q_select q)) ?U)"
    using assms(3) m(2) unfolding mf_final_def by blast
  then have e: "D ! ?i ! p = scanned (q_attrs q) (cond ?i) (q_aggs q ! ?i) data D
      (map (new_gstruct (q_select q)) ?U) ! p" by (rule arg_cong)
  have "group_rows (q_attrs q) P data (copy_columns (q_select q) u) = group_rows (q_attrs q) P data u" for P u
    using assms(1) by (simp add: group_rows_def query_ok_def key_copy_columns)
  then show ?thesis
    unfolding m(1) e using assms(6) by (simp add: scanned_def aggr_value_reported [OF m(4,3)])
qed

lemma emf_reported:
  assumes "query_ok q" "out_computed q" "emf_final q cond data D"
    and "a \<in> set (q_out q)" "toABSVar a = Inr v" "p < length (get_uniques (q_attrs q) data)"
  shows "out_aggrs (q_out q) D p m v =
    reported a (filter (cond (nat (group a)) D (get_uniques (q_attrs q) data ! p)) data)"
proof -
  let ?U = "get_uniques (q_attrs q) data" and ?i = "nat (group a)"
  note m = out_member [OF assms(1,2,4,5)]
  have "D ! ?i = emf_scanned (cond ?i) (q_aggs q ! ?i) ?U data D (map (new_gstruct (q_select q)) ?U)"
    using assms(3) m(2) unfolding emf_final_def by blast
  then have e: "D ! ?i ! p = emf_scanned (cond ?i) (q_aggs q ! ?i) ?U data D
      (map (new_gstruct (q_select q)) ?U) ! p" by (rule arg_cong)
  show ?thesis
    unfolding m(1) e using assms(6) by (simp add: emf_scanned_def aggr_value_reported [OF m(4,3)])
qed

end
