(* ===== verification/Cond_Semantics.thy ===== *)
theory Cond_Semantics
  imports Emitted
begin

text \<open>
  The meaning of the C++ expressions \<^verbatim>\<open>Condition::toCpp\<close> and \<^verbatim>\<open>Conditions::toCpp\<close> print, in the emitted
  scans. The left operand is a member of \<^verbatim>\<open>(*it)\<close>; the right one is, in the order of the branches of
  \<open>Condition_toCpp\<close>, a member of \<^verbatim>\<open>(*xt)\<close>, an aggregate looked up through \<^verbatim>\<open>vfind\<close>, a member of
  \<^verbatim>\<open>(*xt)\<close> plus or minus a constant, or a literal: decimal without leading zeros and below \<open>2 ^ 63\<close>, or a quoted
  string without escapes. \<open>None\<close> stands for text outside this fragment (other expressions, octal and
  floating-point literals), for text that does not compile (comparing a string with an integer, \<^verbatim>\<open>(*xt)\<close> in an MF
  scan, where it is not declared) and for a sum that leaves \<^verbatim>\<open>int64_t\<close>; a scan that meets it ends with
  \<open>Outside_model\<close>. \<open>supported\<close> says when that cannot happen.
\<close>

section \<open>Right operands\<close>

datatype operand = OCol string int | OAgg aggregate | OInt int | OStr string

definition decimal :: "string \<Rightarrow> bool" where
  "decimal ds \<longleftrightarrow> ds \<noteq> [] \<and> list_all is_digit ds \<and> (hd ds \<noteq> CHR ''0'' \<or> length ds = 1) \<and> digits_val 0 ds < 2 ^ 63"

definition int_literal :: "string \<Rightarrow> int option" where
  "int_literal v = (case v of [] \<Rightarrow> None
     | s # ds \<Rightarrow> if s = CHR ''-'' then (if decimal ds then Some (- digits_val 0 ds) else None)
         else if decimal v then Some (digits_val 0 v) else None)"

definition str_literal :: "string \<Rightarrow> string option" where
  "str_literal v =
     (if length v \<ge> 2 \<and> hd v = dquote \<and> last v = dquote \<and> dquote \<notin> set (butlast (tl v))
         \<and> list_all (\<lambda>c. c \<noteq> CHR 0x5C \<and> c \<noteq> CHR 0x0A \<and> c \<noteq> CHR 0x00) v
      then Some (butlast (tl v)) else None)"

fun offset_of :: "string \<Rightarrow> column list \<Rightarrow> operand option" where
  "offset_of v [] = None"
| "offset_of v (c # cs) =
     (if prefix (col_name c) v then
        (case drop (length (col_name c)) v of
           s # ds \<Rightarrow> if decimal ds \<and> (s = CHR ''+'' \<or> s = CHR ''-'')
                     then Some (OCol (col_name c) (if s = CHR ''-'' then - digits_val 0 ds else digits_val 0 ds))
                     else offset_of v cs
         | [] \<Rightarrow> offset_of v cs)
      else offset_of v cs)"

definition operand_of :: "string \<Rightarrow> column list \<Rightarrow> operand option" where
  "operand_of v cols =
     (if isColumn v cols then Some (OCol v 0)
      else if isAggregate v = Inr True then
        (case new_Aggregate v of Inl _ \<Rightarrow> None | Inr a \<Rightarrow> Some (OAgg a))
      else if hasColumn v cols then offset_of v cols
      else case str_literal v of
          Some s \<Rightarrow> Some (OStr s)
        | None \<Rightarrow> map_option OInt (int_literal v))"

section \<open>Comparisons\<close>

definition str_less :: "string \<Rightarrow> string \<Rightarrow> bool" where
  "str_less s t = ord_class.lexordp (map of_char s :: nat list) (map of_char t)"

definition int_op :: "string \<Rightarrow> int \<Rightarrow> int \<Rightarrow> bool option" where
  "int_op e a b =
     (if e = ''='' then Some (a = b) else if e = ''!='' then Some (a \<noteq> b)
      else if e = ''<'' then Some (a < b) else if e = ''>'' then Some (a > b)
      else if e = ''<='' then Some (a \<le> b) else if e = ''>='' then Some (a \<ge> b) else None)"

definition str_op :: "string \<Rightarrow> string \<Rightarrow> string \<Rightarrow> bool option" where
  "str_op e a b =
     (if e = ''='' then Some (a = b) else if e = ''!='' then Some (a \<noteq> b)
      else if e = ''<'' then Some (str_less a b) else if e = ''>'' then Some (str_less b a)
      else if e = ''<='' then Some (\<not> str_less b a) else if e = ''>='' then Some (\<not> str_less a b) else None)"

definition val_op :: "string \<Rightarrow> val \<Rightarrow> val \<Rightarrow> bool option" where
  "val_op e v w = (case (v, w) of
       (IntV a, IntV b) \<Rightarrow> int_op e a b | (StrV a, StrV b) \<Rightarrow> str_op e a b | _ \<Rightarrow> None)"

definition agg_operand :: "condition \<Rightarrow> string list \<Rightarrow> groups \<Rightarrow> row \<Rightarrow> aggregate \<Rightarrow> bool option" where
  "agg_operand c attrs D it a =
     (if 0 \<le> group a \<and> nat (group a) < length D \<and> contains (cvalue c) ''avg'' = is_avg a then
        (let gs = D ! nat (group a); pos = vfind attrs gs it in
         if pos > 0 then
           (case it (ccolumn c) of
              IntV i \<Rightarrow> int_op (cexp c) i (aggr_value a (gs ! nat pos)) | StrV _ \<Rightarrow> None)
         else Some False)
      else None)"

text \<open>A quoted value is compared with \<^verbatim>\<open>.compare(...) == 0\<close> whatever the operator.\<close>

definition cond_holds :: "column list \<Rightarrow> string list \<Rightarrow> condition \<Rightarrow> groups \<Rightarrow> row \<Rightarrow> row option \<Rightarrow> bool option" where
  "cond_holds cols attrs c D it xt =
     (if contains (ccolumn c) ''avg'' then None
      else case operand_of (cvalue c) cols of
          None \<Rightarrow> None
        | Some (OCol col k) \<Rightarrow>
            (case xt of
               None \<Rightarrow> None
             | Some x \<Rightarrow> if k = 0 then val_op (cexp c) (it (ccolumn c)) (x col)
                 else (case x col of
                     IntV i \<Rightarrow> if in_int64 (i + k) then val_op (cexp c) (it (ccolumn c)) (IntV (i + k)) else None
                   | StrV _ \<Rightarrow> None))
        | Some (OAgg a) \<Rightarrow> agg_operand c attrs D it a
        | Some (OInt k) \<Rightarrow> val_op (cexp c) (it (ccolumn c)) (IntV k)
        | Some (OStr s) \<Rightarrow> (case it (ccolumn c) of StrV t \<Rightarrow> Some (t = s) | IntV _ \<Rightarrow> None))"

section \<open>Chains\<close>

text \<open>
  \<^verbatim>\<open>xor\<close> binds tighter than \<^verbatim>\<open>and\<close>, \<^verbatim>\<open>and\<close> tighter than \<^verbatim>\<open>or\<close>: the value read so far is
  \<open>d \<or> (a \<and> x)\<close>.
\<close>

fun eval_chain :: "bool \<Rightarrow> bool \<Rightarrow> bool \<Rightarrow> (string \<times> bool) list \<Rightarrow> bool option" where
  "eval_chain d a x [] = Some (d \<or> (a \<and> x))"
| "eval_chain d a x ((op, b) # rest) =
     (if op = ''xor'' then eval_chain d a (x \<noteq> b) rest
      else if op = ''and'' \<or> op = ''&&'' then eval_chain d (a \<and> x) b rest
      else if op = ''or'' \<or> op = ''||'' then eval_chain (d \<or> (a \<and> x)) True b rest
      else None)"

definition conditions_hold :: "column list \<Rightarrow> string list \<Rightarrow> conditions \<Rightarrow> groups \<Rightarrow> row \<Rightarrow> row option \<Rightarrow> bool option" where
  "conditions_hold cols attrs c D it xt =
     (let bs = map (\<lambda>x. cond_holds cols attrs x D it xt) (conds c) in
      if bs = [] \<or> None \<in> set bs \<or> length (ops c) + 1 < length bs then None
      else eval_chain False True (the (hd bs)) (zip (ops c) (map the (tl bs))))"

text \<open>\<^verbatim>\<open>get_selection_cond\<close>: \<^verbatim>\<open>true\<close> for grouping variable 0.\<close>

definition selection_holds :: "column list \<Rightarrow> string list \<Rightarrow> conditions list \<Rightarrow> nat \<Rightarrow> groups \<Rightarrow> row \<Rightarrow> row option \<Rightarrow> bool option" where
  "selection_holds cols attrs cs i D it xt =
     (if i = 0 then Some True
      else if i - 1 < length cs then conditions_hold cols attrs (cs ! (i - 1)) D it xt else None)"

definition decide :: "bool option \<Rightarrow> bool res" where
  "decide b = (case b of None \<Rightarrow> Inl Outside_model | Some b \<Rightarrow> Inr b)"

definition mf_cond :: "column list \<Rightarrow> string list \<Rightarrow> conditions list \<Rightarrow> nat \<Rightarrow> groups \<Rightarrow> row \<Rightarrow> bool res" where
  "mf_cond cols attrs cs i D r = decide (selection_holds cols attrs cs i D r None)"

definition emf_cond :: "column list \<Rightarrow> string list \<Rightarrow> conditions list \<Rightarrow> nat \<Rightarrow> groups \<Rightarrow> row \<Rightarrow> row \<Rightarrow> bool res" where
  "emf_cond cols attrs cs i D it xt = decide (selection_holds cols attrs cs i D it (Some xt))"

section \<open>Supported conditions\<close>

text \<open>
  A condition the fragment covers, on given rows: the column and the operand exist, their types agree, and an
  aggregate it compares with is a member of its \<^verbatim>\<open>struct group<i>\<close>.
\<close>

definition cond_supported :: "column list \<Rightarrow> aggregate list list \<Rightarrow> row \<Rightarrow> row option \<Rightarrow> condition \<Rightarrow> bool" where
  "cond_supported cols aggs it xt c \<longleftrightarrow> isColumn (ccolumn c) cols \<and>
     (case operand_of (cvalue c) cols of
        None \<Rightarrow> False
      | Some (OAgg a) \<Rightarrow> \<not> contains (ccolumn c) ''avg'' \<and> contains (cvalue c) ''avg'' = is_avg a
          \<and> 0 \<le> group a \<and> nat (group a) < length aggs \<and> a \<in> set (aggs ! nat (group a))
          \<and> (case it (ccolumn c) of IntV i \<Rightarrow> int_op (cexp c) i 0 \<noteq> None | StrV _ \<Rightarrow> False)
      | Some _ \<Rightarrow> cond_holds cols [] c [] it xt \<noteq> None)"

definition known_op :: "string \<Rightarrow> bool" where
  "known_op op \<longleftrightarrow> op \<in> {''xor'', ''and'', ''&&'', ''or'', ''||''}"

definition conditions_supported :: "column list \<Rightarrow> aggregate list list \<Rightarrow> row \<Rightarrow> row option \<Rightarrow> conditions \<Rightarrow> bool" where
  "conditions_supported cols aggs it xt c \<longleftrightarrow> conds c \<noteq> [] \<and> length (conds c) \<le> length (ops c) + 1
     \<and> list_all known_op (ops c) \<and> list_all (cond_supported cols aggs it xt) (conds c)"

definition supported :: "column list \<Rightarrow> aggregate list list \<Rightarrow> conditions list \<Rightarrow> row \<Rightarrow> row option \<Rightarrow> bool" where
  "supported cols aggs cs it xt \<longleftrightarrow> length aggs \<le> length cs + 1 \<and> list_all (conditions_supported cols aggs it xt) cs"

definition mf_supported :: "column list \<Rightarrow> query \<Rightarrow> conditions list \<Rightarrow> row list \<Rightarrow> bool" where
  "mf_supported cols q cs data \<longleftrightarrow> list_all (\<lambda>r. supported cols (q_aggs q) cs r None) data"

definition emf_supported :: "column list \<Rightarrow> query \<Rightarrow> conditions list \<Rightarrow> row list \<Rightarrow> bool" where
  "emf_supported cols q cs data \<longleftrightarrow>
     list_all (\<lambda>it. list_all (\<lambda>xt. supported cols (q_aggs q) cs it (Some xt)) data) data"

section \<open>Lemmas\<close>

lemma str_literal_quoted:
  "dquote \<notin> set s \<Longrightarrow> list_all (\<lambda>c. c \<noteq> CHR 0x5C \<and> c \<noteq> CHR 0x0A \<and> c \<noteq> CHR 0x00) s \<Longrightarrow>
     str_literal (dquote # s @ [dquote]) = Some s"
  by (simp add: str_literal_def)

lemma conditions_hold_single:
  "conditions_hold cols attrs \<lparr>conds = [c], ops = []\<rparr> D it xt = cond_holds cols attrs c D it xt"
  by (cases "cond_holds cols attrs c D it xt") (simp_all add: conditions_hold_def)

text \<open>All conditions of an \<^verbatim>\<open>and\<close> chain.\<close>

lemma eval_chain_and:
  "list_all (\<lambda>p. fst p = ''and'') ps \<Longrightarrow>
     eval_chain False a x ps = Some (a \<and> x \<and> list_all snd ps)"
  by (induction ps arbitrary: a x) (auto split: prod.splits)

lemma conditions_hold_and:
  assumes "conds c \<noteq> []" "ops c = replicate (length (conds c) - 1) ''and''"
    and "list_all (\<lambda>x. cond_holds cols attrs x D it xt \<noteq> None) (conds c)"
  shows "conditions_hold cols attrs c D it xt =
    Some (list_all (\<lambda>x. cond_holds cols attrs x D it xt = Some True) (conds c))"
proof -
  let ?b = "\<lambda>x. cond_holds cols attrs x D it xt"
  obtain x xs where c: "conds c = x # xs" using assms(1) by (cases "conds c") auto
  have n: "None \<notin> ?b ` set (conds c)" using assms(3) by (force simp: list_all_iff)
  have t: "the (?b y) \<longleftrightarrow> ?b y = Some True" if "y \<in> set (conds c)" for y
    using n that by (cases "?b y") force+
  have "list_all (\<lambda>p. fst p = ''and'') (zip (replicate (length xs) ''and'') (map (the \<circ> ?b) xs))"
    by (auto simp: list_all_iff dest: set_zip_leftD)
  moreover have "list_all snd (zip (replicate (length xs) ''and'') (map (the \<circ> ?b) xs)) = list_all (the \<circ> ?b) xs"
    by (induction xs) auto
  ultimately show ?thesis
    using n c assms(2) t by (auto simp: conditions_hold_def Let_def eval_chain_and comp_def list_all_iff)
qed

lemma cond_holds_quoted:
  assumes "operand_of (cvalue c) cols = Some (OStr s)" "\<not> contains (ccolumn c) ''avg''"
    and "it (ccolumn c) = StrV t"
  shows "cond_holds cols attrs c D it xt = Some (t = s)"
  using assms by (simp add: cond_holds_def)

lemma cond_holds_column:
  assumes "isColumn (cvalue c) cols" "\<not> contains (ccolumn c) ''avg''"
  shows "cond_holds cols attrs c D it (Some x) = val_op (cexp c) (it (ccolumn c)) (x (cvalue c))"
  using assms by (simp add: cond_holds_def operand_of_def)

text \<open>An aggregate condition never holds for the first distinct key.\<close>

lemma agg_operand_first:
  assumes "distinct (map (\<lambda>g. key attrs (gkey g)) gs)" "gs \<noteq> []" "D ! nat (group a) = gs"
    and "0 \<le> group a" "nat (group a) < length D" "contains (cvalue c) ''avg'' = is_avg a"
    and "key attrs it = key attrs (gkey (gs ! 0))"
  shows "agg_operand c attrs D it a = Some False"
proof -
  have "vfind attrs gs it = 0" using assms(1,2,7) vfind_hit [of attrs gs 0 it] by simp
  with assms show ?thesis by (simp add: agg_operand_def)
qed

text \<open>Conditions whose aggregates belong to earlier grouping variables read only those.\<close>

definition refs_before :: "column list \<Rightarrow> nat \<Rightarrow> conditions \<Rightarrow> bool" where
  "refs_before cols i c \<longleftrightarrow> list_all (\<lambda>x. case operand_of (cvalue x) cols of
       Some (OAgg a) \<Rightarrow> nat (group a) < i | _ \<Rightarrow> True) (conds c)"

definition refs_ok :: "column list \<Rightarrow> conditions list \<Rightarrow> bool" where
  "refs_ok cols cs \<longleftrightarrow> (\<forall>i < length cs. refs_before cols (i + 1) (cs ! i))"

lemma agg_operand_early:
  assumes "length D = length D'" "take i D = take i D'" "nat (group a) < i"
  shows "agg_operand c attrs D it a = agg_operand c attrs D' it a"
proof (cases "nat (group a) < length D")
  case True
  have "take i D ! nat (group a) = take i D' ! nat (group a)" using assms(2) by simp
  then have "D ! nat (group a) = D' ! nat (group a)" using assms(3) by simp
  then show ?thesis using assms(1) by (simp only: agg_operand_def)
next
  case False
  then show ?thesis using assms(1) by (simp add: agg_operand_def)
qed

lemma cond_holds_early:
  assumes "length D = length D'" "take i D = take i D'"
    and "case operand_of (cvalue x) cols of Some (OAgg a) \<Rightarrow> nat (group a) < i | _ \<Rightarrow> True"
  shows "cond_holds cols attrs x D it xt = cond_holds cols attrs x D' it xt"
proof (cases "operand_of (cvalue x) cols")
  case None
  then show ?thesis by (simp add: cond_holds_def)
next
  case (Some p)
  then show ?thesis using assms(3) agg_operand_early [OF assms(1,2)]
    by (cases p) (simp_all add: cond_holds_def)
qed

lemma conditions_hold_early:
  assumes "length D = length D'" "take i D = take i D'" "refs_before cols i c"
  shows "conditions_hold cols attrs c D it xt = conditions_hold cols attrs c D' it xt"
proof -
  have "map (\<lambda>x. cond_holds cols attrs x D it xt) (conds c) = map (\<lambda>x. cond_holds cols attrs x D' it xt) (conds c)"
    using assms(3) by (auto simp: refs_before_def list_all_iff intro: cond_holds_early [OF assms(1,2)])
  then show ?thesis by (simp only: conditions_hold_def)
qed

lemma selection_early:
  assumes "refs_ok cols cs" "length D = length D'" "take i D = take i D'"
  shows "selection_holds cols attrs cs i D it xt = selection_holds cols attrs cs i D' it xt"
proof (cases "i = 0 \<or> length cs \<le> i - 1")
  case True
  then show ?thesis by (auto simp: selection_holds_def)
next
  case False
  with assms(1) have "refs_before cols i (cs ! (i - 1))" unfolding refs_ok_def
    by (metis One_nat_def Suc_pred add.commute not_gr_zero not_le plus_1_eq_Suc)
  from conditions_hold_early [OF assms(2,3) this] show ?thesis by (simp add: selection_holds_def)
qed

text \<open>The boolean value of a condition, and the conditions that have one.\<close>

definition mf_true :: "column list \<Rightarrow> string list \<Rightarrow> conditions list \<Rightarrow> nat \<Rightarrow> groups \<Rightarrow> row \<Rightarrow> bool" where
  "mf_true cols attrs cs i D r \<longleftrightarrow> mf_cond cols attrs cs i D r = Inr True"

definition emf_true :: "column list \<Rightarrow> string list \<Rightarrow> conditions list \<Rightarrow> nat \<Rightarrow> groups \<Rightarrow> row \<Rightarrow> row \<Rightarrow> bool" where
  "emf_true cols attrs cs i D it xt \<longleftrightarrow> emf_cond cols attrs cs i D it xt = Inr True"

lemma mf_true_early: "refs_ok cols cs \<Longrightarrow> early i (mf_true cols attrs cs i)"
  unfolding early_def mf_true_def mf_cond_def by (intro allI impI ext) (metis selection_early)

lemma emf_true_early: "refs_ok cols cs \<Longrightarrow> early i (emf_true cols attrs cs i)"
  unfolding early_def emf_true_def emf_cond_def by (intro allI impI ext) (metis selection_early)

lemma int_op_defined: "int_op e i j \<noteq> None \<Longrightarrow> int_op e k l \<noteq> None"
  by (simp add: int_op_def split: if_splits)

lemma cond_supported_defined:
  assumes "cond_supported cols aggs it xt c" "length D = length aggs"
  shows "cond_holds cols attrs c D it xt \<noteq> None"
proof -
  obtain p where p: "operand_of (cvalue c) cols = Some p" using assms(1) by (auto simp: cond_supported_def split: option.splits)
  show ?thesis
  proof (cases p)
    case (OAgg a)
    with p assms obtain i where "it (ccolumn c) = IntV i" "int_op (cexp c) i 0 \<noteq> None" "\<not> contains (ccolumn c) ''avg''"
      "contains (cvalue c) ''avg'' = is_avg a" "0 \<le> group a" "nat (group a) < length D"
      by (auto simp: cond_supported_def split: val.splits)
    moreover from this(2) have "int_op (cexp c) i k \<noteq> None" for k by (rule int_op_defined)
    ultimately show ?thesis using p OAgg by (simp add: cond_holds_def agg_operand_def Let_def del: not_None_eq)
  qed (use p assms(1) in \<open>auto simp: cond_supported_def cond_holds_def split: if_splits\<close>)
qed

lemma eval_chain_defined: "list_all (\<lambda>p. known_op (fst p)) ps \<Longrightarrow> eval_chain d a x ps \<noteq> None"
  by (induction ps arbitrary: d a x) (auto simp: known_op_def)

lemma conditions_supported_defined:
  assumes "conditions_supported cols aggs it xt c" "length D = length aggs"
  shows "conditions_hold cols attrs c D it xt \<noteq> None"
proof -
  let ?bs = "map (\<lambda>x. cond_holds cols attrs x D it xt) (conds c)"
  have "cond_holds cols attrs x D it xt \<noteq> None" if "x \<in> set (conds c)" for x
    using assms(1) that by (intro cond_supported_defined [OF _ assms(2)]) (simp add: conditions_supported_def list_all_iff)
  then have "None \<notin> set ?bs" unfolding set_map image_iff by metis
  moreover have "list_all (\<lambda>p. known_op (fst p)) (zip (ops c) (map the (tl ?bs)))"
    using assms(1) by (auto simp: conditions_supported_def list_all_iff dest: set_zip_leftD)
  ultimately show ?thesis using assms(1)
    by (simp add: conditions_hold_def Let_def conditions_supported_def eval_chain_defined)
qed

lemma supported_decided:
  assumes "supported cols aggs cs it xt" "length D = length aggs" "i < length aggs"
  shows "selection_holds cols attrs cs i D it xt \<noteq> None"
proof (cases "i = 0")
  case False
  with assms(1,3) have i: "i - 1 < length cs" by (auto simp: supported_def)
  then have "conditions_supported cols aggs it xt (cs ! (i - 1))"
    using assms(1) by (simp add: supported_def list_all_length)
  from conditions_supported_defined [OF this assms(2)] i False show ?thesis by (simp add: selection_holds_def)
qed (simp add: selection_holds_def)

lemma decide_value: "b \<noteq> None \<Longrightarrow> decide b = Inr (decide b = Inr True)"
  by (auto simp: decide_def)

lemma mf_supported_decided:
  assumes "mf_supported cols q cs data" "length (q_aggs q) = q_vars q + 1" "j \<le> q_vars q"
  shows "decided (q_vars q + 1) (set data) (mf_cond cols attrs cs j) (mf_true cols attrs cs j)"
  unfolding decided_def mf_true_def mf_cond_def
proof (intro allI impI decide_value supported_decided)
  fix D :: groups and r assume "length D = q_vars q + 1" "r \<in> set data"
  then show "supported cols (q_aggs q) cs r None" "length D = length (q_aggs q)" "j < length (q_aggs q)"
    using assms by (simp_all add: mf_supported_def list_all_iff)
qed

lemma emf_supported_decided:
  assumes "emf_supported cols q cs data" "length (q_aggs q) = q_vars q + 1" "j \<le> q_vars q" "it \<in> set data"
  shows "decided (q_vars q + 1) (set data) (\<lambda>D. emf_cond cols attrs cs j D it) (\<lambda>D. emf_true cols attrs cs j D it)"
  unfolding decided_def emf_true_def emf_cond_def
proof (intro allI impI decide_value supported_decided)
  fix D :: groups and r assume "length D = q_vars q + 1" "r \<in> set data"
  then show "supported cols (q_aggs q) cs it (Some r)" "length D = length (q_aggs q)" "j < length (q_aggs q)"
    using assms by (simp_all add: emf_supported_def list_all_iff)
qed

end
