(* ===== verification/Codegen.thy ===== *)
theory Codegen
  imports Condition
begin

text \<open>
  \<^verbatim>\<open>lib/helpers.cpp\<close>, \<^verbatim>\<open>lib/structures.cpp\<close> and \<^verbatim>\<open>lib/query.cpp\<close>: the text of the lookup helpers, of the
  structure declarations and of the code that loads the table. The field \<^verbatim>\<open>type\<close> of \<^verbatim>\<open>struct ct\<close> stays
  uninitialised when no column matches: that is \<open>None\<close> here, and reading it is undefined.
\<close>

abbreviation dq :: string where "dq \<equiv> [dquote]"

section \<open>\<^verbatim>\<open>helpers.cpp\<close>\<close>

record ct =
  ct_name :: string
  ct_type :: "column_type option"

fun ct_lookup :: "string \<Rightarrow> column list \<Rightarrow> column_type option" where
  "ct_lookup name [] = None"
| "ct_lookup name (c # cs) =
     (if contains name (col_name c) then Some (col_ctype c) else ct_lookup name cs)"

definition get_ct :: "string list \<Rightarrow> column list \<Rightarrow> ct list" where
  "get_ct select_columns columns =
     map (\<lambda>name. \<lparr>ct_name = name, ct_type = ct_lookup name columns\<rparr>) select_columns"

text \<open>The comparison of one key column; \<open>pre\<close> is the expression's prefix (\<^verbatim>\<open>entry->\<close> or nothing).\<close>

definition key_comparison :: "string \<Rightarrow> ct \<Rightarrow> string res" where
  "key_comparison pre c =
     (case ct_type c of
        None \<Rightarrow> Inl Undefined_behaviour
      | Some t \<Rightarrow>
          (if t = CPP_STRING then Inr (pre @ ct_name c @ ''.compare((*it)->'' @ ct_name c @ '') == 0'')
           else if t = CPP_INT64 \<or> t = CPP_FLOAT \<or> t = CPP_DOUBLE then
             Inr (pre @ ct_name c @ '' == '' @ ''(*it)->'' @ ct_name c)
           else if t = CPP_DATE \<or> t = CPP_RAW \<or> t = CPP_VECTOR then
             Inl (Thrown ''Date, Raw, and Vector C++ types are not supported!'')
           else Inr []))"

definition vfind_param :: "ct \<Rightarrow> string res" where
  "vfind_param c =
     (case ct_type c of
        None \<Rightarrow> Inl Undefined_behaviour
      | Some t \<Rightarrow> Inr ('', '' @ getOutCppType t @ '' '' @ ct_name c))"

definition vfind_text :: "ct list \<Rightarrow> int \<Rightarrow> string res" where
  "vfind_text cols i =
     rbind (itoa i) (\<lambda>n.
     rbind (rmap (\<lambda>c. rbind (vfind_param c) (\<lambda>a. rbind (key_comparison [] c) (\<lambda>k. Inr (a, k)))) cols) (\<lambda>ps.
       Inr (''int vfind'' @ n @ ''(vector<struct group'' @ n @ ''*>* data '' @ concat (map fst ps) @ ''){'' @ nl @
            tabs 1 @ '' size_t index = 0;'' @ nl @
            ln 1 (''for(vector<struct group'' @ n @ ''*>::iterator it = data->begin(); it != data->end(); it++){'') @
            ln 2 (''if('' @ join '' && '' (map snd ps) @ ''){'') @
            ln 3 ''return index;'' @ ln 2 ''}'' @ ln 2 ''index++;'' @ ln 1 ''}'' @
            tabs 1 @ '' return -1;'' @ nl @ ''}'' @ nl)))"

definition is_unique_text :: "ct list \<Rightarrow> string res" where
  "is_unique_text cols =
     rbind (rmap (key_comparison ''entry->'') cols) (\<lambda>ks.
       Inr (''bool is_unique(vector<struct sales*>* data,struct sales* entry){'' @ nl @
            ln 1 ''for(vector<struct sales*>::iterator it = data->begin();it != data->end();it++){'' @
            tabs 2 @ ''if('' @ join '' && '' ks @ ''){'' @ nl @
            ln 3 ''return false;'' @ ln 2 ''}'' @ ln 1 ''}'' @ ln 1 ''return true;'' @ ''}'' @ nl))"

definition get_uniques_text :: string where
  "get_uniques_text =
     ''vector<struct sales*>* get_uniques(vector<struct sales*>* data){'' @ nl @
     ln 1 ''vector<struct sales*>* out = new vector<struct sales*>();'' @
     ln 1 ''for(vector<struct sales*>::iterator it = data->begin();it != data->end();it++){'' @
     ln 2 ''if(is_unique(out,*it)){'' @ ln 3 ''out->push_back(*it);'' @ ln 2 ''}'' @ ln 1 ''}'' @
     ln 1 ''return out;'' @ ''}'' @ nl"

definition get_helpers :: "int \<Rightarrow> string list \<Rightarrow> column list \<Rightarrow> string res" where
  "get_helpers no_grouping_vars grouping_attr columns =
     (let cols = get_ct grouping_attr columns in
      rconcat (map (vfind_text cols) [0..no_grouping_vars] @ [is_unique_text cols, Inr get_uniques_text]))"

section \<open>\<^verbatim>\<open>structures.cpp\<close>\<close>

definition printer_item :: "string \<Rightarrow> string res" where
  "printer_item name =
     rbind (isAggregate name) (\<lambda>is_aggr.
     rbind (if is_aggr then rbind (new_Aggregate name) toABSVar else Inr name) (\<lambda>v.
       Inr (''<<(*it)->'' @ v @ ''<<'' @ dq @ ''|'' @ dq)))"

definition create_output_printer :: "string list \<Rightarrow> column list \<Rightarrow> string res" where
  "create_output_printer select_attribute columns =
     rbind (rmap printer_item select_attribute) (\<lambda>items.
       Inr (''void print_mf_structure(vector<struct mf_structure*>* mf_struct){'' @ nl @
            tabs 1 @ ''cout<<'' @ dq @ ''|'' @ concat (map (\<lambda>a. a @ ''|'') select_attribute) @ dq @ ''<<endl;'' @ nl @
            ln 1 ''for(auto it = mf_struct->begin(); it != mf_struct->end(); it++){'' @
            tabs 2 @ ''cout<<'' @ dq @ ''|'' @ dq @ concat items @ ''<<endl;'' @ nl @
            ln 1 ''}'' @ ''}'' @ nl))"

text \<open>The type of the first column whose name occurs in (is equal to) the given name.\<close>

fun type_containing :: "string \<Rightarrow> column list \<Rightarrow> string" where
  "type_containing name [] = []"
| "type_containing name (c # cs) =
     (if contains name (col_name c) then getOutCppType (col_type c) else type_containing name cs)"

fun type_equal :: "string \<Rightarrow> column list \<Rightarrow> string" where
  "type_equal name [] = []"
| "type_equal name (c # cs) =
     (if name = col_name c then getOutCppType (col_type c) else type_equal name cs)"

definition mf_member :: "column list \<Rightarrow> string \<Rightarrow> string res" where
  "mf_member columns name =
     (let type = type_containing name columns in
      rbind (isAggregate name) (\<lambda>is_aggr.
        if is_aggr then
          rbind (new_Aggregate name) (\<lambda>tmp. rbind (toABSVar tmp) (\<lambda>v.
            Inr (ln 1 ((if type = ''string'' then ''int64_t'' else type) @ '' '' @ v @ '';''))))
        else Inr (ln 1 (type @ '' '' @ name @ '';''))))"

definition create_structures :: "string list \<Rightarrow> column list \<Rightarrow> string res" where
  "create_structures select_attribute columns =
     rbind (rmap (mf_member columns) select_attribute) (\<lambda>ms.
       Inr (''struct mf_structure {'' @ nl @ concat ms @ ''};'' @ nl @
            ''struct sales{'' @ nl @
            concat (map (\<lambda>c. tabs 1 @ getOutCppType (col_type c) @ '' '' @ col_name c @ '';'' @ nl) columns) @
            ''};'' @ nl))"

definition group_member :: "column list \<Rightarrow> aggregate \<Rightarrow> string" where
  "group_member columns a =
     (let type = (if func a = ''count'' then ''int64_t'' else type_containing (acol a) columns) in
      if func a = ''avg'' \<or> func a = ''AVG'' then ln 1 (''Average<'' @ type @ ''> '' @ toVar a @ '';'')
      else ln 1 (type @ '' '' @ toVar a @ '';''))"

definition group_struct :: "column list \<Rightarrow> string list \<Rightarrow> aggregate list \<Rightarrow> int \<Rightarrow> string res" where
  "group_struct columns select_columns all_aggregates i =
     rbind (itoa i) (\<lambda>n.
       Inr (''struct group'' @ n @ ''{'' @ nl @
            concat (map (\<lambda>name. ln 1 (type_equal name columns @ '' '' @ name @ '';'')) select_columns) @
            concat (map (group_member columns) (filter (\<lambda>a. group a = i) all_aggregates)) @
            ''};'' @ nl))"

definition create_grouping_var_structs :: "int \<Rightarrow> column list \<Rightarrow> string list \<Rightarrow> aggregate list \<Rightarrow> string res" where
  "create_grouping_var_structs no columns select_columns all_aggregates =
     rconcat (map (group_struct columns select_columns all_aggregates) [0..no])"

section \<open>\<^verbatim>\<open>query.cpp\<close>\<close>

definition get_sql_res_function :: "column_type \<Rightarrow> string" where
  "get_sql_res_function t =
     (case t of CPP_DATE \<Rightarrow> ''getString'' | CPP_STRING \<Rightarrow> ''getString'' | CPP_INT64 \<Rightarrow> ''getInt''
      | CPP_FLOAT \<Rightarrow> ''getFloat'' | CPP_DOUBLE \<Rightarrow> ''getDouble'' | _ \<Rightarrow> ''getString'')"

definition DATABASE :: string where "DATABASE = ''CS562''"
definition TABLE :: string where "TABLE = ''test''"

definition load_column :: "column \<Rightarrow> string" where
  "load_column c =
     ln 2 (''entry->'' @ col_name c @ '' = res->'' @ get_sql_res_function (col_ctype c) @
           ''('' @ dq @ col_name c @ dq @ '');'')"

definition data_retrieval :: "column list \<Rightarrow> string \<Rightarrow> string" where
  "data_retrieval columns where_clause =
     tabs 1 @ ''SQLConn* conn = new SQLConn('' @ dq @ DATABASE @ dq @ '');'' @ nl @
     tabs 1 @ ''res = conn->fetch('' @ dq @ ''SELECT * FROM '' @ TABLE @ '' WHERE '' @ where_clause @ dq @ '');'' @ nl @
     ln 1 ''vector<struct sales*>* data = new vector<struct sales*>();'' @
     ln 1 ''while(res->next()){'' @
     ln 2 ''struct sales* entry = (struct sales*)calloc(1,sizeof(struct sales));'' @
     concat (map load_column columns) @
     ln 2 ''data->push_back(entry);'' @ ln 1 ''}'' @ ln 1 ''delete res;''"

section \<open>When code generation succeeds\<close>

definition key_type_ok :: "column_type \<Rightarrow> bool" where
  "key_type_ok t \<longleftrightarrow> t \<notin> {CPP_DATE, CPP_RAW, CPP_VECTOR}"

lemma key_comparison_ok:
  "ct_type c = Some t \<Longrightarrow> key_type_ok t \<Longrightarrow> \<exists>s. key_comparison pre c = Inr s"
  by (auto simp: key_comparison_def key_type_ok_def)

lemma key_comparison_throws:
  "ct_type c = Some t \<Longrightarrow> \<not> key_type_ok t \<Longrightarrow>
     key_comparison pre c = Inl (Thrown ''Date, Raw, and Vector C++ types are not supported!'')"
  by (auto simp: key_comparison_def key_type_ok_def)

lemma ct_lookup_Some:
  "ct_lookup n cs = Some t \<Longrightarrow> \<exists>c \<in> set cs. sublist (col_name c) n \<and> t = col_ctype c"
  by (induction cs) (auto simp: contains_iff_sublist split: if_splits)

lemma ct_lookup_None: "ct_lookup n cs = None \<longleftrightarrow> \<not> hasColumn n cs"
  by (induction cs) auto

lemma rmap_exists: "(\<And>x. x \<in> set xs \<Longrightarrow> \<exists>y. f x = Inr y) \<Longrightarrow> \<exists>ys. rmap f xs = Inr ys"
  by (induction xs) (auto simp: res_simps)

lemma rconcat_exists: "(\<And>x. x \<in> set xs \<Longrightarrow> \<exists>y. x = Inr y) \<Longrightarrow> \<exists>y. rconcat xs = Inr y"
  by (induction xs) (auto simp: res_simps)

lemma itoa_exists: "0 \<le> i \<Longrightarrow> \<exists>s. itoa i = Inr s"
  using itoa_nonneg by blast

lemma vfind_text_total:
  assumes "0 \<le> i" "\<And>c. c \<in> set cols \<Longrightarrow> \<exists>t. ct_type c = Some t \<and> key_type_ok t"
  shows "\<exists>s. vfind_text cols i = Inr s"
proof -
  let ?f = "\<lambda>c. rbind (vfind_param c) (\<lambda>a. rbind (key_comparison [] c) (\<lambda>k. Inr (a, k)))"
  have "\<exists>y. ?f c = Inr y" if "c \<in> set cols" for c
  proof -
    obtain t where t: "ct_type c = Some t" "key_type_ok t" using assms(2) \<open>c \<in> set cols\<close> by blast
    then obtain k where "key_comparison [] c = Inr k" using key_comparison_ok by blast
    with t(1) show ?thesis by (simp add: vfind_param_def)
  qed
  then obtain ps where "rmap ?f cols = Inr ps" using rmap_exists [of cols ?f] by blast
  with itoa_exists [OF assms(1)] show ?thesis by (auto simp: vfind_text_def)
qed

lemma is_unique_text_total:
  assumes "\<And>c. c \<in> set cols \<Longrightarrow> \<exists>t. ct_type c = Some t \<and> key_type_ok t"
  shows "\<exists>s. is_unique_text cols = Inr s"
proof -
  have "\<exists>y. key_comparison ''entry->'' c = Inr y" if "c \<in> set cols" for c
    using assms [OF that] key_comparison_ok by blast
  then obtain ks where "rmap (key_comparison ''entry->'') cols = Inr ks"
    using rmap_exists [of cols "key_comparison ''entry->''"] by blast
  then show ?thesis by (auto simp: is_unique_text_def)
qed

lemma get_helpers_total:
  assumes "\<And>a. a \<in> set grouping_attr \<Longrightarrow> hasColumn a columns"
    and "\<And>c. c \<in> set columns \<Longrightarrow> key_type_ok (col_ctype c)"
  shows "\<exists>s. get_helpers n grouping_attr columns = Inr s"
proof -
  let ?cols = "get_ct grouping_attr columns"
  have ok: "\<exists>t. ct_type c = Some t \<and> key_type_ok t" if c: "c \<in> set ?cols" for c
  proof -
    obtain a where a: "a \<in> set grouping_attr" "c = \<lparr>ct_name = a, ct_type = ct_lookup a columns\<rparr>"
      using c by (auto simp: get_ct_def)
    obtain t where "ct_lookup a columns = Some t"
      using assms(1) [OF a(1)] by (cases "ct_lookup a columns") (auto simp: ct_lookup_None)
    with a(2) assms(2) show ?thesis by (auto dest: ct_lookup_Some)
  qed
  have "\<exists>y. x = Inr y"
    if "x \<in> set (map (vfind_text ?cols) [0..n] @ [is_unique_text ?cols, Inr get_uniques_text])" for x
    using that vfind_text_total [OF _ ok] is_unique_text_total [OF ok] by auto
  then show ?thesis unfolding get_helpers_def Let_def by (rule rconcat_exists)
qed

lemma get_helpers_unsupported:
  assumes "grouping_attr = a # as" "0 \<le> n" "ct_lookup a columns = Some t" "\<not> key_type_ok t"
  shows "get_helpers n grouping_attr columns
    = Inl (Thrown ''Date, Raw, and Vector C++ types are not supported!'')"
proof -
  obtain s where "itoa 0 = Inr s" using itoa_exists [of 0] by auto
  then have "vfind_text (get_ct grouping_attr columns) 0
      = Inl (Thrown ''Date, Raw, and Vector C++ types are not supported!'')"
    using assms(1,3,4) by (simp add: vfind_text_def get_ct_def vfind_param_def key_comparison_throws)
  then show ?thesis
    using assms(2) by (simp add: get_helpers_def Let_def upto_rec1)
qed

end
