(* ===== verification/Output.thy ===== *)
theory Output
  imports Scan_Generator Codegen
begin

text \<open>
  \<^verbatim>\<open>lib/output.cpp\<close> and \<^verbatim>\<open>lib/io.cpp\<close>: from a query's components to the two files of the emitted
  program. The files are a map from path to contents, and which paths the operating system lets the program
  remove, open for writing and open for reading. The answer of the database to the query of
  \<open>getColumns\<close> is an argument: a list of (\<^verbatim>\<open>COLUMN_NAME\<close>, \<^verbatim>\<open>DATA_TYPE\<close>) rows.
\<close>

section \<open>Files\<close>

record files =
  fl_at :: "string \<rightharpoonup> string"
  fl_unlink :: "string \<Rightarrow> bool"
  fl_write :: "string \<Rightarrow> bool"
  fl_read :: "string \<Rightarrow> bool"

text \<open>A stream that could not be opened drops what is written to it, without an exception.\<close>

definition append_to_file :: "string \<Rightarrow> string \<Rightarrow> string \<Rightarrow> files \<Rightarrow> files" where
  "append_to_file dir filename data fs =
     (let loc = dir @ filename in
      if fl_write fs loc
      then fs\<lparr>fl_at := (fl_at fs)(loc \<mapsto> (case fl_at fs loc of None \<Rightarrow> data | Some old \<Rightarrow> old @ data))\<rparr>
      else fs)"

text \<open>\<^verbatim>\<open>unlink\<close>, whose result is not looked at, then \<^verbatim>\<open>open\<close>, which creates or truncates.\<close>

definition unlink :: "string \<Rightarrow> files \<Rightarrow> files" where
  "unlink loc fs = (if fl_unlink fs loc then fs\<lparr>fl_at := (fl_at fs)(loc := None)\<rparr> else fs)"

definition write_to_file :: "string \<Rightarrow> string \<Rightarrow> string \<Rightarrow> files \<Rightarrow> files" where
  "write_to_file dir filename data fs =
     (let loc = dir @ filename; fs' = unlink loc fs in
      if fl_write fs' loc then fs'\<lparr>fl_at := (fl_at fs')(loc \<mapsto> data)\<rparr> else fs')"

text \<open>
  \<^verbatim>\<open>getline\<close>: the characters up to a newline, the rest after it, and whether the end of the file was
  met instead of a newline.
\<close>

definition getline :: "string \<Rightarrow> string \<times> string \<times> bool" where
  "getline s =
     (let l = takeWhile (\<lambda>c. c \<noteq> CHR 0x0A) s; r = dropWhile (\<lambda>c. c \<noteq> CHR 0x0A) s in
      case r of [] \<Rightarrow> (l, [], True) | _ # r' \<Rightarrow> (l, r', False))"

lemma getline_shorter: "getline s = (tmp, rest, False) \<Longrightarrow> length rest < length s"
  using length_dropWhile_le [of "\<lambda>c. c \<noteq> CHR 0x0A" s]
  by (auto simp: getline_def Let_def split: list.splits)

function read_lines :: "string \<Rightarrow> string \<Rightarrow> string" where
  "read_lines s out =
     (case getline s of (tmp, rest, eof) \<Rightarrow>
        if eof then out @ tmp @ nl else read_lines rest (out @ tmp @ nl))"
  by pat_completeness auto
termination
  by (relation "measure (\<lambda>(s, out). length s)") (auto dest: getline_shorter [OF sym])

declare read_lines.simps [simp del]

definition read_from_file :: "string \<Rightarrow> string \<Rightarrow> files \<Rightarrow> string res" where
  "read_from_file dir filename fs =
     (if fl_read fs (dir @ filename)
      then case fl_at fs (dir @ filename) of None \<Rightarrow> Inl Std_exception | Some s \<Rightarrow> Inr (read_lines s [])
      else Inl Std_exception)"

section \<open>Columns and aggregates of the query\<close>

definition columns_query :: string where
  "columns_query = ''SELECT * FROM `COLUMNS` WHERE `TABLE_NAME` = '' @ [squote] @ TABLE @ [squote] @
     '' AND `TABLE_SCHEMA` = '' @ [squote] @ DATABASE @ [squote]"

definition getColumns :: "(string \<times> string) list \<Rightarrow> column list" where
  "getColumns rows = map (\<lambda>(name, data_type). Column_of_string name data_type) rows"

definition getAllAggregates :: "string list option \<Rightarrow> aggregate list res" where
  "getAllAggregates f_vect =
     (case f_vect of None \<Rightarrow> Inl Undefined_behaviour | Some fs \<Rightarrow> rmap new_Aggregate fs)"

text \<open>
  The second component is what is pushed into \<^verbatim>\<open>select_columns\<close>, which \<^verbatim>\<open>parse_query\<close> passes as a
  non-null pointer.
\<close>

fun select_loop :: "string list \<Rightarrow> aggregate list \<Rightarrow> string list \<Rightarrow> (aggregate list \<times> string list) res" where
  "select_loop [] out cols = Inr (out, cols)"
| "select_loop (s # ss) out cols =
     rbind (isAggregate s) (\<lambda>is_aggr.
       if is_aggr then rbind (new_Aggregate s) (\<lambda>a. select_loop ss (out @ [a]) cols)
       else select_loop ss out (cols @ [s]))"

definition getSelectAggregates :: "string list option \<Rightarrow> (aggregate list \<times> string list) res" where
  "getSelectAggregates select_attribute =
     (case select_attribute of None \<Rightarrow> Inl Undefined_behaviour | Some ss \<Rightarrow> select_loop ss [] [])"

section \<open>\<^verbatim>\<open>parse_query\<close>\<close>

record query_input =
  in_select :: "string list option"
  in_where :: string
  in_vars :: int
  in_grouping :: "string list option"
  in_fvect :: "string list option"
  in_conds :: "string list option"
  in_having :: string
  in_emf :: bool

definition header_start :: string where
  "header_start =
     ''#ifndef _RESULT_H_'' @ nl @ ''#define _RESULT_H_ '' @ nl @ ''#include <string>'' @ nl @
     ''#include <vector>'' @ nl @ ''#include <cstdint>'' @ nl @ ''#include <map>'' @ nl @
     ''#include <cppconn/resultset.h>'' @ nl @ ''#include '' @ dq @ ''lib/str.h'' @ dq @ nl @
     ''#include '' @ dq @ ''lib/objects/average.h'' @ dq @ nl @
     ''#include '' @ dq @ ''lib/objects/sql.h'' @ dq @ nl"

definition OUTPUT_FILE :: string where "OUTPUT_FILE = ''./result.cpp''"
definition OUTPUT_FILE_HEADER_LOCATION :: string where "OUTPUT_FILE_HEADER_LOCATION = ''./result.h''"

definition the_ptr :: "'a option \<Rightarrow> 'a res" where
  "the_ptr p = (case p of None \<Rightarrow> Inl Undefined_behaviour | Some x \<Rightarrow> Inr x)"

definition parse_query :: "(string \<times> string) list \<Rightarrow> query_input \<Rightarrow> files \<Rightarrow> files res" where
  "parse_query rows inp fs =
     (let columns = getColumns rows in
      rbind (getAllAggregates (in_fvect inp)) (\<lambda>all_aggregates.
      rbind (getSelectAggregates (in_select inp)) (\<lambda>(select_aggregates, select_columns).
      rbind (getConditions (in_conds inp)) (\<lambda>select_conditions.
      rbind (the_ptr (in_select inp)) (\<lambda>select_attribute.
      rbind (create_structures select_attribute columns) (\<lambda>structures.
      rbind (create_grouping_var_structs (in_vars inp) columns select_columns all_aggregates) (\<lambda>group_structs.
      rbind (the_ptr (in_grouping inp)) (\<lambda>grouping_attr.
      rbind (get_helpers (in_vars inp) grouping_attr columns) (\<lambda>helpers.
      rbind (create_output_printer select_attribute columns) (\<lambda>printer.
      rbind (scan_generate
               \<lparr>no_grouping_vars = in_vars inp, columns = columns, select_columns = select_columns,
                select_aggregates = select_aggregates, all_aggregates = all_aggregates,
                select_conditions = select_conditions, having = in_having inp,
                grouping_attr = grouping_attr, emf = in_emf inp\<rparr>) (\<lambda>scans.
        let header = header_start @ structures @ group_structs @ ''#endif'';
            program =
              ''#include '' @ dq @ ''result.h'' @ dq @ nl @ ''using namespace std;'' @ nl @ nl @
              helpers @ printer @
              ''int main(){'' @ nl @ ln 1 ''sql::ResultSet* res;'' @
              ln 1 ''vector<struct mf_structure*>* mf_struct = new vector<struct mf_structure*>();'' @
              data_retrieval columns (in_where inp) @ scans @
              ln 1 ''print_mf_structure(mf_struct);'' @ ln 1 ''return 0;'' @ ''}'' @ nl
        in Inr (write_to_file [] OUTPUT_FILE program
                 (write_to_file [] OUTPUT_FILE_HEADER_LOCATION header fs)))))))))))))"

section \<open>Lemmas\<close>

lemma getline_append:
  "CHR 0x0A \<notin> set l \<Longrightarrow> getline (l @ CHR 0x0A # r) = (l, r, False)"
  "CHR 0x0A \<notin> set l \<Longrightarrow> getline l = (l, [], True)"
proof -
  assume a: "CHR 0x0A \<notin> set l"
  then have "\<forall>x \<in> set l. x \<noteq> CHR 0x0A" by auto
  then have "takeWhile (\<lambda>c. c \<noteq> CHR 0x0A) (l @ CHR 0x0A # r) = l"
    "dropWhile (\<lambda>c. c \<noteq> CHR 0x0A) (l @ CHR 0x0A # r) = CHR 0x0A # r"
    "takeWhile (\<lambda>c. c \<noteq> CHR 0x0A) l = l" "dropWhile (\<lambda>c. c \<noteq> CHR 0x0A) l = []"
    by (simp_all add: takeWhile_append2 dropWhile_append2)
  then show "getline (l @ CHR 0x0A # r) = (l, r, False)" "getline l = (l, [], True)"
    by (simp_all only: getline_def Let_def) auto
qed

text \<open>Reading a file yields its contents with one more newline.\<close>

lemma read_lines_eq: "read_lines s out = out @ s @ nl"
proof (induction s arbitrary: out rule: length_induct)
  case (1 s)
  show ?case
  proof (cases "CHR 0x0A \<in> set s")
    case False
    then show ?thesis by (simp add: read_lines.simps [of s] getline_append)
  next
    case True
    then obtain l r where s: "s = l @ CHR 0x0A # r" "CHR 0x0A \<notin> set l" by (meson split_list_first)
    then have "read_lines s out = read_lines r (out @ l @ nl)"
      by (subst read_lines.simps) (simp add: getline_append)
    also have "\<dots> = (out @ l @ nl) @ r @ nl" using "1.IH" s by simp
    finally show ?thesis using s by simp
  qed
qed

lemma read_from_file_eq:
  "fl_read fs (dir @ f) \<Longrightarrow> fl_at fs (dir @ f) = Some s \<Longrightarrow> read_from_file dir f fs = Inr (s @ nl)"
  by (simp add: read_from_file_def read_lines_eq)

lemma write_to_file_eq:
  "fl_write fs (dir @ f) \<Longrightarrow> write_to_file dir f s fs = fs\<lparr>fl_at := (fl_at fs)(dir @ f \<mapsto> s)\<rparr>"
  by (simp add: write_to_file_def unlink_def Let_def)

lemma write_read:
  "fl_write fs (dir @ f) \<Longrightarrow> fl_read fs (dir @ f) \<Longrightarrow> read_from_file dir f (write_to_file dir f s fs) = Inr (s @ nl)"
  by (simp add: read_from_file_eq write_to_file_eq)

text \<open>A path that cannot be written loses its file, if it can be removed, and nothing is reported.\<close>

lemma write_to_file_lost:
  "\<not> fl_write fs (dir @ f) \<Longrightarrow> fl_at (write_to_file dir f s fs) =
     (if fl_unlink fs (dir @ f) then (fl_at fs)(dir @ f := None) else fl_at fs)"
  by (simp add: write_to_file_def unlink_def Let_def)

text \<open>Selected items are split into aggregates and columns, both in order.\<close>

lemma select_loop_eq:
  "list_all (\<lambda>s. isAggregate s = Inr True \<longrightarrow> (\<exists>a. new_Aggregate s = Inr a)) ss \<Longrightarrow>
     \<exists>as. rmap new_Aggregate (filter (\<lambda>s. isAggregate s = Inr True) ss) = Inr as
       \<and> select_loop ss out cols = Inr (out @ as, cols @ filter (\<lambda>s. isAggregate s \<noteq> Inr True) ss)"
proof (induction ss arbitrary: out cols)
  case Nil
  then show ?case by simp
next
  case (Cons s ss)
  show ?case
  proof (cases "isAggregate s = Inr True")
    case True
    with Cons.prems obtain a where "new_Aggregate s = Inr a" by auto
    with True Cons.IH [of "out @ [a]" cols] Cons.prems show ?thesis by auto
  next
    case False
    then have "isAggregate s = Inr False" by (simp add: isAggregate_eq)
    with Cons.IH [of out "cols @ [s]"] Cons.prems show ?thesis by auto
  qed
qed

text \<open>Generation writes the header and the program, each put together from its parts.\<close>

lemma parse_query_writes:
  assumes "parse_query rows inp fs = Inr fs'" "fl_write fs ''./result.h''" "fl_write fs ''./result.cpp''"
  shows "\<exists>sel grp aggs saggs scols cs structs group_structs helpers printer scans.
    in_select inp = Some sel \<and> in_grouping inp = Some grp \<and> getAllAggregates (in_fvect inp) = Inr aggs
    \<and> getSelectAggregates (Some sel) = Inr (saggs, scols) \<and> getConditions (in_conds inp) = Inr cs
    \<and> create_structures sel (getColumns rows) = Inr structs
    \<and> create_grouping_var_structs (in_vars inp) (getColumns rows) scols aggs = Inr group_structs
    \<and> get_helpers (in_vars inp) grp (getColumns rows) = Inr helpers
    \<and> create_output_printer sel (getColumns rows) = Inr printer
    \<and> scan_generate \<lparr>no_grouping_vars = in_vars inp, columns = getColumns rows, select_columns = scols,
        select_aggregates = saggs, all_aggregates = aggs, select_conditions = cs, having = in_having inp,
        grouping_attr = grp, emf = in_emf inp\<rparr> = Inr scans
    \<and> fs' = fs\<lparr>fl_at := (fl_at fs)(
        ''./result.h'' \<mapsto> header_start @ structs @ group_structs @ ''#endif'',
        ''./result.cpp'' \<mapsto> ''#include '' @ dq @ ''result.h'' @ dq @ nl @ ''using namespace std;'' @ nl @ nl @ helpers @ printer @
          ''int main(){'' @ nl @ ln 1 ''sql::ResultSet* res;'' @
          ln 1 ''vector<struct mf_structure*>* mf_struct = new vector<struct mf_structure*>();'' @
          data_retrieval (getColumns rows) (in_where inp) @ scans @
          ln 1 ''print_mf_structure(mf_struct);'' @ ln 1 ''return 0;'' @ ''}'' @ nl)\<rparr>"
  using assms(1)
  unfolding parse_query_def rbind_eq_Inr Let_def the_ptr_def
  by (elim exE conjE, simp only: split_paired_all prod.case rbind_eq_Inr sum.inject)
    (force simp: write_to_file_eq assms(2,3) OUTPUT_FILE_def OUTPUT_FILE_HEADER_LOCATION_def split: option.splits)

end
