(* ===== verification/User.thy ===== *)
theory User
  imports Output
begin

text \<open>
  \<^verbatim>\<open>lib/user.cpp\<close>, \<^verbatim>\<open>main.cpp\<close> and \<^verbatim>\<open>lib/debug.cpp\<close>: the query description, from a file or typed in, and
  the command line. Positions in the file are \<^verbatim>\<open>int64_t\<close> (a missing heading is \<open>-1\<close>) that are added
  to unsigned lengths, so the sums are taken modulo \<open>2 ^ 64\<close>.
\<close>

section \<open>Headings\<close>

definition parts :: "string list" where
  "parts = [''SELECT ATTRIBUTE(S):'', ''WHERE(W):'', ''NUMBER OF GROUPING VARIABLES(n):'',
            ''GROUPING ATTRIBUTES(V):'', ''F-VECT([F]):'',
            ''SELECT CONDITION-VECT(['' @ [CHR 0xCF, CHR 0x83] @ '']):'', ''HAVING_CONDITION(G):'']"

definition u64 :: "int \<Rightarrow> nat" where
  "u64 x = nat (x mod 2 ^ 64)"

definition find64 :: "string \<Rightarrow> string \<Rightarrow> int" where
  "find64 p data = (case std_find p data of None \<Rightarrow> - 1 | Some i \<Rightarrow> int i)"

text \<open>
  \<^verbatim>\<open>data.substr(i + part.length() + skip, j - (i + part.length() + skip + 1))\<close> with \<open>skip = 1\<close>, and
  with no character skipped for the number of grouping variables.
\<close>

definition section_text :: "string \<Rightarrow> string \<Rightarrow> int \<Rightarrow> int \<Rightarrow> string res" where
  "section_text data part i j =
     std_substr data (u64 (i + int (length part) + 1)) (u64 (j - (i + int (length part) + 2)))"

definition number_text :: "string \<Rightarrow> string \<Rightarrow> int \<Rightarrow> int \<Rightarrow> string res" where
  "number_text data part i j =
     std_substr data (u64 (i + int (length part))) (u64 (j - (i + int (length part))))"

section \<open>\<^verbatim>\<open>parse_file_input\<close>\<close>

record query_text =
  t_select :: string
  t_where :: string
  t_vars :: int
  t_grouping :: string
  t_fvect :: string
  t_conds :: string
  t_having :: string

definition file_sections :: "string \<Rightarrow> query_text res" where
  "file_sections data =
     (let p = (\<lambda>k. parts ! k); index = (\<lambda>k. find64 (parts ! k) data) in
      rbind (section_text data (p 0) (index 0) (index 1)) (\<lambda>s.
      rbind (section_text data (p 1) (index 1) (index 2)) (\<lambda>w.
      rbind (number_text data (p 2) (index 2) (index 3)) (\<lambda>nt.
      rbind (trim nt) (\<lambda>n0.
      rbind (atoi n0) (\<lambda>n.
      rbind (section_text data (p 3) (index 3) (index 4)) (\<lambda>v.
      rbind (section_text data (p 4) (index 4) (index 5)) (\<lambda>f.
      rbind (if n > 0 then section_text data (p 5) (index 5) (index 6) else Inr []) (\<lambda>svc.
      rbind (std_substr_from data (u64 (index 6 + int (length (p 6)) + 1))) (\<lambda>g.
        Inr \<lparr>t_select = s, t_where = w, t_vars = n, t_grouping = v, t_fvect = f,
             t_conds = svc, t_having = g\<rparr>))))))))))"

definition split_text :: "query_text \<Rightarrow> bool \<Rightarrow> query_input res" where
  "split_text t is_emf =
     rbind (explode '', '' (t_select t)) (\<lambda>s.
     rbind (explode '', '' (t_grouping t)) (\<lambda>v.
     rbind (explode '', '' (t_fvect t)) (\<lambda>f.
     rbind (explode nl (t_conds t)) (\<lambda>c.
       Inr \<lparr>in_select = s, in_where = t_where t, in_vars = t_vars t, in_grouping = v,
            in_fvect = f, in_conds = c, in_having = t_having t, in_emf = is_emf\<rparr>))))"

definition parse_file_input :: "(string \<times> string) list \<Rightarrow> string \<Rightarrow> bool \<Rightarrow> files \<Rightarrow> files res" where
  "parse_file_input rows file is_emf fs =
     rbind (read_from_file file [] fs) (\<lambda>data.
     rbind (file_sections data) (\<lambda>t.
     rbind (split_text t is_emf) (\<lambda>inp. parse_query rows inp fs)))"

section \<open>\<^verbatim>\<open>parse_user_input\<close>\<close>

text \<open>
  Standard input is the list of lines left, with the stream's failure flag. Reading from a failed
  or exhausted stream leaves the (empty) variable as it is and sets the flag. The conditions are read into a
  buffer of 500 bytes: a longer line is cut and the stream fails.
\<close>

type_synonym stdin = "bool \<times> string list"

definition read_line :: "stdin \<Rightarrow> string \<times> stdin" where
  "read_line i = (case i of
       (False, l # ls) \<Rightarrow> (l, (False, ls)) | (_, ls) \<Rightarrow> ([], (True, ls)))"

definition read_buffer :: "nat \<Rightarrow> stdin \<Rightarrow> string \<times> stdin" where
  "read_buffer n i = (case i of
       (False, l # ls) \<Rightarrow> if length l < n then (l, (False, ls))
                         else (take (n - 1) l, (True, drop (n - 1) l # ls))
     | (_, ls) \<Rightarrow> ([], (True, ls)))"

fun read_conds :: "nat \<Rightarrow> stdin \<Rightarrow> string list \<times> stdin" where
  "read_conds 0 i = ([], i)"
| "read_conds (Suc k) i =
     (let (b, i1) = read_buffer 500 i; (bs, i2) = read_conds k i1
      in (takeWhile (\<lambda>c. c \<noteq> CHR 0x00) b # bs, i2))"

definition parse_user_input :: "(string \<times> string) list \<Rightarrow> bool \<Rightarrow> stdin \<Rightarrow> files \<Rightarrow> files res" where
  "parse_user_input rows is_emf i0 fs =
     (let (s, i1) = read_line i0; (w, i2) = read_line i1; (n, i3) = read_line i2 in
      rbind (stoi n) (\<lambda>no_grouping_vars.
        let (v, i4) = read_line i3; (f, i5) = read_line i4;
            (cs, i6) = read_conds (nat no_grouping_vars) i5; (g, i7) = read_line i6
        in rbind (explode '', '' s) (\<lambda>sa.
           rbind (explode '', '' v) (\<lambda>va.
           rbind (explode '', '' f) (\<lambda>fa.
             parse_query rows
               \<lparr>in_select = sa, in_where = w, in_vars = no_grouping_vars, in_grouping = va,
                in_fvect = fa, in_conds = Some cs, in_having = g, in_emf = is_emf\<rparr> fs)))))"

section \<open>\<^verbatim>\<open>main\<close>\<close>

text \<open>What \<^verbatim>\<open>main\<close> does with its arguments (without the program name).\<close>

datatype action = User_input bool | File_input string bool | Invalid_input

definition main_action :: "string list \<Rightarrow> action" where
  "main_action args =
     (if length args < 1 then User_input False
      else if length args = 1 \<and> args ! 0 = ''-emf'' then User_input True
      else if length args = 1 then File_input (args ! 0) False
      else if args ! 0 = ''-emf'' then File_input (args ! 1) True
      else if args ! 1 = ''-emf'' then File_input (args ! 0) True
      else Invalid_input)"

definition main_program :: "(string \<times> string) list \<Rightarrow> string list \<Rightarrow> stdin \<Rightarrow> files \<Rightarrow> files res" where
  "main_program rows args i fs =
     (case main_action args of
        User_input is_emf \<Rightarrow> parse_user_input rows is_emf i fs
      | File_input f is_emf \<Rightarrow> parse_file_input rows f is_emf fs
      | Invalid_input \<Rightarrow> Inr fs)"

section \<open>\<^verbatim>\<open>debug.cpp\<close>\<close>

text \<open>The text \<^verbatim>\<open>print_vector\<close> sends to standard output.\<close>

fun print_strings_from :: "int \<Rightarrow> string list \<Rightarrow> string res" where
  "print_strings_from counter [] = Inr []"
| "print_strings_from counter (s # ss) =
     rconcat [Inr ''['', itoa counter, Inr ('']:'' @ s @ nl), print_strings_from (counter + 1) ss]"

definition print_vector_strings :: "string list option \<Rightarrow> string res" where
  "print_vector_strings vec =
     (case vec of None \<Rightarrow> Inr (''nullptr'' @ nl) | Some ss \<Rightarrow> print_strings_from 0 ss)"

fun print_columns_from :: "int \<Rightarrow> column list \<Rightarrow> string res" where
  "print_columns_from counter [] = Inr []"
| "print_columns_from counter (c # cs) =
     rconcat [Inr ''['', itoa counter, Inr ('']:Name:'' @ col_name c @ '' Type:''), itoa (type_code (col_type c)),
              Inr '' CType:'', itoa (type_code (col_ctype c)), Inr nl, print_columns_from (counter + 1) cs]"

definition print_vector_columns :: "column list option \<Rightarrow> string res" where
  "print_vector_columns vec =
     (case vec of None \<Rightarrow> Inr (''nullptr'' @ nl) | Some cs \<Rightarrow> print_columns_from 0 cs)"

section \<open>Finding the headings\<close>

lemma prefix_line:
  "CHR 0x0A \<notin> set p \<Longrightarrow> prefix p (u @ CHR 0x0A # v) \<longleftrightarrow> prefix p u"
  by (auto simp: prefix_append prefix_Cons)

lemma std_find_line:
  "p \<noteq> [] \<Longrightarrow> CHR 0x0A \<notin> set p \<Longrightarrow>
     std_find p (u @ CHR 0x0A # v) =
       (case std_find p u of Some i \<Rightarrow> Some i
        | None \<Rightarrow> map_option (\<lambda>k. k + length u + 1) (std_find p v))"
proof (induction u)
  case Nil
  then show ?case by (cases p) (auto simp: prefix_Cons option.map_comp comp_def split: option.splits)
next
  case (Cons c u)
  have "prefix p (c # u @ CHR 0x0A # v) \<longleftrightarrow> prefix p (c # u)"
    using prefix_line [OF Cons.prems(2), of "c # u" v] by simp
  with Cons show ?case
    by (auto simp: option.map_comp comp_def split: option.splits)
qed

definition heading_ok :: "string \<Rightarrow> bool" where
  "heading_ok p \<longleftrightarrow> CHR 0x0A \<notin> set p \<and> CHR '':'' \<in> set p"

text \<open>A heading, a newline, the text, a newline.\<close>

definition block :: "string \<times> string \<Rightarrow> string" where
  "block b = fst b @ nl @ snd b @ nl"

definition layout :: "(string \<times> string) list \<Rightarrow> string" where
  "layout bs = concat (map block bs)"

lemma find_skip_block:
  assumes "heading_ok p" "\<not> sublist p h" "CHR '':'' \<notin> set b"
  shows "std_find p (block (h, b) @ rest) =
    map_option (\<lambda>k. k + length (block (h, b))) (std_find p rest)"
proof -
  have ne: "p \<noteq> []" "CHR 0x0A \<notin> set p" using assms(1) by (auto simp: heading_ok_def)
  have nb: "\<not> sublist p b"
    using assms(1,3) set_mono_sublist [of p b] by (auto simp: heading_ok_def)
  have "std_find p (h @ CHR 0x0A # (b @ CHR 0x0A # rest)) =
      map_option (\<lambda>k. k + length h + 1) (map_option (\<lambda>k. k + length b + 1) (std_find p rest))"
    using assms(2) nb by (simp add: std_find_line [OF ne] std_find_None_iff [THEN iffD2])
  then show ?thesis by (simp add: block_def option.map_comp comp_def add.commute add.left_commute)
qed

lemma find_heading:
  "heading_ok p \<Longrightarrow> list_all (\<lambda>(h, b). \<not> sublist p h \<and> CHR '':'' \<notin> set b) bs \<Longrightarrow>
     std_find p (layout bs @ p @ rest) = Some (length (layout bs))"
proof (induction bs)
  case Nil
  then show ?case by (cases p) (auto simp: layout_def heading_ok_def)
next
  case (Cons hb bs)
  obtain h b where hb: "hb = (h, b)" by (cases hb)
  have "std_find p (block (h, b) @ (layout bs @ p @ rest)) =
      map_option (\<lambda>k. k + length (block (h, b))) (std_find p (layout bs @ p @ rest))"
    using Cons.prems hb by (intro find_skip_block) auto
  with Cons hb show ?case by (simp add: layout_def add.commute)
qed

lemma parts_length: "length parts = 7"
  by (simp add: parts_def)

lemma parts_ok: "k < 7 \<Longrightarrow> heading_ok (parts ! k)"
proof -
  have "list_all heading_ok parts" by (simp add: parts_def heading_ok_def)
  then show "k < 7 \<Longrightarrow> heading_ok (parts ! k)" by (simp add: list_all_length parts_length)
qed

text \<open>No heading occurs inside another one.\<close>

definition parts_apart :: bool where
  "parts_apart \<longleftrightarrow> list_all (\<lambda>k. list_all (\<lambda>j. j = k \<or> \<not> contains (parts ! j) (parts ! k)) [0..<7]) [0..<7]"

lemma parts_apart_holds: parts_apart
  by code_simp

lemma parts_not_sublist: "j < 7 \<Longrightarrow> k < 7 \<Longrightarrow> j \<noteq> k \<Longrightarrow> \<not> sublist (parts ! k) (parts ! j)"
  using parts_apart_holds unfolding parts_apart_def list_all_iff contains_iff_sublist set_upt
  by (metis atLeastLessThan_iff le0)

section \<open>Reading the sections back\<close>

text \<open>The contents of a query file: six sections, the last heading and what follows it.\<close>

definition file_text :: "string list \<Rightarrow> string \<Rightarrow> string" where
  "file_text bodies rest = layout (zip (take 6 parts) bodies) @ parts ! 6 @ rest"

lemma u64_small: "0 \<le> x \<Longrightarrow> x < 2 ^ 63 \<Longrightarrow> u64 x = nat x"
  by (simp add: u64_def)

lemma section_text_at:
  assumes "data = A @ block (h, b) @ R" "length data < 2 ^ 63"
  shows "section_text data h (int (length A)) (int (length (A @ block (h, b)))) = Inr b"
    and "number_text data h (int (length A)) (int (length (A @ block (h, b)))) = Inr (nl @ b @ nl)"
proof -
  have len: "length A + length h + length b + 2 < 2 ^ 63"
    using assms by (simp add: block_def)
  have 1: "u64 (int (length A) + int (length h) + 1) = length A + length h + 1"
    using len by (subst u64_small) auto
  have 2: "u64 (int (length (A @ block (h, b))) - (int (length A) + int (length h) + 2)) = length b"
    using len by (subst u64_small) (auto simp: block_def)
  have 3: "u64 (int (length A) + int (length h)) = length A + length h"
    using len by (subst u64_small) auto
  have 4: "u64 (int (length (A @ block (h, b))) - (int (length A) + int (length h))) = length b + 2"
    using len by (subst u64_small) (auto simp: block_def)
  show "section_text data h (int (length A)) (int (length (A @ block (h, b)))) = Inr b"
    unfolding section_text_def 1 2 using assms(1) by (simp add: std_substr_def block_def)
  show "number_text data h (int (length A)) (int (length (A @ block (h, b)))) = Inr (nl @ b @ nl)"
    unfolding number_text_def 3 4 using assms(1) by (simp add: std_substr_def block_def)
qed

definition body_ok :: "string \<Rightarrow> bool" where
  "body_ok b \<longleftrightarrow> CHR '':'' \<notin> set b"

lemma heading_index:
  assumes "length bodies = 6" "list_all body_ok bodies" "k \<le> 6"
  defines "bs \<equiv> zip (take 6 parts) bodies"
  shows "find64 (parts ! k) (file_text bodies rest) = int (length (layout (take k bs)))"
proof -
  have len: "length bs = 6" using assms(1) by (simp add: bs_def parts_length)
  have "\<not> sublist (parts ! k) (fst (bs ! j)) \<and> CHR '':'' \<notin> set (snd (bs ! j))" if j: "j < k" for j
    using parts_not_sublist [of j k] j assms(1-3)
    by (simp add: bs_def parts_length list_all_length body_ok_def)
  then have ok: "list_all (\<lambda>(h, b). \<not> sublist (parts ! k) h \<and> CHR '':'' \<notin> set b) (take k bs)"
    using len assms(3) by (simp add: list_all_length case_prod_beta)
  have "\<exists>R. file_text bodies rest = layout (take k bs) @ parts ! k @ R"
  proof (cases "k = 6")
    case True
    then show ?thesis using len by (auto simp: file_text_def bs_def)
  next
    case False
    then have k: "k < length bs" using len assms(3) by simp
    then have "bs = take k bs @ bs ! k # drop (Suc k) bs" by (rule id_take_nth_drop)
    then have "layout bs = layout (take k bs) @ block (bs ! k) @ layout (drop (Suc k) bs)"
      by (metis concat.simps(2) concat_append layout_def list.simps(9) map_append)
    moreover have "fst (bs ! k) = parts ! k"
      using k assms(1) by (simp add: bs_def parts_length)
    ultimately show ?thesis by (auto simp: file_text_def bs_def block_def)
  qed
  then obtain R where "file_text bodies rest = layout (take k bs) @ parts ! k @ R" by blast
  then show ?thesis
    using find_heading [OF parts_ok ok, of R] assms(3) by (simp add: find64_def)
qed

lemma file_section:
  assumes "length bodies = 6" "list_all body_ok bodies" "k < 6"
    and "length (file_text bodies rest) < 2 ^ 63"
  defines "data \<equiv> file_text bodies rest"
  shows "section_text data (parts ! k) (find64 (parts ! k) data) (find64 (parts ! Suc k) data) = Inr (bodies ! k)"
    and "number_text data (parts ! k) (find64 (parts ! k) data) (find64 (parts ! Suc k) data) = Inr (nl @ bodies ! k @ nl)"
proof -
  let ?bs = "zip (take 6 parts) bodies"
  have k: "k < length ?bs" using assms(1,3) by (simp add: parts_length)
  have bk: "?bs ! k = (parts ! k, bodies ! k)" using k assms(3) by simp
  have l: "layout (take (Suc k) ?bs) = layout (take k ?bs) @ block (parts ! k, bodies ! k)"
    using k bk by (simp add: take_Suc_conv_app_nth layout_def)
  have "layout ?bs = layout (take (Suc k) ?bs) @ layout (drop (Suc k) ?bs)"
    by (metis append_take_drop_id concat_append layout_def map_append)
  then have d: "data = layout (take k ?bs) @ block (parts ! k, bodies ! k) @ (layout (drop (Suc k) ?bs) @ parts ! 6 @ rest)"
    using l by (simp add: data_def file_text_def)
  have i: "find64 (parts ! k) data = int (length (layout (take k ?bs)))"
    "find64 (parts ! Suc k) data = int (length (layout (take k ?bs) @ block (parts ! k, bodies ! k)))"
    using heading_index [OF assms(1,2), of k rest] heading_index [OF assms(1,2), of "Suc k" rest] assms(3) l
    by (simp_all add: data_def)
  show "section_text data (parts ! k) (find64 (parts ! k) data) (find64 (parts ! Suc k) data) = Inr (bodies ! k)"
    "number_text data (parts ! k) (find64 (parts ! k) data) (find64 (parts ! Suc k) data) = Inr (nl @ bodies ! k @ nl)"
    unfolding i by (rule section_text_at [OF d], use assms(4) in \<open>simp add: data_def\<close>)+
qed

lemma file_having:
  assumes "length bodies = 6" "list_all body_ok bodies" "rest \<noteq> []"
    and "length (file_text bodies rest) < 2 ^ 63"
  shows "std_substr_from (file_text bodies rest)
      (u64 (find64 (parts ! 6) (file_text bodies rest) + int (length (parts ! 6)) + 1)) = Inr (tl rest)"
proof -
  let ?bs = "zip (take 6 parts) bodies"
  have i: "find64 (parts ! 6) (file_text bodies rest) = int (length (layout ?bs))"
    using heading_index [OF assms(1,2), of 6 rest] assms(1) by (simp add: parts_length)
  have "u64 (int (length (layout ?bs)) + int (length (parts ! 6)) + 1) = length (layout ?bs) + length (parts ! 6) + 1"
    using assms(3,4) by (subst u64_small) (cases rest; auto simp: file_text_def)+
  then show ?thesis
    unfolding i using assms(3) by (cases rest) (simp_all add: std_substr_from_def file_text_def)
qed

lemma file_sections_roundtrip:
  assumes "body_ok s" "body_ok w" "body_ok n" "body_ok v" "body_ok f" "body_ok c"
    and "rest \<noteq> []" "length (file_text [s, w, n, v, f, c] rest) < 2 ^ 63"
    and "n \<noteq> []" "\<not> is_blank (hd n)" "atoi (n @ nl) = Inr k"
  shows "file_sections (file_text [s, w, n, v, f, c] rest) =
    Inr \<lparr>t_select = s, t_where = w, t_vars = k, t_grouping = v, t_fvect = f,
         t_conds = (if k > 0 then c else []), t_having = tl rest\<rparr>"
proof -
  let ?bodies = "[s, w, n, v, f, c]"
  have ok: "length ?bodies = 6" "list_all body_ok ?bodies" using assms(1-6) by simp_all
  note sec = file_section(1) [OF ok _ assms(8)]
  have sections:
    "section_text (file_text ?bodies rest) (parts ! 0) (find64 (parts ! 0) (file_text ?bodies rest)) (find64 (parts ! 1) (file_text ?bodies rest)) = Inr s"
    "section_text (file_text ?bodies rest) (parts ! 1) (find64 (parts ! 1) (file_text ?bodies rest)) (find64 (parts ! 2) (file_text ?bodies rest)) = Inr w"
    "section_text (file_text ?bodies rest) (parts ! 3) (find64 (parts ! 3) (file_text ?bodies rest)) (find64 (parts ! 4) (file_text ?bodies rest)) = Inr v"
    "section_text (file_text ?bodies rest) (parts ! 4) (find64 (parts ! 4) (file_text ?bodies rest)) (find64 (parts ! 5) (file_text ?bodies rest)) = Inr f"
    "section_text (file_text ?bodies rest) (parts ! 5) (find64 (parts ! 5) (file_text ?bodies rest)) (find64 (parts ! 6) (file_text ?bodies rest)) = Inr c"
    using sec [of 0] sec [of 1] sec [of 3] sec [of 4] sec [of 5] by (simp_all add: eval_nat_numeral)
  have number: "number_text (file_text ?bodies rest) (parts ! 2) (find64 (parts ! 2) (file_text ?bodies rest)) (find64 (parts ! 3) (file_text ?bodies rest)) = Inr (nl @ n @ nl)"
    using file_section(2) [OF ok _ assms(8), of 2] by (simp add: eval_nat_numeral)
  have trimmed: "trim (nl @ n @ nl) = Inr (n @ nl)"
    using assms(9,10) by (cases n) (auto simp: trim_eq is_blank_def)
  show ?thesis
    by (cases "k > 0") (simp_all only: file_sections_def Let_def sections number trimmed assms(11)
        file_having [OF ok assms(7,8)] rbind_Inr if_True if_False)
qed

end
