(* ===== verification/Sql_Base.thy ===== *)
theory Sql_Base
  imports Prelude
begin

text \<open>
  What the driver theories share: operations on an object's state that may throw. A throwing
  operation keeps the changes it made before the throw, as C++ does. An operation maps the state to
  an outcome and the new state.
\<close>

named_theorems sop_simps \<open>equations of the operations on an object's state\<close>

type_synonym ('s, 'a) sop = "'s \<Rightarrow> 'a res \<times> 's"

definition sret :: "'a \<Rightarrow> ('s, 'a) sop" where
  "sret x = (\<lambda>s. (Inr x, s))"

definition sthrow :: "cpp_error \<Rightarrow> ('s, 'a) sop" where
  "sthrow e = (\<lambda>s. (Inl e, s))"

definition sbind :: "('s, 'a) sop \<Rightarrow> ('a \<Rightarrow> ('s, 'b) sop) \<Rightarrow> ('s, 'b) sop" where
  "sbind m f = (\<lambda>s. case m s of (Inl e, s') \<Rightarrow> (Inl e, s') | (Inr x, s') \<Rightarrow> f x s')"

definition sthen :: "('s, 'a) sop \<Rightarrow> ('s, 'b) sop \<Rightarrow> ('s, 'b) sop" where
  "sthen m n = sbind m (\<lambda>_. n)"

definition sget :: "('s \<Rightarrow> 'a) \<Rightarrow> ('s, 'a) sop" where
  "sget f = (\<lambda>s. (Inr (f s), s))"

definition smod :: "('s \<Rightarrow> 's) \<Rightarrow> ('s, unit) sop" where
  "smod f = (\<lambda>s. (Inr (), f s))"

text \<open>A throw unless the condition holds, and a choice made on the state.\<close>

definition scheck :: "('s \<Rightarrow> bool) \<Rightarrow> cpp_error \<Rightarrow> ('s, unit) sop" where
  "scheck P e = (\<lambda>s. if P s then (Inr (), s) else (Inl e, s))"

definition sif :: "('s \<Rightarrow> bool) \<Rightarrow> ('s, 'a) sop \<Rightarrow> ('s, 'a) sop \<Rightarrow> ('s, 'a) sop" where
  "sif P m n = (\<lambda>s. if P s then m s else n s)"

lemmas sop_defs = sret_def sthrow_def sget_def smod_def scheck_def sif_def

lemma sret_apply [simp, sop_simps]: "sret x s = (Inr x, s)"
  by (simp add: sret_def)

lemma sthrow_apply [simp, sop_simps]: "sthrow e s = (Inl e, s)"
  by (simp add: sthrow_def)

lemma sget_apply [simp, sop_simps]: "sget f s = (Inr (f s), s)"
  by (simp add: sget_def)

lemma smod_apply [simp, sop_simps]: "smod f s = (Inr (), f s)"
  by (simp add: smod_def)

lemma scheck_apply [simp, sop_simps]: "scheck P e s = (if P s then Inr () else Inl e, s)"
  by (simp add: scheck_def)

lemma sif_apply [simp, sop_simps]: "sif P m n s = (if P s then m s else n s)"
  by (simp add: sif_def)

lemma sbind_apply [simp, sop_simps]:
  "sbind m f s = (case m s of (Inl e, s') \<Rightarrow> (Inl e, s') | (Inr x, s') \<Rightarrow> f x s')"
  by (simp add: sbind_def)

lemma sbind_Inr_iff:
  "sbind m f s = (Inr y, s'') \<longleftrightarrow> (\<exists>x s'. m s = (Inr x, s') \<and> f x s' = (Inr y, s''))"
  by (auto split: prod.splits sum.splits)

lemma sthen_apply [simp, sop_simps]:
  "sthen m n s = (case m s of (Inl e, s') \<Rightarrow> (Inl e, s') | (Inr x, s') \<Rightarrow> n s')"
  by (simp add: sthen_def)

lemma sthen_assoc: "sthen (sthen a b) c = sthen a (sthen b c)"
  by (rule ext) (simp split: prod.splits sum.splits)

text \<open>Running a sequence of operations step by step.\<close>

lemma sbind_eqI: "m s = (Inr x, t) \<Longrightarrow> f x t = r \<Longrightarrow> sbind m f s = r"
  by simp

lemma sthen_eqI: "m s = (Inr x, t) \<Longrightarrow> n t = r \<Longrightarrow> sthen m n s = r"
  by simp

text \<open>A property of the state that an operation keeps, whether it returns or throws.\<close>

definition keeps :: "('s \<Rightarrow> bool) \<Rightarrow> ('s, 'a) sop \<Rightarrow> bool" where
  "keeps I m \<longleftrightarrow> (\<forall>s. I s \<longrightarrow> I (snd (m s)))"

lemma keepsD: "keeps I m \<Longrightarrow> I s \<Longrightarrow> m s = (r, s') \<Longrightarrow> I s'"
  by (metis keeps_def snd_conv)

lemma keeps_sret [intro, simp]: "keeps I (sret x)"
  by (simp add: keeps_def)

lemma keeps_sthrow [intro, simp]: "keeps I (sthrow e)"
  by (simp add: keeps_def)

lemma keeps_sget [intro, simp]: "keeps I (sget f)"
  by (simp add: keeps_def)

lemma keeps_scheck [intro, simp]: "keeps I (scheck P e)"
  by (simp add: keeps_def)

lemma keeps_smod: "(\<And>s. I s \<Longrightarrow> I (f s)) \<Longrightarrow> keeps I (smod f)"
  by (simp add: keeps_def)

lemma keeps_sbind: "keeps I m \<Longrightarrow> (\<And>x. keeps I (f x)) \<Longrightarrow> keeps I (sbind m f)"
proof -
  assume m: "keeps I m" and f: "\<And>x. keeps I (f x)"
  have "I (snd (sbind m f s))" if "I s" for s
  proof (cases "m s")
    case (Pair r t)
    then have "I t" using m that by (auto dest: keepsD)
    with Pair f show ?thesis by (cases r) (auto simp: keeps_def)
  qed
  then show ?thesis by (simp add: keeps_def)
qed

lemma keeps_sthen: "keeps I m \<Longrightarrow> keeps I n \<Longrightarrow> keeps I (sthen m n)"
  unfolding sthen_def by (rule keeps_sbind)

lemma keeps_sif: "keeps I m \<Longrightarrow> keeps I n \<Longrightarrow> keeps I (sif P m n)"
  by (simp add: keeps_def)

lemmas keeps_rules = keeps_sbind keeps_sthen keeps_sif keeps_smod

text \<open>
  An operation is safe for an invariant when it keeps it and does not run into undefined behaviour.
\<close>

named_theorems safe_intros \<open>introduction rules for safe operations\<close>

definition safe :: "('s \<Rightarrow> bool) \<Rightarrow> ('s, 'a) sop \<Rightarrow> bool" where
  "safe I m \<longleftrightarrow> (\<forall>s. I s \<longrightarrow> I (snd (m s)) \<and> fst (m s) \<noteq> Inl Undefined_behaviour)"

lemma safeI: "(\<And>s. I s \<Longrightarrow> I (snd (m s)) \<and> fst (m s) \<noteq> Inl Undefined_behaviour) \<Longrightarrow> safe I m"
  by (simp add: safe_def)

lemma safeD: "safe I m \<Longrightarrow> I s \<Longrightarrow> m s = (r, s') \<Longrightarrow> I s' \<and> r \<noteq> Inl Undefined_behaviour"
  unfolding safe_def by (metis fst_conv snd_conv)

lemma safe_snd: "safe I m \<Longrightarrow> I s \<Longrightarrow> I (snd (m s))"
  by (simp add: safe_def)

lemma safe_sret [safe_intros]: "safe I (sret x)"
  by (simp add: safe_def)

lemma safe_sthrow [safe_intros]: "e \<noteq> Undefined_behaviour \<Longrightarrow> safe I (sthrow e)"
  by (simp add: safe_def)

lemma safe_sget [safe_intros]: "safe I (sget f)"
  by (simp add: safe_def)

lemma safe_smod [safe_intros]: "(\<And>s. I s \<Longrightarrow> I (f s)) \<Longrightarrow> safe I (smod f)"
  by (simp add: safe_def)

lemma safe_scheck [safe_intros]: "e \<noteq> Undefined_behaviour \<Longrightarrow> safe I (scheck P e)"
  by (simp add: safe_def)

lemma safe_sif [safe_intros]: "safe I m \<Longrightarrow> safe I n \<Longrightarrow> safe I (sif P m n)"
  by (simp add: safe_def)

lemma safe_if [safe_intros]: "safe I m \<Longrightarrow> safe I n \<Longrightarrow> safe I (if b then m else n)"
  by simp

lemma safe_sbind [safe_intros]: "safe I m \<Longrightarrow> (\<And>x. safe I (f x)) \<Longrightarrow> safe I (sbind m f)"
proof (rule safeI)
  fix s assume m: "safe I m" and f: "\<And>x. safe I (f x)" and s: "I s"
  obtain r t where rt: "m s = (r, t)" by fastforce
  with safeD [OF m s] have "I t" "r \<noteq> Inl Undefined_behaviour" by auto
  with rt f show "I (snd (sbind m f s)) \<and> fst (sbind m f s) \<noteq> Inl Undefined_behaviour"
    by (cases r) (auto simp: safe_def)
qed

lemma safe_sthen [safe_intros]: "safe I m \<Longrightarrow> safe I n \<Longrightarrow> safe I (sthen m n)"
  unfolding sthen_def by (rule safe_sbind)

text \<open>An operation whose argument is read from the state.\<close>

lemma safe_dep: "(\<And>x. safe I (f x)) \<Longrightarrow> safe I (\<lambda>s. f (g s) s)"
  by (simp add: safe_def)

text \<open>Operations guarded by a check that gives a stronger invariant.\<close>

lemma safe_guarded:
  assumes "\<And>s. I s \<Longrightarrow> P s \<Longrightarrow> J s" "safe J m" "\<And>s. J s \<Longrightarrow> I s" "e \<noteq> Undefined_behaviour"
  shows "safe I (sthen (scheck P e) m)"
  using assms unfolding safe_def by simp

end
