(* ===== verification/Column_Types.thy ===== *)
theory Column_Types
  imports Sql_Base "HOL-Library.Word"
begin

unbundle bit_operations_syntax

text \<open>
  The types of columns in \<^verbatim>\<open>mysqlconnector/jdbc/driver/mysql_util.cpp\<close>: the table of character sets, the
  translation of the client library's field types to the driver's \<^verbatim>\<open>sql::DataType\<close> and to type names, and
  of type names to \<^verbatim>\<open>sql::DataType\<close>. A field is the part of the client library's \<^verbatim>\<open>MYSQL_FIELD\<close> that the
  driver reads.
\<close>

section \<open>Fields\<close>

text \<open>The client library's field types, in the order of their codes.\<close>

datatype field_type =
    MYSQL_TYPE_DECIMAL  \<comment> \<open>the value zero, left by \<^verbatim>\<open>memset\<close>\<close>
  | MYSQL_TYPE_TINY | MYSQL_TYPE_SHORT | MYSQL_TYPE_LONG | MYSQL_TYPE_FLOAT | MYSQL_TYPE_DOUBLE | MYSQL_TYPE_NULL
  | MYSQL_TYPE_TIMESTAMP | MYSQL_TYPE_LONGLONG | MYSQL_TYPE_INT24 | MYSQL_TYPE_DATE | MYSQL_TYPE_TIME
  | MYSQL_TYPE_DATETIME | MYSQL_TYPE_YEAR | MYSQL_TYPE_NEWDATE | MYSQL_TYPE_VARCHAR | MYSQL_TYPE_BIT
  | MYSQL_TYPE_JSON | MYSQL_TYPE_NEWDECIMAL | MYSQL_TYPE_ENUM | MYSQL_TYPE_SET | MYSQL_TYPE_TINY_BLOB
  | MYSQL_TYPE_MEDIUM_BLOB | MYSQL_TYPE_LONG_BLOB | MYSQL_TYPE_BLOB | MYSQL_TYPE_VAR_STRING
  | MYSQL_TYPE_STRING | MYSQL_TYPE_GEOMETRY

record mysql_field =
  fld_name :: string
  fld_org_name :: string
  fld_org_table :: string
  fld_db :: "string option"
  fld_catalog :: string
  fld_type :: field_type
  fld_flags :: nat
  fld_length :: nat
  fld_max_length :: nat
  fld_charsetnr :: nat
  fld_decimals :: nat

text \<open>The flags of a field, as the client library documents them.\<close>

definition NOT_NULL_FLAG :: nat where "NOT_NULL_FLAG = 1"
definition UNSIGNED_FLAG :: nat where "UNSIGNED_FLAG = 32"
definition ZEROFILL_FLAG :: nat where "ZEROFILL_FLAG = 64"
definition BINARY_FLAG :: nat where "BINARY_FLAG = 128"
definition ENUM_FLAG :: nat where "ENUM_FLAG = 256"
definition AUTO_INCREMENT_FLAG :: nat where "AUTO_INCREMENT_FLAG = 512"
definition SET_FLAG :: nat where "SET_FLAG = 2048"
definition NUM_FLAG :: nat where "NUM_FLAG = 32768"

definition has_flag :: "mysql_field \<Rightarrow> nat \<Rightarrow> bool" where
  "has_flag f flag \<longleftrightarrow> fld_flags f AND flag \<noteq> 0"

section \<open>Numbers in messages\<close>

function udec :: "nat \<Rightarrow> string" where
  "udec n = (if n < 10 then [char_of (48 + n)] else udec (n div 10) @ [char_of (48 + n mod 10)])"
  by pat_completeness auto
termination
  by (relation "measure id") auto

declare udec.simps [simp del]

definition idec :: "int \<Rightarrow> string" where
  "idec i = (if i < 0 then CHR ''-'' # udec (nat (- i)) else udec (nat i))"

text \<open>
  \<^verbatim>\<open>std::ostringstream msg(text)\<close> writes from the beginning: what is inserted replaces the characters of
  \<open>text\<close>.
\<close>

definition overwrite :: "string \<Rightarrow> string \<Rightarrow> string" where
  "overwrite text inserted = inserted @ drop (length inserted) text"

definition unknown_charset :: "nat \<Rightarrow> cpp_error" where
  "unknown_charset nr =
     Sql_exception (overwrite ''Server sent unknown charsetnr ('' (udec nr @ '') . Please report''))"

section \<open>Character sets\<close>

record charset =
  cs_nr :: nat
  cs_name :: string
  cs_collation :: string
  cs_char_minlen :: nat
  cs_char_maxlen :: nat
  cs_comment :: string

definition chset :: "nat \<Rightarrow> string \<Rightarrow> string \<Rightarrow> nat \<Rightarrow> nat \<Rightarrow> string \<Rightarrow> charset" where
  "chset nr name collation minlen maxlen comment =
     \<lparr>cs_nr = nr, cs_name = name, cs_collation = collation, cs_char_minlen = minlen, cs_char_maxlen = maxlen,
      cs_comment = comment\<rparr>"

text \<open>The table; its last entry, with number 0, is the end of the list. The function pointers are all null.\<close>

definition our_charsets60_first :: "charset list" where
  "our_charsets60_first = [
     chset 1 ''big5'' ''big5_chinese_ci'' 1 2 '''',
     chset 3 ''dec8'' ''dec8_swedisch_ci'' 1 1 '''',
     chset 4 ''cp850'' ''cp850_general_ci'' 1 1 '''',
     chset 6 ''hp8'' ''hp8_english_ci'' 1 1 '''',
     chset 7 ''koi8r'' ''koi8r_general_ci'' 1 1 '''',
     chset 8 ''latin1'' ''latin1_swedish_ci'' 1 1 '''',
     chset 9 ''latin2'' ''latin2_general_ci'' 1 1 '''',
     chset 10 ''swe7'' ''swe7_swedish_ci'' 1 1 '''',
     chset 11 ''ascii'' ''ascii_general_ci'' 1 1 '''',
     chset 12 ''ujis'' ''ujis_japanese_ci'' 1 3 '''',
     chset 13 ''sjis'' ''sjis_japanese_ci'' 1 2 '''',
     chset 16 ''hebrew'' ''hebrew_general_ci'' 1 1 '''',
     chset 18 ''tis620'' ''tis620_thai_ci'' 1 1 '''',
     chset 19 ''euckr'' ''euckr_korean_ci'' 1 2 '''',
     chset 22 ''koi8u'' ''koi8u_general_ci'' 1 1 '''',
     chset 24 ''gb2312'' ''gb2312_chinese_ci'' 1 2 '''',
     chset 25 ''greek'' ''greek_general_ci'' 1 1 '''',
     chset 26 ''cp1250'' ''cp1250_general_ci'' 1 1 '''',
     chset 28 ''gbk'' ''gbk_chinese_ci'' 1 2 '''',
     chset 30 ''latin5'' ''latin5_turkish_ci'' 1 1 '''',
     chset 32 ''armscii8'' ''armscii8_general_ci'' 1 1 '''',
     chset 33 ''utf8'' ''utf8_general_ci'' 1 3 ''UTF-8 Unicode'',
     chset 35 ''ucs2'' ''ucs2_general_ci'' 2 2 ''UCS-2 Unicode'',
     chset 36 ''cp866'' ''cp866_general_ci'' 1 1 '''',
     chset 37 ''keybcs2'' ''keybcs2_general_ci'' 1 1 '''',
     chset 38 ''macce'' ''macce_general_ci'' 1 1 '''',
     chset 39 ''macroman'' ''macroman_general_ci'' 1 1 '''',
     chset 40 ''cp852'' ''cp852_general_ci'' 1 1 '''',
     chset 41 ''latin7'' ''latin7_general_ci'' 1 1 '''',
     chset 51 ''cp1251'' ''cp1251_general_ci'' 1 1 '''',
     chset 57 ''cp1256'' ''cp1256_general_ci'' 1 1 '''',
     chset 59 ''cp1257'' ''cp1257_general_ci'' 1 1 '''',
     chset 63 ''binary'' ''binary'' 1 1 '''',
     chset 92 ''geostd8'' ''geostd8_general_ci'' 1 1 '''',
     chset 95 ''cp932'' ''cp932_japanese_ci'' 1 2 '''',
     chset 97 ''eucjpms'' ''eucjpms_japanese_ci'' 1 3 '''',
     chset 2 ''latin2'' ''latin2_czech_cs'' 1 1 '''',
     chset 5 ''latin1'' ''latin1_german_ci'' 1 1 '''',
     chset 14 ''cp1251'' ''cp1251_bulgarian_ci'' 1 1 '''',
     chset 15 ''latin1'' ''latin1_danish_ci'' 1 1 '''',
     chset 17 ''filename'' ''filename'' 1 5 '''',
     chset 20 ''latin7'' ''latin7_estonian_cs'' 1 1 '''',
     chset 21 ''latin2'' ''latin2_hungarian_ci'' 1 1 '''',
     chset 23 ''cp1251'' ''cp1251_ukrainian_ci'' 1 1 '''',
     chset 27 ''latin2'' ''latin2_croatian_ci'' 1 1 '''',
     chset 29 ''cp1257'' ''cp1257_lithunian_ci'' 1 1 '''',
     chset 31 ''latin1'' ''latin1_german2_ci'' 1 1 '''',
     chset 34 ''cp1250'' ''cp1250_czech_cs'' 1 1 '''',
     chset 42 ''latin7'' ''latin7_general_cs'' 1 1 '''',
     chset 43 ''macce'' ''macce_bin'' 1 1 '''',
     chset 44 ''cp1250'' ''cp1250_croatian_ci'' 1 1 '''',
     chset 47 ''latin1'' ''latin1_bin'' 1 1 '''',
     chset 48 ''latin1'' ''latin1_general_ci'' 1 1 '''',
     chset 49 ''latin1'' ''latin1_general_cs'' 1 1 '''',
     chset 50 ''cp1251'' ''cp1251_bin'' 1 1 '''',
     chset 52 ''cp1251'' ''cp1251_general_cs'' 1 1 '''',
     chset 53 ''macroman'' ''macroman_bin'' 1 1 '''',
     chset 58 ''cp1257'' ''cp1257_bin'' 1 1 '''',
     chset 60 ''armascii8'' ''armascii8_bin'' 1 1 '''',
     chset 65 ''ascii'' ''ascii_bin'' 1 1 '''',
     chset 66 ''cp1250'' ''cp1250_bin'' 1 1 '''',
     chset 67 ''cp1256'' ''cp1256_bin'' 1 1 '''',
     chset 68 ''cp866'' ''cp866_bin'' 1 1 '''',
     chset 69 ''dec8'' ''dec8_bin'' 1 1 '''',
     chset 70 ''greek'' ''greek_bin'' 1 1 '''',
     chset 71 ''hebrew'' ''hebrew_bin'' 1 1 '''',
     chset 72 ''hp8'' ''hp8_bin'' 1 1 '''',
     chset 73 ''keybcs2'' ''keybcs2_bin'' 1 1 '''',
     chset 74 ''koi8r'' ''koi8r_bin'' 1 1 '''',
     chset 75 ''koi8u'' ''koi8u_bin'' 1 1 '''',
     chset 77 ''latin2'' ''latin2_bin'' 1 1 '''',
     chset 78 ''latin5'' ''latin5_bin'' 1 1 '''',
     chset 79 ''latin7'' ''latin7_bin'' 1 1 '''',
     chset 80 ''cp850'' ''cp850_bin'' 1 1 '''',
     chset 81 ''cp852'' ''cp852_bin'' 1 1 '''',
     chset 82 ''swe7'' ''swe7_bin'' 1 1 '''',
     chset 93 ''geostd8'' ''geostd8_bin'' 1 1 '''',
     chset 83 ''utf8'' ''utf8_bin'' 1 3 ''UTF-8 Unicode'',
     chset 84 ''big5'' ''big5_bin'' 1 2 '''',
     chset 85 ''euckr'' ''euckr_bin'' 1 2 '''',
     chset 86 ''gb2312'' ''gb2312_bin'' 1 2 '''',
     chset 87 ''gbk'' ''gbk_bin'' 1 2 '''',
     chset 88 ''sjis'' ''sjis_bin'' 1 2 '''',
     chset 89 ''tis620'' ''tis620_bin'' 1 1 '''',
     chset 90 ''ucs2'' ''ucs2_bin'' 2 2 ''UCS-2 Unicode'',
     chset 91 ''ujis'' ''ujis_bin'' 1 3 '''',
     chset 94 ''latin1'' ''latin1_spanish_ci'' 1 1 '''',
     chset 96 ''cp932'' ''cp932_bin'' 1 2 '''',
     chset 99 ''cp1250'' ''cp1250_polish_ci'' 1 1 '''',
     chset 98 ''eucjpms'' ''eucjpms_bin'' 1 3 '''',
     chset 128 ''ucs2'' ''ucs2_unicode_ci'' 2 2 '''',
     chset 129 ''ucs2'' ''ucs2_icelandic_ci'' 2 2 '''',
     chset 130 ''ucs2'' ''ucs2_latvian_ci'' 2 2 '''',
     chset 131 ''ucs2'' ''ucs2_romanian_ci'' 2 2 '''',
     chset 132 ''ucs2'' ''ucs2_slovenian_ci'' 2 2 '''',
     chset 133 ''ucs2'' ''ucs2_polish_ci'' 2 2 '''',
     chset 134 ''ucs2'' ''ucs2_estonian_ci'' 2 2 '''',
     chset 135 ''ucs2'' ''ucs2_spanish_ci'' 2 2 '''',
     chset 136 ''ucs2'' ''ucs2_swedish_ci'' 2 2 '''',
     chset 137 ''ucs2'' ''ucs2_turkish_ci'' 2 2 '''',
     chset 138 ''ucs2'' ''ucs2_czech_ci'' 2 2 '''',
     chset 139 ''ucs2'' ''ucs2_danish_ci'' 2 2 '''',
     chset 140 ''ucs2'' ''ucs2_lithunian_ci'' 2 2 '''',
     chset 141 ''ucs2'' ''ucs2_slovak_ci'' 2 2 '''',
     chset 142 ''ucs2'' ''ucs2_spanish2_ci'' 2 2 '''',
     chset 143 ''ucs2'' ''ucs2_roman_ci'' 2 2 '''',
     chset 144 ''ucs2'' ''ucs2_persian_ci'' 2 2 '''',
     chset 145 ''ucs2'' ''ucs2_esperanto_ci'' 2 2 '''',
     chset 146 ''ucs2'' ''ucs2_hungarian_ci'' 2 2 '''',
     chset 147 ''ucs2'' ''ucs2_sinhala_ci'' 2 2 '''',
     chset 148 ''ucs2'' ''ucs2_german2_ci'' 2 2 '''',
     chset 149 ''ucs2'' ''ucs2_croatian_ci'' 2 2 '''',
     chset 150 ''ucs2'' ''ucs2_unicode_520_ci'' 2 2 '''',
     chset 192 ''utf8'' ''utf8_unicode_ci'' 1 3 '''',
     chset 193 ''utf8'' ''utf8_icelandic_ci'' 1 3 '''',
     chset 194 ''utf8'' ''utf8_latvian_ci'' 1 3 '''',
     chset 195 ''utf8'' ''utf8_romanian_ci'' 1 3 '''',
     chset 196 ''utf8'' ''utf8_slovenian_ci'' 1 3 '''',
     chset 197 ''utf8'' ''utf8_polish_ci'' 1 3 '''',
     chset 198 ''utf8'' ''utf8_estonian_ci'' 1 3 '''']"

definition our_charsets60_rest :: "charset list" where
  "our_charsets60_rest = [
     chset 199 ''utf8'' ''utf8_spanish_ci'' 1 3 '''',
     chset 200 ''utf8'' ''utf8_swedish_ci'' 1 3 '''',
     chset 201 ''utf8'' ''utf8_turkish_ci'' 1 3 '''',
     chset 202 ''utf8'' ''utf8_czech_ci'' 1 3 '''',
     chset 203 ''utf8'' ''utf8_danish_ci'' 1 3 '''',
     chset 204 ''utf8'' ''utf8_lithunian_ci'' 1 3 '''',
     chset 205 ''utf8'' ''utf8_slovak_ci'' 1 3 '''',
     chset 206 ''utf8'' ''utf8_spanish2_ci'' 1 3 '''',
     chset 207 ''utf8'' ''utf8_roman_ci'' 1 3 '''',
     chset 208 ''utf8'' ''utf8_persian_ci'' 1 3 '''',
     chset 209 ''utf8'' ''utf8_esperanto_ci'' 1 3 '''',
     chset 210 ''utf8'' ''utf8_hungarian_ci'' 1 3 '''',
     chset 211 ''utf8'' ''utf8_sinhala_ci'' 1 3 '''',
     chset 212 ''utf8'' ''utf8_german2_ci'' 1 3 '''',
     chset 213 ''utf8'' ''utf8_croatian_ci'' 1 3 '''',
     chset 214 ''utf8'' ''utf8_unicode_520_ci'' 1 3 '''',
     chset 215 ''utf8'' ''utf8_vietnamese_ci'' 1 3 '''',
     chset 223 ''utf8'' ''utf8_general_mysql500_ci'' 1 3 '''',
     chset 45 ''utf8mb4'' ''utf8mb4_general_ci'' 1 4 '''',
     chset 46 ''utf8mb4'' ''utf8mb4_bin'' 1 4 '''',
     chset 224 ''utf8mb4'' ''utf8mb4_unicode_ci'' 1 4 '''',
     chset 225 ''utf8mb4'' ''utf8mb4_icelandic_ci'' 1 4 '''',
     chset 226 ''utf8mb4'' ''utf8mb4_latvian_ci'' 1 4 '''',
     chset 227 ''utf8mb4'' ''utf8mb4_romanian_ci'' 1 4 '''',
     chset 228 ''utf8mb4'' ''utf8mb4_slovenian_ci'' 1 4 '''',
     chset 229 ''utf8mb4'' ''utf8mb4_polish_ci'' 1 4 '''',
     chset 230 ''utf8mb4'' ''utf8mb4_estonian_ci'' 1 4 '''',
     chset 231 ''utf8mb4'' ''utf8mb4_spanish_ci'' 1 4 '''',
     chset 232 ''utf8mb4'' ''utf8mb4_swedish_ci'' 1 4 '''',
     chset 233 ''utf8mb4'' ''utf8mb4_turkish_ci'' 1 4 '''',
     chset 234 ''utf8mb4'' ''utf8mb4_czech_ci'' 1 4 '''',
     chset 235 ''utf8mb4'' ''utf8mb4_danish_ci'' 1 4 '''',
     chset 236 ''utf8mb4'' ''utf8mb4_lithuanian_ci'' 1 4 '''',
     chset 237 ''utf8mb4'' ''utf8mb4_slovak_ci'' 1 4 '''',
     chset 238 ''utf8mb4'' ''utf8mb4_spanish2_ci'' 1 4 '''',
     chset 239 ''utf8mb4'' ''utf8mb4_roman_ci'' 1 4 '''',
     chset 240 ''utf8mb4'' ''utf8mb4_persian_ci'' 1 4 '''',
     chset 241 ''utf8mb4'' ''utf8mb4_esperanto_ci'' 1 4 '''',
     chset 242 ''utf8mb4'' ''utf8mb4_hungarian_ci'' 1 4 '''',
     chset 243 ''utf8mb4'' ''utf8mb4_sinhala_ci'' 1 4 '''',
     chset 244 ''utf8mb4'' ''utf8mb4_german2_ci'' 1 4 '''',
     chset 245 ''utf8mb4'' ''utf8mb4_croatian_ci'' 1 4 '''',
     chset 246 ''utf8mb4'' ''utf8mb4_unicode_520_ci'' 1 4 '''',
     chset 247 ''utf8mb4'' ''utf8mb4_vietnamese_ci'' 1 4 '''',
     chset 248 ''utf8mb4'' ''utf8mb4_vietnamese_ci'' 1 4 '''',
     chset 248 ''gb18030'' ''gb18030_chinese_ci'' 1 4 '''',
     chset 249 ''gb18030'' ''gb18030_bin'' 1 4 '''',
     chset 250 ''gb18030'' ''gb18030_unicode_520_ci'' 1 4 '''',
     chset 255 ''utf8mb4'' ''utf8mb4_0900_ai_ci'' 1 4 '''',
     chset 254 ''utf8'' ''utf8_general_cs'' 1 3 '''',
     chset 101 ''utf16'' ''utf16_unicode_ci'' 2 4 '''',
     chset 102 ''utf16'' ''utf16_icelandic_ci'' 2 4 '''',
     chset 103 ''utf16'' ''utf16_latvian_ci'' 2 4 '''',
     chset 104 ''utf16'' ''utf16_romanian_ci'' 2 4 '''',
     chset 105 ''utf16'' ''utf16_slovenian_ci'' 2 4 '''',
     chset 106 ''utf16'' ''utf16_polish_ci'' 2 4 '''',
     chset 107 ''utf16'' ''utf16_estonian_ci'' 2 4 '''',
     chset 108 ''utf16'' ''utf16_spanish_ci'' 2 4 '''',
     chset 109 ''utf16'' ''utf16_swedish_ci'' 2 4 '''',
     chset 110 ''utf16'' ''utf16_turkish_ci'' 2 4 '''',
     chset 111 ''utf16'' ''utf16_czech_ci'' 2 4 '''',
     chset 112 ''utf16'' ''utf16_danish_ci'' 2 4 '''',
     chset 113 ''utf16'' ''utf16_lithuanian_ci'' 2 4 '''',
     chset 114 ''utf16'' ''utf16_slovak_ci'' 2 4 '''',
     chset 115 ''utf16'' ''utf16_spanish2_ci'' 2 4 '''',
     chset 116 ''utf16'' ''utf16_roman_ci'' 2 4 '''',
     chset 117 ''utf16'' ''utf16_persian_ci'' 2 4 '''',
     chset 118 ''utf16'' ''utf16_esperanto_ci'' 2 4 '''',
     chset 119 ''utf16'' ''utf16_hungarian_ci'' 2 4 '''',
     chset 120 ''utf16'' ''utf16_sinhala_ci'' 2 4 '''',
     chset 121 ''utf16'' ''utf16_german2_ci'' 2 4 '''',
     chset 122 ''utf16'' ''utf16_croatian_ci'' 2 4 '''',
     chset 123 ''utf16'' ''utf16_unicode_520_ci'' 2 4 '''',
     chset 124 ''utf16'' ''utf16_vietnamese_ci'' 2 4 '''',
     chset 160 ''utf32'' ''utf32_unicode_ci'' 4 4 '''',
     chset 161 ''utf32'' ''utf32_icelandic_ci'' 4 4 '''',
     chset 162 ''utf32'' ''utf32_latvian_ci'' 4 4 '''',
     chset 163 ''utf32'' ''utf32_romanian_ci'' 4 4 '''',
     chset 164 ''utf32'' ''utf32_slovenian_ci'' 4 4 '''',
     chset 165 ''utf32'' ''utf32_polish_ci'' 4 4 '''',
     chset 166 ''utf32'' ''utf32_estonian_ci'' 4 4 '''',
     chset 167 ''utf32'' ''utf32_spanish_ci'' 4 4 '''',
     chset 168 ''utf32'' ''utf32_swedish_ci'' 4 4 '''',
     chset 169 ''utf32'' ''utf32_turkish_ci'' 4 4 '''',
     chset 170 ''utf32'' ''utf32_czech_ci'' 4 4 '''',
     chset 171 ''utf32'' ''utf32_danish_ci'' 4 4 '''',
     chset 172 ''utf32'' ''utf32_lithuanian_ci'' 4 4 '''',
     chset 173 ''utf32'' ''utf32_slovak_ci'' 4 4 '''',
     chset 174 ''utf32'' ''utf32_spanish2_ci'' 4 4 '''',
     chset 175 ''utf32'' ''utf32_roman_ci'' 4 4 '''',
     chset 176 ''utf32'' ''utf32_persian_ci'' 4 4 '''',
     chset 177 ''utf32'' ''utf32_esperanto_ci'' 4 4 '''',
     chset 178 ''utf32'' ''utf32_hungarian_ci'' 4 4 '''',
     chset 179 ''utf32'' ''utf32_sinhala_ci'' 4 4 '''',
     chset 180 ''utf32'' ''utf32_german2_ci'' 4 4 '''',
     chset 181 ''utf32'' ''utf32_croatian_ci'' 4 4 '''',
     chset 182 ''utf32'' ''utf32_unicode_520_ci'' 4 4 '''',
     chset 183 ''utf32'' ''utf32_vietnamese_ci'' 4 4 '''']"

definition our_charsets60 :: "charset list" where
  "our_charsets60 = our_charsets60_first @ our_charsets60_rest"

text \<open>The loop ends at the entry with number 0.\<close>

fun find_charset_from :: "charset list \<Rightarrow> nat \<Rightarrow> charset option" where
  "find_charset_from [] nr = None"
| "find_charset_from (c # rest) nr = (if cs_nr c = nr then Some c else find_charset_from rest nr)"

definition find_charset :: "nat \<Rightarrow> charset option" where
  "find_charset nr = find_charset_from our_charsets60 nr"

definition MAGIC_BINARY_CHARSET_NR :: nat where "MAGIC_BINARY_CHARSET_NR = 63"

section \<open>\<^verbatim>\<open>sql::DataType\<close>\<close>

datatype sql_type = DT_UNKNOWN | DT_BIT | DT_TINYINT | DT_SMALLINT | DT_MEDIUMINT | DT_INTEGER | DT_BIGINT | DT_REAL
  | DT_DOUBLE | DT_DECIMAL | DT_NUMERIC | DT_CHAR | DT_BINARY | DT_VARCHAR | DT_VARBINARY | DT_LONGVARCHAR
  | DT_LONGVARBINARY | DT_TIMESTAMP | DT_DATE | DT_TIME | DT_YEAR | DT_GEOMETRY | DT_ENUM | DT_SET | DT_SQLNULL | DT_JSON

definition binary_text :: "mysql_field \<Rightarrow> bool" where
  "binary_text f \<longleftrightarrow> has_flag f BINARY_FLAG \<and> fld_charsetnr f = MAGIC_BINARY_CHARSET_NR"

text \<open>The type of a blob or text; an unknown character set is an error.\<close>

definition blob_type :: "mysql_field \<Rightarrow> sql_type \<Rightarrow> sql_type \<Rightarrow> sql_type res" where
  "blob_type f binary text =
     (case find_charset (fld_charsetnr f) of
        None \<Rightarrow> Inl (unknown_charset (fld_charsetnr f))
      | Some c \<Rightarrow> Inr (if binary_text f then binary else text))"

definition string_type :: "mysql_field \<Rightarrow> sql_type \<Rightarrow> sql_type \<Rightarrow> sql_type" where
  "string_type f binary text =
     (if has_flag f SET_FLAG then DT_SET else if has_flag f ENUM_FLAG then DT_ENUM
      else if binary_text f then binary else text)"

fun mysql_type_code :: "field_type \<Rightarrow> mysql_field \<Rightarrow> sql_type res" where
  "mysql_type_code MYSQL_TYPE_BIT f =
     Inr (if fld_flags f \<noteq> (BINARY_FLAG OR UNSIGNED_FLAG) then DT_BIT else DT_BINARY)"
| "mysql_type_code MYSQL_TYPE_DECIMAL f = Inr DT_DECIMAL"
| "mysql_type_code MYSQL_TYPE_NEWDECIMAL f = Inr DT_DECIMAL"
| "mysql_type_code MYSQL_TYPE_TINY f = Inr DT_TINYINT"
| "mysql_type_code MYSQL_TYPE_SHORT f = Inr DT_SMALLINT"
| "mysql_type_code MYSQL_TYPE_INT24 f = Inr DT_MEDIUMINT"
| "mysql_type_code MYSQL_TYPE_LONG f = Inr DT_INTEGER"
| "mysql_type_code MYSQL_TYPE_LONGLONG f = Inr DT_BIGINT"
| "mysql_type_code MYSQL_TYPE_FLOAT f = Inr DT_REAL"
| "mysql_type_code MYSQL_TYPE_DOUBLE f = Inr DT_DOUBLE"
| "mysql_type_code MYSQL_TYPE_NULL f = Inr DT_SQLNULL"
| "mysql_type_code MYSQL_TYPE_TIMESTAMP f = Inr DT_TIMESTAMP"
| "mysql_type_code MYSQL_TYPE_DATE f = Inr DT_DATE"
| "mysql_type_code MYSQL_TYPE_TIME f = Inr DT_TIME"
| "mysql_type_code MYSQL_TYPE_YEAR f = Inr DT_YEAR"
| "mysql_type_code MYSQL_TYPE_DATETIME f = Inr DT_TIMESTAMP"
| "mysql_type_code MYSQL_TYPE_TINY_BLOB f = blob_type f DT_VARBINARY DT_VARCHAR"
| "mysql_type_code MYSQL_TYPE_MEDIUM_BLOB f = blob_type f DT_LONGVARBINARY DT_LONGVARCHAR"
| "mysql_type_code MYSQL_TYPE_LONG_BLOB f = blob_type f DT_LONGVARBINARY DT_LONGVARCHAR"
| "mysql_type_code MYSQL_TYPE_BLOB f = blob_type f DT_LONGVARBINARY DT_LONGVARCHAR"
| "mysql_type_code MYSQL_TYPE_VARCHAR f = Inr (string_type f DT_VARBINARY DT_VARCHAR)"
| "mysql_type_code MYSQL_TYPE_VAR_STRING f = Inr (string_type f DT_VARBINARY DT_VARCHAR)"
| "mysql_type_code MYSQL_TYPE_STRING f = Inr (string_type f DT_BINARY DT_CHAR)"
| "mysql_type_code MYSQL_TYPE_ENUM f = Inr DT_ENUM"
| "mysql_type_code MYSQL_TYPE_SET f = Inr DT_SET"
| "mysql_type_code MYSQL_TYPE_GEOMETRY f = Inr DT_GEOMETRY"
| "mysql_type_code MYSQL_TYPE_JSON f = Inr DT_JSON"
| "mysql_type_code MYSQL_TYPE_NEWDATE f = Inr DT_UNKNOWN"

definition mysql_type_to_datatype :: "mysql_field \<Rightarrow> sql_type res" where
  "mysql_type_to_datatype f = mysql_type_code (fld_type f) f"

definition mysql_string_type_to_datatype :: "string \<Rightarrow> sql_type" where
  "mysql_string_type_to_datatype name =
     (if name = ''bit'' then DT_BIT
      else if name = ''decimal'' \<or> name = ''decimal unsigned'' then DT_DECIMAL
      else if name = ''tinyint'' \<or> name = ''tinyint unsigned'' then DT_TINYINT
      else if name = ''smallint'' \<or> name = ''smallint unsigned'' then DT_SMALLINT
      else if name = ''mediumint'' \<or> name = ''mediumint unsigned'' then DT_MEDIUMINT
      else if name = ''int'' \<or> name = ''int unsigned'' then DT_INTEGER
      else if name = ''bigint'' \<or> name = ''bigint unsigned'' then DT_BIGINT
      else if name = ''float'' \<or> name = ''float unsigned'' then DT_REAL
      else if name = ''double'' \<or> name = ''double unsigned'' then DT_DOUBLE
      else if name = ''timestamp'' then DT_TIMESTAMP
      else if name = ''date'' then DT_DATE
      else if name = ''time'' then DT_TIME
      else if name = ''year'' then DT_YEAR
      else if name = ''datetime'' then DT_TIMESTAMP
      else if name = ''tinytext'' then DT_VARCHAR
      else if name = ''mediumtext'' \<or> name = ''text'' \<or> name = ''longtext'' then DT_LONGVARCHAR
      else if name = ''tinyblob'' then DT_VARBINARY
      else if name = ''mediumblob'' \<or> name = ''blob'' \<or> name = ''longblob'' then DT_LONGVARBINARY
      else if name = ''char'' then DT_CHAR
      else if name = ''binary'' then DT_BINARY
      else if name = ''varchar'' then DT_VARCHAR
      else if name = ''varbinary'' then DT_VARBINARY
      else if name = ''enum'' then DT_ENUM
      else if name = ''set'' then DT_SET
      else if name = ''geometry'' then DT_GEOMETRY
      else if name = ''json'' then DT_JSON
      else DT_UNKNOWN)"

section \<open>Type names\<close>

definition number_name :: "mysql_field \<Rightarrow> string \<Rightarrow> string" where
  "number_name f name =
     (if has_flag f UNSIGNED_FLAG then
        (if has_flag f ZEROFILL_FLAG then name @ '' UNSIGNED ZEROFILL'' else name @ '' UNSIGNED'')
      else name)"

definition blob_name :: "mysql_field \<Rightarrow> string \<Rightarrow> string \<Rightarrow> string res" where
  "blob_name f binary text =
     (if fld_charsetnr f = MAGIC_BINARY_CHARSET_NR then Inr binary
      else case find_charset (fld_charsetnr f) of
        None \<Rightarrow> Inl (unknown_charset (fld_charsetnr f)) | Some c \<Rightarrow> Inr text)"

definition var_string_name :: "mysql_field \<Rightarrow> string" where
  "var_string_name f = (if has_flag f ENUM_FLAG then ''ENUM'' else if has_flag f SET_FLAG then ''SET''
     else if fld_charsetnr f = MAGIC_BINARY_CHARSET_NR then ''VARBINARY'' else ''VARCHAR'')"

fun mysql_type_name :: "field_type \<Rightarrow> mysql_field \<Rightarrow> string res" where
  "mysql_type_name MYSQL_TYPE_BIT f = Inr ''BIT''"
| "mysql_type_name MYSQL_TYPE_DECIMAL f = Inr (number_name f ''DECIMAL'')"
| "mysql_type_name MYSQL_TYPE_NEWDECIMAL f = Inr (number_name f ''DECIMAL'')"
| "mysql_type_name MYSQL_TYPE_TINY f = Inr (number_name f ''TINYINT'')"
| "mysql_type_name MYSQL_TYPE_SHORT f = Inr (number_name f ''SMALLINT'')"
| "mysql_type_name MYSQL_TYPE_LONG f = Inr (number_name f ''INT'')"
| "mysql_type_name MYSQL_TYPE_FLOAT f = Inr (number_name f ''FLOAT'')"
| "mysql_type_name MYSQL_TYPE_DOUBLE f = Inr (number_name f ''DOUBLE'')"
| "mysql_type_name MYSQL_TYPE_NULL f = Inr ''NULL''"
| "mysql_type_name MYSQL_TYPE_TIMESTAMP f = Inr ''TIMESTAMP''"
| "mysql_type_name MYSQL_TYPE_LONGLONG f = Inr (number_name f ''BIGINT'')"
| "mysql_type_name MYSQL_TYPE_INT24 f = Inr (number_name f ''MEDIUMINT'')"
| "mysql_type_name MYSQL_TYPE_DATE f = Inr ''DATE''"
| "mysql_type_name MYSQL_TYPE_TIME f = Inr ''TIME''"
| "mysql_type_name MYSQL_TYPE_DATETIME f = Inr ''DATETIME''"
| "mysql_type_name MYSQL_TYPE_TINY_BLOB f = blob_name f ''TINYBLOB'' ''TINYTEXT''"
| "mysql_type_name MYSQL_TYPE_MEDIUM_BLOB f = blob_name f ''MEDIUMBLOB'' ''MEDIUMTEXT''"
| "mysql_type_name MYSQL_TYPE_LONG_BLOB f = blob_name f ''LONGBLOB'' ''LONGTEXT''"
| "mysql_type_name MYSQL_TYPE_BLOB f = blob_name f ''BLOB'' ''TEXT''"
| "mysql_type_name MYSQL_TYPE_VARCHAR f = Inr (var_string_name f)"
| "mysql_type_name MYSQL_TYPE_VAR_STRING f = Inr (var_string_name f)"
| "mysql_type_name MYSQL_TYPE_STRING f = Inr (if has_flag f ENUM_FLAG then ''ENUM'' else if has_flag f SET_FLAG then ''SET''
     else if binary_text f then ''BINARY'' else ''CHAR'')"
| "mysql_type_name MYSQL_TYPE_ENUM f = Inr ''ENUM''"
| "mysql_type_name MYSQL_TYPE_YEAR f = Inr ''YEAR''"
| "mysql_type_name MYSQL_TYPE_SET f = Inr ''SET''"
| "mysql_type_name MYSQL_TYPE_GEOMETRY f = Inr ''GEOMETRY''"
| "mysql_type_name MYSQL_TYPE_JSON f = Inr ''JSON''"
| "mysql_type_name MYSQL_TYPE_NEWDATE f = Inr ''UNKNOWN''"

definition mysql_type_to_string :: "mysql_field \<Rightarrow> string res" where
  "mysql_type_to_string f = mysql_type_name (fld_type f) f"

section \<open>Lemmas\<close>

lemma find_charset_from_Some: "find_charset_from t nr = Some c \<Longrightarrow> c \<in> set t \<and> cs_nr c = nr"
  by (induction t) (auto split: if_splits)

lemma find_charset_from_None: "find_charset_from t nr = None \<longleftrightarrow> nr \<notin> cs_nr ` set t"
  by (induction t) auto

lemma find_charset_from_distinct:
  "distinct (map cs_nr t) \<Longrightarrow> c \<in> set t \<Longrightarrow> find_charset_from t (cs_nr c) = Some c"
  by (induction t) auto

lemma find_charset_from_append:
  "find_charset_from (s @ t) nr = (case find_charset_from s nr of None \<Rightarrow> find_charset_from t nr | Some c \<Rightarrow> Some c)"
  by (induction s) auto

text \<open>A character has at least one byte, and at most five.\<close>

lemma char_lengths: "list_all (\<lambda>c. 1 \<le> cs_char_minlen c \<and> cs_char_minlen c \<le> cs_char_maxlen c \<and> cs_char_maxlen c \<le> 5) our_charsets60"
  by code_simp

lemma charset_maxlen_pos: "find_charset nr = Some c \<Longrightarrow> 0 < cs_char_maxlen c"
  using find_charset_from_Some [of our_charsets60 nr c] char_lengths by (auto simp: find_charset_def list_all_iff)

text \<open>The number 248 has two entries, of which only the first is found.\<close>

lemma charset_248: "find_charset 248 = Some (chset 248 ''utf8mb4'' ''utf8mb4_vietnamese_ci'' 1 4 [])"
  by code_simp

lemma charset_248_twice: "chset 248 ''gb18030'' ''gb18030_chinese_ci'' 1 4 [] \<in> set our_charsets60"
  by (simp add: our_charsets60_def our_charsets60_rest_def)

lemma charset_binary: "find_charset MAGIC_BINARY_CHARSET_NR = Some (chset 63 ''binary'' ''binary'' 1 1 [])"
  by code_simp

text \<open>
  The two translations agree: the type that a type name stands for in \<^verbatim>\<open>information_schema\<close>, where it is
  written in small letters, is the type of the field; except for fields that are filled with zeros, carry
  two of the flags for sets and enumerations, are binary without the flag, or have no type name there.
\<close>

fun lower_char :: "char \<Rightarrow> char" where
  "lower_char (Char b0 b1 b2 b3 b4 b5 b6 b7) =
     (if Char b0 b1 b2 b3 b4 b5 b6 b7 \<in> set ''ABCDEFGHIJKLMNOPQRSTUVWXYZ'' then Char b0 b1 b2 b3 b4 True b6 b7
      else Char b0 b1 b2 b3 b4 b5 b6 b7)"

definition lower :: "string \<Rightarrow> string" where
  "lower = map lower_char"

definition regular_field :: "mysql_field \<Rightarrow> bool" where
  "regular_field f \<longleftrightarrow> \<not> has_flag f ZEROFILL_FLAG \<and> \<not> (has_flag f ENUM_FLAG \<and> has_flag f SET_FLAG)
     \<and> (fld_charsetnr f = MAGIC_BINARY_CHARSET_NR \<longrightarrow> has_flag f BINARY_FLAG)
     \<and> fld_flags f \<noteq> (BINARY_FLAG OR UNSIGNED_FLAG) \<and> fld_type f \<noteq> MYSQL_TYPE_NULL"

lemma named_types:
  "mysql_string_type_to_datatype (lower ''BIT'') = DT_BIT"
  "mysql_string_type_to_datatype (lower ''DECIMAL'') = DT_DECIMAL"
  "mysql_string_type_to_datatype (lower ''DECIMAL UNSIGNED'') = DT_DECIMAL"
  "mysql_string_type_to_datatype (lower ''TINYINT'') = DT_TINYINT"
  "mysql_string_type_to_datatype (lower ''TINYINT UNSIGNED'') = DT_TINYINT"
  "mysql_string_type_to_datatype (lower ''SMALLINT'') = DT_SMALLINT"
  "mysql_string_type_to_datatype (lower ''SMALLINT UNSIGNED'') = DT_SMALLINT"
  "mysql_string_type_to_datatype (lower ''MEDIUMINT'') = DT_MEDIUMINT"
  "mysql_string_type_to_datatype (lower ''MEDIUMINT UNSIGNED'') = DT_MEDIUMINT"
  "mysql_string_type_to_datatype (lower ''INT'') = DT_INTEGER"
  "mysql_string_type_to_datatype (lower ''INT UNSIGNED'') = DT_INTEGER"
  "mysql_string_type_to_datatype (lower ''BIGINT'') = DT_BIGINT"
  "mysql_string_type_to_datatype (lower ''BIGINT UNSIGNED'') = DT_BIGINT"
  "mysql_string_type_to_datatype (lower ''FLOAT'') = DT_REAL"
  "mysql_string_type_to_datatype (lower ''FLOAT UNSIGNED'') = DT_REAL"
  "mysql_string_type_to_datatype (lower ''DOUBLE'') = DT_DOUBLE"
  "mysql_string_type_to_datatype (lower ''DOUBLE UNSIGNED'') = DT_DOUBLE"
  "mysql_string_type_to_datatype (lower ''TIMESTAMP'') = DT_TIMESTAMP"
  "mysql_string_type_to_datatype (lower ''DATETIME'') = DT_TIMESTAMP"
  "mysql_string_type_to_datatype (lower ''DATE'') = DT_DATE"
  "mysql_string_type_to_datatype (lower ''TIME'') = DT_TIME"
  "mysql_string_type_to_datatype (lower ''YEAR'') = DT_YEAR"
  "mysql_string_type_to_datatype (lower ''TINYTEXT'') = DT_VARCHAR"
  "mysql_string_type_to_datatype (lower ''VARCHAR'') = DT_VARCHAR"
  "mysql_string_type_to_datatype (lower ''MEDIUMTEXT'') = DT_LONGVARCHAR"
  "mysql_string_type_to_datatype (lower ''TEXT'') = DT_LONGVARCHAR"
  "mysql_string_type_to_datatype (lower ''LONGTEXT'') = DT_LONGVARCHAR"
  "mysql_string_type_to_datatype (lower ''TINYBLOB'') = DT_VARBINARY"
  "mysql_string_type_to_datatype (lower ''VARBINARY'') = DT_VARBINARY"
  "mysql_string_type_to_datatype (lower ''MEDIUMBLOB'') = DT_LONGVARBINARY"
  "mysql_string_type_to_datatype (lower ''BLOB'') = DT_LONGVARBINARY"
  "mysql_string_type_to_datatype (lower ''LONGBLOB'') = DT_LONGVARBINARY"
  "mysql_string_type_to_datatype (lower ''CHAR'') = DT_CHAR"
  "mysql_string_type_to_datatype (lower ''BINARY'') = DT_BINARY"
  "mysql_string_type_to_datatype (lower ''ENUM'') = DT_ENUM"
  "mysql_string_type_to_datatype (lower ''SET'') = DT_SET"
  "mysql_string_type_to_datatype (lower ''GEOMETRY'') = DT_GEOMETRY"
  "mysql_string_type_to_datatype (lower ''JSON'') = DT_JSON"
  "mysql_string_type_to_datatype (lower ''UNKNOWN'') = DT_UNKNOWN"
  by (simp_all add: lower_def mysql_string_type_to_datatype_def)

lemma type_names_agree_aux:
  assumes "regular_field f" "mysql_type_to_string f = Inr name"
  shows "mysql_type_to_datatype f = Inr (mysql_string_type_to_datatype (lower name))"
  using assms
  by (cases "fld_type f")
    (auto simp: mysql_type_to_string_def mysql_type_to_datatype_def regular_field_def number_name_def blob_name_def
      var_string_name_def blob_type_def string_type_def binary_text_def named_types charset_binary split: if_splits option.splits)

end
