(* ===== verification/Utf8.thy ===== *)
theory Utf8
  imports Case_Tables
begin

text \<open>
  \<^verbatim>\<open>mysqlconnector/jdbc/driver/mysql_util.cpp\<close>: the UTF-8 decoder and encoder and the upper-casing
  built on them, with which result sets look up column labels. Bytes are natural numbers below
  256; a character's return code is kept on failure. \<^verbatim>\<open>UNICODE_32BIT\<close> is not defined in the build,
  so the branches for four bytes and more are not compiled.
\<close>

unbundle bit_operations_syntax

section \<open>Decoder and encoder\<close>

definition MY_CS_ILSEQ :: int where "MY_CS_ILSEQ = 0"
definition MY_CS_TOOSMALL :: int where "MY_CS_TOOSMALL = - 101"
definition MY_CS_ILUNI :: int where "MY_CS_ILUNI = 0"

definition MY_CS_TOOSMALLN :: "nat \<Rightarrow> int" where
  "MY_CS_TOOSMALLN n = - 100 - int n"

text \<open>The bytes from \<^verbatim>\<open>s\<close> up to \<^verbatim>\<open>e\<close>; on success the number of bytes read and the character.\<close>

definition my_utf8_uni :: "nat list \<Rightarrow> int + nat \<times> nat" where
  "my_utf8_uni s =
     (if s = [] then Inl MY_CS_TOOSMALL
      else let c = s ! 0 in
        if c < 0x80 then Inr (1, c)
        else if c < 0xC2 then Inl MY_CS_ILSEQ
        else if c < 0xE0 then
          (if length s < 2 then Inl (MY_CS_TOOSMALLN 2)
           else if \<not> (s ! 1 XOR 0x80) < 0x40 then Inl MY_CS_ILSEQ
           else Inr (2, push_bit 6 (c AND 0x1F) OR (s ! 1 XOR 0x80)))
        else if c < 0xF0 then
          (if length s < 3 then Inl (MY_CS_TOOSMALLN 3)
           else if \<not> ((s ! 1 XOR 0x80) < 0x40 \<and> (s ! 2 XOR 0x80) < 0x40 \<and> (c \<ge> 0xE1 \<or> s ! 1 \<ge> 0xA0))
             then Inl MY_CS_ILSEQ
           else Inr (3, push_bit 12 (c AND 0x0F) OR push_bit 6 (s ! 1 XOR 0x80) OR (s ! 2 XOR 0x80)))
        else Inl MY_CS_ILSEQ)"

text \<open>\<open>room\<close> is \<^verbatim>\<open>e - r\<close>; on success the bytes written. The switch falls through its cases.\<close>

definition my_uni_utf8 :: "nat \<Rightarrow> nat \<Rightarrow> int + nat list" where
  "my_uni_utf8 wc room =
     (if room = 0 then Inl MY_CS_TOOSMALL
      else
        let n = (if wc < 0x80 then 1 else if wc < 0x800 then 2 else if wc < 0x10000 then 3 else 0) in
        if n = 0 then Inl MY_CS_ILUNI
        else if room < n then Inl (MY_CS_TOOSMALLN n)
        else
          let (r2, wc1) = (if n \<ge> 3 then ([0x80 OR (wc AND 0x3F)], drop_bit 6 wc OR 0x800) else ([], wc));
              (r1, wc2) = (if n \<ge> 2 then ([0x80 OR (wc1 AND 0x3F)], drop_bit 6 wc1 OR 0xC0) else ([], wc1))
          in Inr ((wc2 mod 256) # r1 @ r2))"

section \<open>Upper-casing\<close>

definition unicase_toupper :: "nat \<Rightarrow> nat" where
  "unicase_toupper wc =
     (case my_unicase_default (drop_bit 8 wc AND 0xFF) of
        Some p \<Rightarrow> nat (p ! (wc AND 0xFF)) | None \<Rightarrow> wc)"

lemma my_utf8_uni_count: "my_utf8_uni s = Inr (n, wc) \<Longrightarrow> 0 < n \<and> n \<le> length s"
  by (auto simp: my_utf8_uni_def Let_def Suc_le_eq split: if_splits)

lemma my_utf8_uni_drop: "my_utf8_uni s = Inr (n, wc) \<Longrightarrow> length s - n < length s"
  using my_utf8_uni_count [of s n wc] by arith

function caseup_loop :: "nat list \<Rightarrow> nat \<Rightarrow> nat list \<Rightarrow> nat list" where
  "caseup_loop src room out =
     (if src = [] then out
      else case my_utf8_uni src of
          Inl _ \<Rightarrow> out
        | Inr (srcres, wc) \<Rightarrow>
            (case my_uni_utf8 (unicase_toupper wc) room of
               Inl _ \<Rightarrow> out
             | Inr bs \<Rightarrow> caseup_loop (drop srcres src) (room - length bs) (out @ bs)))"
  by pat_completeness auto
termination
  by (relation "measure (\<lambda>(src, room, out). length src)") (auto dest: my_utf8_uni_drop)

declare caseup_loop.simps [simp del]

definition cppmysql_caseup_utf8 :: "nat list \<Rightarrow> nat \<Rightarrow> nat list" where
  "cppmysql_caseup_utf8 src dstlen = caseup_loop src dstlen []"

text \<open>The C string passed ends at its first null byte; the result is read as a C string again.\<close>

definition c_bytes :: "string \<Rightarrow> nat list" where
  "c_bytes s = map of_char (takeWhile (\<lambda>c. c \<noteq> CHR 0x00) s)"

definition utf8_strup :: "string \<Rightarrow> string" where
  "utf8_strup src =
     (let b = c_bytes src; srclen = length b in
      takeWhile (\<lambda>c. c \<noteq> CHR 0x00) (map char_of (cppmysql_caseup_utf8 b (srclen * 4))))"

section \<open>Bit operations as arithmetic\<close>

lemma or_shift: "b < 2 ^ n \<Longrightarrow> push_bit n a OR b = a * 2 ^ n + (b::nat)"
proof -
  assume b: "b < 2 ^ n"
  have "\<not> bit (push_bit n a) k \<or> \<not> bit b k" for k
  proof (cases "k < n")
    case True
    then show ?thesis by (simp add: bit_push_bit_iff)
  next
    case False
    have "take_bit n b = b" using b by (simp add: take_bit_nat_eq_self)
    then have "\<not> bit b k" using False bit_take_bit_iff [of n b k] by auto
    then show ?thesis by simp
  qed
  then have "push_bit n a + b = push_bit n a OR b"
    by (simp add: disjunctive_add)
  then show ?thesis by (simp add: push_bit_eq_mult)
qed

lemma xor80: "x < 128 \<Longrightarrow> x XOR 0x80 = x + (0x80::nat)"
proof -
  assume x: "x < 128"
  have "x AND 0x80 = 0"
  proof (rule bit_eqI)
    fix n
    have "take_bit 7 x = x" using x by (simp add: take_bit_nat_eq_self)
    then have "bit x n \<Longrightarrow> n < 7" using bit_take_bit_iff [of 7 x n] by auto
    moreover have "bit (0x80::nat) n \<longleftrightarrow> n = 7" using bit_exp_iff [of 7 n, where ?'a = nat] by simp
    ultimately show "bit (x AND 0x80) n \<longleftrightarrow> bit (0::nat) n" by (auto simp: bit_and_iff)
  qed
  then have "x XOR 0x80 = x OR 0x80" by (simp add: disjunctive_xor_eq_or)
  also have "\<dots> = x + 0x80" using x or_shift [of x 7 1] by (simp add: push_bit_eq_mult or.commute)
  finally show ?thesis .
qed

lemma byte_xor80:
  assumes "b < 256"
  shows "(b XOR 0x80) < 0x40 \<longleftrightarrow> 0x80 \<le> b \<and> b < 0xC0" "0x80 \<le> b \<Longrightarrow> b XOR 0x80 = b - (0x80::nat)"
proof -
  have hi: "b XOR 0x80 = b - 0x80" if "0x80 \<le> b"
  proof -
    have "b = (b - 0x80) XOR 0x80" using that assms xor80 [of "b - 0x80"] by simp
    then have "b XOR 0x80 = (b - 0x80) XOR (0x80 XOR 0x80)" by (metis xor.assoc)
    then show ?thesis by simp
  qed
  then show "0x80 \<le> b \<Longrightarrow> b XOR 0x80 = b - 0x80" .
  show "(b XOR 0x80) < 0x40 \<longleftrightarrow> 0x80 \<le> b \<and> b < 0xC0"
    using hi xor80 [of b] by (cases "0x80 \<le> b") auto
qed

lemma and_low:
  "x AND 0x0F = x mod (16::nat)" "x AND 0x1F = x mod (32::nat)" "x AND 0x3F = x mod (64::nat)"
  "x AND 0xFF = x mod (256::nat)"
proof -
  have m: "x AND mask k = x mod 2 ^ k" for k and x :: nat
    by (simp add: take_bit_eq_mask [symmetric] take_bit_eq_mod)
  show "x AND 0x0F = x mod (16::nat)" "x AND 0x1F = x mod (32::nat)" "x AND 0x3F = x mod (64::nat)"
    "x AND 0xFF = x mod (256::nat)"
    using m [of x 4] m [of x 5] m [of x 6] m [of x 8] by (simp_all add: mask_eq_exp_minus_1)
qed

lemma or_high:
  "x < 64 \<Longrightarrow> 0x80 OR x = 0x80 + (x::nat)"
  "x < 2048 \<Longrightarrow> x OR 0x800 = 0x800 + (x::nat)"
  "x < 64 \<Longrightarrow> x OR 0xC0 = 0xC0 + (x::nat)"
  using or_shift [of x 6 2] or_shift [of x 11 1] or_shift [of x 6 3]
  by (simp_all add: push_bit_eq_mult or.commute)

lemma lead3: "y < 16 \<Longrightarrow> (0x20 + y) OR 0xC0 = 0xE0 + (y::nat)"
  using or_high(3) [of "0x20 + y"] by simp

section \<open>Decoding and encoding are inverse\<close>

definition is_byte :: "nat \<Rightarrow> bool" where
  "is_byte b \<longleftrightarrow> b < 256"

text \<open>The encoding of a character of the Basic Multilingual Plane, as arithmetic.\<close>

definition utf8_enc :: "nat \<Rightarrow> nat list" where
  "utf8_enc wc =
     (if wc < 0x80 then [wc]
      else if wc < 0x800 then [0xC0 + wc div 64, 0x80 + wc mod 64]
      else [0xE0 + wc div 4096, 0x80 + wc div 64 mod 64, 0x80 + wc mod 64])"

lemma length_utf8_enc: "0 < length (utf8_enc wc) \<and> length (utf8_enc wc) \<le> 3"
  by (simp add: utf8_enc_def)

lemma my_uni_utf8_enc:
  assumes "wc < 0x10000" "length (utf8_enc wc) \<le> room"
  shows "my_uni_utf8 wc room = Inr (utf8_enc wc)"
proof -
  have d: "drop_bit 6 wc = wc div 64" by (simp add: drop_bit_eq_div)
  consider "wc < 0x80" | "0x80 \<le> wc" "wc < 0x800" | "0x800 \<le> wc" "wc < 0x10000"
    using assms(1) by linarith
  then show ?thesis
  proof cases
    case 1
    then show ?thesis using assms(2) by (simp add: my_uni_utf8_def utf8_enc_def)
  next
    case 2
    then have "wc div 64 < 32" by (simp add: less_mult_imp_div_less)
    with 2 show ?thesis
      using assms(2) by (simp add: my_uni_utf8_def utf8_enc_def d and_low or_high Let_def)
  next
    case 3
    let ?x = "wc div 64"
    have x: "?x < 1024" using 3 by (simp add: less_mult_imp_div_less)
    have w1: "?x OR 0x800 = 0x800 + ?x" using x or_high(2) [of ?x] by simp
    have w2: "drop_bit 6 (0x800 + ?x) = 0x20 + wc div 4096"
      by (simp add: drop_bit_eq_div div_mult2_eq [of wc 64 64, simplified])
    have y: "wc div 4096 < 16" using 3 by (simp add: less_mult_imp_div_less)
    have m: "(0x800 + ?x) mod 64 = ?x mod 64" using mod_mult_self1 [of ?x 32 64] by (simp add: add.commute)
    have o: "0x80 OR (?x mod 64) = 0x80 + ?x mod 64" "0x80 OR (wc mod 64) = 0x80 + wc mod 64"
      by (simp_all add: or_high)
    show ?thesis
      using 3 assms(2) y
      by (simp add: my_uni_utf8_def utf8_enc_def d w1 and_low m o w2 lead3 [OF y])
  qed
qed

lemma utf8_enc_bytes: "wc < 0x10000 \<Longrightarrow> list_all is_byte (utf8_enc wc)"
  by (auto simp: utf8_enc_def is_byte_def less_mult_imp_div_less)

lemma my_utf8_uni_enc:
  assumes "wc < 0x10000"
  shows "my_utf8_uni (utf8_enc wc @ rest) = Inr (length (utf8_enc wc), wc)"
proof -
  consider "wc < 0x80" | "0x80 \<le> wc" "wc < 0x800" | "0x800 \<le> wc" "wc < 0x10000"
    using assms by linarith
  then show ?thesis
  proof cases
    case 1
    then show ?thesis by (simp add: my_utf8_uni_def utf8_enc_def)
  next
    case 2
    then have d: "wc div 64 < 32" "2 \<le> wc div 64" by (simp_all add: less_mult_imp_div_less div_le_mono [of 128 wc 64, simplified])
    have c: "(0xC0 + wc div 64) mod 32 = wc div 64"
      using d mod_mult_self2 [of "wc div 64" 32 6] by (simp add: add.commute)
    have b: "0x80 + wc mod 64 < (256::nat)" "0x80 + wc mod 64 < (0xC0::nat)"
      using mod_less_divisor [of 64 wc] by linarith+
    have "push_bit 6 (wc div 64) OR (wc mod 64) = wc"
      using or_shift [of "wc mod 64" 6 "wc div 64"] by simp
    with 2 d b show ?thesis
      by (simp add: my_utf8_uni_def utf8_enc_def Let_def and_low c byte_xor80)
  next
    case 3
    let ?x = "wc div 64"
    have y: "wc div 4096 < 16" using 3 by (simp add: less_mult_imp_div_less)
    have dd: "wc div 4096 = ?x div 64" by (simp add: div_mult2_eq [of wc 64 64, simplified])
    have c: "(0xE0 + wc div 4096) mod 16 = wc div 4096"
      using y mod_mult_self2 [of "wc div 4096" 16 14] by (simp add: add.commute)
    have b: "0x80 + n mod 64 < (256::nat)" "0x80 + n mod 64 < (0xC0::nat)" for n
      using mod_less_divisor [of 64 n] by linarith+
    have long: "0xE1 \<le> 0xE0 + wc div 4096 \<or> 0xA0 \<le> 0x80 + ?x mod 64"
    proof (cases "wc div 4096 = 0")
      case True
      then have "?x mod 64 = ?x" by (simp add: dd div_eq_0_iff)
      moreover have "32 \<le> ?x" using 3 div_le_mono [of 2048 wc 64] by simp
      ultimately show ?thesis by simp
    qed simp
    have j: "push_bit 12 (wc div 4096) OR push_bit 6 (?x mod 64) OR (wc mod 64) = wc"
    proof -
      have i: "push_bit 6 (?x mod 64) OR (wc mod 64) = wc mod 4096"
        using or_shift [of "wc mod 64" 6 "?x mod 64"] mod_mult2_eq [of wc 64 64] by (simp add: mult.commute)
      then show ?thesis
        using or_shift [of "wc mod 4096" 12 "wc div 4096"] by (simp add: or.assoc)
    qed
    show ?thesis
      using 3 y b long
      by (simp add: my_utf8_uni_def utf8_enc_def Let_def and_low c byte_xor80 j numeral_2_eq_2)
  qed
qed

lemma lead_mod:
  "0xC0 \<le> c \<Longrightarrow> c < 0xE0 \<Longrightarrow> c mod 32 = c - (0xC0::nat)"
  "0xE0 \<le> c \<Longrightarrow> c < 0xF0 \<Longrightarrow> c mod 16 = c - (0xE0::nat)"
  using mod_mult_self2 [of "c - 0xC0" 32 6] mod_mult_self2 [of "c - 0xE0" 16 14] by simp_all

text \<open>What is decoded is encoded to the same bytes: overlong forms are rejected.\<close>

lemma my_utf8_uni_sound:
  assumes "my_utf8_uni s = Inr (n, wc)" "list_all is_byte s"
  shows "wc < 0x10000 \<and> take n s = utf8_enc wc"
proof -
  from assms(1) obtain c r where s: "s = c # r" by (cases s) (auto simp: my_utf8_uni_def)
  have cont: "0x80 \<le> b \<and> b < 0xC0 \<and> b XOR 0x80 = b - 0x80" if "(b XOR 0x80) < 0x40" "b < 256" for b :: nat
    using that byte_xor80 by auto
  consider "c < 0x80" | "0xC2 \<le> c" "c < 0xE0" | "0xE0 \<le> c" "c < 0xF0"
    using assms(1) s by (auto simp: my_utf8_uni_def Let_def split: if_splits)
  then show ?thesis
  proof cases
    case 1
    then show ?thesis using assms(1) s by (auto simp: my_utf8_uni_def utf8_enc_def)
  next
    case 2
    then obtain b r' where r: "r = b # r'" using assms(1) s
      by (cases r) (auto simp: my_utf8_uni_def Let_def split: if_splits)
    have b: "(b XOR 0x80) < 0x40" and e: "n = 2" "wc = push_bit 6 (c AND 0x1F) OR (b XOR 0x80)"
      using assms(1) s r 2 by (auto simp: my_utf8_uni_def Let_def split: if_splits)
    have cb: "0x80 \<le> b" "b < 0xC0" "b XOR 0x80 = b - 0x80" using cont [OF b] assms(2) s r by (auto simp: is_byte_def)
    have wc: "wc = (c mod 32) * 64 + (b - 0x80)"
      using e(2) cb or_shift [of "b - 0x80" 6 "c mod 32"] by (simp add: and_low)
    have cm: "c mod 32 = c - 0xC0" using 2 by (simp add: lead_mod)
    define p q where "p = c - 0xC0" and "q = b - 0x80"
    have pq: "c = 0xC0 + p" "b = 0x80 + q" "2 \<le> p" "p < 32" "q < 64"
      using 2 cb by (simp_all add: p_def q_def)
    have W: "wc = p * 64 + q" using wc cm by (simp add: p_def q_def)
    then have "wc div 64 = p" "wc mod 64 = q" using pq by simp_all
    moreover have "0x80 \<le> wc" "wc < 0x800" using W pq by simp_all
    ultimately show ?thesis using pq by (simp add: e(1) s r utf8_enc_def numeral_2_eq_2)
  next
    case 3
    then obtain b d r' where r: "r = b # d # r'" using assms(1) s
      by (cases r; cases "tl r") (auto simp: my_utf8_uni_def Let_def split: if_splits)
    have b: "(b XOR 0x80) < 0x40" "(d XOR 0x80) < 0x40" "c \<ge> 0xE1 \<or> b \<ge> 0xA0" and e: "n = 3"
      "wc = push_bit 12 (c AND 0x0F) OR push_bit 6 (b XOR 0x80) OR (d XOR 0x80)"
      using assms(1) s r 3 by (auto simp: my_utf8_uni_def Let_def numeral_2_eq_2 split: if_splits)
    have cb: "0x80 \<le> b" "b < 0xC0" "b XOR 0x80 = b - 0x80" "0x80 \<le> d" "d < 0xC0" "d XOR 0x80 = d - 0x80"
      using cont [OF b(1)] cont [OF b(2)] assms(2) s r by (auto simp: is_byte_def)
    have i: "push_bit 6 (b - 0x80) OR (d - 0x80) = (b - 0x80) * 64 + (d - 0x80)"
      using cb or_shift [of "d - 0x80" 6 "b - 0x80"] by simp
    have lt: "(b - 0x80) * 64 + (d - 0x80) < 2 ^ 12" using cb by simp
    have wc: "wc = (c mod 16) * 4096 + ((b - 0x80) * 64 + (d - 0x80))"
      using e(2) cb or_shift [OF lt, of "c mod 16"] by (simp add: and_low i or.assoc)
    have cm: "c mod 16 = c - 0xE0" using 3 by (simp add: lead_mod)
    define p q t where "p = c - 0xE0" and "q = b - 0x80" and "t = d - 0x80"
    have pqr: "c = 0xE0 + p" "b = 0x80 + q" "d = 0x80 + t" "p < 16" "q < 64" "t < 64"
      using 3 cb by (simp_all add: p_def q_def t_def)
    have W: "wc = (p * 64 + q) * 64 + t" using wc cm by (simp add: p_def q_def t_def)
    have w: "wc mod 64 = t" "wc div 64 = p * 64 + q"
      unfolding W using pqr mod_mult_self3 [of "p * 64 + q" 64 t] by simp_all
    then have w2: "wc div 64 mod 64 = q" "wc div 4096 = p"
      using pqr div_mult2_eq [of wc 64 64] by simp_all
    have ge: "0x800 \<le> wc" "wc < 0x10000" using W b(3) pqr by auto
    with w w2 pqr show ?thesis by (simp add: e(1) s r utf8_enc_def numeral_3_eq_3)
  qed
qed

section \<open>Upper-casing a character\<close>

lemma toupper_lookup:
  assumes "wc < 0x10000"
  shows "unicase_toupper wc =
    (case my_unicase_default (wc div 256) of Some us \<Rightarrow> nat (us ! (wc mod 256)) | None \<Rightarrow> wc)"
proof -
  have "wc div 256 < 256" using assms by (simp add: less_mult_imp_div_less)
  then show ?thesis by (simp add: unicase_toupper_def drop_bit_eq_div and_low split: option.split)
qed

lemma fixed_in_toupper: "0 \<le> u \<Longrightarrow> u < 0x10000 \<Longrightarrow> fixed_in u \<Longrightarrow> unicase_toupper (nat u) = nat u"
  by (auto simp: toupper_lookup fixed_in_def nat_div_distrib nat_mod_distrib split: option.splits)

lemma length_enc_len: "int (length (utf8_enc w)) = enc_len (int w)"
  by (simp add: utf8_enc_def enc_len_def)

lemma toupper_ok:
  assumes "wc < 0x10000"
  shows "unicase_toupper (unicase_toupper wc) = unicase_toupper wc"
    and "unicase_toupper wc < 0x10000"
    and "length (utf8_enc (unicase_toupper wc)) \<le> length (utf8_enc wc)"
    and "0 < wc \<Longrightarrow> 0 < unicase_toupper wc"
proof -
  have "unicase_toupper (unicase_toupper wc) = unicase_toupper wc \<and> unicase_toupper wc < 0x10000
    \<and> length (utf8_enc (unicase_toupper wc)) \<le> length (utf8_enc wc) \<and> (0 < wc \<longrightarrow> 0 < unicase_toupper wc)"
  proof (cases "unicase_toupper wc = wc")
    case True
    then show ?thesis using assms by simp
  next
    case False
    then obtain us where us: "my_unicase_default (wc div 256) = Some us" "unicase_toupper wc = nat (us ! (wc mod 256))"
      using toupper_lookup [OF assms] by (cases "my_unicase_default (wc div 256)") auto
    then have pl: "(wc div 256, us) \<in> set planes" by (simp add: default_planes)
    let ?u = "us ! (wc mod 256)"
    have w: "int (wc div 256) * 256 + int (wc mod 256) = int wc"
      using div_mult_mod_eq [of wc 256] by (metis of_nat_add of_nat_mult of_nat_numeral)
    have "?u \<noteq> int wc" using False us(2) by auto
    then have "(int wc, ?u) \<in> set (changes (int (wc div 256) * 256) us)"
      using changes_nth [of "wc mod 256" us "int (wc div 256) * 256"] planes_length [OF pl] by (simp only: w) simp
    note c = change_ok [OF pl this]
    have "unicase_toupper (nat ?u) = nat ?u" using c(1-3) by (intro fixed_in_toupper) auto
    moreover have "length (utf8_enc (nat ?u)) \<le> length (utf8_enc wc)"
      using c(2,4) length_enc_len [of "nat ?u"] length_enc_len [of wc] by simp
    ultimately show ?thesis using us(2) c(2,3) by (simp add: nat_less_iff)
  qed
  then show "unicase_toupper (unicase_toupper wc) = unicase_toupper wc"
    "unicase_toupper wc < 0x10000"
    "length (utf8_enc (unicase_toupper wc)) \<le> length (utf8_enc wc)"
    "0 < wc \<Longrightarrow> 0 < unicase_toupper wc" by auto
qed

section \<open>Upper-casing a string\<close>

text \<open>The characters read before the first malformed or unsupported sequence.\<close>

function decode_all :: "nat list \<Rightarrow> nat list" where
  "decode_all src =
     (if src = [] then []
      else case my_utf8_uni src of
          Inl _ \<Rightarrow> [] | Inr (n, wc) \<Rightarrow> wc # decode_all (drop n src))"
  by pat_completeness auto
termination
  by (relation "measure length") (auto dest: my_utf8_uni_drop)

declare decode_all.simps [simp del]

lemma decode_all_bound: "list_all is_byte src \<Longrightarrow> list_all (\<lambda>wc. wc < 0x10000) (decode_all src)"
proof (induction src rule: decode_all.induct)
  case (1 src)
  show ?case
  proof (cases "src = [] \<or> (\<exists>e. my_utf8_uni src = Inl e)")
    case True
    then show ?thesis by (subst decode_all.simps) auto
  next
    case False
    then obtain n wc where d: "src \<noteq> []" "my_utf8_uni src = Inr (n, wc)"
      by (cases "my_utf8_uni src") auto
    have "list_all is_byte (drop n src)" using "1.prems" by (auto simp: list_all_iff dest: in_set_dropD)
    with "1.IH" [OF d(1) d(2) refl] my_utf8_uni_sound [OF d(2) "1.prems"] d show ?thesis
      by (subst decode_all.simps) simp
  qed
qed

lemma decode_all_enc: "list_all (\<lambda>wc. wc < 0x10000) ws \<Longrightarrow> decode_all (concat (map utf8_enc ws)) = ws"
proof (induction ws)
  case Nil
  then show ?case by (simp add: decode_all.simps)
next
  case (Cons w ws)
  have "utf8_enc w @ concat (map utf8_enc ws) \<noteq> []" using length_utf8_enc [of w] by auto
  with Cons my_utf8_uni_enc [of w "concat (map utf8_enc ws)"] show ?case
    by (subst decode_all.simps) simp
qed

lemma caseup_loop_eq:
  "list_all is_byte src \<Longrightarrow> length src \<le> room \<Longrightarrow>
     caseup_loop src room out = out @ concat (map (\<lambda>wc. utf8_enc (unicase_toupper wc)) (decode_all src))
   \<and> length (caseup_loop src room out) \<le> length out + length src"
proof (induction src room out rule: caseup_loop.induct)
  case (1 src room out)
  show ?case
  proof (cases "src = [] \<or> (\<exists>e. my_utf8_uni src = Inl e)")
    case True
    then show ?thesis by (subst (1 2) caseup_loop.simps, subst decode_all.simps) auto
  next
    case False
    then obtain n wc where d: "src \<noteq> []" "my_utf8_uni src = Inr (n, wc)"
      by (cases "my_utf8_uni src") auto
    have n: "n \<le> length src" "wc < 0x10000" "take n src = utf8_enc wc"
      using my_utf8_uni_count [OF d(2)] my_utf8_uni_sound [OF d(2) "1.prems"(1)] by auto
    then have len: "length (utf8_enc wc) = n" by (metis length_take min.absorb2)
    let ?e = "utf8_enc (unicase_toupper wc)"
    have le: "length ?e \<le> n" using toupper_ok(3) [OF n(2)] len by simp
    have enc: "my_uni_utf8 (unicase_toupper wc) room = Inr ?e"
      using toupper_ok(2) [OF n(2)] le n(1) "1.prems"(2) by (intro my_uni_utf8_enc) simp_all
    have byt: "list_all is_byte (drop n src)" using "1.prems"(1) by (auto simp: list_all_iff dest: in_set_dropD)
    have room: "length (drop n src) \<le> room - length ?e" using le "1.prems"(2) n(1) by simp
    have step: "caseup_loop src room out = caseup_loop (drop n src) (room - length ?e) (out @ ?e)"
      using d enc by (subst caseup_loop.simps) simp
    have dec: "decode_all src = wc # decode_all (drop n src)" using d by (subst decode_all.simps) simp
    note IH = "1.IH" [OF d(1) d(2) refl enc byt room]
    have "length (caseup_loop (drop n src) (room - length ?e) (out @ ?e)) \<le> length out + length src"
      using IH [THEN conjunct2] le n(1) by (simp only: length_append length_drop)
    with IH [THEN conjunct1] show ?thesis unfolding step dec by (simp only: list.map concat.simps append_assoc)
  qed
qed

lemma caseup_eq:
  assumes "list_all is_byte src" "length src \<le> dstlen"
  shows "cppmysql_caseup_utf8 src dstlen = concat (map (\<lambda>wc. utf8_enc (unicase_toupper wc)) (decode_all src))"
    and "length (cppmysql_caseup_utf8 src dstlen) \<le> length src"
proof -
  note c = caseup_loop_eq [OF assms, of "[]"]
  show "cppmysql_caseup_utf8 src dstlen = concat (map (\<lambda>wc. utf8_enc (unicase_toupper wc)) (decode_all src))"
    using c [THEN conjunct1] by (simp add: cppmysql_caseup_utf8_def)
  show "length (cppmysql_caseup_utf8 src dstlen) \<le> length src"
    using c [THEN conjunct2] unfolding cppmysql_caseup_utf8_def by (simp only: list.size add_0)
qed

lemma c_bytes_ok [simp]: "list_all is_byte (c_bytes s)"
  by (auto simp: c_bytes_def list_all_iff is_byte_def)

lemma of_char_zero: "of_char c = (0::nat) \<longleftrightarrow> c = CHR 0x00"
  using of_char_eq_iff [of c "CHR 0x00", where ?'a = nat] by simp

lemma c_bytes_nonzero: "0 \<notin> set (c_bytes s)"
proof
  assume "0 \<in> set (c_bytes s)"
  then obtain c where "c \<in> set (takeWhile (\<lambda>c. c \<noteq> CHR 0x00) s)" "of_char c = (0::nat)"
    by (auto simp: c_bytes_def)
  then show False by (auto simp: of_char_zero dest: set_takeWhileD)
qed

lemma decode_all_nonzero:
  "list_all is_byte src \<Longrightarrow> 0 \<notin> set src \<Longrightarrow> 0 \<notin> set (decode_all src)"
proof (induction src rule: decode_all.induct)
  case (1 src)
  show ?case
  proof (cases "src = [] \<or> (\<exists>e. my_utf8_uni src = Inl e)")
    case True
    then show ?thesis by (subst decode_all.simps) auto
  next
    case False
    then obtain n wc where d: "src \<noteq> []" "my_utf8_uni src = Inr (n, wc)"
      by (cases "my_utf8_uni src") auto
    have "wc \<noteq> 0"
    proof
      assume "wc = 0"
      then have "take n src = [0]" using my_utf8_uni_sound [OF d(2) "1.prems"(1)] by (simp add: utf8_enc_def)
      with "1.prems"(2) show False by (metis in_set_takeD list.set_intros(1))
    qed
    moreover have "list_all is_byte (drop n src)" "0 \<notin> set (drop n src)"
      using "1.prems" by (auto simp: list_all_iff dest: in_set_dropD)
    ultimately show ?thesis using "1.IH" [OF d(1) d(2) refl] d by (subst decode_all.simps) simp
  qed
qed

definition upper_bytes :: "nat list \<Rightarrow> nat list" where
  "upper_bytes ws = concat (map (\<lambda>wc. utf8_enc (unicase_toupper wc)) ws)"

lemma upper_bytes_ok:
  assumes "list_all (\<lambda>wc. wc < 0x10000) ws" "0 \<notin> set ws"
  shows "list_all is_byte (upper_bytes ws)" "0 \<notin> set (upper_bytes ws)"
proof -
  have "list_all is_byte (utf8_enc (unicase_toupper w)) \<and> 0 \<notin> set (utf8_enc (unicase_toupper w))" if "w \<in> set ws" for w
  proof -
    have w: "w < 0x10000" "0 < w" using assms that by (auto simp: list_all_iff intro: gr0I)
    then have "0 < unicase_toupper w" by (rule toupper_ok(4))
    then show ?thesis using utf8_enc_bytes [OF toupper_ok(2) [OF w(1)]] by (auto simp: utf8_enc_def)
  qed
  then show "list_all is_byte (upper_bytes ws)" "0 \<notin> set (upper_bytes ws)"
    by (auto simp: upper_bytes_def list_all_iff)
qed

lemma c_bytes_char_of:
  assumes "list_all is_byte bs" "0 \<notin> set bs"
  shows "takeWhile (\<lambda>c. c \<noteq> CHR 0x00) (map char_of bs) = map char_of bs" "c_bytes (map char_of bs) = bs"
proof -
  have "\<forall>b \<in> set bs. char_of b \<noteq> (CHR 0x00)"
  proof
    fix b assume b: "b \<in> set bs"
    then have "of_char (char_of b) = b" using assms(1) by (simp add: list_all_iff is_byte_def)
    then show "char_of b \<noteq> CHR 0x00" using b assms(2) of_char_zero by metis
  qed
  then show t: "takeWhile (\<lambda>c. c \<noteq> CHR 0x00) (map char_of bs) = map char_of bs"
    by (simp add: takeWhile_eq_all_conv)
  have "map of_char (map char_of bs :: char list) = bs"
    using assms(1) by (induction bs) (auto simp: is_byte_def)
  then show "c_bytes (map char_of bs) = bs" by (simp only: c_bytes_def t)
qed

lemma utf8_strup_eq: "utf8_strup s = map char_of (upper_bytes (decode_all (c_bytes s)))"
proof -
  let ?ws = "decode_all (c_bytes s)"
  have "cppmysql_caseup_utf8 (c_bytes s) (length (c_bytes s) * 4) = upper_bytes ?ws"
    by (simp add: caseup_eq upper_bytes_def)
  moreover have "list_all is_byte (upper_bytes ?ws)" "0 \<notin> set (upper_bytes ?ws)"
    using upper_bytes_ok decode_all_bound decode_all_nonzero c_bytes_nonzero by simp_all
  ultimately show ?thesis by (simp add: utf8_strup_def Let_def c_bytes_char_of)
qed

lemma c_bytes_utf8_strup: "c_bytes (utf8_strup s) = upper_bytes (decode_all (c_bytes s))"
  using upper_bytes_ok decode_all_bound decode_all_nonzero c_bytes_nonzero
  by (simp add: utf8_strup_eq c_bytes_char_of)

lemma decode_upper_bytes:
  assumes "list_all (\<lambda>wc. wc < 0x10000) ws"
  shows "decode_all (upper_bytes ws) = map unicase_toupper ws"
proof -
  have "list_all (\<lambda>wc. wc < 0x10000) (map unicase_toupper ws)"
    using assms by (auto simp: list_all_iff intro: toupper_ok(2))
  from decode_all_enc [OF this] show ?thesis by (simp add: upper_bytes_def comp_def)
qed

lemma utf8_strup_idem_aux: "utf8_strup (utf8_strup s) = utf8_strup s"
proof -
  let ?ws = "decode_all (c_bytes s)"
  have b: "list_all (\<lambda>wc. wc < 0x10000) ?ws" by (simp add: decode_all_bound)
  then have "map unicase_toupper (map unicase_toupper ?ws) = map unicase_toupper ?ws"
    by (auto simp: list_all_iff toupper_ok(1))
  then have "upper_bytes (map unicase_toupper ?ws) = upper_bytes ?ws"
    unfolding upper_bytes_def by (metis (no_types, lifting) map_map comp_apply map_eq_conv)
  with b show ?thesis
    by (simp add: utf8_strup_eq [of "utf8_strup s"] c_bytes_utf8_strup decode_upper_bytes)
      (simp add: utf8_strup_eq)
qed

section \<open>ASCII\<close>

definition ascii_up :: "char \<Rightarrow> char" where
  "ascii_up c = (if 97 \<le> (of_char c::nat) \<and> of_char c \<le> (122::nat) then char_of (of_char c - 32 :: nat) else c)"

definition is_ascii :: "char \<Rightarrow> bool" where
  "is_ascii c \<longleftrightarrow> c \<noteq> CHR 0x00 \<and> of_char c < (128::nat)"

lemma plane00_ascii: "take 128 plane00 = map (\<lambda>i. if 97 \<le> i \<and> i \<le> 122 then i - 32 else i) [0..127]"
  by code_simp

lemma toupper_ascii: "w < 128 \<Longrightarrow> unicase_toupper w = (if 97 \<le> w \<and> w \<le> 122 then w - 32 else w)"
proof -
  assume w: "w < 128"
  then have "plane00 ! w = take 128 plane00 ! w" by (simp only: nth_take)
  also have "\<dots> = (if 97 \<le> [0..127] ! w \<and> [0..127] ! w \<le> 122 then [0..127] ! w - 32 else [0..127] ! w)"
    unfolding plane00_ascii using w by (intro nth_map) simp
  also have "[0..127] ! w = int w" using w nth_upto [of 0 w 127] by simp
  finally have "plane00 ! w = (if 97 \<le> int w \<and> int w \<le> 122 then int w - 32 else int w)" .
  moreover have "unicase_toupper w = nat (plane00 ! w)"
    using w toupper_lookup [of w] by (simp add: my_unicase_default_def)
  ultimately show ?thesis by auto
qed

lemma decode_all_ascii: "list_all (\<lambda>b. b < 128) bs \<Longrightarrow> decode_all bs = bs"
proof (induction bs)
  case Nil
  then show ?case by (simp add: decode_all.simps)
next
  case (Cons b bs)
  have "my_utf8_uni (b # bs) = Inr (1, b)" using Cons.prems by (simp add: my_utf8_uni_def)
  with Cons show ?case by (subst decode_all.simps) simp
qed

lemma utf8_strup_ascii: "list_all is_ascii s \<Longrightarrow> utf8_strup s = map ascii_up s"
proof -
  assume a: "list_all is_ascii s"
  then have c: "c_bytes s = map of_char s"
    by (simp add: c_bytes_def is_ascii_def list_all_iff takeWhile_eq_all_conv [THEN iffD2])
  have lt: "list_all (\<lambda>b. b < 128) (map of_char s :: nat list)" using a by (auto simp: list_all_iff is_ascii_def)
  have "map char_of (utf8_enc (unicase_toupper (of_char x))) = [ascii_up x]" if "x \<in> set s" for x
  proof -
    define w :: nat where "w = of_char x"
    have w: "w < 128" "char_of w = x" using a that by (simp_all add: w_def list_all_iff is_ascii_def)
    have u: "unicase_toupper w = (if 97 \<le> w \<and> w \<le> 122 then w - 32 else w)" using w(1) by (rule toupper_ascii)
    then have "unicase_toupper w < 128" using w(1) by auto
    then have "map char_of (utf8_enc (unicase_toupper w)) = [char_of (unicase_toupper w)]"
      by (simp add: utf8_enc_def)
    also have "char_of (unicase_toupper w) = (if 97 \<le> w \<and> w \<le> 122 then char_of (w - 32) else x)"
      using u w(2) by (simp only: if_distrib [of char_of])
    finally have "map char_of (utf8_enc (unicase_toupper w)) = [if 97 \<le> w \<and> w \<le> 122 then char_of (w - 32) else x]" .
    then show ?thesis by (simp add: ascii_up_def w_def)
  qed
  then have "map char_of (upper_bytes (map of_char s)) = map ascii_up s"
    by (induction s) (simp_all add: upper_bytes_def)
  then show ?thesis by (simp add: utf8_strup_eq c decode_all_ascii [OF lt])
qed

end
