(* ===== verification/Result_Set.thy ===== *)
theory Result_Set
  imports Column_Types Utf8
begin

text \<open>
  \<^verbatim>\<open>mysqlconnector/jdbc/driver/mysql_resultset.cpp\<close>: the result set the program iterates over, in
  \<^verbatim>\<open>getColumns\<close> and in the emitted \<^verbatim>\<open>main\<close>. The client library behind it is a parameter, the record
  \<open>native\<close> of the calls the class makes; \<open>stored_result\<close> states what the class relies on of a
  buffered result. A cell is a byte string or null.

  \<^verbatim>\<open>row_position\<close> and \<^verbatim>\<open>num_rows\<close> are unsigned 64-bit numbers, \<^verbatim>\<open>last_queried_column\<close> is an unsigned
  32-bit number whose greatest value means none.
\<close>

section \<open>The client library\<close>

type_synonym cell = "string option"
type_synonym srow = "cell list"

record field_meta =
  fm_name :: string
  fm_bit :: bool
  fm_flags :: nat
  fm_length :: nat

record 'n native =
  nat_fetch_row :: "'n \<Rightarrow> srow option \<times> 'n"
  nat_data_seek :: "nat \<Rightarrow> 'n \<Rightarrow> 'n"
  nat_num_rows :: "'n \<Rightarrow> nat"
  nat_fields :: "'n \<Rightarrow> field_meta list"
  nat_proxy :: "'n \<Rightarrow> nat option"  \<comment> \<open>\<^verbatim>\<open>proxy.lock()\<close> and its \<^verbatim>\<open>errNo()\<close>\<close>

datatype rs_kind = TYPE_FORWARD_ONLY | TYPE_SCROLL_INSENSITIVE | TYPE_SCROLL_SENSITIVE

record 'n result_set =
  rs_row :: "srow option"
  rs_result :: "'n option"
  rs_num_fields :: nat
  rs_num_rows :: nat
  rs_position :: nat
  rs_names :: "string \<rightharpoonup> nat"
  rs_was_null :: bool
  rs_last_col :: nat
  rs_type :: rs_kind

definition no_column :: nat where "no_column = 2 ^ 32 - 1"

section \<open>Construction\<close>

text \<open>A later column with the same upper-cased name replaces the index of an earlier one.\<close>

fun name_index :: "field_meta list \<Rightarrow> nat \<Rightarrow> (string \<rightharpoonup> nat) \<Rightarrow> (string \<rightharpoonup> nat)" where
  "name_index [] i m = m"
| "name_index (f # fs) i m = name_index fs (i + 1) (m(utf8_strup (fm_name f) \<mapsto> i))"

definition new_ResultSet :: "'n native \<Rightarrow> 'n \<Rightarrow> rs_kind \<Rightarrow> 'n result_set" where
  "new_ResultSet api res kind =
     \<lparr>rs_row = None, rs_result = Some res, rs_num_fields = length (nat_fields api res),
      rs_num_rows = nat_num_rows api res, rs_position = 0,
      rs_names = name_index (nat_fields api res) 0 Map.empty,
      rs_was_null = False, rs_last_col = no_column, rs_type = kind\<rparr>"

section \<open>Checks\<close>

definition rs_isClosed :: "'n result_set \<Rightarrow> bool" where
  "rs_isClosed s \<longleftrightarrow> rs_result s = None"

definition rs_checkValid :: "('n result_set, unit) sop" where
  "rs_checkValid = scheck (\<lambda>s. \<not> rs_isClosed s) (Invalid_instance ''ResultSet has been closed'')"

definition rs_isScrollable :: "'n result_set \<Rightarrow> bool" where
  "rs_isScrollable s \<longleftrightarrow> rs_type s \<noteq> TYPE_FORWARD_ONLY"

definition rs_checkScrollable :: "('n result_set, unit) sop" where
  "rs_checkScrollable =
     sthen (scheck rs_isScrollable Non_scrollable) (smod (\<lambda>s. s\<lparr>rs_last_col := no_column\<rparr>))"

definition rs_getFieldMeta :: "'n native \<Rightarrow> nat \<Rightarrow> ('n result_set, field_meta) sop" where
  "rs_getFieldMeta api col = (\<lambda>s.
     case rs_result s of
       None \<Rightarrow> (Inl Undefined_behaviour, s)
     | Some r \<Rightarrow> if 0 < col \<and> col \<le> length (nat_fields api r)
                 then (Inr (nat_fields api r ! (col - 1)), s) else (Inl Undefined_behaviour, s))"

text \<open>Calls through the shared pointer \<^verbatim>\<open>result\<close>.\<close>

definition rs_fetch_row :: "'n native \<Rightarrow> ('n result_set, unit) sop" where
  "rs_fetch_row api = (\<lambda>s.
     case rs_result s of
       None \<Rightarrow> (Inl Undefined_behaviour, s)
     | Some r \<Rightarrow> let (row, r') = nat_fetch_row api r in (Inr (), s\<lparr>rs_row := row, rs_result := Some r'\<rparr>))"

definition rs_data_seek :: "'n native \<Rightarrow> nat \<Rightarrow> ('n result_set, unit) sop" where
  "rs_data_seek api n = (\<lambda>s.
     case rs_result s of
       None \<Rightarrow> (Inl Undefined_behaviour, s)
     | Some r \<Rightarrow> (Inr (), s\<lparr>rs_result := Some (nat_data_seek api n r)\<rparr>))"

definition rs_seek :: "'n native \<Rightarrow> ('n result_set, unit) sop" where
  "rs_seek api =
     sthen rs_checkScrollable
       (sbind (sget (\<lambda>s. rs_position s - 1)) (\<lambda>n. sthen (rs_data_seek api n) (rs_fetch_row api)))"

section \<open>Moving the cursor\<close>

definition set_position :: "('n result_set \<Rightarrow> nat) \<Rightarrow> ('n result_set, unit) sop" where
  "set_position f = smod (\<lambda>s. s\<lparr>rs_position := f s\<rparr>)"

text \<open>The cast of an unsigned 64-bit number to \<^verbatim>\<open>int\<close>.\<close>

definition cast_int :: "nat \<Rightarrow> int" where
  "cast_int n = (int n + 2 ^ 31) mod 2 ^ 32 - 2 ^ 31"

definition on_row :: "'n result_set \<Rightarrow> bool" where
  "on_row s \<longleftrightarrow> rs_position s > 0 \<and> rs_position s < rs_num_rows s + 1"

text \<open>
  For the least \<^verbatim>\<open>int\<close> the negation \<^verbatim>\<open>-new_pos\<close> overflows before the comparison that was meant to
  catch it is reached.
\<close>

definition rs_absolute :: "'n native \<Rightarrow> int \<Rightarrow> ('n result_set, bool) sop" where
  "rs_absolute api new_pos =
     sthen rs_checkValid (sthen rs_checkScrollable (\<lambda>s.
       if new_pos > 0 then
         (if new_pos > cast_int (rs_num_rows s) then
            sthen (set_position (\<lambda>s. rs_num_rows s + 1)) (sget on_row) s
          else sthen (set_position (\<lambda>_. nat new_pos)) (sthen (rs_seek api) (sret True)) s)
       else if new_pos < 0 then
         (if new_pos = INT_MIN then (Inl Undefined_behaviour, s)
          else if - new_pos > cast_int (rs_num_rows s) then
            sthen (set_position (\<lambda>_. 0)) (sget on_row) s
          else sthen (set_position (\<lambda>s. rs_num_rows s - nat (- new_pos) + 1)) (sthen (rs_seek api) (sret True)) s)
       else sthen (set_position (\<lambda>_. 0)) (sthen (rs_data_seek api 0) (sget on_row)) s))"

definition rs_afterLast :: "('n result_set, unit) sop" where
  "rs_afterLast = sthen rs_checkValid (set_position (\<lambda>s. rs_num_rows s + 1))"

definition rs_beforeFirst :: "'n native \<Rightarrow> ('n result_set, unit) sop" where
  "rs_beforeFirst api =
     sthen rs_checkValid (sthen rs_checkScrollable (sthen (rs_data_seek api 0) (set_position (\<lambda>_. 0))))"

definition rs_first :: "'n native \<Rightarrow> ('n result_set, bool) sop" where
  "rs_first api =
     sthen rs_checkValid (sthen rs_checkScrollable
       (sthen (sif (\<lambda>s. rs_num_rows s \<noteq> 0) (sthen (set_position (\<lambda>_. 1)) (rs_seek api)) (sret ()))
              (sget (\<lambda>s. rs_num_rows s \<noteq> 0))))"

definition rs_last :: "'n native \<Rightarrow> ('n result_set, bool) sop" where
  "rs_last api =
     sthen rs_checkValid (sthen rs_checkScrollable
       (sthen (sif (\<lambda>s. rs_num_rows s \<noteq> 0) (sthen (set_position rs_num_rows) (rs_seek api)) (sret ()))
              (sget (\<lambda>s. rs_num_rows s \<noteq> 0))))"

definition rs_isBeforeFirst :: "('n result_set, bool) sop" where
  "rs_isBeforeFirst = sthen rs_checkValid (sget (\<lambda>s. rs_position s = 0))"

definition rs_isAfterLast :: "('n result_set, bool) sop" where
  "rs_isAfterLast =
     sthen rs_checkValid (sthen rs_checkScrollable (sget (\<lambda>s. rs_position s = rs_num_rows s + 1)))"

definition rs_isFirst :: "('n result_set, bool) sop" where
  "rs_isFirst = sthen rs_checkValid (sget (\<lambda>s. rs_position s = 1))"

definition rs_isLast :: "('n result_set, bool) sop" where
  "rs_isLast =
     sthen rs_checkValid (sthen rs_checkScrollable (sget (\<lambda>s. rs_position s = rs_num_rows s)))"

text \<open>After a null row: a lost or closed connection throws, the end of the rows does not.\<close>

definition rs_fetch_check :: "'n native \<Rightarrow> ('n result_set, unit) sop" where
  "rs_fetch_check api = (\<lambda>s.
     case (rs_row s, rs_result s) of
       (None, Some r) \<Rightarrow>
         (case nat_proxy api r of
            None \<Rightarrow> (Inl (Invalid_instance ''Connection has been closed''), s)
          | Some e \<Rightarrow> if e = 2013 \<or> e = 2000 then (Inl (Native_error e), s) else (Inr (), s))
     | _ \<Rightarrow> (Inr (), s))"

definition rs_next :: "'n native \<Rightarrow> ('n result_set, bool) sop" where
  "rs_next api =
     sthen rs_checkValid
       (sif rs_isScrollable
          (sbind rs_isLast (\<lambda>is_last.
             if is_last then sthen rs_afterLast (sret False)
             else sif (\<lambda>s. rs_position s < rs_num_rows s + 1)
                    (sthen (rs_fetch_row api) (sthen (rs_fetch_check api)
                      (sthen (set_position (\<lambda>s. rs_position s + 1)) (sget (\<lambda>s. rs_row s \<noteq> None)))))
                    (sret False)))
          (sthen (smod (\<lambda>s. s\<lparr>rs_last_col := no_column\<rparr>))
            (sthen (rs_fetch_row api) (sthen (rs_fetch_check api)
              (sif (\<lambda>s. rs_row s \<noteq> None)
                 (sthen (set_position (\<lambda>s. rs_position s + 1)) (sret True))
                 (sthen (set_position (\<lambda>_. 0)) (sret False)))))))"

definition rs_previous :: "'n native \<Rightarrow> ('n result_set, bool) sop" where
  "rs_previous api =
     sthen rs_checkScrollable
       (sbind rs_isBeforeFirst (\<lambda>bf. if bf then sret False
        else sbind rs_isFirst (\<lambda>fst. if fst then sthen (rs_beforeFirst api) (sret False)
        else sif (\<lambda>s. rs_position s > 1)
               (sthen (set_position (\<lambda>s. rs_position s - 1)) (sthen (rs_seek api) (sret True)))
               (sthrow (Sql_exception ''Impossible'')))))"

text \<open>\<^verbatim>\<open>row_position + rows\<close> is computed in unsigned 64-bit arithmetic.\<close>

definition moved :: "int \<Rightarrow> 'n result_set \<Rightarrow> nat" where
  "moved rows s = nat ((int (rs_position s) + rows) mod 2 ^ 64)"

definition rs_relative :: "'n native \<Rightarrow> int \<Rightarrow> ('n result_set, bool) sop" where
  "rs_relative api rows =
     sthen rs_checkValid (sthen rs_checkScrollable
       (sthen (if rows \<noteq> 0 then
                 sif (\<lambda>s. moved rows s > rs_num_rows s \<or> moved rows s < 1)
                   (set_position (\<lambda>s. if rows > 0 then rs_num_rows s + 1 else 0))
                   (sthen (set_position (moved rows)) (rs_seek api))
               else sret ())
              (sget (\<lambda>s. rs_position s > 0 \<and> rs_position s \<le> rs_num_rows s))))"

section \<open>Closing and asking\<close>

definition rs_close :: "('n result_set, unit) sop" where
  "rs_close = sthen rs_checkValid (smod (\<lambda>s. s\<lparr>rs_result := None\<rparr>))"

definition rs_getRow :: "('n result_set, nat) sop" where
  "rs_getRow = sthen rs_checkValid (sget rs_position)"

definition rs_getType :: "('n result_set, rs_kind) sop" where
  "rs_getType = sthen rs_checkValid (sget rs_type)"

definition rs_rowsCount :: "'n native \<Rightarrow> ('n result_set, nat) sop" where
  "rs_rowsCount api =
     sthen rs_checkValid (sthen rs_checkScrollable
       (sget (\<lambda>s. case rs_result s of None \<Rightarrow> 0 | Some r \<Rightarrow> nat_num_rows api r)))"

definition rs_isBeforeFirstOrAfterLast :: "('n result_set, bool) sop" where
  "rs_isBeforeFirstOrAfterLast =
     sthen rs_checkValid
       (sget (\<lambda>s. rs_position s = 0 \<or> (rs_isScrollable s \<and> rs_position s = rs_num_rows s + 1)))"

definition rs_findColumn :: "string \<Rightarrow> ('n result_set, nat) sop" where
  "rs_findColumn label =
     sthen rs_checkValid
       (sget (\<lambda>s. case rs_names s (utf8_strup label) of None \<Rightarrow> 0 | Some i \<Rightarrow> i + 1))"

definition msg_off :: "string \<Rightarrow> cpp_error" where
  "msg_off name = Sql_invalid_argument (''MySQL_ResultSet::'' @ name @ '': can't fetch because not on result set'')"

definition msg_column :: "string \<Rightarrow> cpp_error" where
  "msg_column name = Sql_invalid_argument
     (''MySQL_ResultSet::'' @ name @ '': invalid value of '' @ [squote] @ ''columnIndex'' @ [squote])"

definition rs_wasNull :: "('n result_set, bool) sop" where
  "rs_wasNull =
     sthen rs_checkValid
       (sbind rs_isBeforeFirstOrAfterLast (\<lambda>off.
          if off then sthrow (msg_off ''wasNull'')
          else sif (\<lambda>s. rs_last_col s = no_column)
                 (sthrow (Sql_invalid_argument ''MySQL_ResultSet::wasNull: should be called only after one of the getter methods''))
                 (sget rs_was_null)))"

section \<open>Conversions of a cell\<close>

text \<open>
  \<^verbatim>\<open>strtoll\<close> and \<^verbatim>\<open>strtoull\<close> saturate; \<^verbatim>\<open>strtoull\<close> negates a negative number in unsigned arithmetic.
  Conversions between integer types wrap around.
\<close>

definition to_int64 :: "int \<Rightarrow> int" where
  "to_int64 i = (i + 2 ^ 63) mod 2 ^ 64 - 2 ^ 63"

definition to_int32 :: "int \<Rightarrow> int" where
  "to_int32 i = (i + 2 ^ 31) mod 2 ^ 32 - 2 ^ 31"

definition to_uint64 :: "int \<Rightarrow> int" where
  "to_uint64 i = i mod 2 ^ 64"

definition to_uint32 :: "int \<Rightarrow> int" where
  "to_uint32 i = i mod 2 ^ 32"

definition strtoll :: "string \<Rightarrow> int" where
  "strtoll b = (case strtol10 b of None \<Rightarrow> 0 | Some i \<Rightarrow> max (- (2 ^ 63)) (min (2 ^ 63 - 1) i))"

definition strtoull :: "string \<Rightarrow> int" where
  "strtoull b = (case strtol10 b of None \<Rightarrow> 0
     | Some i \<Rightarrow> if \<bar>i\<bar> > 2 ^ 64 - 1 then 2 ^ 64 - 1 else to_uint64 i)"

text \<open>The macros \<^verbatim>\<open>bit_uint1korr\<close> to \<^verbatim>\<open>bit_uint8korr\<close>: \<open>n\<close> bytes, the most significant first.\<close>

definition bit_korr :: "nat \<Rightarrow> string \<Rightarrow> int" where
  "bit_korr n b = foldl (\<lambda>a c. a * 256 + int (of_char c)) 0 (take n b)"

definition is_unsigned_field :: "field_meta \<Rightarrow> bool" where
  "is_unsigned_field f \<longleftrightarrow> fm_flags f AND UNSIGNED_FLAG \<noteq> 0"

text \<open>The common part of \<^verbatim>\<open>getInt64\<close> and \<^verbatim>\<open>getUInt64\<close>: a bit field, an unsigned or a signed number.\<close>

definition bit_length :: "field_meta \<Rightarrow> nat" where
  "bit_length f = fm_length f div 8 + (if fm_length f mod 8 \<noteq> 0 then 1 else 0)"

definition cell_number :: "field_meta \<Rightarrow> string \<Rightarrow> int res" where
  "cell_number f b =
     (if fm_bit f \<and> fm_flags f \<noteq> (BINARY_FLAG OR UNSIGNED_FLAG) then
        (let n = bit_length f in
         if 1 \<le> n \<and> n \<le> 8 then (if n \<le> length b then Inr (bit_korr n b) else Inl Undefined_behaviour)
         else Inr 0)
      else if is_unsigned_field f then Inr (strtoull b) else Inr (strtoll b))"

section \<open>Reading cells\<close>

text \<open>The guards every getter starts with; \<open>name\<close> is the method's name in the messages.\<close>

definition rs_guard :: "string \<Rightarrow> nat \<Rightarrow> ('n result_set, unit) sop" where
  "rs_guard name col =
     sbind rs_isBeforeFirstOrAfterLast (\<lambda>off.
       if off then sthrow (msg_off name)
       else scheck (\<lambda>s. \<not> (col = 0 \<or> col > rs_num_fields s)) (msg_column name))"

text \<open>\<^verbatim>\<open>row[columnIndex - 1]\<close>; a null \<^verbatim>\<open>row\<close> is dereferenced.\<close>

definition rs_cell :: "nat \<Rightarrow> ('n result_set, cell) sop" where
  "rs_cell col = (\<lambda>s.
     case rs_row s of
       None \<Rightarrow> (Inl Undefined_behaviour, s)
     | Some r \<Rightarrow> if 0 < col \<and> col \<le> length r then (Inr (r ! (col - 1)), s) else (Inl Undefined_behaviour, s))"

definition set_null :: "bool \<Rightarrow> ('n result_set, unit) sop" where
  "set_null b = smod (\<lambda>s. s\<lparr>rs_was_null := b\<rparr>)"

definition rs_number :: "'n native \<Rightarrow> string \<Rightarrow> (int \<Rightarrow> int) \<Rightarrow> nat \<Rightarrow> ('n result_set, int) sop" where
  "rs_number api name conv col =
     sthen (rs_guard name col)
       (sthen (smod (\<lambda>s. s\<lparr>rs_last_col := col\<rparr>))
         (sbind (rs_cell col) (\<lambda>c.
            case c of
              None \<Rightarrow> sthen (set_null True) (sret 0)
            | Some b \<Rightarrow> sthen (set_null False)
                (sbind (rs_getFieldMeta api col) (\<lambda>f.
                   case cell_number f b of Inl e \<Rightarrow> sthrow e | Inr i \<Rightarrow> sret (conv i))))))"

definition rs_getInt64 :: "'n native \<Rightarrow> nat \<Rightarrow> ('n result_set, int) sop" where
  "rs_getInt64 api col = rs_number api ''getInt64'' to_int64 col"

definition rs_getUInt64 :: "'n native \<Rightarrow> nat \<Rightarrow> ('n result_set, int) sop" where
  "rs_getUInt64 api col = rs_number api ''getUInt64'' to_uint64 col"

text \<open>\<^verbatim>\<open>getInt\<close> returns an \<^verbatim>\<open>int32_t\<close>: the \<^verbatim>\<open>uint32_t\<close> of an unsigned column is converted once more.\<close>

definition rs_getInt :: "'n native \<Rightarrow> nat \<Rightarrow> ('n result_set, int) sop" where
  "rs_getInt api col =
     sthen (rs_guard ''getInt'' col)
       (sbind (rs_getFieldMeta api col) (\<lambda>f.
          if is_unsigned_field f then sbind (rs_getInt64 api col) (\<lambda>i. sret (to_int32 (to_uint32 i)))
          else sbind (rs_getInt64 api col) (\<lambda>i. sret (to_int32 i))))"

definition rs_getUInt :: "'n native \<Rightarrow> nat \<Rightarrow> ('n result_set, int) sop" where
  "rs_getUInt api col =
     sthen (rs_guard ''getUInt'' col) (sbind (rs_getUInt64 api col) (\<lambda>i. sret (to_uint32 i)))"

definition rs_getString :: "'n native \<Rightarrow> nat \<Rightarrow> ('n result_set, string) sop" where
  "rs_getString api col =
     sthen (rs_guard ''getString'' col)
       (sthen (smod (\<lambda>s. s\<lparr>rs_last_col := col\<rparr>))
         (sif (\<lambda>s. rs_row s = None)
            (sthen (set_null True) (sret []))
            (sbind (rs_cell col) (\<lambda>c.
               case c of
                 None \<Rightarrow> sthen (set_null True) (sret [])
               | Some b \<Rightarrow>
                   sbind (rs_getFieldMeta api col) (\<lambda>f.
                     if fm_bit f then sbind (rs_getUInt64 api col) (\<lambda>u. sret (udec (nat u)))
                     else sthen (set_null False) (sret b))))))"

text \<open>
  Floating-point numbers are a parameter: zero, the conversion of a 64-bit integer, and
  \<^verbatim>\<open>util::strtonum\<close>.
\<close>

record 'd floats =
  fl_zero :: 'd
  fl_of_int :: "int \<Rightarrow> 'd"
  fl_strtonum :: "string \<Rightarrow> 'd"

definition rs_getDouble :: "'n native \<Rightarrow> 'd floats \<Rightarrow> nat \<Rightarrow> ('n result_set, 'd) sop" where
  "rs_getDouble api fl col =
     sthen (rs_guard ''getDouble'' col)
       (sthen (smod (\<lambda>s. s\<lparr>rs_last_col := col\<rparr>))
         (sbind (rs_cell col) (\<lambda>c.
            case c of
              None \<Rightarrow> sthen (set_null True) (sret (fl_zero fl))
            | Some b \<Rightarrow> sthen (set_null False)
                (sbind (rs_getFieldMeta api col) (\<lambda>f.
                   if fm_bit f then sbind (rs_getInt64 api col) (\<lambda>i. sret (fl_of_int fl i))
                   else sret (fl_strtonum fl (takeWhile (\<lambda>c. c \<noteq> CHR 0x00) b)))))))"

text \<open>\<^verbatim>\<open>getBoolean\<close> and \<^verbatim>\<open>getBlob\<close> only check the cursor and delegate; both name \<^verbatim>\<open>getBoolean\<close>.\<close>

definition rs_off_guard :: "('n result_set, unit) sop" where
  "rs_off_guard =
     sbind rs_isBeforeFirstOrAfterLast (\<lambda>off. if off then sthrow (msg_off ''getBoolean'') else sret ())"

definition rs_getBoolean :: "'n native \<Rightarrow> nat \<Rightarrow> ('n result_set, bool) sop" where
  "rs_getBoolean api col = sthen rs_off_guard (sbind (rs_getInt api col) (\<lambda>i. sret (i \<noteq> 0)))"

definition rs_getBlob :: "'n native \<Rightarrow> nat \<Rightarrow> ('n result_set, string) sop" where
  "rs_getBlob api col = sthen rs_off_guard (rs_getString api col)"

definition rs_isNull :: "nat \<Rightarrow> ('n result_set, bool) sop" where
  "rs_isNull col =
     sthen rs_checkValid
       (sthen (scheck (\<lambda>s. \<not> (col = 0 \<or> col > rs_num_fields s)) (msg_column ''isNull''))
         (sbind rs_isBeforeFirstOrAfterLast (\<lambda>off.
            if off then sthrow (msg_off ''getDouble'')
            else sbind (rs_cell col) (\<lambda>c. sret (c = None)))))"

section \<open>Reading cells by label\<close>

definition rs_getInt_label :: "'n native \<Rightarrow> string \<Rightarrow> ('n result_set, int) sop" where
  "rs_getInt_label api label = sbind (rs_findColumn label) (rs_getInt api)"

definition rs_getUInt_label :: "'n native \<Rightarrow> string \<Rightarrow> ('n result_set, int) sop" where
  "rs_getUInt_label api label = sbind (rs_findColumn label) (rs_getUInt api)"

definition rs_getInt64_label :: "'n native \<Rightarrow> string \<Rightarrow> ('n result_set, int) sop" where
  "rs_getInt64_label api label = sbind (rs_findColumn label) (rs_getInt64 api)"

definition rs_getUInt64_label :: "'n native \<Rightarrow> string \<Rightarrow> ('n result_set, int) sop" where
  "rs_getUInt64_label api label = sbind (rs_findColumn label) (rs_getUInt64 api)"

definition rs_getString_label :: "'n native \<Rightarrow> string \<Rightarrow> ('n result_set, string) sop" where
  "rs_getString_label api label = sbind (rs_findColumn label) (rs_getString api)"

definition rs_getDouble_label :: "'n native \<Rightarrow> 'd floats \<Rightarrow> string \<Rightarrow> ('n result_set, 'd) sop" where
  "rs_getDouble_label api fl label = sbind (rs_findColumn label) (rs_getDouble api fl)"

definition rs_getBoolean_label :: "'n native \<Rightarrow> string \<Rightarrow> ('n result_set, bool) sop" where
  "rs_getBoolean_label api label = sthen rs_off_guard (sbind (rs_getInt_label api label) (\<lambda>i. sret (i \<noteq> 0)))"

definition rs_getBlob_label :: "'n native \<Rightarrow> string \<Rightarrow> ('n result_set, string) sop" where
  "rs_getBlob_label api label = sthen rs_off_guard (rs_getString_label api label)"

definition rs_isNull_label :: "string \<Rightarrow> ('n result_set, bool) sop" where
  "rs_isNull_label label =
     sbind (rs_findColumn label) (\<lambda>col_idx.
       if col_idx = 0 then sthrow (Sql_invalid_argument
         (''MySQL_ResultSet::isNull: invalid value of '' @ [squote] @ ''columnLabel'' @ [squote]))
       else rs_isNull col_idx)"

section \<open>Methods that are not implemented\<close>

definition rs_unsupported :: "string \<Rightarrow> ('n result_set, unit) sop" where
  "rs_unsupported name = sthen rs_checkValid (sthrow (Not_implemented name))"

definition rs_cancelRowUpdates :: "('n result_set, unit) sop" where
  "rs_cancelRowUpdates = rs_unsupported ''MySQL_ResultSet::cancelRowUpdates()''"

definition rs_clearWarnings :: "('n result_set, unit) sop" where
  "rs_clearWarnings = rs_unsupported ''MySQL_ResultSet::clearWarnings()''"

definition rs_getConcurrency :: "('n result_set, unit) sop" where
  "rs_getConcurrency = rs_unsupported ''MySQL_ResultSet::getConcurrency()''"

definition rs_getCursorName :: "('n result_set, unit) sop" where
  "rs_getCursorName = rs_unsupported ''MySQL_ResultSet::getCursorName()''"

definition rs_getFetchDirection :: "('n result_set, unit) sop" where
  "rs_getFetchDirection = rs_unsupported ''MySQL_ResultSet::getFetchDirection()''"

definition rs_getFetchSize :: "('n result_set, unit) sop" where
  "rs_getFetchSize = rs_unsupported ''MySQL_ResultSet::getFetchSize()''"

definition rs_getHoldability :: "('n result_set, unit) sop" where
  "rs_getHoldability = rs_unsupported ''MySQL_ResultSet::getHoldability()''"

definition rs_getRowId :: "('n result_set, unit) sop" where
  "rs_getRowId = rs_unsupported ''MySQL_ResultSet::getRowId(uint32_t columnIndex)''"

definition rs_getRowId_label :: "('n result_set, unit) sop" where
  "rs_getRowId_label = rs_unsupported ''MySQL_ResultSet::getRowId(const sql::SQLString & columnLabel)''"

definition rs_getWarnings :: "('n result_set, unit) sop" where
  "rs_getWarnings = rs_unsupported ''MySQL_ResultSet::getWarnings()''"

definition rs_insertRow :: "('n result_set, unit) sop" where
  "rs_insertRow = rs_unsupported ''MySQL_ResultSet::insertRow()''"

definition rs_moveToCurrentRow :: "('n result_set, unit) sop" where
  "rs_moveToCurrentRow = rs_unsupported ''MySQL_ResultSet::moveToCurrentRow()''"

definition rs_moveToInsertRow :: "('n result_set, unit) sop" where
  "rs_moveToInsertRow = rs_unsupported ''MySQL_ResultSet::moveToInsertRow()''"

definition rs_refreshRow :: "('n result_set, unit) sop" where
  "rs_refreshRow = rs_unsupported ''MySQL_ResultSet::refreshRow()''"

definition rs_rowDeleted :: "('n result_set, unit) sop" where
  "rs_rowDeleted = rs_unsupported ''MySQL_ResultSet::rowDeleted()''"

definition rs_rowInserted :: "('n result_set, unit) sop" where
  "rs_rowInserted = rs_unsupported ''MySQL_ResultSet::rowInserted()''"

definition rs_rowUpdated :: "('n result_set, unit) sop" where
  "rs_rowUpdated = rs_unsupported ''MySQL_ResultSet::rowUpdated()''"

definition rs_setFetchSize :: "('n result_set, unit) sop" where
  "rs_setFetchSize = rs_unsupported ''MySQL_ResultSet::setFetchSize()''"

definition rs_unimplemented :: "('n result_set, unit) sop list" where
  "rs_unimplemented =
     [rs_cancelRowUpdates, rs_clearWarnings, rs_getConcurrency, rs_getCursorName,
      rs_getFetchDirection, rs_getFetchSize, rs_getHoldability, rs_getRowId,
      rs_getRowId_label, rs_getWarnings, rs_insertRow, rs_moveToCurrentRow,
      rs_moveToInsertRow, rs_refreshRow, rs_rowDeleted, rs_rowInserted,
      rs_rowUpdated, rs_setFetchSize]"

end
