(* ===== verification/Cursor.thy ===== *)
theory Cursor
  imports Result_Set
begin

text \<open>
  What the result set's cursor does, against the client library's contract for a buffered result
  (\<^verbatim>\<open>mysql_store_result\<close>): the rows are held by the client, fetching returns the row under a cursor
  and advances it, seeking sets it. The locale \<open>cursor\<close> is the interface the reading loops of the
  program rely on; a buffered result set provides it.
\<close>

section \<open>Reading loops\<close>

text \<open>
  \<^verbatim>\<open>while (res->next()) { ... }\<close> with a body that reads one value per row. \<open>fuel\<close> bounds the number of
  calls of \<^verbatim>\<open>next\<close>; running out of it is \<open>Diverges\<close>.
\<close>

fun drain :: "nat \<Rightarrow> ('s, bool) sop \<Rightarrow> ('s, 'a) sop \<Rightarrow> 'a list \<Rightarrow> ('s, 'a list) sop" where
  "drain 0 nxt rd out = sthrow Diverges"
| "drain (Suc fuel) nxt rd out =
     sbind nxt (\<lambda>more. if more then sbind rd (\<lambda>x. drain fuel nxt rd (out @ [x])) else sret out)"

locale cursor =
  fixes nxt :: "('s, bool) sop" and at_row :: "'s \<Rightarrow> nat \<Rightarrow> bool" and n :: nat
  assumes advance: "at_row s k \<Longrightarrow> k < n \<Longrightarrow> \<exists>s'. nxt s = (Inr True, s') \<and> at_row s' (k + 1)"
    and finish: "at_row s n \<Longrightarrow> \<exists>s'. nxt s = (Inr False, s') \<and> at_row s' (n + 1)"
begin

lemma drain_from:
  assumes rd: "\<And>s k. at_row s k \<Longrightarrow> 1 \<le> k \<Longrightarrow> k \<le> n \<Longrightarrow> \<exists>s'. rd s = (Inr (g (k - 1)), s') \<and> at_row s' k"
  shows "at_row s k \<Longrightarrow> k \<le> n \<Longrightarrow> n - k < fuel \<Longrightarrow>
    \<exists>s'. drain fuel nxt rd out s = (Inr (out @ map g [k..<n]), s') \<and> at_row s' (n + 1)"
proof (induction "n - k" arbitrary: k s out fuel)
  case 0
  then obtain f where f: "fuel = Suc f" by (cases fuel) auto
  from 0 have "k = n" by simp
  with finish [of s] 0 f show ?case by auto
next
  case (Suc m)
  then obtain f where f: "fuel = Suc f" by (cases fuel) auto
  have lt: "k < n" using Suc by simp
  from advance [OF Suc.prems(1) lt] obtain s1 where s1: "nxt s = (Inr True, s1)" "at_row s1 (k + 1)" by blast
  have "1 \<le> k + 1" "k + 1 \<le> n" using lt by simp_all
  from rd [OF s1(2) this] obtain s2 where s2: "rd s1 = (Inr (g k), s2)" "at_row s2 (k + 1)" by auto
  have st: "drain fuel nxt rd out s = drain f nxt rd (out @ [g k]) s2" using s1(1) s2(1) f by simp
  have "m = n - (k + 1)" "k + 1 \<le> n" "n - (k + 1) < f" using Suc lt f by auto
  from Suc.hyps(1) [OF this(1) s2(2) this(2,3), of "out @ [g k]"] obtain s' where
    "drain f nxt rd (out @ [g k]) s2 = (Inr ((out @ [g k]) @ map g [k + 1..<n]), s')" "at_row s' (n + 1)" by blast
  moreover have "[k..<n] = k # [k + 1..<n]" using lt by (simp add: upt_rec)
  ultimately show ?case unfolding st by (intro exI [of _ s']) simp
qed

lemma drain_all:
  assumes "\<And>s k. at_row s k \<Longrightarrow> 1 \<le> k \<Longrightarrow> k \<le> n \<Longrightarrow> \<exists>s'. rd s = (Inr (g (k - 1)), s') \<and> at_row s' k"
    and "at_row s 0" "n < fuel"
  shows "\<exists>s'. drain fuel nxt rd [] s = (Inr (map g [0..<n]), s')"
  proof -
  have "n - 0 < fuel" using assms(3) by simp
  from drain_from [where rd = rd and g = g, OF assms(1) assms(2) _ this, where out = "[]"] show ?thesis by auto
qed

end

section \<open>Buffered results\<close>

text \<open>
  The result set and the library's cursor agree: on a row, the row is the one at \<^verbatim>\<open>row_position\<close> and
  the library's cursor is behind it; before the first row it is at the start.
\<close>

definition agrees :: "'n native \<Rightarrow> ('n \<Rightarrow> srow list) \<Rightarrow> ('n \<Rightarrow> nat) \<Rightarrow> srow list \<Rightarrow> field_meta list \<Rightarrow> 'n result_set \<Rightarrow> bool" where
  "agrees api rows_of cur rows fs s \<longleftrightarrow> rs_isScrollable s \<and> rs_num_rows s = length rows \<and> rs_num_fields s = length fs
     \<and> rs_names s = name_index fs 0 Map.empty
     \<and> rs_position s \<le> length rows + 1
     \<and> (\<exists>r. rs_result s = Some r \<and> rows_of r = rows \<and> nat_fields api r = fs
          \<and> (rs_position s = 0 \<longrightarrow> cur r = 0)
          \<and> (0 < rs_position s \<and> rs_position s \<le> length rows \<longrightarrow>
               cur r = rs_position s \<and> rs_row s = Some (rows ! (rs_position s - 1))))"

locale stored_result =
  fixes api :: "'n native" and rows_of :: "'n \<Rightarrow> srow list" and cur :: "'n \<Rightarrow> nat"
  assumes num_rows: "nat_num_rows api r = length (rows_of r)"
    and fetch_some: "cur r < length (rows_of r) \<Longrightarrow>
      \<exists>r'. nat_fetch_row api r = (Some (rows_of r ! cur r), r') \<and> rows_of r' = rows_of r \<and> cur r' = cur r + 1
        \<and> nat_fields api r' = nat_fields api r"
    and fetch_none: "length (rows_of r) \<le> cur r \<Longrightarrow>
      \<exists>r'. nat_fetch_row api r = (None, r') \<and> rows_of r' = rows_of r \<and> cur r' = cur r
        \<and> nat_fields api r' = nat_fields api r"
    and seek: "k \<le> length (rows_of r) \<Longrightarrow> rows_of (nat_data_seek api k r) = rows_of r
        \<and> cur (nat_data_seek api k r) = k \<and> nat_fields api (nat_data_seek api k r) = nat_fields api r"
begin

lemma new_agrees:
  assumes "kind \<noteq> TYPE_FORWARD_ONLY" "cur r = 0"
  shows "agrees api rows_of cur (rows_of r) (nat_fields api r) (new_ResultSet api r kind)"
  using assms by (simp add: agrees_def new_ResultSet_def rs_isScrollable_def num_rows)

lemma agrees_valid: "agrees api rows_of cur rows fs s \<Longrightarrow> rs_checkValid s = (Inr (), s)"
  by (auto simp: agrees_def rs_checkValid_def rs_isClosed_def)

lemma agrees_scrollable: "agrees api rows_of cur rows fs s \<Longrightarrow> rs_checkScrollable s = (Inr (), s\<lparr>rs_last_col := no_column\<rparr>)"
  by (simp add: agrees_def rs_checkScrollable_def)

lemma agrees_last_col [simp]: "agrees api rows_of cur rows fs (s\<lparr>rs_last_col := c\<rparr>) = agrees api rows_of cur rows fs s"
  by (simp add: agrees_def rs_isScrollable_def)

lemma agrees_was_null [simp]: "agrees api rows_of cur rows fs (s\<lparr>rs_was_null := b\<rparr>) = agrees api rows_of cur rows fs s"
  by (simp add: agrees_def rs_isScrollable_def)

text \<open>Seeking to a row of the result.\<close>

lemma seek_row:
  assumes "rs_isScrollable s" "rs_num_rows s = length rows"
    and "rs_num_fields s = length fs \<and> rs_names s = name_index fs 0 Map.empty"
    and "rs_result s = Some r" "rows_of r = rows" "nat_fields api r = fs"
    and "0 < rs_position s" "rs_position s \<le> length rows"
  shows "\<exists>s'. rs_seek api s = (Inr (), s') \<and> agrees api rows_of cur rows fs s' \<and> rs_position s' = rs_position s"
proof -
  let ?k = "rs_position s - 1"
  let ?r = "nat_data_seek api ?k r"
  have sk: "rows_of ?r = rows" "cur ?r = ?k" "nat_fields api ?r = fs" using seek [of ?k r] assms(5-8) by auto
  have "cur ?r < length (rows_of ?r)" using sk assms(7,8) by (simp only: sk)
  from fetch_some [OF this] obtain r' where r': "nat_fetch_row api ?r = (Some (rows ! ?k), r')" "rows_of r' = rows"
    "cur r' = ?k + 1" "nat_fields api r' = fs"
    unfolding sk by blast
  let ?s = "s\<lparr>rs_last_col := no_column, rs_row := Some (rows ! ?k), rs_result := Some r'\<rparr>"
  have "rs_seek api s = (Inr (), ?s)"
    using assms(1,4) r'(1)
    by (simp add: rs_seek_def rs_checkScrollable_def rs_data_seek_def rs_fetch_row_def)
  moreover have "agrees api rows_of cur rows fs ?s"
    using assms r'(2-4) by (simp add: agrees_def rs_isScrollable_def)
  ultimately show ?thesis by (intro exI [of _ ?s]) simp
qed

lemma fetch_next:
  assumes "agrees api rows_of cur rows fs s" "rs_position s < length rows"
  shows "\<exists>s'. rs_next api s = (Inr True, s') \<and> agrees api rows_of cur rows fs s' \<and> rs_position s' = rs_position s + 1"
proof -
  obtain r where r: "rs_result s = Some r" "rows_of r = rows" "nat_fields api r = fs" "cur r = rs_position s"
    using assms by (cases "rs_position s = 0") (auto simp: agrees_def)
  then have "cur r < length (rows_of r)" using assms(2) by simp
  from fetch_some [OF this] obtain r' where r': "nat_fetch_row api r = (Some (rows ! rs_position s), r')"
    "rows_of r' = rows" "cur r' = rs_position s + 1" "nat_fields api r' = fs"
    unfolding r by blast
  have "rs_next api s = (Inr True, s\<lparr>rs_last_col := no_column, rs_row := Some (rows ! rs_position s),
      rs_result := Some r', rs_position := rs_position s + 1\<rparr>)"
    using assms r(1) r'(1)
    by (simp add: rs_next_def agrees_valid rs_isLast_def agrees_scrollable agrees_def rs_isScrollable_def
        rs_checkValid_def rs_checkScrollable_def rs_isClosed_def rs_fetch_row_def rs_fetch_check_def set_position_def)
  then show ?thesis using assms r' by (intro exI conjI) (auto simp: agrees_def rs_isScrollable_def)
qed

lemma next_at_end:
  assumes "agrees api rows_of cur rows fs s" "length rows \<le> rs_position s"
  shows "\<exists>s'. rs_next api s = (Inr False, s') \<and> agrees api rows_of cur rows fs s' \<and> rs_position s' = length rows + 1"
proof -
  obtain r where r: "rs_result s = Some r" using assms(1) by (auto simp: agrees_def)
  have p: "rs_position s = length rows \<or> rs_position s = length rows + 1"
    using assms by (auto simp: agrees_def)
  then have "rs_next api s = (Inr False, s\<lparr>rs_last_col := no_column, rs_position := length rows + 1\<rparr>)"
    using assms r
    by (auto simp: rs_next_def rs_isLast_def agrees_def rs_isScrollable_def rs_afterLast_def
        rs_checkValid_def rs_checkScrollable_def rs_isClosed_def set_position_def)
  then show ?thesis using assms p by (intro exI conjI) (auto simp: agrees_def rs_isScrollable_def)
qed

end

text \<open>A buffered result set provides the interface of the reading loops.\<close>

sublocale stored_result \<subseteq> rows: cursor "rs_next api" "\<lambda>s k. agrees api rows_of cur rows fs s \<and> rs_position s = k" "length rows"
  for rows fs
proof
  fix s k assume "agrees api rows_of cur rows fs s \<and> rs_position s = k" "k < length rows"
  then show "\<exists>s'. rs_next api s = (Inr True, s') \<and> agrees api rows_of cur rows fs s' \<and> rs_position s' = k + 1"
    using fetch_next by blast
next
  fix s assume "agrees api rows_of cur rows fs s \<and> rs_position s = length rows"
  then show "\<exists>s'. rs_next api s = (Inr False, s') \<and> agrees api rows_of cur rows fs s' \<and> rs_position s' = length rows + 1"
    by (intro next_at_end) auto
qed

end
