(* ===== verification/Cursor_Moves.thy ===== *)
theory Cursor_Moves
  imports Cursor
begin

text \<open>
  All cursor movements of a buffered result set as one step relation, the position they are
  specified to reach, and the proof that they reach it with the library's cursor in agreement. The
  exception are the two movements that set \<^verbatim>\<open>row_position\<close> to the place before the first row without
  seeking.
\<close>

datatype move = Next | Previous | First | Last | Before_first | After_last | Absolute int | Relative int

definition run_move :: "'n native \<Rightarrow> move \<Rightarrow> ('n result_set, bool) sop" where
  "run_move api m =
     (case m of
        Next \<Rightarrow> rs_next api | Previous \<Rightarrow> rs_previous api | First \<Rightarrow> rs_first api | Last \<Rightarrow> rs_last api
      | Before_first \<Rightarrow> sthen (rs_beforeFirst api) (sret False)
      | After_last \<Rightarrow> sthen rs_afterLast (sret False)
      | Absolute k \<Rightarrow> rs_absolute api k | Relative k \<Rightarrow> rs_relative api k)"

text \<open>The specification: positions run from 0 (before the first row) to \<open>n + 1\<close> (after the last).\<close>

definition clamp :: "nat \<Rightarrow> int \<Rightarrow> nat" where
  "clamp n k = (if k > int n then n + 1 else nat k)"

definition move_pos :: "nat \<Rightarrow> nat \<Rightarrow> move \<Rightarrow> nat" where
  "move_pos n pos m =
     (case m of
        Next \<Rightarrow> clamp n (int pos + 1) | Previous \<Rightarrow> pos - 1
      | First \<Rightarrow> if n = 0 then pos else 1 | Last \<Rightarrow> if n = 0 then pos else n
      | Before_first \<Rightarrow> 0 | After_last \<Rightarrow> n + 1
      | Absolute k \<Rightarrow> clamp n (if k < 0 then int n + k + 1 else k)
      | Relative k \<Rightarrow> if k = 0 then pos else clamp n (int pos + k))"

text \<open>What a movement returns: whether it ends on a row.\<close>

definition hit :: "nat \<Rightarrow> nat \<Rightarrow> bool" where
  "hit n pos \<longleftrightarrow> 0 < pos \<and> pos \<le> n"

text \<open>Movements that leave the client library's cursor behind: to before the first row, unsought.\<close>

definition unsought :: "nat \<Rightarrow> nat \<Rightarrow> move \<Rightarrow> bool" where
  "unsought n pos m =
     (case m of Absolute k \<Rightarrow> k < - int n | Relative k \<Rightarrow> k \<noteq> 0 \<and> int pos + k < 1 | _ \<Rightarrow> False)"

definition move_int :: "move \<Rightarrow> bool" where
  "move_int m = (case m of Absolute k \<Rightarrow> in_int32 k | Relative k \<Rightarrow> in_int32 k | _ \<Rightarrow> True)"

lemma cast_int_small: "int n \<le> INT_MAX \<Longrightarrow> cast_int n = int n"
  by (simp add: cast_int_def)

lemma moved_small:
  assumes "0 \<le> int (rs_position s) + k" "int (rs_position s) + k < 2 ^ 64"
  shows "moved k s = nat (int (rs_position s) + k)"
  using assms by (simp add: moved_def)

lemma moved_negative:
  assumes "int (rs_position s) + k < 0" "- (2 ^ 31) \<le> k"
  shows "2 ^ 63 < moved k s"
proof -
  have "(int (rs_position s) + k) mod 2 ^ 64 = int (rs_position s) + k + 2 ^ 64"
    using assms by (intro int_mod_pos_eq [of _ _ "- 1"]) auto
  then show ?thesis using assms unfolding moved_def by simp
qed

context stored_result
begin

text \<open>Setting the position to a row of the result and seeking there.\<close>

lemma goto_row:
  assumes "agrees api rows_of cur rows fs s" "0 < k" "k \<le> length rows"
  shows "\<exists>s'. rs_seek api (s\<lparr>rs_position := k\<rparr>) = (Inr (), s') \<and> agrees api rows_of cur rows fs s' \<and> rs_position s' = k"
proof -
  obtain r where "rs_result s = Some r" "rows_of r = rows" "nat_fields api r = fs"
    using assms(1) by (auto simp: agrees_def)
  with assms show ?thesis
    using seek_row [of "s\<lparr>rs_position := k\<rparr>" rows fs r] by (auto simp: agrees_def rs_isScrollable_def)
qed

lemma goto_after:
  assumes "agrees api rows_of cur rows fs s"
  shows "agrees api rows_of cur rows fs (s\<lparr>rs_position := length rows + 1\<rparr>)"
  using assms by (auto simp: agrees_def rs_isScrollable_def)

lemma goto_before:
  assumes "agrees api rows_of cur rows fs s"
  shows "\<exists>r. rs_result s = Some r \<and> agrees api rows_of cur rows fs (s\<lparr>rs_result := Some (nat_data_seek api 0 r), rs_position := 0\<rparr>)"
proof -
  obtain r where "rs_result s = Some r" "rows_of r = rows" "nat_fields api r = fs"
    using assms by (auto simp: agrees_def)
  with seek [of 0 r] assms show ?thesis by (auto simp: agrees_def rs_isScrollable_def)
qed

lemma first_last:
  assumes "agrees api rows_of cur rows fs s" "rows \<noteq> []"
  shows "\<exists>s'. rs_first api s = (Inr True, s') \<and> agrees api rows_of cur rows fs s' \<and> rs_position s' = 1"
    and "\<exists>s'. rs_last api s = (Inr True, s') \<and> agrees api rows_of cur rows fs s' \<and> rs_position s' = length rows"
proof -
  let ?s = "s\<lparr>rs_last_col := no_column\<rparr>"
  have a: "agrees api rows_of cur rows fs ?s" using assms(1) by simp
  have n: "rs_num_rows s = length rows" using assms(1) by (simp add: agrees_def)
  have n': "agrees api rows_of cur rows fs t \<Longrightarrow> rs_num_rows t = length rows" for t by (simp add: agrees_def)
  have one: "0 < (1::nat)" "1 \<le> length rows" "0 < length rows" using assms(2) by (simp_all add: Suc_le_eq)
  from goto_row [OF a one(1,2)] obtain s1 where "rs_seek api (?s\<lparr>rs_position := 1\<rparr>) = (Inr (), s1)"
    "agrees api rows_of cur rows fs s1" "rs_position s1 = 1" by blast
  then show "\<exists>s'. rs_first api s = (Inr True, s') \<and> agrees api rows_of cur rows fs s' \<and> rs_position s' = 1"
    using assms n n' agrees_valid [OF assms(1)] agrees_scrollable [OF assms(1)]
    by (intro exI [of _ s1]) (simp add: rs_first_def set_position_def)
  from goto_row [OF a one(3) order_refl] obtain s2 where "rs_seek api (?s\<lparr>rs_position := length rows\<rparr>) = (Inr (), s2)"
    "agrees api rows_of cur rows fs s2" "rs_position s2 = length rows" by blast
  then show "\<exists>s'. rs_last api s = (Inr True, s') \<and> agrees api rows_of cur rows fs s' \<and> rs_position s' = length rows"
    using assms n n' agrees_valid [OF assms(1)] agrees_scrollable [OF assms(1)]
    by (intro exI [of _ s2]) (simp add: rs_last_def set_position_def)
qed

lemma first_last_empty:
  assumes "agrees api rows_of cur [] fs s"
  shows "rs_first api s = (Inr False, s\<lparr>rs_last_col := no_column\<rparr>)" "rs_last api s = (Inr False, s\<lparr>rs_last_col := no_column\<rparr>)"
  using assms agrees_valid [OF assms] agrees_scrollable [OF assms]
  by (simp_all add: rs_first_def rs_last_def agrees_def)

lemma before_first:
  assumes "agrees api rows_of cur rows fs s"
  shows "\<exists>s'. rs_beforeFirst api s = (Inr (), s') \<and> agrees api rows_of cur rows fs s' \<and> rs_position s' = 0"
proof -
  let ?s = "s\<lparr>rs_last_col := no_column\<rparr>"
  have a: "agrees api rows_of cur rows fs ?s" using assms by simp
  from goto_before [OF a] obtain r where r: "rs_result s = Some r"
    "agrees api rows_of cur rows fs (?s\<lparr>rs_result := Some (nat_data_seek api 0 r), rs_position := 0\<rparr>)" by auto
  then show ?thesis
    using agrees_valid [OF assms] agrees_scrollable [OF assms]
    by (intro exI [of _ "?s\<lparr>rs_result := Some (nat_data_seek api 0 r), rs_position := 0\<rparr>"])
      (simp add: rs_beforeFirst_def rs_data_seek_def set_position_def)
qed

lemma previous_move:
  assumes "agrees api rows_of cur rows fs s"
  shows "\<exists>s'. rs_previous api s = (Inr (1 < rs_position s), s') \<and> agrees api rows_of cur rows fs s'
    \<and> rs_position s' = rs_position s - 1"
proof -
  let ?s = "s\<lparr>rs_last_col := no_column\<rparr>"
  have a: "agrees api rows_of cur rows fs ?s" using assms by simp
  note ok = agrees_scrollable [OF assms] agrees_valid [OF a]
  consider "rs_position s = 0" | "rs_position s = 1" | "1 < rs_position s" by linarith
  then show ?thesis
  proof cases
    case 1
    then show ?thesis using ok a
      by (intro exI [of _ ?s]) (simp add: rs_previous_def rs_isBeforeFirst_def)
  next
    case 2
    from before_first [OF a] obtain s' where "rs_beforeFirst api ?s = (Inr (), s')"
      "agrees api rows_of cur rows fs s'" "rs_position s' = 0" by blast
    then show ?thesis using ok 2
      by (intro exI [of _ s']) (simp add: rs_previous_def rs_isBeforeFirst_def rs_isFirst_def)
  next
    case 3
    then have "0 < rs_position s - 1" "rs_position s - 1 \<le> length rows" using assms by (auto simp: agrees_def)
    from goto_row [OF a this] obtain s' where "rs_seek api (?s\<lparr>rs_position := rs_position s - 1\<rparr>) = (Inr (), s')"
      "agrees api rows_of cur rows fs s'" "rs_position s' = rs_position s - 1" by blast
    then show ?thesis using ok 3
      by (intro exI [of _ s']) (simp add: rs_previous_def rs_isBeforeFirst_def rs_isFirst_def set_position_def)
  qed
qed

lemma absolute_move:
  assumes "agrees api rows_of cur rows fs s" "int (length rows) \<le> INT_MAX" "in_int32 k" "- int (length rows) \<le> k"
  shows "\<exists>s'. rs_absolute api k s = (Inr (hit (length rows) (move_pos (length rows) (rs_position s) (Absolute k))), s')
    \<and> agrees api rows_of cur rows fs s'
    \<and> rs_position s' = move_pos (length rows) (rs_position s) (Absolute k)"
proof -
  let ?s = "s\<lparr>rs_last_col := no_column\<rparr>" and ?n = "length rows"
  have a: "agrees api rows_of cur rows fs ?s" using assms by simp
  have n: "rs_num_rows s = ?n" using assms(1) by (simp add: agrees_def)
  note ok = agrees_valid [OF assms(1)] agrees_scrollable [OF assms(1)] cast_int_small [OF assms(2)] n
  consider (after) "k > int ?n" | (fwd) "0 < k" "k \<le> int ?n" | (zero) "k = 0" | (neg) "k < 0" by linarith
  then show ?thesis
  proof cases
    case after
    then show ?thesis using ok goto_after [OF a]
      by (intro exI [of _ "?s\<lparr>rs_position := ?n + 1\<rparr>"])
        (simp add: rs_absolute_def set_position_def on_row_def move_pos_def hit_def clamp_def)
  next
    case fwd
    then have "0 < nat k" "nat k \<le> ?n" by auto
    from goto_row [OF a this] obtain s' where "rs_seek api (?s\<lparr>rs_position := nat k\<rparr>) = (Inr (), s')"
      "agrees api rows_of cur rows fs s'" "rs_position s' = nat k" by blast
    then show ?thesis using ok fwd
      by (intro exI [of _ s']) (simp add: rs_absolute_def set_position_def move_pos_def hit_def clamp_def)
  next
    case zero
    from goto_before [OF a] obtain r where r: "rs_result s = Some r"
      "agrees api rows_of cur rows fs (?s\<lparr>rs_result := Some (nat_data_seek api 0 r), rs_position := 0\<rparr>)" by auto
    then have "agrees api rows_of cur rows fs (?s\<lparr>rs_position := 0, rs_result := Some (nat_data_seek api 0 r)\<rparr>)"
      by (simp add: agrees_def rs_isScrollable_def)
    with r(1) show ?thesis using ok zero
      by (intro exI [of _ "?s\<lparr>rs_position := 0, rs_result := Some (nat_data_seek api 0 r)\<rparr>"])
        (simp add: rs_absolute_def set_position_def rs_data_seek_def on_row_def move_pos_def hit_def clamp_def)
  next
    case neg
    let ?k = "?n - nat (- k) + 1"
    have b: "0 < ?k" "?k \<le> ?n" "nat (int ?n + k + 1) = ?k" "\<not> - k > int ?n" "k \<noteq> INT_MIN"
      using neg assms(2,4) by auto
    from goto_row [OF a b(1,2)] obtain s' where "rs_seek api (?s\<lparr>rs_position := ?k\<rparr>) = (Inr (), s')"
      "agrees api rows_of cur rows fs s'" "rs_position s' = ?k" by blast
    then show ?thesis using ok neg b(3-5)
      by (intro exI [of _ s']) (simp add: rs_absolute_def set_position_def move_pos_def hit_def clamp_def)
  qed
qed

lemma relative_move:
  assumes "agrees api rows_of cur rows fs s" "int (length rows) \<le> INT_MAX" "in_int32 k"
    and "k = 0 \<or> 1 \<le> int (rs_position s) + k"
  shows "\<exists>s'. rs_relative api k s = (Inr (hit (length rows) (move_pos (length rows) (rs_position s) (Relative k))), s')
    \<and> agrees api rows_of cur rows fs s'
    \<and> rs_position s' = move_pos (length rows) (rs_position s) (Relative k)"
proof -
  let ?s = "s\<lparr>rs_last_col := no_column\<rparr>" and ?n = "length rows" and ?p = "rs_position s"
  have a: "agrees api rows_of cur rows fs ?s" using assms by simp
  have n: "rs_num_rows s = ?n" "?p \<le> ?n + 1" using assms(1) by (auto simp: agrees_def)
  note ok = agrees_valid [OF assms(1)] agrees_scrollable [OF assms(1)]
  show ?thesis
  proof (cases "k = 0")
    case True
    then show ?thesis using ok a
      by (intro exI [of _ ?s]) (simp add: rs_relative_def move_pos_def hit_def n(1))
  next
    case False
    have m: "moved k ?s = nat (int ?p + k)"
      using moved_small [of ?s k] False assms(2-4) n(2) by (auto simp: in_int32_def)
    show ?thesis
    proof (cases "int ?p + k > int ?n")
      case True
      then have "k > 0" "length rows < nat (int ?p + k)" using n(2) False by linarith+
      with True show ?thesis using ok goto_after [OF a] n(1) m False
        by (intro exI [of _ "?s\<lparr>rs_position := ?n + 1\<rparr>"])
          (simp add: rs_relative_def set_position_def move_pos_def hit_def clamp_def)
    next
      case le: False
      then have g: "0 < nat (int ?p + k)" "nat (int ?p + k) \<le> ?n" using False assms(4) by auto
      from goto_row [OF a g] obtain s' where s': "rs_seek api (?s\<lparr>rs_position := nat (int ?p + k)\<rparr>) = (Inr (), s')"
        "agrees api rows_of cur rows fs s'" "rs_position s' = nat (int ?p + k)" by blast
      moreover have "rs_num_rows s' = ?n" using s'(2) by (simp add: agrees_def)
      ultimately show ?thesis using ok n(1) m False g le
        by (intro exI [of _ s'])
          (simp add: rs_relative_def set_position_def move_pos_def hit_def clamp_def)
    qed
  qed
qed

lemma move_refines:
  assumes "agrees api rows_of cur rows fs s" "int (length rows) \<le> INT_MAX" "move_int m"
    and "\<not> unsought (length rows) (rs_position s) m"
  shows "\<exists>s'. run_move api m s = (Inr (hit (length rows) (move_pos (length rows) (rs_position s) m)), s')
    \<and> agrees api rows_of cur rows fs s'
    \<and> rs_position s' = move_pos (length rows) (rs_position s) m"
proof (cases m)
  case Next
  show ?thesis
  proof (cases "rs_position s < length rows")
    case True
    then show ?thesis using fetch_next [OF assms(1)] Next by (auto simp: run_move_def move_pos_def hit_def clamp_def nat_add_distrib)
  next
    case False
    then show ?thesis using next_at_end [OF assms(1)] Next by (auto simp: run_move_def move_pos_def hit_def clamp_def)
  qed
next
  case Previous
  moreover have "rs_position s \<le> length rows + 1" using assms(1) by (simp add: agrees_def)
  ultimately show ?thesis using previous_move [OF assms(1)] by (auto simp: run_move_def move_pos_def hit_def)
next
  case First
  then show ?thesis using first_last(1) [OF assms(1)] first_last_empty(1) assms(1)
    by (cases rows) (auto simp: run_move_def move_pos_def hit_def)
next
  case Last
  then show ?thesis using first_last(2) [OF assms(1)] first_last_empty(2) assms(1)
    by (cases rows) (auto simp: run_move_def move_pos_def hit_def)
next
  case Before_first
  then show ?thesis using before_first [OF assms(1)] by (auto simp: run_move_def move_pos_def hit_def)
next
  case After_last
  then show ?thesis using agrees_valid [OF assms(1)] goto_after [OF assms(1)] assms(1)
    by (auto simp: run_move_def move_pos_def hit_def rs_afterLast_def set_position_def agrees_def)
next
  case (Absolute k)
  then show ?thesis using absolute_move [OF assms(1,2), of k] assms(3,4)
    by (auto simp: run_move_def move_int_def unsought_def)
next
  case (Relative k)
  then show ?thesis using relative_move [OF assms(1,2), of k] assms(3,4)
    by (auto simp: run_move_def move_int_def unsought_def)
qed

text \<open>
  An unsought movement leaves the library's cursor on the row after the old position: the next
  \<^verbatim>\<open>next\<close> reports position 1 but delivers that row.
\<close>

lemma stale_row:
  assumes "agrees api rows_of cur rows fs s" "1 \<le> rs_position s" "rs_position s < length rows"
    and "k < - int (length rows)" "k \<noteq> INT_MIN" "int (length rows) \<le> INT_MAX"
  shows "\<exists>s1 s2. rs_absolute api k s = (Inr False, s1) \<and> rs_position s1 = 0
    \<and> rs_next api s1 = (Inr True, s2) \<and> rs_position s2 = 1 \<and> rs_row s2 = Some (rows ! rs_position s)"
proof -
  obtain r where r: "rs_result s = Some r" "rows_of r = rows" "cur r = rs_position s"
    using assms(1-3) by (auto simp: agrees_def)
  have "cur r < length (rows_of r)" using r assms(3) by simp
  from fetch_some [OF this] obtain r' where r': "nat_fetch_row api r = (Some (rows ! rs_position s), r')"
    unfolding r by blast
  have sc: "rs_isScrollable s" "rs_num_rows s = length rows" using assms(1) by (auto simp: agrees_def)
  let ?s = "s\<lparr>rs_last_col := no_column, rs_position := 0\<rparr>"
  have "rs_absolute api k s = (Inr False, ?s)"
    using agrees_valid [OF assms(1)] agrees_scrollable [OF assms(1)] assms(4-6) sc cast_int_small [OF assms(6)]
    by (simp add: rs_absolute_def set_position_def on_row_def)
  moreover have "rs_next api ?s = (Inr True, ?s\<lparr>rs_last_col := no_column, rs_row := Some (rows ! rs_position s),
      rs_result := Some r', rs_position := 1\<rparr>)"
    using sc r r' assms(2,3)
    by (cases "rows = []") (simp_all add: rs_next_def rs_isLast_def rs_isScrollable_def rs_checkValid_def rs_checkScrollable_def rs_isClosed_def
        rs_fetch_row_def rs_fetch_check_def set_position_def)
  ultimately show ?thesis
    by (intro exI [of _ ?s] exI [of _ "?s\<lparr>rs_last_col := no_column, rs_row := Some (rows ! rs_position s),
      rs_result := Some r', rs_position := 1\<rparr>"]) simp
qed

end

section \<open>The position stays in range\<close>

text \<open>
  Whatever the client library returns, and whether a movement returns or throws, a scrollable
  result set's position stays between 0 and \<open>num_rows + 1\<close>.
\<close>

definition pos_ok :: "'n result_set \<Rightarrow> bool" where
  "pos_ok s \<longleftrightarrow> rs_isScrollable s \<and> rs_position s \<le> rs_num_rows s + 1 \<and> int (rs_num_rows s) \<le> INT_MAX"

lemma pos_ok_upd [simp]:
  "pos_ok (s\<lparr>rs_last_col := c\<rparr>) = pos_ok s" "pos_ok (s\<lparr>rs_row := x\<rparr>) = pos_ok s"
  "pos_ok (s\<lparr>rs_result := y\<rparr>) = pos_ok s" "pos_ok (s\<lparr>rs_was_null := z\<rparr>) = pos_ok s"
  by (simp_all add: pos_ok_def rs_isScrollable_def)

lemma pos_ok_position:
  "pos_ok s \<Longrightarrow> k \<le> rs_num_rows s + 1 \<Longrightarrow> pos_ok (s\<lparr>rs_position := k\<rparr>)"
  by (simp add: pos_ok_def rs_isScrollable_def)

lemma keeps_pos_basic [simp, intro]:
  "keeps pos_ok rs_checkValid" "keeps pos_ok rs_checkScrollable" "keeps pos_ok (rs_data_seek api n)"
  "keeps pos_ok (rs_fetch_row api)" "keeps pos_ok (rs_fetch_check api)"
  by (auto simp: keeps_def rs_checkValid_def rs_checkScrollable_def rs_data_seek_def rs_fetch_row_def
      rs_fetch_check_def split: option.splits prod.splits)

lemma keeps_pos_seek [simp, intro]: "keeps pos_ok (rs_seek api)"
  by (auto simp: rs_seek_def intro!: keeps_rules)

lemma keeps_set_position:
  "(\<And>s. pos_ok s \<Longrightarrow> f s \<le> rs_num_rows s + 1) \<Longrightarrow> keeps pos_ok (set_position f)"
  by (simp add: keeps_def set_position_def pos_ok_position)

lemma keeps_pos_tests [simp, intro]:
  "keeps pos_ok rs_isLast" "keeps pos_ok rs_isFirst" "keeps pos_ok rs_isBeforeFirst"
  "keeps pos_ok rs_afterLast" "keeps pos_ok (rs_beforeFirst api)"
  by (auto simp: rs_isLast_def rs_isFirst_def rs_isBeforeFirst_def rs_afterLast_def rs_beforeFirst_def
      intro!: keeps_rules keeps_set_position)

lemma keeps_next: "keeps pos_ok (rs_next api)"
proof -
  let ?adv = "sthen (rs_fetch_row api) (sthen (rs_fetch_check api)
      (sthen (set_position (\<lambda>s. rs_position s + 1)) (sget (\<lambda>s. rs_row s \<noteq> None))))"
  have adv: "pos_ok (snd (sif (\<lambda>s. rs_position s < rs_num_rows s + 1) ?adv (sret False) s))" if "pos_ok s" for s
    using that
    by (auto simp: rs_fetch_row_def rs_fetch_check_def set_position_def Let_def pos_ok_def rs_isScrollable_def
        split: option.splits prod.splits sum.splits)
  have "keeps pos_ok (sif (\<lambda>s. rs_position s < rs_num_rows s + 1) ?adv (sret False))"
    using adv by (simp only: keeps_def) blast
  then have scroll: "keeps pos_ok (sbind rs_isLast (\<lambda>is_last. if is_last then sthen rs_afterLast (sret False)
      else sif (\<lambda>s. rs_position s < rs_num_rows s + 1) ?adv (sret False)))"
    by (auto intro!: keeps_sbind keeps_sthen)
  then have "pos_ok (snd (rs_next api s))" if "pos_ok s" for s
    using that unfolding rs_next_def
    by (auto simp: rs_checkValid_def pos_ok_def keeps_def simp del: sbind_apply)
  then show ?thesis by (simp add: keeps_def)
qed

lemma keepsI: "(\<And>s. I s \<Longrightarrow> I (snd (m s))) \<Longrightarrow> keeps I m"
  by (simp add: keeps_def)

lemma keepsE: "keeps I m \<Longrightarrow> I s \<Longrightarrow> I (snd (m s))"
  by (simp add: keeps_def)

lemma keeps_position_seek:
  assumes "pos_ok s" "f s \<le> rs_num_rows s + 1" "keeps pos_ok m"
  shows "pos_ok (snd (sthen (set_position f) m s))"
  using keepsE [OF assms(3) pos_ok_position [OF assms(1,2)]] by (simp add: set_position_def)

lemma keeps_first_last: "keeps pos_ok (rs_first api)" "keeps pos_ok (rs_last api)"
proof -
  have "keeps pos_ok (sif (\<lambda>s. rs_num_rows s \<noteq> 0) (sthen (set_position f) (rs_seek api)) (sret ()))"
    if "\<And>s. f s \<le> rs_num_rows s + 1" for f
    using that by (intro keeps_sif keeps_sthen keeps_set_position) auto
  from this [of "\<lambda>_. 1"] this [of rs_num_rows] show "keeps pos_ok (rs_first api)" "keeps pos_ok (rs_last api)"
    by (auto simp: rs_first_def rs_last_def intro!: keeps_sthen)
qed

lemma keeps_previous: "keeps pos_ok (rs_previous api)"
proof -
  have "keeps pos_ok (sthen (set_position (\<lambda>s. rs_position s - 1)) (sthen (rs_seek api) (sret True)))"
    by (intro keeps_sthen keeps_set_position) (auto simp: pos_ok_def)
  then show ?thesis unfolding rs_previous_def
    by (auto intro!: keeps_sthen [of _ rs_checkScrollable] keeps_sbind keeps_sif keeps_sthen [of _ "rs_beforeFirst api"])
qed

lemma keeps_absolute: "keeps pos_ok (rs_absolute api k)"
  unfolding rs_absolute_def
proof (intro keeps_sthen keeps_pos_basic keepsI)
  fix s :: "'a result_set" assume s: "pos_ok s"
  have c: "cast_int (rs_num_rows s) = int (rs_num_rows s)" using s by (simp add: pos_ok_def cast_int_small)
  have seek: "keeps pos_ok (sthen (rs_seek api) (sret True))" by (intro keeps_sthen) auto
  have dseek: "keeps pos_ok (sthen (rs_data_seek api 0) (sget on_row))" by (intro keeps_sthen) auto
  show "pos_ok (snd (
       if k > 0 then
         (if k > cast_int (rs_num_rows s) then sthen (set_position (\<lambda>s. rs_num_rows s + 1)) (sget on_row) s
          else sthen (set_position (\<lambda>_. nat k)) (sthen (rs_seek api) (sret True)) s)
       else if k < 0 then
         (if k = INT_MIN then (Inl Undefined_behaviour, s)
          else if - k > cast_int (rs_num_rows s) then sthen (set_position (\<lambda>_. 0)) (sget on_row) s
          else sthen (set_position (\<lambda>s. rs_num_rows s - nat (- k) + 1)) (sthen (rs_seek api) (sret True)) s)
       else sthen (set_position (\<lambda>_. 0)) (sthen (rs_data_seek api 0) (sget on_row)) s))"
    using s unfolding c
    by (auto simp del: sthen_apply intro!: keeps_position_seek seek dseek keeps_sget)
qed

lemma keeps_relative: "keeps pos_ok (rs_relative api k)"
proof -
  have "pos_ok (snd (sif (\<lambda>s. moved k s > rs_num_rows s \<or> moved k s < 1)
      (set_position (\<lambda>s. if k > 0 then rs_num_rows s + 1 else 0))
      (sthen (set_position (moved k)) (rs_seek api)) s))" if "pos_ok s" for s
  proof (cases "moved k s > rs_num_rows s \<or> moved k s < 1")
    case True
    then show ?thesis using that by (simp add: set_position_def pos_ok_position)
  next
    case False
    then show ?thesis
      using keeps_position_seek [OF that, of "moved k" "rs_seek api"] by (simp del: sthen_apply)
  qed
  then have "keeps pos_ok (sif (\<lambda>s. moved k s > rs_num_rows s \<or> moved k s < 1)
      (set_position (\<lambda>s. if k > 0 then rs_num_rows s + 1 else 0))
      (sthen (set_position (moved k)) (rs_seek api)))"
    by (intro keepsI) blast
  then show ?thesis unfolding rs_relative_def by (intro keeps_sthen keeps_pos_basic keeps_sget) simp
qed

lemma keeps_move: "keeps pos_ok (run_move api m)"
  using keeps_next keeps_previous keeps_first_last keeps_absolute keeps_relative
  by (cases m) (auto simp: run_move_def intro!: keeps_sthen)

section \<open>Sequences of movements\<close>

text \<open>The states reached from a fresh result set by movements, whether they return or throw.\<close>

inductive reached :: "'n native \<Rightarrow> 'n \<Rightarrow> rs_kind \<Rightarrow> 'n result_set \<Rightarrow> bool" for api res kind where
  fresh: "reached api res kind (new_ResultSet api res kind)"
| moved_to: "reached api res kind s \<Longrightarrow> run_move api m s = (r, s') \<Longrightarrow> reached api res kind s'"

inductive_cases reachedE: "reached api res kind s"

lemma reached_pos_ok:
  assumes "reached api res kind s" "kind \<noteq> TYPE_FORWARD_ONLY" "int (nat_num_rows api res) \<le> INT_MAX"
  shows "pos_ok s"
  using assms(1)
proof (induction rule: reached.induct)
  case fresh
  then show ?case using assms(2,3) by (simp add: pos_ok_def new_ResultSet_def rs_isScrollable_def)
next
  case (moved_to s m r s')
  then show ?case using keepsE [OF keeps_move, of s api m] by simp
qed

end
