(* ===== verification/Row_Access.thy ===== *)
theory Row_Access
  imports Cursor_Moves
begin

text \<open>
  Reading cells of the current row by index and by label, and the loops of the program that read a
  whole result. A concrete buffered result (\<open>client\<close>) shows that the client library's contract can
  be met.
\<close>

section \<open>Labels\<close>

lemma name_index_other:
  "x \<notin> (\<lambda>f. utf8_strup (fm_name f)) ` set fs \<Longrightarrow> name_index fs i m x = m x"
  by (induction fs arbitrary: i m) auto

lemma name_index_nth:
  "distinct (map (\<lambda>f. utf8_strup (fm_name f)) fs) \<Longrightarrow> j < length fs \<Longrightarrow>
     name_index fs i m (utf8_strup (fm_name (fs ! j))) = Some (i + j)"
proof (induction fs arbitrary: i j m)
  case Nil
  then show ?case by simp
next
  case (Cons f fs)
  show ?case
  proof (cases j)
    case 0
    have "utf8_strup (fm_name f) \<notin> (\<lambda>f. utf8_strup (fm_name f)) ` set fs" using Cons.prems(1) by auto
    then show ?thesis by (simp add: 0 name_index_other)
  next
    case (Suc k)
    with Cons show ?thesis by simp
  qed
qed

text \<open>Without distinct names the last column of a name wins.\<close>

lemma name_index_last:
  "name_index (fs @ [f]) i m (utf8_strup (fm_name f)) = Some (i + length fs)"
  by (induction fs arbitrary: i m) auto

lemma findColumn_hit:
  assumes "rs_names s = name_index fs 0 Map.empty" "rs_checkValid s = (Inr (), s)"
    and "distinct (map (\<lambda>f. utf8_strup (fm_name f)) fs)"
    and "j < length fs" "utf8_strup label = utf8_strup (fm_name (fs ! j))"
  shows "rs_findColumn label s = (Inr (j + 1), s)"
  using assms by (simp add: rs_findColumn_def name_index_nth)

lemma findColumn_miss:
  assumes "rs_names s = name_index fs 0 Map.empty" "rs_checkValid s = (Inr (), s)"
    and "utf8_strup label \<notin> (\<lambda>f. utf8_strup (fm_name f)) ` set fs"
  shows "rs_findColumn label s = (Inr 0, s)"
  using assms by (simp add: rs_findColumn_def name_index_other)

section \<open>Cells of the current row\<close>

context stored_result
begin

definition on :: "srow list \<Rightarrow> field_meta list \<Rightarrow> nat \<Rightarrow> 'n result_set \<Rightarrow> bool" where
  "on rows fs k s \<longleftrightarrow> agrees api rows_of cur rows fs s \<and> rs_position s = k \<and> 1 \<le> k \<and> k \<le> length rows"

lemma on_guard:
  assumes "on rows fs k s" "1 \<le> col" "col \<le> length fs"
  shows "rs_guard name col s = (Inr (), s)"
  using assms agrees_valid [of rows fs s]
  by (auto simp: on_def rs_guard_def rs_isBeforeFirstOrAfterLast_def agrees_def)

lemma off_guard:
  assumes "agrees api rows_of cur rows fs s" "rs_position s = 0 \<or> rs_position s = length rows + 1"
  shows "rs_guard name col s = (Inl (msg_off name), s)"
  using assms agrees_valid [OF assms(1)]
  by (auto simp: rs_guard_def rs_isBeforeFirstOrAfterLast_def agrees_def)

lemma column_guard:
  assumes "on rows fs k s" "col = 0 \<or> length fs < col"
  shows "rs_guard name col s = (Inl (msg_column name), s)"
  using assms agrees_valid [of rows fs s]
  by (auto simp: on_def rs_guard_def rs_isBeforeFirstOrAfterLast_def agrees_def)

lemma on_row_data:
  assumes "on rows fs k s" "1 \<le> col" "col \<le> length fs" "length (rows ! (k - 1)) = length fs"
  shows "rs_row s = Some (rows ! (k - 1))" "rs_cell col s = (Inr (rows ! (k - 1) ! (col - 1)), s)"
    "rs_getFieldMeta api col s = (Inr (fs ! (col - 1)), s)"
  using assms by (auto simp: on_def agrees_def rs_cell_def rs_getFieldMeta_def)

lemma on_upd [simp]:
  "on rows fs k (s\<lparr>rs_last_col := c\<rparr>) = on rows fs k s" "on rows fs k (s\<lparr>rs_was_null := b\<rparr>) = on rows fs k s"
  by (simp_all add: on_def)

text \<open>The string of a cell: its bytes, or the empty string with the null flag set.\<close>

lemma getString_on:
  assumes "on rows fs k s" "1 \<le> col" "col \<le> length fs" "length (rows ! (k - 1)) = length fs"
    and "\<not> fm_bit (fs ! (col - 1))"
  defines "c \<equiv> rows ! (k - 1) ! (col - 1)"
  shows "rs_getString api col s =
    (Inr (case c of None \<Rightarrow> [] | Some b \<Rightarrow> b), s\<lparr>rs_last_col := col, rs_was_null := (c = None)\<rparr>)"
proof -
  let ?s = "s\<lparr>rs_last_col := col\<rparr>"
  have o: "on rows fs k ?s" using assms(1) by simp
  note d = on_row_data [OF o assms(2-4)]
  show ?thesis
    using on_guard [OF assms(1-3), of "''getString''"] d assms(5)
    by (auto simp: rs_getString_def set_null_def c_def split: option.splits)
qed

text \<open>Numbers: the conversion of the cell, or zero with the null flag set.\<close>

lemma number_on:
  assumes "on rows fs k s" "1 \<le> col" "col \<le> length fs" "length (rows ! (k - 1)) = length fs"
    and "rows ! (k - 1) ! (col - 1) = Some b" "cell_number (fs ! (col - 1)) b = Inr i"
  shows "rs_number api name conv col s = (Inr (conv i), s\<lparr>rs_last_col := col, rs_was_null := False\<rparr>)"
proof -
  let ?s = "s\<lparr>rs_last_col := col\<rparr>" and ?t = "s\<lparr>rs_last_col := col, rs_was_null := False\<rparr>"
  have o: "on rows fs k ?s" "on rows fs k ?t" using assms(1) by simp_all
  note d = on_row_data(2) [OF o(1) assms(2-4)] on_row_data(3) [OF o(2) assms(2-4)]
  show ?thesis
    using on_guard [OF assms(1-3), of name] d assms(5,6) by (simp add: rs_number_def set_null_def)
qed

lemma getInt_on:
  assumes "on rows fs k s" "1 \<le> col" "col \<le> length fs" "length (rows ! (k - 1)) = length fs"
    and "rows ! (k - 1) ! (col - 1) = Some b" "cell_number (fs ! (col - 1)) b = Inr i"
  shows "rs_getInt api col s =
    (Inr (if is_unsigned_field (fs ! (col - 1)) then to_int32 (to_uint32 (to_int64 i)) else to_int32 (to_int64 i)),
     s\<lparr>rs_last_col := col, rs_was_null := False\<rparr>)"
  using on_guard [OF assms(1-3), of "''getInt''"] on_row_data(3) [OF assms(1-4)] number_on [OF assms]
  by (simp add: rs_getInt_def rs_getInt64_def)

lemma findColumn_on:
  assumes "on rows fs k s" "distinct (map (\<lambda>f. utf8_strup (fm_name f)) fs)"
    and "j < length fs" "utf8_strup label = utf8_strup (fm_name (fs ! j))"
  shows "rs_findColumn label s = (Inr (j + 1), s)"
  using assms agrees_valid [of rows fs s] by (intro findColumn_hit) (auto simp: on_def agrees_def)

lemma getString_label_on:
  assumes "on rows fs k s" "distinct (map (\<lambda>f. utf8_strup (fm_name f)) fs)"
    and "j < length fs" "utf8_strup label = utf8_strup (fm_name (fs ! j))"
    and "length (rows ! (k - 1)) = length fs" "\<not> fm_bit (fs ! j)"
  shows "\<exists>s'. rs_getString_label api label s =
    (Inr (case rows ! (k - 1) ! j of None \<Rightarrow> [] | Some b \<Rightarrow> b), s') \<and> on rows fs k s'"
  using findColumn_on [OF assms(1-4)] getString_on [OF assms(1), of "j + 1"] assms
  by (simp add: rs_getString_label_def)

text \<open>
  The loop of \<^verbatim>\<open>getColumns\<close>: two strings per row, read by label, until \<^verbatim>\<open>next\<close> returns false.
\<close>

lemma drain_two_labels:
  assumes "distinct (map (\<lambda>f. utf8_strup (fm_name f)) fs)" "list_all (\<lambda>r. length r = length fs) rows"
    and "i < length fs" "utf8_strup l1 = utf8_strup (fm_name (fs ! i))" "\<not> fm_bit (fs ! i)"
    and "j < length fs" "utf8_strup l2 = utf8_strup (fm_name (fs ! j))" "\<not> fm_bit (fs ! j)"
    and "agrees api rows_of cur rows fs s" "rs_position s = 0" "length rows < fuel"
  shows "\<exists>s'. drain fuel (rs_next api)
      (sbind (rs_getString_label api l1) (\<lambda>a. sbind (rs_getString_label api l2) (\<lambda>b. sret (a, b)))) [] s =
    (Inr (map (\<lambda>r. (case r ! i of None \<Rightarrow> [] | Some b \<Rightarrow> b, case r ! j of None \<Rightarrow> [] | Some b \<Rightarrow> b)) rows), s')"
proof -
  let ?val = "\<lambda>k l. case rows ! k ! l of None \<Rightarrow> [] | Some b \<Rightarrow> b"
  let ?rd = "sbind (rs_getString_label api l1) (\<lambda>a. sbind (rs_getString_label api l2) (\<lambda>b. sret (a, b)))"
  have rd: "\<exists>s'. ?rd s = (Inr (?val (k - 1) i, ?val (k - 1) j), s') \<and> (agrees api rows_of cur rows fs s' \<and> rs_position s' = k)"
    if "agrees api rows_of cur rows fs s \<and> rs_position s = k" "1 \<le> k" "k \<le> length rows" for s k
  proof -
    have o: "on rows fs k s" and l: "length (rows ! (k - 1)) = length fs"
      using that assms(2) by (simp_all add: on_def list_all_length)
    obtain s1 where s1: "rs_getString_label api l1 s = (Inr (?val (k - 1) i), s1)" "on rows fs k s1"
      using getString_label_on [OF o assms(1,3,4) l assms(5)] by blast
    obtain s2 where "rs_getString_label api l2 s1 = (Inr (?val (k - 1) j), s2)" "on rows fs k s2"
      using getString_label_on [OF s1(2) assms(1,6,7) l assms(8)] by blast
    with s1 show ?thesis by (auto simp: on_def)
  qed
  have start: "agrees api rows_of cur rows fs s \<and> rs_position s = 0" using assms(9,10) by simp
  have "\<exists>s'. drain fuel (rs_next api) ?rd [] s = (Inr (map (\<lambda>k. (?val k i, ?val k j)) [0..<length rows]), s')"
    by (rule rows.drain_all [where g = "\<lambda>k. (?val k i, ?val k j)", OF rd start assms(11)])
  moreover have "map (\<lambda>k. (?val k i, ?val k j)) [0..<length rows] =
      map (\<lambda>r. (case r ! i of None \<Rightarrow> [] | Some b \<Rightarrow> b, case r ! j of None \<Rightarrow> [] | Some b \<Rightarrow> b)) rows"
    by (rule nth_equalityI) simp_all
  ultimately show ?thesis by simp
qed

end

section \<open>A buffered result\<close>

record client =
  cl_rows :: "srow list"
  cl_cur :: nat
  cl_fields :: "field_meta list"
  cl_proxy :: "nat option"

definition client_api :: "client native" where
  "client_api =
     \<lparr>nat_fetch_row = (\<lambda>c. if cl_cur c < length (cl_rows c)
          then (Some (cl_rows c ! cl_cur c), c\<lparr>cl_cur := cl_cur c + 1\<rparr>) else (None, c)),
      nat_data_seek = (\<lambda>k c. c\<lparr>cl_cur := k\<rparr>),
      nat_num_rows = (\<lambda>c. length (cl_rows c)), nat_fields = cl_fields, nat_proxy = cl_proxy\<rparr>"

interpretation client: stored_result client_api cl_rows cl_cur
  by unfold_locales (auto simp: client_api_def)

end
