(* ===== verification/Uri.thy ===== *)
theory Uri
  imports Sql_Base Str
begin

text \<open>
  \<^verbatim>\<open>mysqlconnector/jdbc/driver/mysql_uri.cpp\<close>: the connection address the program passes to the
  driver (\<^verbatim>\<open>MYSQL_LOCATION\<close> of \<^verbatim>\<open>config.h\<close>) and how it is taken apart.
\<close>

datatype protocol_type = PROTOCOL_TCP | PROTOCOL_SOCKET | PROTOCOL_PIPE | PROTOCOL_COUNT

record uri =
  u_protocol :: protocol_type
  u_port :: nat
  u_host :: string
  u_schema :: string

definition DEFAULT_TCP_PORT :: nat where "DEFAULT_TCP_PORT = 3306"

definition new_Uri :: uri where
  "new_Uri = \<lparr>u_protocol = PROTOCOL_TCP, u_port = DEFAULT_TCP_PORT, u_host = [], u_schema = []\<rparr>"

text \<open>Assignments go through \<^verbatim>\<open>c_str()\<close>: the text ends at the first null character.\<close>

definition c_str :: "string \<Rightarrow> string" where
  "c_str s = takeWhile (\<lambda>c. c \<noteq> CHR 0x00) s"

definition uri_Host :: "uri \<Rightarrow> string res" where
  "uri_Host u =
     (case u_protocol u of
        PROTOCOL_TCP \<Rightarrow> Inr (u_host u) | PROTOCOL_PIPE \<Rightarrow> Inr ''.'' | PROTOCOL_SOCKET \<Rightarrow> Inr ''localhost''
      | PROTOCOL_COUNT \<Rightarrow> Inl (Sql_invalid_argument ''NativeAPI::PROTOCOL_COUNT shouldn't be used.''))"

definition tcpProtocol :: "uri \<Rightarrow> bool" where
  "tcpProtocol u \<longleftrightarrow> u_protocol u = PROTOCOL_TCP"

definition uri_SocketOrPipe :: "uri \<Rightarrow> string" where
  "uri_SocketOrPipe u = (if tcpProtocol u then [] else u_host u)"

definition setHost :: "string \<Rightarrow> uri \<Rightarrow> uri" where
  "setHost h u = u\<lparr>u_protocol := PROTOCOL_TCP, u_host := c_str h\<rparr>"

definition setSocket :: "string \<Rightarrow> uri \<Rightarrow> uri" where
  "setSocket h u = u\<lparr>u_protocol := PROTOCOL_SOCKET, u_host := c_str h\<rparr>"

definition setPipe :: "string \<Rightarrow> uri \<Rightarrow> uri" where
  "setPipe h u = u\<lparr>u_protocol := PROTOCOL_PIPE, u_host := c_str h\<rparr>"

definition setPort :: "nat \<Rightarrow> uri \<Rightarrow> uri" where
  "setPort p u = u\<lparr>u_protocol := PROTOCOL_TCP, u_port := p\<rparr>"

definition setSchema_uri :: "string \<Rightarrow> uri \<Rightarrow> uri" where
  "setSchema_uri s u = u\<lparr>u_schema := c_str s\<rparr>"

section \<open>\<^verbatim>\<open>parseUri\<close>\<close>

definition find_last :: "char \<Rightarrow> string \<Rightarrow> nat option" where
  "find_last c s = map_option (\<lambda>k. length s - 1 - k) (std_find [c] (rev s))"

text \<open>The schema after the first slash; a lone slash at the end leaves the schema as it is.\<close>

definition cut_schema :: "string \<Rightarrow> uri \<Rightarrow> string \<times> uri" where
  "cut_schema host u =
     (case std_find ''/'' host of
        Some i \<Rightarrow> (take i host, if length host - i > 1 then setSchema_uri (drop (i + 1) host) u else u)
      | None \<Rightarrow> (host, setSchema_uri [] u))"

text \<open>The port after the last colon, converted to an unsigned 32-bit number.\<close>

definition cut_port :: "string \<Rightarrow> uri \<Rightarrow> (string \<times> uri) res" where
  "cut_port host u =
     (case find_last (CHR '':'') host of
        Some i \<Rightarrow> rbind (atoi (drop (i + 1) host)) (\<lambda>p. Inr (take i host, setPort (nat (p mod 2 ^ 32)) u))
      | None \<Rightarrow> Inr (host, setPort DEFAULT_TCP_PORT u))"

definition parse_host :: "string \<Rightarrow> uri \<Rightarrow> bool res \<times> uri" where
  "parse_host host u =
     (let (host1, u1) = cut_schema host u in
      case cut_port host1 u1 of
        Inl e \<Rightarrow> (Inl e, u1)
      | Inr (host2, u2) \<Rightarrow> (Inr True, if length host2 > 0 then setHost host2 u2 else u2))"

definition parseUri :: "string \<Rightarrow> uri \<Rightarrow> bool res \<times> uri" where
  "parseUri str u =
     (if take 7 str = ''unix://'' then (Inr True, setSocket (drop 7 str) u)
      else if take 7 str = ''pipe://'' then (Inr True, setPipe (drop 7 str) u)
      else
        let host = (if take 6 str = ''tcp://'' then drop 6 str else c_str str) in
        if host \<noteq> [] \<and> host ! 0 = CHR ''['' then
          (case std_find '']'' host of
             None \<Rightarrow> (Inr False, u)
           | Some end_sep \<Rightarrow> parse_host (drop (end_sep + 1) host) (setHost (take (end_sep - 1) (drop 1 host)) u))
        else parse_host host u)"

section \<open>Addresses are taken apart as they are put together\<close>

definition plain :: "string \<Rightarrow> bool" where
  "plain s \<longleftrightarrow> list_all (\<lambda>c. c \<noteq> CHR 0x00 \<and> c \<noteq> CHR ''/'' \<and> c \<noteq> CHR '':'' \<and> c \<noteq> CHR ''['' \<and> c \<noteq> CHR '']'') s"

lemma plain_chars: "plain s \<Longrightarrow> CHR ''/'' \<notin> set s \<and> CHR '':'' \<notin> set s \<and> CHR '']'' \<notin> set s \<and> c_str s = s"
  by (auto simp: plain_def list_all_iff c_str_def takeWhile_eq_all_conv)

lemma find_last_split:
  assumes "c \<notin> set v"
  shows "find_last c (u @ c # v) = Some (length u)"
proof -
  have "std_find [c] (rev v @ c # rev u) = Some (length (rev v))"
    using assms by (intro std_find_char_split) simp
  then show ?thesis by (simp add: find_last_def)
qed

lemma find_last_none: "c \<notin> set s \<Longrightarrow> find_last c s = None"
  by (simp add: find_last_def std_find_char)

lemma cut_schema_some:
  assumes "plain host" "CHR ''/'' \<notin> set port" "schema \<noteq> []"
  shows "cut_schema ((host @ port) @ ''/'' @ schema) u = (host @ port, setSchema_uri schema u)"
proof -
  have "std_find ''/'' ((host @ port) @ CHR ''/'' # schema) = Some (length (host @ port))"
    using assms plain_chars [OF assms(1)] by (intro std_find_char_split) simp
  then show ?thesis using assms(3) by (simp add: cut_schema_def)
qed

lemma cut_schema_none:
  assumes "CHR ''/'' \<notin> set host"
  shows "cut_schema host u = (host, setSchema_uri [] u)"
  using assms by (simp add: cut_schema_def std_find_char)

lemma digits_no_sep:
  assumes "INT_MIN < i" "itoa i = Inr s"
  shows "CHR ''/'' \<notin> set s" "CHR '':'' \<notin> set s"
proof -
  obtain d where "list_all is_digit d" "s = d \<or> s = CHR ''-'' # d" using itoa_shape [OF assms] by blast
  moreover have "\<not> is_digit (CHR ''/'')" "\<not> is_digit (CHR '':'')" by (simp_all add: is_digit_def)
  ultimately show "CHR ''/'' \<notin> set s" "CHR '':'' \<notin> set s" by (auto simp: list_all_iff)
qed

lemma parse_host_port:
  assumes "plain host" "host \<noteq> []" "0 \<le> p" "p \<le> INT_MAX" "itoa p = Inr port" "plain schema" "schema \<noteq> []"
  shows "parse_host (host @ '':'' @ port @ ''/'' @ schema) u =
    (Inr True, u\<lparr>u_protocol := PROTOCOL_TCP, u_port := nat p, u_host := host, u_schema := schema\<rparr>)"
proof -
  have d: "CHR ''/'' \<notin> set ('':'' @ port)" "CHR '':'' \<notin> set port" "atoi port = Inr p" "nat (p mod 2 ^ 32) = nat p"
    using digits_no_sep [of p port] itoa_atoi [of p port] assms(3-5) by auto
  have cs: "cut_schema (host @ '':'' @ port @ ''/'' @ schema) u = (host @ '':'' @ port, setSchema_uri schema u)"
    using cut_schema_some [OF assms(1) d(1) assms(7), of u] by simp
  have cp: "cut_port (host @ CHR '':'' # port) v = Inr (host, setPort (nat p) v)" for v
    using find_last_split [OF d(2), of host] d(3,4) by (simp add: cut_port_def)
  show ?thesis
    unfolding parse_host_def cs using assms(2) plain_chars [OF assms(1)] plain_chars [OF assms(6)]
    by (simp add: cp setHost_def setPort_def setSchema_uri_def)
qed

lemma parse_host_plain:
  assumes "plain host" "host \<noteq> []" "0 \<le> p" "p \<le> INT_MAX" "itoa p = Inr port"
  shows "parse_host (host @ '':'' @ port) u =
    (Inr True, u\<lparr>u_protocol := PROTOCOL_TCP, u_port := nat p, u_host := host, u_schema := []\<rparr>)"
proof -
  have d: "CHR ''/'' \<notin> set port" "CHR '':'' \<notin> set port" "atoi port = Inr p" "nat (p mod 2 ^ 32) = nat p"
    using digits_no_sep [of p port] itoa_atoi [of p port] assms(3-5) by auto
  have cs: "cut_schema (host @ '':'' @ port) u = (host @ '':'' @ port, setSchema_uri [] u)"
    using d(1) plain_chars [OF assms(1)] by (intro cut_schema_none) simp
  have cp: "cut_port (host @ CHR '':'' # port) v = Inr (host, setPort (nat p) v)" for v
    using find_last_split [OF d(2), of host] d(3,4) by (simp add: cut_port_def)
  show ?thesis
    unfolding parse_host_def cs using assms(2) plain_chars [OF assms(1)]
    by (simp add: cp setHost_def setPort_def setSchema_uri_def c_str_def)
qed

lemma parseUri_tcp:
  assumes "host \<noteq> []" "host ! 0 \<noteq> CHR ''[''"
  shows "parseUri (''tcp://'' @ host) u = parse_host host u"
  using assms by (simp add: parseUri_def)

end
