(* ===== verification/Param_Bind.thy ===== *)
theory Param_Bind
  imports Column_Types
begin

text \<open>
  The class \<^verbatim>\<open>MySQL_ParamBind\<close> of \<^verbatim>\<open>mysqlconnector/jdbc/driver/mysql_prepared_statement.cpp\<close>: the values
  bound to the placeholders of a prepared statement. Long strings are kept as heap objects that the
  binder may own; the heap is part of the state, so that deleting an object twice is an error and an
  object nobody owns is a leak. Streams belong to the caller: their contents are not touched here.

  The four or eight bytes copied for an integer are a machine word; whether the server reads them as
  signed is the member \<^verbatim>\<open>is_unsigned\<close>. Doubles are a type parameter.
\<close>

section \<open>Data\<close>

datatype 'd buffer = Buf_long "32 word" | Buf_longlong "64 word" | Buf_double 'd | Buf_string string

record 'd bind =
  b_type :: field_type
  b_buffer :: "'d buffer option"
  b_buffer_length :: nat
  b_length :: "nat option"
  b_is_null :: bool
  b_is_unsigned :: bool

text \<open>\<^verbatim>\<open>Blob_t\<close>: a stream pointer or a string pointer; \<open>None\<close> is null. \<^verbatim>\<open>Blob_t()\<close> is a null stream.\<close>

datatype blob = Blob_stream "nat option" | Blob_string "nat option"

record 'd param_bind =
  pb_count :: nat
  pb_bind :: "'d bind list"
  pb_set :: "bool list"
  pb_delete :: "bool list"
  pb_blobs :: "nat \<rightharpoonup> blob"
  pb_heap :: "nat \<rightharpoonup> string"
  pb_fresh :: nat

definition zero_bind :: "'d bind" where
  "zero_bind = \<lparr>b_type = MYSQL_TYPE_DECIMAL, b_buffer = None, b_buffer_length = 0, b_length = None,
     b_is_null = True, b_is_unsigned = False\<rparr>"

definition new_ParamBind :: "nat \<Rightarrow> 'd param_bind" where
  "new_ParamBind n =
     \<lparr>pb_count = n, pb_bind = replicate n zero_bind, pb_set = replicate n False,
      pb_delete = replicate n False, pb_blobs = Map.empty, pb_heap = Map.empty, pb_fresh = 0\<rparr>"

section \<open>Operations\<close>

text \<open>Array accesses out of range are undefined.\<close>

definition pb_in :: "nat \<Rightarrow> ('d param_bind, unit) sop" where
  "pb_in i = scheck (\<lambda>s. i < pb_count s) Undefined_behaviour"

definition pb_mark :: "nat \<Rightarrow> ('d param_bind, unit) sop" where
  "pb_mark i = sthen (pb_in i) (smod (\<lambda>s. s\<lparr>pb_set := (pb_set s)[i := True]\<rparr>))"

text \<open>\<^verbatim>\<open>BlobBindDeleter\<close>: a null pointer is left alone, deleting a dead object is undefined.\<close>

definition blob_delete :: "blob \<Rightarrow> ('d param_bind, unit) sop" where
  "blob_delete b =
     (case b of
        Blob_string (Some a) \<Rightarrow>
          sthen (scheck (\<lambda>s. a \<in> dom (pb_heap s)) Undefined_behaviour)
            (smod (\<lambda>s. s\<lparr>pb_heap := (pb_heap s)(a := None)\<rparr>))
      | _ \<Rightarrow> sret ())"

definition blob_is_null :: "blob \<Rightarrow> bool" where
  "blob_is_null b = (case b of Blob_stream p \<Rightarrow> p = None | Blob_string p \<Rightarrow> p = None)"

definition blob_nulled :: "blob \<Rightarrow> blob" where
  "blob_nulled b = (case b of Blob_stream _ \<Rightarrow> Blob_stream None | Blob_string _ \<Rightarrow> Blob_string None)"

definition pb_unset :: "nat \<Rightarrow> ('d param_bind, unit) sop" where
  "pb_unset i =
     sthen (pb_in i) (sthen (smod (\<lambda>s. s\<lparr>pb_set := (pb_set s)[i := False]\<rparr>))
       (sif (\<lambda>s. pb_delete s ! i)
          (sthen (smod (\<lambda>s. s\<lparr>pb_delete := (pb_delete s)[i := False]\<rparr>))
            (sbind (sget (\<lambda>s. case pb_blobs s i of None \<Rightarrow> Blob_stream None | Some b \<Rightarrow> b)) (\<lambda>b.
               sthen (blob_delete b) (smod (\<lambda>s. s\<lparr>pb_blobs := (pb_blobs s)(i := None)\<rparr>)))))
          (sret ())))"

definition resetBlobBind :: "'d bind \<Rightarrow> 'd bind" where
  "resetBlobBind p = p\<lparr>b_type := MYSQL_TYPE_LONG_BLOB, b_buffer := None, b_buffer_length := 0,
     b_is_null := False, b_length := Some 0\<rparr>"

definition pb_setBlob :: "nat \<Rightarrow> blob \<Rightarrow> bool \<Rightarrow> ('d param_bind, unit) sop" where
  "pb_setBlob i blob del =
     sthen (pb_mark i)
       (sthen (smod (\<lambda>s. s\<lparr>pb_bind := (pb_bind s)[i := resetBlobBind (pb_bind s ! i)]\<rparr>))
         (sthen (\<lambda>s. case pb_blobs s i of
                   Some b \<Rightarrow> if pb_delete s ! i
                     then sthen (blob_delete b) (smod (\<lambda>s. s\<lparr>pb_blobs := (pb_blobs s)(i \<mapsto> blob_nulled b)\<rparr>)) s
                     else (Inr (), s)
                 | None \<Rightarrow> (Inr (), s))
           (if blob_is_null blob
            then smod (\<lambda>s. s\<lparr>pb_blobs := (pb_blobs s)(i := None), pb_delete := (pb_delete s)[i := False]\<rparr>)
            else smod (\<lambda>s. s\<lparr>pb_blobs := (pb_blobs s)(i \<mapsto> blob), pb_delete := (pb_delete s)[i := del]\<rparr>))))"

definition pb_isAllSet :: "'d param_bind \<Rightarrow> bool" where
  "pb_isAllSet s \<longleftrightarrow> list_all (\<lambda>i. pb_set s ! i) [0..<pb_count s]"

text \<open>One iteration of \<^verbatim>\<open>clearParameters\<close>, and the loop.\<close>

definition pb_clear_one :: "nat \<Rightarrow> ('d param_bind, unit) sop" where
  "pb_clear_one i =
     sthen (smod (\<lambda>s. s\<lparr>pb_bind := (pb_bind s)[i := (pb_bind s ! i)\<lparr>b_length := None, b_buffer := None\<rparr>]\<rparr>))
       (sif (\<lambda>s. pb_set s ! i)
          (sthen (\<lambda>s. case pb_blobs s i of
                    Some b \<Rightarrow> if pb_delete s ! i
                      then sthen (blob_delete b) (smod (\<lambda>s. s\<lparr>pb_blobs := (pb_blobs s)(i := None)\<rparr>)) s
                      else (Inr (), s)
                  | None \<Rightarrow> (Inr (), s))
            (smod (\<lambda>s. s\<lparr>pb_blobs := (pb_blobs s)(i \<mapsto> Blob_stream None), pb_set := (pb_set s)[i := False]\<rparr>)))
          (sret ()))"

fun pb_clear_from :: "nat \<Rightarrow> nat \<Rightarrow> ('d param_bind, unit) sop" where
  "pb_clear_from i 0 = sret ()"
| "pb_clear_from i (Suc k) = sthen (pb_clear_one i) (pb_clear_from (i + 1) k)"

definition pb_clearParameters :: "('d param_bind, unit) sop" where
  "pb_clearParameters = (\<lambda>s. pb_clear_from 0 (pb_count s) s)"

text \<open>The destructor's loop over the remaining blobs.\<close>

definition pb_drop_one :: "nat \<Rightarrow> ('d param_bind, unit) sop" where
  "pb_drop_one i = (\<lambda>s.
     case pb_blobs s i of
       None \<Rightarrow> (Inr (), s)
     | Some b \<Rightarrow>
         if i < length (pb_delete s) \<and> pb_delete s ! i
         then sthen (smod (\<lambda>s. s\<lparr>pb_delete := (pb_delete s)[i := False]\<rparr>))
                (sthen (blob_delete b) (smod (\<lambda>s. s\<lparr>pb_blobs := (pb_blobs s)(i \<mapsto> blob_nulled b)\<rparr>))) s
         else (Inr (), s))"

fun pb_drop_from :: "nat \<Rightarrow> nat \<Rightarrow> ('d param_bind, unit) sop" where
  "pb_drop_from i 0 = sret ()"
| "pb_drop_from i (Suc k) = sthen (pb_drop_one i) (pb_drop_from (i + 1) k)"

definition delete_ParamBind :: "('d param_bind, unit) sop" where
  "delete_ParamBind = sthen pb_clearParameters (\<lambda>s. pb_drop_from 0 (pb_count s) s)"

definition pb_getBlobObject :: "nat \<Rightarrow> 'd param_bind \<Rightarrow> blob" where
  "pb_getBlobObject i s = (case pb_blobs s i of None \<Rightarrow> Blob_stream None | Some b \<Rightarrow> b)"

text \<open>\<^verbatim>\<open>new sql::SQLString(value)\<close>.\<close>

definition pb_new_string :: "string \<Rightarrow> ('d param_bind, nat) sop" where
  "pb_new_string v = (\<lambda>s. (Inr (pb_fresh s), s\<lparr>pb_heap := (pb_heap s)(pb_fresh s \<mapsto> v), pb_fresh := pb_fresh s + 1\<rparr>))"

section \<open>Ownership\<close>

text \<open>
  Parameter \<open>i\<close> owns object \<open>a\<close>: its blob is a pointer to it and it is marked for deletion. The
  invariant: arrays of the right length, owned objects alive, no object owned twice, no live object
  without an owner, and fresh addresses unused.
\<close>

definition owns :: "'d param_bind \<Rightarrow> nat \<Rightarrow> nat \<Rightarrow> bool" where
  "owns s i a \<longleftrightarrow> i < pb_count s \<and> pb_delete s ! i \<and> pb_blobs s i = Some (Blob_string (Some a))"

definition pb_wf :: "'d param_bind \<Rightarrow> bool" where
  "pb_wf s \<longleftrightarrow> length (pb_bind s) = pb_count s \<and> length (pb_set s) = pb_count s \<and> length (pb_delete s) = pb_count s
     \<and> (\<forall>i a. owns s i a \<longrightarrow> a \<in> dom (pb_heap s))
     \<and> (\<forall>i j a. owns s i a \<longrightarrow> owns s j a \<longrightarrow> i = j)
     \<and> (\<forall>a \<in> dom (pb_heap s). \<exists>i. owns s i a)
     \<and> (\<forall>a \<in> dom (pb_heap s). a < pb_fresh s)
     \<and> (\<forall>i. pb_count s \<le> i \<longrightarrow> pb_blobs s i = None)
     \<and> (\<forall>i a. pb_blobs s i = Some (Blob_string (Some a)) \<longrightarrow> pb_delete s ! i)
     \<and> (\<forall>i a. owns s i a \<longrightarrow> pb_set s ! i)"

lemma pb_wfI:
  assumes "length (pb_bind s) = pb_count s" "length (pb_set s) = pb_count s" "length (pb_delete s) = pb_count s"
    and "\<And>j a. owns s j a \<Longrightarrow> a \<in> dom (pb_heap s)"
    and "\<And>j k a. owns s j a \<Longrightarrow> owns s k a \<Longrightarrow> j = k"
    and "\<And>a. a \<in> dom (pb_heap s) \<Longrightarrow> \<exists>j. owns s j a"
    and "\<And>a. a \<in> dom (pb_heap s) \<Longrightarrow> a < pb_fresh s"
    and "\<And>j. pb_count s \<le> j \<Longrightarrow> pb_blobs s j = None"
    and "\<And>j a. pb_blobs s j = Some (Blob_string (Some a)) \<Longrightarrow> pb_delete s ! j"
    and "\<And>j a. owns s j a \<Longrightarrow> pb_set s ! j"
  shows "pb_wf s"
  unfolding pb_wf_def by (intro conjI allI impI ballI) (fact assms)+

lemma pb_wfD:
  assumes "pb_wf s"
  shows "\<And>j a. owns s j a \<Longrightarrow> a \<in> dom (pb_heap s)" "\<And>j k a. owns s j a \<Longrightarrow> owns s k a \<Longrightarrow> j = k"
    "\<And>a. a \<in> dom (pb_heap s) \<Longrightarrow> \<exists>j. owns s j a" "\<And>a. a \<in> dom (pb_heap s) \<Longrightarrow> a < pb_fresh s"
    "\<And>j a. owns s j a \<Longrightarrow> pb_set s ! j" "\<And>j. pb_count s \<le> j \<Longrightarrow> pb_blobs s j = None"
    "\<And>j a. pb_blobs s j = Some (Blob_string (Some a)) \<Longrightarrow> pb_delete s ! j"
  using assms unfolding pb_wf_def by blast+

lemma new_ParamBind_wf: "pb_wf (new_ParamBind n)"
  by (simp add: pb_wf_def new_ParamBind_def owns_def)

text \<open>The heap after parameter \<open>i\<close> has given up its object.\<close>

definition freed :: "'d param_bind \<Rightarrow> nat \<Rightarrow> (nat \<rightharpoonup> string)" where
  "freed s i = (case pb_blobs s i of
     Some (Blob_string (Some a)) \<Rightarrow> (pb_heap s)(a := None) | _ \<Rightarrow> pb_heap s)"

lemma wf_string_owned:
  "pb_wf s \<Longrightarrow> pb_blobs s i = Some (Blob_string (Some a)) \<Longrightarrow> owns s i a"
  unfolding pb_wf_def owns_def by (metis not_le option.distinct(1))

lemma wf_alive: "pb_wf s \<Longrightarrow> pb_blobs s i = Some (Blob_string (Some a)) \<Longrightarrow> a \<in> dom (pb_heap s)"
  using wf_string_owned unfolding pb_wf_def by blast

lemma blob_delete_wf:
  assumes "pb_wf s" "pb_blobs s i = Some b"
  shows "blob_delete b s = (Inr (), s\<lparr>pb_heap := freed s i\<rparr>)"
  using assms wf_alive [OF assms(1), of i]
  by (auto simp: blob_delete_def freed_def split: blob.splits option.splits)

lemma blob_delete_cong:
  "blob_delete b (s\<lparr>pb_set := x, pb_bind := y\<rparr>) =
     (fst (blob_delete b s), (snd (blob_delete b s))\<lparr>pb_set := x, pb_bind := y\<rparr>)"
  by (auto simp: blob_delete_def split: blob.splits option.splits)

text \<open>
  Giving up the object of parameter \<open>i\<close> and replacing its blob by a null or a stream pointer keeps
  the invariant, whatever the marks become.
\<close>

definition not_string :: "blob option \<Rightarrow> bool" where
  "not_string b \<longleftrightarrow> (\<forall>a. b \<noteq> Some (Blob_string (Some a)))"

lemma release_owns:
  assumes "i < pb_count s" "not_string b"
  shows "owns (s\<lparr>pb_heap := freed s i, pb_blobs := (pb_blobs s)(i := b), pb_delete := (pb_delete s)[i := d],
      pb_set := (pb_set s)[i := x]\<rparr>) j a \<longleftrightarrow> owns s j a \<and> j \<noteq> i"
  using assms by (auto simp: owns_def not_string_def)

lemma freed_dom:
  assumes "pb_wf s"
  shows "dom (freed s i) = dom (pb_heap s) - {a. owns s i a}"
proof -
  have "dom (freed s i) = dom (pb_heap s) - {a. pb_blobs s i = Some (Blob_string (Some a))}"
    by (auto simp: freed_def split: option.splits blob.splits if_splits)
  moreover have "pb_blobs s i = Some (Blob_string (Some a)) \<longleftrightarrow> owns s i a" for a
    using wf_string_owned [OF assms] by (auto simp: owns_def)
  ultimately show ?thesis by auto
qed

text \<open>
  The invariant of a state that differs from a well-formed one in the parameter \<open>i\<close> only, stated on
  the owners.
\<close>

lemma pb_wf_release:
  assumes "pb_wf s" "i < pb_count s"
    and "pb_count t = pb_count s" "length (pb_bind t) = pb_count s" "length (pb_set t) = pb_count s"
    "length (pb_delete t) = pb_count s" "pb_fresh t = pb_fresh s"
    and own: "\<And>j a. owns t j a \<longleftrightarrow> owns s j a \<and> j \<noteq> i"
    and heap: "pb_heap t = freed s i"
    and blobs: "\<And>j. j \<noteq> i \<Longrightarrow> pb_blobs t j = pb_blobs s j" "not_string (pb_blobs t i)"
    and marks: "\<And>j. j \<noteq> i \<Longrightarrow> pb_set t ! j = pb_set s ! j \<and> pb_delete t ! j = pb_delete s ! j"
  shows "pb_wf t"
proof -
  note old = pb_wfD [OF assms(1)]
  have dom: "a \<in> dom (pb_heap t) \<longleftrightarrow> a \<in> dom (pb_heap s) \<and> \<not> owns s i a" for a
    using freed_dom [OF assms(1), of i] heap by auto
  have 1: "a \<in> dom (pb_heap t)" if "owns t j a" for j a
    using that old(1) [where j = j and a = a] old(2) [where j = j and a = a and k = i] by (auto simp: own dom)
  have 2: "j = k" if "owns t j a" "owns t k a" for j k a
    using that old(2) [where j = j and a = a and k = k] by (simp add: own)
  have 3: "\<exists>j. owns t j a" if "a \<in> dom (pb_heap t)" for a
    using that old(3) [of a] by (auto simp: own dom)
  have 4: "a < pb_fresh t" if "a \<in> dom (pb_heap t)" for a
    using that old(4) dom assms(7) by simp
  have 5: "pb_blobs t j = None" if "pb_count t \<le> j" for j
    using that old(6) [of j] blobs(1) [of j] assms(2,3) by (cases "j = i") auto
  have 6: "pb_delete t ! j" if "pb_blobs t j = Some (Blob_string (Some a))" for j a
    using that old(7) [of j a] blobs(1) [of j] blobs(2) marks [of j] by (cases "j = i") (auto simp: not_string_def)
  have 7: "pb_set t ! j" if "owns t j a" for j a
    using that own marks old(5) by blast
  have "length (pb_bind t) = pb_count t" "length (pb_set t) = pb_count t" "length (pb_delete t) = pb_count t"
    using assms(3-6) by simp_all
  then show ?thesis
    by (rule pb_wfI) (fact 1 2 3 4 5 6 7)+
qed

lemma release_wf:
  assumes "pb_wf s" "i < pb_count s" "not_string b"
  shows "pb_wf (s\<lparr>pb_heap := freed s i, pb_blobs := (pb_blobs s)(i := b), pb_delete := (pb_delete s)[i := d],
      pb_set := (pb_set s)[i := x]\<rparr>)"
  by (rule pb_wf_release [OF assms(1,2)])
    (use assms in \<open>simp_all add: release_owns [OF assms(2,3)] pb_wf_def not_string_def\<close>)

section \<open>The operations keep ownership\<close>

text \<open>
  What \<^verbatim>\<open>setBlob\<close> does to a state whose current blob of that parameter can be deleted: the old object
  goes, the new blob comes.
\<close>

definition replaced :: "nat \<Rightarrow> blob \<Rightarrow> bool \<Rightarrow> 'd param_bind \<Rightarrow> 'd param_bind" where
  "replaced i blob del s = s\<lparr>
     pb_bind := (pb_bind s)[i := resetBlobBind (pb_bind s ! i)],
     pb_heap := freed s i,
     pb_blobs := (pb_blobs s)(i := if blob_is_null blob then None else Some blob),
     pb_delete := (pb_delete s)[i := \<not> blob_is_null blob \<and> del],
     pb_set := (pb_set s)[i := True]\<rparr>"

definition deletable :: "nat \<Rightarrow> 'd param_bind \<Rightarrow> bool" where
  "deletable i s \<longleftrightarrow>
     (\<forall>a. pb_blobs s i = Some (Blob_string (Some a)) \<longrightarrow> pb_delete s ! i \<and> a \<in> dom (pb_heap s))"

lemma wf_deletable: "pb_wf s \<Longrightarrow> deletable i s"
  using wf_alive [of s i] unfolding deletable_def pb_wf_def by blast

lemma setBlob_eq:
  assumes "i < pb_count s" "deletable i s"
  shows "pb_setBlob i blob del s = (Inr (), replaced i blob del s)"
  using assms
  by (cases s) (auto simp: pb_setBlob_def pb_mark_def pb_in_def replaced_def freed_def deletable_def blob_delete_def
      split: option.splits blob.splits)

lemma wf_lengths:
  "pb_wf s \<Longrightarrow> length (pb_bind s) = pb_count s"
  "pb_wf s \<Longrightarrow> length (pb_set s) = pb_count s"
  "pb_wf s \<Longrightarrow> length (pb_delete s) = pb_count s"
  by (simp_all add: pb_wf_def)

lemma replaced_wf:
  assumes "pb_wf s" "i < pb_count s" "not_string (Some blob)"
  shows "pb_wf (replaced i blob del s)"
  by (rule pb_wf_release [OF assms(1,2)])
    (use assms wf_lengths [OF assms(1)] in \<open>auto simp: replaced_def not_string_def owns_def split: if_splits\<close>)

text \<open>\<^verbatim>\<open>setBlob\<close> with a null or a stream pointer, as all setters but one call it.\<close>

lemma setBlob_wf:
  assumes "pb_wf s" "i < pb_count s" "not_string (Some blob)"
  shows "pb_setBlob i blob del s = (Inr (), replaced i blob del s)" "pb_wf (replaced i blob del s)"
  using setBlob_eq [OF assms(2) wf_deletable [OF assms(1)]] replaced_wf [OF assms] by auto

text \<open>A fresh string bound with \<^verbatim>\<open>delete_after_execute\<close>: the parameter owns it.\<close>

definition pb_own_string :: "nat \<Rightarrow> string \<Rightarrow> ('d param_bind, unit) sop" where
  "pb_own_string i v = sbind (pb_new_string v) (\<lambda>a. pb_setBlob i (Blob_string (Some a)) True)"

definition acquired :: "nat \<Rightarrow> string \<Rightarrow> 'd param_bind \<Rightarrow> 'd param_bind" where
  "acquired i v s = s\<lparr>
     pb_bind := (pb_bind s)[i := resetBlobBind (pb_bind s ! i)],
     pb_heap := (freed s i)(pb_fresh s \<mapsto> v), pb_fresh := pb_fresh s + 1,
     pb_blobs := (pb_blobs s)(i \<mapsto> Blob_string (Some (pb_fresh s))),
     pb_delete := (pb_delete s)[i := True],
     pb_set := (pb_set s)[i := True]\<rparr>"

lemma wf_fresh: "pb_wf s \<Longrightarrow> pb_blobs s i = Some (Blob_string (Some a)) \<Longrightarrow> a < pb_fresh s"
  using wf_alive [of s i a] pb_wfD(4) [of s a] by blast

lemma own_string_eq:
  assumes "pb_wf s" "i < pb_count s"
  shows "pb_own_string i v s = (Inr (), acquired i v s)"
proof -
  let ?t = "s\<lparr>pb_heap := (pb_heap s)(pb_fresh s \<mapsto> v), pb_fresh := pb_fresh s + 1\<rparr>"
  have "deletable i ?t"
    using wf_deletable [OF assms(1), of i] by (auto simp: deletable_def)
  then have "pb_own_string i v s = (Inr (), replaced i (Blob_string (Some (pb_fresh s))) True ?t)"
    using setBlob_eq [of i ?t] assms(2) by (simp add: pb_own_string_def pb_new_string_def)
  moreover have "freed ?t i = (freed s i)(pb_fresh s \<mapsto> v)"
    using wf_fresh [OF assms(1), of i] by (auto simp: freed_def fun_eq_iff split: option.splits blob.splits)
  ultimately show ?thesis
    by (simp add: replaced_def acquired_def blob_is_null_def)
qed

lemma acquired_owns:
  assumes "pb_wf s" "i < pb_count s"
  shows "owns (acquired i v s) j a \<longleftrightarrow> (if j = i then a = pb_fresh s else owns s j a)"
  using assms wf_lengths [OF assms(1)] by (auto simp: owns_def acquired_def)

lemma acquired_wf:
  assumes "pb_wf s" "i < pb_count s"
  shows "pb_wf (acquired i v s)" (is "pb_wf ?t")
proof -
  note old = pb_wfD [OF assms(1)]
  note own = acquired_owns [OF assms, of v]
  have dom: "a \<in> dom (pb_heap ?t) \<longleftrightarrow> a = pb_fresh s \<or> a \<in> dom (pb_heap s) \<and> \<not> owns s i a" for a
    using freed_dom [OF assms(1), of i] by (auto simp: acquired_def)
  have fresh: "\<not> owns s j (pb_fresh s)" for j
    using old(4) [OF old(1), of j "pb_fresh s"] by (metis less_irrefl)
  have 1: "a \<in> dom (pb_heap ?t)" if "owns ?t j a" for j a
  proof (cases "j = i")
    case False
    then have "owns s j a" using that own by simp
    with False old(1,2) show ?thesis unfolding dom by blast
  qed (use that own dom in simp)
  have 2: "j = k" if "owns ?t j a" "owns ?t k a" for j k a
    using that old(2) fresh unfolding own by (metis (full_types))
  have 3: "\<exists>j. owns ?t j a" if "a \<in> dom (pb_heap ?t)" for a
    using that old(3) [of a] unfolding own dom by metis
  have 4: "a < pb_fresh ?t" if "a \<in> dom (pb_heap ?t)" for a
  proof -
    have "a = pb_fresh s \<or> a < pb_fresh s" using that old(4) dom by blast
    then show ?thesis by (auto simp: acquired_def)
  qed
  have 5: "pb_blobs ?t j = None" if "pb_count ?t \<le> j" for j
    using that old(6) [of j] assms(2) by (auto simp: acquired_def)
  have 6: "pb_delete ?t ! j" if "pb_blobs ?t j = Some (Blob_string (Some a))" for j a
    using that old(7) [of j a] assms(2) wf_lengths [OF assms(1)]
    by (cases "j = i") (auto simp: acquired_def)
  have 7: "pb_set ?t ! j" if "owns ?t j a" for j a
  proof (cases "j = i")
    case False
    then have "owns s j a" using that own by simp
    from old(5) [OF this] False show ?thesis by (simp add: acquired_def)
  qed (use assms(2) wf_lengths [OF assms(1)] in \<open>simp add: acquired_def\<close>)
  have "length (pb_bind ?t) = pb_count ?t" "length (pb_set ?t) = pb_count ?t" "length (pb_delete ?t) = pb_count ?t"
    using wf_lengths [OF assms(1)] by (simp_all add: acquired_def)
  then show ?thesis
    by (rule pb_wfI) (fact 1 2 3 4 5 6 7)+
qed

text \<open>\<^verbatim>\<open>unset\<close> and one step of \<^verbatim>\<open>clearParameters\<close>.\<close>

lemma wf_not_deleted: "pb_wf s \<Longrightarrow> \<not> pb_delete s ! i \<Longrightarrow> not_string (pb_blobs s i)"
  using pb_wfD(7) by (fastforce simp: not_string_def)

definition dropped :: "nat \<Rightarrow> 'd param_bind \<Rightarrow> 'd param_bind" where
  "dropped i s = s\<lparr>pb_heap := freed s i,
     pb_blobs := (pb_blobs s)(i := if pb_delete s ! i then None else pb_blobs s i),
     pb_delete := (pb_delete s)[i := False], pb_set := (pb_set s)[i := False]\<rparr>"

lemma unset_wf:
  assumes "pb_wf s" "i < pb_count s"
  shows "pb_unset i s = (Inr (), dropped i s)" "pb_wf (dropped i s)"
proof -
  have keep: "\<not> xs ! i \<Longrightarrow> i < length xs \<Longrightarrow> xs[i := False] = xs" for xs :: "bool list"
    by (simp add: list_update_same_conv)
  have "deletable i s" using wf_deletable [OF assms(1)] .
  then show "pb_unset i s = (Inr (), dropped i s)"
    using assms(2) wf_not_deleted [OF assms(1), of i] wf_lengths(3) [OF assms(1)]
    by (cases s) (auto simp: pb_unset_def pb_in_def dropped_def freed_def deletable_def blob_delete_def not_string_def
        keep split: option.splits blob.splits)
  have "not_string (if pb_delete s ! i then None else pb_blobs s i)"
    using wf_not_deleted [OF assms(1), of i] by (auto simp: not_string_def)
  then show "pb_wf (dropped i s)"
    unfolding dropped_def by (rule release_wf [OF assms])
qed

definition cleared :: "nat \<Rightarrow> 'd param_bind \<Rightarrow> 'd param_bind" where
  "cleared i s =
     (let t = s\<lparr>pb_bind := (pb_bind s)[i := (pb_bind s ! i)\<lparr>b_length := None, b_buffer := None\<rparr>]\<rparr>
      in if pb_set s ! i then t\<lparr>pb_heap := freed s i, pb_blobs := (pb_blobs s)(i \<mapsto> Blob_stream None),
           pb_set := (pb_set s)[i := False]\<rparr> else t)"

lemma clear_one_eq:
  assumes "pb_wf s" "i < pb_count s"
  shows "pb_clear_one i s = (Inr (), cleared i s)"
proof -
  have "deletable i s" using wf_deletable [OF assms(1)] .
  then show ?thesis
    using assms(2)
    by (cases s) (auto simp: pb_clear_one_def cleared_def freed_def deletable_def blob_delete_def Let_def
        split: option.splits blob.splits)
qed

lemma cleared_owns:
  assumes "pb_wf s" "i < pb_count s"
  shows "owns (cleared i s) j a \<longleftrightarrow> owns s j a \<and> j \<noteq> i"
  using pb_wfD(5) [OF assms(1)] by (auto simp: owns_def cleared_def Let_def)

lemma cleared_wf:
  assumes "pb_wf s" "i < pb_count s"
  shows "pb_wf (cleared i s)"
proof -
  have no: "\<not> pb_set s ! i \<Longrightarrow> not_string (pb_blobs s i)"
    using wf_string_owned [OF assms(1), of i] pb_wfD(5) [OF assms(1)] by (auto simp: not_string_def)
  then have free: "\<not> pb_set s ! i \<Longrightarrow> freed s i = pb_heap s"
    by (auto simp: freed_def not_string_def split: option.splits blob.splits)
  show ?thesis
    by (rule pb_wf_release [OF assms _ _ _ _ _ cleared_owns [OF assms]])
      (use wf_lengths [OF assms(1)] no free in \<open>auto simp: cleared_def Let_def not_string_def\<close>)
qed

lemma cleared_count [simp]: "pb_count (cleared i s) = pb_count s"
  by (simp add: cleared_def Let_def)

lemma cleared_unset: "i < length (pb_set s) \<Longrightarrow> pb_set (cleared i s) ! j \<longleftrightarrow> pb_set s ! j \<and> j \<noteq> i"
  by (auto simp: cleared_def Let_def nth_list_update)

lemma clear_from_wf:
  assumes "pb_wf s" "i + k \<le> pb_count s"
  shows "\<exists>t. pb_clear_from i k s = (Inr (), t) \<and> pb_wf t \<and> pb_count t = pb_count s
    \<and> (\<forall>j a. owns t j a \<longleftrightarrow> owns s j a \<and> \<not> (i \<le> j \<and> j < i + k))
    \<and> (\<forall>j. pb_set t ! j \<longleftrightarrow> pb_set s ! j \<and> \<not> (i \<le> j \<and> j < i + k))"
  using assms
proof (induction k arbitrary: i s)
  case (Suc k)
  let ?t = "cleared i s"
  have i: "i < pb_count s" using Suc.prems(2) by simp
  from Suc.IH [of ?t "i + 1"] cleared_wf [OF Suc.prems(1) i] Suc.prems(2)
  obtain u where u: "pb_clear_from (i + 1) k ?t = (Inr (), u)" "pb_wf u" "pb_count u = pb_count s"
    "\<forall>j a. owns u j a \<longleftrightarrow> owns ?t j a \<and> \<not> (i + 1 \<le> j \<and> j < i + 1 + k)"
    "\<forall>j. pb_set u ! j \<longleftrightarrow> pb_set ?t ! j \<and> \<not> (i + 1 \<le> j \<and> j < i + 1 + k)"
    by auto
  have "pb_clear_from i (Suc k) s = (Inr (), u)"
    using clear_one_eq [OF Suc.prems(1) i] u(1) by simp
  moreover have "(i \<le> j \<and> j < i + Suc k) \<longleftrightarrow> j = i \<or> i + 1 \<le> j \<and> j < i + 1 + k" for j
    by auto
  ultimately show ?case
    using u(2-5) i wf_lengths(2) [OF Suc.prems(1)] by (auto simp: cleared_owns [OF Suc.prems(1) i] cleared_unset)
qed simp

text \<open>
  \<^verbatim>\<open>clearParameters\<close> frees every owned string once and leaves no value set.
\<close>

lemma clearParameters_wf:
  assumes "pb_wf s"
  obtains t where "pb_clearParameters s = (Inr (), t)" "pb_wf t" "pb_count t = pb_count s"
    "pb_heap t = Map.empty" "\<And>j. j < pb_count t \<Longrightarrow> \<not> pb_set t ! j"
proof -
  from clear_from_wf [OF assms, of 0 "pb_count s"]
  obtain t where t: "pb_clear_from 0 (pb_count s) s = (Inr (), t)" "pb_wf t" "pb_count t = pb_count s"
    "\<And>j a. owns t j a \<longleftrightarrow> owns s j a \<and> \<not> j < pb_count s"
    "\<And>j. pb_set t ! j \<longleftrightarrow> pb_set s ! j \<and> \<not> j < pb_count s"
    by auto
  have "\<not> owns t j a" for j a
    using t(4) by (auto simp: owns_def)
  then have "pb_heap t = Map.empty"
    using pb_wfD(3) [OF t(2)] by fastforce
  with t that show ?thesis by (auto simp: pb_clearParameters_def)
qed

text \<open>The destructor finds nothing left to free.\<close>

lemma drop_from_no_strings:
  assumes "\<And>j. not_string (pb_blobs s j)"
  shows "\<exists>t. pb_drop_from i k s = (Inr (), t) \<and> pb_heap t = pb_heap s"
  using assms
proof (induction k arbitrary: i s)
  case (Suc k)
  have "\<exists>t. pb_drop_one i s = (Inr (), t) \<and> pb_heap t = pb_heap s \<and> (\<forall>j. not_string (pb_blobs t j))"
    using Suc.prems [of i] Suc.prems
    by (auto simp: pb_drop_one_def blob_delete_def blob_nulled_def not_string_def split: option.splits blob.splits)
  then obtain t where t: "pb_drop_one i s = (Inr (), t)" "pb_heap t = pb_heap s" "\<And>j. not_string (pb_blobs t j)"
    by blast
  from Suc.IH [OF t(3), of "i + 1"] t(1,2) show ?case by auto
qed simp

lemma delete_ParamBind_wf:
  assumes "pb_wf s"
  shows "\<exists>t. delete_ParamBind s = (Inr (), t) \<and> pb_heap t = Map.empty"
proof -
  obtain u where u: "pb_clearParameters s = (Inr (), u)" "pb_wf u" "pb_heap u = Map.empty"
    using clearParameters_wf [OF assms] by metis
  have "not_string (pb_blobs u j)" for j
    using wf_alive [OF u(2), of j] u(3) by (auto simp: not_string_def)
  from drop_from_no_strings [OF this, of 0 "pb_count u"] u show ?thesis
    by (auto simp: delete_ParamBind_def)
qed

end
