(* ===== verification/Statement.thy ===== *)
theory Statement
  imports Cursor
begin

text \<open>
  \<^verbatim>\<open>MySQL_Statement\<close> of \<^verbatim>\<open>mysqlconnector/jdbc/driver/mysql_statement.cpp\<close> and the warnings of
  \<^verbatim>\<open>mysql_warning.cpp\<close>. The client library's connection is a parameter, the record \<open>nconn\<close> of the calls
  the driver makes; a statement holds a weak pointer to it, so \<open>st_proxy\<close> is \<open>None\<close> once the connection
  has been closed. Results are values of the type \<open>'r\<close> of the record \<open>native\<close>.
\<close>

section \<open>The client library's connection\<close>

record ('n, 'r) nconn =
  nc_query :: "string \<Rightarrow> 'n \<Rightarrow> bool \<times> 'n"  \<comment> \<open>\<open>True\<close>: a result other than zero\<close>
  nc_errNo :: "'n \<Rightarrow> nat"
  nc_warning_count :: "'n \<Rightarrow> nat"
  nc_field_count :: "'n \<Rightarrow> nat"
  nc_affected_rows :: "'n \<Rightarrow> nat"
  nc_use_result :: "'n \<Rightarrow> 'r option \<times> 'n"
  nc_store_result :: "'n \<Rightarrow> 'r option \<times> 'n"
  nc_more_results :: "'n \<Rightarrow> bool"
  nc_next_result :: "'n \<Rightarrow> int \<times> 'n"

section \<open>Warnings\<close>

text \<open>The SQL state of a server error, and the chain of warnings as a list.\<close>

record sql_warning =
  w_reason :: string
  w_state :: string
  w_code :: int

definition errCode2SqlState :: "int \<Rightarrow> string" where
  "errCode2SqlState c =
     (if c \<in> {1037, 1038} then ''HY001''
      else if c = 1040 then ''08004''
      else if c \<in> {1042, 1043, 1047, 1053} then ''08S01''
      else if c \<in> {1044, 1049, 1055, 1056, 1057, 1059, 1061, 1063, 1064, 1065, 1066, 1067, 1068, 1069, 1070,
                    1071, 1072, 1073, 1074, 1075} then ''42000''
      else if c = 1045 then ''28000''
      else if c = 1046 then ''3D000''
      else if c \<in> {1048, 1052, 1062} then ''23000''
      else if c = 1050 then ''42501''
      else if c = 1051 then ''42S02''
      else if c = 1054 then ''42S22''
      else if c = 1058 then ''21S01''
      else if c = 1060 then ''42S21''
      else if c = 1264 then ''22003''
      else if 1000 \<le> c \<and> c \<le> 1036 \<or> c = 1076 then ''HY000''
      else [])"

section \<open>The state\<close>

text \<open>\<^verbatim>\<open>UL64(~0)\<close>: there is no update count.\<close>

definition no_update_count :: nat where "no_update_count = 2 ^ 64 - 1"

record 'n stmt =
  st_proxy :: "'n option"
  st_closed :: bool
  st_warnings_loaded :: bool
  st_warnings_count :: nat
  st_warnings :: "sql_warning list"
  st_last_update_count :: nat
  st_resultset_type :: rs_kind

definition new_Statement :: "'n option \<Rightarrow> rs_kind \<Rightarrow> 'n stmt" where
  "new_Statement proxy kind =
     \<lparr>st_proxy = proxy, st_closed = False, st_warnings_loaded = True, st_warnings_count = 0,
      st_warnings = [], st_last_update_count = no_update_count, st_resultset_type = kind\<rparr>"

definition st_checkClosed :: "('n stmt, unit) sop" where
  "st_checkClosed = scheck (\<lambda>s. \<not> st_closed s) (Invalid_instance ''Statement has been closed'')"

text \<open>\<^verbatim>\<open>proxy.lock()\<close> with its check, and calls through the pointer it returns.\<close>

definition st_lock :: "('n stmt, unit) sop" where
  "st_lock = scheck (\<lambda>s. st_proxy s \<noteq> None) (Invalid_instance ''Connection has been closed'')"

definition st_call :: "('n \<Rightarrow> 'a \<times> 'n) \<Rightarrow> ('n stmt, 'a) sop" where
  "st_call f = (\<lambda>s. case st_proxy s of
     None \<Rightarrow> (Inl Undefined_behaviour, s) | Some n \<Rightarrow> (case f n of (x, n') \<Rightarrow> (Inr x, s\<lparr>st_proxy := Some n'\<rparr>)))"

definition st_ask :: "('n \<Rightarrow> 'a) \<Rightarrow> ('n stmt, 'a) sop" where
  "st_ask f = st_call (\<lambda>n. (f n, n))"

definition st_throw_native :: "('n, 'r) nconn \<Rightarrow> ('n stmt, 'a) sop" where
  "st_throw_native api = sbind (st_ask (nc_errNo api)) (\<lambda>e. sthrow (Native_error e))"

definition st_forget_count :: "('n stmt, unit) sop" where
  "st_forget_count = smod (\<lambda>s. s\<lparr>st_last_update_count := no_update_count\<rparr>)"

section \<open>Queries\<close>

text \<open>A query that fails without an error number counts as successful.\<close>

definition st_do_query :: "('n, 'r) nconn \<Rightarrow> string \<Rightarrow> ('n stmt, unit) sop" where
  "st_do_query api q =
     sthen st_checkClosed (sthen st_lock
       (sthen (sbind (st_call (nc_query api q)) (\<lambda>err.
                 sbind (st_ask (nc_errNo api)) (\<lambda>e. if err \<and> e \<noteq> 0 then sthrow (Native_error e) else sret ())))
         (sthen (sbind (st_ask (nc_warning_count api)) (\<lambda>n. smod (\<lambda>s. s\<lparr>st_warnings_count := n\<rparr>)))
           (smod (\<lambda>s. s\<lparr>st_warnings_loaded := False\<rparr>)))))"

definition st_get_resultset :: "('n, 'r) nconn \<Rightarrow> ('n stmt, 'r) sop" where
  "st_get_resultset api =
     sthen st_checkClosed (sthen st_lock
       (sbind (sif (\<lambda>s. st_resultset_type s = TYPE_FORWARD_ONLY) (st_call (nc_use_result api)) (st_call (nc_store_result api)))
         (\<lambda>r. case r of None \<Rightarrow> st_throw_native api | Some x \<Rightarrow> sret x)))"

definition st_execute :: "('n, 'r) nconn \<Rightarrow> string \<Rightarrow> ('n stmt, bool) sop" where
  "st_execute api sql =
     sthen st_checkClosed (sthen (st_do_query api sql) (sthen st_lock
       (sbind (st_ask (\<lambda>n. nc_field_count api n > 0)) (\<lambda>ret.
         sthen (sbind (st_ask (nc_affected_rows api)) (\<lambda>rows.
                  smod (\<lambda>s. s\<lparr>st_last_update_count := if ret then no_update_count else rows\<rparr>)))
           (sret ret)))))"

definition st_executeQuery :: "('n, 'r) nconn \<Rightarrow> 'r native \<Rightarrow> string \<Rightarrow> ('n stmt, 'r result_set) sop" where
  "st_executeQuery api rapi sql =
     sthen st_checkClosed (sthen st_forget_count (sthen (st_do_query api sql)
       (sbind (st_get_resultset api) (\<lambda>r. sget (\<lambda>s. new_ResultSet rapi r
          (if st_resultset_type s = TYPE_FORWARD_ONLY then TYPE_FORWARD_ONLY else TYPE_SCROLL_INSENSITIVE))))))"

text \<open>
  The loop of \<^verbatim>\<open>executeUpdate\<close> over the results of a query of several statements. Result sets are
  dropped and reported at the end. \<open>fuel\<close> bounds the number of results.
\<close>

definition dirty_drop_rs :: "('n, 'r) nconn \<Rightarrow> ('n stmt, unit) sop" where
  "dirty_drop_rs api = sbind (st_call (nc_store_result api)) (\<lambda>_. sret ())"

definition update_one :: "('n, 'r) nconn \<Rightarrow> bool \<Rightarrow> ('n stmt, bool) sop" where
  "update_one api got_rs =
     sbind (st_ask (nc_field_count api)) (\<lambda>fields.
       if fields \<noteq> 0 then sthen (dirty_drop_rs api) (sret True)
       else sbind (st_ask (nc_affected_rows api)) (\<lambda>rows.
              sthen (smod (\<lambda>s. s\<lparr>st_last_update_count := rows\<rparr>)) (sret got_rs)))"

fun update_loop :: "nat \<Rightarrow> ('n, 'r) nconn \<Rightarrow> bool \<Rightarrow> ('n stmt, int) sop" where
  "update_loop 0 api got_rs = sthrow Diverges"
| "update_loop (Suc fuel) api got_rs =
     sbind (update_one api got_rs) (\<lambda>got.
       sbind (st_ask (nc_more_results api)) (\<lambda>more.
         if \<not> more then
           (if got then sthrow (Sql_invalid_argument ''Statement returning result set'')
            else sget (\<lambda>s. cast_int (st_last_update_count s)))
         else sbind (st_call (nc_next_result api)) (\<lambda>r.
           if r = 0 then update_loop fuel api got
           else if r = - 1 then
             sthrow (Sql_exception ''Impossible! more_results() said true, next_result says no more results'')
           else st_throw_native api)))"

definition st_executeUpdate :: "nat \<Rightarrow> ('n, 'r) nconn \<Rightarrow> string \<Rightarrow> ('n stmt, int) sop" where
  "st_executeUpdate fuel api sql =
     sthen st_checkClosed (sthen (st_do_query api sql) (sthen st_lock (update_loop fuel api False)))"

text \<open>\<^verbatim>\<open>getResultSet\<close> returns a null pointer when there is no result and no error.\<close>

definition st_getResultSet :: "('n, 'r) nconn \<Rightarrow> 'r native \<Rightarrow> ('n stmt, 'r result_set option) sop" where
  "st_getResultSet api rapi =
     sthen st_checkClosed (sthen st_forget_count (sthen st_lock
       (sbind (sget st_resultset_type) (\<lambda>kind.
         sbind (st_call (if kind = TYPE_FORWARD_ONLY then nc_use_result api else nc_store_result api)) (\<lambda>r.
           case r of
             Some x \<Rightarrow> sret (Some (new_ResultSet rapi x
               (if kind = TYPE_FORWARD_ONLY then TYPE_FORWARD_ONLY else TYPE_SCROLL_INSENSITIVE)))
           | None \<Rightarrow> sbind (st_ask (nc_errNo api)) (\<lambda>e. if e \<noteq> 0 then sthrow (Native_error e) else sret None))))))"

definition st_getMoreResults :: "('n, 'r) nconn \<Rightarrow> ('n stmt, bool) sop" where
  "st_getMoreResults api =
     sthen st_checkClosed (sthen st_forget_count (sthen st_lock
       (sbind (st_ask (nc_more_results api)) (\<lambda>more.
         if \<not> more then sret False
         else sbind (st_call (nc_next_result api)) (\<lambda>r.
           if r > 0 then st_throw_native api
           else if r = 0 then st_ask (\<lambda>n. nc_field_count api n \<noteq> 0)
           else if r = - 1 then
             sthrow (Sql_exception ''Impossible! more_results() said true, next_result says no more results'')
           else sret False)))))"

definition st_getUpdateCount :: "('n stmt, nat) sop" where
  "st_getUpdateCount =
     sthen st_checkClosed (sbind (sget st_last_update_count) (\<lambda>c.
       if c = no_update_count then sret no_update_count else sthen st_forget_count (sret c)))"

section \<open>Loading warnings\<close>

text \<open>
  \<^verbatim>\<open>loadMysqlWarnings\<close> runs a query through a statement of its own on the same connection, whose
  default type of result sets is \<open>kind\<close>. \<^verbatim>\<open>createStatement\<close> throws when the connection is closed.
\<close>

definition read_warning :: "'r native \<Rightarrow> ('r result_set, sql_warning) sop" where
  "read_warning rapi =
     sbind (rs_getInt rapi 2) (\<lambda>errCode. sbind (rs_getString rapi 3) (\<lambda>reason.
       sret \<lparr>w_reason = reason, w_state = errCode2SqlState errCode, w_code = errCode\<rparr>))"

definition loadMysqlWarnings ::
    "nat \<Rightarrow> ('n, 'r) nconn \<Rightarrow> 'r native \<Rightarrow> rs_kind \<Rightarrow> nat \<Rightarrow> ('n stmt, sql_warning list) sop" where
  "loadMysqlWarnings fuel api rapi kind warningsCount =
     (if warningsCount > 0 then
        sthen (scheck (\<lambda>s. st_proxy s \<noteq> None) (Sql_exception ''Connection has been closed''))
          (\<lambda>s. case st_executeQuery api rapi ''SHOW WARNINGS'' (new_Statement (st_proxy s) kind) of
             (Inl e, t) \<Rightarrow> (Inl e, s\<lparr>st_proxy := st_proxy t\<rparr>)
           | (Inr rset, t) \<Rightarrow> (fst (drain fuel (rs_next rapi) (read_warning rapi) [] rset), s\<lparr>st_proxy := st_proxy t\<rparr>))
      else sret [])"

definition st_getWarnings :: "nat \<Rightarrow> ('n, 'r) nconn \<Rightarrow> 'r native \<Rightarrow> rs_kind \<Rightarrow> ('n stmt, sql_warning list) sop" where
  "st_getWarnings fuel api rapi kind =
     sthen st_checkClosed
       (sthen (sif (\<lambda>s. \<not> st_warnings_loaded s)
                 (sbind (\<lambda>s. loadMysqlWarnings fuel api rapi kind (st_warnings_count s) s) (\<lambda>w.
                    smod (\<lambda>s. s\<lparr>st_warnings := w, st_warnings_loaded := True\<rparr>)))
                 (sret ()))
         (sget st_warnings))"

definition st_clearWarnings :: "('n stmt, unit) sop" where
  "st_clearWarnings = sthen st_checkClosed (smod (\<lambda>s. s\<lparr>st_warnings := []\<rparr>))"

definition st_close :: "('n stmt, unit) sop" where
  "st_close = sthen st_checkClosed (sthen st_clearWarnings (smod (\<lambda>s. s\<lparr>st_closed := True\<rparr>)))"

definition st_getResultSetType :: "('n stmt, rs_kind) sop" where
  "st_getResultSetType = sthen st_checkClosed (sget st_resultset_type)"

definition st_setResultSetType :: "rs_kind \<Rightarrow> ('n stmt, unit) sop" where
  "st_setResultSetType kind = sthen st_checkClosed (smod (\<lambda>s. s\<lparr>st_resultset_type := kind\<rparr>))"

text \<open>The methods that only throw.\<close>

definition st_unsupported :: "string \<Rightarrow> ('n stmt, 'a) sop" where
  "st_unsupported name = sthen st_checkClosed (sthrow (Not_implemented (''MySQL_Statement::'' @ name)))"

definition st_cancel :: "('n stmt, unit) sop" where
  "st_cancel = st_unsupported ''cancel''"

definition st_getFetchSize :: "('n stmt, nat) sop" where
  "st_getFetchSize = st_unsupported ''getFetchSize''"

definition st_setFetchSize :: "nat \<Rightarrow> ('n stmt, unit) sop" where
  "st_setFetchSize x = st_unsupported ''setFetchSize''"

definition st_getMaxFieldSize :: "('n stmt, nat) sop" where
  "st_getMaxFieldSize = st_unsupported ''getMaxFieldSize''"

definition st_getMaxRows :: "('n stmt, nat) sop" where
  "st_getMaxRows = st_unsupported ''getMaxRows''"

definition st_setCursorName :: "string \<Rightarrow> ('n stmt, unit) sop" where
  "st_setCursorName x = st_unsupported ''setCursorName''"

definition st_setEscapeProcessing :: "bool \<Rightarrow> ('n stmt, unit) sop" where
  "st_setEscapeProcessing x = st_unsupported ''setEscapeProcessing''"

definition st_setMaxFieldSize :: "nat \<Rightarrow> ('n stmt, unit) sop" where
  "st_setMaxFieldSize x = st_unsupported ''setMaxFieldSize''"

definition st_setMaxRows :: "nat \<Rightarrow> ('n stmt, unit) sop" where
  "st_setMaxRows x = st_unsupported ''setMaxRows''"

end
