(* ===== verification/Prepared_Statement.thy ===== *)
theory Prepared_Statement
  imports Param_Bind Statement
begin

text \<open>
  \<^verbatim>\<open>MySQL_Prepared_Statement\<close> of \<^verbatim>\<open>mysqlconnector/jdbc/driver/mysql_prepared_statement.cpp\<close>: the setters, long
  data, execution and closing. The client library's statement is a parameter, the record \<open>nstmt\<close> of
  the calls the class makes; a call that reports an error returns \<open>True\<close>, as in C. Streams passed to
  \<^verbatim>\<open>setBlob\<close> belong to the caller and are kept in a store. Logging is not modelled.
\<close>

section \<open>The client library's statement, streams\<close>

record ('n, 'd) nstmt =
  ns_param_count :: "'n \<Rightarrow> nat"
  ns_bind_param :: "'d bind list \<Rightarrow> 'n \<Rightarrow> bool \<times> 'n"
  ns_send_long_data :: "nat \<Rightarrow> string \<Rightarrow> 'n \<Rightarrow> bool \<times> 'n"
  ns_execute :: "'n \<Rightarrow> bool \<times> 'n"
  ns_errNo :: "'n \<Rightarrow> nat"
  ns_warning_count :: "'n \<Rightarrow> nat"
  ns_field_count :: "'n \<Rightarrow> nat"
  ns_affected_rows :: "'n \<Rightarrow> int"
  ns_attr_set :: "'n \<Rightarrow> 'n"
  ns_store_result :: "'n \<Rightarrow> bool \<times> 'n"
  ns_more_results :: "'n \<Rightarrow> bool"
  ns_next_result :: "'n \<Rightarrow> int \<times> 'n"

record istream =
  is_left :: string
  is_eof :: bool
  is_fail :: bool
  is_bad :: bool

text \<open>\<^verbatim>\<open>read(buf, n)\<close>: on a good stream up to \<open>n\<close> characters; fewer set the end-of-file and the fail flag.\<close>

definition is_read :: "nat \<Rightarrow> istream \<Rightarrow> string \<times> istream" where
  "is_read n i =
     (if is_eof i \<or> is_fail i \<or> is_bad i then ([], i\<lparr>is_fail := True\<rparr>)
      else if n \<le> length (is_left i) then (take n (is_left i), i\<lparr>is_left := drop n (is_left i)\<rparr>)
      else (is_left i, i\<lparr>is_left := [], is_eof := True, is_fail := True\<rparr>))"

record ('n, 'd) pstmt =
  ps_proxy :: "'n option"
  ps_closed :: bool
  ps_warnings_loaded :: bool
  ps_warnings_count :: nat
  ps_warnings :: "sql_warning list"
  ps_resultset_type :: rs_kind
  ps_param_count :: nat
  ps_params :: "'d param_bind"
  ps_streams :: "nat \<Rightarrow> istream"

definition new_PreparedStatement :: "('n, 'd) nstmt \<Rightarrow> 'n \<Rightarrow> rs_kind \<Rightarrow> (nat \<Rightarrow> istream) \<Rightarrow> ('n, 'd) pstmt" where
  "new_PreparedStatement api n kind streams =
     \<lparr>ps_proxy = Some n, ps_closed = False, ps_warnings_loaded = True, ps_warnings_count = 0,
      ps_warnings = [], ps_resultset_type = kind, ps_param_count = ns_param_count api n,
      ps_params = new_ParamBind (ns_param_count api n), ps_streams = streams\<rparr>"

text \<open>Calls of the parameter object and of the client library; the library is gone after \<^verbatim>\<open>close\<close>.\<close>

definition on_params :: "('d param_bind, 'a) sop \<Rightarrow> (('n, 'd) pstmt, 'a) sop" where
  "on_params m = (\<lambda>s. case m (ps_params s) of (r, p) \<Rightarrow> (r, s\<lparr>ps_params := p\<rparr>))"

definition ps_call :: "('n \<Rightarrow> 'a \<times> 'n) \<Rightarrow> (('n, 'd) pstmt, 'a) sop" where
  "ps_call f = (\<lambda>s. case ps_proxy s of
     None \<Rightarrow> (Inl Undefined_behaviour, s) | Some n \<Rightarrow> (case f n of (x, n') \<Rightarrow> (Inr x, s\<lparr>ps_proxy := Some n'\<rparr>)))"

definition ps_ask :: "('n \<Rightarrow> 'a) \<Rightarrow> (('n, 'd) pstmt, 'a) sop" where
  "ps_ask f = ps_call (\<lambda>n. (f n, n))"

definition ps_throw_native :: "('n, 'd) nstmt \<Rightarrow> (('n, 'd) pstmt, 'a) sop" where
  "ps_throw_native api = sbind (ps_ask (ns_errNo api)) (\<lambda>e. sthrow (Native_error e))"

definition ps_checkClosed :: "(('n, 'd) pstmt, unit) sop" where
  "ps_checkClosed = scheck (\<lambda>s. \<not> ps_closed s) (Invalid_instance ''Statement has been closed'')"

section \<open>Long data\<close>

definition MAX_SEND_LONGDATA_BUFFER :: nat where "MAX_SEND_LONGDATA_BUFFER = 2 ^ 18"
definition MAX_SEND_LONGDATA_CHUNK :: nat where "MAX_SEND_LONGDATA_CHUNK = 2 ^ 18"

definition CR_OUT_OF_MEMORY :: nat where "CR_OUT_OF_MEMORY = 2008"
definition CR_INVALID_BUFFER_USE :: nat where "CR_INVALID_BUFFER_USE = 2035"

text \<open>The error switch after a failed \<^verbatim>\<open>send_long_data\<close>; \<^verbatim>\<open>std::bad_alloc\<close> is \<open>Std_exception\<close>.\<close>

definition send_failed :: "('n, 'd) nstmt \<Rightarrow> (('n, 'd) pstmt, 'a) sop" where
  "send_failed api =
     sbind (ps_ask (ns_errNo api)) (\<lambda>e.
       if e = CR_OUT_OF_MEMORY then sthrow Std_exception
       else if e = CR_INVALID_BUFFER_USE then
         sthrow (Sql_invalid_argument ''MySQL_Prepared_Statement::setBlob: can't set blob value on that column'')
       else sthrow (Native_error e))"

definition send_chunk :: "('n, 'd) nstmt \<Rightarrow> nat \<Rightarrow> string \<Rightarrow> (('n, 'd) pstmt, unit) sop" where
  "send_chunk api pos c =
     sbind (ps_call (ns_send_long_data api pos c)) (\<lambda>err. if err then send_failed api else sret ())"

text \<open>
  The loop over a string: \<^verbatim>\<open>sent\<close> and \<^verbatim>\<open>chunkSize\<close> are unsigned 32-bit numbers. A string of \<open>2 ^ 32\<close> bytes
  or more is sent for ever; \<open>fuel\<close> bounds the iterations.
\<close>

fun send_string :: "nat \<Rightarrow> ('n, 'd) nstmt \<Rightarrow> nat \<Rightarrow> string \<Rightarrow> nat \<Rightarrow> (('n, 'd) pstmt, bool) sop" where
  "send_string 0 api pos str sent = sthrow Diverges"
| "send_string (Suc fuel) api pos str sent =
     (if sent < length str then
        (let chunkSize = (if (sent + MAX_SEND_LONGDATA_CHUNK) mod 2 ^ 32 > length str
                          then (length str - sent) mod 2 ^ 32 else MAX_SEND_LONGDATA_CHUNK)
         in sthen (send_chunk api pos (take chunkSize (drop sent str)))
              (send_string fuel api pos str ((sent + chunkSize) mod 2 ^ 32)))
      else sret True)"

text \<open>
  The loop over a stream: it ends when a read has met the end of the stream. The stream \<open>i\<close> is the one
  at address \<open>p\<close> of the store, which follows it.
\<close>

function send_stream_loop :: "('n, 'd) nstmt \<Rightarrow> nat \<Rightarrow> nat \<Rightarrow> istream \<Rightarrow> ('n, 'd) pstmt \<Rightarrow> bool res \<times> ('n, 'd) pstmt" where
  "send_stream_loop api pos p i s =
     (if is_eof i then (Inr True, s)
      else
        (case is_read MAX_SEND_LONGDATA_BUFFER i of (buf, j) \<Rightarrow>
           let s1 = s\<lparr>ps_streams := (ps_streams s)(p := j)\<rparr> in
           if is_bad j then (Inl (Sql_exception ''Error while reading from blob (bad)''), s1)
           else if is_fail j \<and> \<not> is_eof j then (Inl (Sql_exception ''Error while reading from blob (fail)''), s1)
           else (case send_chunk api pos buf s1 of
                   (Inl e, s2) \<Rightarrow> (Inl e, s2) | (Inr _, s2) \<Rightarrow> send_stream_loop api pos p j s2)))"
  by pat_completeness auto
termination
  by (relation "measure (\<lambda>(api, pos, p, i, s). length (is_left i) + (if is_eof i then 0 else 1))")
    (auto simp: is_read_def MAX_SEND_LONGDATA_BUFFER_def split: if_splits)

declare send_stream_loop.simps [simp del]

definition send_stream :: "('n, 'd) nstmt \<Rightarrow> nat \<Rightarrow> nat \<Rightarrow> (('n, 'd) pstmt, bool) sop" where
  "send_stream api pos p = (\<lambda>s. send_stream_loop api pos p (ps_streams s p) s)"

text \<open>\<^verbatim>\<open>LongDataSender\<close> on a blob; a dangling string pointer is undefined. The fuel is that of \<open>send_string\<close>.\<close>

definition send_blob :: "nat \<Rightarrow> ('n, 'd) nstmt \<Rightarrow> nat \<Rightarrow> blob \<Rightarrow> (('n, 'd) pstmt, bool) sop" where
  "send_blob fuel api pos b =
     (case b of
        Blob_stream None \<Rightarrow> sret False | Blob_string None \<Rightarrow> sret False
      | Blob_stream (Some p) \<Rightarrow> send_stream api pos p
      | Blob_string (Some a) \<Rightarrow> (\<lambda>s. case pb_heap (ps_params s) a of
            None \<Rightarrow> (Inl Undefined_behaviour, s) | Some str \<Rightarrow> send_string fuel api pos str 0 s))"

fun send_params :: "nat \<Rightarrow> ('n, 'd) nstmt \<Rightarrow> nat \<Rightarrow> nat \<Rightarrow> (('n, 'd) pstmt, bool) sop" where
  "send_params fuel api i 0 = sret True"
| "send_params fuel api i (Suc k) =
     sthen (sif (\<lambda>s. b_type (pb_bind (ps_params s) ! i) = MYSQL_TYPE_LONG_BLOB)
              (\<lambda>s. send_blob fuel api i (pb_getBlobObject i (ps_params s)) s) (sret True))
       (send_params fuel api (i + 1) k)"

definition sendLongDataBeforeParamBind :: "nat \<Rightarrow> ('n, 'd) nstmt \<Rightarrow> (('n, 'd) pstmt, bool) sop" where
  "sendLongDataBeforeParamBind fuel api = (\<lambda>s. send_params fuel api 0 (ps_param_count s) s)"

section \<open>Execution\<close>

definition ps_do_query :: "nat \<Rightarrow> ('n, 'd) nstmt \<Rightarrow> (('n, 'd) pstmt, unit) sop" where
  "ps_do_query fuel api =
     sthen (scheck (\<lambda>s. ps_param_count s = 0 \<or> pb_isAllSet (ps_params s)) (Sql_exception ''Value not set for all parameters''))
       (sthen (\<lambda>s. sbind (ps_call (ns_bind_param api (pb_bind (ps_params s))))
                 (\<lambda>err. if err then ps_throw_native api else sret ()) s)
         (sthen (sbind (sendLongDataBeforeParamBind fuel api) (\<lambda>ok.
                   if \<not> ok then ps_throw_native api
                   else sbind (ps_call (ns_execute api)) (\<lambda>err. if err then ps_throw_native api else sret ())))
           (sthen (sbind (ps_ask (ns_warning_count api)) (\<lambda>n. smod (\<lambda>s. s\<lparr>ps_warnings_count := n\<rparr>)))
             (smod (\<lambda>s. s\<lparr>ps_warnings_loaded := False\<rparr>)))))"

definition ps_execute :: "nat \<Rightarrow> ('n, 'd) nstmt \<Rightarrow> (('n, 'd) pstmt, bool) sop" where
  "ps_execute fuel api =
     sthen ps_checkClosed (sthen (ps_do_query fuel api) (sbind (ps_ask (ns_field_count api)) (\<lambda>n. sret (n > 0))))"

definition ps_executeUpdate :: "nat \<Rightarrow> ('n, 'd) nstmt \<Rightarrow> (('n, 'd) pstmt, int) sop" where
  "ps_executeUpdate fuel api =
     sthen ps_checkClosed (sthen (ps_do_query fuel api) (sbind (ps_ask (ns_affected_rows api)) (\<lambda>n. sret (to_int32 n))))"

text \<open>
  The result set of a query: its type is returned, the set itself is built from the client library's
  statement.
\<close>

definition ps_getResultSet_open :: "('n, 'd) nstmt \<Rightarrow> (('n, 'd) pstmt, rs_kind) sop" where
  "ps_getResultSet_open api =
     sthen (ps_call (\<lambda>n. ((), ns_attr_set api n)))
       (\<lambda>s. if ps_resultset_type s = TYPE_SCROLL_INSENSITIVE then
              sbind (ps_call (ns_store_result api))
                (\<lambda>err. if err then ps_throw_native api else sret TYPE_SCROLL_INSENSITIVE) s
            else if ps_resultset_type s = TYPE_FORWARD_ONLY then (Inr TYPE_FORWARD_ONLY, s)
            else (Inl (Sql_exception ''Invalid value for result set type''), s))"

definition ps_executeQuery :: "nat \<Rightarrow> ('n, 'd) nstmt \<Rightarrow> (('n, 'd) pstmt, rs_kind) sop" where
  "ps_executeQuery fuel api =
     sthen ps_checkClosed (sthen (ps_do_query fuel api) (ps_getResultSet_open api))"

definition ps_getResultSet :: "('n, 'd) nstmt \<Rightarrow> (('n, 'd) pstmt, rs_kind) sop" where
  "ps_getResultSet api = sthen ps_checkClosed (ps_getResultSet_open api)"

definition ps_getMoreResults :: "('n, 'd) nstmt \<Rightarrow> (('n, 'd) pstmt, bool) sop" where
  "ps_getMoreResults api =
     sthen ps_checkClosed (sbind (ps_ask (ns_more_results api)) (\<lambda>more.
       if \<not> more then sret False
       else sbind (ps_call (ns_next_result api)) (\<lambda>next_result.
         if next_result = 0 then sbind (ps_ask (ns_field_count api)) (\<lambda>n. sret (n \<noteq> 0))
         else if next_result = - 1 then
           sthrow (Sql_exception ''Impossible! more_results() said true, next_result says no more results'')
         else ps_throw_native api)))"

section \<open>Setters\<close>

text \<open>\<^verbatim>\<open>allocate_buffer_for_type\<close>: the size of the buffer; there is no pointer for size zero.\<close>

definition allocate_buffer_for_type :: "field_type \<Rightarrow> nat res" where
  "allocate_buffer_for_type t =
     (case t of
        MYSQL_TYPE_LONG \<Rightarrow> Inr 4 | MYSQL_TYPE_DOUBLE \<Rightarrow> Inr 8 | MYSQL_TYPE_LONGLONG \<Rightarrow> Inr 8
      | MYSQL_TYPE_STRING \<Rightarrow> Inr 0 | MYSQL_TYPE_NULL \<Rightarrow> Inr 0
      | _ \<Rightarrow> Inl (Sql_invalid_argument ''allocate_buffer_for_type: invalid result_bind data type''))"

definition ps_index_guard :: "string \<Rightarrow> nat \<Rightarrow> (('n, 'd) pstmt, unit) sop" where
  "ps_index_guard name i =
     sthen ps_checkClosed (scheck (\<lambda>s. \<not> (i = 0 \<or> i > ps_param_count s))
       (Sql_invalid_argument (''MySQL_Prepared_Statement::'' @ name @ [CHR '':''] @ '' invalid '' @ [squote] @ ''parameterIndex'' @ [squote])))"

text \<open>The block every setter of a plain value runs, and the change of the \<^verbatim>\<open>MYSQL_BIND\<close> that follows.\<close>

definition pb_reset :: "nat \<Rightarrow> ('d param_bind, unit) sop" where
  "pb_reset i = sthen (pb_setBlob i (Blob_stream None) False) (pb_unset i)"

definition pb_store :: "nat \<Rightarrow> ('d bind \<Rightarrow> 'd bind) \<Rightarrow> ('d param_bind, unit) sop" where
  "pb_store i f = sthen (pb_mark i) (smod (\<lambda>s. s\<lparr>pb_bind := (pb_bind s)[i := f (pb_bind s ! i)]\<rparr>))"

definition ps_set :: "string \<Rightarrow> nat \<Rightarrow> field_type \<Rightarrow> ('d bind \<Rightarrow> 'd bind) \<Rightarrow> (('n, 'd) pstmt, unit) sop" where
  "ps_set name i t f =
     sthen (ps_index_guard name i)
       (sthen (on_params (pb_reset (i - 1)))
         (case allocate_buffer_for_type t of Inl e \<Rightarrow> sthrow e
          | Inr _ \<Rightarrow> on_params (pb_store (i - 1) f)))"

definition bind_value :: "field_type \<Rightarrow> 'd buffer \<Rightarrow> 'd bind \<Rightarrow> 'd bind" where
  "bind_value t v b = b\<lparr>b_type := t, b_buffer := Some v, b_buffer_length := 0, b_is_null := False, b_length := None\<rparr>"

definition ps_setDouble :: "nat \<Rightarrow> 'd \<Rightarrow> (('n, 'd) pstmt, unit) sop" where
  "ps_setDouble i v = ps_set ''setDouble'' i MYSQL_TYPE_DOUBLE (bind_value MYSQL_TYPE_DOUBLE (Buf_double v))"

definition ps_setInt :: "nat \<Rightarrow> 32 word \<Rightarrow> (('n, 'd) pstmt, unit) sop" where
  "ps_setInt i v = ps_set ''setInt'' i MYSQL_TYPE_LONG (bind_value MYSQL_TYPE_LONG (Buf_long v))"

text \<open>\<^verbatim>\<open>setUInt\<close> reports a bad index under the name of \<^verbatim>\<open>setInt\<close>.\<close>

definition ps_setUInt :: "nat \<Rightarrow> 32 word \<Rightarrow> (('n, 'd) pstmt, unit) sop" where
  "ps_setUInt i v = ps_set ''setInt'' i MYSQL_TYPE_LONG
     (\<lambda>b. (bind_value MYSQL_TYPE_LONG (Buf_long v) b)\<lparr>b_is_unsigned := True\<rparr>)"

definition ps_setInt64 :: "nat \<Rightarrow> 64 word \<Rightarrow> (('n, 'd) pstmt, unit) sop" where
  "ps_setInt64 i v = ps_set ''setInt64'' i MYSQL_TYPE_LONGLONG (bind_value MYSQL_TYPE_LONGLONG (Buf_longlong v))"

definition ps_setUInt64 :: "nat \<Rightarrow> 64 word \<Rightarrow> (('n, 'd) pstmt, unit) sop" where
  "ps_setUInt64 i v = ps_set ''setUInt64'' i MYSQL_TYPE_LONGLONG
     (\<lambda>b. (bind_value MYSQL_TYPE_LONGLONG (Buf_longlong v) b)\<lparr>b_is_unsigned := True\<rparr>)"

definition ps_setBoolean :: "nat \<Rightarrow> bool \<Rightarrow> (('n, 'd) pstmt, unit) sop" where
  "ps_setBoolean i v = ps_setInt i (if v then 1 else 0)"

definition ps_setNull :: "nat \<Rightarrow> (('n, 'd) pstmt, unit) sop" where
  "ps_setNull i = sthen (ps_index_guard ''setNull'' i)
     (sthen (on_params (pb_reset (i - 1)))
       (on_params (pb_store (i - 1) (\<lambda>b. b\<lparr>b_type := MYSQL_TYPE_NULL, b_buffer := None, b_length := None\<rparr>))))"

text \<open>A string of more than 256 KiB becomes an owned object that is sent as long data.\<close>

definition ps_setString :: "nat \<Rightarrow> string \<Rightarrow> (('n, 'd) pstmt, unit) sop" where
  "ps_setString i v = sthen (ps_index_guard ''setString'' i)
     (if length v > 256 * 1024 then on_params (pb_own_string (i - 1) v)
      else sthen (on_params (pb_reset (i - 1)))
        (on_params (pb_store (i - 1) (\<lambda>b. b\<lparr>b_type := MYSQL_TYPE_STRING, b_buffer := Some (Buf_string v),
           b_buffer_length := length v + 1, b_is_null := False, b_length := Some (length v)\<rparr>))))"

definition ps_setBigInt :: "nat \<Rightarrow> string \<Rightarrow> (('n, 'd) pstmt, unit) sop" where
  "ps_setBigInt = ps_setString"

definition ps_setDateTime :: "nat \<Rightarrow> string \<Rightarrow> (('n, 'd) pstmt, unit) sop" where
  "ps_setDateTime = ps_setString"

definition ps_setBlob :: "nat \<Rightarrow> nat option \<Rightarrow> (('n, 'd) pstmt, unit) sop" where
  "ps_setBlob i p = sthen (ps_index_guard ''setBlob'' i) (on_params (pb_setBlob (i - 1) (Blob_stream p) False))"

section \<open>Warnings, parameters, closing\<close>

definition ps_clearParameters :: "(('n, 'd) pstmt, unit) sop" where
  "ps_clearParameters = sthen ps_checkClosed (on_params pb_clearParameters)"

definition ps_clearWarnings :: "(('n, 'd) pstmt, unit) sop" where
  "ps_clearWarnings = sthen ps_checkClosed (smod (\<lambda>s. s\<lparr>ps_warnings := []\<rparr>))"

text \<open>\<open>loaded\<close> is the outcome of \<^verbatim>\<open>loadMysqlWarnings\<close> on the statement's connection, asked for only when needed.\<close>

definition ps_getWarnings :: "sql_warning list res \<Rightarrow> (('n, 'd) pstmt, sql_warning list) sop" where
  "ps_getWarnings loaded =
     sthen ps_checkClosed
       (sthen (sif (\<lambda>s. \<not> ps_warnings_loaded s)
                 (sthen (sif (\<lambda>s. ps_warnings_count s \<noteq> 0)
                           (case loaded of Inl e \<Rightarrow> sthrow e | Inr w \<Rightarrow> smod (\<lambda>s. s\<lparr>ps_warnings := w\<rparr>)) (sret ()))
                   (smod (\<lambda>s. s\<lparr>ps_warnings_loaded := True\<rparr>)))
                 (sret ()))
         (sget ps_warnings))"

definition ps_closeIntern :: "(('n, 'd) pstmt, unit) sop" where
  "ps_closeIntern =
     sthen (smod (\<lambda>s. s\<lparr>ps_proxy := None\<rparr>))
       (sthen ps_clearParameters (sthen ps_clearWarnings (smod (\<lambda>s. s\<lparr>ps_closed := True\<rparr>))))"

definition ps_close :: "(('n, 'd) pstmt, unit) sop" where
  "ps_close = sthen ps_checkClosed ps_closeIntern"

text \<open>The destructor, and that of its parameter object.\<close>

definition delete_PreparedStatement :: "(('n, 'd) pstmt, unit) sop" where
  "delete_PreparedStatement =
     sthen (sif (\<lambda>s. \<not> ps_closed s) ps_closeIntern (sret ())) (on_params delete_ParamBind)"

definition ps_getResultSetType :: "(('n, 'd) pstmt, rs_kind) sop" where
  "ps_getResultSetType = sthen ps_checkClosed (sget ps_resultset_type)"

text \<open>
  The methods that are not implemented: with and without a check that the statement is open.
\<close>

definition ps_unsupported :: "string \<Rightarrow> (('n, 'd) pstmt, 'a) sop" where
  "ps_unsupported name = sthen ps_checkClosed (sthrow (Not_implemented (''MySQL_Prepared_Statement::'' @ name)))"

definition ps_unsupported_unchecked :: "string \<Rightarrow> (('n, 'd) pstmt, 'a) sop" where
  "ps_unsupported_unchecked name = sthrow (Not_implemented (''MySQL_Prepared_Statement::'' @ name))"

definition ps_cancel :: "(('n, 'd) pstmt, unit) sop" where
  "ps_cancel = ps_unsupported ''cancel''"

definition ps_getFetchSize :: "(('n, 'd) pstmt, nat) sop" where
  "ps_getFetchSize = ps_unsupported ''getFetchSize''"

definition ps_setFetchSize :: "nat \<Rightarrow> (('n, 'd) pstmt, unit) sop" where
  "ps_setFetchSize x = ps_unsupported ''setFetchSize''"

definition ps_setQueryTimeout :: "nat \<Rightarrow> (('n, 'd) pstmt, unit) sop" where
  "ps_setQueryTimeout x = ps_unsupported ''setQueryTimeout''"

definition ps_getMaxFieldSize :: "(('n, 'd) pstmt, nat) sop" where
  "ps_getMaxFieldSize = ps_unsupported ''getMaxFieldSize''"

definition ps_getMaxRows :: "(('n, 'd) pstmt, nat) sop" where
  "ps_getMaxRows = ps_unsupported ''getMaxRows''"

definition ps_getQueryTimeout :: "(('n, 'd) pstmt, nat) sop" where
  "ps_getQueryTimeout = ps_unsupported ''getQueryTimeout''"

definition ps_getUpdateCount :: "(('n, 'd) pstmt, nat) sop" where
  "ps_getUpdateCount = ps_unsupported ''getUpdateCount''"

definition ps_setCursorName :: "string \<Rightarrow> (('n, 'd) pstmt, unit) sop" where
  "ps_setCursorName x = ps_unsupported ''setCursorName''"

definition ps_setEscapeProcessing :: "bool \<Rightarrow> (('n, 'd) pstmt, unit) sop" where
  "ps_setEscapeProcessing x = ps_unsupported ''setEscapeProcessing''"

definition ps_setMaxFieldSize :: "nat \<Rightarrow> (('n, 'd) pstmt, unit) sop" where
  "ps_setMaxFieldSize x = ps_unsupported ''setMaxFieldSize''"

definition ps_setMaxRows :: "nat \<Rightarrow> (('n, 'd) pstmt, unit) sop" where
  "ps_setMaxRows x = ps_unsupported ''setMaxRows''"

definition ps_setResultSetConcurrency :: "int \<Rightarrow> (('n, 'd) pstmt, unit) sop" where
  "ps_setResultSetConcurrency x = ps_unsupported ''setResultSetConcurrency''"

definition ps_setResultSetType :: "rs_kind \<Rightarrow> (('n, 'd) pstmt, unit) sop" where
  "ps_setResultSetType x = ps_unsupported ''setResultSetType''"

definition ps_execute_sql :: "string \<Rightarrow> (('n, 'd) pstmt, bool) sop" where
  "ps_execute_sql sql = ps_unsupported_unchecked ''execute''"

definition ps_executeQuery_sql :: "string \<Rightarrow> (('n, 'd) pstmt, rs_kind) sop" where
  "ps_executeQuery_sql sql = ps_unsupported_unchecked ''executeQuery''"

definition ps_executeUpdate_sql :: "string \<Rightarrow> (('n, 'd) pstmt, int) sop" where
  "ps_executeUpdate_sql sql = ps_unsupported_unchecked ''executeUpdate''"

end
