(* ===== verification/Connection.thy ===== *)
theory Connection
  imports Prepared_Statement
begin

text \<open>
  \<^verbatim>\<open>MySQL_Connection\<close> of \<^verbatim>\<open>mysqlconnector/jdbc/driver/mysql_connection.cpp\<close>: an open connection, its
  statements, transactions and session variables. Opening a connection and the client options passed as
  untyped pointers are in \<open>Open_Connection\<close>. Statements share the client library's connection with the
  connection object: \<open>con_statement\<close> and \<open>con_service\<close> run a statement's method on it.
\<close>

section \<open>The client library\<close>

text \<open>The calls on a connection beyond those of \<open>nconn\<close>; \<open>'p\<close> is the client library's statement.\<close>

record ('n, 'r, 'p, 'd) nlink =
  nl_conn :: "('n, 'r) nconn"
  nl_result :: "'r native"
  nl_stmt :: "('p, 'd) nstmt"
  nl_autocommit :: "bool \<Rightarrow> 'n \<Rightarrow> bool \<times> 'n"
  nl_commit :: "'n \<Rightarrow> bool \<times> 'n"
  nl_rollback :: "'n \<Rightarrow> bool \<times> 'n"
  nl_server_version :: "'n \<Rightarrow> nat"
  nl_info :: "'n \<Rightarrow> string"
  nl_escapeString :: "string \<Rightarrow> 'n \<Rightarrow> string"
  nl_ping :: "'n \<Rightarrow> bool \<times> 'n"  \<comment> \<open>\<open>True\<close>: the server does not answer\<close>
  nl_set_reconnect :: "bool \<Rightarrow> 'n \<Rightarrow> 'n"  \<comment> \<open>\<^verbatim>\<open>options(MYSQL_OPT_RECONNECT, ...)\<close>\<close>
  nl_stmt_init :: "'n \<Rightarrow> 'p option \<times> 'n"
  nl_prepare :: "string \<Rightarrow> 'p \<Rightarrow> bool \<times> 'p"
  nl_stmt_close :: "'p \<Rightarrow> 'n \<Rightarrow> 'n"  \<comment> \<open>the connection after the statement's calls and its end\<close>

section \<open>The state\<close>

datatype isolation = TRANSACTION_NONE | TRANSACTION_READ_COMMITTED | TRANSACTION_READ_UNCOMMITTED
  | TRANSACTION_REPEATABLE_READ | TRANSACTION_SERIALIZABLE

text \<open>What the description of the database (\<^verbatim>\<open>MySQL_ConnectionMetaData\<close>) is made of.\<close>

record conn_meta =
  cm_server_version :: nat
  cm_lower_case :: string
  cm_use_info_schema :: bool

record 'n connection =
  c_proxy :: "'n option"
  c_valid :: bool
  c_autocommit :: bool
  c_isolation :: isolation
  c_warnings :: "sql_warning list"
  c_sql_mode :: string
  c_sql_mode_set :: bool
  c_cache_sql_mode :: bool
  c_use_info_schema :: bool
  c_reconnect :: bool
  c_stmt_type :: rs_kind
  c_ps_type :: rs_kind
  c_service :: "'n stmt"
  c_meta :: "conn_meta option"

text \<open>
  A connection as the constructor leaves it before \<^verbatim>\<open>init\<close>: the members of \<^verbatim>\<open>MySQL_ConnectionData\<close> and the
  service statement, which stores its results.
\<close>

definition createServiceStmt :: "'n option \<Rightarrow> 'n stmt" where
  "createServiceStmt proxy = new_Statement proxy TYPE_SCROLL_INSENSITIVE"

definition new_ConnectionData :: "'n \<Rightarrow> 'n connection" where
  "new_ConnectionData n =
     \<lparr>c_proxy = Some n, c_valid = False, c_autocommit = False, c_isolation = TRANSACTION_READ_COMMITTED,
      c_warnings = [], c_sql_mode = [], c_sql_mode_set = False, c_cache_sql_mode = False, c_use_info_schema = True,
      c_reconnect = False, c_stmt_type = TYPE_SCROLL_INSENSITIVE, c_ps_type = TYPE_SCROLL_INSENSITIVE,
      c_service = createServiceStmt (Some n), c_meta = None\<rparr>"

definition con_call :: "('n \<Rightarrow> 'a \<times> 'n) \<Rightarrow> ('n connection, 'a) sop" where
  "con_call f = (\<lambda>c. case c_proxy c of
     None \<Rightarrow> (Inl Undefined_behaviour, c) | Some n \<Rightarrow> (case f n of (x, n') \<Rightarrow> (Inr x, c\<lparr>c_proxy := Some n'\<rparr>)))"

definition con_ask :: "('n \<Rightarrow> 'a) \<Rightarrow> ('n connection, 'a) sop" where
  "con_ask f = con_call (\<lambda>n. (f n, n))"

definition con_checkClosed :: "('n connection, unit) sop" where
  "con_checkClosed = scheck c_valid (Sql_exception ''Connection has been closed'')"

section \<open>Statements\<close>

definition con_createStatement :: "('n connection, 'n stmt) sop" where
  "con_createStatement = sthen con_checkClosed (sget (\<lambda>c. new_Statement (c_proxy c) (c_stmt_type c)))"

text \<open>A method of a statement that is created for it and deleted after it, and one of the service statement.\<close>

definition con_statement :: "('n stmt, 'a) sop \<Rightarrow> ('n connection, 'a) sop" where
  "con_statement m = sbind con_createStatement (\<lambda>stmt c. case m stmt of (r, t) \<Rightarrow> (r, c\<lparr>c_proxy := st_proxy t\<rparr>))"

definition con_service :: "('n stmt, 'a) sop \<Rightarrow> ('n connection, 'a) sop" where
  "con_service m = (\<lambda>c. case m ((c_service c)\<lparr>st_proxy := c_proxy c\<rparr>) of
     (r, t) \<Rightarrow> (r, c\<lparr>c_proxy := st_proxy t, c_service := t\<rparr>))"

definition con_prepareStatement ::
    "('n, 'r, 'p, 'd) nlink \<Rightarrow> (nat \<Rightarrow> istream) \<Rightarrow> string \<Rightarrow> ('n connection, ('p, 'd) pstmt) sop" where
  "con_prepareStatement link streams sql =
     sthen con_checkClosed (sbind (con_call (nl_stmt_init link)) (\<lambda>p.
       case p of
         None \<Rightarrow> sbind (con_ask (nc_errNo (nl_conn link))) (\<lambda>e. sthrow (Native_error e))
       | Some q \<Rightarrow> (case nl_prepare link sql q of (err, q') \<Rightarrow>
           if err then sthrow (Native_error (ns_errNo (nl_stmt link) q'))
           else sget (\<lambda>c. new_PreparedStatement (nl_stmt link) q' (c_ps_type c) streams))))"

section \<open>Closing, state and transactions\<close>

definition con_clearWarnings :: "('n connection, unit) sop" where
  "con_clearWarnings = smod (\<lambda>c. c\<lparr>c_warnings := []\<rparr>)"

definition con_close :: "('n connection, unit) sop" where
  "con_close =
     sthen con_checkClosed (sthen (smod (\<lambda>c. c\<lparr>c_proxy := None\<rparr>))
       (sthen con_clearWarnings (smod (\<lambda>c. c\<lparr>c_valid := False\<rparr>))))"

definition con_isClosed :: "('n connection, bool) sop" where
  "con_isClosed = sget (\<lambda>c. \<not> c_valid c)"

text \<open>The results of the three calls below are dropped: a failure is not reported.\<close>

definition con_commit :: "('n, 'r, 'p, 'd) nlink \<Rightarrow> ('n connection, unit) sop" where
  "con_commit link = sthen con_checkClosed (sbind (con_call (nl_commit link)) (\<lambda>_. sret ()))"

definition con_rollback :: "('n, 'r, 'p, 'd) nlink \<Rightarrow> ('n connection, unit) sop" where
  "con_rollback link = sthen con_checkClosed (sbind (con_call (nl_rollback link)) (\<lambda>_. sret ()))"

definition con_setAutoCommit :: "('n, 'r, 'p, 'd) nlink \<Rightarrow> bool \<Rightarrow> ('n connection, unit) sop" where
  "con_setAutoCommit link b =
     sthen con_checkClosed (sbind (con_call (nl_autocommit link b)) (\<lambda>_. smod (\<lambda>c. c\<lparr>c_autocommit := b\<rparr>)))"

definition con_getAutoCommit :: "('n connection, bool) sop" where
  "con_getAutoCommit = sthen con_checkClosed (sget c_autocommit)"

definition con_escapeString :: "('n, 'r, 'p, 'd) nlink \<Rightarrow> string \<Rightarrow> ('n connection, string) sop" where
  "con_escapeString link s = sthen con_checkClosed (con_ask (nl_escapeString link s))"

definition con_getCatalog :: "('n, 'r, 'p, 'd) nlink \<Rightarrow> ('n connection, string) sop" where
  "con_getCatalog link = sthen con_checkClosed (con_ask (\<lambda>n. if nl_server_version link n > 60006 then ''def'' else []))"

definition con_setCatalog :: "string \<Rightarrow> ('n connection, unit) sop" where
  "con_setCatalog catalog = con_checkClosed"

definition con_getClientInfo :: string where "con_getClientInfo = ''cppconn''"

definition con_getLastStatementInfo :: "('n, 'r, 'p, 'd) nlink \<Rightarrow> ('n connection, string) sop" where
  "con_getLastStatementInfo link = sthen con_checkClosed (con_ask (nl_info link))"

text \<open>\<^verbatim>\<open>nativeSQL\<close> copies the C string: it ends at the first null character.\<close>

definition con_nativeSQL :: "string \<Rightarrow> ('n connection, string) sop" where
  "con_nativeSQL sql = sthen con_checkClosed (sret (takeWhile (\<lambda>c. c \<noteq> CHR 0x00) sql))"

text \<open>\<^verbatim>\<open>loadMysqlWarnings\<close> on this connection.\<close>

definition con_load_warnings :: "nat \<Rightarrow> ('n, 'r, 'p, 'd) nlink \<Rightarrow> nat \<Rightarrow> ('n connection, sql_warning list) sop" where
  "con_load_warnings fuel link n = (\<lambda>c.
     case loadMysqlWarnings fuel (nl_conn link) (nl_result link) (c_stmt_type c) n (new_Statement (c_proxy c) (c_stmt_type c)) of
       (r, t) \<Rightarrow> (r, c\<lparr>c_proxy := st_proxy t\<rparr>))"

definition con_ps_getWarnings ::
    "nat \<Rightarrow> ('n, 'r, 'p, 'd) nlink \<Rightarrow> ('p, 'd) pstmt \<Rightarrow> ('n connection, sql_warning list res \<times> ('p, 'd) pstmt) sop" where
  "con_ps_getWarnings fuel link s = (\<lambda>c.
     if ps_closed s \<or> ps_warnings_loaded s \<or> ps_warnings_count s = 0 then (Inr (ps_getWarnings (Inr []) s), c)
     else (case con_load_warnings fuel link (ps_warnings_count s) c of (r, c') \<Rightarrow> (Inr (ps_getWarnings r s), c')))"

text \<open>
  \<^verbatim>\<open>getWarnings\<close> passes no count, whose default is zero, to \<^verbatim>\<open>loadMysqlWarnings\<close>, which loads nothing then.
\<close>

definition con_getWarnings :: "nat \<Rightarrow> ('n, 'r, 'p, 'd) nlink \<Rightarrow> ('n connection, sql_warning list) sop" where
  "con_getWarnings fuel link =
     sthen con_checkClosed (sthen con_clearWarnings
       (sbind (con_load_warnings fuel link 0) (\<lambda>w. sthen (smod (\<lambda>c. c\<lparr>c_warnings := w\<rparr>)) (sget c_warnings))))"

definition con_isValid :: "('n, 'r, 'p, 'd) nlink \<Rightarrow> ('n connection, bool) sop" where
  "con_isValid link =
     sif (\<lambda>c. \<not> c_valid c) (sret False)
       (sif c_reconnect
          (sthen (con_call (\<lambda>n. ((), nl_set_reconnect link False n)))
            (sbind (con_call (nl_ping link)) (\<lambda>dead.
              sthen (con_call (\<lambda>n. ((), nl_set_reconnect link True n))) (sret (\<not> dead)))))
          (sbind (con_call (nl_ping link)) (\<lambda>dead. sret (\<not> dead))))"

definition con_reconnect :: "('n, 'r, 'p, 'd) nlink \<Rightarrow> ('n connection, bool) sop" where
  "con_reconnect link =
     sif (\<lambda>c. \<not> c_valid c) (sret False)
       (sif c_reconnect
          (sbind (con_call (nl_ping link)) (\<lambda>dead. sret (\<not> dead)))
          (sthen (con_call (\<lambda>n. ((), nl_set_reconnect link True n)))
            (sbind (con_call (nl_ping link)) (\<lambda>dead.
              sthen (con_call (\<lambda>n. ((), nl_set_reconnect link False n))) (sret (\<not> dead))))))"

definition con_getMetaData :: "('n connection, conn_meta option) sop" where
  "con_getMetaData = sthen con_checkClosed (sget c_meta)"

section \<open>Savepoints, schema, isolation\<close>

definition not_autocommit :: "('n connection, unit) sop" where
  "not_autocommit =
     sbind con_getAutoCommit (\<lambda>b. if b then sthrow (Sql_invalid_argument ''The connection is in autoCommit mode'') else sret ())"

definition con_run :: "('n, 'r, 'p, 'd) nlink \<Rightarrow> string \<Rightarrow> ('n connection, unit) sop" where
  "con_run link sql = sbind (con_statement (st_execute (nl_conn link) sql)) (\<lambda>_. sret ())"

definition con_setSchema :: "('n, 'r, 'p, 'd) nlink \<Rightarrow> string \<Rightarrow> ('n connection, unit) sop" where
  "con_setSchema link catalog = sthen con_checkClosed (con_run link (''USE `'' @ catalog @ ''`''))"

definition con_getSchema :: "('n, 'r, 'p, 'd) nlink \<Rightarrow> ('n connection, string) sop" where
  "con_getSchema link =
     sthen con_checkClosed
       (sbind (con_statement (st_executeQuery (nl_conn link) (nl_result link) ''SELECT DATABASE()'')) (\<lambda>rset c.
          (fst (sthen (rs_next (nl_result link)) (rs_getString (nl_result link) 1) rset), c)))"

text \<open>A savepoint is its name.\<close>

definition con_setSavepoint :: "('n, 'r, 'p, 'd) nlink \<Rightarrow> string \<Rightarrow> ('n connection, string) sop" where
  "con_setSavepoint link name =
     sthen con_checkClosed (sthen not_autocommit
       (if name = [] then sthrow (Sql_invalid_argument ''Savepoint name cannot be empty string'')
        else sthen (con_run link (''SAVEPOINT '' @ name)) (sret name)))"

definition con_releaseSavepoint :: "('n, 'r, 'p, 'd) nlink \<Rightarrow> string \<Rightarrow> ('n connection, unit) sop" where
  "con_releaseSavepoint link savepoint =
     sthen con_checkClosed (sbind (con_ask (nl_server_version link)) (\<lambda>v.
       if v < 50001 then sthrow (Not_implemented ''releaseSavepoint not available in this server version'')
       else sthen not_autocommit (con_run link (''RELEASE SAVEPOINT '' @ savepoint))))"

definition con_rollback_to :: "('n, 'r, 'p, 'd) nlink \<Rightarrow> string \<Rightarrow> ('n connection, unit) sop" where
  "con_rollback_to link savepoint =
     sthen con_checkClosed (sthen not_autocommit (con_run link (''ROLLBACK TO SAVEPOINT '' @ savepoint)))"

definition getSavepointId :: "string \<Rightarrow> nat res" where
  "getSavepointId savepoint = Inl (Sql_invalid_argument ''Only named savepoints are supported.'')"

text \<open>The level is recorded before the server has accepted it. \<open>fuel\<close> bounds the results of the update.\<close>

definition isolation_query :: "isolation \<Rightarrow> string option" where
  "isolation_query level =
     (case level of
        TRANSACTION_SERIALIZABLE \<Rightarrow> Some ''SET SESSION TRANSACTION ISOLATION LEVEL SERIALIZABLE''
      | TRANSACTION_REPEATABLE_READ \<Rightarrow> Some ''SET SESSION TRANSACTION ISOLATION LEVEL REPEATABLE READ''
      | TRANSACTION_READ_COMMITTED \<Rightarrow> Some ''SET SESSION TRANSACTION ISOLATION LEVEL READ COMMITTED''
      | TRANSACTION_READ_UNCOMMITTED \<Rightarrow> Some ''SET SESSION TRANSACTION ISOLATION LEVEL READ UNCOMMITTED''
      | TRANSACTION_NONE \<Rightarrow> None)"

definition con_setTransactionIsolation :: "nat \<Rightarrow> ('n, 'r, 'p, 'd) nlink \<Rightarrow> isolation \<Rightarrow> ('n connection, unit) sop" where
  "con_setTransactionIsolation fuel link level =
     sthen con_checkClosed
       (case isolation_query level of
          None \<Rightarrow> sthrow (Sql_invalid_argument ''MySQL_Connection::setTransactionIsolation()'')
        | Some q \<Rightarrow> sthen (smod (\<lambda>c. c\<lparr>c_isolation := level\<rparr>))
            (sbind (con_service (st_executeUpdate fuel (nl_conn link) q)) (\<lambda>_. sret ())))"

definition con_getTransactionIsolation :: "('n connection, isolation) sop" where
  "con_getTransactionIsolation = sthen con_checkClosed (sget c_isolation)"

section \<open>Session variables\<close>

text \<open>\<^verbatim>\<open>!strncasecmp(varname.c_str(), "sql_mode", 8)\<close>, and an unsigned number printed to a stream.\<close>

definition ascii_lower :: "char \<Rightarrow> char" where
  "ascii_lower c = (if 65 \<le> (of_char c :: nat) \<and> (of_char c :: nat) \<le> 90 then char_of ((of_char c :: nat) + 32) else c)"

definition is_sql_mode :: "string \<Rightarrow> bool" where
  "is_sql_mode varname \<longleftrightarrow> map ascii_lower (take 8 (takeWhile (\<lambda>c. c \<noteq> CHR 0x00) varname)) = ''sql_mode''"

definition con_getSessionVariable :: "('n, 'r, 'p, 'd) nlink \<Rightarrow> string \<Rightarrow> ('n connection, string) sop" where
  "con_getSessionVariable link varname =
     sthen con_checkClosed
       (sif (\<lambda>c. c_cache_sql_mode c \<and> c_sql_mode_set c \<and> varname = ''sql_mode'') (sget c_sql_mode)
         (sbind (con_service (st_executeQuery (nl_conn link) (nl_result link)
                  (''SHOW SESSION VARIABLES LIKE '' @ [squote] @ varname @ [squote]))) (\<lambda>rset c.
            case rs_next (nl_result link) rset of
              (Inl e, _) \<Rightarrow> (Inl e, c)
            | (Inr False, _) \<Rightarrow> (Inr [], c)
            | (Inr True, rset1) \<Rightarrow>
                (if c_cache_sql_mode c \<and> \<not> c_sql_mode_set c \<and> varname = ''sql_mode'' then
                   (case rs_getString (nl_result link) 2 rset1 of
                      (Inl e, _) \<Rightarrow> (Inl e, c)
                    | (Inr v, rset2) \<Rightarrow>
                        (fst (rs_getString (nl_result link) 2 rset2), c\<lparr>c_sql_mode := v, c_sql_mode_set := True\<rparr>))
                 else (fst (rs_getString (nl_result link) 2 rset1), c)))))"

definition con_setSessionVariable :: "nat \<Rightarrow> ('n, 'r, 'p, 'd) nlink \<Rightarrow> string \<Rightarrow> string \<Rightarrow> ('n connection, unit) sop" where
  "con_setSessionVariable fuel link varname v =
     sthen con_checkClosed
       (sthen (sbind (con_service (st_executeUpdate fuel (nl_conn link)
                  (''SET SESSION '' @ varname @ ''='' @ (if v = ''NULL'' then ''NULL'' else [squote] @ v @ [squote])))) (\<lambda>_. sret ()))
         (smod (\<lambda>c. if c_cache_sql_mode c \<and> is_sql_mode varname then c\<lparr>c_sql_mode := v\<rparr> else c)))"

definition con_setSessionVariable_uint :: "nat \<Rightarrow> ('n, 'r, 'p, 'd) nlink \<Rightarrow> string \<Rightarrow> nat \<Rightarrow> ('n connection, unit) sop" where
  "con_setSessionVariable_uint fuel link varname v =
     sthen con_checkClosed
       (sbind (con_service (st_executeUpdate fuel (nl_conn link)
          (''SET SESSION '' @ varname @ ''='' @ (if v = 0 then ''0'' else udec v)))) (\<lambda>_. sret ()))"

definition con_setClientOption :: "nat \<Rightarrow> ('n, 'r, 'p, 'd) nlink \<Rightarrow> string \<Rightarrow> string \<Rightarrow> ('n connection, unit) sop" where
  "con_setClientOption fuel link optionName optionValue =
     (if optionName = ''characterSetResults'' then con_setSessionVariable fuel link ''character_set_results'' optionValue
      else sret ())"

text \<open>\<^verbatim>\<open>setQueryTimeout\<close> of a statement goes through its connection; the statement is not changed.\<close>

definition st_setQueryTimeout :: "nat \<Rightarrow> ('n, 'r, 'p, 'd) nlink \<Rightarrow> 'n stmt \<Rightarrow> nat \<Rightarrow> ('n connection, unit) sop" where
  "st_setQueryTimeout fuel link stmt timeout =
     (\<lambda>c. case st_checkClosed stmt of (Inl e, _) \<Rightarrow> (Inl e, c)
      | (Inr _, _) \<Rightarrow> con_setSessionVariable_uint fuel link ''max_statement_time'' timeout c)"

text \<open>
  \<^verbatim>\<open>getQueryTimeout\<close> reads the variable as an unsigned number from a stream: without digits and out of range
  the result is zero, a negative number wraps around.
\<close>

definition read_uint :: "string \<Rightarrow> nat" where
  "read_uint s = (case strtol10 s of None \<Rightarrow> 0 | Some i \<Rightarrow> if \<bar>i\<bar> > 2 ^ 32 - 1 then 0 else nat (i mod 2 ^ 32))"

definition st_getQueryTimeout :: "('n, 'r, 'p, 'd) nlink \<Rightarrow> 'n stmt \<Rightarrow> ('n connection, nat) sop" where
  "st_getQueryTimeout link stmt =
     (\<lambda>c. case st_checkClosed stmt of (Inl e, _) \<Rightarrow> (Inl e, c)
      | (Inr _, _) \<Rightarrow> sbind (con_getSessionVariable link ''max_statement_time'')
          (\<lambda>v. sret (if length v > 0 then read_uint v else 0)) c)"

text \<open>The methods that only throw.\<close>

definition con_isReadOnly :: "('n connection, bool) sop" where
  "con_isReadOnly = sthen con_checkClosed (sthrow (Not_implemented ''MySQL_Connection::isReadOnly''))"

definition con_setHoldability :: "int \<Rightarrow> ('n connection, unit) sop" where
  "con_setHoldability x = sthrow (Not_implemented ''MySQL_Connection::setHoldability()'')"

definition con_setReadOnly :: "bool \<Rightarrow> ('n connection, unit) sop" where
  "con_setReadOnly x = sthrow (Not_implemented ''MySQL_Connection::setReadOnly()'')"

definition con_setSavepoint_unnamed :: "('n connection, string) sop" where
  "con_setSavepoint_unnamed =
     sthen con_checkClosed (sthrow (Not_implemented ''Please use MySQL_Connection::setSavepoint(const sql::SQLString& name)''))"

definition con_prepareStatement_keys :: "string \<Rightarrow> int \<Rightarrow> ('n connection, ('p, 'd) pstmt) sop" where
  "con_prepareStatement_keys sql keys =
     sthen con_checkClosed (sthrow (Not_implemented
       ''MySQL_Connection::prepareStatement(const sql::SQLString& sql, int autoGeneratedKeys)''))"

definition con_prepareStatement_indexes :: "string \<Rightarrow> int list \<Rightarrow> ('n connection, ('p, 'd) pstmt) sop" where
  "con_prepareStatement_indexes sql columnIndexes =
     sthen con_checkClosed (sthrow (Not_implemented
       ''MySQL_Connection::prepareStatement(const sql::SQLString& sql, int* columnIndexes)''))"

definition con_prepareStatement_typed :: "string \<Rightarrow> int \<Rightarrow> int \<Rightarrow> ('n connection, ('p, 'd) pstmt) sop" where
  "con_prepareStatement_typed sql kind concurrency =
     sthen con_checkClosed (sthrow (Not_implemented
       ''MySQL_Connection::prepareStatement(const sql::SQLString& sql, int resultSetType, int resultSetConcurrency)''))"

definition con_prepareStatement_held :: "string \<Rightarrow> int \<Rightarrow> int \<Rightarrow> int \<Rightarrow> ('n connection, ('p, 'd) pstmt) sop" where
  "con_prepareStatement_held sql kind concurrency holdability =
     sthen con_checkClosed (sthrow (Not_implemented
       ''MySQL_Connection::prepareStatement(const sql::SQLString& sql, int resultSetType, int resultSetConcurrency, int resultSetHoldability)''))"

definition con_prepareStatement_names :: "string \<Rightarrow> string list \<Rightarrow> ('n connection, ('p, 'd) pstmt) sop" where
  "con_prepareStatement_names sql columnNames =
     sthen con_checkClosed (sthrow (Not_implemented
       ''MySQL_Connection::prepareStatement(const sql::SQLString& sql, sql::SQLString columnNames[])''))"

end
