(* ===== verification/Update_Results.thy ===== *)
theory Update_Results
  imports Statement Row_Access
begin

text \<open>
  Queries of several statements: \<^verbatim>\<open>executeUpdate\<close> walks through all results. The locale
  \<open>result_queue\<close> is what the client library promises of pending results: \<open>None\<close> stands for a result
  set, \<open>Some k\<close> for an update of \<open>k\<close> rows.
\<close>

section \<open>Pending results\<close>

locale result_queue =
  fixes api :: "('n, 'r) nconn" and pending :: "'n \<Rightarrow> nat option list"
  assumes fields: "pending n = x # xs \<Longrightarrow> nc_field_count api n = 0 \<longleftrightarrow> x \<noteq> None"
    and affected: "pending n = Some k # xs \<Longrightarrow> nc_affected_rows api n = k"
    and stored: "pending n = None # xs \<Longrightarrow> nc_store_result api n = (r, n') \<Longrightarrow> pending n' = pending n"
    and more: "pending n = x # xs \<Longrightarrow> nc_more_results api n \<longleftrightarrow> xs \<noteq> []"
    and advance: "pending n = x # y # ys \<Longrightarrow> \<exists>n'. nc_next_result api n = (0, n') \<and> pending n' = y # ys"
begin

text \<open>One result: a result set is dropped and remembered, an update count is kept.\<close>

lemma update_one_result:
  assumes "st_proxy s = Some n" "pending n = x # xs"
  shows "\<exists>t n'. update_one api got s = (Inr (got \<or> x = None), t) \<and> st_proxy t = Some n' \<and> pending n' = x # xs
    \<and> st_last_update_count t = (case x of None \<Rightarrow> st_last_update_count s | Some k \<Rightarrow> k)"
proof (cases x)
  case None
  obtain r n' where r: "nc_store_result api n = (r, n')" by fastforce
  with None assms fields [OF assms(2)] stored [OF _ r] show ?thesis
    by (auto simp: update_one_def st_ask_def st_call_def dirty_drop_rs_def)
next
  case (Some k)
  with assms fields [OF assms(2)] affected [of n k xs] show ?thesis
    by (auto simp: update_one_def st_ask_def st_call_def)
qed

lemma update_loop_results:
  assumes "st_proxy s = Some n" "pending n = x # xs" "length xs < fuel"
  shows "\<exists>t n'. update_loop fuel api got s =
      (if got \<or> None \<in> set (x # xs) then Inl (Sql_invalid_argument ''Statement returning result set'')
       else Inr (cast_int (the (last (x # xs)))), t)
    \<and> st_proxy t = Some n' \<and> pending n' = [last (x # xs)]"
  using assms
proof (induction fuel arbitrary: got s n x xs)
  case 0
  then show ?case by simp
next
  case (Suc fuel)
  obtain t n1 where t: "update_one api got s = (Inr (got \<or> x = None), t)" "st_proxy t = Some n1" "pending n1 = x # xs"
    "st_last_update_count t = (case x of None \<Rightarrow> st_last_update_count s | Some k \<Rightarrow> k)"
    using update_one_result [OF Suc.prems(1,2)] by blast
  show ?case
  proof (cases xs)
    case Nil
    with t more [OF t(3)] show ?thesis
      by (auto simp: st_ask_def st_call_def split: option.splits)
  next
    case (Cons y ys)
    from advance [of n1 x y ys] t(3) Cons obtain n2 where n2: "nc_next_result api n1 = (0, n2)" "pending n2 = y # ys" by auto
    let ?u = "t\<lparr>st_proxy := Some n2\<rparr>"
    have step: "update_loop (Suc fuel) api got s = update_loop fuel api (got \<or> x = None) ?u"
      using t(1,2) more [OF t(3)] Cons n2(1) by (simp add: st_ask_def st_call_def)
    have "length ys < fuel" using Suc.prems(3) Cons by simp
    from Suc.IH [of ?u n2 y ys "got \<or> x = None", OF _ n2(2) this] show ?thesis
      unfolding step using Cons by (auto simp: insert_commute)
  qed
qed

lemma executeUpdate_results:
  assumes "\<not> st_closed s" "st_proxy s = Some n" "nc_query api sql n = (False, n1)" "pending n1 = x # xs" "length xs < fuel"
  shows "\<exists>t n'. st_executeUpdate fuel api sql s =
      (if None \<in> set (x # xs) then Inl (Sql_invalid_argument ''Statement returning result set'')
       else Inr (cast_int (the (last (x # xs)))), t)
    \<and> st_proxy t = Some n' \<and> pending n' = [last (x # xs)]"
proof -
  let ?s = "s\<lparr>st_proxy := Some n1, st_warnings_count := nc_warning_count api n1, st_warnings_loaded := False\<rparr>"
  have "st_executeUpdate fuel api sql s = update_loop fuel api False ?s"
    using assms(1-3)
    by (simp add: st_executeUpdate_def st_do_query_def st_checkClosed_def st_lock_def st_ask_def st_call_def)
  with update_loop_results [of ?s n1 x xs fuel False] assms(4,5) show ?thesis by simp
qed

end

section \<open>A scripted connection\<close>

text \<open>A server that answers every query from a script, and logs the queries.\<close>

datatype sim_result = Sim_rows client | Sim_count nat

record sim_conn =
  sc_script :: "string \<Rightarrow> sim_result list option"  \<comment> \<open>\<open>None\<close>: an error\<close>
  sc_pending :: "sim_result list"
  sc_errno :: nat
  sc_log :: "string list"

fun sim_count :: "sim_result \<Rightarrow> nat option" where
  "sim_count (Sim_rows r) = None"
| "sim_count (Sim_count k) = Some k"

definition sim_query :: "string \<Rightarrow> sim_conn \<Rightarrow> bool \<times> sim_conn" where
  "sim_query q c =
     (case sc_script c q of
        None \<Rightarrow> (True, c\<lparr>sc_pending := [], sc_errno := 1064, sc_log := sc_log c @ [q]\<rparr>)
      | Some rs \<Rightarrow> (False, c\<lparr>sc_pending := rs, sc_errno := 0, sc_log := sc_log c @ [q]\<rparr>))"

definition sim_store :: "sim_conn \<Rightarrow> client option \<times> sim_conn" where
  "sim_store c = (case sc_pending c of Sim_rows r # _ \<Rightarrow> (Some r, c) | _ \<Rightarrow> (None, c))"

definition sim_next :: "sim_conn \<Rightarrow> int \<times> sim_conn" where
  "sim_next c = (case sc_pending c of _ # y # ys \<Rightarrow> (0, c\<lparr>sc_pending := y # ys\<rparr>) | _ \<Rightarrow> (- 1, c))"

definition sim_api :: "(sim_conn, client) nconn" where
  "sim_api =
     \<lparr>nc_query = sim_query, nc_errNo = sc_errno, nc_warning_count = (\<lambda>c. 0),
      nc_field_count = (\<lambda>c. case sc_pending c of Sim_rows r # _ \<Rightarrow> 1 + length (cl_fields r) | _ \<Rightarrow> 0),
      nc_affected_rows = (\<lambda>c. case sc_pending c of Sim_count k # _ \<Rightarrow> k | _ \<Rightarrow> no_update_count),
      nc_use_result = sim_store, nc_store_result = sim_store,
      nc_more_results = (\<lambda>c. length (sc_pending c) > 1), nc_next_result = sim_next\<rparr>"

interpretation sim: result_queue sim_api "\<lambda>c. map sim_count (sc_pending c)"
proof
  fix n :: sim_conn and x xs assume "map sim_count (sc_pending n) = x # xs"
  then obtain y ys where y: "sc_pending n = y # ys" "sim_count y = x" "map sim_count ys = xs" by auto
  show "nc_field_count sim_api n = 0 \<longleftrightarrow> x \<noteq> None" using y by (cases y) (auto simp: sim_api_def)
  show "nc_more_results sim_api n \<longleftrightarrow> xs \<noteq> []" using y by (auto simp: sim_api_def)
next
  fix n :: sim_conn and k xs assume "map sim_count (sc_pending n) = Some k # xs"
  then obtain y ys where "sc_pending n = y # ys" "sim_count y = Some k" by auto
  then show "nc_affected_rows sim_api n = k" by (cases y) (auto simp: sim_api_def)
next
  fix n n' :: sim_conn and xs r
  assume "map sim_count (sc_pending n) = None # xs" "nc_store_result sim_api n = (r, n')"
  then show "map sim_count (sc_pending n') = map sim_count (sc_pending n)"
    by (auto simp: sim_api_def sim_store_def split: list.splits sim_result.splits)
next
  fix n :: sim_conn and x y ys assume "map sim_count (sc_pending n) = x # y # ys"
  then obtain a b bs where "sc_pending n = a # b # bs" "sim_count b = y" "map sim_count bs = ys" by (auto simp: map_eq_Cons_conv)
  then show "\<exists>n'. nc_next_result sim_api n = (0, n') \<and> map sim_count (sc_pending n') = y # ys"
    by (simp add: sim_api_def sim_next_def)
qed

end
