(* ===== verification/Connection_Safety.thy ===== *)
theory Connection_Safety
  imports Connection Update_Results
begin

text \<open>
  The invariant of a connection (while it is valid, the client library's connection is there): the methods
  that ask first whether the connection is closed keep it and do not run into a null pointer.
\<close>

section \<open>Statements keep the connection\<close>

definition attached :: "'n stmt \<Rightarrow> bool" where
  "attached s \<longleftrightarrow> st_proxy s \<noteq> None"

lemma safe_st_call [safe_intros]: "safe attached (st_call f)"
  by (rule safeI) (auto simp: st_call_def attached_def split: option.splits prod.splits)

lemma safe_st_ask [safe_intros]: "safe attached (st_ask f)"
  unfolding st_ask_def by (rule safe_st_call)

lemma safe_st_throw [safe_intros]: "safe attached (st_throw_native api)"
  unfolding st_throw_native_def by (intro safe_intros) simp

lemma safe_st_checks [safe_intros]: "safe attached st_checkClosed" "safe attached st_lock" "safe attached st_forget_count"
  unfolding st_checkClosed_def st_lock_def st_forget_count_def by (intro safe_intros; simp add: attached_def)+

lemma safe_st_do_query [safe_intros]: "safe attached (st_do_query api q)"
  unfolding st_do_query_def by (intro safe_intros) (simp_all add: attached_def)

lemma safe_st_execute [safe_intros]: "safe attached (st_execute api q)"
  unfolding st_execute_def by (intro safe_intros) (simp add: attached_def)

lemma safe_st_get_resultset [safe_intros]: "safe attached (st_get_resultset api)"
proof -
  have "safe attached (case r of None \<Rightarrow> st_throw_native api | Some x \<Rightarrow> sret x)" for r
    by (cases r) (simp_all only: option.case, (intro safe_intros)+)
  then show ?thesis unfolding st_get_resultset_def by (intro safe_intros)
qed

lemma safe_st_executeQuery [safe_intros]: "safe attached (st_executeQuery api rapi q)"
  unfolding st_executeQuery_def by (intro safe_intros)

lemma safe_update_one [safe_intros]: "safe attached (update_one api got)"
  unfolding update_one_def dirty_drop_rs_def by (intro safe_intros) (simp add: attached_def)

lemma safe_update_loop [safe_intros]: "safe attached (update_loop fuel api got)"
proof (induction fuel arbitrary: got)
  case 0
  show ?case unfolding update_loop.simps by (intro safe_intros) simp
next
  case (Suc fuel)
  show ?case unfolding update_loop.simps by (intro safe_intros Suc.IH) simp_all
qed

lemma safe_st_executeUpdate [safe_intros]: "safe attached (st_executeUpdate fuel api q)"
  unfolding st_executeUpdate_def by (intro safe_intros)

section \<open>The invariant\<close>

definition con_wf :: "'n connection \<Rightarrow> bool" where
  "con_wf c \<longleftrightarrow> (c_valid c \<longrightarrow> c_proxy c \<noteq> None)"

definition con_open :: "'n connection \<Rightarrow> bool" where
  "con_open c \<longleftrightarrow> c_valid c \<and> c_proxy c \<noteq> None"

lemma safe_con_checked: "safe con_open m \<Longrightarrow> safe con_wf (sthen con_checkClosed m)"
  unfolding con_checkClosed_def by (rule safe_guarded [where J = con_open]) (auto simp: con_open_def con_wf_def)

lemma safe_con_check [safe_intros]: "safe con_open con_checkClosed"
  unfolding con_checkClosed_def by (rule safe_scheck) simp

lemma safe_con_call [safe_intros]: "safe con_open (con_call f)"
  by (rule safeI) (auto simp: con_call_def con_open_def split: option.splits prod.splits)

lemma safe_con_ask [safe_intros]: "safe con_open (con_ask f)"
  unfolding con_ask_def by (rule safe_con_call)

text \<open>A statement's method runs on the connection's state.\<close>

lemma safe_con_service [safe_intros]:
  assumes "safe attached m"
  shows "safe con_open (con_service m)"
proof (rule safeI)
  fix c :: "'a connection" assume c: "con_open c"
  obtain r t where rt: "m ((c_service c)\<lparr>st_proxy := c_proxy c\<rparr>) = (r, t)" by fastforce
  with safeD [OF assms _ rt] c show "con_open (snd (con_service m c)) \<and> fst (con_service m c) \<noteq> Inl Undefined_behaviour"
    by (simp add: con_service_def con_open_def attached_def)
qed

lemma safe_con_statement [safe_intros]:
  assumes "safe attached m"
  shows "safe con_open (con_statement m)"
proof (rule safeI)
  fix c :: "'a connection" assume c: "con_open c"
  obtain r t where rt: "m (new_Statement (c_proxy c) (c_stmt_type c)) = (r, t)" by fastforce
  have "attached (new_Statement (c_proxy c) (c_stmt_type c))" using c by (simp add: attached_def new_Statement_def con_open_def)
  from safeD [OF assms this rt] rt c
  show "con_open (snd (con_statement m c)) \<and> fst (con_statement m c) \<noteq> Inl Undefined_behaviour"
    by (simp add: con_statement_def con_createStatement_def con_checkClosed_def con_open_def attached_def)
qed

lemma con_open_upd [simp]:
  "con_open (c\<lparr>c_autocommit := a\<rparr>) = con_open c" "con_open (c\<lparr>c_isolation := i\<rparr>) = con_open c"
  "con_open (c\<lparr>c_warnings := w\<rparr>) = con_open c" "con_open (c\<lparr>c_sql_mode := v\<rparr>) = con_open c"
  "con_open (c\<lparr>c_sql_mode_set := b\<rparr>) = con_open c"
  by (simp_all add: con_open_def)

section \<open>Methods\<close>

lemma safe_not_autocommit [safe_intros]: "safe con_open not_autocommit"
  unfolding not_autocommit_def con_getAutoCommit_def by (intro safe_intros) simp

lemma safe_con_run [safe_intros]: "safe con_open (con_run link q)"
  unfolding con_run_def by (intro safe_intros)

lemma safe_transactions:
  "safe con_wf (con_commit link)" "safe con_wf (con_rollback link)" "safe con_wf (con_setAutoCommit link b)"
  unfolding con_commit_def con_rollback_def con_setAutoCommit_def
  by (intro safe_con_checked safe_intros; simp)+

lemma safe_savepoints:
  "safe con_wf (con_setSavepoint link name)" "safe con_wf (con_releaseSavepoint link name)"
  "safe con_wf (con_rollback_to link name)" "safe con_wf (con_setSchema link name)"
  unfolding con_setSavepoint_def con_releaseSavepoint_def con_rollback_to_def con_setSchema_def
  by (intro safe_con_checked safe_intros; simp)+

lemma safe_isolation: "safe con_wf (con_setTransactionIsolation fuel link level)"
proof -
  have "safe con_open (case isolation_query level of
      None \<Rightarrow> sthrow (Sql_invalid_argument ''MySQL_Connection::setTransactionIsolation()'')
    | Some q \<Rightarrow> sthen (smod (\<lambda>c. c\<lparr>c_isolation := level\<rparr>))
        (sbind (con_service (st_executeUpdate fuel (nl_conn link) q)) (\<lambda>_. sret ())))"
    by (cases "isolation_query level") (simp_all only: option.case, (intro safe_intros; simp)+)
  then show ?thesis unfolding con_setTransactionIsolation_def by (rule safe_con_checked)
qed

lemma safe_set_variables:
  "safe con_wf (con_setSessionVariable fuel link varname v)" "safe con_wf (con_setSessionVariable_uint fuel link varname k)"
  unfolding con_setSessionVariable_def con_setSessionVariable_uint_def
  by (intro safe_con_checked safe_intros; simp)+

lemma safe_liveness_checks: "safe con_wf (con_isValid link)" "safe con_wf (con_reconnect link)"
proof -
  have *: "safe con_wf (sif (\<lambda>c. \<not> c_valid c) (sret False) m)" if "safe con_open m" for m :: "('a connection, bool) sop"
    using that by (auto simp: safe_def con_wf_def con_open_def)
  show "safe con_wf (con_isValid link)" "safe con_wf (con_reconnect link)"
    unfolding con_isValid_def con_reconnect_def by (intro * safe_intros)+
qed

lemma safe_con_close: "safe con_wf con_close"
  by (rule safeI) (auto simp: con_close_def con_checkClosed_def con_clearWarnings_def con_wf_def)

lemma safe_con_getWarnings: "safe con_wf (con_getWarnings fuel link)"
  by (rule safeI)
    (auto simp: con_getWarnings_def con_load_warnings_def con_checkClosed_def con_clearWarnings_def loadMysqlWarnings_def
      new_Statement_def con_wf_def)

lemma safe_prepare: "safe con_wf (con_prepareStatement link streams sql)"
proof -
  have "safe con_open (case p of None \<Rightarrow> sbind (con_ask (nc_errNo (nl_conn link))) (\<lambda>e. sthrow (Native_error e))
    | Some q \<Rightarrow> (case nl_prepare link sql q of (err, q') \<Rightarrow> if err then sthrow (Native_error (ns_errNo (nl_stmt link) q'))
        else sget (\<lambda>c. new_PreparedStatement (nl_stmt link) q' (c_ps_type c) streams)))" for p
    by (cases p) (simp_all only: option.case split: prod.split, (intro safe_intros allI impI; simp)+)
  then show ?thesis unfolding con_prepareStatement_def by (intro safe_con_checked safe_intros)
qed

text \<open>Methods that read a result: what the result set does is its own matter, the connection is kept.\<close>

lemma keeps_reads:
  "keeps con_wf (con_getSchema link)" "keeps con_wf (con_getSessionVariable link varname)"
proof -
  have q: "con_open (snd (con_statement (st_executeQuery api rapi sql) c))"
    "con_open (snd (con_service (st_executeQuery api rapi sql) c))"
    if "con_open c" for api :: "('a, 'b) nconn" and rapi sql c
    by (rule safe_snd [OF safe_con_statement [OF safe_st_executeQuery] that])
      (rule safe_snd [OF safe_con_service [OF safe_st_executeQuery] that])
  show "keeps con_wf (con_getSchema link)"
    unfolding keeps_def con_getSchema_def con_checkClosed_def
    using q(1) by (auto simp: con_wf_def con_open_def split: prod.split sum.split) (metis snd_conv)+
  show "keeps con_wf (con_getSessionVariable link varname)"
    unfolding keeps_def con_getSessionVariable_def con_checkClosed_def
    using q(2) by (auto simp: con_wf_def con_open_def split: prod.split sum.split bool.split) (metis snd_conv)+
qed

text \<open>
  The level is recorded before the statement is run: when the server rejects the change, the exception
  leaves the rejected level as the reported one.
\<close>

lemma rejected_isolation:
  assumes "c_valid c" "c_proxy c = Some n" "\<not> st_closed (c_service c)" "isolation_query level = Some q"
    and "nc_query (nl_conn link) q n = (True, n')" "nc_errNo (nl_conn link) n' = e" "e \<noteq> 0"
  shows "\<exists>c'. con_setTransactionIsolation fuel link level c = (Inl (Native_error e), c')
    \<and> con_getTransactionIsolation c' = (Inr level, c')"
  using assms
  by (simp add: con_setTransactionIsolation_def con_checkClosed_def con_service_def st_executeUpdate_def st_do_query_def
      st_checkClosed_def st_lock_def st_ask_def st_call_def con_getTransactionIsolation_def)

end
