(* ===== verification/Statement_Safety.thy ===== *)
theory Statement_Safety
  imports Prepared_Statement
begin

text \<open>
  Ownership through the life of a prepared statement: whatever sequence of calls a client makes, no
  call touches freed memory or a closed connection, and the destructor frees every long string
  exactly once.
\<close>

section \<open>The invariant\<close>

definition ps_wf :: "('n, 'd) pstmt \<Rightarrow> bool" where
  "ps_wf s \<longleftrightarrow> pb_wf (ps_params s) \<and> pb_count (ps_params s) = ps_param_count s \<and> (ps_proxy s = None \<longrightarrow> ps_closed s)"

definition ps_open :: "('n, 'd) pstmt \<Rightarrow> bool" where
  "ps_open s \<longleftrightarrow> ps_wf s \<and> ps_proxy s \<noteq> None \<and> \<not> ps_closed s"

lemma new_PreparedStatement_wf: "ps_wf (new_PreparedStatement api n kind streams)"
  by (simp add: ps_wf_def new_PreparedStatement_def new_ParamBind_wf) (simp add: new_ParamBind_def)

lemma ps_open_upd [simp]:
  "ps_open (s\<lparr>ps_warnings_loaded := a\<rparr>) = ps_open s" "ps_open (s\<lparr>ps_warnings_count := b\<rparr>) = ps_open s"
  "ps_open (s\<lparr>ps_warnings := c\<rparr>) = ps_open s" "ps_open (s\<lparr>ps_streams := d\<rparr>) = ps_open s"
  by (simp_all add: ps_open_def ps_wf_def)

text \<open>Methods that start with \<^verbatim>\<open>checkClosed\<close>.\<close>

lemma safe_checked: "safe ps_open m \<Longrightarrow> safe ps_wf (sthen ps_checkClosed m)"
  unfolding ps_checkClosed_def by (rule safe_guarded [where J = ps_open]) (auto simp: ps_open_def ps_wf_def)

lemma safe_open_check [safe_intros]: "safe ps_open ps_checkClosed"
  unfolding ps_checkClosed_def by (rule safe_scheck) simp

section \<open>Calls of the client library\<close>

lemma safe_call [safe_intros]: "safe ps_open (ps_call f)"
  by (rule safeI) (auto simp: ps_call_def ps_open_def ps_wf_def split: option.splits prod.splits)

lemma safe_ask [safe_intros]: "safe ps_open (ps_ask f)"
  unfolding ps_ask_def by (rule safe_call)

lemma safe_throw_native [safe_intros]: "safe ps_open (ps_throw_native api)"
  unfolding ps_throw_native_def by (intro safe_intros) simp

lemma safe_send_chunk [safe_intros]: "safe ps_open (send_chunk api pos c)"
  unfolding send_chunk_def send_failed_def by (intro safe_intros) simp_all

lemma safe_send_string: "safe ps_open (send_string fuel api pos str sent)"
proof (induction fuel arbitrary: sent)
  case 0
  show ?case unfolding send_string.simps by (rule safe_sthrow) simp
next
  case (Suc fuel)
  then show ?case unfolding send_string.simps Let_def by (intro safe_intros)
qed

lemma safe_send_stream: "safe ps_open (send_stream api pos p)"
proof -
  have "ps_open (snd (send_stream_loop api pos p i s)) \<and> fst (send_stream_loop api pos p i s) \<noteq> Inl Undefined_behaviour"
    if "ps_open s" for i s
    using that
  proof (induction api pos p i s rule: send_stream_loop.induct)
    case (1 api pos p i s)
    show ?case
    proof (cases "is_eof i")
      case True
      with "1.prems" show ?thesis by (subst (1 2) send_stream_loop.simps) simp
    next
      case False
      obtain buf j where bj: "is_read MAX_SEND_LONGDATA_BUFFER i = (buf, j)" by fastforce
      let ?s = "s\<lparr>ps_streams := (ps_streams s)(p := j)\<rparr>"
      obtain r t where rt: "send_chunk api pos buf ?s = (r, t)" by fastforce
      have t: "ps_open t" "r \<noteq> Inl Undefined_behaviour"
        using safeD [OF safe_send_chunk, OF _ rt] "1.prems" by simp_all
      show ?thesis
        using False bj rt t "1.prems" "1.IH" [OF False bj [symmetric] refl _ _ rt [symmetric]]
        by (subst (1 2) send_stream_loop.simps) (auto simp: Let_def split: sum.splits)
    qed
  qed
  then show ?thesis unfolding send_stream_def by (intro safeI)
qed

lemma blob_alive: "pb_wf p \<Longrightarrow> pb_getBlobObject i p = Blob_string (Some a) \<Longrightarrow> a \<in> dom (pb_heap p)"
  using wf_alive [of p i a] by (auto simp: pb_getBlobObject_def split: option.splits)

lemma safe_send_params: "safe ps_open (send_params fuel api i k)"
proof (induction k arbitrary: i)
  case 0
  show ?case unfolding send_params.simps by (rule safe_sret)
next
  case (Suc k)
  have "ps_open (snd (send_blob fuel api i (pb_getBlobObject i (ps_params s)) s))
      \<and> fst (send_blob fuel api i (pb_getBlobObject i (ps_params s)) s) \<noteq> Inl Undefined_behaviour"
    if s: "ps_open s" for s
  proof -
    have "\<exists>str. pb_heap (ps_params s) a = Some str" if "pb_getBlobObject i (ps_params s) = Blob_string (Some a)" for a
      using blob_alive [OF _ that] s by (auto simp: ps_open_def ps_wf_def)
    with s safe_send_string [of fuel api i _ 0] safe_send_stream [of api i] show ?thesis
      by (auto simp: send_blob_def safe_def split: blob.splits option.splits)
  qed
  then have "safe ps_open (\<lambda>s. send_blob fuel api i (pb_getBlobObject i (ps_params s)) s)" by (intro safeI)
  with Suc show ?case unfolding send_params.simps by (intro safe_intros)
qed

lemma safe_do_query [safe_intros]: "safe ps_open (ps_do_query fuel api)"
proof -
  have "safe ps_open (sendLongDataBeforeParamBind fuel api)"
    using safe_send_params unfolding sendLongDataBeforeParamBind_def safe_def by blast
  moreover have "safe ps_open (\<lambda>s. sbind (ps_call (ns_bind_param api (pb_bind (ps_params s))))
      (\<lambda>err. if err then ps_throw_native api else sret ()) s)"
  proof -
    have "safe ps_open (sbind (ps_call (ns_bind_param api x)) (\<lambda>err. if err then ps_throw_native api else sret ()))" for x
      by (intro safe_intros)
    then show ?thesis unfolding safe_def by blast
  qed
  ultimately show ?thesis
    unfolding ps_do_query_def by (intro safe_intros) simp_all
qed

section \<open>Setters\<close>

text \<open>An operation on the parameters that keeps their invariant and number.\<close>

lemma on_params_open:
  assumes "ps_open s" "m (ps_params s) = (Inr x, p)" "pb_wf p" "pb_count p = pb_count (ps_params s)"
  shows "on_params m s = (Inr x, s\<lparr>ps_params := p\<rparr>) \<and> ps_open (s\<lparr>ps_params := p\<rparr>)"
  using assms by (simp add: on_params_def ps_open_def ps_wf_def)

lemma pb_bind_upd_wf: "pb_wf s \<Longrightarrow> length y = pb_count s \<Longrightarrow> pb_wf (s\<lparr>pb_bind := y\<rparr>)"
  unfolding pb_wf_def owns_def by simp

lemma pb_set_upd_wf:
  assumes "pb_wf s" "i < pb_count s"
  shows "pb_wf (s\<lparr>pb_set := (pb_set s)[i := True]\<rparr>)"
proof -
  have "pb_set s ! j \<Longrightarrow> (pb_set s)[i := True] ! j" for j
    using assms wf_lengths(2) [OF assms(1)] by (cases "j = i") auto
  with assms show ?thesis unfolding pb_wf_def owns_def by simp
qed

definition stored :: "nat \<Rightarrow> ('d bind \<Rightarrow> 'd bind) \<Rightarrow> 'd param_bind \<Rightarrow> 'd param_bind" where
  "stored i f s = s\<lparr>pb_set := (pb_set s)[i := True], pb_bind := (pb_bind s)[i := f (pb_bind s ! i)]\<rparr>"

lemma pb_store_wf:
  assumes "pb_wf s" "i < pb_count s"
  shows "pb_store i f s = (Inr (), stored i f s)" "pb_wf (stored i f s)" "pb_count (stored i f s) = pb_count s"
proof -
  show "pb_store i f s = (Inr (), stored i f s)" "pb_count (stored i f s) = pb_count s"
    using assms(2) by (simp_all add: pb_store_def pb_mark_def pb_in_def stored_def)
  show "pb_wf (stored i f s)"
    using pb_bind_upd_wf [OF pb_set_upd_wf [OF assms], of "(pb_bind s)[i := f (pb_bind s ! i)]"] wf_lengths(1) [OF assms(1)]
    by (simp add: stored_def)
qed

definition resetted :: "nat \<Rightarrow> 'd param_bind \<Rightarrow> 'd param_bind" where
  "resetted i s = dropped i (replaced i (Blob_stream None) False s)"

lemma pb_reset_wf:
  assumes "pb_wf s" "i < pb_count s"
  shows "pb_reset i s = (Inr (), resetted i s)" "pb_wf (resetted i s)" "pb_count (resetted i s) = pb_count s"
proof -
  let ?t = "replaced i (Blob_stream None) False s"
  have n: "not_string (Some (Blob_stream None))" by (simp add: not_string_def)
  have c: "i < pb_count ?t" using assms(2) by (simp add: replaced_def)
  note t = setBlob_wf [OF assms n, of False] and u = unset_wf [OF setBlob_wf(2) [OF assms n, of False] c]
  show "pb_reset i s = (Inr (), resetted i s)" "pb_wf (resetted i s)"
    using t(1) u by (simp_all add: pb_reset_def resetted_def)
  show "pb_count (resetted i s) = pb_count s" by (simp add: resetted_def dropped_def replaced_def)
qed

text \<open>What a setter of a plain value leaves in the parameters.\<close>

definition set_value :: "nat \<Rightarrow> ('d bind \<Rightarrow> 'd bind) \<Rightarrow> 'd param_bind \<Rightarrow> 'd param_bind" where
  "set_value i f s = stored i f (resetted i s)"

lemma set_value_wf:
  assumes "pb_wf s" "i < pb_count s"
  shows "pb_wf (set_value i f s)" "pb_count (set_value i f s) = pb_count s"
  using pb_store_wf [OF pb_reset_wf(2) [OF assms], of i f] pb_reset_wf(3) [OF assms] assms(2)
  by (simp_all add: set_value_def)

lemma set_open:
  assumes "ps_open s" "1 \<le> i" "i \<le> ps_param_count s" "allocate_buffer_for_type t = Inr n"
  shows "ps_set name i t f s = (Inr (), s\<lparr>ps_params := set_value (i - 1) f (ps_params s)\<rparr>)"
    and "ps_open (s\<lparr>ps_params := set_value (i - 1) f (ps_params s)\<rparr>)"
proof -
  have p: "pb_wf (ps_params s)" "i - 1 < pb_count (ps_params s)" "\<not> ps_closed s"
    using assms(1-3) by (auto simp: ps_open_def ps_wf_def)
  note r = pb_reset_wf [OF p(1,2)] and v = set_value_wf [OF p(1,2), of f]
  have "pb_store (i - 1) f (resetted (i - 1) (ps_params s)) = (Inr (), set_value (i - 1) f (ps_params s))"
    using pb_store_wf(1) [OF r(2)] r(3) p(2) by (simp add: set_value_def)
  with r(1) assms p show "ps_set name i t f s = (Inr (), s\<lparr>ps_params := set_value (i - 1) f (ps_params s)\<rparr>)"
    by (simp add: ps_set_def ps_index_guard_def ps_checkClosed_def on_params_def)
  show "ps_open (s\<lparr>ps_params := set_value (i - 1) f (ps_params s)\<rparr>)"
    using assms(1) v by (simp add: ps_open_def ps_wf_def)
qed

text \<open>A method guarded by the index check: out of range it throws and changes nothing.\<close>

lemma safe_index:
  assumes "\<And>s. ps_open s \<Longrightarrow> 1 \<le> i \<Longrightarrow> i \<le> ps_param_count s \<Longrightarrow> ps_open (snd (m s)) \<and> fst (m s) \<noteq> Inl Undefined_behaviour"
  shows "safe ps_wf (sthen (ps_index_guard name i) m)"
  unfolding ps_index_guard_def sthen_assoc
  using assms by (intro safe_checked safeI) (auto simp: Suc_le_eq)

lemma safe_index_params:
  assumes "\<And>p. pb_wf p \<Longrightarrow> i - 1 < pb_count p \<Longrightarrow> \<exists>q. m p = (Inr (), q) \<and> pb_wf q \<and> pb_count q = pb_count p"
  shows "safe ps_wf (sthen (ps_index_guard name i) (on_params m))"
proof -
  have "ps_open (snd (on_params m s)) \<and> fst (on_params m s) \<noteq> Inl Undefined_behaviour"
    if s: "ps_open s" "1 \<le> i" "i \<le> ps_param_count s" for s
  proof -
    have "pb_wf (ps_params s)" "i - 1 < pb_count (ps_params s)" using s by (auto simp: ps_open_def ps_wf_def)
    then obtain q where q: "m (ps_params s) = (Inr (), q)" "pb_wf q" "pb_count q = pb_count (ps_params s)"
      using assms by blast
    from on_params_open [where m = m, OF s(1) q] show ?thesis by auto
  qed
  from safe_index [OF this] show ?thesis .
qed

lemma on_params_sthen: "on_params (sthen a b) = sthen (on_params a) (on_params b)"
  by (rule ext) (simp add: on_params_def split: prod.splits sum.splits)

lemma ps_set_eq:
  "allocate_buffer_for_type t = Inr n \<Longrightarrow>
     ps_set name i t f = sthen (ps_index_guard name i) (on_params (sthen (pb_reset (i - 1)) (pb_store (i - 1) f)))"
  by (simp add: ps_set_def on_params_sthen)

lemma safe_set:
  assumes "allocate_buffer_for_type t = Inr n"
  shows "safe ps_wf (ps_set name i t f)"
  unfolding ps_set_eq [OF assms]
proof (rule safe_index_params)
  show "\<exists>q. sthen (pb_reset (i - 1)) (pb_store (i - 1) f) p = (Inr (), q) \<and> pb_wf q \<and> pb_count q = pb_count p"
    if "pb_wf p" "i - 1 < pb_count p" for p
    using pb_reset_wf [OF that] pb_store_wf [OF pb_reset_wf(2) [OF that], of "i - 1" f] that(2) by simp
qed

lemma allocate_ok:
  "allocate_buffer_for_type MYSQL_TYPE_LONG = Inr 4" "allocate_buffer_for_type MYSQL_TYPE_DOUBLE = Inr 8"
  "allocate_buffer_for_type MYSQL_TYPE_LONGLONG = Inr 8" "allocate_buffer_for_type MYSQL_TYPE_NULL = Inr 0"
  "allocate_buffer_for_type MYSQL_TYPE_STRING = Inr 0"
  by (simp_all add: allocate_buffer_for_type_def)

lemma setNull_eq: "ps_setNull i = ps_set ''setNull'' i MYSQL_TYPE_NULL (\<lambda>b. b\<lparr>b_type := MYSQL_TYPE_NULL, b_buffer := None, b_length := None\<rparr>)"
  by (simp add: ps_setNull_def ps_set_def allocate_ok)

lemma safe_setters:
  "safe ps_wf (ps_setDouble i d)" "safe ps_wf (ps_setInt i v)" "safe ps_wf (ps_setUInt i v)"
  "safe ps_wf (ps_setInt64 i w)" "safe ps_wf (ps_setUInt64 i w)" "safe ps_wf (ps_setBoolean i b)" "safe ps_wf (ps_setNull i)"
  unfolding ps_setDouble_def ps_setInt_def ps_setUInt_def ps_setInt64_def ps_setUInt64_def ps_setBoolean_def setNull_eq
  by (rule safe_set, rule allocate_ok)+

lemma safe_setBlob: "safe ps_wf (ps_setBlob i p)"
  unfolding ps_setBlob_def
proof (rule safe_index_params)
  show "\<exists>q. pb_setBlob (i - 1) (Blob_stream p) False s = (Inr (), q) \<and> pb_wf q \<and> pb_count q = pb_count s"
    if "pb_wf s" "i - 1 < pb_count s" for s
    using setBlob_wf [OF that, of "Blob_stream p" False] by (simp add: not_string_def replaced_def)
qed

lemma setString_short:
  "\<not> length v > 256 * 1024 \<Longrightarrow> ps_setString i v = ps_set ''setString'' i MYSQL_TYPE_STRING (\<lambda>b. b\<lparr>b_type := MYSQL_TYPE_STRING,
      b_buffer := Some (Buf_string v), b_buffer_length := length v + 1, b_is_null := False, b_length := Some (length v)\<rparr>)"
  by (simp add: ps_setString_def ps_set_def allocate_ok)

lemma setString_long:
  "length v > 256 * 1024 \<Longrightarrow> ps_setString i v = sthen (ps_index_guard ''setString'' i) (on_params (pb_own_string (i - 1) v))"
  by (simp add: ps_setString_def)

lemma own_string_wf:
  "pb_wf s \<Longrightarrow> i < pb_count s \<Longrightarrow> \<exists>q. pb_own_string i v s = (Inr (), q) \<and> pb_wf q \<and> pb_count q = pb_count s"
  using own_string_eq [of s i v] acquired_wf [of s i v] by (simp add: acquired_def)

lemma safe_setString: "safe ps_wf (ps_setString i v)"
proof (cases "length v > 256 * 1024")
  case True
  show ?thesis unfolding setString_long [OF True] by (rule safe_index_params, rule own_string_wf)
next
  case False
  show ?thesis unfolding setString_short [OF False] by (rule safe_set [OF allocate_ok(5)])
qed

section \<open>Execution, warnings, closing\<close>

lemma safe_clear [safe_intros]: "safe ps_open (on_params pb_clearParameters)"
proof -
  have "ps_open (snd (on_params pb_clearParameters s)) \<and> fst (on_params pb_clearParameters s) \<noteq> Inl Undefined_behaviour"
    if s: "ps_open s" for s
  proof -
    from s have "pb_wf (ps_params s)" by (simp add: ps_open_def ps_wf_def)
    then obtain p where p: "pb_clearParameters (ps_params s) = (Inr (), p)" "pb_wf p" "pb_count p = pb_count (ps_params s)"
      by (rule clearParameters_wf)
    from on_params_open [where m = pb_clearParameters, OF s p] show ?thesis by auto
  qed
  then show ?thesis by (rule safeI)
qed

lemma safe_open_result [safe_intros]: "safe ps_open (ps_getResultSet_open api)"
proof -
  have "safe ps_open (sbind (ps_call (ns_store_result api)) (\<lambda>err. if err then ps_throw_native api else sret TYPE_SCROLL_INSENSITIVE))"
    by (intro safe_intros)
  then show ?thesis
    unfolding ps_getResultSet_open_def by (intro safe_sthen safe_call safeI) (simp add: safe_def)
qed

lemma safe_clearParameters: "safe ps_wf ps_clearParameters"
  unfolding ps_clearParameters_def by (intro safe_checked safe_intros)

lemma safe_clearWarnings: "safe ps_wf ps_clearWarnings"
  unfolding ps_clearWarnings_def by (intro safe_checked safe_smod) simp

lemma safe_getWarnings:
  assumes "loaded \<noteq> Inl Undefined_behaviour"
  shows "safe ps_wf (ps_getWarnings loaded)"
proof -
  have "safe ps_open (case loaded of Inl e \<Rightarrow> sthrow e | Inr w \<Rightarrow> smod (\<lambda>s. s\<lparr>ps_warnings := w\<rparr>))"
    using assms by (cases loaded) (auto intro!: safe_sthrow safe_smod simp del: sthrow_apply smod_apply)
  then show ?thesis
    unfolding ps_getWarnings_def
    by (intro safe_checked safe_sthen safe_sif safe_smod safe_sret safe_sget) simp_all
qed

lemma safe_execute:
  "safe ps_wf (ps_execute fuel api)" "safe ps_wf (ps_executeUpdate fuel api)" "safe ps_wf (ps_executeQuery fuel api)"
  "safe ps_wf (ps_getResultSet api)"
  unfolding ps_execute_def ps_executeUpdate_def ps_executeQuery_def ps_getResultSet_def
  by (intro safe_checked safe_sthen safe_do_query safe_open_result safe_sbind safe_ask safe_sret)+

lemma safe_getMoreResults: "safe ps_wf (ps_getMoreResults api)"
  unfolding ps_getMoreResults_def
  by (intro safe_checked safe_sbind safe_if safe_ask safe_call safe_sret safe_throw_native safe_sthrow) simp

lemmas safe_methods = safe_clearParameters safe_clearWarnings safe_execute safe_getMoreResults

text \<open>Closing an open statement drops the library's statement first, then the parameters.\<close>

lemma closeIntern_open:
  assumes "pb_wf (ps_params s)" "\<not> ps_closed s" "pb_count (ps_params s) = ps_param_count s"
  shows "\<exists>t. ps_closeIntern s = (Inr (), t) \<and> ps_wf t \<and> ps_closed t \<and> pb_heap (ps_params t) = Map.empty"
proof -
  obtain p where p: "pb_clearParameters (ps_params s) = (Inr (), p)" "pb_wf p" "pb_count p = pb_count (ps_params s)"
    "pb_heap p = Map.empty"
    using assms(1) by (rule clearParameters_wf)
  have "ps_closeIntern s = (Inr (), s\<lparr>ps_proxy := None, ps_params := p, ps_warnings := [], ps_closed := True\<rparr>)"
    using assms(2) p(1)
    by (simp add: ps_closeIntern_def ps_clearParameters_def ps_clearWarnings_def ps_checkClosed_def on_params_def)
  with p assms show ?thesis by (simp add: ps_wf_def)
qed

lemma safe_close: "safe ps_wf ps_close"
proof (rule safeI)
  fix s :: "('a, 'b) pstmt" assume s: "ps_wf s"
  show "ps_wf (snd (ps_close s)) \<and> fst (ps_close s) \<noteq> Inl Undefined_behaviour"
  proof (cases "ps_closed s")
    case True
    with s show ?thesis by (simp add: ps_close_def ps_checkClosed_def)
  next
    case False
    with s closeIntern_open [of s] show ?thesis by (auto simp: ps_close_def ps_checkClosed_def ps_wf_def)
  qed
qed

section \<open>Sequences of calls\<close>

datatype 'd ps_op =
    Set_double nat 'd | Set_int nat "32 word" | Set_uint nat "32 word" | Set_int64 nat "64 word" | Set_uint64 nat "64 word"
  | Set_boolean nat bool | Set_null nat | Set_string nat string | Set_bigint nat string | Set_datetime nat string
  | Set_blob nat "nat option" | Clear_parameters | Clear_warnings | Get_warnings "string + sql_warning list" | Execute | Execute_update
  | Execute_query | Get_result_set | Get_more_results | Close

definition void :: "('s, 'a) sop \<Rightarrow> ('s, unit) sop" where
  "void m = sthen m (sret ())"

fun run_op :: "nat \<Rightarrow> ('n, 'd) nstmt \<Rightarrow> 'd ps_op \<Rightarrow> (('n, 'd) pstmt, unit) sop" where
  "run_op fuel api (Set_double i v) = ps_setDouble i v"
| "run_op fuel api (Set_int i v) = ps_setInt i v"
| "run_op fuel api (Set_uint i v) = ps_setUInt i v"
| "run_op fuel api (Set_int64 i v) = ps_setInt64 i v"
| "run_op fuel api (Set_uint64 i v) = ps_setUInt64 i v"
| "run_op fuel api (Set_boolean i v) = ps_setBoolean i v"
| "run_op fuel api (Set_null i) = ps_setNull i"
| "run_op fuel api (Set_string i v) = ps_setString i v"
| "run_op fuel api (Set_bigint i v) = ps_setBigInt i v"
| "run_op fuel api (Set_datetime i v) = ps_setDateTime i v"
| "run_op fuel api (Set_blob i p) = ps_setBlob i p"
| "run_op fuel api Clear_parameters = ps_clearParameters"
| "run_op fuel api Clear_warnings = ps_clearWarnings"
| "run_op fuel api (Get_warnings w) =
     void (ps_getWarnings (case w of Inl msg \<Rightarrow> Inl (Sql_exception msg) | Inr ws \<Rightarrow> Inr ws))"
| "run_op fuel api Execute = void (ps_execute fuel api)"
| "run_op fuel api Execute_update = void (ps_executeUpdate fuel api)"
| "run_op fuel api Execute_query = void (ps_executeQuery fuel api)"
| "run_op fuel api Get_result_set = void (ps_getResultSet api)"
| "run_op fuel api Get_more_results = void (ps_getMoreResults api)"
| "run_op fuel api Close = ps_close"

lemma safe_void: "safe I m \<Longrightarrow> safe I (void m)"
  unfolding void_def by (intro safe_intros)

lemma safe_run_op: "safe ps_wf (run_op fuel api op)"
  by (cases op) (simp_all add: safe_setters safe_setBlob safe_setString safe_methods safe_close safe_void safe_getWarnings
      ps_setBigInt_def ps_setDateTime_def split: sum.split)

text \<open>The states of a statement, from its construction, by calls that return or throw.\<close>

inductive statement_state :: "nat \<Rightarrow> ('n, 'd) nstmt \<Rightarrow> ('n, 'd) pstmt \<Rightarrow> bool" for fuel api where
  constructed: "statement_state fuel api (new_PreparedStatement api n kind streams)"
| called: "statement_state fuel api s \<Longrightarrow> run_op fuel api op s = (r, s') \<Longrightarrow> statement_state fuel api s'"

inductive_cases statement_stateE: "statement_state fuel api s"

lemma statement_state_wf: "statement_state fuel api s \<Longrightarrow> ps_wf s"
proof (induction rule: statement_state.induct)
  case constructed
  then show ?case by (rule new_PreparedStatement_wf)
next
  case (called s op r s')
  then show ?case using safeD [OF safe_run_op] by blast
qed

lemma delete_statement:
  assumes "ps_wf s"
  shows "\<exists>t. delete_PreparedStatement s = (Inr (), t) \<and> pb_heap (ps_params t) = Map.empty"
proof -
  have "\<exists>u. sif (\<lambda>s. \<not> ps_closed s) ps_closeIntern (sret ()) s = (Inr (), u) \<and> ps_wf u"
    using assms closeIntern_open [of s] by (auto simp: ps_wf_def)
  then obtain u where u: "sif (\<lambda>s. \<not> ps_closed s) ps_closeIntern (sret ()) s = (Inr (), u)" "ps_wf u" by blast
  then obtain p where "delete_ParamBind (ps_params u) = (Inr (), p)" "pb_heap p = Map.empty"
    using delete_ParamBind_wf [of "ps_params u"] by (auto simp: ps_wf_def)
  with u(1) show ?thesis by (simp add: delete_PreparedStatement_def on_params_def del: sif_apply)
qed

end
