(* ===== verification/Statement_Trace.thy ===== *)
theory Statement_Trace
  imports Statement_Safety
begin

text \<open>
  What the server receives: the value bound by a setter, and the calls an execution makes, in order.
  The locale \<open>accepting\<close> is the client library's statement as far as an execution without errors
  relies on it: every call is recorded and reports success.
\<close>

section \<open>Bound values\<close>

text \<open>How the client library reads an integer parameter: \<^verbatim>\<open>is_unsigned\<close> decides.\<close>

definition server_value :: "'d bind \<Rightarrow> int option" where
  "server_value b =
     (case b_buffer b of
        Some (Buf_long w) \<Rightarrow> Some (if b_is_unsigned b then uint w else sint w)
      | Some (Buf_longlong w) \<Rightarrow> Some (if b_is_unsigned b then uint w else sint w)
      | _ \<Rightarrow> None)"

lemma set_value_bind:
  "pb_bind (set_value i f s) = (pb_bind s)[i := f (resetBlobBind (pb_bind s ! i))]"
  "pb_set (set_value i f s) = (pb_set s)[i := True]" if "i < length (pb_bind s)"
  using that by (simp_all add: set_value_def stored_def resetted_def dropped_def replaced_def)

lemma set_bound:
  assumes "ps_open s" "1 \<le> i" "i \<le> ps_param_count s" "allocate_buffer_for_type t = Inr n"
  shows "\<exists>u. ps_set name i t f s = (Inr (), u) \<and> ps_open u
    \<and> pb_bind (ps_params u) = (pb_bind (ps_params s))[i - 1 := f (resetBlobBind (pb_bind (ps_params s) ! (i - 1)))]
    \<and> pb_set (ps_params u) = (pb_set (ps_params s))[i - 1 := True]"
proof -
  have "i - 1 < length (pb_bind (ps_params s))"
    using assms(1-3) wf_lengths(1) [of "ps_params s"] by (auto simp: ps_open_def ps_wf_def)
  with set_open [OF assms, where f = f] show ?thesis by (simp add: set_value_bind)
qed

lemma set_bound_nth:
  assumes "ps_open s" "1 \<le> i" "i \<le> ps_param_count s" "allocate_buffer_for_type t = Inr n"
  shows "\<exists>u. ps_set name i t f s = (Inr (), u) \<and> ps_open u
    \<and> pb_bind (ps_params u) ! (i - 1) = f (resetBlobBind (pb_bind (ps_params s) ! (i - 1)))
    \<and> (\<forall>j. j \<noteq> i - 1 \<longrightarrow> pb_bind (ps_params u) ! j = pb_bind (ps_params s) ! j)"
proof -
  have "i - 1 < length (pb_bind (ps_params s))"
    using assms(1-3) wf_lengths(1) [of "ps_params s"] by (auto simp: ps_open_def ps_wf_def)
  with set_bound [OF assms, of name f] show ?thesis by auto
qed

section \<open>Chunks\<close>

text \<open>A list cut into pieces of \<open>c\<close> elements, the last one shorter.\<close>

function chunks :: "nat \<Rightarrow> 'a list \<Rightarrow> 'a list list" where
  "chunks c xs = (if c = 0 \<or> xs = [] then [] else take c xs # chunks c (drop c xs))"
  by pat_completeness auto
termination
  by (relation "measure (\<lambda>(c, xs). length xs)") auto

declare chunks.simps [simp del]

lemma chunks_Nil [simp]: "chunks c [] = []"
  by (simp add: chunks.simps)

lemma chunks_Cons: "0 < c \<Longrightarrow> xs \<noteq> [] \<Longrightarrow> chunks c xs = take c xs # chunks c (drop c xs)"
  by (simp add: chunks.simps [of c xs])

lemma concat_chunks: "0 < c \<Longrightarrow> concat (chunks c xs) = xs"
proof (induction c xs rule: chunks.induct)
  case (1 c xs)
  then show ?case by (cases "xs = []") (simp_all add: chunks_Cons)
qed

lemma chunks_sizes: "0 < c \<Longrightarrow> list_all (\<lambda>x. x \<noteq> [] \<and> length x \<le> c) (chunks c xs)"
proof (induction c xs rule: chunks.induct)
  case (1 c xs)
  then show ?case by (cases "xs = []") (simp_all add: chunks_Cons)
qed

lemma length_chunks: "0 < c \<Longrightarrow> length (chunks c xs) \<le> length xs"
proof (induction c xs rule: chunks.induct)
  case (1 c xs)
  show ?case
  proof (cases "xs = []")
    case False
    with 1 have "length (chunks c (drop c xs)) \<le> length (drop c xs)" by simp
    moreover have "length (drop c xs) < length xs" using False "1.prems" by simp
    ultimately show ?thesis using chunks_Cons [OF "1.prems" False] by simp
  qed simp
qed

text \<open>What the loop over a stream sends: the last read is short, possibly empty.\<close>

function reads :: "nat \<Rightarrow> 'a list \<Rightarrow> 'a list list" where
  "reads c xs = (if c = 0 \<or> length xs < c then [xs] else take c xs # reads c (drop c xs))"
  by pat_completeness auto
termination
  by (relation "measure (\<lambda>(c, xs). length xs)") auto

declare reads.simps [simp del]

lemma concat_reads: "concat (reads c xs) = xs"
proof (induction c xs rule: reads.induct)
  case (1 c xs)
  then show ?case by (subst reads.simps) auto
qed

section \<open>A statement that accepts every call\<close>

datatype 'd call = Bind "'d bind list" | Long nat string | Run

text \<open>
  The long-data calls of parameter \<open>i\<close> when no stream is bound, and what an execution needs of the
  bound strings: they are shorter than \<open>2 ^ 32 - 2 ^ 18\<close> bytes and there is fuel for their chunks.
\<close>

definition long_calls :: "'d param_bind \<Rightarrow> nat \<Rightarrow> 'd call list" where
  "long_calls p i =
     (if b_type (pb_bind p ! i) = MYSQL_TYPE_LONG_BLOB then
        (case pb_getBlobObject i p of
           Blob_string (Some a) \<Rightarrow> map (Long i) (chunks MAX_SEND_LONGDATA_CHUNK (the (pb_heap p a)))
         | _ \<Rightarrow> [])
      else [])"

definition sendable :: "nat \<Rightarrow> 'd param_bind \<Rightarrow> nat \<Rightarrow> bool" where
  "sendable fuel p i \<longleftrightarrow>
     (case pb_getBlobObject i p of
        Blob_stream q \<Rightarrow> q = None
      | Blob_string None \<Rightarrow> True
      | Blob_string (Some a) \<Rightarrow> (case pb_heap p a of None \<Rightarrow> False
          | Some str \<Rightarrow> length str + MAX_SEND_LONGDATA_CHUNK < 2 ^ 32 \<and> length str < fuel))"

section \<open>Long strings\<close>

text \<open>The long data sent for one parameter, and its pieces.\<close>

fun pieces_for :: "nat \<Rightarrow> 'd call list \<Rightarrow> string list" where
  "pieces_for i [] = []"
| "pieces_for i (Long p d # cs) = (if p = i then d # pieces_for i cs else pieces_for i cs)"
| "pieces_for i (Bind bs # cs) = pieces_for i cs"
| "pieces_for i (Run # cs) = pieces_for i cs"

lemma pieces_for_append: "pieces_for i (cs @ ds) = pieces_for i cs @ pieces_for i ds"
  by (induction i cs rule: pieces_for.induct) simp_all

lemma pieces_for_Long: "pieces_for i (map (Long j) ds) = (if j = i then ds else [])"
  by (induction ds) auto

lemma pieces_for_other: "j \<noteq> i \<Longrightarrow> pieces_for i (long_calls p j) = []"
  by (auto simp: long_calls_def pieces_for_Long split: blob.splits option.splits)

lemma pieces_for_all:
  "pieces_for i (concat (map (long_calls p) [0..<k])) = (if i < k then pieces_for i (long_calls p i) else [])"
  by (induction k) (auto simp: pieces_for_append pieces_for_other less_Suc_eq)

text \<open>Binding a long string keeps the strings of the other parameters.\<close>

lemma acquired_sendable:
  assumes "pb_wf p" "i < pb_count p" "j \<noteq> i" "sendable fuel p j"
  shows "sendable fuel (acquired i v p) j"
proof -
  have "pb_heap (acquired i v p) a = pb_heap p a" if a: "pb_blobs p j = Some (Blob_string (Some a))" for a
  proof -
    from wf_string_owned [OF assms(1) a] pb_wfD(2) [OF assms(1)] assms(3)
    have "\<not> owns p i a" by blast
    with wf_string_owned [OF assms(1), of i a] wf_fresh [OF assms(1) a] show ?thesis
      by (auto simp: acquired_def freed_def split: option.splits blob.splits)
  qed
  with assms(3,4) show ?thesis
    by (auto simp: sendable_def pb_getBlobObject_def acquired_def split: option.splits blob.splits)
qed

lemma acquired_calls:
  assumes "pb_wf p" "i < pb_count p"
  shows "pieces_for i (long_calls (acquired i v p) i) = chunks MAX_SEND_LONGDATA_CHUNK v"
  using wf_lengths [OF assms(1)] assms(2)
  by (simp add: long_calls_def acquired_def resetBlobBind_def pb_getBlobObject_def pieces_for_Long)

lemma setString_long_open:
  assumes "ps_open s" "1 \<le> i" "i \<le> ps_param_count s" "256 * 1024 < length v"
  shows "ps_setString i v s = (Inr (), s\<lparr>ps_params := acquired (i - 1) v (ps_params s)\<rparr>)"
    and "ps_open (s\<lparr>ps_params := acquired (i - 1) v (ps_params s)\<rparr>)"
proof -
  have p: "pb_wf (ps_params s)" "i - 1 < pb_count (ps_params s)" using assms(1-3) by (auto simp: ps_open_def ps_wf_def)
  from own_string_eq [OF p] assms show "ps_setString i v s = (Inr (), s\<lparr>ps_params := acquired (i - 1) v (ps_params s)\<rparr>)"
    by (simp add: setString_long ps_index_guard_def ps_checkClosed_def on_params_def ps_open_def)
  have "pb_count (acquired (i - 1) v (ps_params s)) = pb_count (ps_params s)" by (simp add: acquired_def)
  with acquired_wf [OF p, of v] assms(1) show "ps_open (s\<lparr>ps_params := acquired (i - 1) v (ps_params s)\<rparr>)"
    by (simp add: ps_open_def ps_wf_def)
qed

section \<open>Executions\<close>

locale accepting =
  fixes api :: "('n, 'd) nstmt" and calls :: "'n \<Rightarrow> 'd call list"
  assumes bind_ok: "\<exists>n'. ns_bind_param api bs n = (False, n') \<and> calls n' = calls n @ [Bind bs]"
    and send_ok: "\<exists>n'. ns_send_long_data api p c n = (False, n') \<and> calls n' = calls n @ [Long p c]"
    and run_ok: "\<exists>n'. ns_execute api n = (False, n') \<and> calls n' = calls n @ [Run]"
begin

text \<open>
  From a state with calls \<open>cs\<close> the operation returns \<open>x\<close>, having made the calls \<open>ds\<close> and changed
  nothing but the library's statement (and the streams).
\<close>

definition makes :: "(('n, 'd) pstmt, 'a) sop \<Rightarrow> 'a \<Rightarrow> 'd call list \<Rightarrow> ('n, 'd) pstmt \<Rightarrow> bool" where
  "makes m x ds s \<longleftrightarrow> (\<exists>n. ps_proxy s = Some n \<and>
     (\<exists>n' st. m s = (Inr x, s\<lparr>ps_proxy := Some n', ps_streams := st\<rparr>) \<and> calls n' = calls n @ ds))"

lemma makes_then:
  assumes "makes m x ds s" "\<And>u st. makes k y es (s\<lparr>ps_proxy := Some u, ps_streams := st\<rparr>)"
  shows "makes (sbind m (\<lambda>_. k)) y (ds @ es) s" "makes (sthen m k) y (ds @ es) s"
proof -
  obtain n n1 st where a: "ps_proxy s = Some n" "m s = (Inr x, s\<lparr>ps_proxy := Some n1, ps_streams := st\<rparr>)" "calls n1 = calls n @ ds"
    using assms(1) by (auto simp: makes_def)
  from assms(2) [of st n1] obtain n2 st2 where
    "k (s\<lparr>ps_proxy := Some n1, ps_streams := st\<rparr>) = (Inr y, s\<lparr>ps_proxy := Some n2, ps_streams := st2\<rparr>)"
    "calls n2 = calls n1 @ es" by (auto simp: makes_def)
  with a show "makes (sbind m (\<lambda>_. k)) y (ds @ es) s" by (auto simp: makes_def)
  then show "makes (sthen m k) y (ds @ es) s" by (simp add: sthen_def)
qed

lemma makes_ret: "ps_proxy s \<noteq> None \<Longrightarrow> makes (sret x) x [] s"
  by (cases s) (auto simp: makes_def)

lemma send_chunk_makes:
  assumes "ps_proxy s \<noteq> None"
  shows "makes (send_chunk api pos c) () [Long pos c] s"
proof -
  obtain n where n: "ps_proxy s = Some n" using assms by blast
  from send_ok [of pos c n] obtain n' where "ns_send_long_data api pos c n = (False, n')" "calls n' = calls n @ [Long pos c]" by blast
  with n show ?thesis
    by (cases s) (auto simp: makes_def send_chunk_def ps_call_def)
qed

lemma send_string_makes:
  assumes "length str + MAX_SEND_LONGDATA_CHUNK < 2 ^ 32"
  shows "sent \<le> length str \<Longrightarrow> length (chunks MAX_SEND_LONGDATA_CHUNK (drop sent str)) < fuel \<Longrightarrow> ps_proxy s \<noteq> None \<Longrightarrow>
    makes (send_string fuel api pos str sent) True (map (Long pos) (chunks MAX_SEND_LONGDATA_CHUNK (drop sent str))) s"
proof (induction fuel arbitrary: sent s)
  case 0
  then show ?case by simp
next
  case (Suc fuel)
  let ?c = MAX_SEND_LONGDATA_CHUNK
  have c: "0 < ?c" by (simp add: MAX_SEND_LONGDATA_CHUNK_def)
  show ?case
  proof (cases "sent < length str")
    case False
    with Suc.prems show ?thesis using makes_ret [of s True] by (simp del: sret_apply)
  next
    case True
    let ?k = "min ?c (length str - sent)"
    have k: "(if (sent + ?c) mod 2 ^ 32 > length str then (length str - sent) mod 2 ^ 32 else ?c) = ?k"
      "(sent + ?k) mod 2 ^ 32 = sent + ?k"
      using True assms by (auto simp: min_def)
    have d: "chunks ?c (drop sent str) = take ?k (drop sent str) # chunks ?c (drop (sent + ?k) str)"
      using True c by (simp add: chunks_Cons min_def add.commute)
    have rest: "makes (send_string fuel api pos str (sent + ?k)) True
        (map (Long pos) (chunks ?c (drop (sent + ?k) str))) (s\<lparr>ps_proxy := Some n', ps_streams := st\<rparr>)" for n' st
      using Suc.prems(2) True d by (intro Suc.IH) simp_all
    have unfold: "send_string (Suc fuel) api pos str sent =
        sthen (send_chunk api pos (take ?k (drop sent str))) (send_string fuel api pos str (sent + ?k))"
      using True by (simp only: send_string.simps Let_def k if_True)
    have eq: "map (Long pos) (chunks ?c (drop sent str)) =
        [Long pos (take ?k (drop sent str))] @ map (Long pos) (chunks ?c (drop (sent + ?k) str))"
      by (simp add: d)
    show ?thesis unfolding unfold eq by (rule makes_then(2) [OF send_chunk_makes [OF Suc.prems(3)] rest])
  qed
qed

lemma send_stream_loop_makes:
  assumes "\<not> is_eof i" "\<not> is_fail i" "\<not> is_bad i" "ps_proxy s \<noteq> None"
  shows "makes (send_stream_loop api pos p i) True (map (Long pos) (reads MAX_SEND_LONGDATA_BUFFER (is_left i))) s"
  using assms
proof (induction "length (is_left i)" arbitrary: i s rule: less_induct)
  case less
  let ?c = MAX_SEND_LONGDATA_BUFFER
  have c: "0 < ?c" by (simp add: MAX_SEND_LONGDATA_BUFFER_def)
  obtain buf j where bj: "is_read ?c i = (buf, j)" by fastforce
  let ?s = "s\<lparr>ps_streams := (ps_streams s)(p := j)\<rparr>"
  have step: "send_stream_loop api pos p i s = sthen (send_chunk api pos buf) (send_stream_loop api pos p j) ?s"
    if "\<not> is_bad j" "is_fail j \<longrightarrow> is_eof j"
    using that less.prems bj by (subst send_stream_loop.simps) (auto simp: Let_def)
  have "makes (send_chunk api pos buf) () [Long pos buf] ?s" using less.prems(4) by (intro send_chunk_makes) simp
  then have "makes (sthen (send_chunk api pos buf) (send_stream_loop api pos p j)) True ([Long pos buf] @ ds) ?s"
    if "\<And>u st. makes (send_stream_loop api pos p j) True ds (?s\<lparr>ps_proxy := Some u, ps_streams := st\<rparr>)" for ds
    using that by (rule makes_then(2))
  then have cont: "makes (send_stream_loop api pos p i) True ([Long pos buf] @ ds) s"
    if "\<not> is_bad j" "is_fail j \<longrightarrow> is_eof j" "\<And>u st. makes (send_stream_loop api pos p j) True ds (?s\<lparr>ps_proxy := Some u, ps_streams := st\<rparr>)" for ds
    using that step less.prems(4) by (fastforce simp: makes_def)
  show ?case
  proof (cases "?c \<le> length (is_left i)")
    case True
    with bj less.prems have j: "buf = take ?c (is_left i)" "j = i\<lparr>is_left := drop ?c (is_left i)\<rparr>" by (auto simp: is_read_def)
    have "length (is_left j) < length (is_left i)" using True c j by simp
    from less.hyps [OF this] j less.prems have "makes (send_stream_loop api pos p j) True (map (Long pos) (reads ?c (drop ?c (is_left i))))
        (?s\<lparr>ps_proxy := Some u, ps_streams := st\<rparr>)" for u st by simp
    from cont [OF _ _ this] j less.prems True c show ?thesis by (subst reads.simps) simp
  next
    case False
    with bj less.prems have j: "buf = is_left i" "is_eof j" "\<not> is_bad j" by (auto simp: is_read_def)
    have "makes (send_stream_loop api pos p j) True [] (?s\<lparr>ps_proxy := Some u, ps_streams := st\<rparr>)" for u st
      using j(2) by (cases s) (auto simp: makes_def send_stream_loop.simps [of api pos p j])
    from cont [OF _ _ this] j False c show ?thesis by (subst reads.simps) simp
  qed
qed

lemma send_blob_makes:
  assumes "sendable fuel (ps_params s) i" "ps_proxy s \<noteq> None"
    and "b_type (pb_bind (ps_params s) ! i) = MYSQL_TYPE_LONG_BLOB"
  shows "\<exists>b. makes (send_blob fuel api i (pb_getBlobObject i (ps_params s))) b (long_calls (ps_params s) i) s"
proof (cases "pb_getBlobObject i (ps_params s)")
  case (Blob_stream q)
  with assms show ?thesis
    using makes_ret [of s False] by (auto simp: send_blob_def sendable_def long_calls_def simp del: sret_apply)
next
  case (Blob_string q)
  show ?thesis
  proof (cases q)
    case None
    with Blob_string assms show ?thesis
      using makes_ret [of s False] by (auto simp: send_blob_def long_calls_def simp del: sret_apply)
  next
    case (Some a)
    with Blob_string assms(1) obtain str where str: "pb_heap (ps_params s) a = Some str"
      "length str + MAX_SEND_LONGDATA_CHUNK < 2 ^ 32" "length str < fuel"
      by (auto simp: sendable_def split: option.splits)
    have "length (chunks MAX_SEND_LONGDATA_CHUNK str) < fuel"
      using str(3) length_chunks [of MAX_SEND_LONGDATA_CHUNK str] by (simp add: MAX_SEND_LONGDATA_CHUNK_def)
    with send_string_makes [OF str(2), of 0 fuel s i] assms(2)
    have "makes (send_string fuel api i str 0) True (map (Long i) (chunks MAX_SEND_LONGDATA_CHUNK str)) s" by simp
    with Blob_string Some str(1) assms(3) show ?thesis
      by (auto simp: send_blob_def long_calls_def makes_def)
  qed
qed

text \<open>The parameters are not changed, so the calls can be read off the state at the start.\<close>

lemma send_params_makes:
  assumes "\<And>j. i \<le> j \<Longrightarrow> j < i + k \<Longrightarrow> sendable fuel (ps_params s) j" "ps_proxy s \<noteq> None"
  shows "makes (send_params fuel api i k) True (concat (map (long_calls (ps_params s)) [i..<i + k])) s"
  using assms
proof (induction k arbitrary: i s)
  case 0
  then show ?case using makes_ret [of s True] by (simp del: sret_apply)
next
  case (Suc k)
  let ?one = "sif (\<lambda>s. b_type (pb_bind (ps_params s) ! i) = MYSQL_TYPE_LONG_BLOB)
      (\<lambda>s. send_blob fuel api i (pb_getBlobObject i (ps_params s)) s) (sret True)"
  have "\<exists>b. makes ?one b (long_calls (ps_params s) i) s"
  proof (cases "b_type (pb_bind (ps_params s) ! i) = MYSQL_TYPE_LONG_BLOB")
    case True
    from send_blob_makes [OF Suc.prems(1) [of i] Suc.prems(2) True] True show ?thesis by (simp add: makes_def)
  next
    case False
    with makes_ret [OF Suc.prems(2), of True] show ?thesis by (auto simp: makes_def long_calls_def)
  qed
  then obtain b where one: "makes ?one b (long_calls (ps_params s) i) s" by blast
  have rest: "makes (send_params fuel api (i + 1) k) True (concat (map (long_calls (ps_params s)) [i + 1..<i + 1 + k]))
      (s\<lparr>ps_proxy := Some u, ps_streams := st\<rparr>)" for u st
    using Suc.IH [of "i + 1" "s\<lparr>ps_proxy := Some u, ps_streams := st\<rparr>"] Suc.prems(1) by simp
  have eq: "concat (map (long_calls (ps_params s)) [i..<i + Suc k]) =
      long_calls (ps_params s) i @ concat (map (long_calls (ps_params s)) [i + 1..<i + 1 + k])"
    by (simp add: upt_conv_Cons del: upt_Suc)
  show ?case unfolding send_params.simps eq by (rule makes_then(2) [OF one rest])
qed

text \<open>
  A successful execution: the parameters are bound, every long string is sent in order, then the
  statement runs.
\<close>

lemma do_query_calls:
  assumes "ps_open s" "ps_proxy s = Some n" "pb_isAllSet (ps_params s)"
    and "\<And>j. j < ps_param_count s \<Longrightarrow> sendable fuel (ps_params s) j"
  shows "\<exists>n' t. ps_do_query fuel api s = (Inr (), t) \<and> ps_proxy t = Some n' \<and> ps_params t = ps_params s
    \<and> ps_resultset_type t = ps_resultset_type s
    \<and> calls n' = calls n @ [Bind (pb_bind (ps_params s))]
        @ concat (map (long_calls (ps_params s)) [0..<ps_param_count s]) @ [Run]"
proof -
  from bind_ok obtain n1 where n1: "ns_bind_param api (pb_bind (ps_params s)) n = (False, n1)"
    "calls n1 = calls n @ [Bind (pb_bind (ps_params s))]" by blast
  let ?s1 = "s\<lparr>ps_proxy := Some n1\<rparr>"
  from send_params_makes [of 0 "ps_param_count s" fuel ?s1] assms(4)
  obtain n2 st where n2: "send_params fuel api 0 (ps_param_count s) ?s1 = (Inr True, s\<lparr>ps_proxy := Some n2, ps_streams := st\<rparr>)"
    "calls n2 = calls n1 @ concat (map (long_calls (ps_params s)) [0..<ps_param_count s])"
    by (auto simp: makes_def)
  from run_ok obtain n3 where n3: "ns_execute api n2 = (False, n3)" "calls n3 = calls n2 @ [Run]" by blast
  show ?thesis
    using assms(2,3) n1 n2 n3
    by (simp add: ps_do_query_def ps_call_def ps_ask_def sendLongDataBeforeParamBind_def)
qed

lemma execute_calls_aux:
  assumes "ps_open s" "ps_proxy s = Some n" "pb_isAllSet (ps_params s)"
    and "\<And>j. j < ps_param_count s \<Longrightarrow> sendable fuel (ps_params s) j"
  shows "\<exists>n' t. ps_execute fuel api s = (Inr (ns_field_count api n' > 0), t) \<and> ps_proxy t = Some n' \<and> ps_params t = ps_params s
    \<and> calls n' = calls n @ [Bind (pb_bind (ps_params s))]
        @ concat (map (long_calls (ps_params s)) [0..<ps_param_count s]) @ [Run]"
  using do_query_calls [OF assms] assms(1)
  by (auto simp: ps_execute_def ps_checkClosed_def ps_open_def ps_ask_def ps_call_def)

lemma long_string_aux:
  assumes "ps_open s" "ps_proxy s = Some n" "1 \<le> i" "i \<le> ps_param_count s"
    and "256 * 1024 < length v" "length v + MAX_SEND_LONGDATA_CHUNK < 2 ^ 32" "length v < fuel"
    and "\<And>j. j < ps_param_count s \<Longrightarrow> j \<noteq> i - 1 \<Longrightarrow> pb_set (ps_params s) ! j \<and> sendable fuel (ps_params s) j"
  shows "\<exists>u b t n' cs. ps_setString i v s = (Inr (), u) \<and> ps_execute fuel api u = (Inr b, t) \<and> ps_proxy t = Some n'
    \<and> calls n' = calls n @ [Bind (pb_bind (ps_params u))] @ cs @ [Run]
    \<and> pieces_for (i - 1) cs = chunks MAX_SEND_LONGDATA_CHUNK v"
proof -
  let ?p = "acquired (i - 1) v (ps_params s)"
  let ?u = "s\<lparr>ps_params := ?p\<rparr>"
  note u = setString_long_open [OF assms(1,3-5)]
  have p: "pb_wf (ps_params s)" "i - 1 < pb_count (ps_params s)" "pb_count (ps_params s) = ps_param_count s"
    using assms(1,3,4) by (auto simp: ps_open_def ps_wf_def)
  have "pb_set ?p ! j" if "j < ps_param_count s" for j
    using that assms(8) [OF that] wf_lengths(2) [OF p(1)] p(2) by (cases "j = i - 1") (simp_all add: acquired_def)
  then have set: "pb_isAllSet ?p" using p(3) by (simp add: pb_isAllSet_def list_all_iff) (simp add: acquired_def)
  have "sendable fuel ?p j" if "j < ps_param_count s" for j
  proof (cases "j = i - 1")
    case True
    with assms(6,7) show ?thesis by (simp add: sendable_def pb_getBlobObject_def acquired_def)
  next
    case False
    with that assms(8) acquired_sendable [OF p(1,2)] show ?thesis by blast
  qed
  with execute_calls_aux [OF u(2), of n fuel] assms(2) set obtain n' t where
    "ps_execute fuel api ?u = (Inr (ns_field_count api n' > 0), t)" "ps_proxy t = Some n'"
    "calls n' = calls n @ [Bind (pb_bind ?p)] @ concat (map (long_calls ?p) [0..<ps_param_count s]) @ [Run]" by auto
  moreover have "pieces_for (i - 1) (concat (map (long_calls ?p) [0..<ps_param_count s])) = chunks MAX_SEND_LONGDATA_CHUNK v"
    using p(2,3) acquired_calls [OF p(1,2)] by (simp add: pieces_for_all)
  ultimately show ?thesis using u(1) by force
qed

end

section \<open>A recording statement\<close>

record 'd recorder =
  rec_calls :: "'d call list"
  rec_params :: nat

definition recorder_api :: "('d recorder, 'd) nstmt" where
  "recorder_api =
     \<lparr>ns_param_count = rec_params,
      ns_bind_param = (\<lambda>bs r. (False, r\<lparr>rec_calls := rec_calls r @ [Bind bs]\<rparr>)),
      ns_send_long_data = (\<lambda>p c r. (False, r\<lparr>rec_calls := rec_calls r @ [Long p c]\<rparr>)),
      ns_execute = (\<lambda>r. (False, r\<lparr>rec_calls := rec_calls r @ [Run]\<rparr>)),
      ns_errNo = (\<lambda>r. 0), ns_warning_count = (\<lambda>r. 0), ns_field_count = (\<lambda>r. 0), ns_affected_rows = (\<lambda>r. 1),
      ns_attr_set = (\<lambda>r. r), ns_store_result = (\<lambda>r. (False, r)), ns_more_results = (\<lambda>r. False),
      ns_next_result = (\<lambda>r. (- 1, r))\<rparr>"

interpretation recorder: accepting recorder_api rec_calls
  by unfold_locales (auto simp: recorder_api_def)

end
