(* ===== verification/Ps_Result_Set.thy ===== *)
theory Ps_Result_Set
  imports Cursor_Moves
begin

text \<open>
  \<^verbatim>\<open>mysqlconnector/jdbc/driver/mysql_ps_resultset.cpp\<close> and \<^verbatim>\<open>mysql_resultbind.cpp\<close>: the result of a prepared
  statement. The client library writes the values of a row into buffers that the driver allocates by the
  type of the column; the getters read the buffers. The library's statement is a parameter, the record
  \<open>nres\<close> of the calls the classes make. A buffer holds bytes, the least significant byte of a number
  first, or a \<^verbatim>\<open>MYSQL_TIME\<close>. Doubles are a parameter.
\<close>

section \<open>Buffers\<close>

record mysql_time =
  t_year :: nat
  t_month :: nat
  t_day :: nat
  t_hour :: nat
  t_minute :: nat
  t_second :: nat
  t_second_part :: nat
  t_neg :: bool

datatype rbuffer = Buf_bytes string | Buf_time mysql_time

text \<open>What a fetch writes for one column: the null indicator, the length of the value, the buffer.\<close>

record rcell =
  rc_null :: bool
  rc_length :: nat
  rc_buffer :: rbuffer

record result_bind =
  rb_type :: field_type
  rb_size :: nat
  rb_unsigned :: bool
  rb_cell :: rcell

definition sizeof_MYSQL_TIME :: nat where "sizeof_MYSQL_TIME = 40"

text \<open>The size and the type of a buffer for a field.\<close>

definition allocate_buffer_for_field :: "mysql_field \<Rightarrow> (nat \<times> field_type) res" where
  "allocate_buffer_for_field f =
     (case fld_type f of
        MYSQL_TYPE_NULL \<Rightarrow> Inr (0, fld_type f)
      | MYSQL_TYPE_TINY \<Rightarrow> Inr (1, fld_type f)
      | MYSQL_TYPE_SHORT \<Rightarrow> Inr (2, fld_type f)
      | MYSQL_TYPE_INT24 \<Rightarrow> Inr (4, fld_type f)
      | MYSQL_TYPE_LONG \<Rightarrow> Inr (4, fld_type f)
      | MYSQL_TYPE_FLOAT \<Rightarrow> Inr (4, fld_type f)
      | MYSQL_TYPE_DOUBLE \<Rightarrow> Inr (8, fld_type f)
      | MYSQL_TYPE_LONGLONG \<Rightarrow> Inr (8, fld_type f)
      | MYSQL_TYPE_YEAR \<Rightarrow> Inr (2, MYSQL_TYPE_SHORT)
      | MYSQL_TYPE_TIMESTAMP \<Rightarrow> Inr (sizeof_MYSQL_TIME, fld_type f)
      | MYSQL_TYPE_DATE \<Rightarrow> Inr (sizeof_MYSQL_TIME, fld_type f)
      | MYSQL_TYPE_TIME \<Rightarrow> Inr (sizeof_MYSQL_TIME, fld_type f)
      | MYSQL_TYPE_DATETIME \<Rightarrow> Inr (sizeof_MYSQL_TIME, fld_type f)
      | MYSQL_TYPE_TINY_BLOB \<Rightarrow> Inr (fld_max_length f + 1, fld_type f)
      | MYSQL_TYPE_MEDIUM_BLOB \<Rightarrow> Inr (fld_max_length f + 1, fld_type f)
      | MYSQL_TYPE_LONG_BLOB \<Rightarrow> Inr (fld_max_length f + 1, fld_type f)
      | MYSQL_TYPE_BLOB \<Rightarrow> Inr (fld_max_length f + 1, fld_type f)
      | MYSQL_TYPE_STRING \<Rightarrow> Inr (fld_max_length f + 1, fld_type f)
      | MYSQL_TYPE_VAR_STRING \<Rightarrow> Inr (fld_max_length f + 1, fld_type f)
      | MYSQL_TYPE_JSON \<Rightarrow> Inr (fld_max_length f + 1, fld_type f)
      | MYSQL_TYPE_DECIMAL \<Rightarrow> Inr (64, fld_type f)
      | MYSQL_TYPE_NEWDECIMAL \<Rightarrow> Inr (64, fld_type f)
      | MYSQL_TYPE_BIT \<Rightarrow> Inr (8, MYSQL_TYPE_BIT)
      | _ \<Rightarrow> Inl (Sql_invalid_argument ''allocate_buffer_for_field: invalid rbind data type''))"

section \<open>The client library's statement\<close>

record 'p nres =
  nr_field_count :: "'p \<Rightarrow> nat"
  nr_fields :: "'p \<Rightarrow> mysql_field list"  \<comment> \<open>\<^verbatim>\<open>result_metadata()\<close>\<close>
  nr_num_rows :: "'p \<Rightarrow> nat"
  nr_bind_result :: "'p \<Rightarrow> bool \<times> 'p"
  nr_fetch :: "'p \<Rightarrow> int \<times> rcell list \<times> 'p"  \<comment> \<open>the result, what is written when there is a row\<close>
  nr_data_seek :: "nat \<Rightarrow> 'p \<Rightarrow> 'p"
  nr_free_result :: "'p \<Rightarrow> 'p"
  nr_errNo :: "'p \<Rightarrow> nat"

definition MYSQL_NO_DATA :: int where "MYSQL_NO_DATA = 100"
definition MYSQL_DATA_TRUNCATED :: int where "MYSQL_DATA_TRUNCATED = 101"

text \<open>The buffer of a field, filled with nothing yet: the three arrays are zeroed.\<close>

definition fresh_bind :: "mysql_field \<Rightarrow> result_bind res" where
  "fresh_bind f = rbind (allocate_buffer_for_field f) (\<lambda>(size, t).
     Inr \<lparr>rb_type = t, rb_size = size, rb_unsigned = has_flag f UNSIGNED_FLAG,
          rb_cell = \<lparr>rc_null = False, rc_length = 0, rc_buffer = Buf_bytes (replicate size CHR 0x00)\<rparr>\<rparr>)"

text \<open>
  \<^verbatim>\<open>bindResult\<close>: with fewer fields than the count a null pointer is read.
\<close>

definition bindResult :: "'p nres \<Rightarrow> 'p \<Rightarrow> (result_bind list \<times> 'p) res" where
  "bindResult nr p =
     (let n = nr_field_count nr p in
      if n = 0 then Inr ([], p)
      else if length (nr_fields nr p) < n then Inl Undefined_behaviour
      else rbind (rmap fresh_bind (take n (nr_fields nr p))) (\<lambda>bs.
        case nr_bind_result nr p of (err, p') \<Rightarrow>
          if err then Inl (Native_error (nr_errNo nr p')) else Inr (bs, p')))"

section \<open>The state\<close>

record 'p prs =
  pr_proxy :: 'p
  pr_last_col :: nat
  pr_num_fields :: nat
  pr_num_rows :: nat
  pr_position :: nat
  pr_names :: "string \<rightharpoonup> nat"
  pr_valid :: bool
  pr_type :: rs_kind
  pr_binds :: "result_bind list"
  pr_fields :: "mysql_field list"  \<comment> \<open>\<^verbatim>\<open>rs_meta\<close>\<close>
  pr_uses :: nat  \<comment> \<open>the owners of the buffers\<close>

fun ps_name_index :: "mysql_field list \<Rightarrow> nat \<Rightarrow> (string \<rightharpoonup> nat) \<Rightarrow> (string \<rightharpoonup> nat)" where
  "ps_name_index [] i m = m"
| "ps_name_index (f # fs) i m = ps_name_index fs (i + 1) (m(utf8_strup (fld_name f) \<mapsto> i))"

definition new_PreparedResultSet :: "'p nres \<Rightarrow> 'p \<Rightarrow> rs_kind \<Rightarrow> nat \<Rightarrow> 'p prs res" where
  "new_PreparedResultSet nr p kind uses =
     rbind (bindResult nr p) (\<lambda>(bs, p').
       let n = nr_field_count nr p' in
       if length (nr_fields nr p') < n then Inl Undefined_behaviour
       else Inr \<lparr>pr_proxy = p', pr_last_col = no_column, pr_num_fields = n, pr_num_rows = nr_num_rows nr p',
                 pr_position = 0, pr_names = ps_name_index (take n (nr_fields nr p')) 0 Map.empty, pr_valid = True,
                 pr_type = kind, pr_binds = bs, pr_fields = nr_fields nr p', pr_uses = uses\<rparr>)"

section \<open>Checks and closing\<close>

definition pr_isClosed :: "'p prs \<Rightarrow> bool" where
  "pr_isClosed s \<longleftrightarrow> \<not> pr_valid s"

definition pr_checkValid :: "('p prs, unit) sop" where
  "pr_checkValid = scheck (\<lambda>s. \<not> pr_isClosed s) (Invalid_instance ''Statement has been closed'')"

definition pr_isScrollable :: "'p prs \<Rightarrow> bool" where
  "pr_isScrollable s \<longleftrightarrow> pr_type s \<noteq> TYPE_FORWARD_ONLY"

definition pr_forget_column :: "('p prs, unit) sop" where
  "pr_forget_column = smod (\<lambda>s. s\<lparr>pr_last_col := no_column\<rparr>)"

definition pr_checkScrollable :: "('p prs, unit) sop" where
  "pr_checkScrollable = sthen (scheck (\<lambda>s. pr_type s \<noteq> TYPE_FORWARD_ONLY) Non_scrollable) pr_forget_column"

text \<open>The library's rows are freed by the last result set of the statement: two owners are left.\<close>

definition pr_closeIntern :: "'p nres \<Rightarrow> ('p prs, unit) sop" where
  "pr_closeIntern nr =
     sthen (smod (\<lambda>s. if pr_uses s = 2 then s\<lparr>pr_proxy := nr_free_result nr (pr_proxy s)\<rparr> else s))
       (smod (\<lambda>s. s\<lparr>pr_valid := False\<rparr>))"

definition pr_close :: "'p nres \<Rightarrow> ('p prs, unit) sop" where
  "pr_close nr = sthen pr_checkValid (pr_closeIntern nr)"

section \<open>Moving the cursor\<close>

definition pr_data_seek :: "'p nres \<Rightarrow> ('p prs \<Rightarrow> nat) \<Rightarrow> ('p prs, unit) sop" where
  "pr_data_seek nr f = smod (\<lambda>s. s\<lparr>pr_proxy := nr_data_seek nr (f s) (pr_proxy s)\<rparr>)"

text \<open>\<^verbatim>\<open>proxy->fetch()\<close>: a row is written into the buffers.\<close>

definition fetched :: "int \<Rightarrow> bool" where
  "fetched code \<longleftrightarrow> code = 0 \<or> code = MYSQL_DATA_TRUNCATED"

definition fill :: "result_bind list \<Rightarrow> rcell list \<Rightarrow> result_bind list" where
  "fill bs cells = map2 (\<lambda>b c. b\<lparr>rb_cell := c\<rparr>) bs cells"

definition pr_fetch :: "'p nres \<Rightarrow> ('p prs, int) sop" where
  "pr_fetch nr = (\<lambda>s. case nr_fetch nr (pr_proxy s) of (code, cells, p) \<Rightarrow>
     (Inr code, s\<lparr>pr_proxy := p, pr_binds := if fetched code then fill (pr_binds s) cells else pr_binds s\<rparr>))"

definition pr_set_position :: "('p prs \<Rightarrow> nat) \<Rightarrow> ('p prs, unit) sop" where
  "pr_set_position f = smod (\<lambda>s. s\<lparr>pr_position := f s\<rparr>)"

text \<open>\<^verbatim>\<open>seek\<close> does not look at the result of the fetch.\<close>

definition pr_seek :: "'p nres \<Rightarrow> ('p prs, unit) sop" where
  "pr_seek nr = sthen (pr_data_seek nr (\<lambda>s. pr_position s - 1)) (sbind (pr_fetch nr) (\<lambda>_. sret ()))"

definition pr_goto :: "'p nres \<Rightarrow> ('p prs \<Rightarrow> nat) \<Rightarrow> ('p prs, unit) sop" where
  "pr_goto nr f = sthen (pr_set_position f) (pr_seek nr)"

definition pr_beforeFirst :: "'p nres \<Rightarrow> ('p prs, unit) sop" where
  "pr_beforeFirst nr =
     sthen pr_checkValid (sthen pr_checkScrollable (sthen (pr_data_seek nr (\<lambda>_. 0)) (pr_set_position (\<lambda>_. 0))))"

definition pr_afterLast :: "('p prs, unit) sop" where
  "pr_afterLast = sthen pr_checkValid (sthen pr_checkScrollable (pr_set_position (\<lambda>s. pr_num_rows s + 1)))"

definition pr_on_row :: "'p prs \<Rightarrow> bool" where
  "pr_on_row s \<longleftrightarrow> pr_position s > 0 \<and> pr_position s < pr_num_rows s + 1"

definition pr_absolute :: "'p nres \<Rightarrow> int \<Rightarrow> ('p prs, bool) sop" where
  "pr_absolute nr new_pos =
     sthen pr_checkValid (sthen pr_checkScrollable (\<lambda>s.
       if new_pos > 0 then
         (if new_pos > cast_int (pr_num_rows s) then
            sthen (pr_set_position (\<lambda>s. pr_num_rows s + 1)) (sget pr_on_row) s
          else sthen (pr_goto nr (\<lambda>_. nat new_pos)) (sret True) s)
       else if new_pos < 0 then
         (if new_pos = INT_MIN then (Inl Undefined_behaviour, s)
          else if - new_pos > cast_int (pr_num_rows s) then
            sthen (pr_set_position (\<lambda>_. 0)) (sget pr_on_row) s
          else sthen (pr_goto nr (\<lambda>s. pr_num_rows s - nat (- new_pos) + 1)) (sret True) s)
       else sthen (pr_set_position (\<lambda>_. 0)) (sthen (pr_beforeFirst nr) (sget pr_on_row)) s))"

definition pr_first :: "'p nres \<Rightarrow> ('p prs, bool) sop" where
  "pr_first nr =
     sthen pr_checkValid (sthen pr_checkScrollable
       (sthen (sif (\<lambda>s. pr_num_rows s \<noteq> 0) (pr_goto nr (\<lambda>_. 1)) (sret ())) (sget (\<lambda>s. pr_num_rows s \<noteq> 0))))"

definition pr_last :: "'p nres \<Rightarrow> ('p prs, bool) sop" where
  "pr_last nr =
     sthen pr_checkValid (sthen pr_checkScrollable
       (sthen (sif (\<lambda>s. pr_num_rows s \<noteq> 0) (pr_goto nr pr_num_rows) (sret ())) (sget (\<lambda>s. pr_num_rows s \<noteq> 0))))"

definition pr_isBeforeFirst :: "('p prs, bool) sop" where
  "pr_isBeforeFirst = sthen pr_checkValid (sget (\<lambda>s. pr_position s = 0))"

definition pr_isAfterLast :: "('p prs, bool) sop" where
  "pr_isAfterLast = sthen pr_checkValid (sthen pr_checkScrollable (sget (\<lambda>s. pr_position s = pr_num_rows s + 1)))"

definition pr_isFirst :: "('p prs, bool) sop" where
  "pr_isFirst = sthen pr_checkValid (sget (\<lambda>s. pr_position s = 1))"

definition pr_isLast :: "('p prs, bool) sop" where
  "pr_isLast = sthen pr_checkValid (sthen pr_checkScrollable (sget (\<lambda>s. pr_position s = pr_num_rows s)))"

definition pr_isBeforeFirstOrAfterLast :: "('p prs, bool) sop" where
  "pr_isBeforeFirstOrAfterLast =
     sthen pr_checkValid
       (sget (\<lambda>s. pr_position s = 0 \<or> (pr_isScrollable s \<and> pr_position s = pr_num_rows s + 1)))"

text \<open>
  The fetch of \<^verbatim>\<open>next\<close> and its result: an error throws, everything else advances the position, the end
  of the rows too.
\<close>

definition pr_fetch_next :: "'p nres \<Rightarrow> ('p prs, bool) sop" where
  "pr_fetch_next nr =
     sbind (pr_fetch nr) (\<lambda>code.
       if code = 1 then (\<lambda>s. (Inl (Native_error (nr_errNo nr (pr_proxy s))), s))
       else sthen (pr_set_position (\<lambda>s. pr_position s + 1)) (sret (fetched code)))"

definition pr_next :: "'p nres \<Rightarrow> ('p prs, bool) sop" where
  "pr_next nr =
     sthen pr_checkValid
       (sif pr_isScrollable
          (sbind pr_isLast (\<lambda>is_last.
             if is_last then sthen (pr_set_position (\<lambda>s. pr_position s + 1)) (sret False)
             else sif (\<lambda>s. pr_position s < pr_num_rows s + 1)
                    (sthen (sif (\<lambda>s. pr_position s = 0) (pr_data_seek nr pr_position) (sret ())) (pr_fetch_next nr))
                    (sret False)))
          (sthen pr_forget_column (pr_fetch_next nr)))"

definition pr_previous :: "'p nres \<Rightarrow> ('p prs, bool) sop" where
  "pr_previous nr =
     sthen pr_checkScrollable
       (sbind pr_isBeforeFirst (\<lambda>before. if before then sret False
        else sbind pr_isFirst (\<lambda>first. if first then sthen (pr_beforeFirst nr) (sret False)
        else sif (\<lambda>s. pr_position s > 1)
               (sthen (pr_set_position (\<lambda>s. pr_position s - 1))
                 (sthen (pr_data_seek nr (\<lambda>s. pr_position s - 1)) (sbind (pr_fetch nr) (\<lambda>code.
                    if fetched code then sret True
                    else if code = MYSQL_NO_DATA then sret False
                    else sthrow (Sql_exception ''Error during mysql_stmt_fetch'')))))
               (sthrow (Sql_exception ''Impossible'')))))"

definition pr_moved :: "int \<Rightarrow> 'p prs \<Rightarrow> nat" where
  "pr_moved rows s = nat ((int (pr_position s) + rows) mod 2 ^ 64)"

definition pr_relative :: "'p nres \<Rightarrow> int \<Rightarrow> ('p prs, bool) sop" where
  "pr_relative nr rows =
     sthen pr_checkValid (sthen pr_checkScrollable
       (sthen (if rows \<noteq> 0 then
                 sif (\<lambda>s. pr_moved rows s > pr_num_rows s \<or> pr_moved rows s < 1)
                   (pr_set_position (\<lambda>s. if rows > 0 then pr_num_rows s + 1 else 0))
                   (pr_goto nr (pr_moved rows))
               else sret ())
          (sget (\<lambda>s. pr_position s > 0 \<and> pr_position s \<le> pr_num_rows s))))"

section \<open>Values of the current row\<close>

record 'd pdouble =
  pd_zero :: 'd
  pd_of_int :: "int \<Rightarrow> 'd"
  pd_strtonum :: "string \<Rightarrow> 'd"
  pd_float :: "string \<Rightarrow> 'd"  \<comment> \<open>the four bytes of a \<^verbatim>\<open>float\<close>\<close>
  pd_double :: "string \<Rightarrow> 'd"
  pd_print :: "'d \<Rightarrow> string"  \<comment> \<open>the format \<^verbatim>\<open>%f\<close>\<close>
  pd_to_int64 :: "'d \<Rightarrow> int option"  \<comment> \<open>\<open>None\<close>: out of range\<close>
  pd_to_uint64 :: "'d \<Rightarrow> int option"

definition le_value :: "string \<Rightarrow> int" where
  "le_value bs = foldr (\<lambda>c a. int (of_char c) + 256 * a) bs 0"

text \<open>A number of \<open>n\<close> bytes in two's complement, or without a sign.\<close>

definition as_signed :: "nat \<Rightarrow> int \<Rightarrow> int" where
  "as_signed n v = (if v < 2 ^ (8 * n - 1) then v else v - 2 ^ (8 * n))"

definition bind_bytes :: "nat \<Rightarrow> result_bind \<Rightarrow> string res" where
  "bind_bytes n b =
     (case rc_buffer (rb_cell b) of
        Buf_bytes bs \<Rightarrow> if n \<le> length bs then Inr (take n bs) else Inl Undefined_behaviour
      | Buf_time t \<Rightarrow> Inl Undefined_behaviour)"

definition bind_time :: "result_bind \<Rightarrow> mysql_time res" where
  "bind_time b = (case rc_buffer (rb_cell b) of Buf_time t \<Rightarrow> Inr t | Buf_bytes bs \<Rightarrow> Inl Undefined_behaviour)"

definition bind_int :: "result_bind \<Rightarrow> int res" where
  "bind_int b =
     (let n = rb_size b in
      if n \<in> {1, 2, 4, 8} then
        rbind (bind_bytes n b) (\<lambda>bs. Inr (if rb_unsigned b then le_value bs else as_signed n (le_value bs)))
      else Inl (Sql_invalid_argument ''MySQL_Prepared_ResultSet::getInt64_intern: invalid type''))"

definition bind_bit :: "result_bind \<Rightarrow> int res" where
  "bind_bit b =
     (let n = rc_length (rb_cell b) in
      if 1 \<le> n \<and> n \<le> 8 then rbind (bind_bytes n b) (\<lambda>bs. Inr (bit_korr n bs)) else Inr 0)"

definition is_int_type :: "sql_type \<Rightarrow> bool" where
  "is_int_type t \<longleftrightarrow> t \<in> {DT_YEAR, DT_TINYINT, DT_SMALLINT, DT_MEDIUMINT, DT_INTEGER, DT_BIGINT}"

definition is_text_type :: "sql_type \<Rightarrow> bool" where
  "is_text_type t \<longleftrightarrow> t \<in> {DT_NUMERIC, DT_DECIMAL, DT_CHAR, DT_BINARY, DT_VARCHAR, DT_VARBINARY, DT_LONGVARCHAR,
     DT_LONGVARBINARY, DT_SET, DT_ENUM, DT_JSON}"

definition is_time_type :: "sql_type \<Rightarrow> bool" where
  "is_time_type t \<longleftrightarrow> t \<in> {DT_TIMESTAMP, DT_DATE, DT_TIME}"

text \<open>The integer of an integer or bit column: \<open>w\<close> converts to the signed or the unsigned 64-bit type.\<close>

definition bind_integer :: "(int \<Rightarrow> int) \<Rightarrow> sql_type \<Rightarrow> result_bind \<Rightarrow> int res" where
  "bind_integer w t b = rbind (if t = DT_BIT then bind_bit b else bind_int b) (\<lambda>i. Inr (w i))"

definition bind_double :: "'d pdouble \<Rightarrow> sql_type \<Rightarrow> result_bind \<Rightarrow> 'd res" where
  "bind_double pd t b =
     (if t = DT_REAL then rbind (bind_bytes 4 b) (\<lambda>bs. Inr (pd_float pd bs))
      else rbind (bind_bytes 8 b) (\<lambda>bs. Inr (pd_double pd bs)))"

definition two :: "nat \<Rightarrow> string" where
  "two n = (if n < 10 then ''0'' else []) @ udec n"

definition padded :: "nat \<Rightarrow> nat \<Rightarrow> string" where
  "padded w n = replicate (w - length (udec n)) (CHR ''0'') @ udec n"

text \<open>
  The three formats. The buffers have 28, 12 and 18 bytes, of which 26, 10 and 17 take characters; what
  does not fit is cut off.
\<close>

definition timestamp_text :: "mysql_time \<Rightarrow> string" where
  "timestamp_text t = take 26
     (padded 4 (t_year t) @ ''-'' @ two (t_month t) @ ''-'' @ two (t_day t) @ '' '' @ two (t_hour t) @ '':'' @
      two (t_minute t) @ '':'' @ two (t_second t) @
      (if t_second_part t \<noteq> 0 then ''.'' @ padded 6 (t_second_part t) else []))"

definition date_text :: "mysql_time \<Rightarrow> string" where
  "date_text t = take 10 (two (t_year t) @ ''-'' @ two (t_month t) @ ''-'' @ two (t_day t))"

definition time_text :: "mysql_time \<Rightarrow> string" where
  "time_text t = take 17
     ((if t_neg t then ''-'' else []) @ two (t_hour t) @ '':'' @ two (t_minute t) @ '':'' @ two (t_second t) @
      (if t_second_part t \<noteq> 0 then ''.'' @ padded 6 (t_second_part t) else []))"

definition unhandled :: "string \<Rightarrow> cpp_error" where
  "unhandled name = Not_implemented (''MySQL_Prepared_ResultSet::'' @ name @ '': unhandled type. Please, report'')"

definition c_string :: "string \<Rightarrow> string" where
  "c_string s = takeWhile (\<lambda>c. c \<noteq> CHR 0x00) s"

text \<open>
  The string of a value. A text is as long as the value, whatever the size of the buffer is. The number
  of a double is cut to 48 characters.
\<close>

definition bind_string :: "'d pdouble \<Rightarrow> sql_type \<Rightarrow> result_bind \<Rightarrow> string res" where
  "bind_string pd t b =
     (if t = DT_TIMESTAMP then rbind (bind_time b) (\<lambda>x. Inr (timestamp_text x))
      else if t = DT_DATE then rbind (bind_time b) (\<lambda>x. Inr (date_text x))
      else if t = DT_TIME then rbind (bind_time b) (\<lambda>x. Inr (time_text x))
      else if t = DT_BIT \<or> is_int_type t then
        (if rb_unsigned b then rbind (bind_integer to_uint64 t b) (\<lambda>i. Inr (udec (nat i)))
         else rbind (bind_integer to_int64 t b) (\<lambda>i. Inr (idec i)))
      else if t = DT_REAL \<or> t = DT_DOUBLE then rbind (bind_double pd t b) (\<lambda>d. Inr (take 48 (pd_print pd d)))
      else if is_text_type t then bind_bytes (rc_length (rb_cell b)) b
      else Inl (unhandled ''getString''))"

definition bind_number :: "'d pdouble \<Rightarrow> (int \<Rightarrow> int) \<Rightarrow> ('d \<Rightarrow> int option) \<Rightarrow> (string \<Rightarrow> int) \<Rightarrow> string \<Rightarrow>
    sql_type \<Rightarrow> result_bind \<Rightarrow> int res" where
  "bind_number pd w of_double of_string name t b =
     (if t = DT_REAL \<or> t = DT_DOUBLE then rbind (bind_double pd t b) (\<lambda>d.
        case of_double d of None \<Rightarrow> Inl Undefined_behaviour | Some i \<Rightarrow> Inr i)
      else if is_time_type t \<or> is_text_type t then rbind (bind_string pd t b) (\<lambda>s. Inr (of_string (c_string s)))
      else if t = DT_BIT \<or> is_int_type t then bind_integer w t b
      else Inl (unhandled name))"

definition bind_int64 :: "'d pdouble \<Rightarrow> sql_type \<Rightarrow> result_bind \<Rightarrow> int res" where
  "bind_int64 pd = bind_number pd to_int64 (pd_to_int64 pd) strtoll ''getInt64_intern''"

definition bind_uint64 :: "'d pdouble \<Rightarrow> sql_type \<Rightarrow> result_bind \<Rightarrow> int res" where
  "bind_uint64 pd = bind_number pd to_uint64 (pd_to_uint64 pd) strtoull ''getUInt64_intern''"

definition bind_ldouble :: "'d pdouble \<Rightarrow> sql_type \<Rightarrow> result_bind \<Rightarrow> 'd res" where
  "bind_ldouble pd t b =
     (if t = DT_BIT \<or> is_int_type t then
        (if rb_unsigned b then rbind (bind_uint64 pd t b) (\<lambda>i. Inr (pd_of_int pd i))
         else rbind (bind_int64 pd t b) (\<lambda>i. Inr (pd_of_int pd i)))
      else if is_time_type t \<or> is_text_type t then rbind (bind_string pd t b) (\<lambda>s. Inr (pd_strtonum pd (c_string s)))
      else if t = DT_REAL \<or> t = DT_DOUBLE then bind_double pd t b
      else Inl (unhandled ''getDouble''))"

section \<open>Getters\<close>

definition pr_findColumn :: "string \<Rightarrow> ('p prs, nat) sop" where
  "pr_findColumn label =
     sthen pr_checkValid (sget (\<lambda>s. case pr_names s (utf8_strup label) of None \<Rightarrow> 0 | Some i \<Rightarrow> i + 1))"

definition pr_off :: "string \<Rightarrow> cpp_error" where
  "pr_off name = Sql_invalid_argument (''MySQL_Prepared_ResultSet::'' @ name @ '': can't fetch because not on result set'')"

definition pr_bad_column :: "string \<Rightarrow> cpp_error" where
  "pr_bad_column name = Sql_invalid_argument
     (''MySQL_Prepared_ResultSet::'' @ name @ '': invalid value of '' @ [squote] @ ''columnIndex'' @ [squote])"

text \<open>\<^verbatim>\<open>getString\<close> and \<^verbatim>\<open>getDouble\<close> have messages of their own.\<close>

definition pr_bad_index :: "string \<Rightarrow> cpp_error" where
  "pr_bad_index name = Sql_invalid_argument
     (''MySQLPreparedResultSet::'' @ name @ '': invalid '' @ [squote] @ ''columnIndex'' @ [squote])"

definition pr_check_row :: "string \<Rightarrow> ('p prs, unit) sop" where
  "pr_check_row name = sbind pr_isBeforeFirstOrAfterLast (\<lambda>off. if off then sthrow (pr_off name) else sret ())"

definition pr_bind :: "nat \<Rightarrow> ('p prs, result_bind) sop" where
  "pr_bind col = (\<lambda>s. (if 0 < col \<and> col \<le> length (pr_binds s) then Inr (pr_binds s ! (col - 1)) else Inl Undefined_behaviour, s))"

definition pr_column_type :: "nat \<Rightarrow> ('p prs, sql_type) sop" where
  "pr_column_type col = (\<lambda>s. (if 0 < col \<and> col \<le> length (pr_fields s) then mysql_type_to_datatype (pr_fields s ! (col - 1))
     else Inl Undefined_behaviour, s))"

text \<open>The frame of all getters: the guards, the null value, the conversion by the column's type.\<close>

definition pr_get :: "string \<Rightarrow> cpp_error \<Rightarrow> 'a \<Rightarrow> (sql_type \<Rightarrow> result_bind \<Rightarrow> 'a res) \<Rightarrow> nat \<Rightarrow> ('p prs, 'a) sop" where
  "pr_get name bad null conv col =
     sthen (pr_check_row name) (sthen (scheck (\<lambda>s. \<not> (col = 0 \<or> col > pr_num_fields s)) bad)
       (sthen (smod (\<lambda>s. s\<lparr>pr_last_col := col\<rparr>)) (sbind (pr_bind col) (\<lambda>b.
          if rc_null (rb_cell b) then sret null
          else sbind (pr_column_type col) (\<lambda>t s. (conv t b, s))))))"

definition pr_getString :: "'d pdouble \<Rightarrow> nat \<Rightarrow> ('p prs, string) sop" where
  "pr_getString pd = pr_get ''getString'' (pr_bad_index ''getString'') [] (bind_string pd)"

definition pr_getDouble :: "'d pdouble \<Rightarrow> nat \<Rightarrow> ('p prs, 'd) sop" where
  "pr_getDouble pd = pr_get ''getDouble'' (pr_bad_index ''getDouble'') (pd_zero pd) (bind_ldouble pd)"

definition pr_getInt64 :: "'d pdouble \<Rightarrow> nat \<Rightarrow> ('p prs, int) sop" where
  "pr_getInt64 pd = pr_get ''getInt64'' (pr_bad_column ''getInt64'') 0 (bind_int64 pd)"

definition pr_getUInt64 :: "'d pdouble \<Rightarrow> nat \<Rightarrow> ('p prs, int) sop" where
  "pr_getUInt64 pd = pr_get ''getUInt64'' (pr_bad_column ''getUInt64'') 0 (bind_uint64 pd)"

definition pr_getInt :: "'d pdouble \<Rightarrow> nat \<Rightarrow> ('p prs, int) sop" where
  "pr_getInt pd = pr_get ''getInt'' (pr_bad_column ''getInt'') 0 (\<lambda>t b. rbind (bind_int64 pd t b) (\<lambda>i. Inr (to_int32 i)))"

definition pr_getUInt :: "'d pdouble \<Rightarrow> nat \<Rightarrow> ('p prs, int) sop" where
  "pr_getUInt pd = pr_get ''getUInt'' (pr_bad_column ''getUInt'') 0 (\<lambda>t b. rbind (bind_uint64 pd t b) (\<lambda>i. Inr (to_uint32 i)))"

definition pr_getBlob :: "'d pdouble \<Rightarrow> nat \<Rightarrow> ('p prs, string) sop" where
  "pr_getBlob pd col = sthen (pr_check_row ''getBlob'') (pr_getString pd col)"

definition pr_getBoolean :: "'d pdouble \<Rightarrow> nat \<Rightarrow> ('p prs, bool) sop" where
  "pr_getBoolean pd col = sthen (pr_check_row ''getBoolean'') (sbind (pr_getInt pd col) (\<lambda>i. sret (i \<noteq> 0)))"

definition pr_isNull :: "nat \<Rightarrow> ('p prs, bool) sop" where
  "pr_isNull col =
     sthen pr_checkValid (sthen (scheck (\<lambda>s. \<not> (col = 0 \<or> col > pr_num_fields s)) (pr_bad_column ''isNull''))
       (sthen (pr_check_row ''isNull'') (sbind (pr_bind col) (\<lambda>b. sret (rc_null (rb_cell b))))))"

definition pr_wasNull :: "('p prs, bool) sop" where
  "pr_wasNull =
     sthen pr_checkValid (sthen (pr_check_row ''wasNull'')
       (sthen (scheck (\<lambda>s. pr_last_col s \<noteq> no_column)
          (Sql_invalid_argument ''MySQL_Prepared_ResultSet::wasNull: should be called only after one of the getter methods''))
         (\<lambda>s. sbind (pr_bind (pr_last_col s)) (\<lambda>b. sret (rc_null (rb_cell b))) s)))"

definition pr_getRow :: "('p prs, nat) sop" where
  "pr_getRow = sthen pr_checkValid (sget pr_position)"

definition pr_getType :: "('p prs, rs_kind) sop" where
  "pr_getType = sthen pr_checkValid (sget pr_type)"

definition pr_rowsCount :: "'p nres \<Rightarrow> ('p prs, nat) sop" where
  "pr_rowsCount nr = sthen pr_checkValid (sthen pr_checkScrollable (sget (\<lambda>s. nr_num_rows nr (pr_proxy s))))"

definition pr_getString_label :: "'d pdouble \<Rightarrow> string \<Rightarrow> ('p prs, string) sop" where
  "pr_getString_label pd label = sbind (pr_findColumn label) (pr_getString pd)"

definition pr_getDouble_label :: "'d pdouble \<Rightarrow> string \<Rightarrow> ('p prs, 'd) sop" where
  "pr_getDouble_label pd label = sbind (pr_findColumn label) (pr_getDouble pd)"

definition pr_getInt_label :: "'d pdouble \<Rightarrow> string \<Rightarrow> ('p prs, int) sop" where
  "pr_getInt_label pd label = sbind (pr_findColumn label) (pr_getInt pd)"

definition pr_getUInt_label :: "'d pdouble \<Rightarrow> string \<Rightarrow> ('p prs, int) sop" where
  "pr_getUInt_label pd label = sbind (pr_findColumn label) (pr_getUInt pd)"

definition pr_getInt64_label :: "'d pdouble \<Rightarrow> string \<Rightarrow> ('p prs, int) sop" where
  "pr_getInt64_label pd label = sbind (pr_findColumn label) (pr_getInt64 pd)"

definition pr_getUInt64_label :: "'d pdouble \<Rightarrow> string \<Rightarrow> ('p prs, int) sop" where
  "pr_getUInt64_label pd label = sbind (pr_findColumn label) (pr_getUInt64 pd)"

definition pr_getBlob_label :: "'d pdouble \<Rightarrow> string \<Rightarrow> ('p prs, string) sop" where
  "pr_getBlob_label pd label = sthen (pr_check_row ''getBlob'') (pr_getString_label pd label)"

definition pr_getBoolean_label :: "'d pdouble \<Rightarrow> string \<Rightarrow> ('p prs, bool) sop" where
  "pr_getBoolean_label pd label =
     sthen (pr_check_row ''getBoolean'') (sbind (pr_getInt_label pd label) (\<lambda>i. sret (i \<noteq> 0)))"

definition pr_isNull_label :: "string \<Rightarrow> ('p prs, bool) sop" where
  "pr_isNull_label label =
     sbind (pr_findColumn label) (\<lambda>col_idx.
       if col_idx = 0 then sthrow (Sql_invalid_argument
         (''MySQL_Prepared_ResultSet::isNull: invalid value of '' @ [squote] @ ''columnLabel'' @ [squote]))
       else pr_isNull col_idx)"

section \<open>Methods that are not implemented\<close>

datatype pr_missing = Pr_cancelRowUpdates | Pr_clearWarnings | Pr_getConcurrency | Pr_getCursorName
  | Pr_getFetchDirection | Pr_getFetchSize | Pr_getHoldability | Pr_getRowId | Pr_getWarnings | Pr_insertRow
  | Pr_moveToCurrentRow | Pr_moveToInsertRow | Pr_refreshRow | Pr_rowDeleted | Pr_rowInserted | Pr_rowUpdated
  | Pr_setFetchSize

fun pr_message :: "pr_missing \<Rightarrow> string" where
  "pr_message Pr_cancelRowUpdates = ''cancelRowUpdates''"
| "pr_message Pr_clearWarnings = ''clearWarnings''"
| "pr_message Pr_getConcurrency = ''getConcurrency''"
| "pr_message Pr_getCursorName = ''getCursorName''"
| "pr_message Pr_getFetchDirection = ''getFetchDirection''"
| "pr_message Pr_getFetchSize = ''getFetchSize''"
| "pr_message Pr_getHoldability = ''getHoldability''"
| "pr_message Pr_getRowId = ''getRowId''"
| "pr_message Pr_getWarnings = ''getWarnings''"
| "pr_message Pr_insertRow = ''insertRow''"
| "pr_message Pr_moveToCurrentRow = ''moveToCurrentRow''"
| "pr_message Pr_moveToInsertRow = ''moveToInsertRow''"
| "pr_message Pr_refreshRow = ''refreshRow''"
| "pr_message Pr_rowDeleted = ''rowDeleted''"
| "pr_message Pr_rowInserted = ''rowInserted''"
| "pr_message Pr_rowUpdated = ''rowUpdated''"
| "pr_message Pr_setFetchSize = ''setFetchSize''"

definition pr_missing_method :: "pr_missing \<Rightarrow> ('p prs, unit) sop" where
  "pr_missing_method m =
     sthen pr_checkValid (sthen (if m = Pr_moveToCurrentRow \<or> m = Pr_moveToInsertRow then pr_checkScrollable else sret ())
       (sthrow (Not_implemented (''MySQL_Prepared_ResultSet::'' @ pr_message m @ ''()''))))"

end
