(* ===== verification/Sql_Conn.thy ===== *)
theory Sql_Conn
  imports Connection_Safety Statement_Trace Ps_Result_Set
begin

text \<open>
  \<^verbatim>\<open>SQLConn\<close> of \<^verbatim>\<open>lib/objects/sql.cpp\<close>: the program's access to the database. Arguments passed through the
  ellipsis are a list of typed values; \<^verbatim>\<open>va_arg\<close> with another type, or beyond the last argument, is
  undefined. \<^verbatim>\<open>va_start\<close> is given another variable than the last parameter, which the standard leaves undefined: the
  definitions take the arguments the caller passed, as compilers do. The connection that \<^verbatim>\<open>driver->connect\<close> returns is an argument. An exception leaves the
  prepared statement allocated, as in the code. Messages on the error stream are not modelled.
\<close>

section \<open>Binding the arguments\<close>

datatype 'd vararg =
    Va_string string | Va_int "32 word" | Va_int64 "64 word" | Va_uint64 "64 word" | Va_double 'd

text \<open>A 64-bit number may be read with the other signedness when it is representable in both types.\<close>

definition bind_letter :: "char \<Rightarrow> nat \<Rightarrow> 'd vararg list \<Rightarrow> (('p, 'd) pstmt, 'd vararg list) sop" where
  "bind_letter t i args =
     (if t = CHR ''s'' then
        (case args of Va_string v # rest \<Rightarrow> sthen (ps_setString i v) (sret rest) | _ \<Rightarrow> sthrow Undefined_behaviour)
      else if t = CHR ''i'' then
        (case args of Va_int v # rest \<Rightarrow> sthen (ps_setInt i v) (sret rest) | _ \<Rightarrow> sthrow Undefined_behaviour)
      else if t = CHR ''l'' then
        (case args of
           Va_int64 v # rest \<Rightarrow> sthen (ps_setInt64 i v) (sret rest)
         | Va_uint64 v # rest \<Rightarrow> if 0 \<le> sint v then sthen (ps_setInt64 i v) (sret rest) else sthrow Undefined_behaviour
         | _ \<Rightarrow> sthrow Undefined_behaviour)
      else if t = CHR ''d'' then
        (case args of Va_double v # rest \<Rightarrow> sthen (ps_setDouble i v) (sret rest) | _ \<Rightarrow> sthrow Undefined_behaviour)
      else if t = CHR ''u'' then
        (case args of
           Va_uint64 v # rest \<Rightarrow> sthen (ps_setUInt64 i v) (sret rest)
         | Va_int64 v # rest \<Rightarrow> if 0 \<le> sint v then sthen (ps_setUInt64 i v) (sret rest) else sthrow Undefined_behaviour
         | _ \<Rightarrow> sthrow Undefined_behaviour)
      else sret args)"

fun bind_args :: "string \<Rightarrow> nat \<Rightarrow> 'd vararg list \<Rightarrow> (('p, 'd) pstmt, unit) sop" where
  "bind_args [] i args = sret ()"
| "bind_args (t # types) i args = sbind (bind_letter t i args) (bind_args types (i + 1))"

section \<open>\<^verbatim>\<open>SQLConn\<close>\<close>

record 'n sqlconn =
  sq_database :: string
  sq_conn :: "'n connection"

definition on_conn :: "('n connection, 'a) sop \<Rightarrow> ('n sqlconn, 'a) sop" where
  "on_conn m = (\<lambda>s. case m (sq_conn s) of (r, c) \<Rightarrow> (r, s\<lparr>sq_conn := c\<rparr>))"

definition update_database :: "('n, 'r, 'p, 'd) nlink \<Rightarrow> string \<Rightarrow> ('n sqlconn, unit) sop" where
  "update_database link database =
     sthen (smod (\<lambda>s. if length database > 0 then s\<lparr>sq_database := database\<rparr> else s))
       (\<lambda>s. on_conn (con_setSchema link (sq_database s)) s)"

definition new_SQLConn :: "'n connection \<Rightarrow> 'n sqlconn" where
  "new_SQLConn c = \<lparr>sq_database = [], sq_conn = c\<rparr>"

definition new_SQLConn_database :: "('n, 'r, 'p, 'd) nlink \<Rightarrow> 'n connection \<Rightarrow> string \<Rightarrow> unit res \<times> 'n sqlconn" where
  "new_SQLConn_database link c database = update_database link database (new_SQLConn c)"

text \<open>
  The prepared statement of one call: \<open>m\<close> runs on it, then it is deleted, which closes the client
  library's statement.
\<close>

definition with_prepared ::
    "('n, 'r, 'p, 'd) nlink \<Rightarrow> string \<Rightarrow> (('p, 'd) pstmt, 'a) sop \<Rightarrow> ('n connection, 'a) sop" where
  "with_prepared link query m =
     sbind (con_prepareStatement link (\<lambda>_. \<lparr>is_left = [], is_eof = False, is_fail = False, is_bad = False\<rparr>) query) (\<lambda>prep_stmt c.
       case m prep_stmt of
         (Inl e, _) \<Rightarrow> (Inl e, c)
       | (Inr x, t) \<Rightarrow> (case delete_PreparedStatement t of
           (Inl e, _) \<Rightarrow> (Inl e, c)
         | (Inr _, _) \<Rightarrow> (case ps_proxy t of
             None \<Rightarrow> (Inl Undefined_behaviour, c)
           | Some p \<Rightarrow> sthen (con_call (\<lambda>n. ((), nl_stmt_close link p n))) (sret x) c)))"

definition sq_execute :: "nat \<Rightarrow> ('n, 'r, 'p, 'd) nlink \<Rightarrow> string \<Rightarrow> string \<Rightarrow> 'd vararg list \<Rightarrow> ('n sqlconn, unit) sop" where
  "sq_execute fuel link types query args =
     on_conn (with_prepared link query
       (sthen (bind_args types 1 args) (sbind (ps_execute fuel (nl_stmt link)) (\<lambda>_. sret ()))))"

text \<open>
  \<^verbatim>\<open>executeQuery\<close> with the result set it builds: the set shares the client library's statement and the
  buffers with the prepared statement. \<^verbatim>\<open>fetch\<close> then deletes the prepared statement, so the set is the only
  owner left; the library's statement stays open until the set is deleted.
\<close>

definition ps_query_result :: "nat \<Rightarrow> ('p, 'd) nstmt \<Rightarrow> 'p nres \<Rightarrow> (('p, 'd) pstmt, 'p prs) sop" where
  "ps_query_result fuel api nr =
     sbind (ps_executeQuery fuel api) (\<lambda>kind t.
       case ps_proxy t of
         None \<Rightarrow> (Inl Undefined_behaviour, t)
       | Some p \<Rightarrow> (case new_PreparedResultSet nr p kind 2 of
           Inl e \<Rightarrow> (Inl e, t)
         | Inr rs \<Rightarrow> (Inr rs, t\<lparr>ps_proxy := Some (pr_proxy rs)\<rparr>)))"

definition sq_fetch ::
    "nat \<Rightarrow> ('n, 'r, 'p, 'd) nlink \<Rightarrow> 'p nres \<Rightarrow> string \<Rightarrow> string \<Rightarrow> 'd vararg list \<Rightarrow> ('n sqlconn, 'p prs) sop" where
  "sq_fetch fuel link nr types query args =
     on_conn (sbind (con_prepareStatement link (\<lambda>_. \<lparr>is_left = [], is_eof = False, is_fail = False, is_bad = False\<rparr>) query)
       (\<lambda>prep_stmt c.
         case sthen (bind_args types 1 args) (ps_query_result fuel (nl_stmt link) nr) prep_stmt of
           (Inl e, _) \<Rightarrow> (Inl e, c)
         | (Inr res, t) \<Rightarrow> (case delete_PreparedStatement t of
             (Inl e, _) \<Rightarrow> (Inl e, c)
           | (Inr _, _) \<Rightarrow> (Inr (res\<lparr>pr_uses := 1\<rparr>), c))))"

definition sq_execute_query :: "('n, 'r, 'p, 'd) nlink \<Rightarrow> string \<Rightarrow> ('n sqlconn, unit) sop" where
  "sq_execute_query link query =
     on_conn (sbind (con_statement (st_execute (nl_conn link) query)) (\<lambda>_. sret ()))"

definition sq_fetch_query :: "('n, 'r, 'p, 'd) nlink \<Rightarrow> string \<Rightarrow> ('n sqlconn, 'r result_set) sop" where
  "sq_fetch_query link query = on_conn (con_statement (st_executeQuery (nl_conn link) (nl_result link) query))"

section \<open>What is bound\<close>

text \<open>The letter that belongs to an argument, and the binding a short argument gets on a new statement.\<close>

fun letter :: "'d vararg \<Rightarrow> char" where
  "letter (Va_string v) = CHR ''s''"
| "letter (Va_int v) = CHR ''i''"
| "letter (Va_int64 v) = CHR ''l''"
| "letter (Va_uint64 v) = CHR ''u''"
| "letter (Va_double v) = CHR ''d''"

fun arg_update :: "'d vararg \<Rightarrow> 'd bind \<Rightarrow> 'd bind" where
  "arg_update (Va_string v) = (\<lambda>b. b\<lparr>b_type := MYSQL_TYPE_STRING, b_buffer := Some (Buf_string v),
     b_buffer_length := length v + 1, b_is_null := False, b_length := Some (length v)\<rparr>)"
| "arg_update (Va_int v) = bind_value MYSQL_TYPE_LONG (Buf_long v)"
| "arg_update (Va_int64 v) = bind_value MYSQL_TYPE_LONGLONG (Buf_longlong v)"
| "arg_update (Va_uint64 v) = (\<lambda>b. (bind_value MYSQL_TYPE_LONGLONG (Buf_longlong v) b)\<lparr>b_is_unsigned := True\<rparr>)"
| "arg_update (Va_double v) = bind_value MYSQL_TYPE_DOUBLE (Buf_double v)"

fun short_arg :: "'d vararg \<Rightarrow> bool" where
  "short_arg (Va_string v) \<longleftrightarrow> length v \<le> 256 * 1024"
| "short_arg _ \<longleftrightarrow> True"

definition arg_bind :: "'d vararg \<Rightarrow> 'd bind" where
  "arg_bind a = arg_update a zero_bind"

lemma arg_update_reset: "arg_update a (resetBlobBind zero_bind) = arg_bind a"
  by (cases a) (simp_all add: arg_bind_def resetBlobBind_def bind_value_def zero_bind_def)

text \<open>One argument: the setter that its letter names runs.\<close>

lemma bind_letter_set:
  assumes "short_arg a"
  shows "\<exists>name t n. allocate_buffer_for_type t = Inr n \<and>
    bind_letter (letter a) i (a # rest) = sthen (ps_set name i t (arg_update a)) (sret rest)"
proof (cases a)
  case (Va_string v)
  with assms have "\<not> length v > 256 * 1024" by simp
  with Va_string show ?thesis
    by (intro exI [of _ "''setString''"] exI [of _ MYSQL_TYPE_STRING] exI [of _ 0])
      (simp add: bind_letter_def allocate_ok setString_short)
next
  case (Va_int v)
  then show ?thesis
    by (intro exI [of _ "''setInt''"] exI [of _ MYSQL_TYPE_LONG] exI [of _ 4]) (simp add: bind_letter_def allocate_ok ps_setInt_def)
next
  case (Va_int64 v)
  then show ?thesis
    by (intro exI [of _ "''setInt64''"] exI [of _ MYSQL_TYPE_LONGLONG] exI [of _ 8]) (simp add: bind_letter_def allocate_ok ps_setInt64_def)
next
  case (Va_uint64 v)
  then show ?thesis
    by (intro exI [of _ "''setUInt64''"] exI [of _ MYSQL_TYPE_LONGLONG] exI [of _ 8]) (simp add: bind_letter_def allocate_ok ps_setUInt64_def)
next
  case (Va_double v)
  then show ?thesis
    by (intro exI [of _ "''setDouble''"] exI [of _ MYSQL_TYPE_DOUBLE] exI [of _ 8]) (simp add: bind_letter_def allocate_ok ps_setDouble_def)
qed

lemma set_value_blobs: "pb_blobs (set_value i f s) = (pb_blobs s)(i := None)"
  by (auto simp: set_value_def stored_def resetted_def dropped_def replaced_def blob_is_null_def)

text \<open>A statement whose first parameters are bound to \<open>ds\<close>, the other \<open>k\<close> not yet.\<close>

definition bound_upto :: "'d vararg list \<Rightarrow> nat \<Rightarrow> ('p, 'd) pstmt \<Rightarrow> bool" where
  "bound_upto ds k s \<longleftrightarrow> ps_open s \<and> ps_param_count s = length ds + k
     \<and> pb_bind (ps_params s) = map arg_bind ds @ replicate k zero_bind
     \<and> pb_set (ps_params s) = replicate (length ds) True @ replicate k False \<and> pb_blobs (ps_params s) = Map.empty"

lemma bind_one:
  fixes s :: "('p, 'd) pstmt"
  assumes "bound_upto ds (Suc k) s" "short_arg a"
  shows "\<exists>u. bind_letter (letter a) (length ds + 1) (a # rest) s = (Inr rest, u) \<and> bound_upto (ds @ [a]) k u
    \<and> ps_proxy u = ps_proxy s \<and> ps_resultset_type u = ps_resultset_type s"
proof -
  obtain name t n where t: "allocate_buffer_for_type t = Inr n"
    "(bind_letter (letter a) (length ds + 1) (a # rest) :: (('p, 'd) pstmt, 'd vararg list) sop) = sthen (ps_set name (length ds + 1) t (arg_update a)) (sret rest)"
    using bind_letter_set [OF assms(2), of "length ds + 1" rest] by blast
  have s: "ps_open s" "1 \<le> length ds + 1" "length ds + 1 \<le> ps_param_count s" using assms(1) by (simp_all add: bound_upto_def)
  let ?p = "set_value (length ds) (arg_update a) (ps_params s)"
  note set = set_open(1) [OF s t(1), of name "arg_update a"] set_open(2) [OF s t(1), of "arg_update a"]
  have "length ds < length (pb_bind (ps_params s))" using assms(1) by (simp add: bound_upto_def)
  note bs = set_value_bind [OF this, of "arg_update a"]
  have "pb_bind ?p = map arg_bind (ds @ [a]) @ replicate k zero_bind"
    using assms(1) by (simp add: bs bound_upto_def nth_append list_update_append arg_update_reset)
  moreover have "pb_set ?p = replicate (Suc (length ds)) True @ replicate k False"
    using assms(1) by (simp add: bs bound_upto_def list_update_append replicate_app_Cons_same)
  moreover have "pb_blobs ?p = Map.empty" using assms(1) by (simp add: set_value_blobs bound_upto_def)
  ultimately have "bound_upto (ds @ [a]) k (s\<lparr>ps_params := ?p\<rparr>)"
    using set(2) assms(1) by (simp add: bound_upto_def)
  with set(1) t(2) show ?thesis by auto
qed

lemma bind_args_all:
  assumes "bound_upto ds (length args) s" "list_all short_arg args"
  shows "\<exists>u. bind_args (map letter args) (length ds + 1) args s = (Inr (), u) \<and> bound_upto (ds @ args) 0 u
    \<and> ps_proxy u = ps_proxy s \<and> ps_resultset_type u = ps_resultset_type s"
  using assms
proof (induction args arbitrary: ds s)
  case Nil
  then show ?case by simp
next
  case (Cons a args)
  then have "bound_upto ds (Suc (length args)) s" "short_arg a" by simp_all
  from bind_one [OF this, of args] obtain t where
    t: "bind_letter (letter a) (length ds + 1) (a # args) s = (Inr args, t)" "bound_upto (ds @ [a]) (length args) t"
    "ps_proxy t = ps_proxy s" "ps_resultset_type t = ps_resultset_type s" by blast
  with Cons.IH [OF t(2)] Cons.prems(2) show ?case by simp
qed

lemma new_bound: "ns_param_count api n = k \<Longrightarrow> bound_upto [] k (new_PreparedStatement api n kind streams)"
  using new_PreparedStatement_wf [of api n kind streams]
  by (simp add: bound_upto_def ps_open_def) (simp add: new_PreparedStatement_def new_ParamBind_def)

lemma bound_calls:
  assumes "bound_upto ds 0 s"
  shows "pb_isAllSet (ps_params s)" "sendable fuel (ps_params s) j"
    "concat (map (long_calls (ps_params s)) [0..<ps_param_count s]) = []"
proof -
  have n: "pb_count (ps_params s) = length ds" "ps_param_count s = length ds"
    using assms by (simp_all add: bound_upto_def ps_open_def ps_wf_def)
  then show "pb_isAllSet (ps_params s)" using assms by (simp add: pb_isAllSet_def bound_upto_def list_all_iff)
  show "sendable fuel (ps_params s) j" using assms by (simp add: sendable_def pb_getBlobObject_def bound_upto_def)
  have "long_calls (ps_params s) k = []" for k
    using assms by (simp add: long_calls_def pb_getBlobObject_def bound_upto_def)
  then show "concat (map (long_calls (ps_params s)) [0..<ps_param_count s]) = []" by simp
qed

text \<open>
  Binding and executing a new statement: the client library receives the bindings of the arguments, in
  order, and the request to run.
\<close>

context accepting
begin

lemma bind_and_execute:
  assumes "ns_param_count api n = length args" "list_all short_arg args"
  shows "\<exists>b t n'. sthen (bind_args (map letter args) 1 args) (ps_execute fuel api) (new_PreparedStatement api n kind streams) = (Inr b, t)
    \<and> ps_wf t \<and> ps_proxy t = Some n' \<and> calls n' = calls n @ [Bind (map arg_bind args), Run]"
proof -
  let ?s = "new_PreparedStatement api n kind streams"
  from bind_args_all [OF new_bound [OF assms(1)] assms(2), of kind streams] obtain u where
    u: "bind_args (map letter args) 1 args ?s = (Inr (), u)" "bound_upto args 0 u" "ps_proxy u = Some n"
    by (auto simp: new_PreparedStatement_def)
  have o: "ps_open u" "pb_bind (ps_params u) = map arg_bind args" using u(2) by (simp_all add: bound_upto_def)
  from execute_calls_aux [OF o(1) u(3) bound_calls(1) [OF u(2)] bound_calls(2) [OF u(2), of fuel]] obtain n' t where
    t: "ps_execute fuel api u = (Inr (ns_field_count api n' > 0), t)" "ps_proxy t = Some n'"
    "calls n' = calls n @ [Bind (map arg_bind args), Run]"
    using bound_calls(3) [OF u(2)] o(2) by auto
  have "ps_wf t" using safeD [OF safe_execute(1) _ t(1)] o(1) by (simp add: ps_open_def)
  with u(1) t show ?thesis by auto
qed

end

section \<open>Executions through a connection\<close>

text \<open>The placeholders of a query without literals and comments: question marks outside backquotes.\<close>

fun placeholders :: "bool \<Rightarrow> string \<Rightarrow> nat" where
  "placeholders quoted [] = 0"
| "placeholders quoted (c # cs) =
     (if c = CHR 0x60 then placeholders (\<not> quoted) cs
      else (if c = CHR ''?'' \<and> \<not> quoted then 1 else 0) + placeholders quoted cs)"

text \<open>
  What an execution relies on of the client library's connection: a statement can be made and the
  query prepared; the connection's log receives the calls of a statement when that is closed.
\<close>

locale preparing = accepting "nl_stmt link" calls
  for link :: "('n, 'r, 'p, 'd) nlink" and calls :: "'p \<Rightarrow> 'd call list" +
  fixes log :: "'n \<Rightarrow> 'd call list list" and query :: string
  assumes init_ok: "\<exists>p n'. nl_stmt_init link n = (Some p, n') \<and> log n' = log n \<and> calls p = []"
    and prepare_ok: "calls p = [] \<Longrightarrow> \<exists>p'. nl_prepare link query p = (False, p') \<and> calls p' = []
      \<and> ns_param_count (nl_stmt link) p' = placeholders False query"
    and close_log: "log (nl_stmt_close link p n) = log n @ [calls p]"
begin

lemma prepared:
  assumes "c_valid c" "c_proxy c = Some n"
  shows "\<exists>p n'. con_prepareStatement link streams query c =
      (Inr (new_PreparedStatement (nl_stmt link) p (c_ps_type c) streams), c\<lparr>c_proxy := Some n'\<rparr>)
    \<and> log n' = log n \<and> calls p = [] \<and> ns_param_count (nl_stmt link) p = placeholders False query"
proof -
  from init_ok [of n] obtain p n' where p: "nl_stmt_init link n = (Some p, n')" "log n' = log n" "calls p = []" by blast
  from prepare_ok [OF p(3)] obtain p' where "nl_prepare link query p = (False, p')" "calls p' = []"
    "ns_param_count (nl_stmt link) p' = placeholders False query" by blast
  with p assms show ?thesis
    by (intro exI [of _ p'] exI [of _ n']) (simp add: con_prepareStatement_def con_checkClosed_def con_call_def)
qed

lemma sq_execute_logs:
  assumes "c_valid (sq_conn s)" "c_proxy (sq_conn s) = Some n"
    and "length args = placeholders False query" "list_all short_arg args"
  shows "\<exists>s' n'. sq_execute fuel link (map letter args) query args s = (Inr (), s')
    \<and> c_valid (sq_conn s') \<and> c_proxy (sq_conn s') = Some n' \<and> log n' = log n @ [[Bind (map arg_bind args), Run]]"
proof -
  let ?c = "sq_conn s" and ?st = "\<lambda>_. \<lparr>is_left = [], is_eof = False, is_fail = False, is_bad = False\<rparr>"
  from prepared [OF assms(1,2), of ?st] obtain p n1 where
    p: "con_prepareStatement link ?st query ?c =
        (Inr (new_PreparedStatement (nl_stmt link) p (c_ps_type ?c) ?st), ?c\<lparr>c_proxy := Some n1\<rparr>)"
    "log n1 = log n" "calls p = []" "ns_param_count (nl_stmt link) p = length args" using assms(3) by auto
  from bind_and_execute [OF p(4) assms(4), of fuel "c_ps_type ?c" ?st] obtain b t p' where
    t: "sthen (bind_args (map letter args) 1 args) (ps_execute fuel (nl_stmt link))
        (new_PreparedStatement (nl_stmt link) p (c_ps_type ?c) ?st) = (Inr b, t)"
    "ps_wf t" "ps_proxy t = Some p'" "calls p' = [Bind (map arg_bind args), Run]" using p(3) by auto
  have run: "sthen (bind_args (map letter args) 1 args) (sbind (ps_execute fuel (nl_stmt link)) (\<lambda>_. sret ()))
      (new_PreparedStatement (nl_stmt link) p (c_ps_type ?c) ?st) = (Inr (), t)"
    using t(1) by (auto split: prod.splits sum.splits)
  from delete_statement [OF t(2)] obtain u where "delete_PreparedStatement t = (Inr (), u)" by blast
  with run t(3) p(1) have "sq_execute fuel link (map letter args) query args s =
      (Inr (), s\<lparr>sq_conn := ?c\<lparr>c_proxy := Some (nl_stmt_close link p' n1)\<rparr>\<rparr>)"
    by (simp add: sq_execute_def on_conn_def with_prepared_def con_call_def del: sthen_apply)
      (simp add: con_call_def)
  with assms(1) p(2) t(4) close_log [of p' n1] show ?thesis by simp
qed

end

section \<open>A recording connection\<close>

record 'd db =
  db_conn :: sim_conn
  db_log :: "'d call list list"

definition on_sim :: "(sim_conn \<Rightarrow> 'a \<times> sim_conn) \<Rightarrow> 'd db \<Rightarrow> 'a \<times> 'd db" where
  "on_sim f d = (case f (db_conn d) of (x, c) \<Rightarrow> (x, d\<lparr>db_conn := c\<rparr>))"

definition db_api :: "('d db, client) nconn" where
  "db_api =
     \<lparr>nc_query = (\<lambda>q. on_sim (nc_query sim_api q)), nc_errNo = (\<lambda>d. nc_errNo sim_api (db_conn d)),
      nc_warning_count = (\<lambda>d. nc_warning_count sim_api (db_conn d)), nc_field_count = (\<lambda>d. nc_field_count sim_api (db_conn d)),
      nc_affected_rows = (\<lambda>d. nc_affected_rows sim_api (db_conn d)),
      nc_use_result = on_sim (nc_use_result sim_api), nc_store_result = on_sim (nc_store_result sim_api),
      nc_more_results = (\<lambda>d. nc_more_results sim_api (db_conn d)), nc_next_result = on_sim (nc_next_result sim_api)\<rparr>"

definition db_link :: "('d db, client, 'd recorder, 'd) nlink" where
  "db_link =
     \<lparr>nl_conn = db_api, nl_result = client_api, nl_stmt = recorder_api,
      nl_autocommit = (\<lambda>b d. (False, d)), nl_commit = (\<lambda>d. (True, d)), nl_rollback = (\<lambda>d. (False, d)),
      nl_server_version = (\<lambda>d. 80000), nl_info = (\<lambda>d. []), nl_escapeString = (\<lambda>s d. s),
      nl_ping = (\<lambda>d. (False, d)), nl_set_reconnect = (\<lambda>b d. d),
      nl_stmt_init = (\<lambda>d. (Some \<lparr>rec_calls = [], rec_params = 0\<rparr>, d)),
      nl_prepare = (\<lambda>sql p. (False, p\<lparr>rec_params := placeholders False sql\<rparr>)),
      nl_stmt_close = (\<lambda>p d. d\<lparr>db_log := db_log d @ [rec_calls p]\<rparr>)\<rparr>"

interpretation db: preparing db_link rec_calls db_log query
  by unfold_locales (auto simp: db_link_def recorder_api_def)

end
