(* ===== verification/Table_Generator.thy ===== *)
theory Table_Generator
  imports Sql_Conn Codegen
begin

text \<open>
  \<^verbatim>\<open>generate.cpp\<close>: the program that fills the table of sales with random rows. The values of \<^verbatim>\<open>rand()\<close>
  are an argument, the sequence \<open>rnd\<close> of non-negative numbers; seven of them make a row.
\<close>

section \<open>The program\<close>

definition customers :: "string list" where
  "customers = [
     ''JAMES'', ''JOHN'', ''ROBERT'', ''MICHAEL'', ''WILLIAM'', ''DAVID'', ''RICHARD'', ''CHARLES'', ''JOSEPH'',
     ''THOMAS'', ''CHRISTOPHER'', ''DANIEL'', ''PAUL'', ''MARK'', ''DONALD'', ''GEORGE'', ''KENNETH'', ''STEVEN'',
     ''EDWARD'', ''BRIAN'', ''RONALD'', ''ANTHONY'', ''KEVIN'', ''JASON'', ''MATTHEW'', ''GARY'', ''TIMOTHY'',
     ''JOSE'', ''LARRY'', ''JEFFREY'', ''FRANK'', ''SCOTT'', ''ERIC'', ''STEPHEN'', ''ANDREW'', ''RAYMOND'',
     ''GREGORY'', ''JOSHUA'', ''JERRY'', ''DENNIS'', ''WALTER'', ''PATRICK'', ''PETER'', ''HAROLD'', ''DOUGLAS'',
     ''HENRY'', ''CARL'', ''ARTHUR'', ''RYAN'', ''ROGER'', ''JOE'', ''JUAN'', ''JACK'', ''ALBERT'', ''JONATHAN'',
     ''JUSTIN'', ''TERRY'', ''GERALD'', ''KEITH'', ''SAMUEL'', ''WILLIE'', ''RALPH'', ''LAWRENCE'', ''NICHOLAS'',
     ''ROY'', ''BENJAMIN'', ''BRUCE'', ''BRANDON'', ''ADAM'', ''HARRY'', ''FRED'', ''WAYNE'', ''BILLY'', ''STEVE'',
     ''LOUIS'', ''JEREMY'', ''AARON'', ''RANDY'', ''HOWARD'', ''EUGENE'', ''CARLOS'', ''RUSSELL'', ''BOBBY'',
     ''VICTOR'', ''MARTIN'', ''ERNEST'', ''PHILLIP'', ''TODD'', ''JESSE'', ''CRAIG'', ''ALAN'', ''SHAWN'',
     ''CLARENCE'', ''SEAN'', ''PHILIP'', ''CHRIS'', ''JOHNNY'', ''EARL'', ''JIMMY'', ''ANTONIO'', ''DANNY'',
     ''BRYAN'', ''TONY'', ''LUIS'', ''MIKE'', ''STANLEY'', ''LEONARD'', ''NATHAN'', ''DALE'', ''MANUEL'',
     ''RODNEY'', ''CURTIS'', ''NORMAN'', ''ALLEN'', ''MARVIN'', ''VINCENT'', ''GLENN'', ''JEFFERY'', ''TRAVIS'',
     ''JEFF'', ''CHAD'', ''JACOB'', ''LEE'', ''MELVIN'', ''ALFRED'', ''KYLE'', ''FRANCIS'', ''BRADLEY'', ''JESUS'',
     ''HERBERT'', ''FREDERICK'', ''RAY'', ''JOEL'', ''EDWIN'', ''DON'', ''EDDIE'', ''RICKY'', ''TROY'',
     ''RANDALL'', ''BARRY'', ''ALEXANDER'', ''BERNARD'', ''MARIO'', ''LEROY'', ''FRANCISCO'', ''MARCUS'',
     ''MICHEAL'', ''THEODORE'', ''CLIFFORD'', ''MIGUEL'', ''OSCAR'', ''JAY'', ''JIM'', ''TOM'', ''CALVIN'',
     ''ALEX'', ''JON'', ''RONNIE'', ''BILL'', ''LLOYD'', ''TOMMY'', ''LEON'', ''DEREK'', ''WARREN'', ''DARRELL'',
     ''JEROME'', ''FLOYD'', ''LEO'', ''ALVIN'', ''TIM'', ''WESLEY'', ''GORDON'', ''DEAN'', ''GREG'', ''JORGE'',
     ''DUSTIN'', ''PEDRO'', ''DERRICK'', ''DAN'', ''LEWIS'', ''ZACHARY'', ''COREY'', ''HERMAN'', ''MAURICE'',
     ''VERNON'', ''ROBERTO'', ''CLYDE'', ''GLEN'', ''HECTOR'', ''SHANE'', ''RICARDO'', ''SAM'', ''RICK'',
     ''LESTER'', ''BRENT'', ''RAMON'', ''CHARLIE'', ''TYLER'', ''GILBERT'', ''GENE'', ''MARC'', ''REGINALD'',
     ''RUBEN'', ''BRETT'', ''ANGEL'', ''NATHANIEL'', ''RAFAEL'', ''LESLIE'', ''EDGAR'', ''MILTON'', ''RAUL'',
     ''BEN'', ''CHESTER'', ''CECIL'', ''DUANE'', ''FRANKLIN'', ''ANDRE'', ''ELMER'', ''BRAD'', ''GABRIEL'',
     ''RON'', ''MITCHELL'', ''ROLAND'', ''ARNOLD'', ''HARVEY'', ''JARED'', ''ADRIAN'', ''KARL'', ''CORY'',
     ''CLAUDE'', ''ERIK'', ''DARRYL'', ''JAMIE'', ''NEIL'', ''JESSIE'', ''CHRISTIAN'', ''JAVIER'', ''FERNANDO'',
     ''CLINTON'', ''TED'', ''MATHEW'', ''TYRONE'', ''DARREN'', ''LONNIE'', ''LANCE'', ''CODY'', ''JULIO'',
     ''KELLY'', ''KURT'', ''ALLAN'', ''NELSON'', ''GUY'', ''CLAYTON'', ''HUGH'', ''MAX'', ''DWAYNE'', ''DWIGHT'',
     ''ARMANDO'', ''FELIX'', ''JIMMIE'', ''EVERETT'', ''JORDAN'', ''IAN'', ''WALLACE'', ''KEN'', ''BOB'',
     ''JAIME'', ''CASEY'', ''ALFREDO'', ''ALBERTO'', ''DAVE'', ''IVAN'', ''JOHNNIE'', ''SIDNEY'', ''BYRON'',
     ''JULIAN'', ''ISAAC'', ''MORRIS'', ''CLIFTON'', ''WILLARD'', ''DARYL'', ''ROSS'', ''VIRGIL'', ''ANDY'',
     ''MARSHALL'', ''SALVADOR'', ''PERRY'', ''KIRK'', ''SERGIO'', ''MARION'', ''TRACY'', ''SETH'', ''KENT'',
     ''TERRANCE'', ''RENE'', ''EDUARDO'', ''TERRENCE'', ''ENRIQUE'', ''FREDDIE'', ''WADE'', ''AUSTIN'', ''STUART'',
     ''FREDRICK'', ''ARTURO'', ''ALEJANDRO'', ''JACKIE'', ''JOEY'', ''NICK'', ''LUTHER'', ''WENDELL'',
     ''JEREMIAH'', ''EVAN'', ''JULIUS'', ''DANA'', ''DONNIE'', ''OTIS'', ''SHANNON'', ''TREVOR'', ''OLIVER'',
     ''LUKE'', ''HOMER'', ''GERARD'', ''DOUG'', ''KENNY'', ''HUBERT'', ''ANGELO'', ''SHAUN'', ''LYLE'', ''MATT'',
     ''LYNN'', ''ALFONSO'', ''ORLANDO'', ''REX'', ''CARLTON'', ''ERNESTO'', ''CAMERON'', ''NEAL'', ''PABLO'',
     ''LORENZO'', ''OMAR'', ''WILBUR'', ''BLAKE'', ''GRANT'', ''HORACE'', ''RODERICK'', ''KERRY'', ''ABRAHAM'',
     ''WILLIS'', ''RICKEY'', ''JEAN'', ''IRA'', ''ANDRES'', ''CESAR'', ''JOHNATHAN'', ''MALCOLM'', ''RUDOLPH'',
     ''DAMON'', ''KELVIN'', ''RUDY'', ''PRESTON'', ''ALTON'', ''ARCHIE'', ''MARCO'', ''WM'', ''PETE'',
     ''RANDOLPH'', ''GARRY'', ''GEOFFREY'', ''JONATHON'', ''FELIPE'', ''BENNIE'', ''GERARDO'', ''ED'', ''DOMINIC'',
     ''ROBIN'', ''LOREN'', ''DELBERT'', ''COLIN'', ''GUILLERMO'', ''EARNEST'', ''LUCAS'', ''BENNY'', ''NOEL'',
     ''SPENCER'', ''RODOLFO'', ''MYRON'', ''EDMUND'', ''GARRETT'', ''SALVATORE'', ''CEDRIC'', ''LOWELL'',
     ''GREGG'', ''SHERMAN'', ''WILSON'', ''DEVIN'', ''SYLVESTER'', ''KIM'', ''ROOSEVELT'', ''ISRAEL'',
     ''JERMAINE'', ''FORREST'', ''WILBERT'', ''LELAND'', ''SIMON'', ''GUADALUPE'', ''CLARK'', ''IRVING'',
     ''CARROLL'', ''BRYANT'', ''OWEN'', ''RUFUS'', ''WOODROW'', ''SAMMY'', ''KRISTOPHER'', ''MACK'', ''LEVI'',
     ''MARCOS'', ''GUSTAVO'', ''JAKE'', ''LIONEL'', ''MARTY'', ''TAYLOR'', ''ELLIS'', ''DALLAS'']"

definition products :: "string list" where
  "products = [''A'', ''B'', ''C'', ''D'', ''E'', ''F'', ''G'', ''H'', ''I'', ''J'', ''K'', ''L'', ''M'', ''N'', ''O'', ''P'']"

definition states :: "string list" where
  "states = [
     ''AK'', ''AL'', ''AZ'', ''AR'', ''CA'', ''CO'', ''CT'', ''DE'', ''FL'', ''GA'', ''HI'', ''ID'', ''IL'',
     ''IN'', ''IA'', ''KS'', ''KY'', ''LA'', ''ME'', ''MD'', ''MA'', ''MI'', ''MN'', ''MS'', ''MO'', ''MT'',
     ''NE'', ''NV'', ''NH'', ''NJ'', ''NM'', ''NY'', ''NC'', ''ND'', ''OH'', ''OK'', ''OR'', ''PA'', ''RI'',
     ''SC'', ''SD'', ''TN'', ''TX'', ''UT'', ''VT'', ''VA'', ''WA'', ''WV'', ''WI'', ''WY'']"

definition insert_stmt :: string where
  "insert_stmt = ''INSERT INTO `'' @ TABLE @ ''` (cust,prod,day,month,year,state,quant) VALUES (?,?,?,?,?,?,?)''"

definition sale_args :: "(nat \<Rightarrow> nat) \<Rightarrow> nat \<Rightarrow> 'd vararg list" where
  "sale_args rnd i =
     (let r = (\<lambda>k. rnd (7 * i + k));
          day = int (r 2 mod 28) + 1; month = int (r 3 mod 12) + 1; year = 1996 + int (r 4 mod 22);
          quant = int (r 6 mod 1000) + 1
      in [Va_string (customers ! (r 0 mod 424)), Va_string (products ! (r 1 mod 16)),
          Va_int (word_of_int day), Va_int (word_of_int month), Va_int (word_of_int year),
          Va_string (states ! (r 5 mod 50)), Va_int (word_of_int quant)])"

fun generate_loop :: "nat \<Rightarrow> ('n, 'r, 'p, 'd) nlink \<Rightarrow> (nat \<Rightarrow> nat) \<Rightarrow> nat \<Rightarrow> nat \<Rightarrow> ('n sqlconn, unit) sop" where
  "generate_loop fuel link rnd i 0 = sret ()"
| "generate_loop fuel link rnd i (Suc k) =
     sthen (sq_execute fuel link ''ssiiisi'' insert_stmt (sale_args rnd i)) (generate_loop fuel link rnd (i + 1) k)"

text \<open>\<^verbatim>\<open>main\<close>: the number of rows is 3000, or the single argument; a negative number makes no row.\<close>

definition generate_main :: "nat \<Rightarrow> ('n, 'r, 'p, 'd) nlink \<Rightarrow> (nat \<Rightarrow> nat) \<Rightarrow> 'n connection \<Rightarrow> string list \<Rightarrow> int res \<times> 'n sqlconn" where
  "generate_main fuel link rnd c argv =
     (case (if length argv = 2 then atoi (argv ! 1) else Inr 3000) of
        Inl e \<Rightarrow> (Inl e, new_SQLConn c)
      | Inr entries \<Rightarrow>
          (case new_SQLConn_database link c DATABASE of
             (Inl e, conn) \<Rightarrow> (Inl e, conn)
           | (Inr _, conn) \<Rightarrow> sthen (generate_loop fuel link rnd 0 (nat entries)) (sret 0) conn))"

section \<open>The rows\<close>

text \<open>A row as the table's columns: customer, product, day, month, year, state and quantity.\<close>

fun va_text :: "'d vararg \<Rightarrow> string" where
  "va_text (Va_string v) = v"
| "va_text _ = []"

fun va_number :: "'d vararg \<Rightarrow> int" where
  "va_number (Va_int w) = sint w"
| "va_number _ = 0"

definition sale_ok :: "'d vararg list \<Rightarrow> bool" where
  "sale_ok args \<longleftrightarrow> map letter args = ''ssiiisi''
     \<and> va_text (args ! 0) \<in> set customers \<and> va_text (args ! 1) \<in> set products \<and> va_text (args ! 5) \<in> set states
     \<and> va_number (args ! 2) \<in> {1..28} \<and> va_number (args ! 3) \<in> {1..12} \<and> va_number (args ! 4) \<in> {1996..2017}
     \<and> va_number (args ! 6) \<in> {1..1000}"

lemma table_lengths: "length customers = 424" "length products = 16" "length states = 50"
  by (simp_all add: customers_def products_def states_def)

lemma table_members:
  "customers ! (x mod 424) \<in> set customers" "products ! (x mod 16) \<in> set products" "states ! (x mod 50) \<in> set states"
  using table_lengths by simp_all

lemma names_short: "list_all (\<lambda>w. length w \<le> 11) (customers @ products @ states)"
  by (simp add: customers_def products_def states_def)

lemma sint_small: "0 \<le> i \<Longrightarrow> i < 2 ^ 31 \<Longrightarrow> sint (word_of_int i :: 32 word) = i"
  by (simp add: sint_sbintrunc' signed_take_bit_int_eq_self)

lemma sale_args_ok: "sale_ok (sale_args rnd i)"
proof -
  have b: "int (x mod 28) < 28" "int (x mod 12) < 12" "int (x mod 22) < 22" "int (x mod 1000) < 1000" for x
    by (simp_all add: zmod_int)
  have s: "sint (word_of_int (int (x mod 28) + 1) :: 32 word) = int (x mod 28) + 1"
    "sint (word_of_int (int (x mod 12) + 1) :: 32 word) = int (x mod 12) + 1"
    "sint (word_of_int (1996 + int (x mod 22)) :: 32 word) = 1996 + int (x mod 22)"
    "sint (word_of_int (int (x mod 1000) + 1) :: 32 word) = int (x mod 1000) + 1" for x
    using b [of x] by (intro sint_small; simp)+
  have "x mod 28 \<le> 27" "x mod 12 \<le> 11" "x mod 22 \<le> 21" "x mod 1000 \<le> 999" for x :: nat
    by (simp_all add: less_Suc_eq_le [symmetric])
  then show ?thesis
    by (simp add: sale_ok_def sale_args_def Let_def table_members s del: of_int_add)
qed

lemma sale_args_letters: "map letter (sale_args rnd i) = ''ssiiisi''" "length (sale_args rnd i) = 7"
  by (simp_all add: sale_args_def Let_def)

lemma sale_args_short: "list_all short_arg (sale_args rnd i)"
proof -
  have "length w \<le> 256 * 1024" if "w \<in> set customers \<union> set products \<union> set states" for w
  proof -
    have "length w \<le> 11" using that names_short unfolding list_all_iff by auto
    then show ?thesis by simp
  qed
  with table_members show ?thesis by (simp add: sale_args_def Let_def)
qed

lemma insert_placeholders: "placeholders False insert_stmt = 7"
  by (simp add: insert_stmt_def TABLE_def)

context preparing
begin

lemma generate_loop_logs:
  assumes "query = insert_stmt" "c_valid (sq_conn s)" "c_proxy (sq_conn s) = Some n"
  shows "\<exists>s' n'. generate_loop fuel link rnd i k s = (Inr (), s') \<and> c_proxy (sq_conn s') = Some n'
    \<and> log n' = log n @ map (\<lambda>j. [Bind (map arg_bind (sale_args rnd j)), Run]) [i..<i + k]"
  using assms(2,3)
proof (induction k arbitrary: i s n)
  case 0
  then show ?case by simp
next
  case (Suc k)
  have "length (sale_args rnd i) = placeholders False query" for i
    by (simp add: assms(1) insert_placeholders sale_args_letters)
  from sq_execute_logs [OF Suc.prems this sale_args_short, where fuel = fuel, unfolded sale_args_letters assms(1)]
  obtain s1 n1 where s1: "sq_execute fuel link ''ssiiisi'' insert_stmt (sale_args rnd i) s = (Inr (), s1)"
    "c_valid (sq_conn s1)" "c_proxy (sq_conn s1) = Some n1"
    "log n1 = log n @ [[Bind (map arg_bind (sale_args rnd i)), Run]]" by blast
  from Suc.IH [OF s1(2,3), of "i + 1"] s1(1,4) show ?case
    by (auto simp: upt_conv_Cons simp del: upt_Suc)
qed

end

end
