(* ===== verification/C_Heap.thy ===== *)
theory C_Heap
  imports Sql_Base
begin

text \<open>
  Memory as the C-string helpers use it: allocated blocks of characters, some not yet written. A
  pointer is null or the start of a block. Reading an unwritten character, an access outside a block, a
  freed or null pointer, and freeing twice are undefined. Allocation always succeeds; the code does not
  check it.
\<close>

record cheap =
  ch_mem :: "nat \<rightharpoonup> char option list"
  ch_fresh :: nat

type_synonym cptr = "nat option"

abbreviation NUL :: char where "NUL \<equiv> CHR 0x00"

definition c_alloc :: "char option \<Rightarrow> nat \<Rightarrow> (cheap, cptr) sop" where
  "c_alloc fill n = (\<lambda>h. (Inr (Some (ch_fresh h)),
     h\<lparr>ch_mem := (ch_mem h)(ch_fresh h \<mapsto> replicate n fill), ch_fresh := ch_fresh h + 1\<rparr>))"

definition c_malloc :: "nat \<Rightarrow> (cheap, cptr) sop" where
  "c_malloc = c_alloc None"

definition c_calloc :: "nat \<Rightarrow> (cheap, cptr) sop" where
  "c_calloc = c_alloc (Some NUL)"

definition c_block :: "cptr \<Rightarrow> (cheap, nat \<times> char option list) sop" where
  "c_block p = (\<lambda>h. case p of
     None \<Rightarrow> (Inl Undefined_behaviour, h)
   | Some a \<Rightarrow> (case ch_mem h a of None \<Rightarrow> (Inl Undefined_behaviour, h) | Some b \<Rightarrow> (Inr (a, b), h)))"

definition c_load :: "cptr \<Rightarrow> nat \<Rightarrow> (cheap, char) sop" where
  "c_load p i = sbind (c_block p) (\<lambda>(a, b).
     if i < length b then (case b ! i of None \<Rightarrow> sthrow Undefined_behaviour | Some c \<Rightarrow> sret c)
     else sthrow Undefined_behaviour)"

definition c_store :: "cptr \<Rightarrow> nat \<Rightarrow> char \<Rightarrow> (cheap, unit) sop" where
  "c_store p i c = sbind (c_block p) (\<lambda>(a, b).
     if i < length b then smod (\<lambda>h. h\<lparr>ch_mem := (ch_mem h)(a \<mapsto> b[i := Some c])\<rparr>) else sthrow Undefined_behaviour)"

definition c_free :: "cptr \<Rightarrow> (cheap, unit) sop" where
  "c_free p = (case p of None \<Rightarrow> sret ()
     | Some _ \<Rightarrow> sbind (c_block p) (\<lambda>(a, _). smod (\<lambda>h. h\<lparr>ch_mem := (ch_mem h)(a := None)\<rparr>)))"

text \<open>\<^verbatim>\<open>strlen\<close>: the characters up to the first null character.\<close>

fun c_text :: "char option list \<Rightarrow> string option" where
  "c_text [] = None"
| "c_text (None # b) = None"
| "c_text (Some c # b) = (if c = NUL then Some [] else map_option (Cons c) (c_text b))"

definition c_strlen :: "cptr \<Rightarrow> (cheap, nat) sop" where
  "c_strlen p = sbind (c_block p) (\<lambda>(a, b).
     case c_text b of None \<Rightarrow> sthrow Undefined_behaviour | Some w \<Rightarrow> sret (length w))"

text \<open>\<^verbatim>\<open>for (i = from; k more times; i++)\<close>.\<close>

fun c_for :: "nat \<Rightarrow> nat \<Rightarrow> (nat \<Rightarrow> (cheap, unit) sop) \<Rightarrow> (cheap, unit) sop" where
  "c_for i 0 body = sret ()"
| "c_for i (Suc k) body = sthen (body i) (c_for (i + 1) k body)"

section \<open>Strings in memory\<close>

definition ch_wf :: "cheap \<Rightarrow> bool" where
  "ch_wf h \<longleftrightarrow> (\<forall>a \<in> dom (ch_mem h). a < ch_fresh h)"

text \<open>\<open>cstr h a w\<close>: the block at \<open>a\<close> starts with the text \<open>w\<close> and its null character.\<close>

definition cstr :: "cheap \<Rightarrow> nat \<Rightarrow> string \<Rightarrow> bool" where
  "cstr h a w \<longleftrightarrow> NUL \<notin> set w \<and> (\<exists>rest. ch_mem h a = Some (map Some w @ Some NUL # rest))"

lemma c_text_append: "NUL \<notin> set w \<Longrightarrow> c_text (map Some w @ Some NUL # rest) = Some w"
  by (induction w) auto

lemma c_block_Some [simp]: "ch_mem h a = Some b \<Longrightarrow> c_block (Some a) h = (Inr (a, b), h)"
  by (simp add: c_block_def)

lemma c_strlen_cstr [simp]: "cstr h a w \<Longrightarrow> c_strlen (Some a) h = (Inr (length w), h)"
  by (auto simp: cstr_def c_strlen_def c_text_append)

lemma c_load_cstr [simp]:
  "cstr h a w \<Longrightarrow> i < length w \<Longrightarrow> c_load (Some a) i h = (Inr (w ! i), h)"
  "cstr h a w \<Longrightarrow> c_load (Some a) (length w) h = (Inr NUL, h)"
  by (auto simp: cstr_def c_load_def nth_append)

lemma cstr_fresh: "ch_wf h \<Longrightarrow> cstr h a w \<Longrightarrow> a < ch_fresh h"
  by (auto simp: ch_wf_def cstr_def)

text \<open>A heap seen as strings: what every operation leaves of the strings it was not asked to free.\<close>

lemma cstr_unique: "cstr h a w \<Longrightarrow> cstr h a v \<Longrightarrow> w = v"
proof -
  assume w: "cstr h a w" and v: "cstr h a v"
  obtain r where r: "ch_mem h a = Some (map Some w @ Some NUL # r)" using w by (auto simp: cstr_def)
  obtain s where s: "ch_mem h a = Some (map Some v @ Some NUL # s)" using v by (auto simp: cstr_def)
  from r s have "c_text (map Some w @ Some NUL # r) = c_text (map Some v @ Some NUL # s)" by simp
  with w v show "w = v" by (simp add: c_text_append cstr_def)
qed

lemma cstr_mem: "ch_mem h a = ch_mem h' a \<Longrightarrow> cstr h a w \<longleftrightarrow> cstr h' a w"
  by (simp add: cstr_def)

section \<open>Copying\<close>

text \<open>
  A loop that writes the characters of \<open>w\<close> into a block it owns, reading them from anywhere else: it
  ends with the characters in place and everything else as before.
\<close>

lemma c_for_copy:
  assumes "\<And>k h'. k < length w \<Longrightarrow> (\<forall>b. b \<noteq> q \<longrightarrow> ch_mem h' b = ch_mem h b) \<Longrightarrow> rd (i + k) h' = (Inr (w ! k), h')"
    and "ch_mem h q = Some d" "off + i + length w \<le> length d"
  shows "c_for i (length w) (\<lambda>j. sbind (rd j) (c_store (Some q) (off + j))) h =
    (Inr (), h\<lparr>ch_mem := (ch_mem h)(q \<mapsto> take (off + i) d @ map Some w @ drop (off + i + length w) d)\<rparr>)"
  using assms
proof (induction w arbitrary: i h d)
  case Nil
  then show ?case by (simp add: fun_upd_idem)
next
  case (Cons c w)
  let ?d = "d[off + i := Some c]"
  let ?h = "h\<lparr>ch_mem := (ch_mem h)(q \<mapsto> ?d)\<rparr>"
  have lt: "off + i < length d" using Cons.prems(3) by simp
  have rd0: "rd i h = (Inr c, h)" using Cons.prems(1) [of 0 h] by simp
  have one: "sbind (rd i) (c_store (Some q) (off + i)) h = (Inr (), ?h)"
    using rd0 lt Cons.prems(2) by (simp add: c_store_def)
  have ih: "c_for (i + 1) (length w) (\<lambda>j. sbind (rd j) (c_store (Some q) (off + j))) ?h =
      (Inr (), ?h\<lparr>ch_mem := (ch_mem ?h)(q \<mapsto> take (off + (i + 1)) ?d @ map Some w @ drop (off + (i + 1) + length w) ?d)\<rparr>)"
  proof (rule Cons.IH)
    show "rd (i + 1 + k) h' = (Inr (w ! k), h')" if "k < length w" "\<forall>b. b \<noteq> q \<longrightarrow> ch_mem h' b = ch_mem ?h b" for k h'
      using Cons.prems(1) [of "Suc k" h'] that by simp
  qed (use Cons.prems(3) in simp_all)
  have "take (off + (i + 1)) ?d = take (off + i) d @ [Some c]"
    using lt by (simp add: take_Suc_conv_app_nth)
  then have d: "take (off + (i + 1)) ?d @ map Some w @ drop (off + (i + 1) + length w) ?d =
      take (off + i) d @ map Some (c # w) @ drop (off + i + length (c # w)) d" by simp
  have upd: "?h\<lparr>ch_mem := (ch_mem ?h)(q \<mapsto> x)\<rparr> = h\<lparr>ch_mem := (ch_mem h)(q \<mapsto> x)\<rparr>" for x by simp
  have "c_for i (length (c # w)) (\<lambda>j. sbind (rd j) (c_store (Some q) (off + j))) h =
      c_for (i + 1) (length w) (\<lambda>j. sbind (rd j) (c_store (Some q) (off + j))) ?h"
    using one by (simp del: sbind_apply)
  then show ?case unfolding ih d upd .
qed

end
