(* ===== verification/Cstr.thy ===== *)
theory Cstr
  imports C_Heap Result_Set Str
begin

text \<open>
  The C-string half of \<^verbatim>\<open>lib/str.cpp\<close>, on the memory of \<open>C_Heap\<close>: slicing, joining, comparing, searching
  and replacing, with what each function allocates, frees and leaks. \<^verbatim>\<open>size_t\<close> and \<^verbatim>\<open>uint_fast64_t\<close>
  arithmetic that can wrap around is reduced modulo \<open>2 ^ 64\<close>; conversions to \<^verbatim>\<open>int\<close> are \<open>to_int32\<close>.
\<close>

section \<open>Slices\<close>

definition c_strlength :: "cptr \<Rightarrow> (cheap, nat) sop" where
  "c_strlength str = (if str = None then sret 0 else c_strlen str)"

text \<open>
  \<^verbatim>\<open>substring\<close> with a negative length calls itself with \<^verbatim>\<open>strlen(subject) - (index - length)\<close>, converted to
  \<^verbatim>\<open>int\<close>; when that is negative again it goes on, possibly for ever, hence the fuel.
\<close>

fun c_substring :: "nat \<Rightarrow> cptr \<Rightarrow> nat \<Rightarrow> int \<Rightarrow> (cheap, cptr) sop" where
  "c_substring 0 subject index len = sthrow Diverges"
| "c_substring (Suc fuel) subject index len =
     (if len < 0 then
        sbind (c_strlen subject) (\<lambda>n. c_substring fuel subject index (to_int32 (int n - (int index - len))))
      else if len = INT_MAX then sthrow Undefined_behaviour
      else sbind (c_malloc (nat len + 1)) (\<lambda>out.
        sthen (c_for 0 (nat len) (\<lambda>i. sbind (c_load subject (i + index)) (c_store out i)))
          (sthen (c_store out (nat len) NUL) (sret out))))"

text \<open>\<^verbatim>\<open>while (subject[i+start] != 0) \{ out[i] = subject[i+start]; i++; \}\<close> and the final null character.\<close>

fun c_copy_tail :: "nat \<Rightarrow> cptr \<Rightarrow> nat \<Rightarrow> cptr \<Rightarrow> nat \<Rightarrow> (cheap, unit) sop" where
  "c_copy_tail 0 subject start out i = sthrow Diverges"
| "c_copy_tail (Suc fuel) subject start out i =
     sbind (c_load subject ((i + start) mod 2 ^ 64)) (\<lambda>c.
       if c = NUL then c_store out i NUL
       else sthen (c_store out i c) (c_copy_tail fuel subject start out (i + 1)))"

text \<open>The loop meets the end of the block after as many steps as the block is long at the latest.\<close>

definition c_size :: "cptr \<Rightarrow> cheap \<Rightarrow> nat" where
  "c_size p h = (case p of None \<Rightarrow> 0 | Some a \<Rightarrow> (case ch_mem h a of None \<Rightarrow> 0 | Some b \<Rightarrow> length b))"

definition c_copy_rest :: "cptr \<Rightarrow> nat \<Rightarrow> cptr \<Rightarrow> (cheap, unit) sop" where
  "c_copy_rest subject start out = (\<lambda>h. c_copy_tail (c_size subject h + 1) subject start out 0 h)"

definition c_substr_r :: "cptr \<Rightarrow> int \<Rightarrow> (cheap, cptr) sop" where
  "c_substr_r subject index =
     sbind (c_strlen subject) (\<lambda>n.
       if index = INT_MIN \<or> index * - 1 = INT_MAX then sthrow Undefined_behaviour
       else sbind (c_malloc (nat ((index * - 1 + 1) mod 2 ^ 64))) (\<lambda>out.
         sthen (c_copy_rest subject (nat ((int n + index) mod 2 ^ 64)) out) (sret out)))"

definition c_substr :: "cptr \<Rightarrow> int \<Rightarrow> (cheap, cptr) sop" where
  "c_substr subject index =
     (if index < 0 then c_substr_r subject index
      else sbind (c_strlength subject) (\<lambda>n.
        if index = INT_MAX then sthrow Undefined_behaviour
        else if n < nat index + 1 then sret None
        else sbind (c_malloc (n - nat index + 1)) (\<lambda>out.
          sthen (c_copy_rest subject (nat index) out) (sret out))))"

text \<open>The variants that free their argument.\<close>

definition c_substring_f :: "nat \<Rightarrow> cptr \<Rightarrow> nat \<Rightarrow> nat \<Rightarrow> (cheap, cptr) sop" where
  "c_substring_f fuel subject index len =
     sbind (c_substring fuel subject index (to_int32 (int len))) (\<lambda>out. sthen (c_free subject) (sret out))"

definition c_substr_f :: "cptr \<Rightarrow> nat \<Rightarrow> (cheap, cptr) sop" where
  "c_substr_f subject index =
     sbind (c_substr subject (to_int32 (int index))) (\<lambda>out. sthen (c_free subject) (sret out))"

definition c_str_reverse :: "cptr \<Rightarrow> (cheap, cptr) sop" where
  "c_str_reverse str =
     sbind (c_strlen str) (\<lambda>n. sbind (c_malloc (n + 1)) (\<lambda>out.
       sthen (c_for 0 n (\<lambda>i. sbind (c_load str (n - 1 - i)) (c_store out i)))
         (sthen (c_store out n NUL) (sthen (c_free str) (sret out)))))"

section \<open>Joining\<close>

text \<open>The loop of \<^verbatim>\<open>strappend\<close> copies the null character too.\<close>

definition c_strappend :: "char \<Rightarrow> cptr \<Rightarrow> (cheap, cptr) sop" where
  "c_strappend s str =
     sbind (c_strlength str) (\<lambda>n. sbind (c_malloc (n + 2)) (\<lambda>out.
       sthen (c_store out 0 s)
         (if str = None then sthen (c_store out 1 NUL) (sret out)
          else sthen (c_for 1 (n + 1) (\<lambda>i. sbind (c_load str (i - 1)) (c_store out i)))
            (sthen (c_free str) (sthen (c_store out (n + 1) NUL) (sret out))))))"

definition c_stradd :: "cptr \<Rightarrow> char \<Rightarrow> (cheap, cptr) sop" where
  "c_stradd str s =
     sbind (c_strlength str) (\<lambda>n. sbind (c_malloc (n + 2)) (\<lambda>out.
       sthen (if str = None then sret ()
              else sthen (c_for 0 (n + 1) (\<lambda>i. sbind (c_load str i) (c_store out i))) (c_free str))
         (sthen (c_store out (n + 1) NUL) (sthen (c_store out n s) (sret out)))))"

definition c_lastChar :: "cptr \<Rightarrow> (cheap, char) sop" where
  "c_lastChar str = sbind (c_strlen str) (\<lambda>n. c_load str ((n + (2 ^ 64 - 1)) mod 2 ^ 64))"

text \<open>\<^verbatim>\<open>mem\<close>: bit 0 frees the first string, bit 1 the second.\<close>

definition FIRST :: nat where "FIRST = 1"
definition SECOND :: nat where "SECOND = 2"

definition c_concat :: "cptr \<Rightarrow> cptr \<Rightarrow> nat \<Rightarrow> (cheap, cptr) sop" where
  "c_concat s1 s2 mem =
     sbind (c_strlength s1) (\<lambda>l1. sbind (c_strlength s2) (\<lambda>l2. sbind (c_malloc (l1 + l2 + 1)) (\<lambda>out.
       sthen (c_for 0 l1 (\<lambda>i. sbind (c_load s1 i) (c_store out i)))
         (sthen (c_for 0 l2 (\<lambda>i. sbind (c_load s2 i) (c_store out (i + l1))))
           (sthen (if mem div 2 mod 2 = 1 then c_free s2 else sret ())
             (sthen (if mem mod 2 = 1 then c_free s1 else sret ())
               (sthen (c_store out (l1 + l2) NUL) (sret out))))))))"

fun c_concat_rest :: "cptr \<Rightarrow> cptr list \<Rightarrow> (cheap, cptr) sop" where
  "c_concat_rest output [] = sret output"
| "c_concat_rest output (s # ss) = sbind (c_concat output s FIRST) (\<lambda>out. c_concat_rest out ss)"

definition c_concat_all :: "cptr list \<Rightarrow> (cheap, cptr) sop" where
  "c_concat_all args =
     (case args of [] \<Rightarrow> sret None | s # ss \<Rightarrow> sbind (c_concat None s 0) (\<lambda>out. c_concat_rest out ss))"

section \<open>Comparing and searching\<close>

text \<open>\<open>k\<close> characters of one string from \<open>i\<close> on with those of another from \<open>j\<close> on.\<close>

fun c_same :: "nat \<Rightarrow> cptr \<Rightarrow> nat \<Rightarrow> cptr \<Rightarrow> nat \<Rightarrow> (cheap, bool) sop" where
  "c_same 0 p i q j = sret True"
| "c_same (Suc k) p i q j =
     sbind (c_load p i) (\<lambda>a. sbind (c_load q j) (\<lambda>b. if a \<noteq> b then sret False else c_same k p (i + 1) q (j + 1)))"

definition c_strcompare :: "cptr \<Rightarrow> cptr \<Rightarrow> (cheap, bool) sop" where
  "c_strcompare str1 str2 =
     sbind (c_strlen str1) (\<lambda>l1. sbind (c_strlen str2) (\<lambda>l2.
       if l1 \<noteq> l2 then sret False else c_same l1 str1 0 str2 0))"

definition c_strcompsub :: "cptr \<Rightarrow> cptr \<Rightarrow> nat \<Rightarrow> nat \<Rightarrow> (cheap, bool) sop" where
  "c_strcompsub str1 str2 index len =
     sbind (c_strlen str1) (\<lambda>n. if len \<noteq> n then sret False else c_same len str1 0 str2 index)"

fun c_strpos_loop :: "nat \<Rightarrow> cptr \<Rightarrow> cptr \<Rightarrow> nat \<Rightarrow> nat \<Rightarrow> (cheap, int) sop" where
  "c_strpos_loop 0 haystack needle nlen i = sret (- 1)"
| "c_strpos_loop (Suc k) haystack needle nlen i =
     sbind (c_load haystack i) (\<lambda>a. sbind (c_load needle 0) (\<lambda>b.
       sbind (if a = b then c_strcompsub needle haystack i nlen else sret False) (\<lambda>found.
         if found then sret (int i) else c_strpos_loop k haystack needle nlen (i + 1))))"

definition c_strpos :: "cptr \<Rightarrow> cptr \<Rightarrow> (cheap, int) sop" where
  "c_strpos haystack needle =
     sbind (c_strlen haystack) (\<lambda>n. sbind (c_strlen needle) (\<lambda>m.
       if n = 0 \<or> m > n then sret (- 1) else c_strpos_loop (n - m + 1) haystack needle m 0))"

text \<open>
  \<^verbatim>\<open>str_replace\<close> starts over on every new string and does not free the old one. The recursion need not
  end, hence the fuel, which \<^verbatim>\<open>substring\<close> shares.
\<close>

fun c_str_replace :: "nat \<Rightarrow> cptr \<Rightarrow> cptr \<Rightarrow> cptr \<Rightarrow> (cheap, cptr) sop" where
  "c_str_replace 0 search replacement subject = sthrow Diverges"
| "c_str_replace (Suc fuel) search replacement subject =
     sbind (c_strpos subject search) (\<lambda>start.
       if start = - 1 then sret subject
       else sbind (c_substring (Suc fuel) subject 0 (to_int32 start)) (\<lambda>first_chunk.
         sbind (c_strlen search) (\<lambda>m. sbind (c_strlen subject) (\<lambda>n.
           if nat start + m < n then
             sbind (c_substr subject (to_int32 (start + int m))) (\<lambda>tl.
               sbind (c_concat replacement tl SECOND) (\<lambda>rest.
                 sbind (c_concat first_chunk rest (FIRST + SECOND)) (c_str_replace fuel search replacement)))
           else sbind (c_concat first_chunk replacement FIRST) (c_str_replace fuel search replacement)))))"

fun c_put :: "cptr \<Rightarrow> nat \<Rightarrow> string \<Rightarrow> (cheap, unit) sop" where
  "c_put out i [] = sret ()"
| "c_put out i (c # cs) = sthen (c_store out i c) (c_put out (i + 1) cs)"

definition c_to_cstr :: "string \<Rightarrow> (cheap, cptr) sop" where
  "c_to_cstr s = sbind (c_calloc (length s + 1)) (\<lambda>out. sthen (c_put out 0 s) (sret out))"

end
