(* ===== verification/Cstr_Replace.thy ===== *)
theory Cstr_Replace
  imports Cstr
begin

text \<open>
  The C-string functions compute what the string operations compute, without undefined behaviour, on
  null-terminated strings in memory: joining, slicing, searching, and, composed of these, \<^verbatim>\<open>str_replace\<close>,
  which agrees with the version for \<^verbatim>\<open>std::string\<close> of the same file.
\<close>

section \<open>New strings\<close>

text \<open>The memory with a new block that holds exactly \<open>w\<close>, and with blocks freed.\<close>

definition with_str :: "string \<Rightarrow> cheap \<Rightarrow> cheap" where
  "with_str w h = h\<lparr>ch_mem := (ch_mem h)(ch_fresh h \<mapsto> map Some w @ [Some NUL]), ch_fresh := ch_fresh h + 1\<rparr>"

definition freed_at :: "nat \<Rightarrow> cheap \<Rightarrow> cheap" where
  "freed_at a h = h\<lparr>ch_mem := (ch_mem h)(a := None)\<rparr>"

lemma with_str_fresh [simp]: "ch_fresh (with_str w h) = ch_fresh h + 1" "ch_fresh (freed_at a h) = ch_fresh h"
  by (simp_all add: with_str_def freed_at_def)

lemma with_str_new [simp]: "NUL \<notin> set w \<Longrightarrow> cstr (with_str w h) (ch_fresh h) w"
  by (simp add: cstr_def with_str_def)

lemma with_str_old [simp]: "a \<noteq> ch_fresh h \<Longrightarrow> cstr (with_str w h) a v \<longleftrightarrow> cstr h a v"
  by (simp add: cstr_def with_str_def)

lemma freed_at_old [simp]: "a \<noteq> b \<Longrightarrow> cstr (freed_at b h) a v \<longleftrightarrow> cstr h a v"
  by (simp add: cstr_def freed_at_def)

lemma with_str_wf [simp]: "ch_wf h \<Longrightarrow> ch_wf (with_str w h)" "ch_wf h \<Longrightarrow> ch_wf (freed_at a h)"
  by (auto simp: ch_wf_def with_str_def freed_at_def less_Suc_eq)

lemma with_str_mem:
  "a < ch_fresh h \<Longrightarrow> ch_mem (with_str w h) a = ch_mem h a" "a \<noteq> b \<Longrightarrow> ch_mem (freed_at b h) a = ch_mem h a"
  by (simp_all add: with_str_def freed_at_def)

lemma c_free_cstr: "cstr h a w \<Longrightarrow> c_free (Some a) h = (Inr (), freed_at a h)"
  by (auto simp: cstr_def c_free_def freed_at_def)

lemma fresh_not_in: "ch_wf h \<Longrightarrow> ch_mem h (ch_fresh h) = None"
  by (auto simp: ch_wf_def dom_def)

text \<open>Allocate, copy, terminate.\<close>

lemma c_malloc_eq:
  "c_malloc n h = (Inr (Some (ch_fresh h)), h\<lparr>ch_mem := (ch_mem h)(ch_fresh h \<mapsto> replicate n None), ch_fresh := ch_fresh h + 1\<rparr>)"
  by (simp add: c_malloc_def c_alloc_def)

definition copying :: "string \<Rightarrow> nat \<Rightarrow> cheap \<Rightarrow> cheap" where
  "copying w k h = h\<lparr>ch_mem := (ch_mem h)(ch_fresh h \<mapsto> map Some w @ replicate k None), ch_fresh := ch_fresh h + 1\<rparr>"

lemma malloc_copying: "c_malloc n h = (Inr (Some (ch_fresh h)), copying [] n h)"
  by (simp add: c_malloc_eq copying_def)

lemma copy_into:
  assumes "\<And>k h'. k < length v \<Longrightarrow> (\<forall>b. b \<noteq> ch_fresh h \<longrightarrow> ch_mem h' b = ch_mem h b) \<Longrightarrow> rd k h' = (Inr (v ! k), h')"
  shows "c_for 0 (length v) (\<lambda>j. sbind (rd j) (c_store (Some (ch_fresh h)) (length w + j))) (copying w (length v + k) h) =
    (Inr (), copying (w @ v) k h)"
proof -
  let ?d = "map Some w @ replicate (length v + k) None"
  have "c_for 0 (length v) (\<lambda>j. sbind (rd j) (c_store (Some (ch_fresh h)) (length w + j))) (copying w (length v + k) h) =
      (Inr (), (copying w (length v + k) h)\<lparr>ch_mem := (ch_mem (copying w (length v + k) h))(ch_fresh h \<mapsto>
        take (length w + 0) ?d @ map Some v @ drop (length w + 0 + length v) ?d)\<rparr>)"
    by (rule c_for_copy) (use assms in \<open>auto simp: copying_def\<close>)
  then show ?thesis by (simp add: copying_def replicate_add)
qed

lemma store_end:
  "c_store (Some (ch_fresh h)) (length w) NUL (copying w 1 h) = (Inr (), with_str w h)"
  by (cases h) (simp add: c_store_def copying_def with_str_def list_update_append)

lemma copying_old [simp]: "a \<noteq> ch_fresh h \<Longrightarrow> cstr (copying w k h) a v \<longleftrightarrow> cstr h a v"
  by (simp add: cstr_def copying_def)

lemma cstr_outside:
  "cstr h a w \<Longrightarrow> ch_wf h \<Longrightarrow> \<forall>b. b \<noteq> ch_fresh h \<longrightarrow> ch_mem h' b = ch_mem h b \<Longrightarrow> cstr h' a w"
  using cstr_fresh [of h a w] cstr_mem [of h' a h w] by fastforce

lemma free_copying:
  assumes "cstr h a v" "ch_wf h"
  shows "c_free (Some a) (copying w k h) = (Inr (), copying w k (freed_at a h))"
proof -
  have a: "a \<noteq> ch_fresh h" using cstr_fresh [OF assms(2,1)] by simp
  then have "c_free (Some a) (copying w k h) = (Inr (), freed_at a (copying w k h))"
    using assms(1) by (intro c_free_cstr [of _ _ v]) simp
  moreover have "freed_at a (copying w k h) = copying w k (freed_at a h)"
    using a by (cases h) (simp add: freed_at_def copying_def fun_upd_twist)
  ultimately show ?thesis by simp
qed

section \<open>Joining\<close>

text \<open>A pointer to a string, the null pointer standing for the empty one; freeing it.\<close>

definition str_at :: "cheap \<Rightarrow> cptr \<Rightarrow> string \<Rightarrow> bool" where
  "str_at h p w \<longleftrightarrow> (case p of None \<Rightarrow> w = [] | Some a \<Rightarrow> cstr h a w)"

definition freed_ptr :: "cptr \<Rightarrow> cheap \<Rightarrow> cheap" where
  "freed_ptr p h = (case p of None \<Rightarrow> h | Some a \<Rightarrow> freed_at a h)"

lemma strlength_at: "str_at h p w \<Longrightarrow> c_strlength p h = (Inr (length w), h)"
  by (cases p) (auto simp: str_at_def c_strlength_def)

lemma free_ptr_copying:
  "str_at h p v \<Longrightarrow> ch_wf h \<Longrightarrow> c_free p (copying w k h) = (Inr (), copying w k (freed_ptr p h))"
  by (cases p) (simp add: freed_ptr_def c_free_def, simp add: str_at_def freed_ptr_def free_copying)

lemma freed_ptr_simps [simp]: "ch_wf h \<Longrightarrow> ch_wf (freed_ptr p h)" "ch_fresh (freed_ptr p h) = ch_fresh h"
  by (cases p; simp add: freed_ptr_def)+

lemma str_at_freed: "str_at h p w \<Longrightarrow> p \<noteq> q \<or> p = None \<Longrightarrow> str_at (freed_ptr q h) p w"
  by (cases p; cases q) (auto simp: str_at_def freed_ptr_def)

lemma copy_string:
  assumes "str_at h p v" "ch_wf h"
  shows "c_for 0 (length v) (\<lambda>j. sbind (c_load p j) (c_store (Some (ch_fresh h)) (length w + j))) (copying w (length v + k) h) =
    (Inr (), copying (w @ v) k h)"
proof (rule copy_into)
  fix i and h' :: cheap assume i: "i < length v" and h': "\<forall>b. b \<noteq> ch_fresh h \<longrightarrow> ch_mem h' b = ch_mem h b"
  then obtain a where "p = Some a" "cstr h a v" using assms(1) by (cases p) (auto simp: str_at_def)
  with cstr_outside [of h a v h'] assms(2) h' i show "c_load p i h' = (Inr (v ! i), h')" by simp
qed

lemma c_concat_spec:
  assumes "ch_wf h" "str_at h p w" "str_at h q v" "p \<noteq> q \<or> p = None \<or> m div 2 mod 2 \<noteq> 1 \<or> m mod 2 \<noteq> 1"
  shows "c_concat p q m h = (Inr (Some (ch_fresh h)), with_str (w @ v)
    ((if m mod 2 = 1 then freed_ptr p else id) ((if m div 2 mod 2 = 1 then freed_ptr q else id) h)))"
proof -
  let ?out = "Some (ch_fresh h)"
  let ?h1 = "(if m div 2 mod 2 = 1 then freed_ptr q else id) h"
  let ?h2 = "(if m mod 2 = 1 then freed_ptr p else id) ?h1"
  have 1: "c_for 0 (length w) (\<lambda>i. sbind (c_load p i) (c_store ?out i)) (copying [] (length w + length v + 1) h) =
      (Inr (), copying w (length v + 1) h)"
    using copy_string [OF assms(2,1), of "[]" "length v + 1"] by (simp add: ac_simps del: sbind_apply)
  have 2: "c_for 0 (length v) (\<lambda>i. sbind (c_load q i) (c_store ?out (i + length w))) (copying w (length v + 1) h) =
      (Inr (), copying (w @ v) 1 h)"
    using copy_string [OF assms(3,1), of w 1] by (simp add: add.commute del: sbind_apply)
  have 3: "(if m div 2 mod 2 = 1 then c_free q else sret ()) (copying (w @ v) 1 h) = (Inr (), copying (w @ v) 1 ?h1)"
    using free_ptr_copying [OF assms(3,1)] by simp
  have h1: "ch_wf ?h1" "m mod 2 = 1 \<Longrightarrow> str_at ?h1 p w" "ch_fresh ?h1 = ch_fresh h"
    using assms str_at_freed [OF assms(2), of q] by auto
  have 4: "(if m mod 2 = 1 then c_free p else sret ()) (copying (w @ v) 1 ?h1) = (Inr (), copying (w @ v) 1 ?h2)"
    using free_ptr_copying [OF h1(2,1)] by simp
  have "ch_fresh ?h2 = ch_fresh h" using h1(3) by simp
  then have 5: "c_store ?out (length w + length v) NUL (copying (w @ v) 1 ?h2) = (Inr (), with_str (w @ v) ?h2)"
    using store_end [of ?h2 "w @ v"] by simp
  show ?thesis
    unfolding c_concat_def
    by (rule sbind_eqI, rule strlength_at [OF assms(2)], rule sbind_eqI, rule strlength_at [OF assms(3)],
        rule sbind_eqI, rule malloc_copying, rule sthen_eqI, rule 1, rule sthen_eqI, rule 2, rule sthen_eqI, rule 3,
        rule sthen_eqI, rule 4, rule sthen_eqI, rule 5, rule sret_apply)
qed

section \<open>Slices\<close>

lemma c_substring_spec:
  assumes "ch_wf h" "cstr h a w" "k \<le> length w" "int k < INT_MAX"
  shows "c_substring (Suc fuel) (Some a) 0 (int k) h = (Inr (Some (ch_fresh h)), with_str (take k w) h)"
proof -
  have "c_for 0 (length (take k w)) (\<lambda>j. sbind (c_load (Some a) j) (c_store (Some (ch_fresh h)) (length ([] :: string) + j)))
      (copying [] (length (take k w) + 1) h) = (Inr (), copying ([] @ take k w) 1 h)"
  proof (rule copy_into)
    fix i and h' :: cheap assume "i < length (take k w)" "\<forall>b. b \<noteq> ch_fresh h \<longrightarrow> ch_mem h' b = ch_mem h b"
    then show "c_load (Some a) i h' = (Inr (take k w ! i), h')" using cstr_outside [OF assms(2,1)] by simp
  qed
  then have "c_for 0 k (\<lambda>j. sbind (c_load (Some a) (j + 0)) (c_store (Some (ch_fresh h)) j)) (copying [] (k + 1) h) =
      (Inr (), copying (take k w) 1 h)"
    using assms(3) by (simp add: min_absorb2 del: sbind_apply)
  moreover have "c_store (Some (ch_fresh h)) k NUL (copying (take k w) 1 h) = (Inr (), with_str (take k w) h)"
    using store_end [of h "take k w"] assms(3) by (simp add: min_absorb2)
  ultimately have "sbind (c_malloc (k + 1)) (\<lambda>out. sthen (c_for 0 k (\<lambda>i. sbind (c_load (Some a) (i + 0)) (c_store out i)))
      (sthen (c_store out k NUL) (sret out))) h = (Inr (Some (ch_fresh h)), with_str (take k w) h)"
    by (intro sbind_eqI [OF malloc_copying] sthen_eqI [where n = "sret _"] sthen_eqI) (simp_all del: sbind_apply)
  with assms(4) show ?thesis by (simp del: sbind_apply sthen_apply c_for.simps)
qed

lemma store_next: "c_store (Some (ch_fresh h)) (length u) c (copying u (Suc k) h) = (Inr (), copying (u @ [c]) k h)"
  by (cases h) (simp add: c_store_def copying_def list_update_append)

lemma copy_tail_spec:
  assumes "ch_wf h" "cstr h a w" "start \<le> length w" "length w < 2 ^ 64"
  shows "u @ v = drop start w \<Longrightarrow> length v < fuel \<Longrightarrow>
    c_copy_tail fuel (Some a) start (Some (ch_fresh h)) (length u) (copying u (length v + 1) h) = (Inr (), with_str (u @ v) h)"
proof (induction v arbitrary: u fuel)
  case Nil
  then obtain f where f: "fuel = Suc f" by (cases fuel) auto
  have i: "length u + start = length w" using Nil.prems(1) assms(3) by simp
  have a: "cstr (copying u 1 h) a w" using assms(2) cstr_fresh [OF assms(1,2)] by simp
  have m: "(length u + start) mod 2 ^ 64 = length w" using i assms(4) by simp
  from c_load_cstr(2) [OF a] f m show ?case
    using store_end [of h u] by (simp del: mod_less)
next
  case (Cons c v)
  then obtain f where f: "fuel = Suc f" "length v < f" by (cases fuel) auto
  have "length (u @ c # v) = length w - start" using Cons.prems(1) by simp
  then have i: "length u + start < length w" by simp
  have c: "w ! (length u + start) = c" using Cons.prems(1) assms(3)
    by (metis add.commute nth_append_length nth_drop)
  have "c \<in> set w" using i c nth_mem by metis
  then have nz: "c \<noteq> NUL" using assms(2) by (auto simp: cstr_def)
  have a: "cstr (copying u (length (c # v) + 1) h) a w" using assms(2) cstr_fresh [OF assms(1,2)] by simp
  have m: "(length u + start) mod 2 ^ 64 = length u + start" using i assms(4) by simp
  have ih: "c_copy_tail f (Some a) start (Some (ch_fresh h)) (length u + 1) (copying (u @ [c]) (length v + 1) h) =
      (Inr (), with_str (u @ c # v) h)"
    using Cons.IH [of "u @ [c]" f] Cons.prems(1) f(2) by simp
  from c_load_cstr(1) [OF a i] c have ld: "c_load (Some a) ((length u + start) mod 2 ^ 64) (copying u (length (c # v) + 1) h) =
      (Inr c, copying u (length (c # v) + 1) h)" by (simp only: m)
  show ?case unfolding f(1) c_copy_tail.simps
  proof (rule sbind_eqI, rule ld)
    show "(if c = NUL then c_store (Some (ch_fresh h)) (length u) NUL
        else sthen (c_store (Some (ch_fresh h)) (length u) c) (c_copy_tail f (Some a) start (Some (ch_fresh h)) (length u + 1)))
        (copying u (length (c # v) + 1) h) = (Inr (), with_str (u @ c # v) h)"
      using nz store_next [of h u c "length v + 1"] ih by simp
  qed
qed

lemma c_substr_spec:
  assumes "ch_wf h" "cstr h a w" "k < length w" "int (length w) < INT_MAX"
  shows "c_substr (Some a) (int k) h = (Inr (Some (ch_fresh h)), with_str (drop k w) h)"
proof -
  have len: "length w - k + 1 = length (drop k w) + 1" by simp
  have a: "cstr (copying [] (length (drop k w) + 1) h) a w" using assms(2) cstr_fresh [OF assms(1,2)] by simp
  then have "length w < c_size (Some a) (copying [] (length (drop k w) + 1) h)" by (auto simp: cstr_def c_size_def)
  then have "length (drop k w) < c_size (Some a) (copying [] (length (drop k w) + 1) h) + 1" by simp
  from copy_tail_spec [OF assms(1,2) _ _ _ this, of k "[]"] assms(3,4)
  have "c_copy_rest (Some a) k (Some (ch_fresh h)) (copying [] (length (drop k w) + 1) h) = (Inr (), with_str (drop k w) h)"
    by (simp add: c_copy_rest_def)
  moreover have "\<not> int k < 0" "int k \<noteq> INT_MAX" "\<not> length w < nat (int k) + 1" using assms(3,4) by auto
  moreover have "c_strlength (Some a) h = (Inr (length w), h)" using assms(2) by (simp add: c_strlength_def)
  ultimately show ?thesis
    using malloc_copying [of "length w - k + 1" h] unfolding c_substr_def len by simp
qed

section \<open>Searching\<close>

lemma c_same_spec:
  assumes "cstr h a w" "cstr h b v"
  shows "i + k \<le> length w \<Longrightarrow> j + k \<le> length v \<Longrightarrow>
    c_same k (Some a) i (Some b) j h = (Inr (take k (drop i w) = take k (drop j v)), h)"
proof (induction k arbitrary: i j)
  case 0
  then show ?case by simp
next
  case (Suc k)
  then have "drop i w = w ! i # drop (Suc i) w" "drop j v = v ! j # drop (Suc j) v"
    by (simp_all add: Cons_nth_drop_Suc)
  with Suc.IH [of "Suc i" "Suc j"] Suc.prems assms show ?case by auto
qed

lemma c_strcompare_spec:
  assumes "cstr h a w" "cstr h b v"
  shows "c_strcompare (Some a) (Some b) h = (Inr (w = v), h)"
  using assms c_same_spec [OF assms, of 0 "length w" 0] by (auto simp: c_strcompare_def)

lemma strpos_loop_spec:
  assumes "cstr h a w" "cstr h b n" "n \<noteq> []"
  shows "i + k + length n = length w + 1 \<Longrightarrow> c_strpos_loop k (Some a) (Some b) (length n) i h =
    (Inr (case std_find n (drop i w) of None \<Rightarrow> - 1 | Some j \<Rightarrow> int (i + j)), h)"
proof (induction k arbitrary: i)
  case 0
  then have "length (drop i w) < length n" using assms(3) by (cases n) auto
  then have "std_find n (drop i w) = None"
    using std_find_Some_split [of n "drop i w"] by (cases "std_find n (drop i w)") fastforce+
  then show ?case by simp
next
  case (Suc k)
  then have i: "i < length w" "i + length n \<le> length w" using assms(3) by (cases n; simp)+
  have d: "drop i w = w ! i # drop (Suc i) w" using i by (simp add: Cons_nth_drop_Suc)
  have cmp: "c_strcompsub (Some b) (Some a) i (length n) h = (Inr (prefix n (drop i w)), h)"
    using c_same_spec [OF assms(2,1), of 0 "length n" i] i(2) assms(2)
    by (auto simp: c_strcompsub_def take_is_prefix prefix_def) (metis append_eq_conv_conj)+
  have first: "prefix n (drop i w) \<Longrightarrow> w ! i = n ! 0" using assms(3) d by (cases n) auto
  have "c_load (Some b) 0 h = (Inr (n ! 0), h)" using assms(2,3) by (intro c_load_cstr(1)) auto
  then have step: "c_strpos_loop (Suc k) (Some a) (Some b) (length n) i h =
      (if prefix n (drop i w) then (Inr (int i), h) else c_strpos_loop k (Some a) (Some b) (length n) (i + 1) h)"
    using first cmp c_load_cstr(1) [OF assms(1) i(1)] by simp
  have find: "std_find n (drop i w) = (if prefix n (drop i w) then Some 0 else map_option Suc (std_find n (drop (Suc i) w)))"
    unfolding d by simp
  show ?case
  proof (cases "prefix n (drop i w)")
    case True
    with step find show ?thesis by simp
  next
    case False
    with step find Suc.IH [of "i + 1"] Suc.prems show ?thesis by (cases "std_find n (drop (Suc i) w)") simp_all
  qed
qed

lemma c_strpos_spec:
  assumes "cstr h a w" "cstr h b n" "n \<noteq> []"
  shows "c_strpos (Some a) (Some b) h = (Inr (case std_find n w of None \<Rightarrow> - 1 | Some j \<Rightarrow> int j), h)"
proof (cases "length w = 0 \<or> length n > length w")
  case True
  then have "std_find n w = None"
    using std_find_Some_split [of n w] assms(3) by (cases "std_find n w") fastforce+
  with True assms show ?thesis by (auto simp: c_strpos_def)
next
  case False
  with strpos_loop_spec [OF assms, of 0 "length w - length n + 1"] assms show ?thesis
    by (auto simp: c_strpos_def simp del: c_strpos_loop.simps split: option.splits)
qed

section \<open>Replacing\<close>

lemma to_int32_small: "0 \<le> i \<Longrightarrow> i \<le> INT_MAX \<Longrightarrow> to_int32 i = i"
  by (simp add: to_int32_def)

text \<open>One round: the string with the first occurrence replaced is new, everything older is kept.\<close>

lemma replace_round:
  assumes "ch_wf h" "cstr h s ws" "cstr h r wr" "cstr h a w" "ws \<noteq> []" "int (length w) < INT_MAX" "std_find ws w = Some k"
  shows "\<exists>h' b. c_str_replace (Suc fuel) (Some s) (Some r) (Some a) h = c_str_replace fuel (Some s) (Some r) (Some b) h'
    \<and> ch_wf h' \<and> cstr h' b (take k w @ wr @ drop (k + length ws) w)
    \<and> ch_fresh h \<le> ch_fresh h' \<and> (\<forall>c < ch_fresh h. ch_mem h' c = ch_mem h c)"
proof -
  let ?f = "ch_fresh h"
  have k: "k + length ws \<le> length w" using std_find_Some_split [OF assms(7)] by simp
  have lt: "s < ?f" "r < ?f" "a < ?f" using assms(1-4) by (simp_all add: cstr_fresh)
  have nul: "NUL \<notin> set w" "NUL \<notin> set wr" using assms(3,4) by (simp_all add: cstr_def)
  then have nuls: "NUL \<notin> set (take k w)" "NUL \<notin> set (drop (k + length ws) w)" by (auto dest: in_set_takeD in_set_dropD)
  let ?h1 = "with_str (take k w) h"
  have pos: "c_strpos (Some a) (Some s) h = (Inr (int k), h)" using c_strpos_spec [OF assms(4,2,5)] assms(7) by simp
  have sub: "c_substring (Suc fuel) (Some a) 0 (to_int32 (int k)) h = (Inr (Some ?f), ?h1)"
    using c_substring_spec [OF assms(1,4), of k] k assms(6) by (simp add: to_int32_small)
  have old: "cstr ?h1 s ws" "cstr ?h1 r wr" "cstr ?h1 a w" "ch_wf ?h1" "cstr ?h1 ?f (take k w)" using lt assms nuls by simp_all
  have head: "c_str_replace (Suc fuel) (Some s) (Some r) (Some a) h =
      (if nat (int k) + length ws < length w then
         sbind (c_substr (Some a) (to_int32 (int k + int (length ws)))) (\<lambda>tl. sbind (c_concat (Some r) tl SECOND)
           (\<lambda>rest. sbind (c_concat (Some ?f) rest (FIRST + SECOND)) (c_str_replace fuel (Some s) (Some r)))) ?h1
       else sbind (c_concat (Some ?f) (Some r) FIRST) (c_str_replace fuel (Some s) (Some r)) ?h1)"
    using pos sub old(1,3) by simp
  show ?thesis
  proof (cases "k + length ws < length w")
    case False
    let ?h2 = "with_str (take k w @ wr) (freed_at ?f ?h1)"
    have "c_concat (Some ?f) (Some r) FIRST ?h1 = (Inr (Some (?f + 1)), ?h2)"
      using c_concat_spec [OF old(4), of "Some ?f" "take k w" "Some r" wr FIRST] old(2,5) lt
      by (simp add: str_at_def FIRST_def freed_ptr_def)
    moreover have "cstr ?h2 (?f + 1) (take k w @ wr)" using with_str_new [of "take k w @ wr" "freed_at ?f ?h1"] nuls nul by simp
    moreover have "\<forall>c < ?f. ch_mem ?h2 c = ch_mem h c" by (simp add: with_str_def freed_at_def)
    moreover have "ch_wf ?h2" "?f \<le> ch_fresh ?h2" using assms(1) by simp_all
    ultimately show ?thesis unfolding head using False k by (intro exI [of _ ?h2] exI [of _ "?f + 1"]) auto
  next
    case True
    let ?d = "drop (k + length ws) w"
    let ?h2 = "with_str ?d ?h1"
    let ?h3 = "with_str (wr @ ?d) (freed_at (?f + 1) ?h2)"
    let ?h4 = "with_str (take k w @ wr @ ?d) (freed_at ?f (freed_at (?f + 2) ?h3))"
    have 2: "c_substr (Some a) (to_int32 (int k + int (length ws))) ?h1 = (Inr (Some (?f + 1)), ?h2)"
      using c_substr_spec [OF old(4,3) True] assms(6) True by (simp add: to_int32_small)
    have new: "cstr ?h2 (?f + 1) ?d" using with_str_new [of ?d ?h1] nuls by simp
    have 3: "c_concat (Some r) (Some (?f + 1)) SECOND ?h2 = (Inr (Some (?f + 2)), ?h3)"
      using c_concat_spec [of ?h2 "Some r" wr "Some (?f + 1)" ?d SECOND] old(2,4) new lt
      by (simp add: str_at_def SECOND_def freed_ptr_def)
    have n3: "cstr ?h3 (?f + 2) (wr @ ?d)" "cstr ?h3 ?f (take k w)"
      using with_str_new [of "wr @ ?d" "freed_at (?f + 1) ?h2"] nul nuls old(5) by simp_all
    have 4: "c_concat (Some ?f) (Some (?f + 2)) (FIRST + SECOND) ?h3 = (Inr (Some (?f + 3)), ?h4)"
      using c_concat_spec [of ?h3 "Some ?f" "take k w" "Some (?f + 2)" "wr @ ?d" "FIRST + SECOND"] n3 assms(1)
      by (simp add: str_at_def SECOND_def FIRST_def freed_ptr_def)
    have "cstr ?h4 (?f + 3) (take k w @ wr @ ?d)"
      using with_str_new [of "take k w @ wr @ ?d" "freed_at ?f (freed_at (?f + 2) ?h3)"] nul nuls by (simp add: numeral_3_eq_3)
    moreover have "\<forall>c < ?f. ch_mem ?h4 c = ch_mem h c" by (simp add: with_str_def freed_at_def)
    moreover have "ch_wf ?h4" "?f \<le> ch_fresh ?h4" using assms(1) by simp_all
    ultimately show ?thesis unfolding head using True 2 3 4 by (intro exI [of _ ?h4] exI [of _ "?f + 3"]) auto
  qed
qed

text \<open>Induction on the rounds of the string version.\<close>

lemma str_replace_induct [consumes 1, case_names finished round]:
  assumes "str_replace ws wr w = Some out"
    and finished: "\<And>w. std_find ws w = None \<Longrightarrow> P w w"
    and round: "\<And>w k out. std_find ws w = Some k \<Longrightarrow> str_replace ws wr (take k w @ wr @ drop (k + length ws) w) = Some out \<Longrightarrow>
      P (take k w @ wr @ drop (k + length ws) w) out \<Longrightarrow> P w out"
  shows "P w out"
proof -
  have "str_replace ws wr w = Some out \<and> (ws = ws \<longrightarrow> wr = wr \<longrightarrow> P w out)"
  proof (rule str_replace.raw_induct [where P = "\<lambda>a b c y. str_replace a b c = Some y \<and> (a = ws \<longrightarrow> b = wr \<longrightarrow> P c y)", OF _ assms(1)])
    fix f a b c y
    assume ih: "\<And>a b c y. f a b c = Some y \<Longrightarrow> str_replace a b c = Some y \<and> (a = ws \<longrightarrow> b = wr \<longrightarrow> P c y)"
      and eq: "(case std_find a c of None \<Rightarrow> Some c
        | Some start \<Rightarrow> let first_chunk = take start c in
            if start + length a < length c then f a b (first_chunk @ b @ drop (start + length a) c) else f a b (first_chunk @ b)) = Some y"
    show "str_replace a b c = Some y \<and> (a = ws \<longrightarrow> b = wr \<longrightarrow> P c y)"
    proof (cases "std_find a c")
      case None
      with eq finished show ?thesis by (auto simp: str_replace_unfold)
    next
      case (Some k)
      then have "k + length a \<le> length c" using std_find_Some_split by blast
      then have "f a b (take k c @ b @ drop (k + length a) c) = Some y"
        using eq Some by (auto simp: Let_def split: if_splits)
      from ih [OF this] Some round show ?thesis by (auto simp: str_replace_unfold(2) [OF Some])
    qed
  qed
  then show ?thesis by simp
qed

text \<open>When the replacement is no shorter than the search string, the text never shrinks.\<close>

lemma str_replace_grows: "str_replace ws wr w = Some out \<Longrightarrow> length ws \<le> length wr \<Longrightarrow> length w \<le> length out"
proof (induction rule: str_replace_induct)
  case (round w k out)
  then show ?case using std_find_Some_split [OF round.hyps(1)] by simp
qed simp

text \<open>The two versions agree; the bounds on the first and the last text are bounds on all.\<close>

lemma c_str_replace_spec:
  assumes "str_replace ws wr w = Some out" "ws \<noteq> []" "int (length w) < INT_MAX" "int (length out) < INT_MAX"
  shows "\<exists>n. \<forall>fuel h a. n < fuel \<longrightarrow> ch_wf h \<longrightarrow> cstr h s ws \<longrightarrow> cstr h r wr \<longrightarrow> cstr h a w \<longrightarrow>
    (\<exists>b h'. c_str_replace fuel (Some s) (Some r) (Some a) h = (Inr (Some b), h') \<and> cstr h' b out
      \<and> (\<forall>c < ch_fresh h. ch_mem h' c = ch_mem h c))"
  using assms
proof (induction rule: str_replace_induct)
  case (finished w)
  have "c_str_replace fuel (Some s) (Some r) (Some a) h = (Inr (Some a), h)"
    if "0 < fuel" "cstr h s ws" "cstr h a w" for fuel h a
    using that finished c_strpos_spec [OF that(3,2)] by (cases fuel) simp_all
  then show ?case by (intro exI [of _ 0]) blast
next
  case (round w k out)
  let ?w = "take k w @ wr @ drop (k + length ws) w"
  have len: "length ?w + length ws = length w + length wr" using std_find_Some_split [OF round.hyps(1)] by simp
  have "int (length ?w) < INT_MAX"
  proof (cases "length ws \<le> length wr")
    case True
    from str_replace_grows [OF round.hyps(2) this] show ?thesis using round.prems(3) by linarith
  next
    case False
    then show ?thesis using len round.prems(2) by linarith
  qed
  from round.IH [OF round.prems(1) this round.prems(3)] obtain n where
    n: "\<And>fuel h a. n < fuel \<Longrightarrow> ch_wf h \<Longrightarrow> cstr h s ws \<Longrightarrow> cstr h r wr \<Longrightarrow> cstr h a ?w \<Longrightarrow>
      \<exists>b h'. c_str_replace fuel (Some s) (Some r) (Some a) h = (Inr (Some b), h') \<and> cstr h' b out
        \<and> (\<forall>c < ch_fresh h. ch_mem h' c = ch_mem h c)" by blast
  have "\<exists>b h'. c_str_replace fuel (Some s) (Some r) (Some a) h = (Inr (Some b), h') \<and> cstr h' b out
      \<and> (\<forall>c < ch_fresh h. ch_mem h' c = ch_mem h c)"
    if fuel: "Suc n < fuel" and h: "ch_wf h" "cstr h s ws" "cstr h r wr" "cstr h a w" for fuel h a
  proof -
    obtain g where g: "fuel = Suc g" "n < g" using fuel by (cases fuel) auto
    obtain h1 c where h1: "c_str_replace fuel (Some s) (Some r) (Some a) h = c_str_replace g (Some s) (Some r) (Some c) h1"
      "ch_wf h1" "cstr h1 c ?w" "ch_fresh h \<le> ch_fresh h1" "\<forall>c < ch_fresh h. ch_mem h1 c = ch_mem h c"
      using replace_round [OF h round.prems(1,2) round.hyps(1), of g] g(1) by blast
    have "cstr h1 s ws" "cstr h1 r wr"
      using h1(5) cstr_fresh [OF h(1,2)] cstr_fresh [OF h(1,3)] h(2,3) by (simp_all add: cstr_def)
    from n [OF g(2) h1(2) this h1(3)] h1(1,4,5) show ?thesis by (metis order.strict_trans2)
  qed
  then show ?case by blast
qed

end
