(* ===== verification/Table_Columns.thy ===== *)
theory Table_Columns
  imports Sql_Conn Output
begin

text \<open>
  \<^verbatim>\<open>getColumns\<close> of \<^verbatim>\<open>lib/output.cpp\<close> down to the client library: it opens a \<open>SQLConn\<close> on the schema of
  the server's own tables, fetches the columns of the sales table and reads two labels per row. The
  connection of \<^verbatim>\<open>driver->connect\<close> is an argument. The connection is deleted before the result set,
  which holds its rows; neither deletion has an effect on the returned columns.
\<close>

section \<open>The function\<close>

definition read_column :: "'r native \<Rightarrow> ('r result_set, string \<times> string) sop" where
  "read_column rapi =
     sbind (rs_getString_label rapi ''COLUMN_NAME'') (\<lambda>name.
     sbind (rs_getString_label rapi ''DATA_TYPE'') (\<lambda>data_type. sret (name, data_type)))"

definition read_columns :: "nat \<Rightarrow> ('n, 'r, 'p, 'd) nlink \<Rightarrow> 'n connection \<Rightarrow> (string \<times> string) list res" where
  "read_columns fuel link c =
     (case new_SQLConn_database link c ''information_schema'' of (opened, conn) \<Rightarrow>
      rbind opened (\<lambda>_.
      rbind (fst (sq_fetch_query link columns_query conn)) (\<lambda>res.
        fst (drain fuel (rs_next (nl_result link)) (read_column (nl_result link)) [] res))))"

text \<open>\<^verbatim>\<open>getColumns\<close> and \<^verbatim>\<open>parse_query\<close>, which begins with it.\<close>

definition getColumns_db :: "nat \<Rightarrow> ('n, 'r, 'p, 'd) nlink \<Rightarrow> 'n connection \<Rightarrow> column list res" where
  "getColumns_db fuel link c = rbind (read_columns fuel link c) (\<lambda>rows. Inr (getColumns rows))"

definition parse_query_db ::
    "nat \<Rightarrow> ('n, 'r, 'p, 'd) nlink \<Rightarrow> 'n connection \<Rightarrow> query_input \<Rightarrow> files \<Rightarrow> files res" where
  "parse_query_db fuel link c inp fs = rbind (read_columns fuel link c) (\<lambda>rows. parse_query rows inp fs)"

section \<open>Statements on an open connection\<close>

lemma do_query_ok:
  assumes "\<not> st_closed s" "st_proxy s = Some n" "nc_query api q n = (False, n')"
  shows "st_do_query api q s =
    (Inr (), s\<lparr>st_proxy := Some n', st_warnings_count := nc_warning_count api n', st_warnings_loaded := False\<rparr>)"
  using assms by (simp add: st_do_query_def st_checkClosed_def st_lock_def st_ask_def st_call_def)

lemma do_query_error:
  assumes "\<not> st_closed s" "st_proxy s = Some n" "nc_query api q n = (True, n')" "nc_errNo api n' = e" "e \<noteq> 0"
  shows "st_do_query api q s = (Inl (Native_error e), s\<lparr>st_proxy := Some n'\<rparr>)"
  using assms by (simp add: st_do_query_def st_checkClosed_def st_lock_def st_ask_def st_call_def)

text \<open>Selecting a schema is one query, whose error is reported.\<close>

lemma setSchema_ok:
  assumes "c_valid c" "c_proxy c = Some n" "nc_query (nl_conn link) (''USE `'' @ db @ ''`'') n = (False, n')"
  shows "con_setSchema link db c = (Inr (), c\<lparr>c_proxy := Some n'\<rparr>)"
  using assms
  by (simp add: con_setSchema_def con_run_def con_statement_def con_createStatement_def con_checkClosed_def
      st_execute_def new_Statement_def do_query_ok st_checkClosed_def st_lock_def st_ask_def st_call_def)

lemma setSchema_error:
  assumes "c_valid c" "c_proxy c = Some n" "nc_query (nl_conn link) (''USE `'' @ db @ ''`'') n = (True, n')"
    and "nc_errNo (nl_conn link) n' = e" "e \<noteq> 0"
  shows "con_setSchema link db c = (Inl (Native_error e), c\<lparr>c_proxy := Some n'\<rparr>)"
  using assms
  by (simp add: con_setSchema_def con_run_def con_statement_def con_createStatement_def con_checkClosed_def
      st_execute_def new_Statement_def do_query_error st_checkClosed_def)

lemma open_schema:
  assumes "db \<noteq> []" "con_setSchema link db c = (r, c')"
  shows "new_SQLConn_database link c db = (r, \<lparr>sq_database = db, sq_conn = c'\<rparr>)"
  using assms by (simp add: new_SQLConn_database_def update_database_def on_conn_def new_SQLConn_def)

text \<open>A query whose result is stored.\<close>

lemma fetch_stored:
  assumes "c_valid (sq_conn s)" "c_proxy (sq_conn s) = Some n" "c_stmt_type (sq_conn s) \<noteq> TYPE_FORWARD_ONLY"
    and "nc_query (nl_conn link) q n = (False, n1)" "nc_store_result (nl_conn link) n1 = (Some r, n2)"
  shows "fst (sq_fetch_query link q s) = Inr (new_ResultSet (nl_result link) r TYPE_SCROLL_INSENSITIVE)"
  using assms
  by (simp add: sq_fetch_query_def on_conn_def con_statement_def con_createStatement_def con_checkClosed_def
      st_executeQuery_def st_forget_count_def new_Statement_def do_query_ok st_get_resultset_def
      st_checkClosed_def st_lock_def st_call_def)

lemma fetch_error:
  assumes "c_valid (sq_conn s)" "c_proxy (sq_conn s) = Some n"
    and "nc_query (nl_conn link) q n = (True, n1)" "nc_errNo (nl_conn link) n1 = e" "e \<noteq> 0"
  shows "fst (sq_fetch_query link q s) = Inl (Native_error e)"
  using assms
  by (simp add: sq_fetch_query_def on_conn_def con_statement_def con_createStatement_def con_checkClosed_def
      st_executeQuery_def st_forget_count_def new_Statement_def do_query_error st_checkClosed_def)

section \<open>The columns of a stored answer\<close>

text \<open>A cell as \<^verbatim>\<open>getString\<close> returns it: the empty string for a null.\<close>

definition cell_string :: "srow \<Rightarrow> nat \<Rightarrow> string" where
  "cell_string r i = (case r ! i of None \<Rightarrow> [] | Some b \<Rightarrow> b)"

definition labelled :: "field_meta list \<Rightarrow> string \<Rightarrow> nat \<Rightarrow> bool" where
  "labelled fs l i \<longleftrightarrow> i < length fs \<and> utf8_strup l = utf8_strup (fm_name (fs ! i)) \<and> \<not> fm_bit (fs ! i)"

text \<open>
  What the server answers: the schema can be selected from the state \<open>n\<close> of the connection, and the
  columns query then has the stored result \<open>r\<close>.
\<close>

definition answers :: "('n, 'r, 'p, 'd) nlink \<Rightarrow> 'n \<Rightarrow> 'r \<Rightarrow> bool" where
  "answers link n r \<longleftrightarrow>
     (let api = nl_conn link;
          (err, n1) = nc_query api (''USE `'' @ ''information_schema'' @ ''`'') n;
          (err', n2) = nc_query api columns_query n1
      in \<not> err \<and> \<not> err' \<and> fst (nc_store_result api n2) = Some r)"

lemma answersE:
  assumes "answers link n r"
  obtains n1 n2 n3 where "nc_query (nl_conn link) (''USE `'' @ ''information_schema'' @ ''`'') n = (False, n1)"
    "nc_query (nl_conn link) columns_query n1 = (False, n2)" "nc_store_result (nl_conn link) n2 = (Some r, n3)"
  using assms by (auto simp: answers_def Let_def prod_eq_iff split: prod.splits)

context stored_result
begin

lemma drain_columns:
  assumes "distinct (map (\<lambda>f. utf8_strup (fm_name f)) fs)" "list_all (\<lambda>r. length r = length fs) rows"
    and "labelled fs ''COLUMN_NAME'' i" "labelled fs ''DATA_TYPE'' j"
    and "agrees api rows_of cur rows fs s" "rs_position s = 0" "length rows < fuel"
  shows "fst (drain fuel (rs_next api) (read_column api) [] s) =
    Inr (map (\<lambda>r. (cell_string r i, cell_string r j)) rows)"
  using drain_two_labels [OF assms(1,2), of i "''COLUMN_NAME''" j "''DATA_TYPE''", OF _ _ _ _ _ _ assms(5-7)] assms(3,4)
  by (auto simp: labelled_def read_column_def cell_string_def)

end

lemma read_columns_stored:
  assumes api: "stored_result (nl_result link) rows_of cur"
    and c: "c_valid c" "c_proxy c = Some n" "c_stmt_type c \<noteq> TYPE_FORWARD_ONLY"
    and r: "answers link n r" "cur r = 0" "nat_fields (nl_result link) r = fs"
    and fs: "distinct (map (\<lambda>f. utf8_strup (fm_name f)) fs)" "list_all (\<lambda>x. length x = length fs) (rows_of r)"
      "labelled fs ''COLUMN_NAME'' i" "labelled fs ''DATA_TYPE'' j"
    and fuel: "length (rows_of r) < fuel"
  shows "read_columns fuel link c = Inr (map (\<lambda>x. (cell_string x i, cell_string x j)) (rows_of r))"
proof -
  from r(1) obtain n1 n2 n3 where
    q: "nc_query (nl_conn link) (''USE `'' @ ''information_schema'' @ ''`'') n = (False, n1)"
      "nc_query (nl_conn link) columns_query n1 = (False, n2)" "nc_store_result (nl_conn link) n2 = (Some r, n3)"
    by (rule answersE)
  let ?conn = "\<lparr>sq_database = ''information_schema'', sq_conn = c\<lparr>c_proxy := Some n1\<rparr>\<rparr>"
  let ?res = "new_ResultSet (nl_result link) r TYPE_SCROLL_INSENSITIVE"
  have opened: "new_SQLConn_database link c ''information_schema'' = (Inr (), ?conn)"
    by (rule open_schema [OF _ setSchema_ok [OF c(1,2) q(1)]]) simp
  have fetched: "fst (sq_fetch_query link columns_query ?conn) = Inr ?res"
    using c q(2,3) by (intro fetch_stored) simp_all
  have "agrees (nl_result link) rows_of cur (rows_of r) fs ?res"
    using stored_result.new_agrees [OF api _ r(2), of TYPE_SCROLL_INSENSITIVE] r(3) by simp
  from stored_result.drain_columns [OF api fs this _ fuel] opened fetched show ?thesis
    by (simp add: read_columns_def new_ResultSet_def)
qed

text \<open>An error of the server on either query is the error of the whole run: no file is written.\<close>

lemma read_columns_schema_error:
  assumes "c_valid c" "c_proxy c = Some n"
    and "nc_query (nl_conn link) (''USE `'' @ ''information_schema'' @ ''`'') n = (True, n1)"
    and "nc_errNo (nl_conn link) n1 = e" "e \<noteq> 0"
  shows "read_columns fuel link c = Inl (Native_error e)"
  using open_schema [OF _ setSchema_error [OF assms]] by (simp add: read_columns_def)

lemma read_columns_query_error:
  assumes "c_valid c" "c_proxy c = Some n"
    and "nc_query (nl_conn link) (''USE `'' @ ''information_schema'' @ ''`'') n = (False, n1)"
    and "nc_query (nl_conn link) columns_query n1 = (True, n2)" "nc_errNo (nl_conn link) n2 = e" "e \<noteq> 0"
  shows "read_columns fuel link c = Inl (Native_error e)"
proof -
  let ?conn = "\<lparr>sq_database = ''information_schema'', sq_conn = c\<lparr>c_proxy := Some n1\<rparr>\<rparr>"
  have "new_SQLConn_database link c ''information_schema'' = (Inr (), ?conn)"
    by (rule open_schema [OF _ setSchema_ok [OF assms(1-3)]]) simp
  moreover have "fst (sq_fetch_query link columns_query ?conn) = Inl (Native_error e)"
    using assms by (intro fetch_error) simp_all
  ultimately show ?thesis by (simp add: read_columns_def)
qed

end
