(* ===== verification/Scrolling.thy ===== *)
theory Scrolling
  imports Cursor_Moves
begin

text \<open>
  The contract of a scrollable result set, as the callers of the driver see it: every movement that is
  \<open>allowed\<close> returns whether it ends on a row and ends at the position of the specification
  \<open>move_pos\<close>. Sequences of movements, the reading loops and the comparison of two result sets are
  consequences of the contract. Buffered results of the client library provide it.
\<close>

section \<open>Sequences of movements\<close>

fun run_moves :: "(move \<Rightarrow> ('s, bool) sop) \<Rightarrow> move list \<Rightarrow> ('s, bool list) sop" where
  "run_moves run [] = sret []"
| "run_moves run (m # ms) = sbind (run m) (\<lambda>b. sbind (run_moves run ms) (\<lambda>bs. sret (b # bs)))"

fun spec_moves :: "nat \<Rightarrow> nat \<Rightarrow> move list \<Rightarrow> bool list \<times> nat" where
  "spec_moves n pos [] = ([], pos)"
| "spec_moves n pos (m # ms) =
     (case spec_moves n (move_pos n pos m) ms of (bs, q) \<Rightarrow> (hit n (move_pos n pos m) # bs, q))"

fun allowed_moves :: "(nat \<Rightarrow> move \<Rightarrow> bool) \<Rightarrow> nat \<Rightarrow> nat \<Rightarrow> move list \<Rightarrow> bool" where
  "allowed_moves allowed n pos [] \<longleftrightarrow> True"
| "allowed_moves allowed n pos (m # ms) \<longleftrightarrow>
     move_int m \<and> allowed pos m \<and> allowed_moves allowed n (move_pos n pos m) ms"

lemma allowed_moves_mono:
  "allowed_moves a n pos ms \<Longrightarrow> (\<And>p m. a p m \<Longrightarrow> b p m) \<Longrightarrow> allowed_moves b n pos ms"
  by (induction a n pos ms rule: allowed_moves.induct) auto

lemma clamp_le: "clamp n k \<le> n + 1"
  by (auto simp: clamp_def)

lemma move_pos_le: "pos \<le> n + 1 \<Longrightarrow> move_pos n pos m \<le> n + 1"
  using clamp_le [of n] by (cases m) (auto simp: move_pos_def)

text \<open>The unsigned sum of a position and a signed distance, by where it leads.\<close>

definition moved_by :: "int \<Rightarrow> nat \<Rightarrow> nat" where
  "moved_by k p = nat ((int p + k) mod 2 ^ 64)"

lemma moved_by_nonneg: "0 \<le> int p + k \<Longrightarrow> int p + k < 2 ^ 64 \<Longrightarrow> moved_by k p = nat (int p + k)"
  by (simp add: moved_by_def)

lemma moved_by_negative:
  assumes "int p + k < 0" "- (2 ^ 31) \<le> k"
  shows "2 ^ 63 < moved_by k p"
proof -
  have "(int p + k) mod 2 ^ 64 = int p + k + 2 ^ 64" using assms by (intro int_mod_pos_eq [of _ _ "- 1"]) auto
  then show ?thesis using assms unfolding moved_by_def by simp
qed

lemma moved_by_cases [consumes 3, case_names zero before after row]:
  assumes "p \<le> n + 1" "int n \<le> INT_MAX" "in_int32 k"
  obtains "k = 0"
  | "k \<noteq> 0" "k < 0" "int p + k < 1" "n < moved_by k p \<or> moved_by k p < 1"
  | "k \<noteq> 0" "k > 0" "int p + k > int n" "n < moved_by k p"
  | "k \<noteq> 0" "1 \<le> int p + k" "int p + k \<le> int n" "moved_by k p = nat (int p + k)" "hit n (moved_by k p)"
proof -
  consider (zero) "k = 0" | (before) "k \<noteq> 0" "int p + k < 1" | (after) "k \<noteq> 0" "int p + k > int n" "1 \<le> int p + k"
    | (row) "k \<noteq> 0" "1 \<le> int p + k" "int p + k \<le> int n" by linarith
  then show thesis
  proof cases
    case zero
    then show thesis by (rule that(1))
  next
    case before
    have "n < moved_by k p \<or> moved_by k p < 1"
      using before moved_by_negative [of p k] moved_by_nonneg [of p k] assms(2,3)
      by (cases "int p + k < 0") (auto simp: in_int32_def)
    then show thesis using before by (intro that(2)) linarith+
  next
    case after
    have "moved_by k p = nat (int p + k)" using after assms by (intro moved_by_nonneg) (auto simp: in_int32_def)
    then show thesis using after assms(1) by (intro that(3)) linarith+
  next
    case row
    have "moved_by k p = nat (int p + k)" using row assms by (intro moved_by_nonneg) (auto simp: in_int32_def)
    then show thesis using row by (intro that(4)) (auto simp: hit_def)
  qed
qed

section \<open>The contract\<close>

locale scrolling =
  fixes run :: "move \<Rightarrow> ('s, bool) sop" and ok :: "'s \<Rightarrow> bool" and pos :: "'s \<Rightarrow> nat" and n :: nat
    and allowed :: "nat \<Rightarrow> move \<Rightarrow> bool"
  assumes bounded: "ok s \<Longrightarrow> pos s \<le> n + 1"
    and next_allowed: "allowed p Next"
    and moves: "ok s \<Longrightarrow> move_int m \<Longrightarrow> allowed (pos s) m \<Longrightarrow>
      \<exists>s'. run m s = (Inr (hit n (move_pos n (pos s) m)), s') \<and> ok s' \<and> pos s' = move_pos n (pos s) m"
begin

lemma run_moves_spec:
  "ok s \<Longrightarrow> allowed_moves allowed n (pos s) ms \<Longrightarrow>
    \<exists>s'. run_moves run ms s = (Inr (fst (spec_moves n (pos s) ms)), s') \<and> ok s' \<and> pos s' = snd (spec_moves n (pos s) ms)"
proof (induction ms arbitrary: s)
  case Nil
  then show ?case by simp
next
  case (Cons m ms)
  then obtain s1 where s1: "run m s = (Inr (hit n (move_pos n (pos s) m)), s1)" "ok s1" "pos s1 = move_pos n (pos s) m"
    using moves [of s m] by auto
  with Cons.IH [OF s1(2)] Cons.prems(2) show ?case by (auto split: prod.splits)
qed

text \<open>A step forward from a row and one back end where they began.\<close>

lemma forth_and_back:
  assumes "ok s" "pos s \<le> n" "allowed (pos s + 1) Previous"
  shows "\<exists>s' b. run_moves run [Next, Previous] s = (Inr [b, hit n (pos s)], s') \<and> ok s' \<and> pos s' = pos s"
proof -
  have p: "move_pos n (pos s) Next = pos s + 1" "move_pos n (pos s + 1) Previous = pos s"
    using assms(2) by (auto simp: move_pos_def clamp_def nat_add_distrib)
  have "allowed_moves allowed n (pos s) [Next, Previous]"
    using assms(3) next_allowed p by (simp add: move_int_def)
  from run_moves_spec [OF assms(1) this] p show ?thesis by auto
qed

end

text \<open>The reading loops need movements forward only.\<close>

sublocale scrolling \<subseteq> forward: cursor "run Next" "\<lambda>s k. ok s \<and> pos s = k" n
proof
  fix s k assume s: "ok s \<and> pos s = k" and k: "k < n"
  then have "move_pos n (pos s) Next = k + 1" "hit n (k + 1)" by (auto simp: move_pos_def clamp_def hit_def nat_add_distrib)
  with moves [of s Next] s next_allowed show "\<exists>s'. run Next s = (Inr True, s') \<and> ok s' \<and> pos s' = k + 1"
    by (auto simp: move_int_def)
next
  fix s assume s: "ok s \<and> pos s = n"
  then have "move_pos n (pos s) Next = n + 1" "\<not> hit n (n + 1)" by (auto simp: move_pos_def clamp_def hit_def)
  with moves [of s Next] s next_allowed show "\<exists>s'. run Next s = (Inr False, s') \<and> ok s' \<and> pos s' = n + 1"
    by (auto simp: move_int_def)
qed

section \<open>Buffered results\<close>

text \<open>Buffered results keep the contract for all movements but the \<open>unsought\<close> ones.\<close>

sublocale stored_result \<subseteq> scroll: scrolling "run_move api" "\<lambda>s. agrees api rows_of cur rows fs s \<and> int (length rows) \<le> INT_MAX"
    rs_position "length rows" "\<lambda>p m. \<not> unsought (length rows) p m"
  for rows fs
proof
  fix s assume "agrees api rows_of cur rows fs s \<and> int (length rows) \<le> INT_MAX"
  then show "rs_position s \<le> length rows + 1" by (simp add: agrees_def)
next
  fix p show "\<not> unsought (length rows) p Next" by (simp add: unsought_def)
next
  fix s m
  assume "agrees api rows_of cur rows fs s \<and> int (length rows) \<le> INT_MAX" "move_int m"
    "\<not> unsought (length rows) (rs_position s) m"
  then show "\<exists>s'. run_move api m s = (Inr (hit (length rows) (move_pos (length rows) (rs_position s) m)), s')
      \<and> (agrees api rows_of cur rows fs s' \<and> int (length rows) \<le> INT_MAX)
      \<and> rs_position s' = move_pos (length rows) (rs_position s) m"
    using move_refines [of rows fs s m] by blast
qed

context stored_result
begin

lemma moves_along:
  assumes "agrees api rows_of cur rows fs s" "int (length rows) \<le> INT_MAX"
    and "allowed_moves (\<lambda>p m. \<not> unsought (length rows) p m) (length rows) (rs_position s) ms"
  shows "\<exists>s'. run_moves (run_move api) ms s = (Inr (fst (spec_moves (length rows) (rs_position s) ms)), s')
    \<and> agrees api rows_of cur rows fs s' \<and> rs_position s' = snd (spec_moves (length rows) (rs_position s) ms)"
  using scroll.run_moves_spec [of rows fs s ms] assms by blast

end

end
