(* ===== verification/Ps_Moves.thy ===== *)
theory Ps_Moves
  imports Ps_Result_Set Scrolling Str
begin

text \<open>
  The cursor of a prepared statement's result set, against the client library's contract for a stored
  result of a statement: fetching writes the row under the library's cursor and advances it. Because
  \<^verbatim>\<open>next\<close> seeks when it starts before the first row, no movement has to be excepted but \<^verbatim>\<open>absolute\<close> of the
  least \<^verbatim>\<open>int\<close>.
\<close>

section \<open>The contract of the client library\<close>

locale stmt_result =
  fixes nr :: "'p nres" and rows_of :: "'p \<Rightarrow> rcell list list" and cur :: "'p \<Rightarrow> nat"
  assumes fetch_row: "cur p < length (rows_of p) \<Longrightarrow>
      \<exists>code p'. nr_fetch nr p = (code, rows_of p ! cur p, p') \<and> fetched code \<and> rows_of p' = rows_of p \<and> cur p' = cur p + 1"
    and seek: "k \<le> length (rows_of p) \<Longrightarrow> rows_of (nr_data_seek nr k p) = rows_of p \<and> cur (nr_data_seek nr k p) = k"

text \<open>A buffer without its contents.\<close>

definition blank :: "result_bind \<Rightarrow> result_bind" where
  "blank b = b\<lparr>rb_cell := \<lparr>rc_null = False, rc_length = 0, rc_buffer = Buf_bytes []\<rparr>\<rparr>"

text \<open>
  The buffers hold the row of the position, and the library's cursor is behind it. \<open>fs\<close> are the fields of
  the result, \<open>bs\<close> the buffers made for them.
\<close>

definition pr_agrees ::
    "('p \<Rightarrow> rcell list list) \<Rightarrow> ('p \<Rightarrow> nat) \<Rightarrow> rcell list list \<Rightarrow> mysql_field list \<Rightarrow> result_bind list \<Rightarrow> 'p prs \<Rightarrow> bool" where
  "pr_agrees rows_of cur rows fs bs s \<longleftrightarrow>
     pr_valid s \<and> pr_type s \<noteq> TYPE_FORWARD_ONLY \<and> pr_num_rows s = length rows \<and> pr_position s \<le> length rows + 1
     \<and> rows_of (pr_proxy s) = rows \<and> length (pr_binds s) = pr_num_fields s \<and> list_all (\<lambda>r. length r = pr_num_fields s) rows
     \<and> pr_fields s = fs \<and> length fs = pr_num_fields s \<and> map blank (pr_binds s) = map blank bs
     \<and> (hit (length rows) (pr_position s) \<longrightarrow>
          cur (pr_proxy s) = pr_position s \<and> map rb_cell (pr_binds s) = rows ! (pr_position s - 1))"

definition ps_run_move :: "'p nres \<Rightarrow> move \<Rightarrow> ('p prs, bool) sop" where
  "ps_run_move nr m =
     (case m of
        Next \<Rightarrow> pr_next nr | Previous \<Rightarrow> pr_previous nr | First \<Rightarrow> pr_first nr | Last \<Rightarrow> pr_last nr
      | Before_first \<Rightarrow> sthen (pr_beforeFirst nr) (sret False)
      | After_last \<Rightarrow> sthen pr_afterLast (sret False)
      | Absolute k \<Rightarrow> pr_absolute nr k | Relative k \<Rightarrow> pr_relative nr k)"

lemma fill_cells: "length bs = length cells \<Longrightarrow> map rb_cell (fill bs cells) = cells"
  by (simp add: fill_def list_eq_iff_nth_eq)

lemma fill_length: "length bs = length cells \<Longrightarrow> length (fill bs cells) = length bs"
  by (simp add: fill_def)

lemma fill_blank: "length bs = length cells \<Longrightarrow> map blank (fill bs cells) = map blank bs"
  by (simp add: fill_def blank_def list_eq_iff_nth_eq)

text \<open>Buffers are given by their shape and their contents.\<close>

lemma fill_unique:
  assumes "map blank bs' = map blank bs" "map rb_cell bs' = cells"
  shows "bs' = fill bs cells"
proof (rule nth_equalityI)
  have l: "length bs' = length bs" "length cells = length bs'" using assms map_eq_imp_length_eq by fastforce+
  then show "length bs' = length (fill bs cells)" by (simp add: fill_def)
  fix i assume i: "i < length bs'"
  have b: "blank (bs' ! i) = blank (bs ! i)" using arg_cong [OF assms(1), of "\<lambda>x. x ! i"] i l by simp
  have c: "rb_cell (bs' ! i) = cells ! i" using arg_cong [OF assms(2), of "\<lambda>x. x ! i"] i by simp
  show "bs' ! i = fill bs cells ! i"
    using b c i l by (cases "bs' ! i"; cases "bs ! i") (simp add: fill_def blank_def)
qed

context stmt_result
begin

lemma valid:
  assumes "pr_agrees rows_of cur rows fs bs s"
  shows "pr_checkValid s = (Inr (), s)" "pr_checkScrollable s = (Inr (), s\<lparr>pr_last_col := no_column\<rparr>)" "pr_isScrollable s"
  using assms by (simp_all add: pr_agrees_def pr_checkValid_def pr_isClosed_def pr_checkScrollable_def pr_forget_column_def pr_isScrollable_def)

lemma agrees_last_col [simp]: "pr_agrees rows_of cur rows fs bs (s\<lparr>pr_last_col := c\<rparr>) = pr_agrees rows_of cur rows fs bs s"
  by (simp add: pr_agrees_def)

lemma seek_proxy:
  assumes "pr_agrees rows_of cur rows fs bs s" "k \<le> length rows"
  shows "rows_of (nr_data_seek nr k (pr_proxy s)) = rows" "cur (nr_data_seek nr k (pr_proxy s)) = k"
  using seek [of k "pr_proxy s"] assms by (simp_all add: pr_agrees_def)

text \<open>Off the rows nothing is asked of the library's cursor.\<close>

lemma agrees_off:
  "pr_agrees rows_of cur rows fs bs s \<Longrightarrow> p = 0 \<or> p = length rows + 1 \<Longrightarrow> pr_agrees rows_of cur rows fs bs (s\<lparr>pr_position := p\<rparr>)"
  by (auto simp: pr_agrees_def hit_def)

lemma agrees_proxy_off:
  "pr_agrees rows_of cur rows fs bs s \<Longrightarrow> rows_of q = rows \<Longrightarrow> pr_position s = 0 \<Longrightarrow> pr_agrees rows_of cur rows fs bs (s\<lparr>pr_proxy := q\<rparr>)"
  by (auto simp: pr_agrees_def hit_def)

text \<open>A fetch with the library's cursor in front of the row of the position.\<close>

lemma fetch_at:
  assumes "pr_agrees rows_of cur rows fs bs s" "hit (length rows) k" "rows_of q = rows" "cur q = k - 1"
  shows "\<exists>code s'. pr_fetch nr (s\<lparr>pr_proxy := q\<rparr>) = (Inr code, s') \<and> fetched code
    \<and> pr_agrees rows_of cur rows fs bs (s'\<lparr>pr_position := k\<rparr>) \<and> pr_position s' = pr_position s \<and> pr_num_rows s' = pr_num_rows s
    \<and> pr_last_col s' = pr_last_col s"
proof -
  have "cur q < length (rows_of q)" using assms(2-4) by (auto simp: hit_def)
  from fetch_row [OF this] obtain code q' where q': "nr_fetch nr q = (code, rows ! (k - 1), q')" "fetched code"
    "rows_of q' = rows" "cur q' = k" using assms(2-4) by (auto simp: hit_def)
  have l: "length (pr_binds s) = length (rows ! (k - 1))"
    using assms(1,2) by (auto simp: pr_agrees_def hit_def list_all_length)
  let ?s = "s\<lparr>pr_proxy := q', pr_binds := fill (pr_binds s) (rows ! (k - 1))\<rparr>"
  have "pr_fetch nr (s\<lparr>pr_proxy := q\<rparr>) = (Inr code, ?s)" using q' by (simp add: pr_fetch_def)
  moreover have "pr_agrees rows_of cur rows fs bs (?s\<lparr>pr_position := k\<rparr>)"
    using assms(1,2) q'(3,4) fill_cells [OF l] fill_length [OF l] fill_blank [OF l] by (auto simp: pr_agrees_def hit_def)
  ultimately show ?thesis using q'(2) by (intro exI [of _ code] exI [of _ ?s]) simp
qed

lemma goto_row:
  assumes "pr_agrees rows_of cur rows fs bs s" "hit (length rows) (f s)"
  shows "\<exists>s'. pr_goto nr f s = (Inr (), s') \<and> pr_agrees rows_of cur rows fs bs s' \<and> pr_position s' = f s"
proof -
  let ?q = "nr_data_seek nr (f s - 1) (pr_proxy s)"
  have q: "rows_of ?q = rows" "cur ?q = f s - 1"
    using seek_proxy [OF assms(1), of "f s - 1"] assms(2) by (auto simp: hit_def)
  let ?s = "s\<lparr>pr_position := 0\<rparr>"
  have a: "pr_agrees rows_of cur rows fs bs ?s" by (rule agrees_off [OF assms(1)]) simp
  from fetch_at [OF a assms(2) q] obtain code t where t: "pr_fetch nr (?s\<lparr>pr_proxy := ?q\<rparr>) = (Inr code, t)"
    "pr_agrees rows_of cur rows fs bs (t\<lparr>pr_position := f s\<rparr>)" by blast
  have "pr_fetch nr (s\<lparr>pr_position := f s, pr_proxy := ?q\<rparr>) = (Inr code, t\<lparr>pr_position := f s\<rparr>)"
    using t(1) by (auto simp: pr_fetch_def split: prod.splits)
  then have "pr_goto nr f s = (Inr (), t\<lparr>pr_position := f s\<rparr>)"
    by (simp add: pr_goto_def pr_set_position_def pr_seek_def pr_data_seek_def)
  with t(2) show ?thesis by (intro exI [of _ "t\<lparr>pr_position := f s\<rparr>"]) simp
qed

lemma next_on:
  assumes "pr_agrees rows_of cur rows fs bs s" "pr_position s < length rows"
  shows "\<exists>s'. pr_next nr s = (Inr True, s') \<and> pr_agrees rows_of cur rows fs bs s' \<and> pr_position s' = pr_position s + 1"
proof -
  let ?p = "pr_position s" and ?s = "s\<lparr>pr_last_col := no_column\<rparr>"
  let ?q = "if ?p = 0 then nr_data_seek nr 0 (pr_proxy s) else pr_proxy s"
  have q: "rows_of ?q = rows" "cur ?q = (?p + 1) - 1"
    using seek_proxy [OF assms(1), of 0] assms by (auto simp: pr_agrees_def hit_def)
  have h: "hit (length rows) (?p + 1)" using assms(2) by (simp add: hit_def)
  have a: "pr_agrees rows_of cur rows fs bs ?s" using assms(1) by simp
  from fetch_at [OF a h q] obtain code t where t: "pr_fetch nr (?s\<lparr>pr_proxy := ?q\<rparr>) = (Inr code, t)" "fetched code"
    "pr_agrees rows_of cur rows fs bs (t\<lparr>pr_position := ?p + 1\<rparr>)" "pr_position t = ?p" by auto
  have c: "code \<noteq> 1" using t(2) by (auto simp: fetched_def MYSQL_DATA_TRUNCATED_def)
  have n: "pr_num_rows s = length rows" using assms(1) by (simp add: pr_agrees_def)
  have "pr_next nr s = pr_fetch_next nr (?s\<lparr>pr_proxy := ?q\<rparr>)"
    using valid [OF assms(1)] valid(1) [OF a] assms(2) n by (simp add: pr_next_def pr_isLast_def pr_data_seek_def)
  also have "\<dots> = (Inr True, t\<lparr>pr_position := ?p + 1\<rparr>)"
    using t(1,2,4) c by (simp add: pr_fetch_next_def pr_set_position_def)
  finally show ?thesis using t(3) by (intro exI [of _ "t\<lparr>pr_position := ?p + 1\<rparr>"]) simp
qed

lemma next_off:
  assumes "pr_agrees rows_of cur rows fs bs s" "length rows \<le> pr_position s"
  shows "\<exists>s'. pr_next nr s = (Inr False, s') \<and> pr_agrees rows_of cur rows fs bs s' \<and> pr_position s' = length rows + 1"
proof -
  let ?s = "s\<lparr>pr_last_col := no_column, pr_position := length rows + 1\<rparr>"
  have n: "pr_num_rows s = length rows" "pr_position s \<le> length rows + 1" using assms(1) by (simp_all add: pr_agrees_def)
  then consider "pr_position s = length rows" | "pr_position s = length rows + 1" using assms(2) by linarith
  then have "pr_next nr s = (Inr False, ?s)"
    using n valid [OF assms(1)] by cases (simp_all add: pr_next_def pr_isLast_def pr_set_position_def)
  moreover have "pr_agrees rows_of cur rows fs bs ?s" using agrees_off [of rows fs bs "s\<lparr>pr_last_col := no_column\<rparr>"] assms(1) by simp
  ultimately show ?thesis by (intro exI [of _ ?s]) simp
qed

lemma before_first:
  assumes "pr_agrees rows_of cur rows fs bs s"
  shows "\<exists>s'. pr_beforeFirst nr s = (Inr (), s') \<and> pr_agrees rows_of cur rows fs bs s' \<and> pr_position s' = 0"
proof -
  let ?s = "s\<lparr>pr_last_col := no_column, pr_position := 0\<rparr>"
  let ?q = "nr_data_seek nr 0 (pr_proxy s)"
  have r: "rows_of ?q = rows" using seek_proxy [OF assms, of 0] by simp
  have "pr_agrees rows_of cur rows fs bs ?s" using agrees_off [of rows fs bs "s\<lparr>pr_last_col := no_column\<rparr>"] assms by simp
  then have "pr_agrees rows_of cur rows fs bs (?s\<lparr>pr_proxy := ?q\<rparr>)" using r by (intro agrees_proxy_off) simp_all
  moreover have "pr_beforeFirst nr s = (Inr (), ?s\<lparr>pr_proxy := ?q\<rparr>)"
    using valid [OF assms] by (simp add: pr_beforeFirst_def pr_data_seek_def pr_set_position_def)
  ultimately show ?thesis by (intro exI [of _ "?s\<lparr>pr_proxy := ?q\<rparr>"]) simp
qed

lemma previous_move:
  assumes "pr_agrees rows_of cur rows fs bs s"
  shows "\<exists>s'. pr_previous nr s = (Inr (1 < pr_position s), s') \<and> pr_agrees rows_of cur rows fs bs s' \<and> pr_position s' = pr_position s - 1"
proof -
  let ?s = "s\<lparr>pr_last_col := no_column\<rparr>" and ?p = "pr_position s"
  have a: "pr_agrees rows_of cur rows fs bs ?s" using assms by simp
  note v = valid(2) [OF assms] valid(1) [OF a]
  consider "?p = 0" | "?p = 1" | "1 < ?p" by linarith
  then show ?thesis
  proof cases
    case 1
    then show ?thesis using v a by (intro exI [of _ ?s]) (simp add: pr_previous_def pr_isBeforeFirst_def)
  next
    case 2
    with before_first [OF a] v show ?thesis by (auto simp: pr_previous_def pr_isBeforeFirst_def pr_isFirst_def)
  next
    case 3
    let ?q = "nr_data_seek nr (?p - 1 - 1) (pr_proxy s)"
    have h: "hit (length rows) (?p - 1)" using 3 assms by (auto simp: hit_def pr_agrees_def)
    have q: "rows_of ?q = rows" "cur ?q = ?p - 1 - 1"
      using seek_proxy [OF assms, of "?p - 1 - 1"] h by (auto simp: hit_def)
    have z: "pr_agrees rows_of cur rows fs bs (?s\<lparr>pr_position := 0\<rparr>)" by (rule agrees_off [OF a]) simp
    from fetch_at [OF z h q] obtain code t where t: "pr_fetch nr (?s\<lparr>pr_position := 0, pr_proxy := ?q\<rparr>) = (Inr code, t)"
      "fetched code" "pr_agrees rows_of cur rows fs bs (t\<lparr>pr_position := ?p - 1\<rparr>)" by auto
    have "pr_fetch nr (?s\<lparr>pr_position := ?p - 1, pr_proxy := ?q\<rparr>) = (Inr code, t\<lparr>pr_position := ?p - 1\<rparr>)"
      using t(1) by (auto simp: pr_fetch_def split: prod.splits)
    with 3 v t(2,3) show ?thesis
      by (intro exI [of _ "t\<lparr>pr_position := ?p - 1\<rparr>"])
        (simp add: pr_previous_def pr_isBeforeFirst_def pr_isFirst_def pr_set_position_def pr_data_seek_def)
  qed
qed

lemma first_last:
  assumes "pr_agrees rows_of cur rows fs bs s"
  shows "\<exists>s'. pr_first nr s = (Inr (rows \<noteq> []), s') \<and> pr_agrees rows_of cur rows fs bs s' \<and> pr_position s' = (if rows = [] then pr_position s else 1)"
    "\<exists>s'. pr_last nr s = (Inr (rows \<noteq> []), s') \<and> pr_agrees rows_of cur rows fs bs s' \<and> pr_position s' = (if rows = [] then pr_position s else length rows)"
proof -
  let ?s = "s\<lparr>pr_last_col := no_column\<rparr>"
  have a: "pr_agrees rows_of cur rows fs bs ?s" using assms by simp
  have n: "pr_agrees rows_of cur rows fs bs t \<Longrightarrow> pr_num_rows t = length rows" for t by (simp add: pr_agrees_def)
  note v = valid [OF assms] n [OF assms]
  show "\<exists>s'. pr_first nr s = (Inr (rows \<noteq> []), s') \<and> pr_agrees rows_of cur rows fs bs s' \<and> pr_position s' = (if rows = [] then pr_position s else 1)"
    "\<exists>s'. pr_last nr s = (Inr (rows \<noteq> []), s') \<and> pr_agrees rows_of cur rows fs bs s' \<and> pr_position s' = (if rows = [] then pr_position s else length rows)"
    using goto_row [OF a, of "\<lambda>_. 1"] goto_row [OF a, of pr_num_rows] v a n
    by (cases rows; auto simp: pr_first_def pr_last_def hit_def)+
qed

lemma absolute_move:
  assumes "pr_agrees rows_of cur rows fs bs s" "int (length rows) \<le> INT_MAX" "k \<noteq> INT_MIN"
  shows "\<exists>s'. pr_absolute nr k s = (Inr (hit (length rows) (move_pos (length rows) (pr_position s) (Absolute k))), s')
    \<and> pr_agrees rows_of cur rows fs bs s' \<and> pr_position s' = move_pos (length rows) (pr_position s) (Absolute k)"
proof -
  let ?s = "s\<lparr>pr_last_col := no_column\<rparr>" and ?n = "length rows"
  have a: "pr_agrees rows_of cur rows fs bs ?s" using assms(1) by simp
  have n: "pr_num_rows s = ?n" using assms(1) by (simp add: pr_agrees_def)
  note v = valid(1,2) [OF assms(1)] n cast_int_small [OF assms(2)]
  consider (after) "k > int ?n" | (fwd) "0 < k" "k \<le> int ?n" | (zero) "k = 0" | (before) "k < 0" "- k > int ?n" | (neg) "k < 0" "- k \<le> int ?n"
    by linarith
  then show ?thesis
  proof cases
    case after
    then show ?thesis using v agrees_off [OF a, of "?n + 1"]
      by (intro exI [of _ "?s\<lparr>pr_position := ?n + 1\<rparr>"])
        (simp add: pr_absolute_def pr_set_position_def pr_on_row_def move_pos_def clamp_def hit_def)
  next
    case fwd
    then have "hit ?n (nat k)" by (auto simp: hit_def)
    with goto_row [OF a, of "\<lambda>_. nat k"] fwd v show ?thesis by (auto simp: pr_absolute_def move_pos_def clamp_def)
  next
    case zero
    from before_first [OF agrees_off [OF a, of 0]] obtain t where t: "pr_beforeFirst nr (?s\<lparr>pr_position := 0\<rparr>) = (Inr (), t)"
      "pr_agrees rows_of cur rows fs bs t" "pr_position t = 0" by blast
    then show ?thesis using v zero
      by (intro exI [of _ t]) (simp add: pr_absolute_def pr_set_position_def pr_on_row_def move_pos_def clamp_def hit_def)
  next
    case before
    then show ?thesis using v agrees_off [OF a, of 0] assms(3)
      by (intro exI [of _ "?s\<lparr>pr_position := 0\<rparr>"])
        (simp add: pr_absolute_def pr_set_position_def pr_on_row_def move_pos_def clamp_def hit_def)
  next
    case neg
    have p: "nat (int ?n + k + 1) = ?n - nat (- k) + 1" "hit ?n (?n - nat (- k) + 1)" using neg by (auto simp: hit_def)
    with goto_row [OF a, of "\<lambda>s. pr_num_rows s - nat (- k) + 1"] neg v assms(3) show ?thesis
      by (auto simp: pr_absolute_def move_pos_def clamp_def)
  qed
qed

lemma relative_move:
  assumes "pr_agrees rows_of cur rows fs bs s" "int (length rows) \<le> INT_MAX" "in_int32 k"
  shows "\<exists>s'. pr_relative nr k s = (Inr (hit (length rows) (move_pos (length rows) (pr_position s) (Relative k))), s')
    \<and> pr_agrees rows_of cur rows fs bs s' \<and> pr_position s' = move_pos (length rows) (pr_position s) (Relative k)"
proof -
  let ?s = "s\<lparr>pr_last_col := no_column\<rparr>" and ?n = "length rows" and ?p = "pr_position s"
  have a: "pr_agrees rows_of cur rows fs bs ?s" using assms(1) by simp
  have n: "pr_agrees rows_of cur rows fs bs t \<Longrightarrow> pr_num_rows t = ?n" for t by (simp add: pr_agrees_def)
  have p: "?p \<le> ?n + 1" using assms(1) by (simp add: pr_agrees_def)
  note v = valid(1,2) [OF assms(1)] n [OF assms(1)]
  have m: "moved_by k ?p = pr_moved k ?s" by (simp add: pr_moved_def moved_by_def)
  from p assms(2,3) show ?thesis
  proof (cases rule: moved_by_cases)
    case zero
    then show ?thesis using v a by (intro exI [of _ ?s]) (simp add: pr_relative_def move_pos_def hit_def)
  next
    case before
    then show ?thesis using v agrees_off [OF a, of 0] m
      by (intro exI [of _ "?s\<lparr>pr_position := 0\<rparr>"]) (auto simp: pr_relative_def pr_set_position_def move_pos_def clamp_def hit_def)
  next
    case after
    then show ?thesis using v agrees_off [OF a, of "?n + 1"] m
      by (intro exI [of _ "?s\<lparr>pr_position := ?n + 1\<rparr>"]) (auto simp: pr_relative_def pr_set_position_def move_pos_def clamp_def hit_def)
  next
    case row
    then have h: "hit ?n (pr_moved k ?s)" using m by simp
    from goto_row [OF a, of "pr_moved k", OF h] obtain t where "pr_goto nr (pr_moved k) ?s = (Inr (), t)" "pr_agrees rows_of cur rows fs bs t"
      "pr_position t = pr_moved k ?s" by blast
    with row v m n [of t] h show ?thesis
      by (intro exI [of _ t]) (auto simp: pr_relative_def move_pos_def clamp_def hit_def)
  qed
qed

text \<open>All movements.\<close>

lemma move_refines:
  assumes "pr_agrees rows_of cur rows fs bs s" "int (length rows) \<le> INT_MAX" "move_int m" "m \<noteq> Absolute INT_MIN"
  shows "\<exists>s'. ps_run_move nr m s = (Inr (hit (length rows) (move_pos (length rows) (pr_position s) m)), s')
    \<and> pr_agrees rows_of cur rows fs bs s' \<and> pr_position s' = move_pos (length rows) (pr_position s) m"
proof -
  have p: "pr_position s \<le> length rows + 1" using assms(1) by (simp add: pr_agrees_def)
  show ?thesis
  proof (cases m)
    case Next
    then show ?thesis using next_on [OF assms(1)] next_off [OF assms(1)] p
      by (cases "pr_position s < length rows") (auto simp: ps_run_move_def move_pos_def clamp_def hit_def nat_add_distrib)
  next
    case Previous
    then show ?thesis using previous_move [OF assms(1)] p by (auto simp: ps_run_move_def move_pos_def hit_def)
  next
    case First
    then show ?thesis using first_last(1) [OF assms(1)] p by (cases rows) (auto simp: ps_run_move_def move_pos_def hit_def)
  next
    case Last
    then show ?thesis using first_last(2) [OF assms(1)] p by (cases rows) (auto simp: ps_run_move_def move_pos_def hit_def)
  next
    case Before_first
    then show ?thesis using before_first [OF assms(1)] by (auto simp: ps_run_move_def move_pos_def hit_def)
  next
    case After_last
    have "pr_agrees rows_of cur rows fs bs (s\<lparr>pr_last_col := no_column, pr_position := length rows + 1\<rparr>)"
      by (rule agrees_off) (use assms(1) in simp_all)
    then show ?thesis using valid [OF assms(1)] assms(1) After_last
      by (auto simp: ps_run_move_def move_pos_def hit_def pr_afterLast_def pr_set_position_def pr_agrees_def)
  next
    case (Absolute k)
    then show ?thesis using absolute_move [OF assms(1,2), of k] assms(4) by (simp add: ps_run_move_def)
  next
    case (Relative k)
    then show ?thesis using relative_move [OF assms(1,2), of k] assms(3) by (simp add: ps_run_move_def move_int_def)
  qed
qed

end

text \<open>Prepared statements provide the contract of a scrollable result set.\<close>

sublocale stmt_result \<subseteq> scroll: scrolling "ps_run_move nr" "\<lambda>s. pr_agrees rows_of cur rows fs bs s \<and> int (length rows) \<le> INT_MAX"
    pr_position "length rows" "\<lambda>p m. m \<noteq> Absolute INT_MIN"
  for rows fs bs
proof
  fix s assume "pr_agrees rows_of cur rows fs bs s \<and> int (length rows) \<le> INT_MAX"
  then show "pr_position s \<le> length rows + 1" by (simp add: pr_agrees_def)
next
  fix s m
  assume "pr_agrees rows_of cur rows fs bs s \<and> int (length rows) \<le> INT_MAX" "move_int m" "m \<noteq> Absolute INT_MIN"
  then show "\<exists>s'. ps_run_move nr m s = (Inr (hit (length rows) (move_pos (length rows) (pr_position s) m)), s')
      \<and> (pr_agrees rows_of cur rows fs bs s' \<and> int (length rows) \<le> INT_MAX)
      \<and> pr_position s' = move_pos (length rows) (pr_position s) m"
    using move_refines [of rows fs bs s m] by blast
qed simp

context stmt_result
begin

lemma moves_along:
  assumes "pr_agrees rows_of cur rows fs bs s" "int (length rows) \<le> INT_MAX"
    and "allowed_moves (\<lambda>p m. m \<noteq> Absolute INT_MIN) (length rows) (pr_position s) ms"
  shows "\<exists>s'. run_moves (ps_run_move nr) ms s = (Inr (fst (spec_moves (length rows) (pr_position s) ms)), s')
    \<and> pr_agrees rows_of cur rows fs bs s' \<and> pr_position s' = snd (spec_moves (length rows) (pr_position s) ms)"
  using scroll.run_moves_spec [of rows fs bs s ms] assms by blast

end

section \<open>A stored result in memory\<close>

record mem_stmt =
  ms_rows :: "rcell list list"
  ms_cur :: nat
  ms_fields :: "mysql_field list"

definition mem_api :: "mem_stmt nres" where
  "mem_api =
     \<lparr>nr_field_count = (\<lambda>p. length (ms_fields p)), nr_fields = ms_fields, nr_num_rows = (\<lambda>p. length (ms_rows p)),
      nr_bind_result = (\<lambda>p. (False, p)),
      nr_fetch = (\<lambda>p. if ms_cur p < length (ms_rows p) then (0, ms_rows p ! ms_cur p, p\<lparr>ms_cur := ms_cur p + 1\<rparr>)
        else (MYSQL_NO_DATA, [], p)),
      nr_data_seek = (\<lambda>k p. p\<lparr>ms_cur := k\<rparr>), nr_free_result = (\<lambda>p. p\<lparr>ms_rows := []\<rparr>), nr_errNo = (\<lambda>p. 0)\<rparr>"

interpretation mem: stmt_result mem_api ms_rows ms_cur
  by unfold_locales (auto simp: mem_api_def fetched_def)

end
