(* ===== verification/Ps_Values.thy ===== *)
theory Ps_Values
  imports Ps_Moves
begin

text \<open>
  What the getters of a prepared statement's result set return: integers as the library wrote them, byte
  by byte; texts as long as they fit into the buffer, which the driver does not check.
\<close>

section \<open>Getters on a row\<close>

text \<open>On a row of the result, with buffers and fields for every column.\<close>

definition pr_ready :: "'p prs \<Rightarrow> bool" where
  "pr_ready s \<longleftrightarrow> pr_valid s \<and> pr_position s \<noteq> 0 \<and> (pr_isScrollable s \<longrightarrow> pr_position s \<noteq> pr_num_rows s + 1)
     \<and> length (pr_binds s) = pr_num_fields s \<and> length (pr_fields s) = pr_num_fields s"

lemma pr_get_ready:
  assumes "pr_ready s" "1 \<le> col" "col \<le> pr_num_fields s"
  shows "pr_get name bad null conv col s =
    (let b = pr_binds s ! (col - 1) in
     if rc_null (rb_cell b) then Inr null
     else rbind (mysql_type_to_datatype (pr_fields s ! (col - 1))) (\<lambda>t. conv t b), s\<lparr>pr_last_col := col\<rparr>)"
  using assms
  by (auto simp: pr_get_def pr_ready_def pr_check_row_def pr_isBeforeFirstOrAfterLast_def pr_checkValid_def pr_isClosed_def
      pr_bind_def pr_column_type_def Let_def rbind_def pr_isScrollable_def split: sum.splits)

lemma pr_get_off:
  assumes "pr_valid s" "pr_position s = 0 \<or> (pr_isScrollable s \<and> pr_position s = pr_num_rows s + 1)"
  shows "pr_get name bad null conv col s = (Inl (pr_off name), s)"
  using assms by (auto simp: pr_get_def pr_check_row_def pr_isBeforeFirstOrAfterLast_def pr_checkValid_def pr_isClosed_def)

section \<open>Bytes of integers\<close>

fun le_bytes :: "nat \<Rightarrow> int \<Rightarrow> string" where
  "le_bytes 0 i = []"
| "le_bytes (Suc n) i = char_of (nat (i mod 256)) # le_bytes n (i div 256)"

lemma le_bytes_length [simp]: "length (le_bytes n i) = n"
  by (induction n arbitrary: i) auto

lemma le_value_bytes: "le_value (le_bytes n i) = i mod 256 ^ n"
proof (induction n arbitrary: i)
  case 0
  then show ?case by (simp add: le_value_def)
next
  case (Suc n)
  have "nat (i mod 256) < 256" by (simp add: nat_less_iff)
  then have "int (of_char (char_of (nat (i mod 256)))) = i mod 256" by simp
  moreover have "i mod 256 + 256 * (i div 256 mod 256 ^ n) = i mod (256 * 256 ^ n)"
    using mod_mult2_eq' [of i 256 "256 ^ n"] by (simp add: zmod_zmult2_eq)
  ultimately show ?case using Suc [of "i div 256"] by (simp add: le_value_def)
qed

lemma as_signed_bytes:
  assumes "0 < n" "- (2 ^ (8 * n - 1)) \<le> i" "i < 2 ^ (8 * n - 1)"
  shows "as_signed n (le_value (le_bytes n i)) = i"
proof -
  have p: "(256 :: int) ^ n = 2 ^ (8 * n)" by (simp add: power_mult)
  have h: "(2 :: int) ^ (8 * n) = 2 * 2 ^ (8 * n - 1)" using assms(1) by (simp flip: power_Suc)
  show ?thesis
  proof (cases "0 \<le> i")
    case True
    then have "i mod 2 ^ (8 * n) = i" using assms(3) h by (intro mod_pos_pos_trivial) auto
    then show ?thesis using assms(3) by (simp add: le_value_bytes p as_signed_def)
  next
    case False
    then have "i mod 2 ^ (8 * n) = i + 2 ^ (8 * n)"
      using assms(2) h int_mod_pos_eq [of i "2 ^ (8 * n)" "- 1" "i + 2 ^ (8 * n)"] by auto
    then show ?thesis using False assms(2) h by (simp add: le_value_bytes p as_signed_def)
  qed
qed

text \<open>A cell with an integer of the size of its buffer.\<close>

definition holds_int :: "result_bind \<Rightarrow> int \<Rightarrow> bool" where
  "holds_int b i \<longleftrightarrow> rb_size b \<in> {1, 2, 4, 8} \<and> \<not> rc_null (rb_cell b) \<and> rc_buffer (rb_cell b) = Buf_bytes (le_bytes (rb_size b) i)
     \<and> (if rb_unsigned b then 0 \<le> i \<and> i < 2 ^ (8 * rb_size b) else - (2 ^ (8 * rb_size b - 1)) \<le> i \<and> i < 2 ^ (8 * rb_size b - 1))"

lemma bind_int_value:
  assumes "holds_int b i"
  shows "bind_int b = Inr i"
proof -
  have n: "rb_size b \<in> {1, 2, 4, 8}" "bind_bytes (rb_size b) b = Inr (le_bytes (rb_size b) i)" "0 < rb_size b"
    using assms by (auto simp: holds_int_def bind_bytes_def)
  show ?thesis
  proof (cases "rb_unsigned b")
    case True
    then have "i mod 256 ^ rb_size b = i" using assms by (simp add: holds_int_def power_mult)
    then show ?thesis using n True by (simp add: bind_int_def Let_def le_value_bytes)
  next
    case False
    then have "as_signed (rb_size b) (le_value (le_bytes (rb_size b) i)) = i"
      using assms n(3) by (intro as_signed_bytes) (auto simp: holds_int_def)
    then show ?thesis using n False by (simp add: bind_int_def Let_def)
  qed
qed

lemma holds_int_range:
  assumes "holds_int b i"
  shows "rb_unsigned b \<Longrightarrow> 0 \<le> i \<and> i < 2 ^ 64" "\<not> rb_unsigned b \<Longrightarrow> - (2 ^ 63) \<le> i \<and> i < 2 ^ 63"
  using assms by (auto simp: holds_int_def)

lemma int_type_cases: "is_int_type t \<Longrightarrow> t \<noteq> DT_BIT \<and> t \<noteq> DT_REAL \<and> t \<noteq> DT_DOUBLE \<and> \<not> is_time_type t \<and> \<not> is_text_type t"
  by (auto simp: is_int_type_def is_time_type_def is_text_type_def)

lemma bind_values_int:
  assumes "holds_int b i" "is_int_type t"
  shows "bind_int64 pd t b = Inr (to_int64 i)" "bind_uint64 pd t b = Inr (to_uint64 i)" "bind_string pd t b = Inr (idec i)"
proof -
  note t = int_type_cases [OF assms(2)]
  show "bind_int64 pd t b = Inr (to_int64 i)" "bind_uint64 pd t b = Inr (to_uint64 i)"
    using t assms(2) bind_int_value [OF assms(1)] by (simp_all add: bind_int64_def bind_uint64_def bind_number_def bind_integer_def)
  have "idec i = udec (nat i)" if "0 \<le> i" using that by (simp add: idec_def)
  moreover have "rb_unsigned b \<Longrightarrow> to_uint64 i = i" "\<not> rb_unsigned b \<Longrightarrow> to_int64 i = i"
    using holds_int_range [OF assms(1)] by (auto simp: to_uint64_def to_int64_def)
  ultimately show "bind_string pd t b = Inr (idec i)"
    using t assms(2) bind_int_value [OF assms(1)] holds_int_range [OF assms(1)]
    by (auto simp: bind_string_def bind_integer_def is_time_type_def)
qed

section \<open>Texts\<close>

text \<open>
  A text is read as long as the value is. Buffers are one byte longer than the longest value of the
  column when the library has computed that, which it does for stored results only.
\<close>

lemma bind_string_text:
  assumes "is_text_type t" "rc_buffer (rb_cell b) = Buf_bytes bs"
  shows "bind_string pd t b = (if rc_length (rb_cell b) \<le> length bs then Inr (take (rc_length (rb_cell b)) bs) else Inl Undefined_behaviour)"
proof -
  have "t \<notin> {DT_TIMESTAMP, DT_DATE, DT_TIME, DT_BIT, DT_REAL, DT_DOUBLE}" "\<not> is_int_type t"
    using assms(1) by (auto simp: is_text_type_def is_int_type_def)
  then show ?thesis using assms by (simp add: bind_string_def bind_bytes_def)
qed

text \<open>
  A cell that fits its field: the length of a text is within the buffer, a time is there for a time.
\<close>

definition fits :: "sql_type \<Rightarrow> result_bind \<Rightarrow> bool" where
  "fits t b \<longleftrightarrow>
     (case rc_buffer (rb_cell b) of
        Buf_time x \<Rightarrow> is_time_type t
      | Buf_bytes bs \<Rightarrow> \<not> is_time_type t \<and> length bs = rb_size b
          \<and> (is_text_type t \<longrightarrow> rc_length (rb_cell b) \<le> rb_size b)
          \<and> (t = DT_BIT \<or> t = DT_DOUBLE \<longrightarrow> 8 \<le> rb_size b) \<and> (t = DT_REAL \<longrightarrow> 4 \<le> rb_size b))"

lemma fits_time: "fits t b \<Longrightarrow> is_time_type t \<Longrightarrow> \<exists>x. bind_time b = Inr x"
  by (cases "rc_buffer (rb_cell b)") (simp_all add: fits_def bind_time_def)

lemma fits_bytes:
  assumes "fits t b" "\<not> is_time_type t"
  shows "is_text_type t \<Longrightarrow> \<exists>bs. bind_bytes (rc_length (rb_cell b)) b = Inr bs"
    and "t = DT_BIT \<or> t = DT_DOUBLE \<Longrightarrow> n \<le> 8 \<Longrightarrow> \<exists>bs. bind_bytes n b = Inr bs"
    and "t = DT_REAL \<Longrightarrow> \<exists>bs. bind_bytes 4 b = Inr bs"
    and "\<exists>bs. bind_bytes (rb_size b) b = Inr bs"
  using assms by (cases "rc_buffer (rb_cell b)"; simp add: fits_def bind_bytes_def)+

lemma rbind_safe: "m \<noteq> Inl Undefined_behaviour \<Longrightarrow> rbind m (\<lambda>x. Inr (f x)) \<noteq> Inl Undefined_behaviour"
  by (cases m) auto

lemma bind_string_safe:
  assumes "fits t b"
  shows "bind_string pd t b \<noteq> Inl Undefined_behaviour"
proof (cases "is_time_type t")
  case True
  with fits_time [OF assms] show ?thesis by (auto simp: bind_string_def is_time_type_def)
next
  case False
  note fb = fits_bytes [OF assms False]
  have "bind_int b \<noteq> Inl Undefined_behaviour" using fb(4) by (auto simp: bind_int_def Let_def)
  moreover have "t = DT_BIT \<Longrightarrow> bind_bit b \<noteq> Inl Undefined_behaviour"
    using fb(2) [of "rc_length (rb_cell b)"] by (auto simp: bind_bit_def Let_def)
  ultimately have int: "bind_integer w t b \<noteq> Inl Undefined_behaviour" for w
    unfolding bind_integer_def by (intro rbind_safe) auto
  have double: "bind_double pd t b \<noteq> Inl Undefined_behaviour" if "t = DT_REAL \<or> t = DT_DOUBLE"
    using that fb(2) [of 8] fb(3) by (auto simp: bind_double_def)
  have n: "t \<noteq> DT_TIMESTAMP" "t \<noteq> DT_DATE" "t \<noteq> DT_TIME" using False by (auto simp: is_time_type_def)
  show ?thesis
    unfolding bind_string_def
    using n fb(1) rbind_safe [OF int [of to_uint64], of "\<lambda>i. udec (nat i)"] rbind_safe [OF int [of to_int64], of idec]
      rbind_safe [OF double, of "\<lambda>d. take 48 (pd_print pd d)"]
    by (auto simp: unhandled_def)
qed

end
