(* ===== verification/Prepared_Query.thy ===== *)
theory Prepared_Query
  imports Sql_Conn Ps_Values
begin

text \<open>
  A query with arguments, end to end: \<^verbatim>\<open>SQLConn::fetch\<close> binds the arguments, runs the statement and returns
  a result set, and a loop over \<^verbatim>\<open>next\<close> and a getter reads it. The locale \<open>answering\<close> states what the client
  library promises: the rows a statement stores are the server's answer to the calls made on it.
\<close>

section \<open>Reading a column of the rows\<close>

text \<open>What a getter makes of the cell of a column in one row.\<close>

definition read_cell :: "'a \<Rightarrow> (sql_type \<Rightarrow> result_bind \<Rightarrow> 'a res) \<Rightarrow> mysql_field list \<Rightarrow> result_bind list \<Rightarrow> nat \<Rightarrow> rcell list \<Rightarrow> 'a res" where
  "read_cell null conv fs bs col row =
     (let b = fill bs row ! (col - 1) in
      if rc_null (rb_cell b) then Inr null else rbind (mysql_type_to_datatype (fs ! (col - 1))) (\<lambda>t. conv t b))"

context stmt_result
begin

lemma get_on_row:
  assumes "pr_agrees rows_of cur rows fs bs s" "hit (length rows) (pr_position s)" "1 \<le> col" "col \<le> length fs"
  shows "pr_get name bad null conv col s =
    (read_cell null conv fs bs col (rows ! (pr_position s - 1)), s\<lparr>pr_last_col := col\<rparr>)"
proof -
  have "pr_binds s = fill bs (rows ! (pr_position s - 1))"
    using assms(1,2) by (intro fill_unique) (simp_all add: pr_agrees_def)
  moreover have "pr_ready s" using assms(1,2) by (auto simp: pr_ready_def pr_agrees_def hit_def)
  ultimately show ?thesis using pr_get_ready [of s col name bad null conv] assms
    by (simp add: pr_agrees_def read_cell_def Let_def)
qed

text \<open>The loop reads the column of every row, in order.\<close>

lemma read_all:
  assumes "pr_agrees rows_of cur rows fs bs s" "pr_position s = 0" "1 \<le> col" "col \<le> length fs"
    and "int (length rows) \<le> INT_MAX" "length rows < fuel"
    and g: "\<And>r. r \<in> set rows \<Longrightarrow> read_cell null conv fs bs col r = Inr (g r)"
  shows "\<exists>s'. drain fuel (pr_next nr) (pr_get name bad null conv col) [] s = (Inr (map g rows), s')"
proof -
  let ?at = "\<lambda>s k. (pr_agrees rows_of cur rows fs bs s \<and> int (length rows) \<le> INT_MAX) \<and> pr_position s = k"
  have n: "ps_run_move nr Next = pr_next nr" by (simp add: ps_run_move_def)
  let ?rd = "pr_get name bad null conv col"
  have rd: "\<exists>t'. ?rd t = (Inr (g (rows ! (k - 1))), t') \<and> ?at t' k" if "?at t k" "1 \<le> k" "k \<le> length rows" for t k
    using get_on_row [of rows fs bs t col name bad null conv] that assms(3,4) g [of "rows ! (k - 1)"]
    by (auto simp: hit_def)
  have "?at s 0" using assms(1,2,5) by simp
  from scroll.forward.drain_all [where rd = ?rd and g = "\<lambda>k. g (rows ! k)", unfolded n, OF rd this assms(6)]
  have "\<exists>s'. drain fuel (pr_next nr) ?rd [] s = (Inr (map (\<lambda>k. g (rows ! k)) [0..<length rows]), s')" by blast
  moreover have "map (\<lambda>k. g (rows ! k)) [0..<length rows] = map g rows" by (rule nth_equalityI) simp_all
  ultimately show ?thesis by simp
qed

end

section \<open>The statement's result\<close>

text \<open>
  After the calls \<open>cs\<close>, storing the result makes the rows \<open>answer cs\<close> available, with the fields \<open>fields cs\<close>,
  for which the driver has buffers; binding the buffers leaves them.
\<close>

locale answering = preparing link calls log query + stmt_result nr rows_of cur
  for link :: "('n, 'r, 'p, 'd) nlink" and calls :: "'p \<Rightarrow> 'd call list" and log :: "'n \<Rightarrow> 'd call list list"
    and query :: string and nr :: "'p nres" and rows_of :: "'p \<Rightarrow> rcell list list" and cur :: "'p \<Rightarrow> nat" +
  fixes answer :: "'d call list \<Rightarrow> rcell list list" and flds :: "'d call list \<Rightarrow> mysql_field list"
  assumes attr_calls: "calls (ns_attr_set (nl_stmt link) p) = calls p"
    and store_ok: "\<exists>p'. ns_store_result (nl_stmt link) p = (False, p') \<and> rows_of p' = answer (calls p) \<and> nr_fields nr p' = flds (calls p)"
    and counts: "nr_field_count nr p = length (nr_fields nr p)" "nr_num_rows nr p = length (rows_of p)"
    and bind_ok_result: "\<exists>p'. nr_bind_result nr p = (False, p') \<and> rows_of p' = rows_of p \<and> nr_fields nr p' = nr_fields nr p"
    and widths: "list_all (\<lambda>r. length r = length (flds cs)) (answer cs)"
    and typed: "list_all (\<lambda>f. \<exists>x. allocate_buffer_for_field f = Inr x) (flds cs)"

text \<open>The buffers the driver makes for the fields.\<close>

definition buffers :: "mysql_field list \<Rightarrow> result_bind list" where
  "buffers fs = (case rmap fresh_bind fs of Inl e \<Rightarrow> [] | Inr bs \<Rightarrow> bs)"

lemma buffers_ok:
  assumes "list_all (\<lambda>f. \<exists>x. allocate_buffer_for_field f = Inr x) fs"
  shows "rmap fresh_bind fs = Inr (buffers fs)" "length (buffers fs) = length fs"
proof -
  have "\<exists>bs. rmap fresh_bind fs = Inr bs \<and> length bs = length fs"
    using assms by (induction fs) (auto simp: fresh_bind_def)
  then show "rmap fresh_bind fs = Inr (buffers fs)" "length (buffers fs) = length fs" by (auto simp: buffers_def)
qed

context answering
begin

lemma stored_set:
  assumes "rows_of p = answer cs" "nr_fields nr p = flds cs" "kind \<noteq> TYPE_FORWARD_ONLY"
  shows "\<exists>s. new_PreparedResultSet nr p kind uses = Inr s \<and> pr_position s = 0
    \<and> pr_agrees rows_of cur (answer cs) (flds cs) (buffers (flds cs)) s"
proof -
  let ?n = "length (flds cs)"
  note b = buffers_ok [OF typed [of cs]]
  have c: "nr_field_count nr p = ?n" using assms(2) counts(1) [of p] by simp
  obtain p' bs where p': "bindResult nr p = Inr (bs, p')" "bs = buffers (flds cs)" "rows_of p' = answer cs" "nr_fields nr p' = flds cs"
  proof (cases "?n = 0")
    case True
    then show ?thesis using that [of "[]" p] assms c b by (simp add: bindResult_def)
  next
    case False
    obtain q where "nr_bind_result nr p = (False, q)" "rows_of q = answer cs" "nr_fields nr q = flds cs"
      using bind_ok_result [of p] assms(1,2) by auto
    then show ?thesis using that [of "buffers (flds cs)" q] assms(2) c b False by (simp add: bindResult_def Let_def)
  qed
  then show ?thesis using counts [of p'] b(2) widths [of cs] assms(3)
    by (simp add: new_PreparedResultSet_def Let_def pr_agrees_def hit_def)
qed

text \<open>Running a statement whose parameters are bound to the arguments \<open>ds\<close>.\<close>

lemma query_result:
  assumes "bound_upto ds 0 s" "ps_proxy s = Some p" "ps_resultset_type s = TYPE_SCROLL_INSENSITIVE"
  shows "\<exists>res t. ps_query_result fuel (nl_stmt link) nr s = (Inr res, t) \<and> ps_wf t \<and> pr_position res = 0
    \<and> pr_agrees rows_of cur (answer (calls p @ [Bind (map arg_bind ds), Run])) (flds (calls p @ [Bind (map arg_bind ds), Run]))
        (buffers (flds (calls p @ [Bind (map arg_bind ds), Run]))) res"
proof -
  let ?api = "nl_stmt link" and ?cs = "calls p @ [Bind (map arg_bind ds), Run]"
  have o: "ps_open s" "pb_bind (ps_params s) = map arg_bind ds" using assms(1) by (simp_all add: bound_upto_def)
  from do_query_calls [OF o(1) assms(2) bound_calls(1) [OF assms(1)] bound_calls(2) [OF assms(1), of fuel]] obtain q t where
    t: "ps_do_query fuel ?api s = (Inr (), t)" "ps_proxy t = Some q" "ps_params t = ps_params s" "calls q = ?cs"
      "ps_resultset_type t = TYPE_SCROLL_INSENSITIVE"
    using bound_calls(3) [OF assms(1)] o(2) assms(3) by auto
  obtain q' where q': "ns_store_result ?api (ns_attr_set ?api q) = (False, q')" "rows_of q' = answer ?cs" "nr_fields nr q' = flds ?cs"
    using store_ok [of "ns_attr_set ?api q"] attr_calls [of q] t(4) by auto
  have x: "ps_executeQuery fuel ?api s = (Inr TYPE_SCROLL_INSENSITIVE, t\<lparr>ps_proxy := Some q'\<rparr>)"
    using o(1) t q'(1) by (simp add: ps_executeQuery_def ps_checkClosed_def ps_open_def ps_getResultSet_open_def ps_call_def)
  from stored_set [OF q'(2,3), of TYPE_SCROLL_INSENSITIVE 2] obtain res where
    res: "new_PreparedResultSet nr q' TYPE_SCROLL_INSENSITIVE 2 = Inr res" "pr_position res = 0"
      "pr_agrees rows_of cur (answer ?cs) (flds ?cs) (buffers (flds ?cs)) res" by auto
  have "ps_wf (t\<lparr>ps_proxy := Some q'\<rparr>)" using safeD [OF safe_execute(3) _ x] o(1) by (simp add: ps_open_def)
  then have "ps_wf (t\<lparr>ps_proxy := Some (pr_proxy res)\<rparr>)" by (simp add: ps_wf_def)
  then show ?thesis using x res by (simp add: ps_query_result_def)
qed

lemma sq_fetch_answers:
  assumes "c_valid (sq_conn s)" "c_proxy (sq_conn s) = Some n" "c_ps_type (sq_conn s) = TYPE_SCROLL_INSENSITIVE"
    and "length args = placeholders False query" "list_all short_arg args"
    and "cs = [Bind (map arg_bind args), Run]"
  shows "\<exists>res s'. sq_fetch fuel link nr (map letter args) query args s = (Inr res, s') \<and> pr_position res = 0
    \<and> pr_agrees rows_of cur (answer cs) (flds cs) (buffers (flds cs)) res"
proof -
  let ?c = "sq_conn s" and ?st = "\<lambda>_. \<lparr>is_left = [], is_eof = False, is_fail = False, is_bad = False\<rparr>"
  from prepared [OF assms(1,2), of ?st] obtain p n1 where
    p: "con_prepareStatement link ?st query ?c =
        (Inr (new_PreparedStatement (nl_stmt link) p (c_ps_type ?c) ?st), ?c\<lparr>c_proxy := Some n1\<rparr>)"
    "calls p = []" "ns_param_count (nl_stmt link) p = length args" using assms(4) by auto
  let ?s = "new_PreparedStatement (nl_stmt link) p (c_ps_type ?c) ?st"
  from bind_args_all [OF new_bound [OF p(3)] assms(5), of "c_ps_type ?c" ?st] obtain u where
    u: "bind_args (map letter args) 1 args ?s = (Inr (), u)" "bound_upto args 0 u" "ps_proxy u = Some p" "ps_resultset_type u = c_ps_type ?c"
    by (auto simp: new_PreparedStatement_def)
  from query_result [OF u(2,3), of fuel] u(4) assms(3,6) p(2) obtain res t where
    res: "ps_query_result fuel (nl_stmt link) nr u = (Inr res, t)" "ps_wf t" "pr_position res = 0"
      "pr_agrees rows_of cur (answer cs) (flds cs) (buffers (flds cs)) res" by auto
  from delete_statement [OF res(2)] obtain v where v: "delete_PreparedStatement t = (Inr (), v)" by blast
  have "sq_fetch fuel link nr (map letter args) query args s = (Inr (res\<lparr>pr_uses := 1\<rparr>), s\<lparr>sq_conn := ?c\<lparr>c_proxy := Some n1\<rparr>\<rparr>)"
    using p(1) u(1) res(1) v by (simp add: sq_fetch_def on_conn_def)
  moreover have "pr_agrees rows_of cur (answer cs) (flds cs) (buffers (flds cs)) (res\<lparr>pr_uses := 1\<rparr>)"
    using res(4) by (simp add: pr_agrees_def)
  ultimately show ?thesis using res(3) by simp
qed

end

section \<open>Text columns\<close>

text \<open>What a cell of a text column holds; its length is within the bytes the library wrote.\<close>

definition cell_text :: "rcell \<Rightarrow> string" where
  "cell_text c = (if rc_null c then [] else case rc_buffer c of Buf_bytes xs \<Rightarrow> take (rc_length c) xs | Buf_time t \<Rightarrow> [])"

definition text_cell :: "rcell \<Rightarrow> bool" where
  "text_cell c \<longleftrightarrow> rc_null c \<or> (case rc_buffer c of Buf_bytes xs \<Rightarrow> rc_length c \<le> length xs | Buf_time t \<Rightarrow> False)"

lemma read_text:
  assumes "mysql_type_to_datatype (fs ! (col - 1)) = Inr t" "is_text_type t" "text_cell (row ! (col - 1))"
    and "1 \<le> col" "col \<le> length bs" "length row = length bs"
  shows "read_cell [] (bind_string pd) fs bs col row = Inr (cell_text (row ! (col - 1)))"
proof -
  let ?b = "fill bs row ! (col - 1)"
  have c: "rb_cell ?b = row ! (col - 1)" using assms(4-6) by (simp add: fill_def)
  show ?thesis
  proof (cases "rc_null (row ! (col - 1))")
    case True
    then show ?thesis using c by (simp add: read_cell_def cell_text_def Let_def)
  next
    case False
    with assms(3) c obtain xs where "rc_buffer (rb_cell ?b) = Buf_bytes xs" "rc_length (rb_cell ?b) \<le> length xs"
      by (auto simp: text_cell_def split: rbuffer.splits)
    then show ?thesis using False bind_string_text [OF assms(2), of ?b xs pd] assms(1) c
      by (simp add: read_cell_def cell_text_def Let_def)
  qed
qed

context answering
begin

lemma fetched_texts:
  assumes "c_valid (sq_conn s)" "c_proxy (sq_conn s) = Some n" "c_ps_type (sq_conn s) = TYPE_SCROLL_INSENSITIVE"
    and "length args = placeholders False query" "list_all short_arg args"
    and "cs = [Bind (map arg_bind args), Run]" "int (length (answer cs)) \<le> INT_MAX" "length (answer cs) < fuel'"
    and "1 \<le> col" "col \<le> length (flds cs)" "mysql_type_to_datatype (flds cs ! (col - 1)) = Inr t" "is_text_type t"
    and "list_all (\<lambda>r. text_cell (r ! (col - 1))) (answer cs)"
  shows "\<exists>res s' res'. sq_fetch fuel link nr (map letter args) query args s = (Inr res, s')
    \<and> drain fuel' (pr_next nr) (pr_getString pd col) [] res = (Inr (map (\<lambda>r. cell_text (r ! (col - 1))) (answer cs)), res')"
proof -
  from sq_fetch_answers [OF assms(1-6), of fuel] obtain res s' where
    f: "sq_fetch fuel link nr (map letter args) query args s = (Inr res, s')" "pr_position res = 0"
      "pr_agrees rows_of cur (answer cs) (flds cs) (buffers (flds cs)) res" by blast
  have "read_cell [] (bind_string pd) (flds cs) (buffers (flds cs)) col r = Inr (cell_text (r ! (col - 1)))"
    if "r \<in> set (answer cs)" for r
    using that assms(9-13) widths [of cs] buffers_ok(2) [OF typed [of cs]] by (intro read_text) (auto simp: list_all_iff)
  from read_all [OF f(3,2) assms(9,10,7,8) this] f(1) show ?thesis unfolding pr_getString_def by blast
qed

end

section \<open>A server that returns its arguments\<close>

text \<open>One row for every bound argument, with the argument as its only column; only texts are returned.\<close>

record 'd estmt =
  es_calls :: "'d call list"
  es_params :: nat
  es_mem :: mem_stmt

fun bound_text :: "'d bind \<Rightarrow> rcell" where
  "bound_text b = (case b_buffer b of
      Some (Buf_string v) \<Rightarrow> \<lparr>rc_null = False, rc_length = length v, rc_buffer = Buf_bytes v\<rparr>
    | _ \<Rightarrow> \<lparr>rc_null = True, rc_length = 0, rc_buffer = Buf_bytes []\<rparr>)"

fun echo_rows :: "'d call list \<Rightarrow> rcell list list" where
  "echo_rows (Bind bs # cs) = map (\<lambda>b. [bound_text b]) bs"
| "echo_rows (c # cs) = echo_rows cs"
| "echo_rows [] = []"

definition echo_field :: mysql_field where
  "echo_field = \<lparr>fld_name = ''v'', fld_org_name = ''v'', fld_org_table = [], fld_db = None, fld_catalog = [],
     fld_type = MYSQL_TYPE_VAR_STRING, fld_flags = 0, fld_length = 255, fld_max_length = 255, fld_charsetnr = 33, fld_decimals = 0\<rparr>"

definition on_mem :: "(mem_stmt \<Rightarrow> mem_stmt) \<Rightarrow> 'd estmt \<Rightarrow> 'd estmt" where
  "on_mem f p = p\<lparr>es_mem := f (es_mem p)\<rparr>"

definition echo_call :: "'d call \<Rightarrow> 'd estmt \<Rightarrow> bool \<times> 'd estmt" where
  "echo_call c p = (False, p\<lparr>es_calls := es_calls p @ [c]\<rparr>)"

definition echo_stmt :: "('d estmt, 'd) nstmt" where
  "echo_stmt =
     \<lparr>ns_param_count = es_params, ns_bind_param = (\<lambda>bs. echo_call (Bind bs)), ns_send_long_data = (\<lambda>i c. echo_call (Long i c)),
      ns_execute = echo_call Run, ns_errNo = (\<lambda>p. 0), ns_warning_count = (\<lambda>p. 0), ns_field_count = (\<lambda>p. 1),
      ns_affected_rows = (\<lambda>p. 0), ns_attr_set = id,
      ns_store_result = (\<lambda>p. (False, on_mem (\<lambda>m. \<lparr>ms_rows = echo_rows (es_calls p), ms_cur = 0, ms_fields = [echo_field]\<rparr>) p)),
      ns_more_results = (\<lambda>p. False), ns_next_result = (\<lambda>p. (- 1, p))\<rparr>"

definition echo_nres :: "'d estmt nres" where
  "echo_nres =
     \<lparr>nr_field_count = (\<lambda>p. nr_field_count mem_api (es_mem p)), nr_fields = (\<lambda>p. nr_fields mem_api (es_mem p)),
      nr_num_rows = (\<lambda>p. nr_num_rows mem_api (es_mem p)), nr_bind_result = (\<lambda>p. (False, p)),
      nr_fetch = (\<lambda>p. case nr_fetch mem_api (es_mem p) of (code, cells, m) \<Rightarrow> (code, cells, p\<lparr>es_mem := m\<rparr>)),
      nr_data_seek = (\<lambda>k. on_mem (nr_data_seek mem_api k)), nr_free_result = on_mem (nr_free_result mem_api), nr_errNo = (\<lambda>p. 0)\<rparr>"

definition echo_link :: "('d db, client, 'd estmt, 'd) nlink" where
  "echo_link =
     \<lparr>nl_conn = db_api, nl_result = client_api, nl_stmt = echo_stmt,
      nl_autocommit = (\<lambda>b d. (False, d)), nl_commit = (\<lambda>d. (True, d)), nl_rollback = (\<lambda>d. (False, d)),
      nl_server_version = (\<lambda>d. 80000), nl_info = (\<lambda>d. []), nl_escapeString = (\<lambda>s d. s),
      nl_ping = (\<lambda>d. (False, d)), nl_set_reconnect = (\<lambda>b d. d),
      nl_stmt_init = (\<lambda>d. (Some \<lparr>es_calls = [], es_params = 0, es_mem = \<lparr>ms_rows = [], ms_cur = 0, ms_fields = []\<rparr>\<rparr>, d)),
      nl_prepare = (\<lambda>sql p. (False, p\<lparr>es_params := placeholders False sql\<rparr>)),
      nl_stmt_close = (\<lambda>p d. d\<lparr>db_log := db_log d @ [es_calls p]\<rparr>)\<rparr>"

lemma echo_widths: "list_all (\<lambda>r. length r = 1) (echo_rows cs)"
  by (induction cs rule: echo_rows.induct) (auto simp: list_all_iff)

interpretation echo: answering echo_link es_calls db_log query echo_nres "\<lambda>p. ms_rows (es_mem p)" "\<lambda>p. ms_cur (es_mem p)"
    echo_rows "\<lambda>_. [echo_field]"
  using echo_widths
  by unfold_locales
    (auto simp: echo_link_def echo_stmt_def echo_call_def echo_nres_def mem_api_def on_mem_def fetched_def echo_field_def
      allocate_buffer_for_field_def)

end
