(* ===== verification/Art_Result_Set.thy ===== *)
theory Art_Result_Set
  imports Cursor_Moves Str "HOL-Library.Word"
begin

text \<open>
  \<^verbatim>\<open>mysqlconnector/jdbc/driver/mysql_art_resultset.cpp\<close> and \<^verbatim>\<open>mysql_art_rset_metadata.cpp\<close>: result sets the
  driver builds itself, as answers to questions about the database. The rows are a list, the iterator
  \<^verbatim>\<open>current_record\<close> is an index into it, the end iterator is its length; moving it over either end is
  undefined. Values are those of the tagged union \<^verbatim>\<open>MyVal\<close>, with both integer members as the 64 bits they
  share. Long doubles are a parameter.
\<close>

section \<open>Values\<close>

datatype 'd myval = typeString string | typeDouble 'd | typeInt "64 word" | typeUInt "64 word"
  | typeBool bool | typePtr "64 word"

record 'd long_double =
  ld_zero :: 'd
  ld_one :: 'd
  ld_of_int :: "int \<Rightarrow> 'd"
  ld_strtold :: "string \<Rightarrow> 'd"
  ld_print :: "'d \<Rightarrow> string"  \<comment> \<open>the format \<^verbatim>\<open>%14.14Lf\<close>\<close>
  ld_to_int64 :: "'d \<Rightarrow> 64 word option"  \<comment> \<open>\<open>None\<close>: out of range\<close>
  ld_to_uint64 :: "'d \<Rightarrow> 64 word option"
  ld_tiny :: "'d \<Rightarrow> bool"  \<comment> \<open>within 0.000001 of zero\<close>

text \<open>
  \<^verbatim>\<open>snprintf(buf, sizeof(buf) - 1, ...)\<close> into a buffer of \<open>cap\<close> bytes, and the string of as many bytes
  as the whole text has: the last byte that is written is a null character, and a text of \<open>cap\<close> or more
  characters reads bytes that were never written.
\<close>

definition buf_string :: "nat \<Rightarrow> string \<Rightarrow> string res" where
  "buf_string cap text =
     (if length text < cap - 1 then Inr text
      else if length text = cap - 1 then Inr (take (cap - 2) text @ [CHR 0x00])
      else Inl Undefined_behaviour)"

definition chars :: "string \<Rightarrow> string" where
  "chars s = takeWhile (\<lambda>c. c \<noteq> CHR 0x00) s"

definition MyVal_chars :: "string \<Rightarrow> 'd myval" where
  "MyVal_chars s = typeString (chars s)"

definition MyVal_getString :: "'d long_double \<Rightarrow> 'd myval \<Rightarrow> string res" where
  "MyVal_getString ld v =
     (case v of
        typeString s \<Rightarrow> Inr s
      | typeDouble d \<Rightarrow> buf_string 31 (ld_print ld d)
      | typeInt w \<Rightarrow> buf_string 20 (idec (sint w))
      | typeUInt w \<Rightarrow> buf_string 20 (udec (unat w))
      | typeBool b \<Rightarrow> buf_string 3 (if b then ''1'' else ''0'')
      | typePtr p \<Rightarrow> Inr [])"

definition MyVal_getDouble :: "'d long_double \<Rightarrow> 'd myval \<Rightarrow> 'd" where
  "MyVal_getDouble ld v =
     (case v of
        typeString s \<Rightarrow> ld_strtold ld (chars s)
      | typePtr p \<Rightarrow> ld_zero ld
      | typeDouble d \<Rightarrow> d
      | typeInt w \<Rightarrow> ld_of_int ld (sint w)
      | typeUInt w \<Rightarrow> ld_of_int ld (uint w)
      | typeBool b \<Rightarrow> if b then ld_one ld else ld_zero ld)"

definition of_option :: "'a option \<Rightarrow> 'a res" where
  "of_option x = (case x of None \<Rightarrow> Inl Undefined_behaviour | Some y \<Rightarrow> Inr y)"

definition MyVal_getInt64 :: "'d long_double \<Rightarrow> 'd myval \<Rightarrow> 64 word res" where
  "MyVal_getInt64 ld v =
     (case v of
        typeString s \<Rightarrow> Inr (word_of_int (strtoll (chars s)))
      | typePtr p \<Rightarrow> Inr 0
      | typeDouble d \<Rightarrow> of_option (ld_to_int64 ld d)
      | typeBool b \<Rightarrow> Inr (if b then 1 else 0)
      | typeInt w \<Rightarrow> Inr w
      | typeUInt w \<Rightarrow> Inr w)"

definition MyVal_getUInt64 :: "'d long_double \<Rightarrow> 'd myval \<Rightarrow> 64 word res" where
  "MyVal_getUInt64 ld v =
     (case v of
        typeString s \<Rightarrow> Inr (word_of_int (strtoull (chars s)))
      | typePtr p \<Rightarrow> Inr 0
      | typeDouble d \<Rightarrow> of_option (ld_to_uint64 ld d)
      | typeBool b \<Rightarrow> Inr (if b then 1 else 0)
      | typeInt w \<Rightarrow> Inr w
      | typeUInt w \<Rightarrow> Inr w)"

definition MyVal_getBool :: "'d long_double \<Rightarrow> 'd myval \<Rightarrow> bool res" where
  "MyVal_getBool ld v =
     (case v of
        typeString s \<Rightarrow> rbind (MyVal_getInt64 ld v) (\<lambda>w. Inr (w \<noteq> 0))
      | typeDouble d \<Rightarrow> Inr (\<not> ld_tiny ld d)
      | typeInt w \<Rightarrow> Inr (w \<noteq> 0)
      | typeUInt w \<Rightarrow> Inr (w \<noteq> 0)
      | typeBool b \<Rightarrow> Inr b
      | typePtr p \<Rightarrow> Inr (p \<noteq> 0))"

section \<open>The state\<close>

record 'd art_set =
  ar_num_fields :: nat
  ar_rset :: "'d myval list list"
  ar_current :: nat
  ar_names :: "string \<rightharpoonup> nat"
  ar_labels :: "string list"
  ar_num_rows :: nat
  ar_position :: nat
  ar_closed :: bool

text \<open>A later label with the same upper-cased text replaces the index of an earlier one.\<close>

fun label_index :: "string list \<Rightarrow> nat \<Rightarrow> (string \<rightharpoonup> nat) \<Rightarrow> (string \<rightharpoonup> nat)" where
  "label_index [] i m = m"
| "label_index (l # ls) i m = label_index ls (i + 1) (m(utf8_strup l \<mapsto> i))"

definition new_ArtResultSet :: "string list \<Rightarrow> 'd myval list list \<Rightarrow> 'd art_set" where
  "new_ArtResultSet fn rs =
     \<lparr>ar_num_fields = length fn, ar_rset = rs, ar_current = 0, ar_names = label_index fn 0 Map.empty,
      ar_labels = map utf8_strup fn, ar_num_rows = length rs, ar_position = 0, ar_closed = False\<rparr>"

definition ar_isClosed :: "'d art_set \<Rightarrow> bool" where
  "ar_isClosed s \<longleftrightarrow> ar_closed s"

definition ar_checkValid :: "('d art_set, unit) sop" where
  "ar_checkValid = scheck (\<lambda>s. \<not> ar_isClosed s) (Invalid_instance ''ResultSet has been closed'')"

definition ar_close :: "('d art_set, unit) sop" where
  "ar_close = sthen ar_checkValid (smod (\<lambda>s. s\<lparr>ar_closed := True\<rparr>))"

definition delete_ArtResultSet :: "('d art_set, unit) sop" where
  "delete_ArtResultSet = sif (\<lambda>s. \<not> ar_isClosed s) ar_close (sret ())"

section \<open>Moving the cursor\<close>

definition ar_inc :: "('d art_set, unit) sop" where
  "ar_inc = (\<lambda>s. if ar_current s < length (ar_rset s) then (Inr (), s\<lparr>ar_current := ar_current s + 1\<rparr>)
     else (Inl Undefined_behaviour, s))"

definition ar_dec :: "('d art_set, unit) sop" where
  "ar_dec = (\<lambda>s. if ar_current s > 0 then (Inr (), s\<lparr>ar_current := ar_current s - 1\<rparr>)
     else (Inl Undefined_behaviour, s))"

fun ar_inc_times :: "nat \<Rightarrow> ('d art_set, unit) sop" where
  "ar_inc_times 0 = sret ()"
| "ar_inc_times (Suc i) = sthen ar_inc (ar_inc_times i)"

text \<open>The loop counts down from \<^verbatim>\<open>row_position - 1\<close>, a signed number, while it is positive.\<close>

definition ar_seek :: "('d art_set, unit) sop" where
  "ar_seek = sthen (smod (\<lambda>s. s\<lparr>ar_current := 0\<rparr>)) (\<lambda>s. ar_inc_times (ar_position s - 1) s)"

definition ar_set_position :: "('d art_set \<Rightarrow> nat) \<Rightarrow> ('d art_set, unit) sop" where
  "ar_set_position f = smod (\<lambda>s. s\<lparr>ar_position := f s\<rparr>)"

text \<open>The assignment of a position and \<^verbatim>\<open>seek()\<close>, which always follow each other but in \<^verbatim>\<open>next\<close> and \<^verbatim>\<open>previous\<close>.\<close>

definition ar_goto :: "('d art_set \<Rightarrow> nat) \<Rightarrow> ('d art_set, unit) sop" where
  "ar_goto f = sthen (ar_set_position f) ar_seek"

definition ar_afterLast :: "('d art_set, unit) sop" where
  "ar_afterLast = sthen ar_checkValid (ar_goto (\<lambda>s. ar_num_rows s + 1))"

definition ar_beforeFirst :: "('d art_set, unit) sop" where
  "ar_beforeFirst = sthen ar_checkValid (ar_goto (\<lambda>_. 0))"

definition ar_absolute :: "int \<Rightarrow> ('d art_set, bool) sop" where
  "ar_absolute row =
     sthen ar_checkValid (\<lambda>s.
       if row > 0 then
         (if row > cast_int (ar_num_rows s) then
            sthen ar_afterLast (sget (\<lambda>s. ar_position s > 0 \<and> ar_position s < ar_num_rows s + 1)) s
          else sthen (ar_goto (\<lambda>_. nat row)) (sret True) s)
       else if row < 0 then
         (if row = INT_MIN then (Inl Undefined_behaviour, s)
          else if - row > cast_int (ar_num_rows s) then
            sthen ar_beforeFirst (sget (\<lambda>s. ar_position s > 0 \<and> ar_position s < ar_num_rows s + 1)) s
          else sthen (ar_goto (\<lambda>s. ar_num_rows s - nat (- row) + 1)) (sret True) s)
       else sthen ar_beforeFirst (sget (\<lambda>s. ar_position s > 0 \<and> ar_position s < ar_num_rows s + 1)) s)"

definition ar_first :: "('d art_set, bool) sop" where
  "ar_first =
     sthen ar_checkValid
       (sthen (sif (\<lambda>s. ar_num_rows s \<noteq> 0) (ar_goto (\<lambda>_. 1)) (sret ()))
          (sget (\<lambda>s. ar_num_rows s \<noteq> 0)))"

definition ar_last :: "('d art_set, bool) sop" where
  "ar_last =
     sthen ar_checkValid
       (sthen (sif (\<lambda>s. ar_num_rows s \<noteq> 0) (ar_goto ar_num_rows) (sret ()))
          (sget (\<lambda>s. ar_num_rows s \<noteq> 0)))"

definition ar_isBeforeFirst :: "('d art_set, bool) sop" where
  "ar_isBeforeFirst = sthen ar_checkValid (sget (\<lambda>s. ar_position s = 0))"

definition ar_isAfterLast :: "('d art_set, bool) sop" where
  "ar_isAfterLast = sthen ar_checkValid (sget (\<lambda>s. ar_position s = ar_num_rows s + 1))"

definition ar_isFirst :: "('d art_set, bool) sop" where
  "ar_isFirst = sthen ar_checkValid (sget (\<lambda>s. ar_position s = 1))"

definition ar_isLast :: "('d art_set, bool) sop" where
  "ar_isLast = sthen ar_checkValid (sget (\<lambda>s. ar_position s = ar_num_rows s))"

definition ar_isBeforeFirstOrAfterLast :: "('d art_set, bool) sop" where
  "ar_isBeforeFirstOrAfterLast =
     sthen ar_checkValid (sget (\<lambda>s. ar_position s = 0 \<or> ar_position s = ar_num_rows s + 1))"

definition ar_next :: "('d art_set, bool) sop" where
  "ar_next =
     sthen ar_checkValid (sbind ar_isLast (\<lambda>is_last.
       if is_last then sthen ar_afterLast (sret False)
       else sif (\<lambda>s. ar_position s = 0) (sthen ar_first (sret True))
              (sif (\<lambda>s. ar_position s > 0 \<and> ar_position s < ar_num_rows s)
                 (sthen ar_inc (sthen (ar_set_position (\<lambda>s. ar_position s + 1)) (sret True)))
                 (sret False))))"

definition ar_previous :: "('d art_set, bool) sop" where
  "ar_previous =
     sbind ar_isBeforeFirst (\<lambda>before. if before then sret False
     else sbind ar_isFirst (\<lambda>first. if first then sthen ar_beforeFirst (sret False)
     else sif (\<lambda>s. ar_position s > 1)
            (sthen (ar_set_position (\<lambda>s. ar_position s - 1)) (sthen ar_dec (sret True)))
            (sthrow (Sql_exception ''Impossible''))))"

text \<open>\<^verbatim>\<open>row_position + rows\<close> is computed in unsigned 64-bit arithmetic.\<close>

definition ar_moved :: "int \<Rightarrow> 'd art_set \<Rightarrow> nat" where
  "ar_moved rows s = nat ((int (ar_position s) + rows) mod 2 ^ 64)"

definition ar_relative :: "int \<Rightarrow> ('d art_set, bool) sop" where
  "ar_relative rows =
     sthen ar_checkValid
       (sthen (if rows \<noteq> 0 then
                 sif (\<lambda>s. ar_moved rows s > ar_num_rows s \<or> ar_moved rows s < 1)
                   (if rows > 0 then ar_afterLast else ar_beforeFirst)
                   (ar_goto (ar_moved rows))
               else sret ())
          (sget (\<lambda>s. ar_position s > 0 \<and> ar_position s \<le> ar_num_rows s)))"

section \<open>Asking and reading\<close>

definition ar_getRow :: "('d art_set, nat) sop" where
  "ar_getRow = sthen ar_checkValid (sget ar_position)"

definition ar_getType :: "('d art_set, rs_kind) sop" where
  "ar_getType = sthen ar_checkValid (sret TYPE_SCROLL_INSENSITIVE)"

definition ar_rowsCount :: "('d art_set, nat) sop" where
  "ar_rowsCount = sthen ar_checkValid (sget ar_num_rows)"

definition ar_findColumn :: "string \<Rightarrow> ('d art_set, nat) sop" where
  "ar_findColumn label =
     sthen ar_checkValid (sget (\<lambda>s. case ar_names s (utf8_strup label) of None \<Rightarrow> 0 | Some i \<Rightarrow> i + 1))"

definition ar_off :: "string \<Rightarrow> cpp_error" where
  "ar_off name = Sql_invalid_argument (''MySQL_ArtResultSet::'' @ name @ '': can't fetch because not on result set'')"

definition ar_bad_column :: "string \<Rightarrow> cpp_error" where
  "ar_bad_column name = Sql_invalid_argument
     (''MySQL_ArtResultSet::'' @ name @ '': invalid value of '' @ [squote] @ ''columnIndex'' @ [squote])"

definition ar_on_row :: "string \<Rightarrow> ('d art_set, unit) sop" where
  "ar_on_row name = sbind ar_isBeforeFirstOrAfterLast (\<lambda>off. if off then sthrow (ar_off name) else sret ())"

text \<open>
  \<^verbatim>\<open>(*current_record)[columnIndex - 1]\<close> with the guards before it and a conversion after it: the end
  iterator has no row, and a row with fewer values than there are labels is read outside of it.
\<close>

definition ar_value :: "string \<Rightarrow> ('d myval \<Rightarrow> 'a res) \<Rightarrow> nat \<Rightarrow> ('d art_set, 'a) sop" where
  "ar_value name conv col =
     sthen (ar_on_row name) (sthen (scheck (\<lambda>s. \<not> (col > ar_num_fields s \<or> col = 0)) (ar_bad_column name)) (\<lambda>s.
       (if ar_current s < length (ar_rset s) \<and> col - 1 < length (ar_rset s ! ar_current s)
        then conv (ar_rset s ! ar_current s ! (col - 1)) else Inl Undefined_behaviour, s)))"

definition ar_getString :: "'d long_double \<Rightarrow> nat \<Rightarrow> ('d art_set, string) sop" where
  "ar_getString ld = ar_value ''getString'' (MyVal_getString ld)"

definition ar_getDouble :: "'d long_double \<Rightarrow> nat \<Rightarrow> ('d art_set, 'd) sop" where
  "ar_getDouble ld = ar_value ''getDouble'' (\<lambda>v. Inr (MyVal_getDouble ld v))"

definition ar_getInt64 :: "'d long_double \<Rightarrow> nat \<Rightarrow> ('d art_set, 64 word) sop" where
  "ar_getInt64 ld = ar_value ''getInt64'' (MyVal_getInt64 ld)"

definition ar_getUInt64 :: "'d long_double \<Rightarrow> nat \<Rightarrow> ('d art_set, 64 word) sop" where
  "ar_getUInt64 ld = ar_value ''getUInt64'' (MyVal_getUInt64 ld)"

definition ar_getInt :: "'d long_double \<Rightarrow> nat \<Rightarrow> ('d art_set, 32 word) sop" where
  "ar_getInt ld col = sbind (ar_getInt64 ld col) (\<lambda>w. sret (ucast w))"

definition ar_getUInt :: "'d long_double \<Rightarrow> nat \<Rightarrow> ('d art_set, 32 word) sop" where
  "ar_getUInt ld col = sbind (ar_getUInt64 ld col) (\<lambda>w. sret (ucast w))"

text \<open>\<^verbatim>\<open>getBlob\<close>, \<^verbatim>\<open>getBoolean\<close> and \<^verbatim>\<open>isNull\<close> report under the name of \<^verbatim>\<open>getString\<close>.\<close>

definition ar_getBlob :: "'d long_double \<Rightarrow> nat \<Rightarrow> ('d art_set, string) sop" where
  "ar_getBlob ld col = sthen (ar_on_row ''getString'') (ar_getString ld col)"

definition ar_getBoolean :: "'d long_double \<Rightarrow> nat \<Rightarrow> ('d art_set, bool) sop" where
  "ar_getBoolean ld col = sthen (ar_on_row ''getString'') (sbind (ar_getInt ld col) (\<lambda>w. sret (w \<noteq> 0)))"

definition ar_isNull :: "nat \<Rightarrow> ('d art_set, bool) sop" where
  "ar_isNull col =
     sthen ar_checkValid (sthen (scheck (\<lambda>s. \<not> (col > ar_num_fields s \<or> col = 0)) (ar_bad_column ''isNull''))
       (sthen (ar_on_row ''getString'') (sret False)))"

definition ar_wasNull :: "('d art_set, bool) sop" where
  "ar_wasNull =
     sthen ar_checkValid (sbind ar_isBeforeFirstOrAfterLast (\<lambda>off.
       if off then sthrow (msg_off ''wasNull'') else sret False))"

definition ar_getString_label :: "'d long_double \<Rightarrow> string \<Rightarrow> ('d art_set, string) sop" where
  "ar_getString_label ld label = sbind (ar_findColumn label) (ar_getString ld)"

definition ar_getDouble_label :: "'d long_double \<Rightarrow> string \<Rightarrow> ('d art_set, 'd) sop" where
  "ar_getDouble_label ld label = sbind (ar_findColumn label) (ar_getDouble ld)"

definition ar_getInt64_label :: "'d long_double \<Rightarrow> string \<Rightarrow> ('d art_set, 64 word) sop" where
  "ar_getInt64_label ld label = sbind (ar_findColumn label) (ar_getInt64 ld)"

definition ar_getUInt64_label :: "'d long_double \<Rightarrow> string \<Rightarrow> ('d art_set, 64 word) sop" where
  "ar_getUInt64_label ld label = sbind (ar_findColumn label) (ar_getUInt64 ld)"

definition ar_getInt_label :: "'d long_double \<Rightarrow> string \<Rightarrow> ('d art_set, 32 word) sop" where
  "ar_getInt_label ld label = sbind (ar_findColumn label) (ar_getInt ld)"

definition ar_getUInt_label :: "'d long_double \<Rightarrow> string \<Rightarrow> ('d art_set, 32 word) sop" where
  "ar_getUInt_label ld label = sbind (ar_findColumn label) (ar_getUInt ld)"

definition ar_getBlob_label :: "'d long_double \<Rightarrow> string \<Rightarrow> ('d art_set, string) sop" where
  "ar_getBlob_label ld label = ar_getString_label ld label"

definition ar_getBoolean_label :: "'d long_double \<Rightarrow> string \<Rightarrow> ('d art_set, bool) sop" where
  "ar_getBoolean_label ld label = sbind (ar_getInt_label ld label) (\<lambda>w. sret (w \<noteq> 0))"

definition ar_isNull_label :: "string \<Rightarrow> ('d art_set, bool) sop" where
  "ar_isNull_label label = sbind (ar_findColumn label) ar_isNull"

section \<open>Methods that are not implemented\<close>

text \<open>The names in the messages, two of which belong to other methods.\<close>

datatype ar_missing = Ar_cancelRowUpdates | Ar_clearWarnings | Ar_getConcurrency | Ar_getCursorName
  | Ar_getFetchDirection | Ar_getFetchSize | Ar_getHoldability | Ar_getRowId | Ar_getWarnings | Ar_insertRow
  | Ar_moveToCurrentRow | Ar_moveToInsertRow | Ar_refreshRow | Ar_rowDeleted | Ar_rowInserted | Ar_rowUpdated
  | Ar_setFetchSize

fun ar_message :: "ar_missing \<Rightarrow> string" where
  "ar_message Ar_cancelRowUpdates = ''MySQL_ArtResultSet::cancelRowUpdates()''"
| "ar_message Ar_clearWarnings = ''MySQL_ArtResultSet::clearWarnings()''"
| "ar_message Ar_getConcurrency = ''MySQL_ArtResultSet::getConcurrency()''"
| "ar_message Ar_getCursorName = ''MySQL_ArtResultSet::getCursorName()''"
| "ar_message Ar_getFetchDirection = ''MySQL_ArtResultSet::getFetchDirection()''"
| "ar_message Ar_getFetchSize = ''MySQL_ArtResultSet::getFetchSize()''"
| "ar_message Ar_getHoldability = ''MySQL_ArtResultSet::getHoldability()''"
| "ar_message Ar_getRowId = ''MySQL_ArtResultSet::getRowId()''"
| "ar_message Ar_getWarnings = ''MySQL_ArtResultSet::getWarnings()''"
| "ar_message Ar_insertRow = ''MySQL_ArtResultSet::insertRow()''"
| "ar_message Ar_moveToCurrentRow = ''MySQL_ArtResultSet::moveToCurrentRow()''"
| "ar_message Ar_moveToInsertRow = ''MySQL_ArtResultSet::moveToInsertRow()''"
| "ar_message Ar_refreshRow = ''MySQL_ResultSet::refreshRow()''"
| "ar_message Ar_rowDeleted = ''MySQL_ArtResultSet::rowDeleted()''"
| "ar_message Ar_rowInserted = ''MySQL_ArtResultSet::rowInserted()''"
| "ar_message Ar_rowUpdated = ''MySQL_ArtResultSet::rowUpdated()''"
| "ar_message Ar_setFetchSize = ''MySQL_ResultSet::rowDeleted()''"

definition ar_missing_method :: "ar_missing \<Rightarrow> ('d art_set, unit) sop" where
  "ar_missing_method m = sthen ar_checkValid (sthrow (Not_implemented (ar_message m)))"

section \<open>Metadata\<close>

definition am_checkColumnIndex :: "nat \<Rightarrow> ('d art_set, unit) sop" where
  "am_checkColumnIndex col =
     scheck (\<lambda>s. \<not> (col = 0 \<or> col > ar_num_fields s)) (Sql_invalid_argument ''Invalid value for columnIndex'')"

definition am_constant :: "'a \<Rightarrow> nat \<Rightarrow> ('d art_set, 'a) sop" where
  "am_constant x col = sthen (am_checkColumnIndex col) (sret x)"

definition am_missing :: "string \<Rightarrow> nat \<Rightarrow> ('d art_set, nat) sop" where
  "am_missing name col = sthen (am_checkColumnIndex col) (sthrow (Not_implemented name))"

text \<open>\<^verbatim>\<open>field_index_to_name_map[columnIndex - 1]\<close>\<close>

definition am_getColumnLabel :: "nat \<Rightarrow> ('d art_set, string) sop" where
  "am_getColumnLabel col = sthen (am_checkColumnIndex col)
     (\<lambda>s. (if col - 1 < length (ar_labels s) then Inr (ar_labels s ! (col - 1)) else Inl Undefined_behaviour, s))"

definition am_getColumnName :: "nat \<Rightarrow> ('d art_set, string) sop" where
  "am_getColumnName = am_getColumnLabel"

definition am_getColumnCount :: "('d art_set, nat) sop" where
  "am_getColumnCount = sget ar_num_fields"

definition am_getCatalogName :: "nat \<Rightarrow> ('d art_set, string) sop" where "am_getCatalogName = am_constant []"
definition am_getSchemaName :: "nat \<Rightarrow> ('d art_set, string) sop" where "am_getSchemaName = am_constant []"
definition am_getTableName :: "nat \<Rightarrow> ('d art_set, string) sop" where "am_getTableName = am_constant []"
definition am_getColumnCharset :: "nat \<Rightarrow> ('d art_set, string) sop" where "am_getColumnCharset = am_constant []"
definition am_getColumnCollation :: "nat \<Rightarrow> ('d art_set, string) sop" where "am_getColumnCollation = am_constant []"
definition am_getColumnTypeName :: "nat \<Rightarrow> ('d art_set, string) sop" where "am_getColumnTypeName = am_constant ''VARCHAR''"
definition am_isAutoIncrement :: "nat \<Rightarrow> ('d art_set, bool) sop" where "am_isAutoIncrement = am_constant False"

text \<open>\<^verbatim>\<open>isCaseSensitive\<close> returns the address of the string \<^verbatim>\<open>"true"\<close>, which is not null.\<close>

definition am_isCaseSensitive :: "nat \<Rightarrow> ('d art_set, bool) sop" where "am_isCaseSensitive = am_constant True"
definition am_isCurrency :: "nat \<Rightarrow> ('d art_set, bool) sop" where "am_isCurrency = am_constant False"
definition am_isNullable :: "nat \<Rightarrow> ('d art_set, int) sop" where "am_isNullable = am_constant 0"
definition am_isNumeric :: "nat \<Rightarrow> ('d art_set, bool) sop" where "am_isNumeric = am_constant False"
definition am_isReadOnly :: "nat \<Rightarrow> ('d art_set, bool) sop" where "am_isReadOnly = am_constant True"
definition am_isSearchable :: "nat \<Rightarrow> ('d art_set, bool) sop" where "am_isSearchable = am_constant True"
definition am_isSigned :: "nat \<Rightarrow> ('d art_set, bool) sop" where "am_isSigned = am_constant False"
definition am_isZerofill :: "nat \<Rightarrow> ('d art_set, bool) sop" where "am_isZerofill = am_constant False"

definition am_isWritable :: "nat \<Rightarrow> ('d art_set, bool) sop" where
  "am_isWritable col = sthen (am_checkColumnIndex col) (sbind (am_isReadOnly col) (\<lambda>r. sret (\<not> r)))"

definition am_isDefinitelyWritable :: "nat \<Rightarrow> ('d art_set, bool) sop" where
  "am_isDefinitelyWritable col = sthen (am_checkColumnIndex col) (am_isWritable col)"

definition am_getColumnDisplaySize :: "nat \<Rightarrow> ('d art_set, nat) sop" where
  "am_getColumnDisplaySize = am_missing ''MySQL_ArtResultSetMetaData::getColumnDisplaySize()''"

definition am_getPrecision :: "nat \<Rightarrow> ('d art_set, nat) sop" where
  "am_getPrecision = am_missing ''MySQL_ArtResultSetMetaData::getPrecision()''"

definition am_getScale :: "nat \<Rightarrow> ('d art_set, nat) sop" where
  "am_getScale = am_missing ''MySQL_ArtResultSetMetaData::getScale()''"

end
