(* ===== verification/Art_Moves.thy ===== *)
theory Art_Moves
  imports Art_Result_Set Scrolling
begin

text \<open>
  The cursor of a constructed result set: every movement ends where the specification says, with the
  iterator on the row of the position; nothing is excepted but \<^verbatim>\<open>absolute\<close> of the least \<^verbatim>\<open>int\<close>.
\<close>

section \<open>The invariant\<close>

text \<open>The iterator is on the row of the position; before the first row it is at the beginning.\<close>

definition art_ok :: "'d myval list list \<Rightarrow> 'd art_set \<Rightarrow> bool" where
  "art_ok rows s \<longleftrightarrow> \<not> ar_closed s \<and> ar_rset s = rows \<and> ar_num_rows s = length rows \<and> ar_position s \<le> length rows + 1
     \<and> ar_current s = ar_position s - 1 \<and> list_all (\<lambda>r. length r = ar_num_fields s) rows"

definition art_at :: "'d art_set \<Rightarrow> nat \<Rightarrow> 'd art_set" where
  "art_at s p = s\<lparr>ar_position := p, ar_current := p - 1\<rparr>"

lemma new_art_ok:
  "list_all (\<lambda>r. length r = length fn) rows \<Longrightarrow> art_ok rows (new_ArtResultSet fn rows)"
  by (simp add: art_ok_def new_ArtResultSet_def)

lemma art_at_ok: "art_ok rows s \<Longrightarrow> p \<le> length rows + 1 \<Longrightarrow> art_ok rows (art_at s p)"
  by (simp add: art_ok_def art_at_def)

lemma art_at_position [simp]: "ar_position (art_at s p) = p"
  by (simp add: art_at_def)

lemma art_valid: "art_ok rows s \<Longrightarrow> ar_checkValid s = (Inr (), s)"
  by (simp add: art_ok_def ar_checkValid_def ar_isClosed_def)

section \<open>Movements\<close>

lemma inc_times:
  "ar_current s + k \<le> length (ar_rset s) \<Longrightarrow> ar_inc_times k s = (Inr (), s\<lparr>ar_current := ar_current s + k\<rparr>)"
  by (induction k arbitrary: s) (auto simp: ar_inc_def)

lemma goto_state:
  assumes "art_ok rows s" "f s \<le> length rows + 1"
  shows "ar_goto f s = (Inr (), art_at s (f s))"
  using assms inc_times [of "s\<lparr>ar_position := f s, ar_current := 0\<rparr>" "f s - 1"]
  by (simp add: art_ok_def ar_goto_def ar_set_position_def ar_seek_def art_at_def)

lemma art_ends:
  assumes "art_ok rows s"
  shows "ar_afterLast s = (Inr (), art_at s (length rows + 1))" "ar_beforeFirst s = (Inr (), art_at s 0)"
  using goto_state [OF assms, of "\<lambda>s. ar_num_rows s + 1"] goto_state [OF assms, of "\<lambda>_. 0"] art_valid [OF assms] assms
  by (simp_all add: ar_afterLast_def ar_beforeFirst_def art_ok_def del: One_nat_def)

lemma art_first_last:
  assumes "art_ok rows s"
  shows "ar_first s = (Inr (rows \<noteq> []), if rows = [] then s else art_at s 1)"
    "ar_last s = (Inr (rows \<noteq> []), if rows = [] then s else art_at s (length rows))"
  using goto_state [OF assms, of "\<lambda>_. 1"] goto_state [OF assms, of ar_num_rows] art_valid [OF assms] assms
  by (auto simp: ar_first_def ar_last_def art_ok_def art_at_def)

lemma art_at_self: "art_ok rows s \<Longrightarrow> art_at s (ar_position s) = s"
  by (cases s) (simp add: art_ok_def art_at_def)

lemma art_next:
  assumes "art_ok rows s"
  shows "ar_next s = (Inr (ar_position s < length rows), art_at s (min (ar_position s + 1) (length rows + 1)))"
proof -
  have v: "ar_checkValid s = (Inr (), s)" "ar_num_rows s = length rows" "ar_position s \<le> length rows + 1"
    using art_valid [OF assms] assms by (simp_all add: art_ok_def)
  consider (last) "ar_position s = length rows" | (after) "ar_position s = length rows + 1"
    | (zero) "ar_position s = 0" "0 < length rows" | (mid) "0 < ar_position s" "ar_position s < length rows"
    using v(3) by linarith
  then show ?thesis
  proof cases
    case last
    then show ?thesis using v art_ends [OF assms] by (simp add: ar_next_def ar_isLast_def)
  next
    case after
    then show ?thesis using v art_at_self [OF assms] by (simp add: ar_next_def ar_isLast_def)
  next
    case zero
    then show ?thesis using v art_first_last [OF assms] by (auto simp: ar_next_def ar_isLast_def)
  next
    case mid
    then show ?thesis using v assms
      by (simp add: ar_next_def ar_isLast_def ar_inc_def ar_set_position_def art_ok_def art_at_def)
  qed
qed

lemma art_previous:
  assumes "art_ok rows s"
  shows "ar_previous s = (Inr (1 < ar_position s), art_at s (ar_position s - 1))"
proof -
  note v = art_valid [OF assms]
  consider "ar_position s = 0" | "ar_position s = 1" | "1 < ar_position s" by linarith
  then show ?thesis
  proof cases
    case 1
    then show ?thesis using v art_at_self [OF assms] by (simp add: ar_previous_def ar_isBeforeFirst_def)
  next
    case 2
    then show ?thesis using v art_ends [OF assms] by (simp add: ar_previous_def ar_isBeforeFirst_def ar_isFirst_def)
  next
    case 3
    then show ?thesis using v assms
      by (simp add: ar_previous_def ar_isBeforeFirst_def ar_isFirst_def ar_set_position_def ar_dec_def art_ok_def art_at_def)
  qed
qed

lemma art_absolute:
  assumes "art_ok rows s" "int (length rows) \<le> INT_MAX" "k \<noteq> INT_MIN"
  shows "ar_absolute k s = (let p = move_pos (length rows) (ar_position s) (Absolute k) in (Inr (hit (length rows) p), art_at s p))"
proof -
  let ?n = "length rows"
  have v: "ar_checkValid s = (Inr (), s)" "ar_num_rows s = ?n" using art_valid [OF assms(1)] assms by (simp_all add: art_ok_def)
  note c = cast_int_small [OF assms(2)]
  consider (after) "k > int ?n" | (fwd) "0 < k" "k \<le> int ?n" | (zero) "k = 0 \<or> - k > int ?n" | (neg) "k < 0" "- k \<le> int ?n"
    by linarith
  then show ?thesis
  proof cases
    case after
    then show ?thesis using v c art_ends [OF assms(1)] assms(1)
      by (simp add: ar_absolute_def move_pos_def clamp_def hit_def art_at_def)
  next
    case fwd
    with goto_state [OF assms(1), of "\<lambda>_. nat k"] show ?thesis using v c
      by (auto simp: ar_absolute_def move_pos_def clamp_def hit_def Let_def nat_le_iff)
  next
    case zero
    then show ?thesis using v c art_ends [OF assms(1)] assms(3)
      by (auto simp: ar_absolute_def move_pos_def clamp_def hit_def art_at_def)
  next
    case neg
    have p: "nat (int ?n + k + 1) = ?n - nat (- k) + 1" "?n - nat (- k) + 1 \<le> ?n" using neg by auto
    with goto_state [OF assms(1), of "\<lambda>s. ar_num_rows s - nat (- k) + 1"] show ?thesis using v c neg assms(3)
      by (simp add: ar_absolute_def move_pos_def clamp_def hit_def Let_def)
  qed
qed

lemma art_relative:
  assumes "art_ok rows s" "int (length rows) \<le> INT_MAX" "in_int32 k"
  shows "ar_relative k s = (let p = move_pos (length rows) (ar_position s) (Relative k) in (Inr (hit (length rows) p), art_at s p))"
proof -
  let ?n = "length rows" and ?p = "ar_position s"
  have v: "ar_checkValid s = (Inr (), s)" "ar_num_rows s = ?n" "?p \<le> ?n + 1"
    using art_valid [OF assms(1)] assms(1) by (simp_all add: art_ok_def)
  have m: "moved_by k ?p = ar_moved k s" by (simp add: ar_moved_def moved_by_def)
  from v(3) assms(2,3) show ?thesis
  proof (cases rule: moved_by_cases)
    case zero
    then show ?thesis using v art_at_self [OF assms(1)] by (simp add: ar_relative_def move_pos_def hit_def Let_def)
  next
    case before
    then show ?thesis using v art_ends [OF assms(1)] m
      by (auto simp: ar_relative_def move_pos_def clamp_def hit_def art_at_def)
  next
    case after
    then show ?thesis using v art_ends [OF assms(1)] m
      by (auto simp: ar_relative_def move_pos_def clamp_def hit_def art_at_def)
  next
    case row
    with goto_state [OF assms(1), of "ar_moved k"] v m show ?thesis
      by (auto simp: ar_relative_def move_pos_def clamp_def hit_def art_at_def Let_def)
  qed
qed

section \<open>The contract of a scrollable result set\<close>

definition art_run_move :: "move \<Rightarrow> ('d art_set, bool) sop" where
  "art_run_move m =
     (case m of
        Next \<Rightarrow> ar_next | Previous \<Rightarrow> ar_previous | First \<Rightarrow> ar_first | Last \<Rightarrow> ar_last
      | Before_first \<Rightarrow> sthen ar_beforeFirst (sret False)
      | After_last \<Rightarrow> sthen ar_afterLast (sret False)
      | Absolute k \<Rightarrow> ar_absolute k | Relative k \<Rightarrow> ar_relative k)"

lemma art_move:
  assumes "art_ok rows s" "int (length rows) \<le> INT_MAX" "move_int m" "m \<noteq> Absolute INT_MIN"
  shows "art_run_move m s =
    (let p = move_pos (length rows) (ar_position s) m in (Inr (hit (length rows) p), art_at s p))"
proof -
  have p: "ar_position s \<le> length rows + 1" using assms(1) by (simp add: art_ok_def)
  show ?thesis
  proof (cases m)
    case Next
    have "clamp (length rows) (int (ar_position s) + 1) = min (ar_position s + 1) (length rows + 1)"
      by (auto simp: clamp_def)
    then show ?thesis using art_next [OF assms(1)] p Next by (auto simp: art_run_move_def move_pos_def hit_def Let_def)
  next
    case Previous
    then show ?thesis using art_previous [OF assms(1)] p by (auto simp: art_run_move_def move_pos_def hit_def Let_def)
  next
    case First
    then show ?thesis using art_first_last(1) [OF assms(1)] p art_at_self [OF assms(1)]
      by (cases rows) (auto simp: art_run_move_def move_pos_def hit_def Let_def)
  next
    case Last
    then show ?thesis using art_first_last(2) [OF assms(1)] p art_at_self [OF assms(1)]
      by (cases rows) (auto simp: art_run_move_def move_pos_def hit_def Let_def)
  next
    case Before_first
    then show ?thesis using art_ends [OF assms(1)] by (simp add: art_run_move_def move_pos_def hit_def)
  next
    case After_last
    then show ?thesis using art_ends [OF assms(1)] by (simp add: art_run_move_def move_pos_def hit_def)
  next
    case (Absolute k)
    then show ?thesis using art_absolute [OF assms(1,2), of k] assms(4) by (simp add: art_run_move_def)
  next
    case (Relative k)
    then show ?thesis using art_relative [OF assms(1,2), of k] assms(3) by (simp add: art_run_move_def move_int_def)
  qed
qed

interpretation art: scrolling art_run_move "\<lambda>s. art_ok rows s \<and> int (length rows) \<le> INT_MAX" ar_position "length rows"
    "\<lambda>p m. m \<noteq> Absolute INT_MIN"
  for rows :: "'d myval list list"
proof
  fix s :: "'d art_set" assume "art_ok rows s \<and> int (length rows) \<le> INT_MAX"
  then show "ar_position s \<le> length rows + 1" by (simp add: art_ok_def)
next
  fix s :: "'d art_set" and m
  assume a: "art_ok rows s \<and> int (length rows) \<le> INT_MAX" "move_int m" "m \<noteq> Absolute INT_MIN"
  then have "move_pos (length rows) (ar_position s) m \<le> length rows + 1" by (intro move_pos_le) (simp add: art_ok_def)
  with a art_move [of rows s m] art_at_ok [of rows s]
  show "\<exists>s'. art_run_move m s = (Inr (hit (length rows) (move_pos (length rows) (ar_position s) m)), s')
      \<and> (art_ok rows s' \<and> int (length rows) \<le> INT_MAX) \<and> ar_position s' = move_pos (length rows) (ar_position s) m"
    by (auto simp: Let_def)
qed simp

lemma art_moves_along:
  assumes "art_ok rows s" "int (length rows) \<le> INT_MAX"
    and "allowed_moves (\<lambda>p m. m \<noteq> Absolute INT_MIN) (length rows) (ar_position s) ms"
  shows "\<exists>s'. run_moves art_run_move ms s = (Inr (fst (spec_moves (length rows) (ar_position s) ms)), s')
    \<and> art_ok rows s' \<and> ar_position s' = snd (spec_moves (length rows) (ar_position s) ms)"
  using art.run_moves_spec [of rows s ms] assms by blast

section \<open>Reading\<close>

lemma value_on_row:
  assumes "art_ok rows s" "hit (length rows) (ar_position s)" "1 \<le> col" "col \<le> ar_num_fields s"
  shows "ar_value name conv col s = (conv (rows ! (ar_position s - 1) ! (col - 1)), s)"
proof -
  have "length (rows ! (ar_position s - 1)) = ar_num_fields s"
    using assms(1,2) by (auto simp: art_ok_def hit_def list_all_length)
  then show ?thesis using assms art_valid [OF assms(1)]
    by (auto simp: ar_value_def ar_on_row_def ar_isBeforeFirstOrAfterLast_def art_ok_def hit_def)
qed

lemma value_errors:
  assumes "art_ok rows s"
  shows "\<not> hit (length rows) (ar_position s) \<Longrightarrow> ar_value name conv col s = (Inl (ar_off name), s)"
    and "hit (length rows) (ar_position s) \<Longrightarrow> col = 0 \<or> ar_num_fields s < col \<Longrightarrow>
      ar_value name conv col s = (Inl (ar_bad_column name), s)"
  using assms art_valid [OF assms]
  by (auto simp: ar_value_def ar_on_row_def ar_isBeforeFirstOrAfterLast_def art_ok_def hit_def)

section \<open>Integers as strings\<close>

text \<open>Decimal numbers: their value and their length.\<close>

lemma udec_digits: "list_all is_digit (udec n) \<and> udec n \<noteq> [] \<and> digits_val 0 (udec n) = int n"
proof (induction n rule: udec.induct)
  case (1 n)
  have d: "list_all is_digit [char_of (48 + k)]" "digits_val a [char_of (48 + k)] = a * 10 + int k" if "k < 10" for k :: nat and a
    using dec_digit_is_digit [of "int k"] dec_digit_val [of "int k" a] that by (simp_all add: dec_digit_def nat_add_distrib)
  show ?case
  proof (cases "n < 10")
    case True
    then show ?thesis using d(1) [of n] d(2) [of n 0] by (simp add: udec.simps [of n])
  next
    case False
    with 1 have IH: "list_all is_digit (udec (n div 10))" "udec (n div 10) \<noteq> []" "digits_val 0 (udec (n div 10)) = int (n div 10)"
      by simp_all
    have "digits_val 0 (udec (n div 10) @ [char_of (48 + n mod 10)]) = int (n div 10) * 10 + int (n mod 10)"
      using d(2) [of "n mod 10"] IH(3) by (simp add: digits_val_append)
    also have "\<dots> = int n" by (simp add: zdiv_int zmod_int)
    finally show ?thesis using False IH d(1) [of "n mod 10"] by (simp add: udec.simps [of n])
  qed
qed

lemma udec_length: "n < 10 ^ k \<Longrightarrow> 0 < k \<Longrightarrow> length (udec n) \<le> k"
proof (induction k arbitrary: n)
  case 0
  then show ?case by simp
next
  case (Suc k)
  show ?case
  proof (cases "n < 10")
    case True
    then show ?thesis by (simp add: udec.simps [of n])
  next
    case False
    then have "0 < k" using Suc.prems by (cases k) auto
    moreover have "n div 10 < 10 ^ k" using Suc.prems by (simp add: less_mult_imp_div_less mult.commute)
    ultimately show ?thesis using Suc.IH [of "n div 10"] False by (simp add: udec.simps [of n])
  qed
qed

lemma udec_length_ge: "10 ^ k \<le> n \<Longrightarrow> k < length (udec n)"
proof (induction k arbitrary: n)
  case 0
  have "udec n \<noteq> []" using udec_digits by blast
  then show ?case by simp
next
  case (Suc k)
  then have "10 ^ k \<le> n div 10" by (metis div_le_mono nonzero_mult_div_cancel_left power_Suc zero_neq_numeral)
  moreover have "\<not> n < 10" using Suc.prems one_le_power [of "10::nat" k] by (simp only: power_Suc) linarith
  ultimately show ?case using Suc.IH [of "n div 10"] by (subst udec.simps) simp
qed

lemma strtol10_idec: "strtol10 (idec i) = Some i"
  using udec_digits [of "nat i"] udec_digits [of "nat (- i)"] by (auto simp: idec_def strtol10_digits)

lemma chars_idec: "chars (idec i) = idec i"
proof -
  have "c \<noteq> CHR 0x00" if "is_digit c" for c using that by (auto simp: is_digit_def)
  then have "list_all (\<lambda>c. c \<noteq> CHR 0x00) (udec n)" for n
    using udec_digits [of n] by (auto simp: list_all_iff)
  then show ?thesis by (auto simp: chars_def idec_def list_all_iff takeWhile_eq_all_conv)
qed

text \<open>
  Numbers of at most 18 characters are printed and read back; one of 19 characters loses its last digit,
  and one of 20 reads bytes that were not written.
\<close>

lemma getString_int_short:
  assumes "- (10 ^ 17) < sint w" "sint w < 10 ^ 18"
  shows "MyVal_getString ld (typeInt w) = Inr (idec (sint w))"
    and "MyVal_getInt64 ld (typeString (idec (sint w))) = Inr w"
proof -
  have "length (idec (sint w)) \<le> 18"
    using udec_length [of "nat (- sint w)" 17] udec_length [of "nat (sint w)" 18] assms by (auto simp: idec_def nat_less_iff)
  then show "MyVal_getString ld (typeInt w) = Inr (idec (sint w))" by (simp add: MyVal_getString_def buf_string_def)
  have "strtoll (chars (idec (sint w))) = sint w" using assms by (simp add: strtoll_def chars_idec strtol10_idec)
  then show "MyVal_getInt64 ld (typeString (idec (sint w))) = Inr w" by (simp add: MyVal_getInt64_def)
qed

lemma udec_butlast: "10 \<le> n \<Longrightarrow> butlast (udec n) = udec (n div 10)"
  by (subst udec.simps) simp

lemma chars_cut: "chars (udec n @ [CHR 0x00]) = udec n"
  using chars_idec [of "int n"] by (simp add: idec_def chars_def takeWhile_append)

lemma getString_int_cut:
  assumes "10 ^ 18 \<le> sint w"
  shows "MyVal_getString ld (typeInt w) = Inr (udec (nat (sint w) div 10) @ [CHR 0x00])"
    and "MyVal_getInt64 ld (typeString (udec (nat (sint w) div 10) @ [CHR 0x00])) = Inr (word_of_int (sint w div 10))"
proof -
  have u: "sint w < 2 ^ 63" using sint_less [of w] by simp
  let ?n = "nat (sint w)"
  have "18 < length (udec ?n)" using udec_length_ge [of 18 ?n] assms by (simp add: nat_le_eq_zle le_nat_iff)
  moreover have "length (udec ?n) \<le> 19" using udec_length [of ?n 19] u assms by (simp add: nat_less_iff)
  ultimately have l: "length (udec ?n) = 19" by simp
  have "take 18 (udec ?n) = udec (?n div 10)"
    using udec_butlast [of ?n] l assms by (simp add: butlast_conv_take)
  then show "MyVal_getString ld (typeInt w) = Inr (udec (?n div 10) @ [CHR 0x00])"
    using l assms by (simp add: MyVal_getString_def buf_string_def idec_def)
  have "strtol10 (udec (?n div 10)) = Some (sint w div 10)"
    using udec_digits [of "?n div 10"] assms by (simp add: strtol10_digits zdiv_int)
  then have "strtoll (udec (?n div 10)) = sint w div 10" using u assms by (simp add: strtoll_def)
  then show "MyVal_getInt64 ld (typeString (udec (?n div 10) @ [CHR 0x00])) = Inr (word_of_int (sint w div 10))"
    by (simp add: MyVal_getInt64_def chars_cut)
qed

lemma getString_uint_long:
  assumes "10 ^ 19 \<le> uint w"
  shows "MyVal_getString ld (typeUInt w) = Inl Undefined_behaviour"
proof -
  have "int (10 ^ 19) \<le> int (unat w)" using assms by simp
  then have "19 < length (udec (unat w))" by (intro udec_length_ge) (simp only: of_nat_le_iff)
  then show ?thesis by (simp add: MyVal_getString_def buf_string_def)
qed

end
