(* ===== verification/Rs_Metadata.thy ===== *)
theory Rs_Metadata
  imports Column_Types
begin

text \<open>
  The classes that describe the columns of a result: \<^verbatim>\<open>MySQL_ResultSetMetaData\<close> (prefix \<open>rm_\<close>, file
  \<^verbatim>\<open>mysql_resultset_metadata.cpp\<close>), which holds a weak pointer to the result, and
  \<^verbatim>\<open>MySQL_PreparedResultSetMetaData\<close> (prefix \<open>pm_\<close>, file \<^verbatim>\<open>mysql_ps_resultset_metadata.cpp\<close>), which owns the
  description; both under \<^verbatim>\<open>mysqlconnector/jdbc/driver\<close>. The methods do not change state. What both compute
  from a field is shared (prefix \<open>fd_\<close>). \<^verbatim>\<open>MySQL_ParameterMetaData\<close> only knows the number of parameters.
\<close>

section \<open>What is computed from a field\<close>

definition charset_message :: "nat \<Rightarrow> cpp_error" where
  "charset_message nr = Sql_exception (''Server sent unknown charsetnr ('' @ udec nr @ '') . Please report'')"

definition fd_charset :: "(nat \<Rightarrow> cpp_error) \<Rightarrow> mysql_field \<Rightarrow> charset res" where
  "fd_charset e f = (case find_charset (fld_charsetnr f) of None \<Rightarrow> Inl (e (fld_charsetnr f)) | Some c \<Rightarrow> Inr c)"

text \<open>The quotient of the lengths is converted to \<^verbatim>\<open>int\<close> and back to an unsigned number.\<close>

definition fd_display_size :: "mysql_field \<Rightarrow> nat res" where
  "fd_display_size f = rbind (fd_charset unknown_charset f) (\<lambda>c. Inr ((fld_length f div cs_char_maxlen c) mod 2 ^ 32))"

definition fd_charset_name :: "mysql_field \<Rightarrow> string res" where
  "fd_charset_name f = rbind (fd_charset charset_message f) (\<lambda>c. Inr (cs_name c))"

definition fd_collation :: "mysql_field \<Rightarrow> string res" where
  "fd_collation f = rbind (fd_charset charset_message f) (\<lambda>c. Inr (cs_collation c))"

text \<open>The difference of unsigned numbers wraps around.\<close>

definition fd_precision :: "mysql_field \<Rightarrow> nat" where
  "fd_precision f = nat ((int (fld_max_length f) - int (fld_decimals f)) mod 2 ^ 32)"

definition fd_schema :: "mysql_field \<Rightarrow> string" where
  "fd_schema f = (case fld_db f of None \<Rightarrow> [] | Some db \<Rightarrow> db)"

fun occurs :: "string \<Rightarrow> string \<Rightarrow> bool" where
  "occurs s [] \<longleftrightarrow> s = []"
| "occurs s (c # t) \<longleftrightarrow> take (length s) (c # t) = s \<or> occurs s t"

definition fd_case_sensitive :: "(nat \<Rightarrow> cpp_error) \<Rightarrow> mysql_field \<Rightarrow> bool res" where
  "fd_case_sensitive e f =
     (if has_flag f NUM_FLAG \<or> fld_type f = MYSQL_TYPE_NEWDECIMAL \<or> fld_type f = MYSQL_TYPE_DECIMAL then Inr False
      else rbind (fd_charset e f) (\<lambda>c. Inr (\<not> occurs ''_ci'' (cs_collation c))))"

datatype nullability = columnNoNulls | columnNullable | columnNullableUnknown

definition fd_nullable :: "mysql_field \<Rightarrow> nullability" where
  "fd_nullable f = (if has_flag f NOT_NULL_FLAG then columnNoNulls else columnNullable)"

definition fd_read_only :: "mysql_field \<Rightarrow> bool" where
  "fd_read_only f \<longleftrightarrow> (case fld_db f of None \<Rightarrow> True | Some db \<Rightarrow> length db = 0)"

definition fd_signed :: "mysql_field \<Rightarrow> bool" where
  "fd_signed f \<longleftrightarrow> fld_type f \<noteq> MYSQL_TYPE_YEAR \<and> \<not> has_flag f UNSIGNED_FLAG"

section \<open>\<^verbatim>\<open>MySQL_ResultSetMetaData\<close>\<close>

text \<open>The number of fields is not set when the result is gone already; it is not read then.\<close>

record rs_metadata =
  rm_result :: "mysql_field list option"
  rm_num_fields :: nat

definition new_ResultSetMetaData :: "mysql_field list option \<Rightarrow> rs_metadata" where
  "new_ResultSetMetaData result = \<lparr>rm_result = result, rm_num_fields = (case result of None \<Rightarrow> 0 | Some fs \<Rightarrow> length fs)\<rparr>"

definition rm_checkValid :: "rs_metadata \<Rightarrow> unit res" where
  "rm_checkValid m = (if rm_result m = None then Inl (Sql_invalid_argument ''ResultSet is not valid anymore'') else Inr ())"

definition rm_checkColumnIndex :: "nat \<Rightarrow> rs_metadata \<Rightarrow> unit res" where
  "rm_checkColumnIndex col m =
     (if col = 0 \<or> col > rm_num_fields m then Inl (Sql_invalid_argument ''Invalid value for columnIndex'') else Inr ())"

definition rm_getFieldMeta :: "nat \<Rightarrow> rs_metadata \<Rightarrow> mysql_field res" where
  "rm_getFieldMeta col m =
     (case rm_result m of
        None \<Rightarrow> Inl Undefined_behaviour
      | Some fs \<Rightarrow> if col - 1 < length fs then Inr (fs ! (col - 1)) else Inl Undefined_behaviour)"

definition rm_guard :: "nat \<Rightarrow> 'a \<Rightarrow> rs_metadata \<Rightarrow> 'a res" where
  "rm_guard col x m = rbind (rm_checkValid m) (\<lambda>_. rbind (rm_checkColumnIndex col m) (\<lambda>_. Inr x))"

definition rm_field :: "(mysql_field \<Rightarrow> 'a res) \<Rightarrow> nat \<Rightarrow> rs_metadata \<Rightarrow> 'a res" where
  "rm_field g col m = rbind (rm_guard col () m) (\<lambda>_. rbind (rm_getFieldMeta col m) g)"

definition rm_getColumnCount :: "rs_metadata \<Rightarrow> nat res" where
  "rm_getColumnCount m = rbind (rm_checkValid m) (\<lambda>_. Inr (rm_num_fields m))"

definition rm_getCatalogName :: "nat \<Rightarrow> rs_metadata \<Rightarrow> string res" where "rm_getCatalogName col = rm_field (\<lambda>f. Inr (fld_catalog f)) col"
definition rm_getColumnDisplaySize :: "nat \<Rightarrow> rs_metadata \<Rightarrow> nat res" where "rm_getColumnDisplaySize col = rm_field fd_display_size col"
definition rm_getColumnLabel :: "nat \<Rightarrow> rs_metadata \<Rightarrow> string res" where "rm_getColumnLabel col = rm_field (\<lambda>f. Inr (fld_name f)) col"
definition rm_getColumnName :: "nat \<Rightarrow> rs_metadata \<Rightarrow> string res" where "rm_getColumnName col = rm_field (\<lambda>f. Inr (fld_org_name f)) col"
definition rm_getColumnType :: "nat \<Rightarrow> rs_metadata \<Rightarrow> sql_type res" where "rm_getColumnType col = rm_field mysql_type_to_datatype col"
definition rm_getColumnTypeName :: "nat \<Rightarrow> rs_metadata \<Rightarrow> string res" where "rm_getColumnTypeName col = rm_field mysql_type_to_string col"
definition rm_getColumnCharset :: "nat \<Rightarrow> rs_metadata \<Rightarrow> string res" where "rm_getColumnCharset col = rm_field fd_charset_name col"
definition rm_getColumnCollation :: "nat \<Rightarrow> rs_metadata \<Rightarrow> string res" where "rm_getColumnCollation col = rm_field fd_collation col"
definition rm_getPrecision :: "nat \<Rightarrow> rs_metadata \<Rightarrow> nat res" where "rm_getPrecision col = rm_field (\<lambda>f. Inr (fd_precision f)) col"
definition rm_getScale :: "nat \<Rightarrow> rs_metadata \<Rightarrow> nat res" where "rm_getScale col = rm_field (\<lambda>f. Inr (fld_decimals f)) col"
definition rm_getSchemaName :: "nat \<Rightarrow> rs_metadata \<Rightarrow> string res" where "rm_getSchemaName col = rm_field (\<lambda>f. Inr (fd_schema f)) col"
definition rm_getTableName :: "nat \<Rightarrow> rs_metadata \<Rightarrow> string res" where "rm_getTableName col = rm_field (\<lambda>f. Inr (fld_org_table f)) col"
definition rm_isAutoIncrement :: "nat \<Rightarrow> rs_metadata \<Rightarrow> bool res" where "rm_isAutoIncrement col = rm_field (\<lambda>f. Inr (has_flag f AUTO_INCREMENT_FLAG)) col"
definition rm_isCaseSensitive :: "nat \<Rightarrow> rs_metadata \<Rightarrow> bool res" where "rm_isCaseSensitive col = rm_field (fd_case_sensitive charset_message) col"
definition rm_isCurrency :: "nat \<Rightarrow> rs_metadata \<Rightarrow> bool res" where "rm_isCurrency col = rm_guard col (False)"
definition rm_isNullable :: "nat \<Rightarrow> rs_metadata \<Rightarrow> nullability res" where "rm_isNullable col = rm_field (\<lambda>f. Inr (fd_nullable f)) col"
definition rm_isNumeric :: "nat \<Rightarrow> rs_metadata \<Rightarrow> bool res" where "rm_isNumeric col = rm_field (\<lambda>f. Inr (has_flag f NUM_FLAG)) col"
definition rm_isReadOnly :: "nat \<Rightarrow> rs_metadata \<Rightarrow> bool res" where "rm_isReadOnly col = rm_field (\<lambda>f. Inr (fd_read_only f)) col"
definition rm_isSearchable :: "nat \<Rightarrow> rs_metadata \<Rightarrow> bool res" where "rm_isSearchable col = rm_guard col (True)"
definition rm_isSigned :: "nat \<Rightarrow> rs_metadata \<Rightarrow> bool res" where "rm_isSigned col = rm_field (\<lambda>f. Inr (fd_signed f)) col"
definition rm_isZerofill :: "nat \<Rightarrow> rs_metadata \<Rightarrow> bool res" where "rm_isZerofill col = rm_field (\<lambda>f. Inr (has_flag f ZEROFILL_FLAG)) col"

definition rm_isWritable :: "nat \<Rightarrow> rs_metadata \<Rightarrow> bool res" where
  "rm_isWritable col m = rbind (rm_guard col () m) (\<lambda>_. rbind (rm_isReadOnly col m) (\<lambda>r. Inr (\<not> r)))"

definition rm_isDefinitelyWritable :: "nat \<Rightarrow> rs_metadata \<Rightarrow> bool res" where
  "rm_isDefinitelyWritable col m = rbind (rm_guard col () m) (\<lambda>_. rm_isWritable col m)"

section \<open>\<^verbatim>\<open>MySQL_PreparedResultSetMetaData\<close>\<close>

record ps_metadata =
  pm_fields :: "mysql_field list"
  pm_num_fields :: nat

definition new_PreparedResultSetMetaData :: "mysql_field list \<Rightarrow> nat \<Rightarrow> ps_metadata" where
  "new_PreparedResultSetMetaData fs field_count = \<lparr>pm_fields = fs, pm_num_fields = field_count\<rparr>"

definition pm_checkColumnIndex :: "nat \<Rightarrow> ps_metadata \<Rightarrow> unit res" where
  "pm_checkColumnIndex col m =
     (if col = 0 \<or> col > pm_num_fields m then Inl (Sql_invalid_argument ''Invalid value for columnIndex'') else Inr ())"

definition pm_getFieldMeta :: "nat \<Rightarrow> ps_metadata \<Rightarrow> mysql_field res" where
  "pm_getFieldMeta col m =
     (if col - 1 < length (pm_fields m) then Inr (pm_fields m ! (col - 1)) else Inl Undefined_behaviour)"

definition pm_guard :: "nat \<Rightarrow> 'a \<Rightarrow> ps_metadata \<Rightarrow> 'a res" where
  "pm_guard col x m = rbind (pm_checkColumnIndex col m) (\<lambda>_. Inr x)"

definition pm_field :: "(mysql_field \<Rightarrow> 'a res) \<Rightarrow> nat \<Rightarrow> ps_metadata \<Rightarrow> 'a res" where
  "pm_field g col m = rbind (pm_checkColumnIndex col m) (\<lambda>_. rbind (pm_getFieldMeta col m) g)"

definition pm_getColumnCount :: "ps_metadata \<Rightarrow> nat" where
  "pm_getColumnCount m = pm_num_fields m"

definition pm_getCatalogName :: "nat \<Rightarrow> ps_metadata \<Rightarrow> string res" where "pm_getCatalogName col = pm_field (\<lambda>f. Inr (fld_catalog f)) col"
definition pm_getColumnDisplaySize :: "nat \<Rightarrow> ps_metadata \<Rightarrow> nat res" where "pm_getColumnDisplaySize col = pm_field fd_display_size col"
definition pm_getColumnLabel :: "nat \<Rightarrow> ps_metadata \<Rightarrow> string res" where "pm_getColumnLabel col = pm_field (\<lambda>f. Inr (fld_name f)) col"
definition pm_getColumnName :: "nat \<Rightarrow> ps_metadata \<Rightarrow> string res" where "pm_getColumnName col = pm_field (\<lambda>f. Inr (fld_org_name f)) col"
definition pm_getColumnType :: "nat \<Rightarrow> ps_metadata \<Rightarrow> sql_type res" where "pm_getColumnType col = pm_field mysql_type_to_datatype col"
definition pm_getColumnTypeName :: "nat \<Rightarrow> ps_metadata \<Rightarrow> string res" where "pm_getColumnTypeName col = pm_field mysql_type_to_string col"
definition pm_getColumnCharset :: "nat \<Rightarrow> ps_metadata \<Rightarrow> string res" where "pm_getColumnCharset col = pm_field fd_charset_name col"
definition pm_getColumnCollation :: "nat \<Rightarrow> ps_metadata \<Rightarrow> string res" where "pm_getColumnCollation col = pm_field fd_collation col"
definition pm_getPrecision :: "nat \<Rightarrow> ps_metadata \<Rightarrow> nat res" where "pm_getPrecision col = pm_field (\<lambda>f. Inr (fd_precision f)) col"
definition pm_getScale :: "nat \<Rightarrow> ps_metadata \<Rightarrow> nat res" where "pm_getScale col = pm_field (\<lambda>f. Inr (fld_decimals f)) col"
definition pm_getSchemaName :: "nat \<Rightarrow> ps_metadata \<Rightarrow> string res" where "pm_getSchemaName col = pm_field (\<lambda>f. Inr (fd_schema f)) col"
definition pm_getTableName :: "nat \<Rightarrow> ps_metadata \<Rightarrow> string res" where "pm_getTableName col = pm_field (\<lambda>f. Inr (fld_org_table f)) col"
definition pm_isAutoIncrement :: "nat \<Rightarrow> ps_metadata \<Rightarrow> bool res" where "pm_isAutoIncrement col = pm_field (\<lambda>f. Inr (has_flag f AUTO_INCREMENT_FLAG)) col"
definition pm_isCaseSensitive :: "nat \<Rightarrow> ps_metadata \<Rightarrow> bool res" where "pm_isCaseSensitive col = pm_field (fd_case_sensitive unknown_charset) col"
definition pm_isCurrency :: "nat \<Rightarrow> ps_metadata \<Rightarrow> bool res" where "pm_isCurrency col = pm_guard col (False)"
definition pm_isNullable :: "nat \<Rightarrow> ps_metadata \<Rightarrow> nullability res" where "pm_isNullable col = pm_field (\<lambda>f. Inr (fd_nullable f)) col"
definition pm_isNumeric :: "nat \<Rightarrow> ps_metadata \<Rightarrow> bool res" where "pm_isNumeric col = pm_field (\<lambda>f. Inr (has_flag f NUM_FLAG)) col"
definition pm_isReadOnly :: "nat \<Rightarrow> ps_metadata \<Rightarrow> bool res" where "pm_isReadOnly col = pm_field (\<lambda>f. Inr (fd_read_only f)) col"
definition pm_isSearchable :: "nat \<Rightarrow> ps_metadata \<Rightarrow> bool res" where "pm_isSearchable col = pm_guard col (True)"
definition pm_isSigned :: "nat \<Rightarrow> ps_metadata \<Rightarrow> bool res" where "pm_isSigned col = pm_field (\<lambda>f. Inr (fd_signed f)) col"
definition pm_isZerofill :: "nat \<Rightarrow> ps_metadata \<Rightarrow> bool res" where "pm_isZerofill col = pm_field (\<lambda>f. Inr (has_flag f ZEROFILL_FLAG)) col"

definition pm_isWritable :: "nat \<Rightarrow> ps_metadata \<Rightarrow> bool res" where
  "pm_isWritable col m = rbind (pm_checkColumnIndex col m) (\<lambda>_. rbind (pm_isReadOnly col m) (\<lambda>r. Inr (\<not> r)))"

definition pm_isDefinitelyWritable :: "nat \<Rightarrow> ps_metadata \<Rightarrow> bool res" where
  "pm_isDefinitelyWritable col m = rbind (pm_checkColumnIndex col m) (\<lambda>_. pm_isWritable col m)"

section \<open>\<^verbatim>\<open>MySQL_ParameterMetaData\<close>\<close>

definition new_ParameterMetaData :: "nat \<Rightarrow> nat" where
  "new_ParameterMetaData param_count = param_count"

definition qm_getParameterCount :: "nat \<Rightarrow> int" where
  "qm_getParameterCount param_count = int param_count"

text \<open>All other methods throw, under the name of one of them.\<close>

definition qm_missing :: "nat \<Rightarrow> 'a res" where
  "qm_missing paramNo = Inl (Not_implemented ''MySQL_ParameterMetaData::getParameterClassName()'')"

section \<open>Lemmas\<close>

lemma rm_field_ok:
  assumes "1 \<le> col" "col \<le> length fs"
  shows "rm_field g col (new_ResultSetMetaData (Some fs)) = g (fs ! (col - 1))"
  using assms
  by (cases col) (simp_all add: rm_field_def rm_guard_def rm_checkValid_def rm_checkColumnIndex_def new_ResultSetMetaData_def rm_getFieldMeta_def)

lemma pm_field_ok:
  assumes "1 \<le> col" "col \<le> length fs"
  shows "pm_field g col (new_PreparedResultSetMetaData fs (length fs)) = g (fs ! (col - 1))"
  using assms by (cases col) (simp_all add: pm_field_def pm_checkColumnIndex_def new_PreparedResultSetMetaData_def pm_getFieldMeta_def)

text \<open>No method reads outside of the fields: a bad index or a vanished result is an exception.\<close>

lemma rm_field_safe:
  assumes "\<And>f. g f \<noteq> Inl Undefined_behaviour"
  shows "rm_field g col (new_ResultSetMetaData r) \<noteq> Inl Undefined_behaviour"
  using assms
  by (cases r) (auto simp: rm_field_def rm_guard_def rm_checkValid_def rm_checkColumnIndex_def new_ResultSetMetaData_def rm_getFieldMeta_def)

lemma occurs_iff: "occurs s t \<longleftrightarrow> (\<exists>u v. t = u @ s @ v)"
proof (induction t)
  case Nil
  then show ?case by auto
next
  case (Cons c t)
  have "take (length s) (c # t) = s \<longleftrightarrow> (\<exists>v. c # t = s @ v)" by (metis append_eq_conv_conj append_take_drop_id)
  with Cons show ?case by (auto simp: Cons_eq_append_conv)
qed

text \<open>
  The precision of a column whose longest value is not known, which is so for results that are not
  stored: the number of decimals, negative, as an unsigned number.
\<close>

lemma precision_unknown_length:
  assumes "fld_max_length f = 0" "0 < fld_decimals f" "fld_decimals f < 2 ^ 32"
  shows "fd_precision f = 2 ^ 32 - fld_decimals f"
proof -
  have "(- int (fld_decimals f)) mod 2 ^ 32 = 2 ^ 32 - int (fld_decimals f)"
    using assms(2,3) by (intro int_mod_pos_eq [of _ _ "- 1"]) auto
  then show ?thesis using assms by (simp add: fd_precision_def nat_diff_distrib')
qed

text \<open>The message for an unknown character set in \<^verbatim>\<open>getColumnDisplaySize\<close> begins with the number.\<close>

lemma display_size_unknown:
  assumes "find_charset (fld_charsetnr f) = None"
  shows "fd_display_size f = Inl (Sql_exception (udec (fld_charsetnr f) @ '') . Please report'' @
    drop (length (udec (fld_charsetnr f))) ''wn charsetnr (''))"
  using assms by (simp add: fd_display_size_def fd_charset_def unknown_charset_def overwrite_def)

lemma display_size_bound:
  assumes "fd_display_size f = Inr n"
  shows "n \<le> fld_length f"
proof -
  obtain c where "find_charset (fld_charsetnr f) = Some c" "n = (fld_length f div cs_char_maxlen c) mod 2 ^ 32"
    using assms by (auto simp: fd_display_size_def fd_charset_def rbind_def split: option.splits sum.splits)
  moreover have "(fld_length f div k) mod 2 ^ 32 \<le> fld_length f" for k
    by (meson div_le_dividend mod_less_eq_dividend order_trans)
  ultimately show ?thesis by blast
qed

lemma types_safe:
  "mysql_type_to_datatype f \<noteq> Inl Undefined_behaviour" "mysql_type_to_string f \<noteq> Inl Undefined_behaviour"
  by (cases "fld_type f"; auto simp: mysql_type_to_datatype_def mysql_type_to_string_def blob_type_def string_type_def number_name_def
      blob_name_def var_string_name_def unknown_charset_def split: option.splits)+

lemma fd_safe:
  "fd_charset_name f \<noteq> Inl Undefined_behaviour" "fd_display_size f \<noteq> Inl Undefined_behaviour"
  "fd_case_sensitive charset_message f \<noteq> Inl Undefined_behaviour"
  by (auto simp: fd_charset_name_def fd_display_size_def fd_case_sensitive_def fd_charset_def charset_message_def unknown_charset_def
      split: option.splits)

lemma rm_safe:
  fixes r
  defines "m \<equiv> new_ResultSetMetaData r"
  shows "rm_getColumnType col m \<noteq> Inl Undefined_behaviour" "rm_getColumnTypeName col m \<noteq> Inl Undefined_behaviour"
    "rm_getColumnCharset col m \<noteq> Inl Undefined_behaviour" "rm_getPrecision col m \<noteq> Inl Undefined_behaviour"
    "rm_isCaseSensitive col m \<noteq> Inl Undefined_behaviour" "rm_isWritable col m \<noteq> Inl Undefined_behaviour"
    "rm_getColumnDisplaySize col m \<noteq> Inl Undefined_behaviour"
proof -
  note s = rm_field_safe [of _ col r, folded m_def]
  show "rm_getColumnType col m \<noteq> Inl Undefined_behaviour" "rm_getColumnTypeName col m \<noteq> Inl Undefined_behaviour"
    "rm_getColumnCharset col m \<noteq> Inl Undefined_behaviour" "rm_getPrecision col m \<noteq> Inl Undefined_behaviour"
    "rm_isCaseSensitive col m \<noteq> Inl Undefined_behaviour" "rm_getColumnDisplaySize col m \<noteq> Inl Undefined_behaviour"
    unfolding rm_getColumnType_def rm_getColumnTypeName_def rm_getColumnCharset_def rm_getPrecision_def rm_isCaseSensitive_def
      rm_getColumnDisplaySize_def
    by (intro s types_safe fd_safe; simp)+
  have "rm_isReadOnly col m \<noteq> Inl Undefined_behaviour" unfolding rm_isReadOnly_def by (intro s) simp
  then show "rm_isWritable col m \<noteq> Inl Undefined_behaviour"
    by (cases "rm_isReadOnly col m") (auto simp: rm_isWritable_def rm_guard_def rm_checkValid_def rm_checkColumnIndex_def)
qed

lemma rm_display_size:
  assumes "rm_getColumnDisplaySize col (new_ResultSetMetaData r) = Inr n"
  shows "\<exists>fs. r = Some fs \<and> 1 \<le> col \<and> col \<le> length fs \<and> n \<le> fld_length (fs ! (col - 1))"
proof -
  obtain fs where fs: "r = Some fs" "1 \<le> col" "col \<le> length fs"
    using assms by (cases r)
      (auto simp: rm_getColumnDisplaySize_def rm_field_def rm_guard_def rm_checkValid_def rm_checkColumnIndex_def new_ResultSetMetaData_def
        split: if_splits)
  from assms have "fd_display_size (fs ! (col - 1)) = Inr n"
    by (simp add: rm_getColumnDisplaySize_def fs(1) rm_field_ok [OF fs(2,3)])
  from display_size_bound [OF this] fs show ?thesis by blast
qed

end
