(* ===== verification/Open_Connection.thy ===== *)
theory Open_Connection
  imports Connection_Safety Uri Column_Types
begin

text \<open>
  Opening a connection (\<^verbatim>\<open>MySQL_Connection::init\<close> of \<^verbatim>\<open>mysqlconnector/jdbc/driver/mysql_connection.cpp\<close>, with the
  variants of \<^verbatim>\<open>cppconn/variant.h\<close> and the drivers of \<^verbatim>\<open>mysql_driver.cpp\<close>), and the client options passed as untyped
  pointers. The options are a list sorted by name, as \<^verbatim>\<open>std::map\<close> iterates over them. What the library does
  before it is connected is a parameter, the record \<open>nopen\<close>. \<open>version\<close> is the macro
  \<^verbatim>\<open>MYCPPCONN_STATIC_MYSQL_VERSION_ID\<close>.
\<close>

section \<open>Option values\<close>

datatype variant = Var_int int | Var_double | Var_bool bool | Var_string string
  | Var_list "string list" | Var_map "(string \<times> string) list"

type_synonym options = "(string \<times> variant) list"

text \<open>
  \<^verbatim>\<open>get<T>()\<close> throws for another type and never returns a null pointer, so the tests for one in the code
  always fail. \<open>what\<close> is the end of the message.
\<close>

definition wrong_type :: "string \<Rightarrow> cpp_error" where
  "wrong_type what = Sql_invalid_argument (''Wrong type passed for '' @ what)"

definition with_string :: "string \<Rightarrow> variant \<Rightarrow> (string \<Rightarrow> ('s, 'a) sop) \<Rightarrow> ('s, 'a) sop" where
  "with_string what v f = (case v of Var_string x \<Rightarrow> f x | _ \<Rightarrow> sthrow (wrong_type what))"

definition with_int :: "string \<Rightarrow> variant \<Rightarrow> (int \<Rightarrow> ('s, 'a) sop) \<Rightarrow> ('s, 'a) sop" where
  "with_int what v f = (case v of Var_int x \<Rightarrow> f x | _ \<Rightarrow> sthrow (wrong_type what))"

definition with_bool :: "string \<Rightarrow> variant \<Rightarrow> (bool \<Rightarrow> ('s, 'a) sop) \<Rightarrow> ('s, 'a) sop" where
  "with_bool what v f = (case v of Var_bool x \<Rightarrow> f x | _ \<Rightarrow> sthrow (wrong_type what))"

section \<open>Options of the client library\<close>

datatype conn_option =
    MYSQL_OPT_CONNECT_TIMEOUT | MYSQL_OPT_COMPRESS | MYSQL_OPT_NAMED_PIPE | MYSQL_INIT_COMMAND | MYSQL_READ_DEFAULT_FILE
  | MYSQL_READ_DEFAULT_GROUP | MYSQL_SET_CHARSET_DIR | MYSQL_SET_CHARSET_NAME | MYSQL_OPT_LOCAL_INFILE | MYSQL_OPT_PROTOCOL
  | MYSQL_SHARED_MEMORY_BASE_NAME | MYSQL_OPT_READ_TIMEOUT | MYSQL_OPT_WRITE_TIMEOUT | MYSQL_OPT_USE_RESULT
  | MYSQL_OPT_USE_REMOTE_CONNECTION | MYSQL_OPT_USE_EMBEDDED_CONNECTION | MYSQL_OPT_GUESS_CONNECTION | MYSQL_SET_CLIENT_IP
  | MYSQL_SECURE_AUTH | MYSQL_REPORT_DATA_TRUNCATION | MYSQL_OPT_RECONNECT | MYSQL_OPT_SSL_VERIFY_SERVER_CERT
  | MYSQL_PLUGIN_DIR | MYSQL_DEFAULT_AUTH | MYSQL_OPT_BIND | MYSQL_OPT_SSL_KEY | MYSQL_OPT_SSL_CERT | MYSQL_OPT_SSL_CA
  | MYSQL_OPT_SSL_CAPATH | MYSQL_OPT_SSL_CIPHER | MYSQL_OPT_SSL_CRL | MYSQL_OPT_SSL_CRLPATH | MYSQL_OPT_CONNECT_ATTR_RESET
  | MYSQL_OPT_CONNECT_ATTR_ADD | MYSQL_OPT_CONNECT_ATTR_DELETE | MYSQL_SERVER_PUBLIC_KEY | MYSQL_ENABLE_CLEARTEXT_PLUGIN
  | MYSQL_OPT_CAN_HANDLE_EXPIRED_PASSWORDS | MYSQL_OPT_SSL_ENFORCE | MYSQL_OPT_MAX_ALLOWED_PACKET
  | MYSQL_OPT_NET_BUFFER_LENGTH | MYSQL_OPT_TLS_VERSION | MYSQL_OPT_SSL_MODE | MYSQL_OPT_RETRY_COUNT
  | MYSQL_OPT_GET_SERVER_PUBLIC_KEY | MYSQL_OPT_OPTIONAL_RESULTSET_METADATA

datatype ssl_mode = SSL_MODE_DISABLED | SSL_MODE_PREFERRED | SSL_MODE_REQUIRED | SSL_MODE_VERIFY_CA | SSL_MODE_VERIFY_IDENTITY

datatype opt_value = Ov_string string | Ov_int int | Ov_bool bool | Ov_pair string string | Ov_ssl_mode ssl_mode

datatype opt_type = Ot_int | Ot_bool | Ot_string

fun typed :: "opt_type \<Rightarrow> variant \<Rightarrow> opt_value option" where
  "typed Ot_int (Var_int i) = Some (Ov_int i)"
| "typed Ot_bool (Var_bool b) = Some (Ov_bool b)"
| "typed Ot_string (Var_string s) = Some (Ov_string (c_str s))"
| "typed _ _ = None"

record connect_args =
  ca_host :: string
  ca_user :: string
  ca_password :: string
  ca_schema :: string
  ca_port :: nat
  ca_socket :: string
  ca_flags :: nat

text \<open>
  Setting an option may fail with a text (the exception of a library that does not know the option);
  \<open>no_type_name\<close> is \<^verbatim>\<open>typeid(value).name()\<close>, which the compiler chooses.
\<close>

record 'n nopen =
  no_options :: "conn_option \<Rightarrow> opt_value \<Rightarrow> 'n \<Rightarrow> (string + int) \<times> 'n"
  no_use_protocol :: "protocol_type \<Rightarrow> 'n \<Rightarrow> (string + int) \<times> 'n"
  no_ssl_set :: "string list \<Rightarrow> 'n \<Rightarrow> 'n"
  no_connect :: "connect_args \<Rightarrow> 'n \<Rightarrow> bool \<times> 'n"
  no_get_option :: "conn_option \<Rightarrow> 'n \<Rightarrow> string + opt_value option"
  no_mblen :: "'n \<Rightarrow> nat \<times> nat"  \<comment> \<open>of the character set\<close>
  no_charset_dir :: "'n \<Rightarrow> string option"
  no_debug :: "string \<Rightarrow> 'n \<Rightarrow> 'n"
  no_type_name :: "opt_type \<Rightarrow> string"

section \<open>The tables of options\<close>

type_synonym option_map = "(string \<times> conn_option \<times> bool) list"

definition booleanOptions :: "nat \<Rightarrow> option_map" where
  "booleanOptions version =
    [(''OPT_REPORT_DATA_TRUNCATION'', MYSQL_REPORT_DATA_TRUNCATION, False),
     (''OPT_ENABLE_CLEARTEXT_PLUGIN'', MYSQL_ENABLE_CLEARTEXT_PLUGIN, False),
     (''OPT_CAN_HANDLE_EXPIRED_PASSWORDS'', MYSQL_OPT_CAN_HANDLE_EXPIRED_PASSWORDS, True),
     (''OPT_CONNECT_ATTR_RESET'', MYSQL_OPT_CONNECT_ATTR_RESET, True),
     (''OPT_RECONNECT'', MYSQL_OPT_RECONNECT, True)] @
    (if version < 80000 then
      [(''sslVerify'', MYSQL_OPT_SSL_VERIFY_SERVER_CERT, False),
       (''sslEnforce'', MYSQL_OPT_SSL_ENFORCE, False)]
     else
      [(''sslVerify'', MYSQL_OPT_SSL_MODE, True),
       (''sslEnforce'', MYSQL_OPT_SSL_MODE, True),
       (''OPT_GET_SERVER_PUBLIC_KEY'', MYSQL_OPT_GET_SERVER_PUBLIC_KEY, False),
       (''OPT_OPTIONAL_RESULTSET_METADATA'', MYSQL_OPT_OPTIONAL_RESULTSET_METADATA, False)])"

definition intOptions :: "nat \<Rightarrow> option_map" where
  "intOptions version =
    [(''OPT_CONNECT_TIMEOUT'', MYSQL_OPT_CONNECT_TIMEOUT, False),
     (''OPT_READ_TIMEOUT'', MYSQL_OPT_READ_TIMEOUT, False),
     (''OPT_WRITE_TIMEOUT'', MYSQL_OPT_WRITE_TIMEOUT, False),
     (''OPT_LOCAL_INFILE'', MYSQL_OPT_LOCAL_INFILE, False),
     (''OPT_MAX_ALLOWED_PACKET'', MYSQL_OPT_MAX_ALLOWED_PACKET, False),
     (''OPT_NET_BUFFER_LENGTH'', MYSQL_OPT_NET_BUFFER_LENGTH, False),
     (''OPT_SSL_MODE'', MYSQL_OPT_SSL_MODE, False)] @
    (if version \<ge> 80000 then [(''OPT_RETRY_COUNT'', MYSQL_OPT_RETRY_COUNT, False)] else [])"

definition stringOptions :: option_map where
  "stringOptions =
    [(''preInit'', MYSQL_INIT_COMMAND, False),
     (''sslKey'', MYSQL_OPT_SSL_KEY, True),
     (''sslCert'', MYSQL_OPT_SSL_CERT, True),
     (''sslCA'', MYSQL_OPT_SSL_CA, True),
     (''sslCAPath'', MYSQL_OPT_SSL_CAPATH, True),
     (''sslCipher'', MYSQL_OPT_SSL_CIPHER, True),
     (''sslCRL'', MYSQL_OPT_SSL_CRL, False),
     (''sslCRLPath'', MYSQL_OPT_SSL_CRLPATH, False),
     (''rsaKey'', MYSQL_SERVER_PUBLIC_KEY, False),
     (''charsetDir'', MYSQL_SET_CHARSET_DIR, False),
     (''pluginDir'', MYSQL_PLUGIN_DIR, False),
     (''defaultAuth'', MYSQL_DEFAULT_AUTH, False),
     (''OPT_CONNECT_ATTR_DELETE'', MYSQL_OPT_CONNECT_ATTR_DELETE, False),
     (''readDefaultGroup'', MYSQL_READ_DEFAULT_GROUP, False),
     (''readDefaultFile'', MYSQL_READ_DEFAULT_FILE, False),
     (''OPT_CHARSET_NAME'', MYSQL_SET_CHARSET_NAME, True),
     (''OPT_TLS_VERSION'', MYSQL_OPT_TLS_VERSION, False)]"

text \<open>The flags, with the bits the client library documents.\<close>

definition CLIENT_MULTI_RESULTS :: nat where "CLIENT_MULTI_RESULTS = 2 ^ 17"

definition flagsOptions :: "(string \<times> nat) list" where
  "flagsOptions =
    [(''CLIENT_COMPRESS'', 32), (''CLIENT_FOUND_ROWS'', 2), (''CLIENT_IGNORE_SIGPIPE'', 4096),
     (''CLIENT_IGNORE_SPACE'', 256), (''CLIENT_INTERACTIVE'', 1024), (''CLIENT_LOCAL_FILES'', 128),
     (''CLIENT_MULTI_STATEMENTS'', 65536), (''CLIENT_NO_SCHEMA'', 16)]"

section \<open>The locals of \<^verbatim>\<open>init\<close>\<close>

record 'n conn_opening =
  in_conn :: "'n connection"
  in_uri :: uri
  in_user :: string
  in_password :: string
  in_charset :: string
  in_results_charset :: string
  in_ssl_key :: string
  in_ssl_cert :: string
  in_ssl_ca :: string
  in_ssl_capath :: string
  in_ssl_cipher :: string
  in_post_init :: string
  in_ssl_used :: bool
  in_flags :: nat
  in_opt_reconnect :: bool
  in_exp_pwd :: int
  in_secure_auth :: bool

definition new_opening :: "'n connection \<Rightarrow> 'n conn_opening" where
  "new_opening c =
     \<lparr>in_conn = c\<lparr>c_valid := True\<rparr>, in_uri = new_Uri, in_user = [], in_password = [], in_charset = ''utf8'',
      in_results_charset = ''utf8'', in_ssl_key = [], in_ssl_cert = [], in_ssl_ca = [], in_ssl_capath = [], in_ssl_cipher = [],
      in_post_init = [], in_ssl_used = False, in_flags = CLIENT_MULTI_RESULTS, in_opt_reconnect = False, in_exp_pwd = 0,
      in_secure_auth = True\<rparr>"

definition on_in :: "('n connection, 'a) sop \<Rightarrow> ('n conn_opening, 'a) sop" where
  "on_in m = (\<lambda>i. case m (in_conn i) of (r, c) \<Rightarrow> (r, i\<lparr>in_conn := c\<rparr>))"

definition in_set_uri :: "(uri \<Rightarrow> uri) \<Rightarrow> ('n conn_opening, unit) sop" where
  "in_set_uri f = smod (\<lambda>i. i\<lparr>in_uri := f (in_uri i)\<rparr>)"

text \<open>\<^verbatim>\<open>proxy->options\<close>, with the exception turned into one that names the option, and without.\<close>

definition set_option :: "'n nopen \<Rightarrow> string \<Rightarrow> conn_option \<Rightarrow> opt_value \<Rightarrow> ('n connection, int) sop" where
  "set_option no name opt v =
     sbind (con_call (no_options no opt v)) (\<lambda>r. case r of Inl what \<Rightarrow> sthrow (Unsupported_option what name) | Inr code \<Rightarrow> sret code)"

definition set_option_plain :: "'n nopen \<Rightarrow> conn_option \<Rightarrow> opt_value \<Rightarrow> ('n connection, int) sop" where
  "set_option_plain no opt v =
     sbind (con_call (no_options no opt v)) (\<lambda>r. case r of Inl what \<Rightarrow> sthrow (Sql_invalid_argument what) | Inr code \<Rightarrow> sret code)"

fun process_connection_option ::
    "'n nopen \<Rightarrow> opt_type \<Rightarrow> option_map \<Rightarrow> string \<Rightarrow> variant \<Rightarrow> ('n connection, bool) sop" where
  "process_connection_option no t [] key v = sret False"
| "process_connection_option no t ((k, opt, skip_list) # rest) key v =
     (if key = k \<and> \<not> skip_list then
        (case typed t v of
           None \<Rightarrow> sthrow (wrong_type (k @ '' expected '' @ no_type_name no t))
         | Some x \<Rightarrow> sthen (set_option no k opt x) (sret True))
      else process_connection_option no t rest key v)"

fun read_connection_flag :: "(string \<times> nat) list \<Rightarrow> string \<Rightarrow> variant \<Rightarrow> ('n conn_opening, bool) sop" where
  "read_connection_flag [] key v = sret False"
| "read_connection_flag ((k, fl) # rest) key v =
     (if key = k then with_bool (k @ '' expected bool'') v (\<lambda>b.
        sthen (smod (\<lambda>i. if b then i\<lparr>in_flags := in_flags i OR fl\<rparr> else i)) (sret True))
      else read_connection_flag rest key v)"

section \<open>One option\<close>

fun result_type :: "int \<Rightarrow> rs_kind res" where
  "result_type i =
     (if i = 0 then Inr TYPE_FORWARD_ONLY else if i = 1 then Inr TYPE_SCROLL_INSENSITIVE
      else if i = 2 then Inl (Sql_invalid_argument
        (''Invalid value '' @ idec i @ '' for option defaultStatementResultType. TYPE_SCROLL_SENSITIVE is not supported''))
      else Inl (Sql_invalid_argument (''Invalid value ('' @ idec i @ '' for option defaultStatementResultType'')))"

definition set_result_type :: "int \<Rightarrow> ('n connection, unit) sop" where
  "set_result_type i = (case result_type i of Inl e \<Rightarrow> sthrow e | Inr k \<Rightarrow> smod (\<lambda>c. c\<lparr>c_stmt_type := k\<rparr>))"

fun add_attributes :: "'n nopen \<Rightarrow> (string \<times> string) list \<Rightarrow> ('n connection, unit) sop" where
  "add_attributes no [] = sret ()"
| "add_attributes no ((k, v) # rest) =
     sthen (set_option no ''MYSQL_OPT_CONNECT_ATTR_ADD'' MYSQL_OPT_CONNECT_ATTR_ADD (Ov_pair (c_str k) (c_str v))) (add_attributes no rest)"

fun delete_attributes :: "'n nopen \<Rightarrow> string list \<Rightarrow> ('n connection, unit) sop" where
  "delete_attributes no [] = sret ()"
| "delete_attributes no (k # rest) =
     sthen (set_option no ''MYSQL_OPT_CONNECT_ATTR_DELETE'' MYSQL_OPT_CONNECT_ATTR_DELETE (Ov_string (c_str k))) (delete_attributes no rest)"

text \<open>The options that go to the client library or set a flag, by the tables; an unknown name is passed over.\<close>

definition init_other :: "nat \<Rightarrow> 'n nopen \<Rightarrow> string \<Rightarrow> variant \<Rightarrow> ('n conn_opening, unit) sop" where
  "init_other version no key v =
     sbind (on_in (process_connection_option no Ot_int (intOptions version) key v)) (\<lambda>a. if a then sret () else
     sbind (on_in (process_connection_option no Ot_bool (booleanOptions version) key v)) (\<lambda>b. if b then sret () else
     sbind (on_in (process_connection_option no Ot_string stringOptions key v)) (\<lambda>c. if c then sret () else
     sbind (read_connection_flag flagsOptions key v) (\<lambda>_. sret ()))))"

text \<open>
  \<^verbatim>\<open>sslVerify\<close> and \<^verbatim>\<open>sslEnforce\<close> test the pointer that \<^verbatim>\<open>get<bool>()\<close> returns, not the value.
\<close>

definition ssl_switch :: "'n nopen \<Rightarrow> ssl_mode \<Rightarrow> variant \<Rightarrow> ('n conn_opening, unit) sop" where
  "ssl_switch no mode v =
     (case v of
        Var_bool b \<Rightarrow> sthen (on_in (set_option_plain no MYSQL_OPT_SSL_MODE (Ov_ssl_mode mode))) (sret ())
      | _ \<Rightarrow> sthrow (Sql_invalid_argument ''Variant type doesn't match.''))"

definition init_connection_attribute :: "nat \<Rightarrow> 'n nopen \<Rightarrow> string \<Rightarrow> variant \<Rightarrow> ('n conn_opening, unit) sop" where
  "init_connection_attribute version no key v =
     (if key = ''OPT_CONNECT_ATTR_ADD'' then
        (case v of Var_map m \<Rightarrow> on_in (add_attributes no m)
         | _ \<Rightarrow> sthrow (wrong_type ''OPT_CONNECT_ATTR_ADD expected std::map< sql::SQLString, sql::SQLString >''))
      else if key = ''OPT_CONNECT_ATTR_DELETE'' then
        (case v of Var_list l \<Rightarrow> on_in (delete_attributes no l)
         | _ \<Rightarrow> sthrow (wrong_type ''OPT_CONNECT_ATTR_DELETE expected std::list< sql::SQLString >''))
      else if key = ''OPT_CONNECT_ATTR_RESET'' then
        sthen (on_in (set_option_plain no MYSQL_OPT_CONNECT_ATTR_RESET (Ov_int 0))) (sret ())
      else if version > 80000 \<and> key = ''sslVerify'' then ssl_switch no SSL_MODE_VERIFY_CA v
      else if version > 80000 \<and> key = ''sslEnforce'' then ssl_switch no SSL_MODE_REQUIRED v
      else init_other version no key v)"

definition init_setting :: "nat \<Rightarrow> 'n nopen \<Rightarrow> string \<Rightarrow> variant \<Rightarrow> ('n conn_opening, unit) sop" where
  "init_setting version no key v =
     (if key = ''defaultStatementResultType'' then
        with_int ''defaultStatementResultType expected sql::SQLString'' v (\<lambda>i. on_in (set_result_type i))
      else if key = ''defaultPreparedStatementResultType'' then
        sthrow (Sql_exception ''defaultPreparedStatementResultType parameter still not implemented'')
      else if key = ''metadataUseInfoSchema'' then
        with_bool ''metadataUseInfoSchema expected bool'' v (\<lambda>b. on_in (smod (\<lambda>c. c\<lparr>c_use_info_schema := b\<rparr>)))
      else if key = ''OPT_RECONNECT'' then
        with_bool ''OPT_RECONNECT expected bool'' v (\<lambda>b.
          sthen (smod (\<lambda>i. i\<lparr>in_opt_reconnect := True\<rparr>)) (on_in (smod (\<lambda>c. c\<lparr>c_reconnect := b\<rparr>))))
      else if key = ''OPT_CHARSET_NAME'' then
        with_string ''OPT_CHARSET_NAME expected sql::SQLString'' v (\<lambda>x. smod (\<lambda>i. i\<lparr>in_charset := x\<rparr>))
      else if key = ''OPT_NAMED_PIPE'' then in_set_uri (\<lambda>u. u\<lparr>u_protocol := PROTOCOL_PIPE\<rparr>)
      else if key = ''OPT_CAN_HANDLE_EXPIRED_PASSWORDS'' then
        with_bool ''OPT_CAN_HANDLE_EXPIRED_PASSWORDS expected bool'' v (\<lambda>b.
          sbind (on_in (set_option no ''MYSQL_OPT_CAN_HANDLE_EXPIRED_PASSWORDS'' MYSQL_OPT_CAN_HANDLE_EXPIRED_PASSWORDS (Ov_bool b)))
            (\<lambda>code. smod (\<lambda>i. i\<lparr>in_exp_pwd := code\<rparr>)))
      else if key = ''postInit'' then
        with_string ''postInit expected sql::SQLString'' v (\<lambda>x. smod (\<lambda>i. i\<lparr>in_post_init := x\<rparr>))
      else if key = ''useLegacyAuth'' then
        with_bool ''useLegacyAuth expected sql::SQLString'' v (\<lambda>b.
          smod (\<lambda>i. if version < 80000 then i\<lparr>in_secure_auth := \<not> b\<rparr> else i))
      else init_connection_attribute version no key v)"

definition init_option :: "nat \<Rightarrow> 'n nopen \<Rightarrow> string \<Rightarrow> variant \<Rightarrow> ('n conn_opening, unit) sop" where
  "init_option version no key v =
     (if key = ''userName'' then
        with_string ''userName expected sql::SQLString'' v (\<lambda>x. smod (\<lambda>i. i\<lparr>in_user := x\<rparr>))
      else if key = ''password'' then
        with_string ''password expected sql::SQLString'' v (\<lambda>x. smod (\<lambda>i. i\<lparr>in_password := x\<rparr>))
      else if key = ''port'' then with_int ''port expected int'' v (\<lambda>p. in_set_uri (setPort (nat (p mod 2 ^ 32))))
      else if key = ''socket'' then with_string ''socket expected sql::SQLString'' v (\<lambda>x. in_set_uri (setSocket x))
      else if key = ''pipe'' then with_string ''pipe expected sql::SQLString'' v (\<lambda>x. in_set_uri (setPipe x))
      else if key = ''schema'' then with_string ''schema expected sql::SQLString'' v (\<lambda>x. in_set_uri (setSchema_uri x))
      else if key = ''characterSetResults'' then
        with_string ''characterSetResults expected sql::SQLString'' v (\<lambda>x. smod (\<lambda>i. i\<lparr>in_results_charset := x\<rparr>))
      else if key = ''sslKey'' then
        with_string ''sslKey expected sql::SQLString'' v (\<lambda>x. smod (\<lambda>i. i\<lparr>in_ssl_key := x, in_ssl_used := True\<rparr>))
      else if key = ''sslCert'' then
        with_string ''sslCert expected sql::SQLString'' v (\<lambda>x. smod (\<lambda>i. i\<lparr>in_ssl_cert := x, in_ssl_used := True\<rparr>))
      else if key = ''sslCA'' then
        with_string ''sslCA expected sql::SQLString'' v (\<lambda>x. smod (\<lambda>i. i\<lparr>in_ssl_ca := x, in_ssl_used := True\<rparr>))
      else if key = ''sslCAPath'' then
        with_string ''sslCAPath expected sql::SQLString'' v (\<lambda>x. smod (\<lambda>i. i\<lparr>in_ssl_capath := x, in_ssl_used := True\<rparr>))
      else if key = ''sslCipher'' then
        with_string ''sslCipher expected sql::SQLString'' v (\<lambda>x. smod (\<lambda>i. i\<lparr>in_ssl_cipher := x, in_ssl_used := True\<rparr>))
      else init_setting version no key v)"

fun init_loop :: "nat \<Rightarrow> 'n nopen \<Rightarrow> options \<Rightarrow> ('n conn_opening, unit) sop" where
  "init_loop version no [] = sret ()"
| "init_loop version no ((key, v) # rest) = sthen (init_option version no key v) (init_loop version no rest)"

section \<open>\<^verbatim>\<open>init\<close>\<close>

text \<open>The address comes first, so that single options win over it; the exception's text names another option.\<close>

definition init_address :: "options \<Rightarrow> ('n conn_opening, unit) sop" where
  "init_address properties =
     (case map_of properties ''hostName'' of
        None \<Rightarrow> sret ()
      | Some v \<Rightarrow> with_string ''userName expected sql::SQLString'' v (\<lambda>x i.
          case parseUri x (in_uri i) of (Inl e, u) \<Rightarrow> (Inl e, i\<lparr>in_uri := u\<rparr>) | (Inr _, u) \<Rightarrow> (Inr (), i\<lparr>in_uri := u\<rparr>)))"

text \<open>What is sent to the library before it connects.\<close>

definition init_library :: "nat \<Rightarrow> 'n nopen \<Rightarrow> options \<Rightarrow> ('n conn_opening, unit) sop" where
  "init_library version no properties =
     sthen (scheck (\<lambda>i. u_protocol (in_uri i) \<noteq> PROTOCOL_PIPE)
       (Sql_invalid_argument ''Invalid for this platform protocol requested(MYSQL_PROTOCOL_PIPE)''))
     (sthen (\<lambda>i. on_in (sbind (con_call (no_use_protocol no (u_protocol (in_uri i)))) (\<lambda>r.
         case r of Inl what \<Rightarrow> sthrow (Sql_invalid_argument what) | Inr _ \<Rightarrow> sret ())) i)
     (sthen (\<lambda>i. if version < 80000 then on_in (set_option no ''MYSQL_SECURE_AUTH'' MYSQL_SECURE_AUTH (Ov_bool (in_secure_auth i))) i
               else (Inr 0, i))
     (sthen (\<lambda>i. on_in (set_option no ''MYSQL_SET_CHARSET_NAME'' MYSQL_SET_CHARSET_NAME (Ov_string (c_str (in_charset i)))) i)
     (sthen (\<lambda>i. if in_ssl_used i then on_in (con_call (\<lambda>n. ((), no_ssl_set no
               [in_ssl_key i, in_ssl_cert i, in_ssl_ca i, in_ssl_capath i, c_str (in_ssl_cipher i)] n))) i else (Inr (), i))
       (case map_of properties ''OPT_SSL_MODE'' of
          None \<Rightarrow> sret ()
        | Some v \<Rightarrow> sbind (on_in (process_connection_option no Ot_int (intOptions version) ''OPT_SSL_MODE'' v)) (\<lambda>_. sret ()))))))"

definition ER_MUST_CHANGE_PASSWORD_LOGIN :: nat where "ER_MUST_CHANGE_PASSWORD_LOGIN = 1820"
definition deCL_CANT_HANDLE_EXP_PWD :: nat where "deCL_CANT_HANDLE_EXP_PWD = 820"

definition connect_args_of :: "'n conn_opening \<Rightarrow> connect_args res" where
  "connect_args_of i = rbind (uri_Host (in_uri i)) (\<lambda>host.
     Inr \<lparr>ca_host = host, ca_user = in_user i, ca_password = in_password i, ca_schema = u_schema (in_uri i),
          ca_port = u_port (in_uri i), ca_socket = uri_SocketOrPipe (in_uri i), ca_flags = in_flags i\<rparr>)"

definition init_connect :: "('n, 'r, 'p, 'd) nlink \<Rightarrow> 'n nopen \<Rightarrow> ('n conn_opening, unit) sop" where
  "init_connect link no = (\<lambda>i.
     case connect_args_of i of
       Inl e \<Rightarrow> (Inl e, i)
     | Inr args \<Rightarrow> on_in (sbind (con_call (no_connect no args)) (\<lambda>ok.
         if ok then sret ()
         else sbind (con_ask (nc_errNo (nl_conn link))) (\<lambda>e.
           sthen (smod (\<lambda>c. c\<lparr>c_proxy := None\<rparr>))
             (sthrow (Native_error (if e = ER_MUST_CHANGE_PASSWORD_LOGIN \<and> in_exp_pwd i \<noteq> 0
                then deCL_CANT_HANDLE_EXP_PWD else e)))))) i)"

text \<open>The constructor of \<^verbatim>\<open>MySQL_ConnectionMetaData\<close>.\<close>

definition new_ConnectionMetaData :: "('n, 'r, 'p, 'd) nlink \<Rightarrow> ('n connection, conn_meta) sop" where
  "new_ConnectionMetaData link =
     sbind (con_ask (nl_server_version link)) (\<lambda>v.
     sbind (con_getSessionVariable link ''lower_case_table_names'') (\<lambda>l.
     sget (\<lambda>c. \<lparr>cm_server_version = v, cm_lower_case = l, cm_use_info_schema = c_use_info_schema c\<rparr>)))"

definition init_session :: "nat \<Rightarrow> ('n, 'r, 'p, 'd) nlink \<Rightarrow> 'n nopen \<Rightarrow> ('n conn_opening, unit) sop" where
  "init_session fuel link no =
     sthen (\<lambda>i. if in_opt_reconnect i
              then on_in (\<lambda>c. set_option no ''MYSQL_OPT_RECONNECT'' MYSQL_OPT_RECONNECT (Ov_bool (c_reconnect c)) c) i else (Inr 0, i))
     (sthen (on_in (con_setAutoCommit link True))
     (sthen (on_in (con_setTransactionIsolation fuel link TRANSACTION_REPEATABLE_READ))
     (sthen (\<lambda>i. if in_results_charset i \<noteq> in_charset i
                then on_in (con_setSessionVariable fuel link ''character_set_results''
                  (if length (in_results_charset i) > 0 then in_results_charset i else ''NULL'')) i else (Inr (), i))
     (sthen (on_in (sbind (new_ConnectionMetaData link) (\<lambda>m. smod (\<lambda>c. c\<lparr>c_meta := Some m\<rparr>))))
       (\<lambda>i. if length (in_post_init i) > 0
            then on_in (sbind (con_service (st_executeUpdate fuel (nl_conn link) (in_post_init i))) (\<lambda>_. sret ())) i
            else (Inr (), i))))))"

definition con_init :: "nat \<Rightarrow> nat \<Rightarrow> ('n, 'r, 'p, 'd) nlink \<Rightarrow> 'n nopen \<Rightarrow> options \<Rightarrow> ('n connection, unit) sop" where
  "con_init fuel version link no properties = (\<lambda>c.
     case sthen (init_address properties) (sthen (init_loop version no properties)
       (sthen (init_library version no properties) (sthen (init_connect link no) (init_session fuel link no)))) (new_opening c) of
       (r, i) \<Rightarrow> (r, in_conn i))"

text \<open>The constructors; the driver's \<^verbatim>\<open>connect\<close> passes the library's new connection.\<close>

definition new_Connection :: "nat \<Rightarrow> nat \<Rightarrow> ('n, 'r, 'p, 'd) nlink \<Rightarrow> 'n nopen \<Rightarrow> options \<Rightarrow> 'n \<Rightarrow> unit res \<times> 'n connection" where
  "new_Connection fuel version link no properties n = con_init fuel version link no properties (new_ConnectionData n)"

definition driver_connect ::
    "nat \<Rightarrow> nat \<Rightarrow> ('n, 'r, 'p, 'd) nlink \<Rightarrow> 'n nopen \<Rightarrow> string \<Rightarrow> string \<Rightarrow> string \<Rightarrow> 'n \<Rightarrow> unit res \<times> 'n connection" where
  "driver_connect fuel version link no hostName userName password n =
     new_Connection fuel version link no
       [(''hostName'', Var_string hostName), (''password'', Var_string password), (''userName'', Var_string userName)] n"

section \<open>Client options through untyped pointers\<close>

text \<open>
  What is written through the pointer, if anything; the option's type is the caller's concern. The
  connection is not asked whether it is closed.
\<close>

fun get_connection_option :: "'n nopen \<Rightarrow> option_map \<Rightarrow> string \<Rightarrow> ('n connection, opt_value option option) sop" where
  "get_connection_option no [] name = sret None"
| "get_connection_option no ((k, opt, skip_list) # rest) name =
     (if name = k then sbind (con_ask (no_get_option no opt)) (\<lambda>r.
        case r of Inl what \<Rightarrow> sthrow (Unsupported_option what k) | Inr x \<Rightarrow> sret (Some x))
      else get_connection_option no rest name)"

fun kind_number :: "rs_kind \<Rightarrow> int" where
  "kind_number TYPE_FORWARD_ONLY = 0" | "kind_number TYPE_SCROLL_INSENSITIVE = 1" | "kind_number TYPE_SCROLL_SENSITIVE = 2"

definition con_getClientOption_ptr ::
    "nat \<Rightarrow> ('n, 'r, 'p, 'd) nlink \<Rightarrow> 'n nopen \<Rightarrow> string \<Rightarrow> ('n connection, opt_value option) sop" where
  "con_getClientOption_ptr version link no optionName =
     (if optionName = ''metadataUseInfoSchema'' then sget (\<lambda>c. Some (Ov_bool (c_use_info_schema c)))
      else if optionName = ''defaultStatementResultType'' then sget (\<lambda>c. Some (Ov_int (kind_number (c_stmt_type c))))
      else if optionName = ''defaultPreparedStatementResultType'' then sget (\<lambda>c. Some (Ov_int (kind_number (c_ps_type c))))
      else if optionName = ''multiByteMinLength'' then con_ask (\<lambda>n. Some (Ov_int (int (fst (no_mblen no n)))))
      else if optionName = ''multiByteMaxLength'' then con_ask (\<lambda>n. Some (Ov_int (int (snd (no_mblen no n)))))
      else sbind (con_ask (nl_server_version link)) (\<lambda>v.
        if v \<ge> 50703 then
          sbind (get_connection_option no (intOptions version) optionName) (\<lambda>a. case a of Some x \<Rightarrow> sret x | None \<Rightarrow>
          sbind (get_connection_option no (booleanOptions version) optionName) (\<lambda>b. case b of Some x \<Rightarrow> sret x | None \<Rightarrow>
          sbind (get_connection_option no stringOptions optionName) (\<lambda>d. case d of Some x \<Rightarrow> sret x | None \<Rightarrow> sret None)))
        else sret None))"

definition con_getClientOption :: "('n, 'r, 'p, 'd) nlink \<Rightarrow> 'n nopen \<Rightarrow> string \<Rightarrow> ('n connection, string) sop" where
  "con_getClientOption link no optionName =
     (if optionName = ''characterSetResults'' then con_getSessionVariable link ''character_set_results''
      else if optionName = ''characterSetDirectory'' then
        con_ask (\<lambda>n. case no_charset_dir no n of None \<Rightarrow> [] | Some d \<Rightarrow> d)
      else sbind (con_ask (nl_server_version link)) (\<lambda>v.
        if v \<ge> 50703 then
          sbind (get_connection_option no stringOptions optionName) (\<lambda>a.
            case a of Some (Some (Ov_string x)) \<Rightarrow> sret x | _ \<Rightarrow> sret [])
        else sret []))"

text \<open>The value the pointer leads to; one of another type than the option's is undefined.\<close>

definition con_setClientOption_ptr :: "'n nopen \<Rightarrow> string \<Rightarrow> opt_value \<Rightarrow> ('n connection, unit) sop" where
  "con_setClientOption_ptr no optionName v =
     (if optionName = ''libmysql_debug'' then
        (case v of Ov_string x \<Rightarrow> con_call (\<lambda>n. ((), no_debug no x n)) | _ \<Rightarrow> sthrow Undefined_behaviour)
      else if optionName = ''clientTrace'' then (case v of Ov_bool b \<Rightarrow> sret () | _ \<Rightarrow> sthrow Undefined_behaviour)
      else if optionName = ''metadataUseInfoSchema'' then
        (case v of Ov_bool b \<Rightarrow> smod (\<lambda>c. c\<lparr>c_use_info_schema := b\<rparr>) | _ \<Rightarrow> sthrow Undefined_behaviour)
      else if optionName = ''defaultStatementResultType'' then
        (case v of Ov_int i \<Rightarrow> set_result_type i | _ \<Rightarrow> sthrow Undefined_behaviour)
      else if optionName = ''defaultPreparedStatementResultType'' then
        sthrow (Not_implemented ''MySQL_Prepared_Statement::setResultSetType'')
      else sret ())"

end
