(* ===== verification/Opening.thy ===== *)
theory Opening
  imports Open_Connection Row_Access
begin

text \<open>
  What opening a connection does with the options: every value set by a single option wins over the
  address, whatever other options there are; and how the library's and the server's answers lead to an
  open connection or to an exception.
\<close>

section \<open>Operations of the connection leave the other locals\<close>

definition ignores_conn :: "('n conn_opening \<Rightarrow> bool) \<Rightarrow> bool" where
  "ignores_conn I \<longleftrightarrow> (\<forall>i c. I (i\<lparr>in_conn := c\<rparr>) = I i)"

lemma keeps_on_in: "ignores_conn I \<Longrightarrow> keeps I (on_in m)"
  by (auto simp: keeps_def on_in_def ignores_conn_def split: prod.split)

lemma keeps_with:
  "(\<And>x. keeps I (f x)) \<Longrightarrow> keeps I (with_string what v f)"
  "(\<And>x. keeps I (h x)) \<Longrightarrow> keeps I (with_int what v h)"
  "(\<And>x. keeps I (k x)) \<Longrightarrow> keeps I (with_bool what v k)"
  by (simp_all add: with_string_def with_int_def with_bool_def split: variant.split)

lemma keeps_if: "keeps I m \<Longrightarrow> keeps I n \<Longrightarrow> keeps I (if b then m else n)"
  by simp

lemma keeps_variant:
  "(\<And>b. keeps I (f b)) \<Longrightarrow> keeps I (case v of Var_bool b \<Rightarrow> f b | _ \<Rightarrow> sthrow e)"
  "(\<And>m. keeps I (h m)) \<Longrightarrow> keeps I (case v of Var_map m \<Rightarrow> h m | _ \<Rightarrow> sthrow e)"
  "(\<And>l. keeps I (k l)) \<Longrightarrow> keeps I (case v of Var_list l \<Rightarrow> k l | _ \<Rightarrow> sthrow e)"
  by (cases v; simp)+

lemma keeps_uri: "(\<And>i. I i \<Longrightarrow> I (i\<lparr>in_uri := f (in_uri i)\<rparr>)) \<Longrightarrow> keeps I (in_set_uri f)"
  unfolding in_set_uri_def by (rule keeps_smod)

lemma keeps_flag:
  "(\<And>i fl. I i \<Longrightarrow> I (i\<lparr>in_flags := fl\<rparr>)) \<Longrightarrow> keeps I (read_connection_flag fs key v)"
  by (induction fs key v rule: read_connection_flag.induct) (auto intro!: keeps_with keeps_rules)

lemma keeps_other:
  assumes "ignores_conn I" "\<And>i fl. I i \<Longrightarrow> I (i\<lparr>in_flags := fl\<rparr>)"
  shows "keeps I (init_other version no key v)"
  unfolding init_other_def
  by (intro keeps_if keeps_rules keeps_on_in keeps_flag keeps_sret assms)

lemma keeps_attribute:
  assumes "ignores_conn I" "\<And>i fl. I i \<Longrightarrow> I (i\<lparr>in_flags := fl\<rparr>)"
  shows "keeps I (init_connection_attribute version no key v)"
  unfolding init_connection_attribute_def ssl_switch_def
  by (intro keeps_if keeps_variant keeps_rules keeps_on_in keeps_other keeps_sret assms)

text \<open>The parts of the state that only one or few options can change.\<close>

definition stable :: "('n conn_opening \<Rightarrow> bool) \<Rightarrow> bool" where
  "stable I \<longleftrightarrow> ignores_conn I \<and> (\<forall>i. I i \<longrightarrow>
     (\<forall>fl. I (i\<lparr>in_flags := fl\<rparr>)) \<and> (\<forall>b. I (i\<lparr>in_opt_reconnect := b\<rparr>)) \<and> (\<forall>x. I (i\<lparr>in_charset := x\<rparr>))
     \<and> (\<forall>x. I (i\<lparr>in_exp_pwd := x\<rparr>)) \<and> (\<forall>x. I (i\<lparr>in_post_init := x\<rparr>)) \<and> (\<forall>b. I (i\<lparr>in_secure_auth := b\<rparr>))
     \<and> I (i\<lparr>in_uri := (in_uri i)\<lparr>u_protocol := PROTOCOL_PIPE\<rparr>\<rparr>))"

lemma keeps_setting:
  assumes "stable I"
  shows "keeps I (init_setting version no key v)"
  unfolding init_setting_def
  by (intro keeps_if keeps_rules keeps_on_in keeps_with keeps_uri keeps_attribute keeps_sthrow)
    (use assms in \<open>simp_all add: stable_def\<close>)

section \<open>The loop over the options\<close>

lemma loop_value:
  assumes "distinct (map fst ps)" "init_loop version no ps i = (Inr (), i')"
    and other: "\<And>key v x. key \<noteq> k \<Longrightarrow> keeps (\<lambda>i. g i = x) (init_option version no key v)"
    and own: "\<And>v i i'. init_option version no k v i = (Inr (), i') \<Longrightarrow> g i' = e v"
  shows "g i' = (case map_of ps k of None \<Rightarrow> g i | Some v \<Rightarrow> e v)"
  using assms(1,2)
proof (induction ps arbitrary: i)
  case Nil
  then show ?case by simp
next
  case (Cons p ps)
  obtain key v where p: "p = (key, v)" by (cases p)
  from Cons.prems(2) obtain j where j: "init_option version no key v i = (Inr (), j)" "init_loop version no ps j = (Inr (), i')"
    by (auto simp: p split: prod.splits sum.splits)
  have IH: "g i' = (case map_of ps k of None \<Rightarrow> g j | Some v \<Rightarrow> e v)" using Cons.IH [OF _ j(2)] Cons.prems(1) by simp
  show ?case
  proof (cases "key = k")
    case True
    then have "map_of ps k = None" using Cons.prems(1) p by (simp add: map_of_eq_None_iff)
    with IH own [of v i j] j(1) True p show ?thesis by simp
  next
    case False
    have "g j = g i" using keepsD [OF other [OF False, of "g i" v] refl j(1)] .
    with IH False p show ?thesis by (simp split: option.split)
  qed
qed

lemma option_value:
  shows "key \<noteq> ''userName'' \<Longrightarrow> keeps (\<lambda>i. in_user i = x) (init_option version no key v)"
    and "key \<noteq> ''password'' \<Longrightarrow> keeps (\<lambda>i. in_password i = x) (init_option version no key v)"
    and "key \<noteq> ''schema'' \<Longrightarrow> keeps (\<lambda>i. u_schema (in_uri i) = x) (init_option version no key v)"
    and "key \<noteq> ''port'' \<Longrightarrow> keeps (\<lambda>i. u_port (in_uri i) = y) (init_option version no key v)"
  unfolding init_option_def
  by (simp_all only: if_False,
      (intro keeps_if keeps_with keeps_smod keeps_uri keeps_setting;
        simp add: stable_def ignores_conn_def setPort_def setSocket_def setPipe_def setSchema_uri_def)+)

lemma option_sets:
  shows "init_option version no ''userName'' v i = (Inr (), i') \<Longrightarrow> \<exists>x. v = Var_string x \<and> in_user i' = x"
    and "init_option version no ''password'' v i = (Inr (), i') \<Longrightarrow> \<exists>x. v = Var_string x \<and> in_password i' = x"
    and "init_option version no ''schema'' v i = (Inr (), i') \<Longrightarrow> \<exists>x. v = Var_string x \<and> u_schema (in_uri i') = c_str x"
    and "init_option version no ''port'' v i = (Inr (), i') \<Longrightarrow> \<exists>p. v = Var_int p \<and> u_port (in_uri i') = nat (p mod 2 ^ 32)"
  by (auto simp: init_option_def with_string_def with_int_def in_set_uri_def setSchema_uri_def setPort_def split: variant.splits)

text \<open>The text and the number of an option, of the type the loop insists on.\<close>

definition text_in :: "variant \<Rightarrow> string" where
  "text_in v = (case v of Var_string x \<Rightarrow> x | _ \<Rightarrow> [])"

definition port_in :: "variant \<Rightarrow> nat" where
  "port_in v = (case v of Var_int p \<Rightarrow> nat (p mod 2 ^ 32) | _ \<Rightarrow> 0)"

lemma loop_values:
  assumes "distinct (map fst ps)" "init_loop version no ps i = (Inr (), i')"
  shows "in_user i' = (case map_of ps ''userName'' of None \<Rightarrow> in_user i | Some v \<Rightarrow> text_in v)"
    and "in_password i' = (case map_of ps ''password'' of None \<Rightarrow> in_password i | Some v \<Rightarrow> text_in v)"
    and "u_schema (in_uri i') = (case map_of ps ''schema'' of None \<Rightarrow> u_schema (in_uri i) | Some v \<Rightarrow> c_str (text_in v))"
    and "u_port (in_uri i') = (case map_of ps ''port'' of None \<Rightarrow> u_port (in_uri i) | Some v \<Rightarrow> port_in v)"
proof -
  note l = loop_value [OF assms]
  show "in_user i' = (case map_of ps ''userName'' of None \<Rightarrow> in_user i | Some v \<Rightarrow> text_in v)"
    by (rule l [OF option_value(1)]) (auto simp: text_in_def dest: option_sets)
  show "in_password i' = (case map_of ps ''password'' of None \<Rightarrow> in_password i | Some v \<Rightarrow> text_in v)"
    by (rule l [OF option_value(2)]) (auto simp: text_in_def dest: option_sets)
  show "u_schema (in_uri i') = (case map_of ps ''schema'' of None \<Rightarrow> u_schema (in_uri i) | Some v \<Rightarrow> c_str (text_in v))"
    by (rule l [where g = "\<lambda>i. u_schema (in_uri i)" and e = "\<lambda>v. c_str (text_in v)", OF option_value(3)])
      (auto simp: text_in_def dest: option_sets)
  show "u_port (in_uri i') = (case map_of ps ''port'' of None \<Rightarrow> u_port (in_uri i) | Some v \<Rightarrow> port_in v)"
    by (rule l [where g = "\<lambda>i. u_port (in_uri i)" and e = port_in, OF option_value(4)])
      (auto simp: port_in_def dest: option_sets)
qed

text \<open>The address of the options, and what the library is asked to connect with.\<close>

definition address_of :: "options \<Rightarrow> uri" where
  "address_of ps = (case map_of ps ''hostName'' of None \<Rightarrow> new_Uri | Some v \<Rightarrow> snd (parseUri (text_in v) new_Uri))"

lemma address_set:
  assumes "init_address ps (new_opening c) = (Inr (), i)"
  shows "i = (new_opening c)\<lparr>in_uri := address_of ps\<rparr>"
  using assms
  by (auto simp: init_address_def address_of_def with_string_def text_in_def new_opening_def
      split: option.splits variant.splits prod.splits sum.splits)

lemma keeps_library:
  assumes "ignores_conn I"
  shows "keeps I (init_library version no ps)"
proof -
  have o: "keeps I (\<lambda>i. on_in (m i) i)" for m :: "'a conn_opening \<Rightarrow> ('a connection, 'b) sop"
    using assms by (auto simp: keeps_def on_in_def ignores_conn_def split: prod.split)
  have i: "keeps I (\<lambda>i. if P i then on_in (m i) i else (Inr x, i))"
    for P and m :: "'a conn_opening \<Rightarrow> ('a connection, 'b) sop" and x :: 'b
    using assms by (auto simp: keeps_def on_in_def ignores_conn_def split: prod.split)
  show ?thesis
    unfolding init_library_def
    by (intro keeps_sthen o i keeps_scheck) (auto intro!: keeps_sret keeps_rules keeps_on_in assms split: option.split)
qed

theorem arguments_of:
  assumes "distinct (map fst ps)" "connect_args_of i = Inr a"
    and "sthen (init_address ps) (sthen (init_loop version no ps) (init_library version no ps)) (new_opening c) = (Inr (), i)"
  shows "ca_user a = (case map_of ps ''userName'' of None \<Rightarrow> [] | Some v \<Rightarrow> text_in v)"
    and "ca_password a = (case map_of ps ''password'' of None \<Rightarrow> [] | Some v \<Rightarrow> text_in v)"
    and "ca_schema a = (case map_of ps ''schema'' of None \<Rightarrow> u_schema (address_of ps) | Some v \<Rightarrow> c_str (text_in v))"
    and "ca_port a = (case map_of ps ''port'' of None \<Rightarrow> u_port (address_of ps) | Some v \<Rightarrow> port_in v)"
proof -
  obtain j k where jk: "init_address ps (new_opening c) = (Inr (), j)" "init_loop version no ps j = (Inr (), k)"
    "init_library version no ps k = (Inr (), i)"
    using assms(3) by (auto split: prod.splits sum.splits)
  have j: "j = (new_opening c)\<lparr>in_uri := address_of ps\<rparr>" by (rule address_set [OF jk(1)])
  have "in_user i = in_user k \<and> in_password i = in_password k \<and> in_uri i = in_uri k"
    using keepsD [OF keeps_library [of "\<lambda>x. in_user x = in_user k \<and> in_password x = in_password k \<and> in_uri x = in_uri k"] _ jk(3)]
    by (simp add: ignores_conn_def)
  moreover have "ca_user a = in_user i" "ca_password a = in_password i" "ca_schema a = u_schema (in_uri i)" "ca_port a = u_port (in_uri i)"
    using assms(2) by (auto simp: connect_args_of_def rbind_def split: sum.splits)
  moreover note loop_values [OF assms(1) jk(2)]
  ultimately show "ca_user a = (case map_of ps ''userName'' of None \<Rightarrow> [] | Some v \<Rightarrow> text_in v)"
    "ca_password a = (case map_of ps ''password'' of None \<Rightarrow> [] | Some v \<Rightarrow> text_in v)"
    "ca_schema a = (case map_of ps ''schema'' of None \<Rightarrow> u_schema (address_of ps) | Some v \<Rightarrow> c_str (text_in v))"
    "ca_port a = (case map_of ps ''port'' of None \<Rightarrow> u_port (address_of ps) | Some v \<Rightarrow> port_in v)"
    by (simp_all add: j new_opening_def split: option.split)
qed

text \<open>The switches for encryption do not look at their value.\<close>

lemma ssl_switch_value:
  assumes "80000 < version" "key \<in> {''sslVerify'', ''sslEnforce''}"
  shows "init_option version no key (Var_bool b) =
    sthen (on_in (set_option_plain no MYSQL_OPT_SSL_MODE
      (Ov_ssl_mode (if key = ''sslVerify'' then SSL_MODE_VERIFY_CA else SSL_MODE_REQUIRED)))) (sret ())"
  using assms by (auto simp: init_option_def init_setting_def init_connection_attribute_def ssl_switch_def)

text \<open>The getters and setters of options do not ask whether the connection is closed.\<close>

lemma closed_option_undefined:
  assumes "c_proxy c = None"
  shows "con_getClientOption_ptr version link no ''multiByteMaxLength'' c = (Inl Undefined_behaviour, c)"
    and "con_getClientOption link no ''characterSetDirectory'' c = (Inl Undefined_behaviour, c)"
    and "con_setClientOption_ptr no ''libmysql_debug'' (Ov_string x) c = (Inl Undefined_behaviour, c)"
  using assms
  by (simp_all add: con_getClientOption_ptr_def con_getClientOption_def con_setClientOption_ptr_def con_ask_def con_call_def)

section \<open>The options of a login\<close>

definition login_options :: "string \<Rightarrow> string \<Rightarrow> string \<Rightarrow> options" where
  "login_options host user password =
     [(''hostName'', Var_string host), (''password'', Var_string password), (''userName'', Var_string user)]"

definition login_args :: "string \<Rightarrow> uri \<Rightarrow> string \<Rightarrow> string \<Rightarrow> connect_args" where
  "login_args h u user password =
     \<lparr>ca_host = h, ca_user = user, ca_password = password, ca_schema = u_schema u, ca_port = u_port u,
      ca_socket = uri_SocketOrPipe u, ca_flags = CLIENT_MULTI_RESULTS\<rparr>"

lemma host_name_option: "init_option version no ''hostName'' v = sret ()"
  by (simp add: init_option_def init_setting_def init_connection_attribute_def init_other_def on_in_def fun_eq_iff
      intOptions_def booleanOptions_def stringOptions_def flagsOptions_def)

lemma login_option:
  "init_option version no ''userName'' (Var_string x) = smod (\<lambda>i. i\<lparr>in_user := x\<rparr>)"
  "init_option version no ''password'' (Var_string x) = smod (\<lambda>i. i\<lparr>in_password := x\<rparr>)"
  "init_option version no ''schema'' (Var_string x) = in_set_uri (setSchema_uri x)"
  "init_option version no ''port'' (Var_int p) = in_set_uri (setPort (nat (p mod 2 ^ 32)))"
  by (simp_all add: init_option_def with_string_def with_int_def)

lemma con_init_from:
  assumes "sthen (init_address ps) (sthen (init_loop version no ps) (init_library version no ps)) (new_opening c) = (Inr (), i)"
  shows "con_init fuel version link no ps c = (case sthen (init_connect link no) (init_session fuel link no) i of (r, i) \<Rightarrow> (r, in_conn i))"
proof -
  have "sthen (sthen (init_address ps) (sthen (init_loop version no ps) (init_library version no ps)))
      (sthen (init_connect link no) (init_session fuel link no)) (new_opening c) = sthen (init_connect link no) (init_session fuel link no) i"
    by (rule sthen_eqI, rule assms, rule refl)
  then show ?thesis by (simp only: con_init_def sthen_assoc)
qed

section \<open>A server that accepts the connection\<close>

datatype open_event = Ev_option conn_option opt_value | Ev_protocol protocol_type | Ev_connect connect_args
  | Ev_autocommit bool | Ev_query string

definition table_names_query :: string where
  "table_names_query = ''SHOW SESSION VARIABLES LIKE '' @ [squote] @ ''lower_case_table_names'' @ [squote]"

text \<open>What is asked before the connection: the protocol, the authentication of old libraries, the character set.\<close>

definition library_events :: "nat \<Rightarrow> uri \<Rightarrow> open_event list" where
  "library_events version u =
     [Ev_protocol (u_protocol u)] @ (if version < 80000 then [Ev_option MYSQL_SECURE_AUTH (Ov_bool True)] else [])
       @ [Ev_option MYSQL_SET_CHARSET_NAME (Ov_string ''utf8'')]"

text \<open>What is asked after it.\<close>

definition isolation_text :: string where
  "isolation_text = ''SET SESSION TRANSACTION ISOLATION LEVEL REPEATABLE READ''"

definition session_events :: "open_event list" where
  "session_events = [Ev_autocommit True, Ev_query isolation_text, Ev_query table_names_query]"

text \<open>
  The library knows the options (\<open>options_known\<close>); the server accepts the connection and the statements
  that set something or choose a database, and answers the question for the variable with one row, whose
  second column is \<open>names\<close> (\<open>connecting\<close>). \<open>log\<close> is what was asked of them.
\<close>

locale options_known =
  fixes no :: "'n nopen" and log :: "'n \<Rightarrow> open_event list"
  assumes option_ok: "\<exists>code n'. no_options no opt v n = (Inr code, n') \<and> log n' = log n @ [Ev_option opt v]"
    and protocol_ok: "\<exists>code n'. no_use_protocol no p n = (Inr code, n') \<and> log n' = log n @ [Ev_protocol p]"

locale connecting = options_known no log + stored_result "nl_result link" rows_of cur
  for no :: "'n nopen" and log :: "'n \<Rightarrow> open_event list"
    and link :: "('n, 'r, 'p, 'd) nlink" and rows_of :: "'r \<Rightarrow> srow list" and cur :: "'r \<Rightarrow> nat" +
  fixes names :: string
  assumes connect_ok: "\<exists>n'. no_connect no a n = (True, n') \<and> log n' = log n @ [Ev_connect a]"
    and autocommit_ok: "\<exists>b n'. nl_autocommit link m n = (b, n') \<and> log n' = log n @ [Ev_autocommit m]"
    and set_ok: "take 4 q \<in> {''SET '', ''USE ''} \<Longrightarrow> \<exists>n'. nc_query (nl_conn link) q n = (False, n') \<and> log n' = log n @ [Ev_query q]
      \<and> nc_field_count (nl_conn link) n' = 0 \<and> \<not> nc_more_results (nl_conn link) n'"
    and show_ok: "\<exists>n' r n'' x. nc_query (nl_conn link) table_names_query n = (False, n')
      \<and> nc_store_result (nl_conn link) n' = (Some r, n'') \<and> log n'' = log n @ [Ev_query table_names_query]
      \<and> rows_of r = [[x, Some names]] \<and> cur r = 0 \<and> length (nat_fields (nl_result link) r) = 2 \<and> \<not> fm_bit (nat_fields (nl_result link) r ! 1)"

text \<open>A connection during the opening.\<close>

definition usable :: "'n connection \<Rightarrow> bool" where
  "usable c \<longleftrightarrow> c_valid c \<and> \<not> st_closed (c_service c) \<and> st_resultset_type (c_service c) = TYPE_SCROLL_INSENSITIVE \<and> \<not> c_cache_sql_mode c"

text \<open>The service statement runs an update, and a query whose result is stored.\<close>

lemma service_update:
  assumes "usable c" "c_proxy c = Some n" "nc_query api q n = (False, n')" "nc_field_count api n' = 0" "\<not> nc_more_results api n'"
  shows "\<exists>k t. con_service (st_executeUpdate (Suc fuel) api q) c = (Inr k, c\<lparr>c_proxy := Some n', c_service := t\<rparr>)
    \<and> usable (c\<lparr>c_proxy := Some n', c_service := t\<rparr>)"
  using assms
  by (intro exI [of _ "cast_int (nc_affected_rows api n')"]
      exI [of _ "(c_service c)\<lparr>st_warnings_count := nc_warning_count api n', st_warnings_loaded := False,
        st_last_update_count := nc_affected_rows api n', st_proxy := Some n'\<rparr>"])
    (simp add: con_service_def usable_def st_executeUpdate_def st_do_query_def st_checkClosed_def st_lock_def st_call_def st_ask_def
      update_one_def)

lemma service_query:
  assumes "usable c" "c_proxy c = Some n" "nc_query api q n = (False, n')" "nc_store_result api n' = (Some r, n'')"
  shows "\<exists>t. con_service (st_executeQuery api rapi q) c =
      (Inr (new_ResultSet rapi r TYPE_SCROLL_INSENSITIVE), c\<lparr>c_proxy := Some n'', c_service := t\<rparr>)
    \<and> usable (c\<lparr>c_proxy := Some n'', c_service := t\<rparr>)"
  using assms
  by (intro exI [of _ "(c_service c)\<lparr>st_last_update_count := no_update_count, st_warnings_count := nc_warning_count api n',
        st_warnings_loaded := False, st_proxy := Some n''\<rparr>"])
    (simp add: con_service_def usable_def st_executeQuery_def st_forget_count_def st_do_query_def st_checkClosed_def st_lock_def
      st_call_def st_ask_def st_get_resultset_def)

lemma same_proxy: "c_proxy c = Some n \<Longrightarrow> c\<lparr>c_proxy := Some n\<rparr> = c"
  by (cases c) simp

lemma new_metadata:
  assumes "c_proxy c = Some n" "con_getSessionVariable link ''lower_case_table_names'' c = (Inr l, c')"
    and "c_use_info_schema c' = b"
  shows "new_ConnectionMetaData link c = (Inr \<lparr>cm_server_version = nl_server_version link n, cm_lower_case = l, cm_use_info_schema = b\<rparr>, c')"
  using assms by (simp add: new_ConnectionMetaData_def con_ask_def con_call_def same_proxy)

context options_known
begin

lemma set_option_ok:
  assumes "c_proxy c = Some n"
  shows "\<exists>code n'. set_option no name opt v c = (Inr code, c\<lparr>c_proxy := Some n'\<rparr>) \<and> log n' = log n @ [Ev_option opt v]"
  using assms option_ok [of opt v n] by (auto simp: set_option_def con_call_def)

lemma library_asked:
  assumes "c_proxy (in_conn i) = Some n" "u_protocol (in_uri i) \<noteq> PROTOCOL_PIPE" "in_secure_auth i" "in_charset i = ''utf8''"
    and "\<not> in_ssl_used i" "map_of ps ''OPT_SSL_MODE'' = None"
  shows "\<exists>n'. init_library version no ps i = (Inr (), i\<lparr>in_conn := (in_conn i)\<lparr>c_proxy := Some n'\<rparr>\<rparr>)
    \<and> log n' = log n @ library_events version (in_uri i)"
proof -
  obtain k n1 where n1: "no_use_protocol no (u_protocol (in_uri i)) n = (Inr k, n1)" "log n1 = log n @ [Ev_protocol (u_protocol (in_uri i))]"
    using protocol_ok by blast
  let ?i1 = "i\<lparr>in_conn := (in_conn i)\<lparr>c_proxy := Some n1\<rparr>\<rparr>"
  have p: "(\<lambda>i. on_in (sbind (con_call (no_use_protocol no (u_protocol (in_uri i)))) (\<lambda>r.
      case r of Inl what \<Rightarrow> sthrow (Sql_invalid_argument what) | Inr _ \<Rightarrow> sret ())) i) i = (Inr (), ?i1)"
    using assms(1) n1(1) by (simp add: on_in_def con_call_def)
  let ?auth = "\<lambda>i. if version < 80000 then on_in (set_option no ''MYSQL_SECURE_AUTH'' MYSQL_SECURE_AUTH (Ov_bool (in_secure_auth i))) i
    else (Inr 0, i)"
  have "\<exists>k2 n2. ?auth ?i1 = (Inr k2, i\<lparr>in_conn := (in_conn i)\<lparr>c_proxy := Some n2\<rparr>\<rparr>)
    \<and> log n2 = log n1 @ (if version < 80000 then [Ev_option MYSQL_SECURE_AUTH (Ov_bool True)] else [])"
    using set_option_ok [of "in_conn ?i1" n1 "''MYSQL_SECURE_AUTH''" MYSQL_SECURE_AUTH "Ov_bool True"] assms(3)
    by (cases "version < 80000") (auto simp: on_in_def)
  then obtain k2 n2 where n2: "?auth ?i1 = (Inr k2, i\<lparr>in_conn := (in_conn i)\<lparr>c_proxy := Some n2\<rparr>\<rparr>)"
    "log n2 = log n1 @ (if version < 80000 then [Ev_option MYSQL_SECURE_AUTH (Ov_bool True)] else [])" by blast
  let ?i2 = "i\<lparr>in_conn := (in_conn i)\<lparr>c_proxy := Some n2\<rparr>\<rparr>"
  obtain k3 n3 where n3: "set_option no ''MYSQL_SET_CHARSET_NAME'' MYSQL_SET_CHARSET_NAME (Ov_string ''utf8'') (in_conn ?i2)
      = (Inr k3, (in_conn i)\<lparr>c_proxy := Some n3\<rparr>)" "log n3 = log n2 @ [Ev_option MYSQL_SET_CHARSET_NAME (Ov_string ''utf8'')]"
    using set_option_ok [of "in_conn ?i2" n2 "''MYSQL_SET_CHARSET_NAME''" MYSQL_SET_CHARSET_NAME "Ov_string ''utf8''"] by auto
  have c: "(\<lambda>i. on_in (set_option no ''MYSQL_SET_CHARSET_NAME'' MYSQL_SET_CHARSET_NAME (Ov_string (c_str (in_charset i)))) i) ?i2
      = (Inr k3, i\<lparr>in_conn := (in_conn i)\<lparr>c_proxy := Some n3\<rparr>\<rparr>)"
    using n3(1) assms(4) by (simp add: on_in_def c_str_def)
  have g: "scheck (\<lambda>i. u_protocol (in_uri i) \<noteq> PROTOCOL_PIPE)
      (Sql_invalid_argument ''Invalid for this platform protocol requested(MYSQL_PROTOCOL_PIPE)'') i = (Inr (), i)"
    using assms(2) by simp
  have "init_library version no ps i = (Inr (), i\<lparr>in_conn := (in_conn i)\<lparr>c_proxy := Some n3\<rparr>\<rparr>)"
    unfolding init_library_def
    by (rule sthen_eqI, rule g, rule sthen_eqI, rule p, rule sthen_eqI, rule n2(1), rule sthen_eqI, rule c)
      (use assms(5,6) in simp)
  with n1(2) n2(2) n3(2) show ?thesis by (intro exI [of _ n3]) (simp add: library_events_def)
qed

text \<open>The locals once the library may connect, and what it is asked to connect with.\<close>

lemma before_connecting:
  assumes "parseUri host new_Uri = (Inr b, u)" "u_protocol u \<noteq> PROTOCOL_PIPE"
  shows "\<exists>n'. sthen (init_address (login_options host user password)) (sthen (init_loop version no (login_options host user password))
        (init_library version no (login_options host user password))) (new_opening (new_ConnectionData n))
      = (Inr (), (new_opening (new_ConnectionData n))\<lparr>in_uri := u, in_user := user, in_password := password,
          in_conn := (new_ConnectionData n)\<lparr>c_valid := True, c_proxy := Some n'\<rparr>\<rparr>)
    \<and> log n' = log n @ library_events version u"
proof -
  let ?ps = "login_options host user password" and ?c = "(new_ConnectionData n)\<lparr>c_valid := True\<rparr>"
  let ?i = "(new_opening (new_ConnectionData n))\<lparr>in_uri := u, in_user := user, in_password := password\<rparr>"
  have a: "init_address ?ps (new_opening (new_ConnectionData n)) = (Inr (), (new_opening (new_ConnectionData n))\<lparr>in_uri := u\<rparr>)"
    using assms(1) by (simp add: init_address_def login_options_def with_string_def new_opening_def)
  have l: "init_loop version no ?ps ((new_opening (new_ConnectionData n))\<lparr>in_uri := u\<rparr>) = (Inr (), ?i)"
    by (simp add: login_options_def host_name_option login_option)
  have p: "c_proxy (in_conn ?i) = Some n" by (simp add: new_opening_def new_ConnectionData_def)
  have q: "u_protocol (in_uri ?i) \<noteq> PROTOCOL_PIPE" "in_secure_auth ?i" "in_charset ?i = ''utf8''" "\<not> in_ssl_used ?i"
    "map_of ?ps ''OPT_SSL_MODE'' = None" using assms(2) by (simp_all add: new_opening_def login_options_def)
  obtain n' where n': "init_library version no ?ps ?i = (Inr (), ?i\<lparr>in_conn := (in_conn ?i)\<lparr>c_proxy := Some n'\<rparr>\<rparr>)"
    "log n' = log n @ library_events version (in_uri ?i)"
    using library_asked [OF p q] by blast
  show ?thesis
    using a l n' by (intro exI [of _ n']) (simp add: new_opening_def new_ConnectionData_def)
qed

lemma refused:
  assumes "parseUri host new_Uri = (Inr b, u)" "u_protocol u \<noteq> PROTOCOL_PIPE" "uri_Host u = Inr h"
    and "\<And>n. \<exists>n'. no_connect no (login_args h u user password) n = (False, n') \<and> nc_errNo (nl_conn link) n' = e"
  shows "\<exists>c. driver_connect fuel version link no host user password n = (Inl (Native_error e), c) \<and> c_proxy c = None"
proof -
  obtain n1 where n1: "sthen (init_address (login_options host user password)) (sthen (init_loop version no (login_options host user password))
        (init_library version no (login_options host user password))) (new_opening (new_ConnectionData n))
      = (Inr (), (new_opening (new_ConnectionData n))\<lparr>in_uri := u, in_user := user, in_password := password,
          in_conn := (new_ConnectionData n)\<lparr>c_valid := True, c_proxy := Some n1\<rparr>\<rparr>)"
    using before_connecting [OF assms(1,2)] by blast
  obtain n2 where n2: "no_connect no (login_args h u user password) n1 = (False, n2)" "nc_errNo (nl_conn link) n2 = e"
    using assms(4) by blast
  have "con_init fuel version link no (login_options host user password) (new_ConnectionData n) =
      (Inl (Native_error e), (new_ConnectionData n)\<lparr>c_valid := True, c_proxy := None\<rparr>)"
    unfolding con_init_from [OF n1] using n2 assms(3)
    by (simp add: init_connect_def connect_args_of_def login_args_def on_in_def con_call_def con_ask_def new_opening_def)
  then show ?thesis by (simp add: driver_connect_def new_Connection_def login_options_def)
qed

end

context connecting
begin

lemma variable_read:
  assumes "usable c" "c_proxy c = Some n"
  shows "\<exists>n' t. con_getSessionVariable link ''lower_case_table_names'' c = (Inr names, c\<lparr>c_proxy := Some n', c_service := t\<rparr>)
    \<and> usable (c\<lparr>c_proxy := Some n', c_service := t\<rparr>) \<and> log n' = log n @ [Ev_query table_names_query]"
proof -
  obtain n1 r n2 x where q: "nc_query (nl_conn link) table_names_query n = (False, n1)"
    "nc_store_result (nl_conn link) n1 = (Some r, n2)" "log n2 = log n @ [Ev_query table_names_query]"
    "rows_of r = [[x, Some names]]" "cur r = 0" "length (nat_fields (nl_result link) r) = 2" "\<not> fm_bit (nat_fields (nl_result link) r ! 1)"
    using show_ok [of n] by blast
  let ?rs = "new_ResultSet (nl_result link) r TYPE_SCROLL_INSENSITIVE" and ?fs = "nat_fields (nl_result link) r"
  obtain t where t: "con_service (st_executeQuery (nl_conn link) (nl_result link) table_names_query) c =
      (Inr ?rs, c\<lparr>c_proxy := Some n2, c_service := t\<rparr>)" "usable (c\<lparr>c_proxy := Some n2, c_service := t\<rparr>)"
    using service_query [OF assms q(1,2)] by blast
  have a: "agrees (nl_result link) rows_of cur [[x, Some names]] ?fs ?rs" "rs_position ?rs = 0"
    using new_agrees [of TYPE_SCROLL_INSENSITIVE r] q(4,5) by (simp_all add: new_ResultSet_def)
  obtain rs1 where rs1: "rs_next (nl_result link) ?rs = (Inr True, rs1)" "agrees (nl_result link) rows_of cur [[x, Some names]] ?fs rs1"
    "rs_position rs1 = 1" using fetch_next [OF a(1)] a(2) by auto
  have "fst (rs_getString (nl_result link) 2 rs1) = Inr names"
    using getString_on [of "[[x, Some names]]" ?fs 1 rs1 2] rs1(2,3) q(6,7) by (simp add: on_def)
  with t(1) rs1(1) assms(1) have "con_getSessionVariable link ''lower_case_table_names'' c =
      (Inr names, c\<lparr>c_proxy := Some n2, c_service := t\<rparr>)"
    by (simp add: con_getSessionVariable_def con_checkClosed_def usable_def table_names_query_def)
  with t(2) q(3) show ?thesis by blast
qed

lemma session_set_up:
  assumes "usable (in_conn i)" "c_proxy (in_conn i) = Some n" "\<not> in_opt_reconnect i" "in_results_charset i = in_charset i"
    and "in_post_init i = []"
  shows "\<exists>c' n' v. init_session (Suc fuel) link no i = (Inr (), i\<lparr>in_conn := c'\<rparr>) \<and> usable c' \<and> c_proxy c' = Some n'
    \<and> c_autocommit c' \<and> c_isolation c' = TRANSACTION_REPEATABLE_READ
    \<and> c_meta c' = Some \<lparr>cm_server_version = v, cm_lower_case = names, cm_use_info_schema = c_use_info_schema (in_conn i)\<rparr>
    \<and> c_stmt_type c' = c_stmt_type (in_conn i) \<and> c_ps_type c' = c_ps_type (in_conn i) \<and> log n' = log n @ session_events"
proof -
  let ?c = "in_conn i"
  obtain b n1 where n1: "nl_autocommit link True n = (b, n1)" "log n1 = log n @ [Ev_autocommit True]"
    using autocommit_ok by blast
  let ?c1 = "?c\<lparr>c_proxy := Some n1, c_autocommit := True\<rparr>" and ?c1' = "?c\<lparr>c_proxy := Some n1, c_autocommit := True, c_isolation := TRANSACTION_REPEATABLE_READ\<rparr>"
  have a: "con_setAutoCommit link True ?c = (Inr (), ?c1)"
    using assms(1,2) n1(1) by (simp add: con_setAutoCommit_def con_checkClosed_def usable_def con_call_def)
  obtain n2 where n2: "nc_query (nl_conn link) isolation_text n1 = (False, n2)" "log n2 = log n1 @ [Ev_query isolation_text]"
    "nc_field_count (nl_conn link) n2 = 0" "\<not> nc_more_results (nl_conn link) n2"
    using set_ok [of isolation_text n1] by (auto simp: isolation_text_def)
  have u1: "usable ?c1'" "c_proxy ?c1' = Some n1" using assms(1) by (simp_all add: usable_def)
  obtain k t where t: "con_service (st_executeUpdate (Suc fuel) (nl_conn link) isolation_text) ?c1' = (Inr k, ?c1'\<lparr>c_proxy := Some n2, c_service := t\<rparr>)"
    "usable (?c1'\<lparr>c_proxy := Some n2, c_service := t\<rparr>)"
    using service_update [OF u1 n2(1,3,4)] by blast
  let ?c2 = "?c1'\<lparr>c_proxy := Some n2, c_service := t\<rparr>"
  have s: "con_setTransactionIsolation (Suc fuel) link TRANSACTION_REPEATABLE_READ ?c1 = (Inr (), ?c2)"
    using assms(1) t(1) by (simp add: con_setTransactionIsolation_def con_checkClosed_def usable_def isolation_query_def isolation_text_def)
  obtain n3 t3 where n3: "con_getSessionVariable link ''lower_case_table_names'' ?c2 = (Inr names, ?c2\<lparr>c_proxy := Some n3, c_service := t3\<rparr>)"
    "usable (?c2\<lparr>c_proxy := Some n3, c_service := t3\<rparr>)" "log n3 = log n2 @ [Ev_query table_names_query]"
    using variable_read [OF t(2), of n2] by auto
  let ?c3 = "?c2\<lparr>c_proxy := Some n3, c_service := t3\<rparr>"
  let ?m = "\<lparr>cm_server_version = nl_server_version link n2, cm_lower_case = names, cm_use_info_schema = c_use_info_schema ?c\<rparr>"
  have m: "new_ConnectionMetaData link ?c2 = (Inr ?m, ?c3)"
    by (rule new_metadata [OF _ n3(1)]) simp_all
  have "init_session (Suc fuel) link no i = (Inr (), i\<lparr>in_conn := ?c3\<lparr>c_meta := Some ?m\<rparr>\<rparr>)"
    using assms(3-5) a s m by (simp add: init_session_def on_in_def)
  moreover have "usable (?c3\<lparr>c_meta := Some ?m\<rparr>)" using n3(2) by (simp add: usable_def)
  ultimately show ?thesis using n1(2) n2(2) n3(3)
    by (intro exI [of _ "?c3\<lparr>c_meta := Some ?m\<rparr>"] exI [of _ n3] exI [of _ "nl_server_version link n2"]) (simp add: session_events_def)
qed

theorem opens:
  assumes "parseUri host new_Uri = (Inr b, u)" "u_protocol u \<noteq> PROTOCOL_PIPE" "uri_Host u = Inr h"
  shows "\<exists>c n' v. driver_connect (Suc fuel) version link no host user password n = (Inr (), c) \<and> usable c \<and> c_proxy c = Some n'
    \<and> c_autocommit c \<and> c_isolation c = TRANSACTION_REPEATABLE_READ
    \<and> c_meta c = Some \<lparr>cm_server_version = v, cm_lower_case = names, cm_use_info_schema = True\<rparr>
    \<and> c_stmt_type c = TYPE_SCROLL_INSENSITIVE \<and> c_ps_type c = TYPE_SCROLL_INSENSITIVE
    \<and> log n' = log n @ library_events version u @ [Ev_connect (login_args h u user password)] @ session_events"
proof -
  obtain n1 where n1: "sthen (init_address (login_options host user password)) (sthen (init_loop version no (login_options host user password))
        (init_library version no (login_options host user password))) (new_opening (new_ConnectionData n))
      = (Inr (), (new_opening (new_ConnectionData n))\<lparr>in_uri := u, in_user := user, in_password := password,
          in_conn := (new_ConnectionData n)\<lparr>c_valid := True, c_proxy := Some n1\<rparr>\<rparr>)" "log n1 = log n @ library_events version u"
    using before_connecting [OF assms(1,2)] by blast
  obtain n2 where n2: "no_connect no (login_args h u user password) n1 = (True, n2)"
    "log n2 = log n1 @ [Ev_connect (login_args h u user password)]" using connect_ok by blast
  let ?i = "(new_opening (new_ConnectionData n))\<lparr>in_uri := u, in_user := user, in_password := password,
      in_conn := (new_ConnectionData n)\<lparr>c_valid := True, c_proxy := Some n2\<rparr>\<rparr>"
  have i: "usable (in_conn ?i)" "c_proxy (in_conn ?i) = Some n2" "\<not> in_opt_reconnect ?i" "in_results_charset ?i = in_charset ?i"
    "in_post_init ?i = []"
    by (simp_all add: usable_def new_ConnectionData_def createServiceStmt_def new_Statement_def new_opening_def)
  obtain c' n' v where c': "init_session (Suc fuel) link no ?i = (Inr (), ?i\<lparr>in_conn := c'\<rparr>)" "usable c'" "c_proxy c' = Some n'"
    "c_autocommit c'" "c_isolation c' = TRANSACTION_REPEATABLE_READ"
    "c_meta c' = Some \<lparr>cm_server_version = v, cm_lower_case = names, cm_use_info_schema = c_use_info_schema (in_conn ?i)\<rparr>"
    "c_stmt_type c' = c_stmt_type (in_conn ?i)" "c_ps_type c' = c_ps_type (in_conn ?i)" "log n' = log n2 @ session_events"
    using session_set_up [OF i, of fuel] by blast
  have "con_init (Suc fuel) version link no (login_options host user password) (new_ConnectionData n) = (Inr (), c')"
    unfolding con_init_from [OF n1(1)] using n2(1) assms(3) c'(1)
    by (simp add: init_connect_def connect_args_of_def login_args_def on_in_def con_call_def new_opening_def)
  then show ?thesis using c' n1(2) n2(2)
    by (intro exI [of _ c'] exI [of _ n'] exI [of _ v])
      (simp add: driver_connect_def new_Connection_def login_options_def new_ConnectionData_def)
qed

end

end
