(* ===== verification/Program_Connection.thy ===== *)
theory Program_Connection
  imports Opening Table_Columns
begin

text \<open>
  The constructors of \<^verbatim>\<open>SQLConn\<close> (\<^verbatim>\<open>lib/objects/sql.cpp\<close>) with the driver's \<^verbatim>\<open>connect\<close> inside, on the address
  and the account of \<^verbatim>\<open>lib/config.h\<close>: the connection is opened, and the database is chosen. A library that
  records what it is asked shows that the interfaces of \<open>Opening\<close> can be met.
\<close>

section \<open>The program's connection\<close>

definition MYSQL_LOCATION :: string where "MYSQL_LOCATION = ''tcp://127.0.0.1:3306''"
definition MYSQL_USERNAME :: string where "MYSQL_USERNAME = ''root''"
definition MYSQL_PASSWORD :: string where "MYSQL_PASSWORD = ''password''"

text \<open>An exception of the constructor leaves no object; \<open>n\<close> is what the library's \<^verbatim>\<open>conn_init\<close> returned.\<close>

definition open_SQLConn :: "nat \<Rightarrow> nat \<Rightarrow> ('n, 'r, 'p, 'd) nlink \<Rightarrow> 'n nopen \<Rightarrow> 'n \<Rightarrow> 'n sqlconn res" where
  "open_SQLConn fuel version link no n =
     (case driver_connect fuel version link no MYSQL_LOCATION MYSQL_USERNAME MYSQL_PASSWORD n of
        (Inl e, _) \<Rightarrow> Inl e | (Inr _, c) \<Rightarrow> Inr (new_SQLConn c))"

definition open_SQLConn_database :: "nat \<Rightarrow> nat \<Rightarrow> ('n, 'r, 'p, 'd) nlink \<Rightarrow> 'n nopen \<Rightarrow> string \<Rightarrow> 'n \<Rightarrow> 'n sqlconn res" where
  "open_SQLConn_database fuel version link no database n =
     (case driver_connect fuel version link no MYSQL_LOCATION MYSQL_USERNAME MYSQL_PASSWORD n of
        (Inl e, _) \<Rightarrow> Inl e
      | (Inr _, c) \<Rightarrow> (case new_SQLConn_database link c database of (Inl e, _) \<Rightarrow> Inl e | (Inr _, s) \<Rightarrow> Inr s))"

text \<open>The address of the program is the local server's.\<close>

definition program_uri :: uri where
  "program_uri = \<lparr>u_protocol = PROTOCOL_TCP, u_port = 3306, u_host = ''127.0.0.1'', u_schema = []\<rparr>"

lemma program_address: "parseUri MYSQL_LOCATION new_Uri = (Inr True, program_uri)"
proof -
  have "itoa 3306 = Inr ''3306''" by code_simp
  then have "parse_host (''127.0.0.1'' @ '':'' @ ''3306'') new_Uri = (Inr True, program_uri)"
    by (subst parse_host_plain [of _ 3306]) (simp_all add: plain_def new_Uri_def program_uri_def)
  then show ?thesis
    using parseUri_tcp [of "''127.0.0.1:3306''" new_Uri] by (simp add: MYSQL_LOCATION_def)
qed

definition program_args :: connect_args where
  "program_args = login_args ''127.0.0.1'' program_uri MYSQL_USERNAME MYSQL_PASSWORD"

context connecting
begin

lemma program_connects:
  assumes "database \<noteq> []"
  shows "\<exists>s n'. open_SQLConn_database (Suc fuel) version link no database n = Inr s \<and> sq_database s = database
    \<and> c_proxy (sq_conn s) = Some n' \<and> c_valid (sq_conn s) \<and> c_autocommit (sq_conn s)
    \<and> c_isolation (sq_conn s) = TRANSACTION_REPEATABLE_READ
    \<and> log n' = log n @ library_events version program_uri @ [Ev_connect program_args] @ session_events
        @ [Ev_query (''USE `'' @ database @ ''`'')]"
proof -
  have u: "u_protocol program_uri \<noteq> PROTOCOL_PIPE" "uri_Host program_uri = Inr ''127.0.0.1''"
    by (simp_all add: program_uri_def uri_Host_def)
  obtain c n1 where c: "driver_connect (Suc fuel) version link no MYSQL_LOCATION MYSQL_USERNAME MYSQL_PASSWORD n = (Inr (), c)"
    "usable c" "c_proxy c = Some n1" "c_autocommit c" "c_isolation c = TRANSACTION_REPEATABLE_READ"
    "log n1 = log n @ library_events version program_uri @ [Ev_connect program_args] @ session_events"
    using opens [OF program_address u, of fuel version MYSQL_USERNAME MYSQL_PASSWORD n] unfolding program_args_def by blast
  obtain n2 where n2: "nc_query (nl_conn link) (''USE `'' @ database @ ''`'') n1 = (False, n2)"
    "log n2 = log n1 @ [Ev_query (''USE `'' @ database @ ''`'')]"
    using set_ok [of "''USE `'' @ database @ ''`''" n1] by auto
  have v: "c_valid c" using c(2) by (simp add: usable_def)
  have "con_setSchema link database c = (Inr (), c\<lparr>c_proxy := Some n2\<rparr>)"
    by (rule setSchema_ok [OF v c(3) n2(1)])
  then have "open_SQLConn_database (Suc fuel) version link no database n =
      Inr \<lparr>sq_database = database, sq_conn = c\<lparr>c_proxy := Some n2\<rparr>\<rparr>"
    using c(1) assms by (simp add: open_SQLConn_database_def new_SQLConn_database_def update_database_def new_SQLConn_def on_conn_def)
  then show ?thesis using c(4-6) n2(2) v by auto
qed

end

section \<open>A library that records\<close>

record front =
  fr_log :: "open_event list"
  fr_pending :: "client option"

definition front_log :: "open_event \<Rightarrow> front \<Rightarrow> front" where
  "front_log e f = f\<lparr>fr_log := fr_log f @ [e]\<rparr>"

definition variable_row :: "string \<Rightarrow> client" where
  "variable_row names =
     \<lparr>cl_rows = [[Some ''lower_case_table_names'', Some names]], cl_cur = 0,
      cl_fields = [\<lparr>fm_name = ''Variable_name'', fm_bit = False, fm_flags = 0, fm_length = 64\<rparr>,
        \<lparr>fm_name = ''Value'', fm_bit = False, fm_flags = 0, fm_length = 1024\<rparr>], cl_proxy = Some 0\<rparr>"

definition front_conn :: "string \<Rightarrow> (front, client) nconn" where
  "front_conn names =
     \<lparr>nc_query = (\<lambda>q f. (False, (front_log (Ev_query q) f)\<lparr>fr_pending := if q = table_names_query then Some (variable_row names) else None\<rparr>)),
      nc_errNo = (\<lambda>f. 2002),  \<comment> \<open>of a refused connection\<close>
      nc_warning_count = (\<lambda>f. 0),
      nc_field_count = (\<lambda>f. case fr_pending f of None \<Rightarrow> 0 | Some r \<Rightarrow> 2), nc_affected_rows = (\<lambda>f. 0),
      nc_use_result = (\<lambda>f. (fr_pending f, f)), nc_store_result = (\<lambda>f. (fr_pending f, f)),
      nc_more_results = (\<lambda>f. False), nc_next_result = (\<lambda>f. (- 1, f))\<rparr>"

definition front_link :: "string \<Rightarrow> (front, client, 'd recorder, 'd) nlink" where
  "front_link names =
     \<lparr>nl_conn = front_conn names, nl_result = client_api, nl_stmt = recorder_api,
      nl_autocommit = (\<lambda>b f. (False, front_log (Ev_autocommit b) f)), nl_commit = (\<lambda>f. (True, f)), nl_rollback = (\<lambda>f. (False, f)),
      nl_server_version = (\<lambda>f. 80011), nl_info = (\<lambda>f. []), nl_escapeString = (\<lambda>s f. s),
      nl_ping = (\<lambda>f. (False, f)), nl_set_reconnect = (\<lambda>b f. f),
      nl_stmt_init = (\<lambda>f. (Some \<lparr>rec_calls = [], rec_params = 0\<rparr>, f)),
      nl_prepare = (\<lambda>sql p. (False, p\<lparr>rec_params := placeholders False sql\<rparr>)),
      nl_stmt_close = (\<lambda>p f. f)\<rparr>"

definition front_open :: "bool \<Rightarrow> front nopen" where
  "front_open up =
     \<lparr>no_options = (\<lambda>opt v f. (Inr 0, front_log (Ev_option opt v) f)),
      no_use_protocol = (\<lambda>p f. (Inr 0, front_log (Ev_protocol p) f)), no_ssl_set = (\<lambda>xs f. f),
      no_connect = (\<lambda>a f. (up, front_log (Ev_connect a) f)), no_get_option = (\<lambda>opt f. Inr None),
      no_mblen = (\<lambda>f. (1, 4)), no_charset_dir = (\<lambda>f. None), no_debug = (\<lambda>s f. f),
      no_type_name = (\<lambda>t. case t of Ot_int \<Rightarrow> ''i'' | Ot_bool \<Rightarrow> ''b'' | Ot_string \<Rightarrow> ''N3sql9SQLStringE'')\<rparr>"

interpretation front_options: options_known "front_open up" fr_log
  by unfold_locales (simp_all add: front_open_def front_log_def)

interpretation front: connecting "front_open True" fr_log "front_link names" cl_rows cl_cur names
  by unfold_locales
    (auto simp: front_open_def front_link_def front_conn_def front_log_def table_names_query_def variable_row_def client_api_def)

end
