(* ===== verification/Db_Types.thy ===== *)
theory Db_Types
  imports Art_Result_Set Column_Types
begin

text \<open>
  The types of the database as the driver describes them: the table \<^verbatim>\<open>mysqlc_types\<close> of
  \<^verbatim>\<open>mysqlconnector/jdbc/driver/mysql_metadata.cpp\<close>, the rows that \<^verbatim>\<open>getTypeInfo\<close> makes of it, and which
  conversions are said to be supported.
\<close>

section \<open>Type codes\<close>

text \<open>The numbers of the enumeration \<^verbatim>\<open>sql::DataType\<close>.\<close>

definition all_sql_types :: "sql_type list" where
  "all_sql_types = [DT_UNKNOWN, DT_BIT, DT_TINYINT, DT_SMALLINT, DT_MEDIUMINT, DT_INTEGER, DT_BIGINT, DT_REAL, DT_DOUBLE,
     DT_DECIMAL, DT_NUMERIC, DT_CHAR, DT_BINARY, DT_VARCHAR, DT_VARBINARY, DT_LONGVARCHAR, DT_LONGVARBINARY, DT_TIMESTAMP,
     DT_DATE, DT_TIME, DT_YEAR, DT_GEOMETRY, DT_ENUM, DT_SET, DT_SQLNULL, DT_JSON]"

fun index_of :: "'a \<Rightarrow> 'a list \<Rightarrow> nat" where
  "index_of x [] = 0"
| "index_of x (y # ys) = (if x = y then 0 else 1 + index_of x ys)"

definition sql_type_code :: "sql_type \<Rightarrow> nat" where
  "sql_type_code t = index_of t all_sql_types"

definition typeNullable :: int where "typeNullable = 1"
definition typeSearchable :: int where "typeSearchable = 3"

section \<open>The table\<close>

record type_info =
  ti_typeName :: string
  ti_dataType :: sql_type
  ti_precision :: nat
  ti_literalPrefix :: string
  ti_literalSuffix :: string
  ti_createParams :: string
  ti_nullable :: int
  ti_caseSensitive :: bool
  ti_searchable :: int
  ti_isUnsigned :: bool
  ti_fixedPrecScale :: bool
  ti_autoIncrement :: bool
  ti_localTypeName :: string
  ti_minScale :: int
  ti_maxScale :: int
  ti_sqlDataType :: int
  ti_sqlDateTimeSub :: int
  ti_numPrecRadix :: int

definition type_BIT :: type_info where
  "type_BIT = \<lparr>ti_typeName = ''BIT'', ti_dataType = DT_BIT, ti_precision = 1, ti_literalPrefix = [], ti_literalSuffix = [],
     ti_createParams = [], ti_nullable = typeNullable, ti_caseSensitive = False, ti_searchable = typeSearchable,
     ti_isUnsigned = False, ti_fixedPrecScale = False, ti_autoIncrement = False, ti_localTypeName = ''BIT'', ti_minScale = 0,
     ti_maxScale = 0, ti_sqlDataType = 0, ti_sqlDateTimeSub = 0, ti_numPrecRadix = 10\<rparr>"

definition type_TINYINT :: type_info where
  "type_TINYINT = \<lparr>ti_typeName = ''TINYINT'', ti_dataType = DT_TINYINT, ti_precision = 3, ti_literalPrefix = [], ti_literalSuffix = [],
     ti_createParams = ''[(M)] [ZEROFILL]'', ti_nullable = typeNullable, ti_caseSensitive = False, ti_searchable = typeSearchable,
     ti_isUnsigned = False, ti_fixedPrecScale = False, ti_autoIncrement = True, ti_localTypeName = ''TINYINT'', ti_minScale = 0,
     ti_maxScale = 0, ti_sqlDataType = 0, ti_sqlDateTimeSub = 0, ti_numPrecRadix = 10\<rparr>"

definition type_TINYINT_UNSIGNED :: type_info where
  "type_TINYINT_UNSIGNED = \<lparr>ti_typeName = ''TINYINT UNSIGNED'', ti_dataType = DT_TINYINT, ti_precision = 3, ti_literalPrefix = [], ti_literalSuffix = [],
     ti_createParams = ''[(M)] [UNSIGNED] [ZEROFILL]'', ti_nullable = typeNullable, ti_caseSensitive = False, ti_searchable = typeSearchable,
     ti_isUnsigned = True, ti_fixedPrecScale = False, ti_autoIncrement = True, ti_localTypeName = ''TINYINT UNSIGNED'', ti_minScale = 0,
     ti_maxScale = 0, ti_sqlDataType = 0, ti_sqlDateTimeSub = 0, ti_numPrecRadix = 10\<rparr>"

definition type_TINYINT_UNSIGNED_ZEROFILL :: type_info where
  "type_TINYINT_UNSIGNED_ZEROFILL = \<lparr>ti_typeName = ''TINYINT UNSIGNED ZEROFILL'', ti_dataType = DT_TINYINT, ti_precision = 3, ti_literalPrefix = [], ti_literalSuffix = [],
     ti_createParams = ''[(M)] [UNSIGNED]'', ti_nullable = typeNullable, ti_caseSensitive = False, ti_searchable = typeSearchable,
     ti_isUnsigned = True, ti_fixedPrecScale = False, ti_autoIncrement = True, ti_localTypeName = ''TINYINT UNSIGNED ZEROFILL'', ti_minScale = 0,
     ti_maxScale = 0, ti_sqlDataType = 0, ti_sqlDateTimeSub = 0, ti_numPrecRadix = 10\<rparr>"

definition type_BIGINT :: type_info where
  "type_BIGINT = \<lparr>ti_typeName = ''BIGINT'', ti_dataType = DT_BIGINT, ti_precision = 19, ti_literalPrefix = [], ti_literalSuffix = [],
     ti_createParams = ''[(M)] [ZEROFILL]'', ti_nullable = typeNullable, ti_caseSensitive = False, ti_searchable = typeSearchable,
     ti_isUnsigned = False, ti_fixedPrecScale = False, ti_autoIncrement = True, ti_localTypeName = ''BIGINT'', ti_minScale = 0,
     ti_maxScale = 0, ti_sqlDataType = 0, ti_sqlDateTimeSub = 0, ti_numPrecRadix = 10\<rparr>"

definition type_BIGINT_UNSIGNED :: type_info where
  "type_BIGINT_UNSIGNED = \<lparr>ti_typeName = ''BIGINT UNSIGNED'', ti_dataType = DT_BIGINT, ti_precision = 19, ti_literalPrefix = [], ti_literalSuffix = [],
     ti_createParams = ''[(M)] [ZEROFILL]'', ti_nullable = typeNullable, ti_caseSensitive = False, ti_searchable = typeSearchable,
     ti_isUnsigned = True, ti_fixedPrecScale = False, ti_autoIncrement = True, ti_localTypeName = ''BIGINT UNSIGNED'', ti_minScale = 0,
     ti_maxScale = 0, ti_sqlDataType = 0, ti_sqlDateTimeSub = 0, ti_numPrecRadix = 10\<rparr>"

definition type_BIGINT_UNSIGNED_ZEROFILL :: type_info where
  "type_BIGINT_UNSIGNED_ZEROFILL = \<lparr>ti_typeName = ''BIGINT UNSIGNED ZEROFILL'', ti_dataType = DT_BIGINT, ti_precision = 19, ti_literalPrefix = [], ti_literalSuffix = [],
     ti_createParams = ''[(M)]'', ti_nullable = typeNullable, ti_caseSensitive = False, ti_searchable = typeSearchable,
     ti_isUnsigned = True, ti_fixedPrecScale = False, ti_autoIncrement = True, ti_localTypeName = ''BIGINT UNSIGNED ZEROFILL'', ti_minScale = 0,
     ti_maxScale = 0, ti_sqlDataType = 0, ti_sqlDateTimeSub = 0, ti_numPrecRadix = 10\<rparr>"

definition type_LONG_VARBINARY :: type_info where
  "type_LONG_VARBINARY = \<lparr>ti_typeName = ''LONG VARBINARY'', ti_dataType = DT_LONGVARBINARY, ti_precision = 16777215, ti_literalPrefix = [squote], ti_literalSuffix = [squote],
     ti_createParams = [], ti_nullable = typeNullable, ti_caseSensitive = True, ti_searchable = typeSearchable,
     ti_isUnsigned = False, ti_fixedPrecScale = False, ti_autoIncrement = False, ti_localTypeName = ''LONG VARBINARY'', ti_minScale = 0,
     ti_maxScale = 0, ti_sqlDataType = 0, ti_sqlDateTimeSub = 0, ti_numPrecRadix = 10\<rparr>"

definition type_MEDIUMBLOB :: type_info where
  "type_MEDIUMBLOB = \<lparr>ti_typeName = ''MEDIUMBLOB'', ti_dataType = DT_LONGVARBINARY, ti_precision = 16777215, ti_literalPrefix = [squote], ti_literalSuffix = [squote],
     ti_createParams = [], ti_nullable = typeNullable, ti_caseSensitive = True, ti_searchable = typeSearchable,
     ti_isUnsigned = False, ti_fixedPrecScale = False, ti_autoIncrement = False, ti_localTypeName = ''MEDIUMBLOB'', ti_minScale = 0,
     ti_maxScale = 0, ti_sqlDataType = 0, ti_sqlDateTimeSub = 0, ti_numPrecRadix = 10\<rparr>"

definition type_LONGBLOB :: type_info where
  "type_LONGBLOB = \<lparr>ti_typeName = ''LONGBLOB'', ti_dataType = DT_LONGVARBINARY, ti_precision = 0xFFFFFFFF, ti_literalPrefix = [squote], ti_literalSuffix = [squote],
     ti_createParams = [], ti_nullable = typeNullable, ti_caseSensitive = True, ti_searchable = typeSearchable,
     ti_isUnsigned = False, ti_fixedPrecScale = False, ti_autoIncrement = False, ti_localTypeName = ''LONGBLOB'', ti_minScale = 0,
     ti_maxScale = 0, ti_sqlDataType = 0, ti_sqlDateTimeSub = 0, ti_numPrecRadix = 10\<rparr>"

definition type_BLOB :: type_info where
  "type_BLOB = \<lparr>ti_typeName = ''BLOB'', ti_dataType = DT_LONGVARBINARY, ti_precision = 0xFFFF, ti_literalPrefix = [squote], ti_literalSuffix = [squote],
     ti_createParams = [], ti_nullable = typeNullable, ti_caseSensitive = True, ti_searchable = typeSearchable,
     ti_isUnsigned = False, ti_fixedPrecScale = False, ti_autoIncrement = False, ti_localTypeName = ''BLOB'', ti_minScale = 0,
     ti_maxScale = 0, ti_sqlDataType = 0, ti_sqlDateTimeSub = 0, ti_numPrecRadix = 10\<rparr>"

definition type_TINYBLOB :: type_info where
  "type_TINYBLOB = \<lparr>ti_typeName = ''TINYBLOB'', ti_dataType = DT_LONGVARBINARY, ti_precision = 0xFF, ti_literalPrefix = [squote], ti_literalSuffix = [squote],
     ti_createParams = [], ti_nullable = typeNullable, ti_caseSensitive = True, ti_searchable = typeSearchable,
     ti_isUnsigned = False, ti_fixedPrecScale = False, ti_autoIncrement = False, ti_localTypeName = ''TINYBLOB'', ti_minScale = 0,
     ti_maxScale = 0, ti_sqlDataType = 0, ti_sqlDateTimeSub = 0, ti_numPrecRadix = 10\<rparr>"

definition type_VARBINARY :: type_info where
  "type_VARBINARY = \<lparr>ti_typeName = ''VARBINARY'', ti_dataType = DT_VARBINARY, ti_precision = 0xFF, ti_literalPrefix = [squote], ti_literalSuffix = [squote],
     ti_createParams = ''(M)'', ti_nullable = typeNullable, ti_caseSensitive = True, ti_searchable = typeSearchable,
     ti_isUnsigned = False, ti_fixedPrecScale = False, ti_autoIncrement = False, ti_localTypeName = ''VARBINARY'', ti_minScale = 0,
     ti_maxScale = 0, ti_sqlDataType = 0, ti_sqlDateTimeSub = 0, ti_numPrecRadix = 10\<rparr>"

definition type_BINARY :: type_info where
  "type_BINARY = \<lparr>ti_typeName = ''BINARY'', ti_dataType = DT_BINARY, ti_precision = 0xFF, ti_literalPrefix = [squote], ti_literalSuffix = [squote],
     ti_createParams = ''(M)'', ti_nullable = typeNullable, ti_caseSensitive = True, ti_searchable = typeSearchable,
     ti_isUnsigned = False, ti_fixedPrecScale = False, ti_autoIncrement = False, ti_localTypeName = ''BINARY'', ti_minScale = 0,
     ti_maxScale = 0, ti_sqlDataType = 0, ti_sqlDateTimeSub = 0, ti_numPrecRadix = 10\<rparr>"

definition type_LONG_VARCHAR :: type_info where
  "type_LONG_VARCHAR = \<lparr>ti_typeName = ''LONG VARCHAR'', ti_dataType = DT_LONGVARCHAR, ti_precision = 0xFFFFFF, ti_literalPrefix = [squote], ti_literalSuffix = [squote],
     ti_createParams = [], ti_nullable = typeNullable, ti_caseSensitive = False, ti_searchable = typeSearchable,
     ti_isUnsigned = False, ti_fixedPrecScale = False, ti_autoIncrement = False, ti_localTypeName = ''LONG VARCHAR'', ti_minScale = 0,
     ti_maxScale = 0, ti_sqlDataType = 0, ti_sqlDateTimeSub = 0, ti_numPrecRadix = 10\<rparr>"

definition type_MEDIUMTEXT :: type_info where
  "type_MEDIUMTEXT = \<lparr>ti_typeName = ''MEDIUMTEXT'', ti_dataType = DT_LONGVARCHAR, ti_precision = 0xFFFFFF, ti_literalPrefix = [squote], ti_literalSuffix = [squote],
     ti_createParams = [], ti_nullable = typeNullable, ti_caseSensitive = False, ti_searchable = typeSearchable,
     ti_isUnsigned = False, ti_fixedPrecScale = False, ti_autoIncrement = False, ti_localTypeName = ''MEDIUMTEXT'', ti_minScale = 0,
     ti_maxScale = 0, ti_sqlDataType = 0, ti_sqlDateTimeSub = 0, ti_numPrecRadix = 10\<rparr>"

definition type_LONGTEXT :: type_info where
  "type_LONGTEXT = \<lparr>ti_typeName = ''LONGTEXT'', ti_dataType = DT_LONGVARCHAR, ti_precision = 0xFFFFFF, ti_literalPrefix = [squote], ti_literalSuffix = [squote],
     ti_createParams = [], ti_nullable = typeNullable, ti_caseSensitive = False, ti_searchable = typeSearchable,
     ti_isUnsigned = False, ti_fixedPrecScale = False, ti_autoIncrement = False, ti_localTypeName = ''LONGTEXT'', ti_minScale = 0,
     ti_maxScale = 0, ti_sqlDataType = 0, ti_sqlDateTimeSub = 0, ti_numPrecRadix = 10\<rparr>"

definition type_TEXT :: type_info where
  "type_TEXT = \<lparr>ti_typeName = ''TEXT'', ti_dataType = DT_LONGVARCHAR, ti_precision = 0xFFFF, ti_literalPrefix = [squote], ti_literalSuffix = [squote],
     ti_createParams = [], ti_nullable = typeNullable, ti_caseSensitive = False, ti_searchable = typeSearchable,
     ti_isUnsigned = False, ti_fixedPrecScale = False, ti_autoIncrement = False, ti_localTypeName = ''TEXT'', ti_minScale = 0,
     ti_maxScale = 0, ti_sqlDataType = 0, ti_sqlDateTimeSub = 0, ti_numPrecRadix = 10\<rparr>"

definition type_TINYTEXT :: type_info where
  "type_TINYTEXT = \<lparr>ti_typeName = ''TINYTEXT'', ti_dataType = DT_LONGVARCHAR, ti_precision = 0xFF, ti_literalPrefix = [squote], ti_literalSuffix = [squote],
     ti_createParams = [], ti_nullable = typeNullable, ti_caseSensitive = False, ti_searchable = typeSearchable,
     ti_isUnsigned = False, ti_fixedPrecScale = False, ti_autoIncrement = False, ti_localTypeName = ''TINYTEXT'', ti_minScale = 0,
     ti_maxScale = 0, ti_sqlDataType = 0, ti_sqlDateTimeSub = 0, ti_numPrecRadix = 10\<rparr>"

definition type_CHAR :: type_info where
  "type_CHAR = \<lparr>ti_typeName = ''CHAR'', ti_dataType = DT_CHAR, ti_precision = 0xFF, ti_literalPrefix = [squote], ti_literalSuffix = [squote],
     ti_createParams = ''(M)'', ti_nullable = typeNullable, ti_caseSensitive = False, ti_searchable = typeSearchable,
     ti_isUnsigned = False, ti_fixedPrecScale = False, ti_autoIncrement = False, ti_localTypeName = ''CHAR'', ti_minScale = 0,
     ti_maxScale = 0, ti_sqlDataType = 0, ti_sqlDateTimeSub = 0, ti_numPrecRadix = 10\<rparr>"

definition type_NUMERIC :: type_info where
  "type_NUMERIC = \<lparr>ti_typeName = ''NUMERIC'', ti_dataType = DT_NUMERIC, ti_precision = 64, ti_literalPrefix = [], ti_literalSuffix = [],
     ti_createParams = ''[(M[,D])] [ZEROFILL]'', ti_nullable = typeNullable, ti_caseSensitive = False, ti_searchable = typeSearchable,
     ti_isUnsigned = False, ti_fixedPrecScale = False, ti_autoIncrement = True, ti_localTypeName = ''NUMERIC'', ti_minScale = -308,
     ti_maxScale = 308, ti_sqlDataType = 0, ti_sqlDateTimeSub = 0, ti_numPrecRadix = 10\<rparr>"

definition type_DECIMAL :: type_info where
  "type_DECIMAL = \<lparr>ti_typeName = ''DECIMAL'', ti_dataType = DT_DECIMAL, ti_precision = 64, ti_literalPrefix = [], ti_literalSuffix = [],
     ti_createParams = ''[(M[,D])] [ZEROFILL] [UNSIGNED]'', ti_nullable = typeNullable, ti_caseSensitive = False, ti_searchable = typeSearchable,
     ti_isUnsigned = False, ti_fixedPrecScale = False, ti_autoIncrement = True, ti_localTypeName = ''DECIMAL'', ti_minScale = -308,
     ti_maxScale = 308, ti_sqlDataType = 0, ti_sqlDateTimeSub = 0, ti_numPrecRadix = 10\<rparr>"

definition type_DECIMAL_UNSIGNED :: type_info where
  "type_DECIMAL_UNSIGNED = \<lparr>ti_typeName = ''DECIMAL UNSIGNED'', ti_dataType = DT_DECIMAL, ti_precision = 64, ti_literalPrefix = [], ti_literalSuffix = [],
     ti_createParams = ''[(M[,D])] [ZEROFILL]'', ti_nullable = typeNullable, ti_caseSensitive = False, ti_searchable = typeSearchable,
     ti_isUnsigned = True, ti_fixedPrecScale = False, ti_autoIncrement = True, ti_localTypeName = ''DECIMAL UNSIGNED'', ti_minScale = -308,
     ti_maxScale = 308, ti_sqlDataType = 0, ti_sqlDateTimeSub = 0, ti_numPrecRadix = 10\<rparr>"

definition type_DECIMAL_UNSIGNED_ZEROFILL :: type_info where
  "type_DECIMAL_UNSIGNED_ZEROFILL = \<lparr>ti_typeName = ''DECIMAL UNSIGNED ZEROFILL'', ti_dataType = DT_DECIMAL, ti_precision = 64, ti_literalPrefix = [], ti_literalSuffix = [],
     ti_createParams = ''[(M[,D])]'', ti_nullable = typeNullable, ti_caseSensitive = False, ti_searchable = typeSearchable,
     ti_isUnsigned = True, ti_fixedPrecScale = False, ti_autoIncrement = True, ti_localTypeName = ''DECIMAL UNSIGNED ZEROFILL'', ti_minScale = -308,
     ti_maxScale = 308, ti_sqlDataType = 0, ti_sqlDateTimeSub = 0, ti_numPrecRadix = 10\<rparr>"

definition type_INT :: type_info where
  "type_INT = \<lparr>ti_typeName = ''INT'', ti_dataType = DT_INTEGER, ti_precision = 10, ti_literalPrefix = [], ti_literalSuffix = [],
     ti_createParams = ''[(M)] [UNSIGNED] [ZEROFILL]'', ti_nullable = typeNullable, ti_caseSensitive = False, ti_searchable = typeSearchable,
     ti_isUnsigned = False, ti_fixedPrecScale = False, ti_autoIncrement = True, ti_localTypeName = ''INT'', ti_minScale = 0,
     ti_maxScale = 0, ti_sqlDataType = 0, ti_sqlDateTimeSub = 0, ti_numPrecRadix = 10\<rparr>"

definition type_INT_UNSIGNED :: type_info where
  "type_INT_UNSIGNED = \<lparr>ti_typeName = ''INT UNSIGNED'', ti_dataType = DT_INTEGER, ti_precision = 10, ti_literalPrefix = [], ti_literalSuffix = [],
     ti_createParams = ''[(M)] [ZEROFILL]'', ti_nullable = typeNullable, ti_caseSensitive = False, ti_searchable = typeSearchable,
     ti_isUnsigned = False, ti_fixedPrecScale = False, ti_autoIncrement = True, ti_localTypeName = ''INT UNSIGNED'', ti_minScale = 0,
     ti_maxScale = 0, ti_sqlDataType = 0, ti_sqlDateTimeSub = 0, ti_numPrecRadix = 10\<rparr>"

definition type_INT_UNSIGNED_ZEROFILL :: type_info where
  "type_INT_UNSIGNED_ZEROFILL = \<lparr>ti_typeName = ''INT UNSIGNED ZEROFILL'', ti_dataType = DT_INTEGER, ti_precision = 10, ti_literalPrefix = [], ti_literalSuffix = [],
     ti_createParams = ''[(M)]'', ti_nullable = typeNullable, ti_caseSensitive = False, ti_searchable = typeSearchable,
     ti_isUnsigned = False, ti_fixedPrecScale = False, ti_autoIncrement = True, ti_localTypeName = ''INT UNSIGNED ZEROFILL'', ti_minScale = 0,
     ti_maxScale = 0, ti_sqlDataType = 0, ti_sqlDateTimeSub = 0, ti_numPrecRadix = 10\<rparr>"

definition type_MEDIUMINT :: type_info where
  "type_MEDIUMINT = \<lparr>ti_typeName = ''MEDIUMINT'', ti_dataType = DT_MEDIUMINT, ti_precision = 7, ti_literalPrefix = [], ti_literalSuffix = [],
     ti_createParams = ''[(M)] [UNSIGNED] [ZEROFILL]'', ti_nullable = typeNullable, ti_caseSensitive = False, ti_searchable = typeSearchable,
     ti_isUnsigned = False, ti_fixedPrecScale = False, ti_autoIncrement = True, ti_localTypeName = ''MEDIUMINT'', ti_minScale = 0,
     ti_maxScale = 0, ti_sqlDataType = 0, ti_sqlDateTimeSub = 0, ti_numPrecRadix = 10\<rparr>"

definition type_MEDIUMINT_UNSIGNED :: type_info where
  "type_MEDIUMINT_UNSIGNED = \<lparr>ti_typeName = ''MEDIUMINT UNSIGNED'', ti_dataType = DT_MEDIUMINT, ti_precision = 7, ti_literalPrefix = [], ti_literalSuffix = [],
     ti_createParams = ''[(M)] [ZEROFILL]'', ti_nullable = typeNullable, ti_caseSensitive = False, ti_searchable = typeSearchable,
     ti_isUnsigned = True, ti_fixedPrecScale = False, ti_autoIncrement = True, ti_localTypeName = ''MEDIUMINT UNSIGNED'', ti_minScale = 0,
     ti_maxScale = 0, ti_sqlDataType = 0, ti_sqlDateTimeSub = 0, ti_numPrecRadix = 10\<rparr>"

definition type_MEDIUMINT_UNSIGNED_ZEROFILL :: type_info where
  "type_MEDIUMINT_UNSIGNED_ZEROFILL = \<lparr>ti_typeName = ''MEDIUMINT UNSIGNED ZEROFILL'', ti_dataType = DT_MEDIUMINT, ti_precision = 7, ti_literalPrefix = [], ti_literalSuffix = [],
     ti_createParams = ''[(M)]'', ti_nullable = typeNullable, ti_caseSensitive = False, ti_searchable = typeSearchable,
     ti_isUnsigned = True, ti_fixedPrecScale = False, ti_autoIncrement = True, ti_localTypeName = ''MEDIUMINT UNSIGNED ZEROFILL'', ti_minScale = 0,
     ti_maxScale = 0, ti_sqlDataType = 0, ti_sqlDateTimeSub = 0, ti_numPrecRadix = 10\<rparr>"

definition type_SMALLINT :: type_info where
  "type_SMALLINT = \<lparr>ti_typeName = ''SMALLINT'', ti_dataType = DT_SMALLINT, ti_precision = 5, ti_literalPrefix = [], ti_literalSuffix = [],
     ti_createParams = ''[(M)] [UNSIGNED] [ZEROFILL]'', ti_nullable = typeNullable, ti_caseSensitive = False, ti_searchable = typeSearchable,
     ti_isUnsigned = False, ti_fixedPrecScale = False, ti_autoIncrement = True, ti_localTypeName = ''SMALLINT'', ti_minScale = 0,
     ti_maxScale = 0, ti_sqlDataType = 0, ti_sqlDateTimeSub = 0, ti_numPrecRadix = 10\<rparr>"

definition type_SMALLINT_UNSIGNED :: type_info where
  "type_SMALLINT_UNSIGNED = \<lparr>ti_typeName = ''SMALLINT UNSIGNED'', ti_dataType = DT_SMALLINT, ti_precision = 5, ti_literalPrefix = [], ti_literalSuffix = [],
     ti_createParams = ''[(M)] [ZEROFILL]'', ti_nullable = typeNullable, ti_caseSensitive = False, ti_searchable = typeSearchable,
     ti_isUnsigned = True, ti_fixedPrecScale = False, ti_autoIncrement = True, ti_localTypeName = ''SMALLINT UNSIGNED'', ti_minScale = 0,
     ti_maxScale = 0, ti_sqlDataType = 0, ti_sqlDateTimeSub = 0, ti_numPrecRadix = 10\<rparr>"

definition type_SMALLINT_UNSIGNED_ZEROFILL :: type_info where
  "type_SMALLINT_UNSIGNED_ZEROFILL = \<lparr>ti_typeName = ''SMALLINT UNSIGNED ZEROFILL'', ti_dataType = DT_SMALLINT, ti_precision = 5, ti_literalPrefix = [], ti_literalSuffix = [],
     ti_createParams = ''[(M)]'', ti_nullable = typeNullable, ti_caseSensitive = False, ti_searchable = typeSearchable,
     ti_isUnsigned = True, ti_fixedPrecScale = False, ti_autoIncrement = True, ti_localTypeName = ''SMALLINT UNSIGNED ZEROFILL'', ti_minScale = 0,
     ti_maxScale = 0, ti_sqlDataType = 0, ti_sqlDateTimeSub = 0, ti_numPrecRadix = 10\<rparr>"

definition type_FLOAT :: type_info where
  "type_FLOAT = \<lparr>ti_typeName = ''FLOAT'', ti_dataType = DT_REAL, ti_precision = 10, ti_literalPrefix = [], ti_literalSuffix = [],
     ti_createParams = ''[(M,D)] [ZEROFILL] [UNSIGNED]'', ti_nullable = typeNullable, ti_caseSensitive = False, ti_searchable = typeSearchable,
     ti_isUnsigned = False, ti_fixedPrecScale = False, ti_autoIncrement = True, ti_localTypeName = ''FLOAT'', ti_minScale = -38,
     ti_maxScale = 38, ti_sqlDataType = 0, ti_sqlDateTimeSub = 0, ti_numPrecRadix = 10\<rparr>"

definition type_FLOAT_UNSIGNED :: type_info where
  "type_FLOAT_UNSIGNED = \<lparr>ti_typeName = ''FLOAT UNSIGNED'', ti_dataType = DT_REAL, ti_precision = 10, ti_literalPrefix = [], ti_literalSuffix = [],
     ti_createParams = ''[(M,D)] [ZEROFILL]'', ti_nullable = typeNullable, ti_caseSensitive = False, ti_searchable = typeSearchable,
     ti_isUnsigned = True, ti_fixedPrecScale = False, ti_autoIncrement = True, ti_localTypeName = ''FLOAT UNSIGNED'', ti_minScale = -38,
     ti_maxScale = 38, ti_sqlDataType = 0, ti_sqlDateTimeSub = 0, ti_numPrecRadix = 10\<rparr>"

definition type_FLOAT_UNSIGNED_ZEROFILL :: type_info where
  "type_FLOAT_UNSIGNED_ZEROFILL = \<lparr>ti_typeName = ''FLOAT UNSIGNED ZEROFILL'', ti_dataType = DT_REAL, ti_precision = 10, ti_literalPrefix = [], ti_literalSuffix = [],
     ti_createParams = ''[(M,D)]'', ti_nullable = typeNullable, ti_caseSensitive = False, ti_searchable = typeSearchable,
     ti_isUnsigned = True, ti_fixedPrecScale = False, ti_autoIncrement = True, ti_localTypeName = ''FLOAT UNSIGNED ZEROFILL'', ti_minScale = -38,
     ti_maxScale = 38, ti_sqlDataType = 0, ti_sqlDateTimeSub = 0, ti_numPrecRadix = 10\<rparr>"

definition type_DOUBLE :: type_info where
  "type_DOUBLE = \<lparr>ti_typeName = ''DOUBLE'', ti_dataType = DT_DOUBLE, ti_precision = 17, ti_literalPrefix = [], ti_literalSuffix = [],
     ti_createParams = ''[(M,D)] [ZEROFILL] [UNSIGNED]'', ti_nullable = typeNullable, ti_caseSensitive = False, ti_searchable = typeSearchable,
     ti_isUnsigned = False, ti_fixedPrecScale = False, ti_autoIncrement = True, ti_localTypeName = ''DOUBLE'', ti_minScale = -308,
     ti_maxScale = 308, ti_sqlDataType = 0, ti_sqlDateTimeSub = 0, ti_numPrecRadix = 10\<rparr>"

definition type_DOUBLE_UNSIGNED :: type_info where
  "type_DOUBLE_UNSIGNED = \<lparr>ti_typeName = ''DOUBLE UNSIGNED'', ti_dataType = DT_DOUBLE, ti_precision = 17, ti_literalPrefix = [], ti_literalSuffix = [],
     ti_createParams = ''[(M,D)] [ZEROFILL]'', ti_nullable = typeNullable, ti_caseSensitive = False, ti_searchable = typeSearchable,
     ti_isUnsigned = True, ti_fixedPrecScale = False, ti_autoIncrement = True, ti_localTypeName = ''DOUBLE UNSIGNED'', ti_minScale = -308,
     ti_maxScale = 308, ti_sqlDataType = 0, ti_sqlDateTimeSub = 0, ti_numPrecRadix = 10\<rparr>"

definition type_DOUBLE_UNSIGNED_ZEROFILL :: type_info where
  "type_DOUBLE_UNSIGNED_ZEROFILL = \<lparr>ti_typeName = ''DOUBLE UNSIGNED ZEROFILL'', ti_dataType = DT_DOUBLE, ti_precision = 17, ti_literalPrefix = [], ti_literalSuffix = [],
     ti_createParams = ''[(M,D)]'', ti_nullable = typeNullable, ti_caseSensitive = False, ti_searchable = typeSearchable,
     ti_isUnsigned = True, ti_fixedPrecScale = False, ti_autoIncrement = True, ti_localTypeName = ''DOUBLE UNSIGNED ZEROFILL'', ti_minScale = -308,
     ti_maxScale = 308, ti_sqlDataType = 0, ti_sqlDateTimeSub = 0, ti_numPrecRadix = 10\<rparr>"

definition type_REAL :: type_info where
  "type_REAL = \<lparr>ti_typeName = ''REAL'', ti_dataType = DT_DOUBLE, ti_precision = 17, ti_literalPrefix = [], ti_literalSuffix = [],
     ti_createParams = ''[(M,D)] [ZEROFILL] [UNSIGNED]'', ti_nullable = typeNullable, ti_caseSensitive = False, ti_searchable = typeSearchable,
     ti_isUnsigned = False, ti_fixedPrecScale = False, ti_autoIncrement = True, ti_localTypeName = ''REAL'', ti_minScale = -308,
     ti_maxScale = 308, ti_sqlDataType = 0, ti_sqlDateTimeSub = 0, ti_numPrecRadix = 10\<rparr>"

definition type_REAL_UNSIGNED :: type_info where
  "type_REAL_UNSIGNED = \<lparr>ti_typeName = ''REAL UNSIGNED'', ti_dataType = DT_DOUBLE, ti_precision = 17, ti_literalPrefix = [], ti_literalSuffix = [],
     ti_createParams = ''[(M,D)] [ZEROFILL]'', ti_nullable = typeNullable, ti_caseSensitive = False, ti_searchable = typeSearchable,
     ti_isUnsigned = True, ti_fixedPrecScale = False, ti_autoIncrement = True, ti_localTypeName = ''REAL UNSIGNED'', ti_minScale = -308,
     ti_maxScale = 308, ti_sqlDataType = 0, ti_sqlDateTimeSub = 0, ti_numPrecRadix = 10\<rparr>"

definition type_VARCHAR :: type_info where
  "type_VARCHAR = \<lparr>ti_typeName = ''VARCHAR'', ti_dataType = DT_VARCHAR, ti_precision = 255, ti_literalPrefix = [squote], ti_literalSuffix = [squote],
     ti_createParams = ''(M)'', ti_nullable = typeNullable, ti_caseSensitive = False, ti_searchable = typeSearchable,
     ti_isUnsigned = False, ti_fixedPrecScale = False, ti_autoIncrement = False, ti_localTypeName = ''VARCHAR'', ti_minScale = 0,
     ti_maxScale = 0, ti_sqlDataType = 0, ti_sqlDateTimeSub = 0, ti_numPrecRadix = 10\<rparr>"

definition type_ENUM :: type_info where
  "type_ENUM = \<lparr>ti_typeName = ''ENUM'', ti_dataType = DT_ENUM, ti_precision = 0xFFFF, ti_literalPrefix = [squote], ti_literalSuffix = [squote],
     ti_createParams = [], ti_nullable = typeNullable, ti_caseSensitive = False, ti_searchable = typeSearchable,
     ti_isUnsigned = False, ti_fixedPrecScale = False, ti_autoIncrement = False, ti_localTypeName = ''ENUM'', ti_minScale = 0,
     ti_maxScale = 0, ti_sqlDataType = 0, ti_sqlDateTimeSub = 0, ti_numPrecRadix = 10\<rparr>"

definition type_SET :: type_info where
  "type_SET = \<lparr>ti_typeName = ''SET'', ti_dataType = DT_SET, ti_precision = 64, ti_literalPrefix = [squote], ti_literalSuffix = [squote],
     ti_createParams = [], ti_nullable = typeNullable, ti_caseSensitive = False, ti_searchable = typeSearchable,
     ti_isUnsigned = False, ti_fixedPrecScale = False, ti_autoIncrement = False, ti_localTypeName = ''SET'', ti_minScale = 0,
     ti_maxScale = 0, ti_sqlDataType = 0, ti_sqlDateTimeSub = 0, ti_numPrecRadix = 10\<rparr>"

definition type_DATE :: type_info where
  "type_DATE = \<lparr>ti_typeName = ''DATE'', ti_dataType = DT_DATE, ti_precision = 0, ti_literalPrefix = [squote], ti_literalSuffix = [squote],
     ti_createParams = [], ti_nullable = typeNullable, ti_caseSensitive = False, ti_searchable = typeSearchable,
     ti_isUnsigned = False, ti_fixedPrecScale = False, ti_autoIncrement = False, ti_localTypeName = ''DATE'', ti_minScale = 0,
     ti_maxScale = 0, ti_sqlDataType = 0, ti_sqlDateTimeSub = 0, ti_numPrecRadix = 10\<rparr>"

definition type_TIME :: type_info where
  "type_TIME = \<lparr>ti_typeName = ''TIME'', ti_dataType = DT_TIME, ti_precision = 0, ti_literalPrefix = [], ti_literalSuffix = [],
     ti_createParams = [], ti_nullable = typeNullable, ti_caseSensitive = False, ti_searchable = typeSearchable,
     ti_isUnsigned = False, ti_fixedPrecScale = False, ti_autoIncrement = False, ti_localTypeName = ''TIME'', ti_minScale = 0,
     ti_maxScale = 0, ti_sqlDataType = 0, ti_sqlDateTimeSub = 0, ti_numPrecRadix = 10\<rparr>"

definition type_DATETIME :: type_info where
  "type_DATETIME = \<lparr>ti_typeName = ''DATETIME'', ti_dataType = DT_TIMESTAMP, ti_precision = 0, ti_literalPrefix = [], ti_literalSuffix = [],
     ti_createParams = [], ti_nullable = typeNullable, ti_caseSensitive = False, ti_searchable = typeSearchable,
     ti_isUnsigned = False, ti_fixedPrecScale = False, ti_autoIncrement = False, ti_localTypeName = ''DATETIME'', ti_minScale = 0,
     ti_maxScale = 0, ti_sqlDataType = 0, ti_sqlDateTimeSub = 0, ti_numPrecRadix = 10\<rparr>"

definition type_TIMESTAMP :: type_info where
  "type_TIMESTAMP = \<lparr>ti_typeName = ''TIMESTAMP'', ti_dataType = DT_TIMESTAMP, ti_precision = 0, ti_literalPrefix = [squote], ti_literalSuffix = [squote],
     ti_createParams = ''[(M)]'', ti_nullable = typeNullable, ti_caseSensitive = False, ti_searchable = typeSearchable,
     ti_isUnsigned = False, ti_fixedPrecScale = False, ti_autoIncrement = False, ti_localTypeName = ''TIMESTAMP'', ti_minScale = 0,
     ti_maxScale = 0, ti_sqlDataType = 0, ti_sqlDateTimeSub = 0, ti_numPrecRadix = 10\<rparr>"

definition type_YEAR :: type_info where
  "type_YEAR = \<lparr>ti_typeName = ''YEAR'', ti_dataType = DT_YEAR, ti_precision = 0, ti_literalPrefix = [squote], ti_literalSuffix = [squote],
     ti_createParams = [], ti_nullable = typeNullable, ti_caseSensitive = False, ti_searchable = typeSearchable,
     ti_isUnsigned = False, ti_fixedPrecScale = False, ti_autoIncrement = False, ti_localTypeName = ''YEAR'', ti_minScale = 0,
     ti_maxScale = 0, ti_sqlDataType = 0, ti_sqlDateTimeSub = 0, ti_numPrecRadix = 10\<rparr>"

text \<open>The array ends with an entry without a name, which is not a row.\<close>

definition mysqlc_types :: "type_info list" where
  "mysqlc_types = [
     type_BIT, type_TINYINT, type_TINYINT_UNSIGNED, type_TINYINT_UNSIGNED_ZEROFILL, type_BIGINT,
     type_BIGINT_UNSIGNED, type_BIGINT_UNSIGNED_ZEROFILL, type_LONG_VARBINARY, type_MEDIUMBLOB, type_LONGBLOB,
     type_BLOB, type_TINYBLOB, type_VARBINARY, type_BINARY, type_LONG_VARCHAR, type_MEDIUMTEXT, type_LONGTEXT,
     type_TEXT, type_TINYTEXT, type_CHAR, type_NUMERIC, type_DECIMAL, type_DECIMAL_UNSIGNED,
     type_DECIMAL_UNSIGNED_ZEROFILL, type_INT, type_INT_UNSIGNED, type_INT_UNSIGNED_ZEROFILL, type_MEDIUMINT,
     type_MEDIUMINT_UNSIGNED, type_MEDIUMINT_UNSIGNED_ZEROFILL, type_SMALLINT, type_SMALLINT_UNSIGNED,
     type_SMALLINT_UNSIGNED_ZEROFILL, type_FLOAT, type_FLOAT_UNSIGNED, type_FLOAT_UNSIGNED_ZEROFILL, type_DOUBLE,
     type_DOUBLE_UNSIGNED, type_DOUBLE_UNSIGNED_ZEROFILL, type_REAL, type_REAL_UNSIGNED, type_VARCHAR, type_ENUM,
     type_SET, type_DATE, type_TIME, type_DATETIME, type_TIMESTAMP, type_YEAR]"

section \<open>\<^verbatim>\<open>getTypeInfo\<close>\<close>

definition int64_val :: "int \<Rightarrow> 'd myval" where
  "int64_val i = typeInt (word_of_int i)"

definition type_info_row :: "type_info \<Rightarrow> 'd myval list" where
  "type_info_row t =
     [MyVal_chars (ti_typeName t), int64_val (int (sql_type_code (ti_dataType t))), int64_val (int (ti_precision t)),
      MyVal_chars (ti_literalPrefix t), MyVal_chars (ti_literalSuffix t), MyVal_chars (ti_createParams t),
      int64_val (ti_nullable t), int64_val (of_bool (ti_caseSensitive t)), int64_val (ti_searchable t),
      int64_val (of_bool (ti_isUnsigned t)), int64_val (of_bool (ti_fixedPrecScale t)), int64_val (of_bool (ti_autoIncrement t)),
      MyVal_chars (ti_localTypeName t), int64_val (ti_minScale t), int64_val (ti_maxScale t), int64_val (ti_sqlDataType t),
      int64_val (ti_sqlDateTimeSub t), int64_val (ti_numPrecRadix t)]"

definition type_info_labels :: "string list" where
  "type_info_labels =
     [''TYPE_NAME'', ''DATA_TYPE'', ''PRECISION'', ''LITERAL_PREFIX'', ''LITERAL_SUFFIX'', ''CREATE_PARAMS'',
      ''NULLABLE'', ''CASE_SENSITIVE'', ''SEARCHABLE'', ''UNSIGNED_ATTRIBUTE'', ''FIXED_PREC_SCALE'',
      ''AUTO_INCREMENT'', ''LOCAL_TYPE_NAME'', ''MINIMUM_SCALE'', ''MAXIMUM_SCALE'', ''SQL_DATA_TYPE'',
      ''SQL_DATETIME_SUB'', ''NUM_PREC_RADIX'']"

definition md_getTypeInfo :: "'d art_set" where
  "md_getTypeInfo = new_ArtResultSet type_info_labels (map type_info_row mysqlc_types)"

section \<open>Conversions\<close>

definition text_types :: "sql_type list" where
  "text_types = [DT_CHAR, DT_VARCHAR, DT_LONGVARCHAR, DT_BINARY, DT_VARBINARY, DT_LONGVARBINARY]"

definition number_types :: "sql_type list" where
  "number_types = [DT_DECIMAL, DT_NUMERIC, DT_REAL, DT_TINYINT, DT_SMALLINT, DT_INTEGER, DT_BIGINT, DT_DOUBLE]"

definition coded :: "sql_type list \<Rightarrow> int \<Rightarrow> bool" where
  "coded ts i \<longleftrightarrow> i \<in> set (map (\<lambda>t. int (sql_type_code t)) ts)"

definition md_supportsConvert_types :: "int \<Rightarrow> int \<Rightarrow> bool" where
  "md_supportsConvert_types fromType toType \<longleftrightarrow>
     (if coded text_types fromType then coded (number_types @ text_types @ [DT_DATE, DT_TIME, DT_TIMESTAMP]) toType
      else if coded [DT_BIT] fromType then False
      else if coded number_types fromType then coded (number_types @ text_types) toType
      else if coded [DT_SQLNULL] fromType then False
      else if coded [DT_DATE] fromType then coded text_types toType
      else if coded [DT_TIME] fromType then coded text_types toType
      else if coded [DT_TIMESTAMP] fromType then coded (text_types @ [DT_TIME, DT_DATE]) toType
      else False)"

end
