(* ===== verification/Db_Facts.thy ===== *)
theory Db_Facts
  imports Connection Db_Types
begin

text \<open>
  What the driver says of the database without asking it, or by asking for one variable: the constants, the
  answers that depend on the server's version, and the constructed result sets with fixed rows
  (\<^verbatim>\<open>MySQL_ConnectionMetaData\<close> of \<^verbatim>\<open>mysqlconnector/jdbc/driver/mysql_metadata.cpp\<close>). The description's members are the
  record \<open>conn_meta\<close> of the connection. The version numbers of the driver's build are not modelled.
\<close>

section \<open>Constants and versions\<close>

definition md_allProceduresAreCallable :: "conn_meta \<Rightarrow> bool" where "md_allProceduresAreCallable m \<longleftrightarrow> False"
definition md_allTablesAreSelectable :: "conn_meta \<Rightarrow> bool" where "md_allTablesAreSelectable m \<longleftrightarrow> False"
definition md_dataDefinitionCausesTransactionCommit :: "conn_meta \<Rightarrow> bool" where "md_dataDefinitionCausesTransactionCommit m \<longleftrightarrow> True"
definition md_dataDefinitionIgnoredInTransactions :: "conn_meta \<Rightarrow> bool" where "md_dataDefinitionIgnoredInTransactions m \<longleftrightarrow> False"
definition md_deletesAreDetected :: "int \<Rightarrow> conn_meta \<Rightarrow> bool" where "md_deletesAreDetected t m \<longleftrightarrow> False"
definition md_doesMaxRowSizeIncludeBlobs :: "conn_meta \<Rightarrow> bool" where "md_doesMaxRowSizeIncludeBlobs m \<longleftrightarrow> True"
definition md_getCatalogSeparator :: "conn_meta \<Rightarrow> string" where "md_getCatalogSeparator m = []"
definition md_getCatalogTerm :: "conn_meta \<Rightarrow> string" where "md_getCatalogTerm m = ''n/a''"
definition md_getDatabaseMajorVersion :: "conn_meta \<Rightarrow> nat" where "md_getDatabaseMajorVersion m = cm_server_version m div 10000"
definition md_getDatabaseMinorVersion :: "conn_meta \<Rightarrow> nat" where "md_getDatabaseMinorVersion m = (cm_server_version m mod 10000) div 100"
definition md_getDatabasePatchVersion :: "conn_meta \<Rightarrow> nat" where "md_getDatabasePatchVersion m = cm_server_version m mod 100"
definition md_getDatabaseProductName :: "conn_meta \<Rightarrow> string" where "md_getDatabaseProductName m = ''MySQL''"
definition md_getDriverName :: "conn_meta \<Rightarrow> string" where "md_getDriverName m = ''MySQL Connector/C++''"
definition md_getExtraNameCharacters :: "conn_meta \<Rightarrow> string" where "md_getExtraNameCharacters m = ''#@''"
definition md_getCDBCMajorVersion :: "conn_meta \<Rightarrow> nat" where "md_getCDBCMajorVersion m = 3"
definition md_getCDBCMinorVersion :: "conn_meta \<Rightarrow> nat" where "md_getCDBCMinorVersion m = 0"
definition md_getMaxBinaryLiteralLength :: "conn_meta \<Rightarrow> nat" where "md_getMaxBinaryLiteralLength m = 16777208"
definition md_getMaxCatalogNameLength :: "conn_meta \<Rightarrow> nat" where "md_getMaxCatalogNameLength m = 32"
definition md_getMaxCharLiteralLength :: "conn_meta \<Rightarrow> nat" where "md_getMaxCharLiteralLength m = 16777208"
definition md_getMaxColumnNameLength :: "conn_meta \<Rightarrow> nat" where "md_getMaxColumnNameLength m = 64"
definition md_getMaxColumnsInGroupBy :: "conn_meta \<Rightarrow> nat" where "md_getMaxColumnsInGroupBy m = 64"
definition md_getMaxColumnsInIndex :: "conn_meta \<Rightarrow> nat" where "md_getMaxColumnsInIndex m = 16"
definition md_getMaxColumnsInOrderBy :: "conn_meta \<Rightarrow> nat" where "md_getMaxColumnsInOrderBy m = 64"
definition md_getMaxColumnsInSelect :: "conn_meta \<Rightarrow> nat" where "md_getMaxColumnsInSelect m = 256"
definition md_getMaxColumnsInTable :: "conn_meta \<Rightarrow> nat" where "md_getMaxColumnsInTable m = 512"
definition md_getMaxCursorNameLength :: "conn_meta \<Rightarrow> nat" where "md_getMaxCursorNameLength m = 64"
definition md_getMaxIndexLength :: "conn_meta \<Rightarrow> nat" where "md_getMaxIndexLength m = 256"
definition md_getMaxProcedureNameLength :: "conn_meta \<Rightarrow> nat" where "md_getMaxProcedureNameLength m = 64"
definition md_getMaxRowSize :: "conn_meta \<Rightarrow> nat" where "md_getMaxRowSize m = 2147483647 - 8"
definition md_getMaxSchemaNameLength :: "conn_meta \<Rightarrow> nat" where "md_getMaxSchemaNameLength m = 64"
definition md_getMaxStatements :: "conn_meta \<Rightarrow> nat" where "md_getMaxStatements m = 0"
definition md_getMaxTableNameLength :: "conn_meta \<Rightarrow> nat" where "md_getMaxTableNameLength m = 64"
definition md_getMaxTablesInSelect :: "conn_meta \<Rightarrow> nat" where "md_getMaxTablesInSelect m = 256"
definition md_getMaxUserNameLength :: "conn_meta \<Rightarrow> nat" where "md_getMaxUserNameLength m = 16"
definition md_getNumericFunctions :: "conn_meta \<Rightarrow> string" where "md_getNumericFunctions m = 
     ''ABS,ACOS,ASIN,ATAN,ATAN2,BIT_COUNT,CEILING,COS,'' @
     ''COT,DEGREES,EXP,FLOOR,LOG,LOG10,MAX,MIN,MOD,PI,POW,'' @
     ''POWER,RADIANS,RAND,ROUND,SIN,SQRT,TAN,TRUNCATE''"
definition md_getProcedureTerm :: "conn_meta \<Rightarrow> string" where "md_getProcedureTerm m = ''procedure''"
definition md_getSchemaTerm :: "conn_meta \<Rightarrow> string" where "md_getSchemaTerm m = ''database''"
definition md_getSearchStringEscape :: "conn_meta \<Rightarrow> string" where "md_getSearchStringEscape m = [CHR 0x5C]"
definition md_getSQLKeywords :: "conn_meta \<Rightarrow> string" where "md_getSQLKeywords m = 
     ''ACCESSIBLE, ADD, ALL,'' @
     ''ALTER, ANALYZE, AND, AS, ASC, ASENSITIVE, BEFORE,'' @
     ''BETWEEN, BIGINT, BINARY, BLOB, BOTH, BY, CALL,'' @
     ''CASCADE, CASE, CHANGE, CHAR, CHARACTER, CHECK,'' @
     ''COLLATE, COLUMN, CONDITION, CONNECTION, CONSTRAINT,'' @
     ''CONTINUE, CONVERT, CREATE, CROSS, CURRENT_DATE,'' @
     ''CURRENT_TIME, CURRENT_TIMESTAMP, CURRENT_USER, CURSOR,'' @
     ''DATABASE, DATABASES, DAY_HOUR, DAY_MICROSECOND,'' @
     ''DAY_MINUTE, DAY_SECOND, DEC, DECIMAL, DECLARE,'' @
     ''DEFAULT, DELAYED, DELETE, DESC, DESCRIBE,'' @
     ''DETERMINISTIC, DISTINCT, DISTINCTROW, DIV, DOUBLE,'' @
     ''DROP, DUAL, EACH, ELSE, ELSEIF, ENCLOSED,'' @
     ''ESCAPED, EXISTS, EXIT, EXPLAIN, FALSE, FETCH,'' @
     ''FLOAT, FLOAT4, FLOAT8, FOR, FORCE, FOREIGN, FROM,'' @
     ''FULLTEXT, GRANT, GROUP, HAVING, HIGH_PRIORITY,'' @
     ''HOUR_MICROSECOND, HOUR_MINUTE, HOUR_SECOND, IF,'' @
     ''IGNORE, IN, INDEX, INFILE, INNER, INOUT,'' @
     ''INSENSITIVE, INSERT, INT, INT1, INT2, INT3, INT4,'' @
     ''INT8, INTEGER, INTERVAL, INTO, IS, ITERATE, JOIN,'' @
     ''KEY, KEYS, KILL, LEADING, LEAVE, LEFT, LIKE,'' @
     ''LOCALTIMESTAMP, LOCK, LONG, LONGBLOB, LONGTEXT,'' @
     ''LOOP, LOW_PRIORITY, MATCH, MEDIUMBLOB, MEDIUMINT,'' @
     ''MEDIUMTEXT, MIDDLEINT, MINUTE_MICROSECOND,'' @
     ''MINUTE_SECOND, MOD, MODIFIES, NATURAL, NOT,'' @
     ''NO_WRITE_TO_BINLOG, NULL, NUMERIC, ON, OPTIMIZE,'' @
     ''OPTION, OPTIONALLY, OR, ORDER, OUT, OUTER,'' @
     ''OUTFILE, PRECISION, PRIMARY, PROCEDURE, PURGE,'' @
     ''RANGE, READ, READS, READ_ONLY, READ_WRITE, REAL,'' @
     ''REFERENCES, REGEXP, RELEASE, RENAME, REPEAT,'' @
     ''REPLACE, REQUIRE, RESTRICT, RETURN, REVOKE, RIGHT,'' @
     ''RLIKE, SCHEMA, SCHEMAS, SECOND_MICROSECOND, SELECT,'' @
     ''SENSITIVE, SEPARATOR, SET, SHOW, SMALLINT, SPATIAL,'' @
     ''SPECIFIC, SQL, SQLEXCEPTION, SQLSTATE, SQLWARNING,'' @
     ''SQL_BIG_RESULT, SQL_CALC_FOUND_ROWS, SQL_SMALL_RESULT,'' @
     ''SSL, STARTING, STRAIGHT_JOIN, TABLE, TERMINATED,'' @
     ''THEN, TINYBLOB, TINYINT, TINYTEXT, TO, TRAILING,'' @
     ''TRIGGER, TRUE, UNDO, UNION, UNIQUE, UNLOCK,'' @
     ''UNSIGNED, UPDATE, USAGE, USE, USING, UTC_DATE,'' @
     ''UTC_TIME, UTC_TIMESTAMP, VALUES, VARBINARY, VARCHAR,'' @
     ''VARCHARACTER, VARYING, WHEN, WHERE, WHILE, WITH,'' @
     ''WRITE, X509, XOR, YEAR_MONTH, ZEROFILL'' @
     ''GENERAL, IGNORE_SERVER_IDS, MASTER_HEARTBEAT_PERIOD,'' @
     ''MAXVALUE, RESIGNAL, SIGNAL, SLOW''"
definition md_getStringFunctions :: "conn_meta \<Rightarrow> string" where "md_getStringFunctions m = 
     ''ASCII,BIN,BIT_LENGTH,CHAR,CHARACTER_LENGTH,CHAR_LENGTH,CONCAT,'' @
     ''CONCAT_WS,CONV,ELT,EXPORT_SET,FIELD,FIND_IN_SET,HEX,INSERT,'' @
     ''INSTR,LCASE,LEFT,LENGTH,LOAD_FILE,LOCATE,LOCATE,LOWER,LPAD,'' @
     ''LTRIM,MAKE_SET,MATCH,MID,OCT,OCTET_LENGTH,ORD,POSITION,'' @
     ''QUOTE,REPEAT,REPLACE,REVERSE,RIGHT,RPAD,RTRIM,SOUNDEX,'' @
     ''SPACE,STRCMP,SUBSTRING,SUBSTRING,SUBSTRING,SUBSTRING,'' @
     ''SUBSTRING_INDEX,TRIM,UCASE,UPPER''"
definition md_getSystemFunctions :: "conn_meta \<Rightarrow> string" where "md_getSystemFunctions m = 
     ''DATABASE,USER,SYSTEM_USER,'' @
     ''SESSION_USER,PASSWORD,ENCRYPT,LAST_INSERT_ID,VERSION''"
definition md_getTimeDateFunctions :: "conn_meta \<Rightarrow> string" where "md_getTimeDateFunctions m = 
     ''DAYOFWEEK,WEEKDAY,DAYOFMONTH,DAYOFYEAR,MONTH,DAYNAME,'' @
     ''MONTHNAME,QUARTER,WEEK,YEAR,HOUR,MINUTE,SECOND,PERIOD_ADD,'' @
     ''PERIOD_DIFF,TO_DAYS,FROM_DAYS,DATE_FORMAT,TIME_FORMAT,'' @
     ''CURDATE,CURRENT_DATE,CURTIME,CURRENT_TIME,NOW,SYSDATE,'' @
     ''CURRENT_TIMESTAMP,UNIX_TIMESTAMP,FROM_UNIXTIME,'' @
     ''SEC_TO_TIME,TIME_TO_SEC''"
definition md_insertsAreDetected :: "int \<Rightarrow> conn_meta \<Rightarrow> bool" where "md_insertsAreDetected t m \<longleftrightarrow> False"
definition md_isCatalogAtStart :: "conn_meta \<Rightarrow> bool" where "md_isCatalogAtStart m \<longleftrightarrow> True"
definition md_isReadOnly :: "conn_meta \<Rightarrow> bool" where "md_isReadOnly m \<longleftrightarrow> False"
definition md_locatorsUpdateCopy :: "conn_meta \<Rightarrow> bool res" where "md_locatorsUpdateCopy m = Inl (Not_implemented ''MySQL_ConnectionMetaData::locatorsUpdateCopy'')"
definition md_nullPlusNonNullIsNull :: "conn_meta \<Rightarrow> bool" where "md_nullPlusNonNullIsNull m \<longleftrightarrow> True"
definition md_nullsAreSortedAtEnd :: "conn_meta \<Rightarrow> bool" where "md_nullsAreSortedAtEnd m \<longleftrightarrow> False"
definition md_nullsAreSortedAtStart :: "conn_meta \<Rightarrow> bool" where "md_nullsAreSortedAtStart m \<longleftrightarrow> cm_server_version m > 40001 \<and> cm_server_version m < 40011"
definition md_nullsAreSortedHigh :: "conn_meta \<Rightarrow> bool" where "md_nullsAreSortedHigh m \<longleftrightarrow> False"
definition md_nullsAreSortedLow :: "conn_meta \<Rightarrow> bool" where "md_nullsAreSortedLow m \<longleftrightarrow> \<not> md_nullsAreSortedHigh m"
definition md_othersDeletesAreVisible :: "int \<Rightarrow> conn_meta \<Rightarrow> bool" where "md_othersDeletesAreVisible t m \<longleftrightarrow> False"
definition md_othersInsertsAreVisible :: "int \<Rightarrow> conn_meta \<Rightarrow> bool" where "md_othersInsertsAreVisible t m \<longleftrightarrow> False"
definition md_othersUpdatesAreVisible :: "int \<Rightarrow> conn_meta \<Rightarrow> bool" where "md_othersUpdatesAreVisible t m \<longleftrightarrow> False"
definition md_ownDeletesAreVisible :: "int \<Rightarrow> conn_meta \<Rightarrow> bool" where "md_ownDeletesAreVisible t m \<longleftrightarrow> False"
definition md_ownInsertsAreVisible :: "int \<Rightarrow> conn_meta \<Rightarrow> bool" where "md_ownInsertsAreVisible t m \<longleftrightarrow> False"
definition md_ownUpdatesAreVisible :: "int \<Rightarrow> conn_meta \<Rightarrow> bool" where "md_ownUpdatesAreVisible t m \<longleftrightarrow> False"
definition md_storesLowerCaseIdentifiers :: "conn_meta \<Rightarrow> bool" where "md_storesLowerCaseIdentifiers m \<longleftrightarrow> cm_lower_case m = ''1'' \<or> cm_lower_case m = ''2''"
definition md_storesLowerCaseQuotedIdentifiers :: "conn_meta \<Rightarrow> bool" where "md_storesLowerCaseQuotedIdentifiers m \<longleftrightarrow> cm_lower_case m = ''1'' \<or> cm_lower_case m = ''2''"
definition md_storesMixedCaseIdentifiers :: "conn_meta \<Rightarrow> bool" where "md_storesMixedCaseIdentifiers m \<longleftrightarrow> \<not> (cm_lower_case m = ''1'' \<or> cm_lower_case m = ''2'')"
definition md_storesMixedCaseQuotedIdentifiers :: "conn_meta \<Rightarrow> bool" where "md_storesMixedCaseQuotedIdentifiers m \<longleftrightarrow> \<not> (cm_lower_case m = ''1'' \<or> cm_lower_case m = ''2'')"
definition md_storesUpperCaseIdentifiers :: "conn_meta \<Rightarrow> bool" where "md_storesUpperCaseIdentifiers m \<longleftrightarrow> False"
definition md_storesUpperCaseQuotedIdentifiers :: "conn_meta \<Rightarrow> bool" where "md_storesUpperCaseQuotedIdentifiers m \<longleftrightarrow> True"
definition md_supportsAlterTableWithAddColumn :: "conn_meta \<Rightarrow> bool" where "md_supportsAlterTableWithAddColumn m \<longleftrightarrow> True"
definition md_supportsAlterTableWithDropColumn :: "conn_meta \<Rightarrow> bool" where "md_supportsAlterTableWithDropColumn m \<longleftrightarrow> True"
definition md_supportsANSI92EntryLevelSQL :: "conn_meta \<Rightarrow> bool" where "md_supportsANSI92EntryLevelSQL m \<longleftrightarrow> True"
definition md_supportsANSI92FullSQL :: "conn_meta \<Rightarrow> bool" where "md_supportsANSI92FullSQL m \<longleftrightarrow> False"
definition md_supportsANSI92IntermediateSQL :: "conn_meta \<Rightarrow> bool" where "md_supportsANSI92IntermediateSQL m \<longleftrightarrow> False"
definition md_supportsBatchUpdates :: "conn_meta \<Rightarrow> bool" where "md_supportsBatchUpdates m \<longleftrightarrow> True"
definition md_supportsCatalogsInDataManipulation :: "conn_meta \<Rightarrow> bool" where "md_supportsCatalogsInDataManipulation m \<longleftrightarrow> False"
definition md_supportsCatalogsInIndexDefinitions :: "conn_meta \<Rightarrow> bool" where "md_supportsCatalogsInIndexDefinitions m \<longleftrightarrow> False"
definition md_supportsCatalogsInPrivilegeDefinitions :: "conn_meta \<Rightarrow> bool" where "md_supportsCatalogsInPrivilegeDefinitions m \<longleftrightarrow> False"
definition md_supportsCatalogsInProcedureCalls :: "conn_meta \<Rightarrow> bool" where "md_supportsCatalogsInProcedureCalls m \<longleftrightarrow> False"
definition md_supportsCatalogsInTableDefinitions :: "conn_meta \<Rightarrow> bool" where "md_supportsCatalogsInTableDefinitions m \<longleftrightarrow> False"
definition md_supportsColumnAliasing :: "conn_meta \<Rightarrow> bool" where "md_supportsColumnAliasing m \<longleftrightarrow> True"
definition md_supportsConvert :: "conn_meta \<Rightarrow> bool" where "md_supportsConvert m \<longleftrightarrow> False"
definition md_supportsCoreSQLGrammar :: "conn_meta \<Rightarrow> bool" where "md_supportsCoreSQLGrammar m \<longleftrightarrow> True"
definition md_supportsCorrelatedSubqueries :: "conn_meta \<Rightarrow> bool" where "md_supportsCorrelatedSubqueries m \<longleftrightarrow> cm_server_version m \<ge> 40100"
definition md_supportsDataDefinitionAndDataManipulationTransactions :: "conn_meta \<Rightarrow> bool" where "md_supportsDataDefinitionAndDataManipulationTransactions m \<longleftrightarrow> False"
definition md_supportsDataManipulationTransactionsOnly :: "conn_meta \<Rightarrow> bool" where "md_supportsDataManipulationTransactionsOnly m \<longleftrightarrow> False"
definition md_supportsDifferentTableCorrelationNames :: "conn_meta \<Rightarrow> bool" where "md_supportsDifferentTableCorrelationNames m \<longleftrightarrow> True"
definition md_supportsExpressionsInOrderBy :: "conn_meta \<Rightarrow> bool" where "md_supportsExpressionsInOrderBy m \<longleftrightarrow> True"
definition md_supportsExtendedSQLGrammar :: "conn_meta \<Rightarrow> bool" where "md_supportsExtendedSQLGrammar m \<longleftrightarrow> False"
definition md_supportsFullOuterJoins :: "conn_meta \<Rightarrow> bool" where "md_supportsFullOuterJoins m \<longleftrightarrow> False"
definition md_supportsGetGeneratedKeys :: "conn_meta \<Rightarrow> bool" where "md_supportsGetGeneratedKeys m \<longleftrightarrow> True"
definition md_supportsGroupBy :: "conn_meta \<Rightarrow> bool" where "md_supportsGroupBy m \<longleftrightarrow> True"
definition md_supportsGroupByBeyondSelect :: "conn_meta \<Rightarrow> bool" where "md_supportsGroupByBeyondSelect m \<longleftrightarrow> True"
definition md_supportsGroupByUnrelated :: "conn_meta \<Rightarrow> bool" where "md_supportsGroupByUnrelated m \<longleftrightarrow> True"
definition md_supportsIntegrityEnhancementFacility :: "conn_meta \<Rightarrow> bool res" where "md_supportsIntegrityEnhancementFacility m = Inl (Not_implemented ''MySQL_ConnectionMetaData::supportsIntegrityEnhancementFacility'')"
definition md_supportsLikeEscapeClause :: "conn_meta \<Rightarrow> bool" where "md_supportsLikeEscapeClause m \<longleftrightarrow> True"
definition md_supportsLimitedOuterJoins :: "conn_meta \<Rightarrow> bool" where "md_supportsLimitedOuterJoins m \<longleftrightarrow> True"
definition md_supportsMinimumSQLGrammar :: "conn_meta \<Rightarrow> bool" where "md_supportsMinimumSQLGrammar m \<longleftrightarrow> True"
definition md_supportsMixedCaseIdentifiers :: "conn_meta \<Rightarrow> bool" where "md_supportsMixedCaseIdentifiers m \<longleftrightarrow> \<not> (cm_lower_case m \<noteq> ''1'' \<or> cm_lower_case m \<noteq> ''2'')"
definition md_supportsMixedCaseQuotedIdentifiers :: "conn_meta \<Rightarrow> bool" where "md_supportsMixedCaseQuotedIdentifiers m \<longleftrightarrow> \<not> (cm_lower_case m \<noteq> ''1'' \<or> cm_lower_case m \<noteq> ''2'')"
definition md_supportsMultipleOpenResults :: "conn_meta \<Rightarrow> bool" where "md_supportsMultipleOpenResults m \<longleftrightarrow> True"
definition md_supportsMultipleResultSets :: "conn_meta \<Rightarrow> bool" where "md_supportsMultipleResultSets m \<longleftrightarrow> False"
definition md_supportsMultipleTransactions :: "conn_meta \<Rightarrow> bool" where "md_supportsMultipleTransactions m \<longleftrightarrow> True"
definition md_supportsNamedParameters :: "conn_meta \<Rightarrow> bool" where "md_supportsNamedParameters m \<longleftrightarrow> False"
definition md_supportsNonNullableColumns :: "conn_meta \<Rightarrow> bool" where "md_supportsNonNullableColumns m \<longleftrightarrow> True"
definition md_supportsOpenCursorsAcrossCommit :: "conn_meta \<Rightarrow> bool" where "md_supportsOpenCursorsAcrossCommit m \<longleftrightarrow> False"
definition md_supportsOpenCursorsAcrossRollback :: "conn_meta \<Rightarrow> bool" where "md_supportsOpenCursorsAcrossRollback m \<longleftrightarrow> False"
definition md_supportsOpenStatementsAcrossCommit :: "conn_meta \<Rightarrow> bool" where "md_supportsOpenStatementsAcrossCommit m \<longleftrightarrow> False"
definition md_supportsOpenStatementsAcrossRollback :: "conn_meta \<Rightarrow> bool" where "md_supportsOpenStatementsAcrossRollback m \<longleftrightarrow> False"
definition md_supportsOrderByUnrelated :: "conn_meta \<Rightarrow> bool" where "md_supportsOrderByUnrelated m \<longleftrightarrow> False"
definition md_supportsOuterJoins :: "conn_meta \<Rightarrow> bool" where "md_supportsOuterJoins m \<longleftrightarrow> True"
definition md_supportsPositionedDelete :: "conn_meta \<Rightarrow> bool" where "md_supportsPositionedDelete m \<longleftrightarrow> False"
definition md_supportsPositionedUpdate :: "conn_meta \<Rightarrow> bool" where "md_supportsPositionedUpdate m \<longleftrightarrow> False"
definition md_supportsResultSetConcurrency :: "int \<Rightarrow> int \<Rightarrow> conn_meta \<Rightarrow> bool res" where "md_supportsResultSetConcurrency t k m = Inl (Not_implemented ''MySQL_ConnectionMetaData::supportsResultSetConcurrency'')"
definition md_supportsSavepoints :: "conn_meta \<Rightarrow> bool" where "md_supportsSavepoints m \<longleftrightarrow> cm_server_version m \<ge> 40014 \<or> cm_server_version m \<ge> 40101"
definition md_supportsSchemasInDataManipulation :: "conn_meta \<Rightarrow> bool" where "md_supportsSchemasInDataManipulation m \<longleftrightarrow> cm_server_version m \<ge> 32200"
definition md_supportsSchemasInIndexDefinitions :: "conn_meta \<Rightarrow> bool" where "md_supportsSchemasInIndexDefinitions m \<longleftrightarrow> cm_server_version m \<ge> 32200"
definition md_supportsSchemasInPrivilegeDefinitions :: "conn_meta \<Rightarrow> bool" where "md_supportsSchemasInPrivilegeDefinitions m \<longleftrightarrow> cm_server_version m > 32200"
definition md_supportsSchemasInProcedureCalls :: "conn_meta \<Rightarrow> bool" where "md_supportsSchemasInProcedureCalls m \<longleftrightarrow> cm_server_version m \<ge> 32200"
definition md_supportsSchemasInTableDefinitions :: "conn_meta \<Rightarrow> bool" where "md_supportsSchemasInTableDefinitions m \<longleftrightarrow> cm_server_version m \<ge> 32200"
definition md_supportsSelectForUpdate :: "conn_meta \<Rightarrow> bool" where "md_supportsSelectForUpdate m \<longleftrightarrow> cm_server_version m \<ge> 40000"
definition md_supportsStatementPooling :: "conn_meta \<Rightarrow> bool" where "md_supportsStatementPooling m \<longleftrightarrow> False"
definition md_supportsStoredProcedures :: "conn_meta \<Rightarrow> bool" where "md_supportsStoredProcedures m \<longleftrightarrow> cm_server_version m \<ge> 50000"
definition md_supportsSubqueriesInComparisons :: "conn_meta \<Rightarrow> bool" where "md_supportsSubqueriesInComparisons m \<longleftrightarrow> cm_server_version m \<ge> 40100"
definition md_supportsSubqueriesInExists :: "conn_meta \<Rightarrow> bool" where "md_supportsSubqueriesInExists m \<longleftrightarrow> cm_server_version m \<ge> 40100"
definition md_supportsSubqueriesInIns :: "conn_meta \<Rightarrow> bool" where "md_supportsSubqueriesInIns m \<longleftrightarrow> cm_server_version m \<ge> 40100"
definition md_supportsSubqueriesInQuantifieds :: "conn_meta \<Rightarrow> bool" where "md_supportsSubqueriesInQuantifieds m \<longleftrightarrow> cm_server_version m \<ge> 40100"
definition md_supportsTableCorrelationNames :: "conn_meta \<Rightarrow> bool" where "md_supportsTableCorrelationNames m \<longleftrightarrow> True"
definition md_supportsTransactionIsolationLevel :: "int \<Rightarrow> conn_meta \<Rightarrow> bool" where "md_supportsTransactionIsolationLevel t m \<longleftrightarrow> cm_server_version m \<ge> 32336"
definition md_supportsTransactions :: "conn_meta \<Rightarrow> bool" where "md_supportsTransactions m \<longleftrightarrow> cm_server_version m \<ge> 32315"
definition md_supportsTypeConversion :: "conn_meta \<Rightarrow> bool" where "md_supportsTypeConversion m \<longleftrightarrow> True"
definition md_supportsUnion :: "conn_meta \<Rightarrow> bool" where "md_supportsUnion m \<longleftrightarrow> cm_server_version m \<ge> 40000"
definition md_supportsUnionAll :: "conn_meta \<Rightarrow> bool" where "md_supportsUnionAll m \<longleftrightarrow> cm_server_version m \<ge> 40000"
definition md_updatesAreDetected :: "int \<Rightarrow> conn_meta \<Rightarrow> bool" where "md_updatesAreDetected t m \<longleftrightarrow> False"
definition md_usesLocalFilePerTable :: "conn_meta \<Rightarrow> bool" where "md_usesLocalFilePerTable m \<longleftrightarrow> False"
definition md_usesLocalFiles :: "conn_meta \<Rightarrow> bool" where "md_usesLocalFiles m \<longleftrightarrow> False"

definition md_getDefaultTransactionIsolation :: "conn_meta \<Rightarrow> isolation" where
  "md_getDefaultTransactionIsolation m = (if cm_server_version m \<ge> 32336 then TRANSACTION_READ_COMMITTED else TRANSACTION_NONE)"

definition HOLD_CURSORS_OVER_COMMIT :: int where "HOLD_CURSORS_OVER_COMMIT = 1"
definition sqlStateSQL99 :: int where "sqlStateSQL99 = 0"

definition md_getResultSetHoldability :: "conn_meta \<Rightarrow> int" where "md_getResultSetHoldability m = HOLD_CURSORS_OVER_COMMIT"
definition md_getSQLStateType :: "conn_meta \<Rightarrow> int" where "md_getSQLStateType m = sqlStateSQL99"

definition md_supportsResultSetHoldability :: "int \<Rightarrow> conn_meta \<Rightarrow> bool" where
  "md_supportsResultSetHoldability holdability m \<longleftrightarrow> holdability = HOLD_CURSORS_OVER_COMMIT"

text \<open>\<^verbatim>\<open>TYPE_SCROLL_INSENSITIVE\<close> is the second type.\<close>

definition md_supportsResultSetType :: "int \<Rightarrow> conn_meta \<Rightarrow> bool" where
  "md_supportsResultSetType type m \<longleftrightarrow> type = 1"

definition md_getURL :: "conn_meta \<Rightarrow> string res" where
  "md_getURL m = Inl (Not_implemented ''MySQL_ConnectionMetaData::getURL'')"

definition md_getProcedureColumns :: "conn_meta \<Rightarrow> 'd art_set res" where
  "md_getProcedureColumns m = Inl (Not_implemented ''MySQL_ConnectionMetaData::getURL'')"

definition matchTable :: "string \<Rightarrow> string \<Rightarrow> string \<Rightarrow> string \<Rightarrow> bool" where
  "matchTable sPattern tPattern schema table \<longleftrightarrow>
     (sPattern = ''*'' \<or> sPattern = schema) \<and> (tPattern = ''*'' \<or> tPattern = table)"

section \<open>Result sets with fixed rows\<close>

definition md_getSchemaObjectTypes :: "'d art_set" where
  "md_getSchemaObjectTypes = new_ArtResultSet [''OBJECT_TYPE'']
     [[MyVal_chars ''table''], [MyVal_chars ''view''], [MyVal_chars ''routine''], [MyVal_chars ''trigger'']]"

definition md_getCatalogs :: "'d art_set" where
  "md_getCatalogs = new_ArtResultSet [''TABLE_CAT''] [[MyVal_chars ''def'']]"

definition md_getAttributes :: "'d art_set" where
  "md_getAttributes = new_ArtResultSet
     [''TYPE_CAT'', ''TYPE_SCHEM'', ''TYPE_NAME'', ''ATTR_NAME'', ''DATA_TYPE'', ''ATTR_TYPE_NAME'', ''ATTR_SIZE'',
      ''DECIMAL_DIGITS'', ''NUM_PREC_RADIX'', ''NULLABLE'', ''REMARKS'', ''ATTR_DEF'', ''SQL_DATA_TYPE'',
      ''SQL_DATETIME_SUB'', ''CHAR_OCTET_LENGTH'', ''ORDINAL_POSITION'', ''IS_NULLABLE'', ''SCOPE_CATALOG'',
      ''SCOPE_SCHEMA'', ''SCOPE_TABLE'', ''SOURCE_DATA_TYPE''] []"

definition md_getSuperTables :: "'d art_set" where
  "md_getSuperTables = new_ArtResultSet
     [''TABLE_CAT'', ''TABLE_SCHEM'', ''TABLE_NAME'', ''SUPERTABLE_NAME''] []"

definition md_getSuperTypes :: "'d art_set" where
  "md_getSuperTypes = new_ArtResultSet
     [''TYPE_CAT'', ''TYPE_SCHEM'', ''TYPE_NAME'', ''SUPERTYPE_CAT'', ''SUPERTYPE_SCHEM'', ''SUPERTYPE_NAME''] []"

definition md_getUDTs :: "'d art_set" where
  "md_getUDTs = new_ArtResultSet
     [''TYPE_CAT'', ''TYPE_SCHEM'', ''TYPE_NAME'', ''CLASS_NAME'', ''DATA_TYPE'', ''REMARKS''] []"

definition md_getVersionColumns :: "'d art_set" where
  "md_getVersionColumns = new_ArtResultSet
     [''SCOPE'', ''COLUMN_NAME'', ''DATA_TYPE'', ''TYPE_NAME'', ''COLUMN_SIZE'', ''BUFFER_LENGTH'',
      ''DECIMAL_DIGITS'', ''PSEUDO_COLUMN''] []"

definition table_types :: "(string \<times> nat) list" where
  "table_types = [(''TABLE'', 32200), (''VIEW'', 50000), (''LOCAL TEMPORARY'', 32200)]"

definition md_getTableTypes :: "conn_meta \<Rightarrow> 'd art_set" where
  "md_getTableTypes m = new_ArtResultSet [''TABLE_TYPE'']
     (map (\<lambda>(t, v). [MyVal_chars t]) (filter (\<lambda>(t, v). cm_server_version m \<ge> v) table_types))"

section \<open>One variable of the session\<close>

text \<open>The description is a member of the connection; it exists from the end of the opening on.\<close>

definition md_this :: "('n connection, conn_meta) sop" where
  "md_this = (\<lambda>c. case c_meta c of None \<Rightarrow> (Inl Undefined_behaviour, c) | Some m \<Rightarrow> (Inr m, c))"

definition md_getIdentifierQuoteString :: "('n, 'r, 'p, 'd) nlink \<Rightarrow> ('n connection, string) sop" where
  "md_getIdentifierQuoteString link =
     sbind md_this (\<lambda>m.
       if cm_server_version m \<ge> 32306 then
         sbind (con_getSessionVariable link ''SQL_MODE'') (\<lambda>sql_mode.
           sret (if std_find ''ANSI_QUOTES'' sql_mode \<noteq> None then [dquote] else ''`''))
       else sret '' '')"

text \<open>The number's text ends at the first null character; the result is converted to an unsigned number.\<close>

definition md_variable_number :: "('n, 'r, 'p, 'd) nlink \<Rightarrow> string \<Rightarrow> int \<Rightarrow> ('n connection, nat) sop" where
  "md_variable_number link name off =
     sbind (con_getSessionVariable link name) (\<lambda>v.
       case atoi (chars v) of
         Inl e \<Rightarrow> sthrow e
       | Inr i \<Rightarrow> if i - off < INT_MIN then sthrow Undefined_behaviour else sret (nat ((i - off) mod 2 ^ 32)))"

definition md_getMaxConnections :: "('n, 'r, 'p, 'd) nlink \<Rightarrow> ('n connection, nat) sop" where
  "md_getMaxConnections link = md_variable_number link ''max_connections'' 0"

definition md_getMaxStatementLength :: "('n, 'r, 'p, 'd) nlink \<Rightarrow> ('n connection, nat) sop" where
  "md_getMaxStatementLength link = md_variable_number link ''max_allowed_packet'' 4"

text \<open>\<open>info\<close> is the client library's \<^verbatim>\<open>get_server_info\<close>.\<close>

definition md_getDatabaseProductVersion :: "('n \<Rightarrow> string) \<Rightarrow> ('n connection, string) sop" where
  "md_getDatabaseProductVersion info = con_ask info"

end
