(* ===== verification/Foreign_Keys.thy ===== *)
theory Foreign_Keys
  imports Db_Facts
begin

text \<open>
  \<^verbatim>\<open>MySQL_ConnectionMetaData::parseImportedKeys\<close>: the foreign key of a table, read from the statement that creates
  the table. Positions are unsigned 64-bit numbers; \<^verbatim>\<open>npos\<close> is the greatest, and is not always tested for. The
  character at the end of the text is the null character, one beyond is undefined.
\<close>

section \<open>Characters and positions\<close>

abbreviation (input) two64 :: nat where "two64 \<equiv> 18446744073709551616"

definition npos :: nat where "npos = two64 - 1"

definition wsub :: "nat \<Rightarrow> nat \<Rightarrow> nat" where
  "wsub a b = nat ((int a - int b) mod 2 ^ 64)"

definition wadd :: "nat \<Rightarrow> nat \<Rightarrow> nat" where
  "wadd a b = (a + b) mod 2 ^ 64"

definition find_pos :: "string \<Rightarrow> string \<Rightarrow> nat \<Rightarrow> nat" where
  "find_pos s needle pos = (if pos \<le> length s then (case std_find needle (drop pos s) of None \<Rightarrow> npos | Some i \<Rightarrow> pos + i) else npos)"

text \<open>\<^verbatim>\<open>while (p(def[pos])) ++pos;\<close>\<close>

function skip_while :: "(char \<Rightarrow> bool) \<Rightarrow> string \<Rightarrow> nat \<Rightarrow> nat res" where
  "skip_while p s pos =
     (if pos < length s then (if p (s ! pos) then skip_while p s (pos + 1) else Inr pos)
      else if pos = length s then (if p (CHR 0x00) then Inl Undefined_behaviour else Inr pos)
      else Inl Undefined_behaviour)"
  by pat_completeness auto
termination
  by (relation "measure (\<lambda>(p, s, pos). length s - pos)") auto

text \<open>
  \<^verbatim>\<open>while (def[end] != quote && def[end - 1] != '\\') ++end;\<close>, the end of a quoted name: it stops behind a
  backslash, too.
\<close>

function name_end :: "char \<Rightarrow> string \<Rightarrow> nat \<Rightarrow> nat res" where
  "name_end q s pos =
     (if pos < length s then
        (if s ! pos \<noteq> q \<and> (pos = 0 \<or> s ! (pos - 1) \<noteq> CHR 0x5C) then name_end q s (pos + 1) else Inr pos)
      else if pos = length s then
        (if q = CHR 0x00 \<or> (pos \<noteq> 0 \<and> s ! (pos - 1) = CHR 0x5C) then Inr pos else Inl Undefined_behaviour)
      else Inl Undefined_behaviour)"
  by pat_completeness auto
termination
  by (relation "measure (\<lambda>(q, s, pos). length s - pos)") auto

declare skip_while.simps [simp del] name_end.simps [simp del]

section \<open>The parts of a foreign key\<close>

record fk_def =
  fk_constraint_name :: string
  fk_keywords_names :: "string \<rightharpoonup> string"
  fk_referenced_fields :: "string \<rightharpoonup> string list"
  fk_update_cascade :: "string \<rightharpoonup> nat"

definition new_fk_def :: fk_def where
  "new_fk_def = \<lparr>fk_constraint_name = [], fk_keywords_names = Map.empty, fk_referenced_fields = Map.empty, fk_update_cascade = Map.empty\<rparr>"

definition importedKeyCascade :: nat where "importedKeyCascade = 0"
definition importedKeyNoAction :: nat where "importedKeyNoAction = 3"
definition importedKeyNotDeferrable :: nat where "importedKeyNotDeferrable = 4"
definition importedKeyRestrict :: nat where "importedKeyRestrict = 5"
definition importedKeySetDefault :: nat where "importedKeySetDefault = 6"
definition importedKeySetNull :: nat where "importedKeySetNull = 7"

text \<open>The constraint's name and the position behind it.\<close>

definition fk_name :: "string \<Rightarrow> string \<Rightarrow> nat \<Rightarrow> (string \<times> nat) res" where
  "fk_name cQuote def pos =
     (if cQuote \<noteq> [] then
        rbind (skip_while (\<lambda>c. c \<noteq> cQuote ! 0) def pos) (\<lambda>p.
        rbind (name_end (cQuote ! 0) def (p + 1)) (\<lambda>end_pos.
        rbind (std_substr def (p + 1) (wsub end_pos (p + 1))) (\<lambda>n. Inr (n, end_pos + 1))))
      else
        rbind (skip_while (\<lambda>c. c = CHR '' '') def pos) (\<lambda>p.
        rbind (skip_while (\<lambda>c. c \<noteq> CHR '' '') def (p + 1)) (\<lambda>end_pos.
        rbind (std_substr def (p + 1) (wsub end_pos (p + 1))) (\<lambda>n. Inr (n, end_pos + 1)))))"

text \<open>The optional name behind a keyword, and the position of the opening bracket.\<close>

definition fk_keyword_name :: "string \<Rightarrow> string \<Rightarrow> nat \<Rightarrow> (string option \<times> nat) res" where
  "fk_keyword_name cQuote def pos =
     rbind (std_index def pos) (\<lambda>c.
       if c = CHR ''('' then Inr (None, pos)
       else
         rbind (if cQuote \<noteq> [] then
                  rbind (name_end (cQuote ! 0) def (pos + 1)) (\<lambda>end_pos.
                  rbind (std_substr def (pos + 1) (wsub end_pos (pos + 1))) (\<lambda>n. Inr (n, end_pos + 1)))
                else
                  rbind (skip_while (\<lambda>c. c \<noteq> CHR '' '' \<and> c \<noteq> CHR ''('') def pos) (\<lambda>end_pos.
                  rbind (std_substr def pos (wsub (wsub end_pos pos) 1)) (\<lambda>n. Inr (n, end_pos + 1))))
           (\<lambda>(n, p). rbind (skip_while (\<lambda>c. c \<noteq> CHR ''('') def p) (\<lambda>p'. Inr (Some n, p'))))"

text \<open>The fields between the brackets; \<open>ql\<close> is the length of the quote.\<close>

lemma find_pos_less: "find_pos s n pos = i \<Longrightarrow> i \<noteq> npos \<Longrightarrow> pos \<le> i"
  by (auto simp: find_pos_def split: option.splits if_splits)

lemma find_pos_char: "find_pos s [c] pos = i \<Longrightarrow> i \<noteq> npos \<Longrightarrow> i < length s"
  using std_find_Some_split [of "[c]" "drop pos s"]
  by (fastforce simp: find_pos_def split: option.splits if_splits)

lemma skip_while_ge: "skip_while p s pos = Inr i \<Longrightarrow> pos \<le> i \<and> i \<le> length s"
  by (induction p s pos rule: skip_while.induct) (subst (asm) (2) skip_while.simps, auto split: if_splits)

function fk_fields :: "nat \<Rightarrow> string \<Rightarrow> nat \<Rightarrow> nat \<Rightarrow> string list res" where
  "fk_fields ql def end_bracket pos =
     (let comma_pos = find_pos def '','' pos in
      if comma_pos \<ge> end_bracket \<or> comma_pos = npos then
        rbind (std_substr def (pos + ql) (wsub (wsub end_bracket pos) (ql * 2))) (\<lambda>f. Inr [f])
      else
        rbind (std_substr def (pos + ql) (wsub (wsub comma_pos pos) (ql * 2))) (\<lambda>f.
        rbind (skip_while (\<lambda>c. c = CHR '' '') def (comma_pos + 1)) (\<lambda>p.
        rbind (fk_fields ql def end_bracket p) (\<lambda>fs. Inr (f # fs)))))"
  by pat_completeness auto
termination
proof (relation "measure (\<lambda>(ql, def, end_bracket, pos). length def - pos)", goal_cases)
  case (2 ql def end_bracket pos comma_pos f p)
  then have "pos \<le> comma_pos" "comma_pos < length def" using find_pos_less find_pos_char by auto
  with skip_while_ge [OF 2(4)] show ?case by auto
qed simp

declare fk_fields.simps [simp del]

text \<open>One of the two keywords: its name, its fields, and the position behind the closing bracket.\<close>

definition fk_keyword :: "string \<Rightarrow> string \<Rightarrow> string \<Rightarrow> fk_def \<times> nat \<Rightarrow> (fk_def \<times> nat) res" where
  "fk_keyword cQuote def keyword = (\<lambda>(k, pos).
     rbind (skip_while (\<lambda>c. c = CHR '' '') def (wadd (find_pos def keyword pos) (length keyword))) (\<lambda>p.
     rbind (fk_keyword_name cQuote def p) (\<lambda>(n, bracket).
     let end_bracket = find_pos def '')'' (bracket + 1) in
     rbind (fk_fields (length cQuote) def end_bracket (bracket + 1)) (\<lambda>fs.
     Inr (k\<lparr>fk_keywords_names := (case n of None \<Rightarrow> fk_keywords_names k | Some x \<Rightarrow> (fk_keywords_names k)(keyword \<mapsto> x)),
            fk_referenced_fields := (fk_referenced_fields k)(keyword \<mapsto>
              (case fk_referenced_fields k keyword of None \<Rightarrow> [] | Some old \<Rightarrow> old) @ fs)\<rparr>,
          wadd end_bracket 1)))))"

text \<open>An action behind \<^verbatim>\<open>ON DELETE\<close> or \<^verbatim>\<open>ON UPDATE\<close>; \<^verbatim>\<open>sizeof\<close> counts the null character, too.\<close>

definition fk_action :: "string \<Rightarrow> string \<Rightarrow> fk_def \<times> nat \<Rightarrow> (fk_def \<times> nat) res" where
  "fk_action def keyword = (\<lambda>(k, pos).
     let idx = find_pos def keyword pos;
         put = (\<lambda>action p. Inr (k\<lparr>fk_update_cascade := (fk_update_cascade k)(keyword \<mapsto> action)\<rparr>, p)) in
     if idx = npos then put importedKeyNoAction pos
     else rbind (skip_while (\<lambda>c. c = CHR '' '') def (idx + length keyword)) (\<lambda>p.
       rbind (std_index def p) (\<lambda>c.
         if c = CHR ''R'' then put importedKeyRestrict (p + 9)
         else if c = CHR ''C'' then put importedKeyCascade (p + 8)
         else if c = CHR ''S'' then put importedKeySetNull (p + 9)
         else if c = CHR ''N'' then put importedKeyNoAction (p + 10)
         else put importedKeyNoAction p)))"

definition parseImportedKeys :: "string \<Rightarrow> string \<Rightarrow> fk_def option res" where
  "parseImportedKeys cQuote def =
     (let idx = find_pos def ''CONSTRAINT'' 0 in
      if idx = npos then Inr None
      else
        rbind (fk_name cQuote def (idx + 10)) (\<lambda>(n, p0).
        rbind (fk_keyword cQuote def ''FOREIGN KEY'' (new_fk_def\<lparr>fk_constraint_name := n\<rparr>, p0)) (\<lambda>s1.
        rbind (fk_keyword cQuote def ''REFERENCES'' s1) (\<lambda>s2.
        rbind (fk_action def ''ON DELETE'' s2) (\<lambda>s3.
        rbind (fk_action def ''ON UPDATE'' s3) (\<lambda>(k, p). Inr (Some k)))))))"

section \<open>Reading a foreign key\<close>

text \<open>The parts of the text that the server prints, with plain names.\<close>

definition plain_name :: "string \<Rightarrow> bool" where
  "plain_name n \<longleftrightarrow> list_all (\<lambda>c. c \<notin> {CHR ''`'', CHR 0x5C, CHR '','', CHR '')''}) n"

fun quoted :: "string list \<Rightarrow> string" where
  "quoted [] = []"
| "quoted [n] = ''`'' @ n @ ''`''"
| "quoted (n # m # ns) = ''`'' @ n @ ''`, '' @ quoted (m # ns)"

datatype rule = Restrict | Cascade | Set_null | No_action

fun rule_text :: "rule \<Rightarrow> string" where
  "rule_text Restrict = ''RESTRICT''" | "rule_text Cascade = ''CASCADE''" | "rule_text Set_null = ''SET NULL''"
| "rule_text No_action = ''NO ACTION''"

fun rule_code :: "rule \<Rightarrow> nat" where
  "rule_code Restrict = importedKeyRestrict" | "rule_code Cascade = importedKeyCascade"
| "rule_code Set_null = importedKeySetNull" | "rule_code No_action = importedKeyNoAction"

fun on_rule :: "string \<Rightarrow> rule option \<Rightarrow> string" where
  "on_rule kw None = []"
| "on_rule kw (Some r) = '' '' @ kw @ '' '' @ rule_text r"

definition key_text :: "string \<Rightarrow> string list \<Rightarrow> string \<Rightarrow> string list \<Rightarrow> rule option \<Rightarrow> rule option \<Rightarrow> string" where
  "key_text n fs t rs del upd =
     ''CONSTRAINT `'' @ n @ ''` FOREIGN KEY ('' @ quoted fs @ '') REFERENCES `'' @ t @ ''` ('' @ quoted rs @ '')''
       @ on_rule ''ON DELETE'' del @ on_rule ''ON UPDATE'' upd"

subsection \<open>Positions in a text\<close>

lemma wsub_le: "b \<le> a \<Longrightarrow> a \<le> npos \<Longrightarrow> wsub a b = a - b"
  by (simp add: wsub_def npos_def flip: of_nat_diff)

lemma wadd_small: "a + b \<le> npos \<Longrightarrow> wadd a b = a + b"
  by (simp add: wadd_def npos_def)

lemma find_pos_at: "std_find n r = Some i \<Longrightarrow> find_pos (a @ r) n (length a) = length a + i"
  by (simp add: find_pos_def)

lemma find_pos_none: "std_find n r = None \<Longrightarrow> find_pos (a @ r) n (length a) = npos"
  by (simp add: find_pos_def)

lemma skip_while_stop:
  assumes "list_all p u" "\<not> p c"
  shows "skip_while p (a @ u @ c # r) (length a) = Inr (length a + length u)"
  using assms
proof (induction u arbitrary: a)
  case Nil
  then show ?case by (subst skip_while.simps) (simp add: nth_append)
next
  case (Cons x u)
  from Cons.IH [of "a @ [x]"] Cons.prems show ?case by (subst skip_while.simps) (simp add: nth_append)
qed

lemma name_end_stop:
  assumes "q \<notin> set u" "CHR 0x5C \<notin> set (x # u)"
  shows "name_end q ((a @ [x]) @ u @ q # r) (length (a @ [x])) = Inr (length (a @ [x]) + length u)"
  using assms
proof (induction u arbitrary: a x)
  case Nil
  then show ?case by (subst name_end.simps) (simp add: nth_append)
next
  case (Cons y u)
  from Cons.IH [where a = "a @ [x]" and x = y] Cons.prems show ?case by (subst name_end.simps) (auto simp: nth_append)
qed

lemma plain_name_chars:
  assumes "plain_name n"
  shows "CHR ''`'' \<notin> set n" "CHR 0x5C \<notin> set n" "CHR '','' \<notin> set n" "CHR '')'' \<notin> set n"
  using assms by (auto simp: plain_name_def list_all_iff)

lemma fk_name_step:
  assumes "plain_name n" "length (a @ '' `'' @ n @ ''`'') \<le> npos"
  shows "fk_name ''`'' (a @ '' `'' @ n @ ''`'' @ r) (length a) = Inr (n, length (a @ '' `'' @ n @ ''`''))"
proof -
  note c = plain_name_chars [OF assms(1)]
  have s: "skip_while (\<lambda>c. c \<noteq> CHR ''`'') (a @ '' `'' @ n @ ''`'' @ r) (length a) = Inr (length a + 1)"
    using skip_while_stop [of "\<lambda>c. c \<noteq> CHR ''`''" "'' ''" "CHR ''`''" a "n @ ''`'' @ r"] by simp
  have e: "name_end (CHR ''`'') (a @ '' `'' @ n @ ''`'' @ r) (length a + 2) = Inr (length a + 2 + length n)"
    using name_end_stop [of "CHR ''`''" n "CHR ''`''" "a @ '' ''" r] c by simp
  show ?thesis
    using assms(2) s e by (simp add: fk_name_def std_substr_def wsub_le)
qed

subsection \<open>The fields\<close>

lemma quoted_no_bracket: "list_all plain_name fs \<Longrightarrow> CHR '')'' \<notin> set (quoted fs)"
  by (induction fs rule: quoted.induct) (auto dest: plain_name_chars)

lemma std_find_skip: "c \<notin> set u \<Longrightarrow> std_find [c] (u @ v) = map_option (\<lambda>i. length u + i) (std_find [c] v)"
  by (induction u; cases "std_find [c] v") auto

lemma fk_fields_more:
  assumes "find_pos def '','' pos = c" "c < end_bracket" "c \<noteq> npos"
    and "std_substr def (pos + ql) (wsub (wsub c pos) (ql * 2)) = Inr f"
    and "skip_while (\<lambda>c. c = CHR '' '') def (c + 1) = Inr p" "fk_fields ql def end_bracket p = Inr fs"
  shows "fk_fields ql def end_bracket pos = Inr (f # fs)"
  using assms by (subst fk_fields.simps) simp

lemma fk_fields_step:
  assumes "list_all plain_name fs" "fs \<noteq> []" "length (a @ quoted fs) < npos"
  shows "fk_fields 1 (a @ quoted fs @ '')'' @ r) (length (a @ quoted fs)) (length a) = Inr fs"
  using assms
proof (induction fs arbitrary: a rule: quoted.induct)
  case 1
  then show ?case by simp
next
  case (2 n)
  have c: "CHR '','' \<notin> set (quoted [n] @ '')'')" using 2 plain_name_chars [of n] by simp
  let ?comma = "find_pos (a @ quoted [n] @ '')'' @ r) '','' (length a)"
  have "?comma = npos \<or> length (a @ quoted [n]) \<le> ?comma"
    using std_find_skip [OF c, of r] by (auto simp: find_pos_def split: option.split)
  moreover have "wsub (wsub (length (a @ quoted [n])) (length a)) (1 * 2) = length n"
    using 2(3) by (simp add: wsub_le)
  ultimately show ?case by (subst fk_fields.simps) (auto simp: std_substr_def Let_def)
next
  case (3 n m ns)
  let ?rest = "quoted (m # ns)"
  have c: "CHR '','' \<notin> set (''`'' @ n @ ''`'')" using 3(2) plain_name_chars [of n] by simp
  have comma: "find_pos (a @ quoted (n # m # ns) @ '')'' @ r) '','' (length a) = length a + length n + 2"
    using std_find_skip [OF c, of "'', '' @ ?rest @ '')'' @ r"] by (simp add: find_pos_def)
  obtain v where v: "?rest = CHR ''`'' # v" by (cases ns) auto
  have sk: "skip_while (\<lambda>c. c = CHR '' '') (a @ quoted (n # m # ns) @ '')'' @ r) (length a + length n + 3) = Inr (length a + length n + 4)"
    using skip_while_stop [of "\<lambda>c. c = CHR '' ''" "'' ''" "CHR ''`''" "a @ ''`'' @ n @ ''`,''" "v @ '')'' @ r"] v by (simp add: eval_nat_numeral)
  have IH: "fk_fields 1 (a @ quoted (n # m # ns) @ '')'' @ r) (length (a @ quoted (n # m # ns))) (length a + length n + 4) = Inr (m # ns)"
    using 3(1) [of "a @ ''`'' @ n @ ''`, ''"] 3(2,4) by (simp add: add.commute add.left_commute eval_nat_numeral)
  have sk': "skip_while (\<lambda>c. c = CHR '' '') (a @ quoted (n # m # ns) @ '')'' @ r) (length a + length n + 2 + 1) = Inr (length a + length n + 4)"
    using sk by (simp add: eval_nat_numeral)
  have w: "wsub (wsub (length a + length n + 2) (length a)) (1 * 2) = length n" using 3(4) by (simp add: wsub_le)
  have sub: "std_substr (a @ quoted (n # m # ns) @ '')'' @ r) (length a + 1) (wsub (wsub (length a + length n + 2) (length a)) (1 * 2)) = Inr n"
    unfolding w by (simp add: std_substr_def)
  show ?case
    by (rule fk_fields_more [OF comma _ _ sub sk' IH]) (use 3(4) in simp_all)
qed

subsection \<open>The two keywords\<close>

definition put_keyword :: "string \<Rightarrow> string option \<Rightarrow> string list \<Rightarrow> fk_def \<Rightarrow> fk_def" where
  "put_keyword kw n fs k =
     k\<lparr>fk_keywords_names := (case n of None \<Rightarrow> fk_keywords_names k | Some x \<Rightarrow> (fk_keywords_names k)(kw \<mapsto> x)),
       fk_referenced_fields := (fk_referenced_fields k)(kw \<mapsto>
         (case fk_referenced_fields k kw of None \<Rightarrow> [] | Some old \<Rightarrow> old) @ fs)\<rparr>"

lemma fk_keyword_fields:
  assumes def: "def = b @ ''('' @ quoted fs @ '')'' @ r" "length def < npos"
    and fs: "list_all plain_name fs" "fs \<noteq> []"
    and kw: "find_pos def kw pos = i" "i + length kw \<le> length def"
    and skip: "skip_while (\<lambda>c. c = CHR '' '') def (i + length kw) = Inr p"
    and name: "fk_keyword_name ''`'' def p = Inr (n, length b)"
  shows "fk_keyword ''`'' def kw (k, pos) = Inr (put_keyword kw n fs k, length (b @ ''('' @ quoted fs @ '')''))"
proof -
  have w: "wadd i (length kw) = i + length kw" using kw(2) def(2) by (simp add: wadd_small)
  have "std_find '')'' (quoted fs @ '')'' @ r) = Some (length (quoted fs))"
    using std_find_char_split [OF quoted_no_bracket [OF fs(1)], of r] by simp
  then have e: "find_pos def '')'' (length b + 1) = length (b @ ''('' @ quoted fs)"
    using find_pos_at [of "'')''" "quoted fs @ '')'' @ r" "length (quoted fs)" "b @ ''(''"] def(1) by simp
  have f: "fk_fields 1 def (length (b @ ''('' @ quoted fs)) (length b + 1) = Inr fs"
    using fk_fields_step [OF fs, of "b @ ''(''" r] def by simp
  have "wadd (length (b @ ''('' @ quoted fs)) 1 = length (b @ ''('' @ quoted fs @ '')'')"
    using def by (subst wadd_small) simp_all
  then show ?thesis
    using w skip name e f by (simp add: fk_keyword_def kw(1) put_keyword_def)
qed

lemma foreign_key_step:
  assumes "length (a @ '' FOREIGN KEY ('' @ quoted fs @ '')'' @ r) < npos" "list_all plain_name fs" "fs \<noteq> []"
  shows "fk_keyword ''`'' (a @ '' FOREIGN KEY ('' @ quoted fs @ '')'' @ r) ''FOREIGN KEY'' (k, length a) =
    Inr (put_keyword ''FOREIGN KEY'' None fs k, length (a @ '' FOREIGN KEY ('' @ quoted fs @ '')''))"
proof -
  let ?def = "a @ '' FOREIGN KEY ('' @ quoted fs @ '')'' @ r" and ?b = "a @ '' FOREIGN KEY ''"
  have f: "find_pos ?def ''FOREIGN KEY'' (length a) = length a + 1"
    by (rule find_pos_at) simp
  have s: "skip_while (\<lambda>c. c = CHR '' '') ?def (length a + 1 + length ''FOREIGN KEY'') = Inr (length a + 13)"
    using skip_while_stop [of "\<lambda>c. c = CHR '' ''" "'' ''" "CHR ''(''" "a @ '' FOREIGN KEY''" "quoted fs @ '')'' @ r"]
    by (simp add: eval_nat_numeral)
  have n: "fk_keyword_name ''`'' ?def (length a + 13) = Inr (None, length ?b)"
    by (simp add: fk_keyword_name_def std_index_def nth_append)
  show ?thesis
    using fk_keyword_fields [OF _ assms(1) assms(2,3) f _ s n, of r k] by simp
qed

lemma references_step:
  assumes "length (a @ '' REFERENCES `'' @ t @ ''` ('' @ quoted rs @ '')'' @ r) < npos" "plain_name t" "list_all plain_name rs" "rs \<noteq> []"
  shows "fk_keyword ''`'' (a @ '' REFERENCES `'' @ t @ ''` ('' @ quoted rs @ '')'' @ r) ''REFERENCES'' (k, length a) =
    Inr (put_keyword ''REFERENCES'' (Some t) rs k, length (a @ '' REFERENCES `'' @ t @ ''` ('' @ quoted rs @ '')''))"
proof -
  let ?def = "a @ '' REFERENCES `'' @ t @ ''` ('' @ quoted rs @ '')'' @ r" and ?b = "a @ '' REFERENCES `'' @ t @ ''` ''"
  note c = plain_name_chars [OF assms(2)]
  have f: "find_pos ?def ''REFERENCES'' (length a) = length a + 1"
    by (rule find_pos_at) simp
  have s: "skip_while (\<lambda>c. c = CHR '' '') ?def (length a + 1 + length ''REFERENCES'') = Inr (length a + 12)"
    using skip_while_stop [of "\<lambda>c. c = CHR '' ''" "'' ''" "CHR ''`''" "a @ '' REFERENCES''" "t @ ''` ('' @ quoted rs @ '')'' @ r"]
    by (simp add: eval_nat_numeral)
  have e: "name_end (CHR ''`'') ?def (length a + 13) = Inr (length a + 13 + length t)"
    using name_end_stop [of "CHR ''`''" t "CHR ''`''" "a @ '' REFERENCES ''" "'' ('' @ quoted rs @ '')'' @ r"] c by (simp add: eval_nat_numeral)
  have o: "skip_while (\<lambda>c. c \<noteq> CHR ''('') ?def (length a + 14 + length t) = Inr (length ?b)"
    using skip_while_stop [of "\<lambda>c. c \<noteq> CHR ''(''" "'' ''" "CHR ''(''" "a @ '' REFERENCES `'' @ t @ ''`''" "quoted rs @ '')'' @ r"]
    by (simp add: eval_nat_numeral)
  have i: "std_index ?def (length a + 12) = Inr (CHR ''`'')" by (simp add: std_index_def nth_append)
  have u: "std_substr ?def (length a + 13) (wsub (length a + 13 + length t) (length a + 13)) = Inr t"
    using assms(1) by (simp add: wsub_le std_substr_def)
  have n: "fk_keyword_name ''`'' ?def (length a + 12) = Inr (Some t, length ?b)"
    using e o i u by (simp add: fk_keyword_name_def eval_nat_numeral del: append.simps)
  show ?thesis
    using fk_keyword_fields [OF _ assms(1) assms(3,4) f _ s n, of r k] by simp
qed

subsection \<open>The two rules\<close>

definition put_rule :: "string \<Rightarrow> nat \<Rightarrow> fk_def \<Rightarrow> fk_def" where
  "put_rule kw x k = k\<lparr>fk_update_cascade := (fk_update_cascade k)(kw \<mapsto> x)\<rparr>"

lemma action_step:
  assumes "std_find kw (pad @ kw @ '' '' @ rule_text ru @ r) = Some (length pad)" "length (a @ pad) \<noteq> npos"
  shows "fk_action (a @ pad @ kw @ '' '' @ rule_text ru @ r) kw (k, length a) =
    Inr (put_rule kw (rule_code ru) k, length (a @ pad @ kw @ '' '' @ rule_text ru) + 1)"
proof -
  let ?def = "a @ pad @ kw @ '' '' @ rule_text ru @ r"
  have f: "find_pos ?def kw (length a) = length a + length pad" by (rule find_pos_at [OF assms(1)])
  obtain c v where c: "rule_text ru = c # v" "c \<noteq> CHR '' ''" by (cases ru) auto
  let ?p = "length a + length pad + length kw + 1"
  have s: "skip_while (\<lambda>c. c = CHR '' '') ?def (length a + length pad + length kw) = Inr ?p"
    using skip_while_stop [of "\<lambda>c. c = CHR '' ''" "'' ''" c "a @ pad @ kw" "v @ r"] c by (simp add: add.assoc)
  have i: "std_index ?def ?p = Inr c" using c(1) by (simp add: std_index_def nth_append)
  show ?thesis
    using f s i c(1) assms(2)
    by (cases ru) (auto simp: fk_action_def Let_def put_rule_def add.assoc)
qed

lemma action_none:
  assumes "pos \<le> length def \<Longrightarrow> std_find kw (drop pos def) = None"
  shows "fk_action def kw (k, pos) = Inr (put_rule kw importedKeyNoAction k, pos)"
  using assms by (auto simp: fk_action_def find_pos_def put_rule_def Let_def)

definition code_of :: "rule option \<Rightarrow> nat" where
  "code_of r = (case r of None \<Rightarrow> importedKeyNoAction | Some x \<Rightarrow> rule_code x)"

lemma no_delete_rule:
  assumes "\<not> sublist ''ON DELETE'' post" "post = [] \<or> hd post \<noteq> CHR '' ''"
  shows "std_find ''ON DELETE'' (on_rule ''ON UPDATE'' upd @ post) = None"
proof -
  have "std_find ''ON DELETE'' post = None" using assms(1) by (simp add: std_find_None_iff)
  then show ?thesis
  proof (cases upd)
    case (Some y)
    from \<open>std_find ''ON DELETE'' post = None\<close> Some assms(2) show ?thesis by (cases y; cases post) auto
  qed simp
qed

lemma drop_one_more: "drop (length b + 1) (b @ r) = drop 1 r"
  by simp

lemma rules_step:
  assumes "length (a @ on_rule ''ON DELETE'' del @ on_rule ''ON UPDATE'' upd @ post) < npos"
    and "\<not> sublist ''ON DELETE'' post" "\<not> sublist ''ON UPDATE'' post" "post = [] \<or> hd post \<noteq> CHR '' ''"
  shows "\<exists>p. rbind (fk_action (a @ on_rule ''ON DELETE'' del @ on_rule ''ON UPDATE'' upd @ post) ''ON DELETE'' (k, length a))
      (fk_action (a @ on_rule ''ON DELETE'' del @ on_rule ''ON UPDATE'' upd @ post) ''ON UPDATE'')
    = Inr (put_rule ''ON UPDATE'' (code_of upd) (put_rule ''ON DELETE'' (code_of del) k), p)"
proof (cases del)
  case None
  let ?def = "a @ on_rule ''ON UPDATE'' upd @ post"
  have d: "fk_action ?def ''ON DELETE'' (k, length a) = Inr (put_rule ''ON DELETE'' importedKeyNoAction k, length a)"
    using no_delete_rule [OF assms(2,4)] by (intro action_none) simp
  show ?thesis
  proof (cases upd)
    case None
    then show ?thesis using d \<open>del = None\<close> assms(3) action_none [of "length a" "a @ post" "''ON UPDATE''"]
      by (simp add: code_of_def std_find_None_iff)
  next
    case (Some y)
    then show ?thesis using d \<open>del = None\<close> assms(1) action_step [of "''ON UPDATE''" "'' ''" y post a]
      by (simp add: code_of_def)
  qed
next
  case (Some x)
  let ?b = "a @ '' ON DELETE '' @ rule_text x"
  have d: "fk_action (a @ '' ON DELETE '' @ rule_text x @ r) ''ON DELETE'' (k, length a) =
      Inr (put_rule ''ON DELETE'' (rule_code x) k, length ?b + 1)" if "length a + 1 \<noteq> npos" for r
    using action_step [of "''ON DELETE''" "'' ''" x r a] that by simp
  show ?thesis
  proof (cases upd)
    case None
    have "std_find ''ON UPDATE'' (drop 1 post) = None"
      using assms(3) sublist_order.order_trans [of "''ON UPDATE''" "drop 1 post" post] by (auto simp: std_find_None_iff)
    then have "fk_action (?b @ post) ''ON UPDATE'' (put_rule ''ON DELETE'' (rule_code x) k, length ?b + 1) =
        Inr (put_rule ''ON UPDATE'' importedKeyNoAction (put_rule ''ON DELETE'' (rule_code x) k), length ?b + 1)"
      by (intro action_none) (simp only: drop_one_more)
    then show ?thesis using d [of post] assms(1) None \<open>del = Some x\<close> by (simp add: code_of_def)
  next
    case (Some y)
    have "fk_action (?b @ '' ON UPDATE '' @ rule_text y @ post) ''ON UPDATE'' (put_rule ''ON DELETE'' (rule_code x) k, length ?b + 1) =
        Inr (put_rule ''ON UPDATE'' (rule_code y) (put_rule ''ON DELETE'' (rule_code x) k), length (?b @ '' ON UPDATE '' @ rule_text y) + 1)"
      using action_step [of "''ON UPDATE''" "[]" y post "?b @ '' ''"] assms(1) Some \<open>del = Some x\<close> by simp
    then show ?thesis using d [of "'' ON UPDATE '' @ rule_text y @ post"] assms(1) Some \<open>del = Some x\<close> by (simp add: code_of_def)
  qed
qed

subsection \<open>The whole key\<close>

text \<open>A pattern whose first character occurs in it once is found where it is put, if it was not there before.\<close>

lemma std_find_put:
  assumes "c \<notin> set v" "\<not> sublist (c # v) pre"
  shows "std_find (c # v) (pre @ (c # v) @ r) = Some (length pre)"
  using assms(2)
proof (induction pre)
  case Nil
  then show ?case by simp
next
  case (Cons x pre)
  have "\<not> prefix (c # v) ((x # pre) @ (c # v) @ r)"
  proof
    assume p: "prefix (c # v) ((x # pre) @ (c # v) @ r)"
    show False
    proof (cases "length v \<le> length pre")
      case True
      with p have "prefix (c # v) (x # pre)" using prefix_length_prefix [of "c # v" "(x # pre) @ (c # v) @ r" "x # pre"] by auto
      with Cons.prems show False by (meson prefix_imp_sublist)
    next
      case False
      from p obtain w where "(x # pre) @ (c # v) @ r = (c # v) @ w" by (auto simp: prefix_def)
      then have "((c # v) @ w) ! (length pre + 1) = c" by (metis append.assoc append_Cons length_Cons nth_append_length add.commute plus_1_eq_Suc)
      with False have "v ! length pre = c" by (simp add: nth_append)
      with False assms(1) nth_mem [of "length pre" v] show False by simp
    qed
  qed
  moreover have "\<not> sublist (c # v) pre" using Cons.prems by (meson sublist_Cons_right)
  ultimately show ?case using Cons.IH by simp
qed

text \<open>What a foreign key is read as.\<close>

definition read_key :: "string \<Rightarrow> string list \<Rightarrow> string \<Rightarrow> string list \<Rightarrow> rule option \<Rightarrow> rule option \<Rightarrow> fk_def" where
  "read_key n fs t rs del upd =
     \<lparr>fk_constraint_name = n, fk_keywords_names = [''REFERENCES'' \<mapsto> t],
      fk_referenced_fields = [''FOREIGN KEY'' \<mapsto> fs, ''REFERENCES'' \<mapsto> rs],
      fk_update_cascade = [''ON DELETE'' \<mapsto> code_of del, ''ON UPDATE'' \<mapsto> code_of upd]\<rparr>"

text \<open>Everything up to the rules is read, whatever follows.\<close>

definition key_head :: "string \<Rightarrow> string list \<Rightarrow> string \<Rightarrow> string list \<Rightarrow> string" where
  "key_head n fs t rs =
     ''CONSTRAINT `'' @ n @ ''` FOREIGN KEY ('' @ quoted fs @ '') REFERENCES `'' @ t @ ''` ('' @ quoted rs @ '')''"

definition head_read :: "string \<Rightarrow> string list \<Rightarrow> string \<Rightarrow> string list \<Rightarrow> fk_def" where
  "head_read n fs t rs =
     put_keyword ''REFERENCES'' (Some t) rs (put_keyword ''FOREIGN KEY'' None fs (new_fk_def\<lparr>fk_constraint_name := n\<rparr>))"

definition wf_key :: "string \<Rightarrow> string list \<Rightarrow> string \<Rightarrow> string list \<Rightarrow> bool" where
  "wf_key n fs t rs \<longleftrightarrow> plain_name n \<and> list_all plain_name fs \<and> fs \<noteq> [] \<and> plain_name t \<and> list_all plain_name rs \<and> rs \<noteq> []"

lemma key_head_read:
  assumes "\<not> sublist ''CONSTRAINT'' pre" "length (pre @ key_head n fs t rs @ rest) < npos" "wf_key n fs t rs"
  shows "parseImportedKeys ''`'' (pre @ key_head n fs t rs @ rest) =
    rbind (rbind (fk_action (pre @ key_head n fs t rs @ rest) ''ON DELETE'' (head_read n fs t rs, length (pre @ key_head n fs t rs)))
        (fk_action (pre @ key_head n fs t rs @ rest) ''ON UPDATE''))
      (\<lambda>(k, p). Inr (Some k))"
proof -
  note wf = assms(3) [unfolded wf_key_def]
  let ?def = "pre @ key_head n fs t rs @ rest"
  let ?a1 = "pre @ ''CONSTRAINT''" and ?a2 = "pre @ ''CONSTRAINT `'' @ n @ ''`''"
  let ?a3 = "?a2 @ '' FOREIGN KEY ('' @ quoted fs @ '')''"
  let ?r2 = "'' REFERENCES `'' @ t @ ''` ('' @ quoted rs @ '')'' @ rest"
  let ?r1 = "'' FOREIGN KEY ('' @ quoted fs @ '')'' @ ?r2"
  have d1: "?def = ?a1 @ '' `'' @ n @ ''`'' @ ?r1" by (simp add: key_head_def)
  have d2: "?def = ?a2 @ '' FOREIGN KEY ('' @ quoted fs @ '')'' @ ?r2" by (simp add: key_head_def)
  have d3: "?def = ?a3 @ ?r2" by (simp add: key_head_def)
  have a4: "?a3 @ '' REFERENCES `'' @ t @ ''` ('' @ quoted rs @ '')'' = pre @ key_head n fs t rs" by (simp add: key_head_def)
  obtain z where z: "?def = pre @ (CHR ''C'' # ''ONSTRAINT'') @ z" by (simp add: key_head_def)
  have "std_find ''CONSTRAINT'' ?def = Some (length pre)"
    unfolding z by (rule std_find_put) (use assms(1) in simp_all)
  then have c: "find_pos ?def ''CONSTRAINT'' 0 = length pre" by (simp add: find_pos_def)
  have "fk_name ''`'' (?a1 @ '' `'' @ n @ ''`'' @ ?r1) (length ?a1) = Inr (n, length (?a1 @ '' `'' @ n @ ''`''))"
    by (rule fk_name_step) (use wf assms(2) in \<open>simp_all add: key_head_def\<close>)
  then have s1: "fk_name ''`'' ?def (length pre + 10) = Inr (n, length ?a2)"
    unfolding d1 [symmetric] by (simp add: eval_nat_numeral)
  let ?k0 = "new_fk_def\<lparr>fk_constraint_name := n\<rparr>"
  let ?k1 = "put_keyword ''FOREIGN KEY'' None fs ?k0"
  have s2: "fk_keyword ''`'' ?def ''FOREIGN KEY'' (?k0, length ?a2) = Inr (?k1, length ?a3)"
    using foreign_key_step [of ?a2 fs ?r2 ?k0] assms(2) wf unfolding d2 [symmetric] by blast
  have s3: "fk_keyword ''`'' ?def ''REFERENCES'' (?k1, length ?a3) = Inr (head_read n fs t rs, length (pre @ key_head n fs t rs))"
    using references_step [of ?a3 t rs rest ?k1] assms(2) wf unfolding d3 [symmetric] a4 head_read_def by blast
  have "length pre \<noteq> npos" using assms(2) by simp
  with c s1 s2 s3 show ?thesis by (auto simp: parseImportedKeys_def Let_def rbind_def split: sum.splits)
qed

theorem key_read:
  assumes "\<not> sublist ''CONSTRAINT'' pre" "length (pre @ key_text n fs t rs del upd @ post) < npos" "wf_key n fs t rs"
    and "\<not> sublist ''ON DELETE'' post" "\<not> sublist ''ON UPDATE'' post" "post = [] \<or> hd post \<noteq> CHR '' ''"
  shows "parseImportedKeys ''`'' (pre @ key_text n fs t rs del upd @ post) = Inr (Some (read_key n fs t rs del upd))"
proof -
  let ?rest = "on_rule ''ON DELETE'' del @ on_rule ''ON UPDATE'' upd @ post"
  have d: "pre @ key_text n fs t rs del upd @ post = pre @ key_head n fs t rs @ ?rest" by (simp add: key_text_def key_head_def)
  obtain p where "rbind (fk_action (pre @ key_head n fs t rs @ ?rest) ''ON DELETE'' (head_read n fs t rs, length (pre @ key_head n fs t rs)))
        (fk_action (pre @ key_head n fs t rs @ ?rest) ''ON UPDATE'')
      = Inr (put_rule ''ON UPDATE'' (code_of upd) (put_rule ''ON DELETE'' (code_of del) (head_read n fs t rs)), p)"
    using rules_step [of "pre @ key_head n fs t rs" del upd post "head_read n fs t rs"] assms(2,4-6) unfolding d append.assoc by blast
  moreover have "put_rule ''ON UPDATE'' (code_of upd) (put_rule ''ON DELETE'' (code_of del) (head_read n fs t rs)) = read_key n fs t rs del upd"
    by (simp add: read_key_def put_rule_def put_keyword_def head_read_def new_fk_def_def)
  ultimately show ?thesis
    using key_head_read [OF assms(1) _ assms(3), of ?rest] assms(2) unfolding d by simp
qed

text \<open>
  A key without a rule of its own gets the rule of a later key: the search goes on to the end of the text.
\<close>

theorem rule_of_later_key:
  assumes "\<not> sublist ''CONSTRAINT'' pre" "wf_key n fs t rs" "\<not> sublist ''ON DELETE'' between"
    and "length (pre @ key_head n fs t rs @ between @ ''ON DELETE '' @ rule_text x @ post) < npos"
    and "\<not> sublist ''ON UPDATE'' (drop 1 post)"
  shows "\<exists>k. parseImportedKeys ''`'' (pre @ key_head n fs t rs @ between @ ''ON DELETE '' @ rule_text x @ post) = Inr (Some k)
    \<and> fk_constraint_name k = n \<and> fk_update_cascade k ''ON DELETE'' = Some (rule_code x)"
proof -
  let ?b = "pre @ key_head n fs t rs" and ?k = "head_read n fs t rs"
  have "std_find ''ON DELETE'' (between @ ''ON DELETE'' @ '' '' @ rule_text x @ post) = Some (length between)"
    using std_find_put [of "CHR ''O''" "''N DELETE''" between "'' '' @ rule_text x @ post"] assms(3) by simp
  then have d: "fk_action (?b @ between @ ''ON DELETE '' @ rule_text x @ post) ''ON DELETE'' (?k, length ?b) =
      Inr (put_rule ''ON DELETE'' (rule_code x) ?k, length (?b @ between @ ''ON DELETE '' @ rule_text x) + 1)"
    using action_step [of "''ON DELETE''" between x post ?b] assms(4) by simp
  let ?c = "?b @ between @ ''ON DELETE '' @ rule_text x"
  have "fk_action (?c @ post) ''ON UPDATE'' (put_rule ''ON DELETE'' (rule_code x) ?k, length ?c + 1) =
      Inr (put_rule ''ON UPDATE'' importedKeyNoAction (put_rule ''ON DELETE'' (rule_code x) ?k), length ?c + 1)"
    by (rule action_none) (use assms(5) in \<open>simp only: drop_one_more std_find_None_iff not_False_eq_True\<close>)
  with d show ?thesis
    using key_head_read [OF assms(1) _ assms(2), of "between @ ''ON DELETE '' @ rule_text x @ post"] assms(4)
    by (simp add: put_rule_def head_read_def put_keyword_def new_fk_def_def)
qed

end
