(* ===== verification/Db_Queries.thy ===== *)
theory Db_Queries
  imports Foreign_Keys Prepared_Query Rs_Metadata
begin

text \<open>
  The description of the database by queries, \<^verbatim>\<open>MySQL_ConnectionMetaData\<close> of
  \<^verbatim>\<open>mysqlconnector/jdbc/driver/mysql_metadata.cpp\<close>: what its methods share, and the keys and indexes of tables.
  Each method asks \<^verbatim>\<open>information_schema\<close> with a prepared statement, or old servers with \<^verbatim>\<open>SHOW\<close> statements on
  the connection's service statement, and collects the rows into a constructed result set. Result sets and
  statements are variables of the methods; prepared statements are closed at the end of their scope, also
  by exceptions. The loops over rows have fuel.
\<close>

section \<open>Loops and statements\<close>

text \<open>The calls of the client library that the methods use beyond the connection's: results of statements, fields of results.\<close>

record ('n, 'r, 'p, 'd, 'f) md_lib =
  ml_link :: "('n, 'r, 'p, 'd) nlink"
  ml_nres :: "'p nres"
  ml_double :: "'f pdouble"
  ml_fields :: "'r \<Rightarrow> mysql_field list"

text \<open>A method of a local result set, and one of the connection, in the body of a loop.\<close>

definition on_rows :: "('s, 'a) sop \<Rightarrow> ('s \<times> 'c, 'a) sop" where
  "on_rows m = (\<lambda>(s, c). case m s of (r, s') \<Rightarrow> (r, (s', c)))"

definition on_con :: "('c, 'a) sop \<Rightarrow> ('s \<times> 'c, 'a) sop" where
  "on_con m = (\<lambda>(s, c). case m c of (r, c') \<Rightarrow> (r, (s, c')))"

text \<open>\<^verbatim>\<open>while (rs->next())\<close>: the body returns the rows it adds.\<close>

definition each_row :: "nat \<Rightarrow> ('s, bool) sop \<Rightarrow> ('s \<times> 'c, 'x list) sop \<Rightarrow> 's \<Rightarrow> ('c, 'x list) sop" where
  "each_row fuel nxt body s = (\<lambda>c. case drain fuel (on_rows nxt) body [] (s, c) of (r, (s', c')) \<Rightarrow> (rbind r (\<lambda>xs. Inr (concat xs)), c'))"

fun smapM :: "('a \<Rightarrow> ('s, 'b) sop) \<Rightarrow> 'a list \<Rightarrow> ('s, 'b list) sop" where
  "smapM f [] = sret []"
| "smapM f (x # xs) = sbind (f x) (\<lambda>y. sbind (smapM f xs) (\<lambda>ys. sret (y # ys)))"

text \<open>A loop that ends with the first row it adds.\<close>

fun first_row :: "('a \<Rightarrow> ('s, 'x option) sop) \<Rightarrow> 'a list \<Rightarrow> ('s, 'x list) sop" where
  "first_row f [] = sret []"
| "first_row f (x # xs) = sbind (f x) (\<lambda>r. case r of Some row \<Rightarrow> sret [row] | None \<Rightarrow> first_row f xs)"

text \<open>\<^verbatim>\<open>try { ... } catch (SQLException &) { }\<close>\<close>

fun sql_error :: "cpp_error \<Rightarrow> bool" where
  "sql_error (Invalid_instance m) \<longleftrightarrow> True"
| "sql_error (Sql_invalid_argument m) \<longleftrightarrow> True"
| "sql_error Non_scrollable \<longleftrightarrow> True"
| "sql_error (Not_implemented m) \<longleftrightarrow> True"
| "sql_error (Sql_exception m) \<longleftrightarrow> True"
| "sql_error (Native_error n) \<longleftrightarrow> True"
| "sql_error (Unsupported_option m o') \<longleftrightarrow> True"
| "sql_error _ \<longleftrightarrow> False"

definition try_sql :: "('s, 'a) sop \<Rightarrow> ('s, 'a option) sop" where
  "try_sql m = (\<lambda>s. case m s of
     (Inr x, s') \<Rightarrow> (Inr (Some x), s')
   | (Inl e, s') \<Rightarrow> if sql_error e then (Inr None, s') else (Inl e, s'))"

text \<open>\<^verbatim>\<open>stmt->executeQuery(query)\<close> on the service statement, and on a statement of its own.\<close>

definition md_show :: "('n, 'r, 'p, 'd, 'f) md_lib \<Rightarrow> string \<Rightarrow> ('n connection, 'r result_set) sop" where
  "md_show lib query = con_service (st_executeQuery (nl_conn (ml_link lib)) (nl_result (ml_link lib)) query)"

definition md_query :: "('n, 'r, 'p, 'd, 'f) md_lib \<Rightarrow> string \<Rightarrow> ('n connection, 'r result_set) sop" where
  "md_query lib query = con_statement (st_executeQuery (nl_conn (ml_link lib)) (nl_result (ml_link lib)) query)"

text \<open>\<^verbatim>\<open>connection->getClientOption("metadataUseInfoSchema", &use_info_schema)\<close>: the description after it.\<close>

definition md_refresh :: "('n connection, conn_meta) sop" where
  "md_refresh = sbind md_this (\<lambda>m c.
     let m' = m\<lparr>cm_use_info_schema := c_use_info_schema c\<rparr> in (Inr m', c\<lparr>c_meta := Some m'\<rparr>))"

text \<open>The rows of a result of the service statement; none, if the statement failed.\<close>

definition md_rows ::
    "nat \<Rightarrow> ('n, 'r, 'p, 'd, 'f) md_lib \<Rightarrow> ('r result_set \<times> 'n connection, 'x list) sop \<Rightarrow> 'r result_set option \<Rightarrow> ('n connection, 'x list) sop" where
  "md_rows fuel lib body rs = (case rs of None \<Rightarrow> sret [] | Some r \<Rightarrow> each_row fuel (rs_next (nl_result (ml_link lib))) body r)"

text \<open>
  A prepared query: the arguments are bound as strings, the rows are collected, then the result set and
  the statement are deleted. \<open>md_close\<close> is the end of the statement's scope.
\<close>

definition no_stream :: "nat \<Rightarrow> istream" where
  "no_stream _ = \<lparr>is_left = [], is_eof = False, is_fail = False, is_bad = False\<rparr>"

fun set_texts :: "nat \<Rightarrow> string list \<Rightarrow> (('p, 'd) pstmt, unit) sop" where
  "set_texts i [] = sret ()"
| "set_texts i (v # vs) = sthen (ps_setString i v) (set_texts (i + 1) vs)"

definition md_close :: "('n, 'r, 'p, 'd, 'f) md_lib \<Rightarrow> ('p, 'd) pstmt \<Rightarrow> 'a res \<Rightarrow> ('n connection, 'a) sop" where
  "md_close lib t r = (\<lambda>c. case delete_PreparedStatement t of
     (Inl e, _) \<Rightarrow> (Inl e, c)
   | (Inr _, _) \<Rightarrow> (case ps_proxy t of
       None \<Rightarrow> (Inl Undefined_behaviour, c)
     | Some p \<Rightarrow> (case con_call (\<lambda>n. ((), nl_stmt_close (ml_link lib) p n)) c of (Inl e, c') \<Rightarrow> (Inl e, c') | (Inr _, c') \<Rightarrow> (r, c'))))"

definition md_collect ::
    "nat \<Rightarrow> ('n, 'r, 'p, 'd, 'f) md_lib \<Rightarrow> ('p prs, 'x list) sop \<Rightarrow> 'p prs \<Rightarrow> ('p, 'd) pstmt \<Rightarrow> ('n connection, 'x list) sop" where
  "md_collect fuel lib rd rs t = (\<lambda>c.
     case drain fuel (pr_next (ml_nres lib)) rd [] rs of (r, rs') \<Rightarrow>
     case pr_closeIntern (ml_nres lib) rs' of (r', rs'') \<Rightarrow>
       md_close lib (t\<lparr>ps_proxy := Some (pr_proxy rs'')\<rparr>) (rbind r (\<lambda>xs. Inr (concat xs))) c)"

definition md_select ::
    "nat \<Rightarrow> ('n, 'r, 'p, 'd, 'f) md_lib \<Rightarrow> string \<Rightarrow> string list \<Rightarrow> ('p prs, 'x list) sop \<Rightarrow> ('n connection, 'x list) sop" where
  "md_select fuel lib query texts rd =
     sbind (con_prepareStatement (ml_link lib) no_stream query) (\<lambda>ps c.
       case sthen (set_texts 1 texts) (ps_query_result fuel (nl_stmt (ml_link lib)) (ml_nres lib)) ps of
         (Inl e, t) \<Rightarrow> md_close lib t (Inl e) c
       | (Inr rs, t) \<Rightarrow> md_collect fuel lib rd rs t c)"

text \<open>The texts of the first columns of a row.\<close>

definition pr_texts :: "'f pdouble \<Rightarrow> nat list \<Rightarrow> ('p prs, 'd myval list) sop" where
  "pr_texts pd cols = smapM (\<lambda>i. sbind (pr_getString pd i) (\<lambda>v. sret (typeString v))) cols"

definition rs_texts :: "'r native \<Rightarrow> nat list \<Rightarrow> ('r result_set, 'd myval list) sop" where
  "rs_texts api cols = smapM (\<lambda>i. sbind (rs_getString api i) (\<lambda>v. sret (typeString v))) cols"

definition md_select_texts ::
    "nat \<Rightarrow> ('n, 'r, 'p, 'd, 'f) md_lib \<Rightarrow> string \<Rightarrow> string list \<Rightarrow> nat \<Rightarrow> ('n connection, 'e myval list list) sop" where
  "md_select_texts fuel lib query texts n =
     md_select fuel lib query texts (sbind (pr_texts (ml_double lib) [1..<Suc n]) (\<lambda>row. sret [row]))"

definition art_result :: "string list \<Rightarrow> ('s, 'd myval list list) sop \<Rightarrow> ('s, 'd art_set) sop" where
  "art_result labels m = sbind m (\<lambda>rows. sret (new_ArtResultSet labels rows))"

section \<open>Orders\<close>

text \<open>\<^verbatim>\<open>std::string::compare\<close> compares bytes; \<^verbatim>\<open>caseCompare\<close> compares lower-case copies.\<close>

fun bytes_less :: "string \<Rightarrow> string \<Rightarrow> bool" where
  "bytes_less xs [] \<longleftrightarrow> False"
| "bytes_less [] (y # ys) \<longleftrightarrow> True"
| "bytes_less (x # xs) (y # ys) \<longleftrightarrow> (of_char x :: nat) < of_char y \<or> (x = y \<and> bytes_less xs ys)"

definition case_less :: "string \<Rightarrow> string \<Rightarrow> bool" where
  "case_less s t \<longleftrightarrow> bytes_less (map ascii_lower s) (map ascii_lower t)"

text \<open>\<^verbatim>\<open>std::list::sort\<close> is stable; \<open>sort_rows\<close> sorts rows by keys that are read from them.\<close>

fun put_row :: "('a \<Rightarrow> 'a \<Rightarrow> bool) \<Rightarrow> 'a \<Rightarrow> 'a list \<Rightarrow> 'a list" where
  "put_row lt x [] = [x]"
| "put_row lt x (y # ys) = (if lt y x then y # put_row lt x ys else x # y # ys)"

definition list_sort :: "('a \<Rightarrow> 'a \<Rightarrow> bool) \<Rightarrow> 'a list \<Rightarrow> 'a list" where
  "list_sort lt xs = foldr (put_row lt) xs []"

definition sort_rows :: "('a \<Rightarrow> 'k res) \<Rightarrow> ('k \<Rightarrow> 'k \<Rightarrow> bool) \<Rightarrow> 'a list \<Rightarrow> 'a list res" where
  "sort_rows of_row lt rows =
     rbind (rmap of_row rows) (\<lambda>ks. Inr (map snd (list_sort (\<lambda>x y. lt (fst x) (fst y)) (zip ks rows))))"

section \<open>Primary and unique keys\<close>

definition key_labels :: "string list" where
  "key_labels = [''TABLE_CAT'', ''TABLE_SCHEM'', ''TABLE_NAME'', ''COLUMN_NAME'', ''KEY_SEQ'', ''PK_NAME'']"

definition primary_keys_query :: string where
  "primary_keys_query =
       ''SELECT TABLE_CATALOG AS TABLE_CAT, TABLE_SCHEMA AS TABLE_SCHEM, TABLE_NAME, COLUMN_NAME, '' @
       ''SEQ_IN_INDEX AS KEY_SEQ, INDEX_NAME AS PK_NAME FROM INFORMATION_SCHEMA.STATISTICS '' @
       ''WHERE TABLE_SCHEMA LIKE ? AND TABLE_NAME LIKE ? AND INDEX_NAME='PRIMARY' ORDER '' @
       ''BY TABLE_SCHEMA, TABLE_NAME, INDEX_NAME, SEQ_IN_INDEX''"

definition unique_keys_query :: string where
  "unique_keys_query =
       ''SELECT TABLE_CATALOG AS TABLE_CAT, TABLE_SCHEMA AS TABLE_SCHEM, TABLE_NAME,  COLUMN_NAME, '' @
       ''SEQ_IN_INDEX AS KEY_SEQ, INDEX_NAME AS PK_NAME FROM INFORMATION_SCHEMA.STATISTICS '' @
       ''WHERE TABLE_SCHEMA LIKE ? AND TABLE_NAME LIKE ? AND INDEX_NAME <> 'PRIMARY'  AND '' @
       ''NON_UNIQUE = 0 AND NULLABLE <> 'YES'ORDER BY TABLE_SCHEMA, TABLE_NAME, INDEX_NAME, '' @ ''SEQ_IN_INDEX''"

definition show_keys :: "string \<Rightarrow> string \<Rightarrow> string" where
  "show_keys schema table = ''SHOW KEYS FROM `'' @ schema @ ''`.`'' @ table @ ''`''"

text \<open>A row of \<^verbatim>\<open>SHOW KEYS\<close>.\<close>

definition key_row :: "'r native \<Rightarrow> string \<Rightarrow> string \<Rightarrow> ('r result_set, 'd myval list) sop" where
  "key_row api schema key_name =
     sbind (rs_getString api 1) (\<lambda>table_name.
     sbind (rs_getString_label api ''Column_name'') (\<lambda>column_name.
     sbind (rs_getString_label api ''Seq_in_index'') (\<lambda>key_seq.
       sret [MyVal_chars ''def'', typeString schema, typeString table_name, typeString column_name, typeString key_seq, typeString key_name])))"

definition primary_row :: "'r native \<Rightarrow> string \<Rightarrow> ('r result_set, 'd myval list list) sop" where
  "primary_row api schema =
     sbind (rs_getString_label api ''Key_name'') (\<lambda>key_name.
       if key_name = ''PRIMARY'' \<or> key_name = ''PRI'' then sbind (key_row api schema key_name) (\<lambda>row. sret [row]) else sret [])"

definition md_getPrimaryKeys :: "nat \<Rightarrow> ('n, 'r, 'p, 'd, 'f) md_lib \<Rightarrow> string \<Rightarrow> string \<Rightarrow> ('n connection, 'e art_set) sop" where
  "md_getPrimaryKeys fuel lib schema table =
     art_result key_labels (sbind md_refresh (\<lambda>m.
       if cm_use_info_schema m \<and> cm_server_version m > 49999
       then md_select_texts fuel lib primary_keys_query [schema, table] 6
       else sbind (try_sql (md_show lib (show_keys schema table)))
         (md_rows fuel lib (on_rows (primary_row (nl_result (ml_link lib)) schema)))))"

definition unique_row :: "'r native \<Rightarrow> string \<Rightarrow> ('r result_set, 'd myval list list) sop" where
  "unique_row api schema =
     sbind (rs_getInt_label api ''Non_unique'') (\<lambda>non_unique.
     sbind (rs_getString_label api ''Null'') (\<lambda>nullable.
       if non_unique = 0 \<and> nullable \<noteq> ''YES'' then
         sbind (rs_getString_label api ''Key_name'') (\<lambda>key_name. sbind (key_row api schema key_name) (\<lambda>row. sret [row]))
       else sret []))"

definition md_getUniqueNonNullableKeys ::
    "nat \<Rightarrow> ('n, 'r, 'p, 'd, 'f) md_lib \<Rightarrow> string \<Rightarrow> string \<Rightarrow> ('n connection, 'e art_set) sop" where
  "md_getUniqueNonNullableKeys fuel lib schema table =
     art_result key_labels (sbind md_refresh (\<lambda>m.
       if cm_use_info_schema m \<and> cm_server_version m > 50002
       then md_select_texts fuel lib unique_keys_query [schema, table] 6
       else sbind (try_sql (md_query lib (show_keys schema table)))
         (md_rows fuel lib (on_rows (unique_row (nl_result (ml_link lib)) schema)))))"

section \<open>Foreign keys\<close>

definition foreign_labels :: "string list" where
  "foreign_labels = [''PKTABLE_CAT'', ''PKTABLE_SCHEM'', ''PKTABLE_NAME'', ''PKCOLUMN_NAME'', ''FKTABLE_CAT'',
      ''FKTABLE_SCHEM'', ''FKTABLE_NAME'', ''FKCOLUMN_NAME'', ''KEY_SEQ'', ''UPDATE_RULE'', ''DELETE_RULE'',
      ''FK_NAME'', ''PK_NAME'', ''DEFERRABILITY'']"

text \<open>\<open>rule_clause\<close> translates the name of a rule into its number.\<close>

definition rule_clause :: "string \<Rightarrow> string" where
  "rule_clause column =
     ''CASE WHEN R.'' @ column @ ''='' @ [squote] @ ''CASCADE' THEN '' @ udec importedKeyCascade @
     '' WHEN R.'' @ column @ ''='' @ [squote] @ ''SET NULL' THEN '' @ udec importedKeySetNull @
     '' WHEN R.'' @ column @ ''='' @ [squote] @ ''SET DEFAULT' THEN '' @ udec importedKeySetDefault @
     '' WHEN R.'' @ column @ ''='' @ [squote] @ ''RESTRICT' THEN '' @ udec importedKeyRestrict @
     '' WHEN R.'' @ column @ ''='' @ [squote] @ ''NO ACTION' THEN '' @ udec importedKeyNoAction @
     '' ELSE '' @ udec importedKeyNoAction @ '' END ''"

definition ref_constraint_join :: string where
  "ref_constraint_join =
       ''JOIN INFORMATION_SCHEMA.REFERENTIAL_CONSTRAINTS R ON (R.CONSTRAINT_NAME = B.CONSTRAINT_NAME '' @
       ''AND R.TABLE_NAME = B.TABLE_NAME AND R.CONSTRAINT_SCHEMA = B.TABLE_SCHEMA) ''"

definition cross_reference_query :: string where
  "cross_reference_query =
       ''SELECT '' @ [CHR 0x0A] @
       ''A.TABLE_CATALOG AS PKTABLE_CAT, A.REFERENCED_TABLE_SCHEMA AS PKTABLE_SCHEM, A.REFERENCED_TABLE_NAME '' @
       ''AS PKTABLE_NAME,A.REFERENCED_COLUMN_NAME AS PKCOLUMN_NAME, A.TABLE_CATALOG AS '' @
       ''FKTABLE_CAT, A.TABLE_SCHEMA AS FKTABLE_SCHEM,A.TABLE_NAME AS FKTABLE_NAME, A.COLUMN_NAME '' @
       ''AS FKCOLUMN_NAME, A.ORDINAL_POSITION AS KEY_SEQ,'' @
       rule_clause ''UPDATE_RULE'' @
       '' AS UPDATE_RULE,'' @
       rule_clause ''DELETE_RULE'' @
       '' AS DELETE_RULE, A.CONSTRAINT_NAME AS FK_NAME,(SELECT CONSTRAINT_NAME FROM INFORMATION_SCHEMA.TABLE_CONSTRAINTS '' @
       ''WHERE TABLE_SCHEMA = REFERENCED_TABLE_SCHEMA AND TABLE_NAME = A.REFERENCED_TABLE_NAME '' @
       ''AND CONSTRAINT_TYPE IN ('UNIQUE','PRIMARY KEY') LIMIT 1) AS PK_NAME,'' @
       udec importedKeyNotDeferrable @
       '' AS DEFERRABILITY  FROM'' @ [CHR 0x0A] @
       ''INFORMATION_SCHEMA.KEY_COLUMN_USAGE A JOIN INFORMATION_SCHEMA.TABLE_CONSTRAINTS '' @ ''B'' @
       [CHR 0x0A] @ ''USING (TABLE_SCHEMA, TABLE_NAME, CONSTRAINT_NAME)'' @ [CHR 0x0A] @
       ref_constraint_join @
       [CHR 0x0A] @ ''WHERE B.CONSTRAINT_TYPE = 'FOREIGN KEY' AND A.REFERENCED_TABLE_SCHEMA LIKE ? AND '' @
       ''A.REFERENCED_TABLE_NAME=?'' @ [CHR 0x0A] @ ''AND A.TABLE_SCHEMA LIKE ? AND A.TABLE_NAME=?'' @
       [CHR 0x0A] @ ''ORDER BY  A.TABLE_SCHEMA, A.TABLE_NAME, A.ORDINAL_POSITION''"

definition exported_keys_query :: string where
  "exported_keys_query =
       ''SELECT '' @ [CHR 0x0A] @
       ''A.TABLE_CATALOG AS PKTABLE_CAT, A.REFERENCED_TABLE_SCHEMA AS PKTABLE_SCHEM, A.REFERENCED_TABLE_NAME '' @
       ''AS PKTABLE_NAME,'' @ [CHR 0x0A] @
       ''A.REFERENCED_COLUMN_NAME AS PKCOLUMN_NAME, A.TABLE_CATALOG AS FKTABLE_CAT, A.TABLE_SCHEMA '' @
       ''AS FKTABLE_SCHEM,'' @ [CHR 0x0A] @
       ''A.TABLE_NAME AS FKTABLE_NAME, A.COLUMN_NAME AS FKCOLUMN_NAME, A.ORDINAL_POSITION '' @ ''AS KEY_SEQ,'' @
       rule_clause ''UPDATE_RULE'' @
       '' AS UPDATE_RULE,'' @
       rule_clause ''DELETE_RULE'' @
       '' AS DELETE_RULE, A.CONSTRAINT_NAME AS FK_NAME,(SELECT CONSTRAINT_NAME FROM INFORMATION_SCHEMA.TABLE_CONSTRAINTS '' @
       ''WHERE TABLE_SCHEMA = REFERENCED_TABLE_SCHEMA AND TABLE_NAME = A.REFERENCED_TABLE_NAME '' @
       ''AND CONSTRAINT_TYPE IN ('UNIQUE','PRIMARY KEY') LIMIT 1) AS PK_NAME,'' @
       udec importedKeyNotDeferrable @
       '' AS DEFERRABILITY '' @ [CHR 0x0A] @
       '' FROM INFORMATION_SCHEMA.KEY_COLUMN_USAGE A JOIN  INFORMATION_SCHEMA.TABLE_CONSTRAINTS '' @ ''B'' @
       [CHR 0x0A] @ ''USING (TABLE_SCHEMA, TABLE_NAME, CONSTRAINT_NAME)'' @ [CHR 0x0A] @
       ref_constraint_join @
       [CHR 0x0A] @ ''WHERE B.CONSTRAINT_TYPE = 'FOREIGN KEY' AND A.REFERENCED_TABLE_SCHEMA LIKE ? AND '' @
       ''A.REFERENCED_TABLE_NAME=?'' @ [CHR 0x0A] @ ''ORDER BY A.TABLE_SCHEMA, A.TABLE_NAME, A.ORDINAL_POSITION''"

definition imported_keys_query :: string where
  "imported_keys_query =
       ''SELECT '' @ [CHR 0x0A] @
       ''A.TABLE_CATALOG AS PKTABLE_CAT, A.REFERENCED_TABLE_SCHEMA AS PKTABLE_SCHEM, A.REFERENCED_TABLE_NAME '' @
       ''AS PKTABLE_NAME,'' @ [CHR 0x0A] @
       ''A.REFERENCED_COLUMN_NAME AS PKCOLUMN_NAME, A.TABLE_CATALOG AS FKTABLE_CAT, A.TABLE_SCHEMA '' @
       ''AS FKTABLE_SCHEM,'' @ [CHR 0x0A] @
       ''A.TABLE_NAME AS FKTABLE_NAME, A.COLUMN_NAME AS FKCOLUMN_NAME, A.ORDINAL_POSITION '' @ ''AS KEY_SEQ,'' @
       [CHR 0x0A] @
       rule_clause ''UPDATE_RULE'' @
       '' AS UPDATE_RULE,'' @ [CHR 0x0A] @
       rule_clause ''DELETE_RULE'' @
       '' AS DELETE_RULE, A.CONSTRAINT_NAME AS FK_NAME,'' @ [CHR 0x0A] @
       ''(SELECT TC.CONSTRAINT_NAME FROM INFORMATION_SCHEMA.TABLE_CONSTRAINTS AS TC'' @ [CHR 0x0A] @
       ''WHERE TABLE_SCHEMA = A.REFERENCED_TABLE_SCHEMA AND TABLE_NAME = A.REFERENCED_TABLE_NAME '' @
       [CHR 0x0A] @ ''AND CONSTRAINT_TYPE IN ('UNIQUE','PRIMARY KEY') LIMIT 1) AS PK_NAME,'' @ [CHR 0x0A] @
       udec importedKeyNotDeferrable @
       '' AS DEFERRABILITY FROM INFORMATION_SCHEMA.KEY_COLUMN_USAGE A JOIN INFORMATION_SCHEMA.TABLE_CONSTRAINTS '' @
       ''B '' @ [CHR 0x0A] @ ''USING(CONSTRAINT_NAME, TABLE_NAME) '' @ [CHR 0x0A] @
       ref_constraint_join @
       ''WHERE B.CONSTRAINT_TYPE = 'FOREIGN KEY' AND A.TABLE_SCHEMA LIKE ?  AND A.TABLE_NAME=? '' @
       '' AND A.REFERENCED_TABLE_SCHEMA '' @ [CHR 0x0A] @ ''IS NOT NULL'' @ [CHR 0x0A] @
       ''ORDER BY A.REFERENCED_TABLE_SCHEMA, A.REFERENCED_TABLE_NAME, A.ORDINAL_POSITION''"

definition md_getCrossReference ::
    "nat \<Rightarrow> ('n, 'r, 'p, 'd, 'f) md_lib \<Rightarrow> string \<Rightarrow> string \<Rightarrow> string \<Rightarrow> string \<Rightarrow> ('n connection, 'e art_set) sop" where
  "md_getCrossReference fuel lib primarySchema primaryTable foreignSchema foreignTable =
     sbind md_refresh (\<lambda>m.
       if cm_use_info_schema m \<and> cm_server_version m \<ge> 50110
       then art_result foreign_labels (md_select_texts fuel lib cross_reference_query [primarySchema, primaryTable, foreignSchema, foreignTable] 14)
       else sthrow (Not_implemented ''MySQL_ConnectionMetaData::getCrossReference''))"

definition md_getExportedKeys :: "nat \<Rightarrow> ('n, 'r, 'p, 'd, 'f) md_lib \<Rightarrow> string \<Rightarrow> string \<Rightarrow> ('n connection, 'e art_set) sop" where
  "md_getExportedKeys fuel lib schema table =
     sbind md_refresh (\<lambda>m.
       if cm_use_info_schema m \<and> cm_server_version m \<ge> 50110
       then art_result foreign_labels (md_select_texts fuel lib exported_keys_query [schema, table] 14)
       else sthrow (Not_implemented ''MySQL_ConnectionMetaData::getExportedKeys''))"

text \<open>
  The rows of one foreign key read from the statement that creates the table. The maps' \<^verbatim>\<open>operator[]\<close>
  yields an empty value for a missing key.
\<close>

definition map_or :: "'v \<Rightarrow> ('k \<rightharpoonup> 'v) \<Rightarrow> 'k \<Rightarrow> 'v" where
  "map_or d f k = (case f k of None \<Rightarrow> d | Some v \<Rightarrow> v)"

definition foreign_row :: "string \<Rightarrow> string \<Rightarrow> fk_def \<Rightarrow> nat \<times> string \<times> string \<Rightarrow> 'd myval list" where
  "foreign_row schema table k = (\<lambda>(kSequence, reference, foreignkey).
     [MyVal_chars ''def'', typeString schema, typeString (map_or [] (fk_keywords_names k) ''REFERENCES''), typeString reference,
      MyVal_chars [], typeString schema, typeString table, typeString foreignkey, int64_val (int kSequence),
      int64_val (int (map_or 0 (fk_update_cascade k) ''ON UPDATE'')), int64_val (int (map_or 0 (fk_update_cascade k) ''ON DELETE'')),
      typeString (fk_constraint_name k), MyVal_chars ''PRIMARY'', int64_val (int importedKeyNotDeferrable)])"

definition foreign_rows :: "string \<Rightarrow> string \<Rightarrow> fk_def \<Rightarrow> 'd myval list list" where
  "foreign_rows schema table k =
     (let pairs = zip (map_or [] (fk_referenced_fields k) ''REFERENCES'') (map_or [] (fk_referenced_fields k) ''FOREIGN KEY'')
      in map (foreign_row schema table k) (zip [1..<Suc (length pairs)] pairs))"

definition imported_key :: "'d long_double \<Rightarrow> 'd myval list \<Rightarrow> (string \<times> string \<times> string) res" where
  "imported_key ld row =
     rbind (MyVal_getString ld (row ! 1)) (\<lambda>a. rbind (MyVal_getString ld (row ! 2)) (\<lambda>b. rbind (MyVal_getString ld (row ! 8)) (\<lambda>c. Inr (a, b, c))))"

definition compareImportedKeys :: "string \<times> string \<times> string \<Rightarrow> string \<times> string \<times> string \<Rightarrow> bool" where
  "compareImportedKeys = (\<lambda>(a, b, c) (a', b', c').
     bytes_less a a' \<or> (a = a' \<and> bytes_less b b') \<or> (a = a' \<and> b = b' \<and> case_less c c'))"

definition show_create_table :: "string \<Rightarrow> string \<Rightarrow> string" where
  "show_create_table schema table = ''SHOW CREATE TABLE `'' @ schema @ ''`.`'' @ table @ ''`''"

text \<open>The row of \<^verbatim>\<open>SHOW CREATE TABLE\<close>, if there is one.\<close>

definition created_by :: "'r native \<Rightarrow> 'r result_set option \<Rightarrow> string option res" where
  "created_by api rs = (case rs of None \<Rightarrow> Inr None | Some r \<Rightarrow>
     (case rs_next api r of
        (Inl e, _) \<Rightarrow> Inl e
      | (Inr False, _) \<Rightarrow> Inr None
      | (Inr True, r') \<Rightarrow> rbind (fst (rs_getString api 2 r')) (\<lambda>t. Inr (Some t))))"

definition imported_from_text :: "('n, 'r, 'p, 'd, 'f) md_lib \<Rightarrow> string \<Rightarrow> string \<Rightarrow> string \<Rightarrow> ('n connection, 'e myval list list) sop" where
  "imported_from_text lib schema table create_query =
     (if find_pos create_query ''CONSTRAINT'' 0 = npos then sret []
      else sbind (md_getIdentifierQuoteString (ml_link lib)) (\<lambda>cQuote c.
        (rbind (parseImportedKeys cQuote create_query) (\<lambda>k. Inr (case k of None \<Rightarrow> [] | Some k' \<Rightarrow> foreign_rows schema table k')), c)))"

definition md_getImportedKeys ::
    "nat \<Rightarrow> ('n, 'r, 'p, 'd, 'f) md_lib \<Rightarrow> 'e long_double \<Rightarrow> string \<Rightarrow> string \<Rightarrow> ('n connection, 'e art_set) sop" where
  "md_getImportedKeys fuel lib ld schema table =
     art_result foreign_labels (sbind md_refresh (\<lambda>m.
       if cm_use_info_schema m \<and> cm_server_version m \<ge> 50116
       then md_select_texts fuel lib imported_keys_query [schema, table] 14
       else sbind (try_sql (md_show lib (show_create_table schema table))) (\<lambda>rs c.
         case created_by (nl_result (ml_link lib)) rs of
           Inl e \<Rightarrow> (Inl e, c)
         | Inr None \<Rightarrow> (Inr [], c)
         | Inr (Some create_query) \<Rightarrow>
             sbind (imported_from_text lib schema table create_query) (\<lambda>rows c'.
               (sort_rows (imported_key ld) compareImportedKeys rows, c')) c)))"

section \<open>Indexes\<close>

definition index_labels :: "string list" where
  "index_labels = [''TABLE_CAT'', ''TABLE_SCHEM'', ''TABLE_NAME'', ''NON_UNIQUE'', ''INDEX_QUALIFIER'', ''INDEX_NAME'',
      ''TYPE'', ''ORDINAL_POSITION'', ''COLUMN_NAME'', ''ASC_OR_DESC'', ''CARDINALITY'', ''PAGES'',
      ''FILTER_CONDITION'']"

definition tableIndexHashed :: nat where "tableIndexHashed = 1"
definition tableIndexOther :: nat where "tableIndexOther = 2"

definition index_query :: "bool \<Rightarrow> string" where
  "index_query unique =
       ''SELECT TABLE_CATALOG AS TABLE_CAT, TABLE_SCHEMA AS TABLE_SCHEM, TABLE_NAME, NON_UNIQUE, '' @
       ''TABLE_SCHEMA AS INDEX_QUALIFIER, INDEX_NAME, CASE WHEN INDEX_TYPE='HASH' THEN '' @
       udec tableIndexHashed @ '' ELSE '' @ udec tableIndexOther @
       '' END AS TYPE, SEQ_IN_INDEX AS ORDINAL_POSITION, COLUMN_NAME, COLLATION AS ASC_OR_DESC, '' @
       ''CARDINALITY,NULL AS PAGES, NULL AS FILTER_CONDITION FROM INFORMATION_SCHEMA.STATISTICS '' @
       ''WHERE TABLE_SCHEMA LIKE ? AND TABLE_NAME LIKE ?'' @ [CHR 0x0A] @
       (if unique then '' AND NON_UNIQUE=0'' else []) @
       '' ORDER BY NON_UNIQUE, TYPE, INDEX_NAME, ORDINAL_POSITION''"

text \<open>An unsigned number read from a stream: \<open>None\<close> when the stream fails.\<close>

definition stream_uint :: "string \<Rightarrow> nat option" where
  "stream_uint s = (case strtol10 s of None \<Rightarrow> None | Some i \<Rightarrow> if \<bar>i\<bar> > 2 ^ 32 - 1 then None else Some (nat (i mod 2 ^ 32)))"

definition index_row :: "'r native \<Rightarrow> string \<Rightarrow> ('r result_set, 'd myval list) sop" where
  "index_row api schema =
     sbind (rs_getString_label api ''Table'') (\<lambda>table_name.
     sbind (rs_getString_label api ''Non_unique'') (\<lambda>non_unique.
     sbind (case atoi (chars non_unique) of Inl e \<Rightarrow> sthrow e | Inr i \<Rightarrow> sret (i \<noteq> 0)) (\<lambda>is_non_unique.
     sbind (rs_getString_label api ''Key_name'') (\<lambda>key_name.
     sbind (rs_getString_label api ''Index_type'') (\<lambda>index_type.
     sbind (rs_getString_label api ''Seq_in_index'') (\<lambda>seq.
     sbind (rs_getString_label api ''Column_name'') (\<lambda>column_name.
     sbind (rs_getString_label api ''Collation'') (\<lambda>collation.
     sbind (rs_getString_label api ''Cardinality'') (\<lambda>cardinality.
       sret [MyVal_chars ''def'', typeString schema, typeString table_name, typeBool is_non_unique, typeString schema,
             typeString key_name, MyVal_chars (udec (if index_type = ''HASH'' then tableIndexHashed else tableIndexOther)),
             typeString seq, typeString column_name, typeString collation, typeString cardinality, MyVal_chars ''0'', MyVal_chars []])))))))))"

definition index_rows :: "'r native \<Rightarrow> string \<Rightarrow> bool \<Rightarrow> ('r result_set, 'd myval list list) sop" where
  "index_rows api schema unique =
     sbind (rs_getString_label api ''Non_unique'') (\<lambda>t.
       case stream_uint t of
         Some row_unique \<Rightarrow> if unique \<and> row_unique \<noteq> 0 then sret [] else sbind (index_row api schema) (\<lambda>row. sret [row])
       | None \<Rightarrow> sbind (index_row api schema) (\<lambda>row. sret [row]))"

definition index_key :: "'d long_double \<Rightarrow> 'd myval list \<Rightarrow> (bool \<times> string \<times> string \<times> string) res" where
  "index_key ld row =
     rbind (MyVal_getBool ld (row ! 3)) (\<lambda>a. rbind (MyVal_getString ld (row ! 6)) (\<lambda>b.
     rbind (MyVal_getString ld (row ! 5)) (\<lambda>c. rbind (MyVal_getString ld (row ! 7)) (\<lambda>d. Inr (a, b, c, d)))))"

definition compareIndexInfo :: "bool \<times> string \<times> string \<times> string \<Rightarrow> bool \<times> string \<times> string \<times> string \<Rightarrow> bool" where
  "compareIndexInfo = (\<lambda>(a, b, c, d) (a', b', c', d').
     (\<not> a \<and> a') \<or> (a = a' \<and> bytes_less b b') \<or> (a = a' \<and> b = b' \<and> case_less c c')
     \<or> (a = a' \<and> b = b' \<and> map ascii_lower c = map ascii_lower c' \<and> case_less d d'))"

definition md_getIndexInfo ::
    "nat \<Rightarrow> ('n, 'r, 'p, 'd, 'f) md_lib \<Rightarrow> 'e long_double \<Rightarrow> string \<Rightarrow> string \<Rightarrow> bool \<Rightarrow> ('n connection, 'e art_set) sop" where
  "md_getIndexInfo fuel lib ld schema table unique =
     art_result index_labels (sbind md_refresh (\<lambda>m.
       if cm_use_info_schema m \<and> cm_server_version m > 50020
       then md_select_texts fuel lib (index_query unique) [schema, table] 13
       else sbind (try_sql (md_show lib (''SHOW INDEX FROM `'' @ schema @ ''`.`'' @ table @ ''`''))) (\<lambda>rs.
         sbind (md_rows fuel lib (on_rows (index_rows (nl_result (ml_link lib)) schema unique)) rs) (\<lambda>rows c.
           (sort_rows (index_key ld) compareIndexInfo rows, c)))))"

end
