(* ===== verification/Db_Lists.thy ===== *)
theory Db_Lists
  imports Db_Queries
begin

text \<open>
  The description of the database by queries, continued: schemas, tables, columns, routines, privileges and
  objects with the statements that create them.
\<close>

section \<open>Schemas\<close>

text \<open>A read of a result set that is not moved afterwards.\<close>

definition local_read :: "('s, 'a) sop \<Rightarrow> 's \<Rightarrow> ('c, 'a) sop" where
  "local_read m s = (\<lambda>c. (fst (m s), c))"

definition md_getUserName :: "('n, 'r, 'p, 'd, 'f) md_lib \<Rightarrow> ('n connection, string) sop" where
  "md_getUserName lib =
     sbind (md_show lib ''SELECT USER()'') (local_read
       (sbind (rs_next (nl_result (ml_link lib))) (\<lambda>more. if more then rs_getString (nl_result (ml_link lib)) 1 else sret [])))"

definition md_getSchemata :: "('n, 'r, 'p, 'd, 'f) md_lib \<Rightarrow> ('n connection, 'r result_set) sop" where
  "md_getSchemata lib = md_show lib ''SHOW DATABASES''"

definition md_getSchemas :: "nat \<Rightarrow> ('n, 'r, 'p, 'd, 'f) md_lib \<Rightarrow> ('n connection, 'e art_set) sop" where
  "md_getSchemas fuel lib =
     art_result [''TABLE_SCHEM'', ''TABLE_CATALOG''] (sbind md_refresh (\<lambda>m.
       let api = nl_result (ml_link lib); info = cm_use_info_schema m \<and> cm_server_version m > 49999 in
       sbind (md_show lib (if info then
       ''SELECT SCHEMA_NAME AS TABLE_SCHEM, CATALOG_NAME AS TABLE_CATALOG FROM INFORMATION_SCHEMA.SCHEMATA '' @
       ''ORDER BY SCHEMA_NAME''
         else ''SHOW DATABASES'')) (\<lambda>rs.
         md_rows fuel lib (on_rows
           (sbind (rs_getString api 1) (\<lambda>s. sbind (if info then rs_getString api 2 else sret []) (\<lambda>t. sret [[typeString s, typeString t]]))))
           (Some rs))))"

text \<open>Queries on a statement of their own, whose rows are copied.\<close>

definition md_copy :: "nat \<Rightarrow> ('n, 'r, 'p, 'd, 'f) md_lib \<Rightarrow> string \<Rightarrow> nat \<Rightarrow> ('n connection, 'e myval list list) sop" where
  "md_copy fuel lib query n =
     sbind (md_query lib query) (\<lambda>rs.
       md_rows fuel lib (on_rows (sbind (rs_texts (nl_result (ml_link lib)) [1..<Suc n]) (\<lambda>row. sret [row]))) (Some rs))"

definition md_getSchemaCollation :: "nat \<Rightarrow> ('n, 'r, 'p, 'd, 'f) md_lib \<Rightarrow> string \<Rightarrow> ('n connection, 'e art_set) sop" where
  "md_getSchemaCollation fuel lib schemaPattern =
     sbind (con_escapeString (ml_link lib) schemaPattern) (\<lambda>pattern.
       art_result [''SCHEMA_CAT'', ''SCHEMA_NAME'', ''SCHEMA_COLLATION''] (md_copy fuel lib (
       ''SELECT CATALOG_NAME AS SCHEMA_CAT, SCHEMA_NAME, DEFAULT_COLLATION_NAME AS SCHEMA_COLLATION '' @
       ''FROM INFORMATION_SCHEMA.SCHEMATA where SCHEMA_NAME LIKE '' @ [squote] @
         pattern @ [squote]) 3))"

definition md_getSchemaCharset :: "nat \<Rightarrow> ('n, 'r, 'p, 'd, 'f) md_lib \<Rightarrow> string \<Rightarrow> ('n connection, 'e art_set) sop" where
  "md_getSchemaCharset fuel lib schemaPattern =
     sbind (con_escapeString (ml_link lib) schemaPattern) (\<lambda>pattern.
       art_result [''SCHEMA_CAT'', ''SCHEMA_NAME'', ''SCHEMA_CHARSET''] (md_copy fuel lib (
       ''SELECT CATALOG_NAME AS SCHEMA_CAT, SCHEMA_NAME, DEFAULT_CHARACTER_SET_NAME AS '' @
       ''SCHEMA_CHARSET FROM INFORMATION_SCHEMA.SCHEMATA where SCHEMA_NAME LIKE '' @ [squote] @
         pattern @ [squote]) 3))"

section \<open>Tables\<close>

definition table_labels :: "string list" where
  "table_labels = [''TABLE_CAT'', ''TABLE_SCHEM'', ''TABLE_NAME'', ''TABLE_TYPE'', ''REMARKS'']"

definition tables_query :: string where
  "tables_query =
       ''SELECT TABLE_CATALOG AS TABLE_CAT, TABLE_SCHEMA AS TABLE_SCHEM, TABLE_NAME,IF(STRCMP(TABLE_TYPE,'BASE '' @
       ''TABLE'), IF(STRCMP(TABLE_TYPE,'SYSTEM VIEW'), TABLE_TYPE, 'VIEW'), 'TABLE') AS '' @
       ''TABLE_TYPE, TABLE_COMMENT AS REMARKS'' @ [CHR 0x0A] @ ''FROM INFORMATION_SCHEMA.TABLES'' @ [CHR 0x0A] @
       ''WHERE TABLE_SCHEMA  LIKE ? AND TABLE_NAME LIKE ?'' @ [CHR 0x0A] @
       ''ORDER BY TABLE_TYPE, TABLE_SCHEMA, TABLE_NAME''"

text \<open>A row of \<^verbatim>\<open>information_schema\<close> is taken for the first wanted type that is its own.\<close>

definition table_row :: "'f pdouble \<Rightarrow> string list \<Rightarrow> ('p prs, 'e myval list list) sop" where
  "table_row pd types =
     first_row (\<lambda>t. sbind (pr_getString pd 4) (\<lambda>v.
       if t = v then sbind (pr_texts pd [1..<6]) (\<lambda>row. sret (Some row)) else sret None)) types"

text \<open>A row of \<^verbatim>\<open>SHOW FULL TABLES\<close>.\<close>

definition show_table_row :: "'r native \<Rightarrow> nat \<Rightarrow> string \<Rightarrow> string list \<Rightarrow> ('r result_set, 'e myval list list) sop" where
  "show_table_row api version current_schema types =
     (let row = (\<lambda>kind. sbind (rs_getString api 1) (\<lambda>name.
            sret (Some [MyVal_chars ''def'', typeString current_schema, typeString name, MyVal_chars kind, MyVal_chars []])))
      in first_row (\<lambda>t. sbind (rs_getString api 2) (\<lambda>v.
           if t = ''TABLE'' \<and> v = ''BASE TABLE'' then row ''TABLE''
           else if t = v \<and> version > 49999 then row ''VIEW''
           else sret None)) types)"

definition md_getTables ::
    "nat \<Rightarrow> ('n, 'r, 'p, 'd, 'f) md_lib \<Rightarrow> string \<Rightarrow> string \<Rightarrow> string list \<Rightarrow> ('n connection, 'e art_set) sop" where
  "md_getTables fuel lib schemaPattern tableNamePattern types =
     (let link = ml_link lib; api = nl_result link in
      sbind (con_escapeString link schemaPattern) (\<lambda>schemas.
      sbind (con_escapeString link tableNamePattern) (\<lambda>tables.
      art_result table_labels (sbind md_refresh (\<lambda>m.
        if cm_use_info_schema m \<and> cm_server_version m > 49999
        then md_select fuel lib tables_query [schemas, tables] (table_row (ml_double lib) types)
        else sbind (md_show lib (''SHOW DATABASES LIKE '' @ [squote] @ ''%'' @ schemas @ [squote])) (\<lambda>rs1.
          md_rows fuel lib
            (sbind (on_rows (rs_getString api 1)) (\<lambda>current_schema.
             on_con (sbind (md_show lib (''SHOW FULL TABLES FROM `'' @ current_schema @ ''` LIKE '' @ [squote] @ tables @ [squote]))
               (\<lambda>rs2. md_rows fuel lib (on_rows (show_table_row api (cm_server_version m) current_schema types)) (Some rs2)))))
            (Some rs1)))))))"

definition md_getTableCollation :: "nat \<Rightarrow> ('n, 'r, 'p, 'd, 'f) md_lib \<Rightarrow> string \<Rightarrow> string \<Rightarrow> ('n connection, 'e art_set) sop" where
  "md_getTableCollation fuel lib schemaPattern tableNamePattern =
     sbind (con_escapeString (ml_link lib) schemaPattern) (\<lambda>schemas.
     sbind (con_escapeString (ml_link lib) tableNamePattern) (\<lambda>tables.
       art_result [''TABLE_CAT'', ''TABLE_SCHEMA'', ''TABLE_NAME'', ''TABLE_COLLATION''] (md_copy fuel lib (
       ''SELECT TABLE_CATALOG AS TABLE_CAT, TABLE_SCHEMA AS TABLE_SCHEMA, TABLE_NAME, TABLE_COLLATION '' @
       ''FROM INFORMATION_SCHEMA.TABLES where TABLE_NAME LIKE '' @ [squote] @
         tables @ [squote] @ '' AND TABLE_SCHEMA LIKE '' @ [squote] @ schemas @ [squote]) 4)))"

definition md_getTableCharset :: "nat \<Rightarrow> ('n, 'r, 'p, 'd, 'f) md_lib \<Rightarrow> string \<Rightarrow> string \<Rightarrow> ('n connection, 'e art_set) sop" where
  "md_getTableCharset fuel lib schemaPattern tableNamePattern =
     sbind (con_escapeString (ml_link lib) schemaPattern) (\<lambda>schemas.
     sbind (con_escapeString (ml_link lib) tableNamePattern) (\<lambda>tables.
       art_result [''TABLE_CAT'', ''TABLE_SCHEMA'', ''TABLE_NAME'', ''TABLE_CHARSET''] (md_copy fuel lib (
       ''SELECT t.TABLE_CATALOG AS TABLE_CAT, t.TABLE_SCHEMA AS TABLE_SCHEMA, t.TABLE_NAME, '' @
       ''c.CHARACTER_SET_NAME AS TABLE_CHARSET FROM INFORMATION_SCHEMA.TABLES t, INFORMATION_SCHEMA.COLLATION_CHARACTER_SET_APPLICABILITY '' @
       ''c WHERE t.TABLE_COLLATION = c.COLLATION_NAME AND t.TABLE_NAME LIKE '' @ [squote] @
         tables @ [squote] @ '' AND t.TABLE_SCHEMA LIKE '' @ [squote] @ schemas @ [squote]) 4)))"

section \<open>Columns\<close>

definition column_labels :: "string list" where
  "column_labels = [''TABLE_CAT'', ''TABLE_SCHEM'', ''TABLE_NAME'', ''COLUMN_NAME'', ''DATA_TYPE'', ''TYPE_NAME'',
      ''COLUMN_SIZE'', ''BUFFER_LENGTH'', ''DECIMAL_DIGITS'', ''NUM_PREC_RADIX'', ''NULLABLE'', ''REMARKS'',
      ''COLUMN_DEF'', ''SQL_DATA_TYPE'', ''SQL_DATETIME_SUB'', ''CHAR_OCTET_LENGTH'', ''ORDINAL_POSITION'',
      ''IS_NULLABLE'', ''SCOPE_CATALOG'', ''SCOPE_SCHEMA'', ''SCOPE_TABLE'', ''SOURCE_DATA_TYPE'',
      ''IS_AUTOINCREMENT'']"

fun nullability_code :: "nullability \<Rightarrow> nat" where
  "nullability_code columnNoNulls = 0"
| "nullability_code columnNullable = 1"
| "nullability_code columnNullableUnknown = 2"

definition columns_info_query :: "string \<Rightarrow> string" where
  "columns_info_query schemaPattern =
       ''SELECT TABLE_CATALOG AS TABLE_CAT, TABLE_SCHEMA AS TABLE_SCHEM, TABLE_NAME, COLUMN_NAME, '' @
       ''DATA_TYPE,CASE WHEN LOCATE('unsigned', COLUMN_TYPE) != 0 AND LOCATE('unsigned', '' @
       ''DATA_TYPE) = 0 THEN   CASE    WHEN LOCATE('zerofill', COLUMN_TYPE) != 0 AND LOCATE('zerofill', '' @
       ''DATA_TYPE) = 0 THEN CONCAT(UCASE(DATA_TYPE), ' UNSIGNED ZEROFILL')    ELSE CONCAT(UCASE(DATA_TYPE), ' '' @
       ''UNSIGNED')  END     ELSE UCASE(DATA_TYPE)END AS TYPE_NAME,CASE WHEN LCASE(DATA_TYPE)='year' '' @
       ''THEN SUBSTRING(COLUMN_TYPE, 6, 1) -- 'year('=5'' @ [CHR 0x0A] @
       ''WHEN LCASE(DATA_TYPE)='date' THEN 10 WHEN LCASE(DATA_TYPE)='time' THEN 8 WHEN '' @
       ''LCASE(DATA_TYPE)='datetime' THEN 19 WHEN LCASE(DATA_TYPE)='timestamp' THEN 19 '' @
       ''WHEN CHARACTER_MAXIMUM_LENGTH IS NULL THEN NUMERIC_PRECISION ELSE CHARACTER_MAXIMUM_LENGTH '' @
       ''END AS COLUMN_SIZE, '' @ [squote] @ [squote] @
       '' AS BUFFER_LENGTH,NUMERIC_SCALE AS DECIMAL_DIGITS,10 AS NUM_PREC_RADIX,CASE WHEN '' @
       ''IS_NULLABLE='NO' THEN '' @
       udec (nullability_code columnNoNulls) @
       '' ELSE CASE WHEN IS_NULLABLE='YES' THEN '' @
       udec (nullability_code columnNullable) @
       '' ELSE '' @
       udec (nullability_code columnNullableUnknown) @
       '' END END AS NULLABLE,COLUMN_COMMENT AS REMARKS,COLUMN_DEFAULT AS COLUMN_DEF,0 '' @
       ''AS SQL_DATA_TYPE,0 AS SQL_DATETIME_SUB,CHARACTER_OCTET_LENGTH,ORDINAL_POSITION,IS_NULLABLE,NULL '' @
       ''AS SCOPE_CATALOG,NULL AS SCOPE_SCHEMA,NULL AS SCOPE_TABLE,NULL AS SOURCE_DATA_TYPE,IF '' @
       ''(EXTRA LIKE '%auto_increment%','YES','NO') AS IS_AUTOINCREMENT FROM INFORMATION_SCHEMA.COLUMNS '' @
       ''WHERE '' @
       (if length schemaPattern > 0 then '' TABLE_SCHEMA LIKE ? '' else '' TABLE_SCHEMA = DATABASE() '') @
       ''AND TABLE_NAME LIKE ? AND COLUMN_NAME LIKE ? ORDER BY TABLE_SCHEMA, TABLE_NAME, '' @ ''ORDINAL_POSITION''"

definition pr_numbers :: "'f pdouble \<Rightarrow> nat list \<Rightarrow> ('p prs, 'e myval list) sop" where
  "pr_numbers pd cols = smapM (\<lambda>i. sbind (pr_getInt64 pd i) (\<lambda>v. sret (int64_val v))) cols"

definition column_row :: "'f pdouble \<Rightarrow> ('p prs, 'e myval list) sop" where
  "column_row pd =
     sbind (pr_texts pd [1..<5]) (\<lambda>names.
     sbind (pr_getString pd 5) (\<lambda>data_type.
     sbind (pr_texts pd [6]) (\<lambda>type_name.
     sbind (pr_numbers pd [7..<11]) (\<lambda>sizes.
     sbind (pr_texts pd [11..<24]) (\<lambda>rest.
       sret (names @ [int64_val (int (sql_type_code (mysql_string_type_to_datatype data_type)))] @ type_name @ sizes @ rest))))))"

text \<open>
  Without \<^verbatim>\<open>information_schema\<close>: the description of an empty selection (\<open>meta\<close>), and a row of
  \<^verbatim>\<open>SHOW FULL COLUMNS\<close>. \<open>of_res\<close> lifts a call on the description.
\<close>

definition of_res :: "'a res \<Rightarrow> ('s, 'a) sop" where
  "of_res r = (\<lambda>s. (r, s))"

definition show_column_row :: "'r native \<Rightarrow> rs_metadata \<Rightarrow> string \<Rightarrow> string \<Rightarrow> nat \<Rightarrow> ('r result_set, 'e myval list) sop" where
  "show_column_row api meta current_schema current_table i =
     sbind (rs_getString api 1) (\<lambda>name.
     sbind (of_res (rm_getColumnType i meta)) (\<lambda>t.
     sbind (of_res (rm_getColumnTypeName i meta)) (\<lambda>type_name.
     sbind (of_res (rm_getColumnDisplaySize i meta)) (\<lambda>size.
     sbind (of_res (rm_getScale i meta)) (\<lambda>scale.
     sbind (of_res (rm_isNullable i meta)) (\<lambda>nullable.
     sbind (rs_getString api 9) (\<lambda>remarks.
     sbind (rs_getString api 6) (\<lambda>column_default.
       sret [MyVal_chars ''def'', typeString current_schema, typeString current_table, typeString name,
             int64_val (int (sql_type_code t)), typeString type_name, int64_val (int size), MyVal_chars [], int64_val (int scale),
             MyVal_chars ''10'', int64_val (int (nullability_code nullable)), typeString remarks, typeString column_default,
             MyVal_chars [], MyVal_chars [], int64_val (int size), int64_val (int i),
             MyVal_chars (if nullability_code nullable \<noteq> 0 then ''YES'' else ''NO''),
             MyVal_chars [], MyVal_chars [], MyVal_chars [], MyVal_chars [], MyVal_chars []]))))))))"

definition show_column_rows :: "'r native \<Rightarrow> rs_metadata \<Rightarrow> string \<Rightarrow> string \<Rightarrow> ('r result_set, 'e myval list list) sop" where
  "show_column_rows api meta current_schema current_table =
     sbind (of_res (rm_getColumnCount meta)) (\<lambda>n.
       first_row (\<lambda>i. sbind (of_res (rm_getColumnName i meta)) (\<lambda>column. sbind (rs_getString api 1) (\<lambda>name.
         if column = name then sbind (show_column_row api meta current_schema current_table i) (\<lambda>row. sret (Some row))
         else sret None))) [1..<Suc n])"

definition show_columns ::
    "nat \<Rightarrow> ('n, 'r, 'p, 'd, 'f) md_lib \<Rightarrow> string \<Rightarrow> string \<Rightarrow> string \<Rightarrow> ('n connection, 'e myval list list) sop" where
  "show_columns fuel lib current_schema current_table columns =
     (let api = nl_result (ml_link lib) in
      sbind (md_show lib (''SELECT * FROM `'' @ current_schema @ ''`.`'' @ current_table @ ''` WHERE 0=1'')) (\<lambda>rs3.
      sbind (local_read rs_checkValid rs3) (\<lambda>_.
      sbind (md_show lib (''SHOW FULL COLUMNS FROM `'' @ current_schema @ ''`.`'' @ current_table @ ''` LIKE '' @ [squote] @ columns @ [squote]))
        (\<lambda>rs4. md_rows fuel lib (on_rows (show_column_rows api
          (new_ResultSetMetaData (map_option (ml_fields lib) (rs_result rs3))) current_schema current_table)) (Some rs4)))))"

definition md_getColumns ::
    "nat \<Rightarrow> ('n, 'r, 'p, 'd, 'f) md_lib \<Rightarrow> string \<Rightarrow> string \<Rightarrow> string \<Rightarrow> ('n connection, 'e art_set) sop" where
  "md_getColumns fuel lib schemaPattern tableNamePattern columnNamePattern =
     (let link = ml_link lib; api = nl_result link in
      sbind (con_escapeString link schemaPattern) (\<lambda>schemas.
      sbind (con_escapeString link tableNamePattern) (\<lambda>tables.
      sbind (con_escapeString link columnNamePattern) (\<lambda>columns.
      art_result column_labels (sbind md_refresh (\<lambda>m.
        if cm_use_info_schema m \<and> cm_server_version m > 50020
        then md_select fuel lib (columns_info_query schemaPattern)
          (if length schemaPattern > 0 then [schemas, tables, columns] else [tables, columns])
          (sbind (column_row (ml_double lib)) (\<lambda>row. sret [row]))
        else sbind (md_show lib (''SHOW DATABASES LIKE '' @ [squote] @ ''%'' @ schemas @ [squote])) (\<lambda>rs1.
          md_rows fuel lib
            (sbind (on_rows (rs_getString api 1)) (\<lambda>current_schema.
             on_con (sbind (md_show lib (''SHOW TABLES FROM `'' @ current_schema @ ''` LIKE '' @ [squote] @ tables @ [squote]))
               (\<lambda>rs2. md_rows fuel lib
                 (sbind (on_rows (rs_getString api 1)) (\<lambda>current_table.
                  on_con (show_columns fuel lib current_schema current_table columns)))
                 (Some rs2)))))
            (Some rs1))))))))"

definition bestRowSession :: nat where "bestRowSession = 2"
definition bestRowNotPseudo :: nat where "bestRowNotPseudo = 1"

text \<open>One row per column of the primary key, or of a unique key.\<close>

definition best_row ::
    "nat \<Rightarrow> ('n, 'r, 'p, 'd, 'f) md_lib \<Rightarrow> 'e long_double \<Rightarrow> string \<Rightarrow> string \<Rightarrow> ('e art_set \<times> 'n connection, 'e myval list list) sop" where
  "best_row fuel lib ld schema table =
     sbind (on_rows (ar_getString ld 4)) (\<lambda>column.
     sbind (on_con (md_getColumns fuel lib schema table column)) (\<lambda>rsCols.
       case ar_next rsCols of
         (Inl e, _) \<Rightarrow> sthrow e
       | (Inr False, _) \<Rightarrow> sret []
       | (Inr True, here) \<Rightarrow>
           sbind (on_rows (ar_getString ld 4)) (\<lambda>name.
           sbind (of_res (fst (smapM (\<lambda>i. sbind (ar_getString ld i) (\<lambda>v. sret (typeString v))) [5..<10] here))) (\<lambda>vs.
             sret [int64_val (int bestRowSession) # typeString name # vs @ [int64_val (int bestRowNotPseudo)]]))))"

definition md_getBestRowIdentifier ::
    "nat \<Rightarrow> ('n, 'r, 'p, 'd, 'f) md_lib \<Rightarrow> 'e long_double \<Rightarrow> string \<Rightarrow> string \<Rightarrow> ('n connection, 'e art_set) sop" where
  "md_getBestRowIdentifier fuel lib ld schema table =
     art_result [''SCOPE'', ''COLUMN_NAME'', ''DATA_TYPE'', ''TYPE_NAME'', ''COLUMN_SIZE'', ''BUFFER_LENGTH'',
      ''DECIMAL_DIGITS'', ''PSEUDO_COLUMN'']
       (sbind (md_getPrimaryKeys fuel lib schema table) (\<lambda>keys.
        sbind (local_read ar_rowsCount keys) (\<lambda>n.
        sbind (if n = 0 then md_getUniqueNonNullableKeys fuel lib schema table else sret keys) (\<lambda>rs.
          each_row fuel ar_next (best_row fuel lib ld schema table) rs))))"

section \<open>Routines\<close>

definition procedure_labels :: "string list" where
  "procedure_labels = [''PROCEDURE_CAT'', ''PROCEDURE_SCHEM'', ''PROCEDURE_NAME'', ''RESERVERD_1'', ''RESERVERD_2'',
      ''RESERVERD_3'', ''REMARKS'', ''PROCEDURE_TYPE'']"

definition procedureNoResult :: nat where "procedureNoResult = 7"
definition procedureResultUnknown :: nat where "procedureResultUnknown = 10"
definition procedureReturnsResult :: nat where "procedureReturnsResult = 11"

definition procedures_query :: string where
  "procedures_query =
       ''SELECT ROUTINE_CATALOG AS PROCEDURE_CAT, ROUTINE_SCHEMA AS PROCEDURE_SCHEM, ROUTINE_NAME '' @
       ''AS PROCEDURE_NAME, NULL AS RESERVED_1, NULL AS RESERVERD_2, NULL as RESERVED_3,ROUTINE_COMMENT '' @
       ''AS REMARKS, CASE WHEN ROUTINE_TYPE = 'PROCEDURE' THEN '' @
       udec procedureNoResult @
       '' WHEN ROUTINE_TYPE='FUNCTION' THEN '' @
       udec procedureReturnsResult @
       '' ELSE '' @
       udec procedureResultUnknown @
       '' END AS PROCEDURE_TYPE'' @ [CHR 0x0A] @ ''FROM INFORMATION_SCHEMA.ROUTINES'' @ [CHR 0x0A] @
       ''WHERE ROUTINE_SCHEMA LIKE ? AND ROUTINE_NAME LIKE ?'' @ [CHR 0x0A] @
       ''ORDER BY ROUTINE_SCHEMA, ROUTINE_NAME''"

definition proc_table_query :: string where
  "proc_table_query =
       ''SELECT 'def' AS PROCEDURE_CAT, db as PROCEDURE_SCHEM, name AS PROCEDURE_NAME, '' @
       ''NULL as RESERVERD_1, NULL as RESERVERD_2, NULL AS RESERVERD_3, comment as REMARKS, '' @
       '' CASE WHEN TYPE='FUNCTION' THEN '' @
       udec procedureReturnsResult @
       '' WHEN TYPE='' @ [squote] @ ''PROCEDURE' THEN '' @ udec procedureNoResult @ '' ELSE '' @ udec procedureResultUnknown @
       '' END AS PROCEDURE_TYPE FROM mysql.proc WHERE name LIKE ? AND db <=> ? ORDER BY '' @ ''name''"

text \<open>A prepared query whose execution may fail, for lack of a privilege: \<open>None\<close>.\<close>

definition md_try_select ::
    "nat \<Rightarrow> ('n, 'r, 'p, 'd, 'f) md_lib \<Rightarrow> string \<Rightarrow> string list \<Rightarrow> ('p prs, 'x list) sop \<Rightarrow> ('n connection, 'x list option) sop" where
  "md_try_select fuel lib query texts rd =
     sbind (con_prepareStatement (ml_link lib) no_stream query) (\<lambda>ps c.
       case sthen (set_texts 1 texts) (try_sql (ps_query_result fuel (nl_stmt (ml_link lib)) (ml_nres lib))) ps of
         (Inl e, t) \<Rightarrow> md_close lib t (Inl e) c
       | (Inr None, t) \<Rightarrow> md_close lib t (Inr None) c
       | (Inr (Some rs), t) \<Rightarrow> sbind (md_collect fuel lib rd rs t) (\<lambda>rows. sret (Some rows)) c)"

definition show_procedure_row :: "'r native \<Rightarrow> ('r result_set, 'e myval list list) sop" where
  "show_procedure_row api =
     sbind (rs_getString api 1) (\<lambda>schema.
     sbind (rs_getString api 2) (\<lambda>name.
     sbind (rs_getString api 8) (\<lambda>remarks.
     sbind (rs_getString api 3) (\<lambda>kind.
       sret [[MyVal_chars ''def'', typeString schema, typeString name, MyVal_chars [], MyVal_chars [], MyVal_chars [],
              typeString remarks, typeString (udec (if kind = ''PROCEDURE'' then procedureNoResult else procedureReturnsResult))]]))))"

definition md_getProcedures :: "nat \<Rightarrow> ('n, 'r, 'p, 'd, 'f) md_lib \<Rightarrow> string \<Rightarrow> string \<Rightarrow> ('n connection, 'e art_set) sop" where
  "md_getProcedures fuel lib schemaPattern procedureNamePattern =
     (let link = ml_link lib; all_texts = sbind (pr_texts (ml_double lib) [1..<9]) (\<lambda>row. sret [row]) in
      sbind (con_escapeString link schemaPattern) (\<lambda>schemas.
      sbind (con_escapeString link procedureNamePattern) (\<lambda>procedures.
      art_result procedure_labels (sbind md_refresh (\<lambda>m.
        if cm_use_info_schema m \<and> cm_server_version m > 49999
        then md_select fuel lib procedures_query [schemas, if length procedures > 0 then procedures else ''%''] all_texts
        else if cm_server_version m > 49999 then
          sbind (md_try_select fuel lib proc_table_query [procedures, schemas] all_texts) (\<lambda>got.
            case got of
              Some rows \<Rightarrow> sret rows
            | None \<Rightarrow> sbind (md_show lib ''SHOW PROCEDURE STATUS'') (\<lambda>rs.
                md_rows fuel lib (on_rows (show_procedure_row (nl_result link))) (Some rs)))
        else sret [])))))"

section \<open>Privileges\<close>

text \<open>
  The privileges of a list separated by commas: \<^verbatim>\<open>do { while (privs[pos] == ' ') ++pos; ... } while (idx != npos);\<close>
\<close>

function priv_tokens :: "string \<Rightarrow> nat \<Rightarrow> string list res" where
  "priv_tokens privs pos =
     rbind (skip_while (\<lambda>c. c = CHR '' '') privs pos) (\<lambda>p.
       let idx = find_pos privs '','' p in
       if idx \<noteq> npos then
         rbind (std_substr privs p (wsub idx p)) (\<lambda>t. rbind (priv_tokens privs (idx + 1)) (\<lambda>ts. Inr (t # ts)))
       else rbind (std_substr privs p (wsub (length privs) p)) (\<lambda>t. Inr [t]))"
  by pat_completeness auto
termination
proof (relation "measure (\<lambda>(privs, pos). length privs - pos)", goal_cases)
  case (2 privs pos p idx t)
  then have "pos \<le> p" "p \<le> idx" "idx < length privs"
    using skip_while_ge find_pos_less find_pos_char by blast+
  then show ?case by simp
qed simp

declare priv_tokens.simps [simp del]

definition column_privilege_labels :: "string list" where
  "column_privilege_labels = [''TABLE_CAT'', ''TABLE_SCHEM'', ''TABLE_NAME'', ''COLUMN_NAME'', ''GRANTOR'', ''GRANTEE'', ''PRIVILEGE'',
      ''IS_GRANTABLE'']"

definition column_privilege_rows ::
    "('n, 'r, 'p, 'd, 'f) md_lib \<Rightarrow> string \<Rightarrow> string \<Rightarrow> ('r result_set \<times> 'n connection, 'e myval list list) sop" where
  "column_privilege_rows lib schema table =
     (let api = nl_result (ml_link lib) in
      sbind (on_rows (rs_getString api 8)) (\<lambda>privs.
      sbind (of_res (priv_tokens privs 0)) (smapM (\<lambda>privToken.
        sbind (on_rows (rs_getString api 1)) (\<lambda>column.
        sbind (on_con (md_getUserName lib)) (\<lambda>user.
          sret [MyVal_chars ''def'', typeString schema, typeString table, typeString column, MyVal_chars [], typeString user,
                typeString privToken, MyVal_chars []]))))))"

definition md_getColumnPrivileges ::
    "nat \<Rightarrow> ('n, 'r, 'p, 'd, 'f) md_lib \<Rightarrow> string \<Rightarrow> string \<Rightarrow> string \<Rightarrow> ('n connection, 'e art_set) sop" where
  "md_getColumnPrivileges fuel lib schema table columnNamePattern =
     (let link = ml_link lib in
      sbind (con_escapeString link schema) (\<lambda>_.
      sbind (con_escapeString link table) (\<lambda>_.
      sbind (con_escapeString link columnNamePattern) (\<lambda>columns.
      art_result column_privilege_labels (sbind md_refresh (\<lambda>_.
        sbind (try_sql (md_show lib (''SHOW FULL COLUMNS FROM `'' @ schema @ ''`.`'' @ table @ ''` LIKE '' @ [squote] @ columns @ [squote])))
          (md_rows fuel lib (column_privilege_rows lib schema table))))))))"

text \<open>
  A row of \<^verbatim>\<open>SHOW GRANTS\<close>: the privileges, the schema and the table. The search for the closing quote of a
  name starts again at the same place when it finds a quote behind a backslash.
\<close>

definition all_privileges :: string where
  "all_privileges = ''ALTER, DELETE, DROP, INDEX, INSERT, LOCK TABLES, SELECT, UPDATE''"

definition grant_name :: "string \<Rightarrow> string \<Rightarrow> (string \<times> nat) res" where
  "grant_name cQuote g =
     (let pos = find_pos g cQuote 1 in
      if pos \<noteq> npos \<and> g ! (pos - 1) = CHR 0x5C then Inl Diverges
      else rbind (std_substr g 1 (wsub pos 1)) (\<lambda>n. Inr (n, pos)))"

definition expand_all :: "string \<Rightarrow> string" where
  "expand_all g = (case std_find ''ALL PRIVILEGES'' g of None \<Rightarrow> g | Some i \<Rightarrow> take i g @ all_privileges @ drop (i + 14) g)"

definition parse_grant :: "string \<Rightarrow> string \<Rightarrow> (string \<times> string \<times> string) res" where
  "parse_grant cQuote text =
     (let g1 = expand_all (drop 6 text); pos = find_pos g1 ''ON'' 0; privs = take (wsub pos 1) g1 in
      rbind (std_substr_from g1 (wadd pos 3)) (\<lambda>g2.
      rbind (std_index g2 0) (\<lambda>c.
      rbind (if c \<noteq> CHR ''*'' then rbind (grant_name cQuote g2) (\<lambda>(n, p). Inr (n, drop (wadd p 2) g2))
             else Inr (''*'', drop 2 g2)) (\<lambda>(schema, g3).
      rbind (std_index g3 0) (\<lambda>d.
      rbind (if d \<noteq> CHR ''*'' then rbind (grant_name cQuote g3) (\<lambda>(n, p). Inr n) else Inr ''*'') (\<lambda>table.
        Inr (privs, schema, table)))))))"

definition grant_applies :: "string \<Rightarrow> string \<Rightarrow> string \<times> string \<times> string \<Rightarrow> bool" where
  "grant_applies schema table = (\<lambda>(privs, s, t). privs \<noteq> ''USAGE'' \<and> matchTable s t schema table)"

definition table_privilege_rows ::
    "('n, 'r, 'p, 'd, 'f) md_lib \<Rightarrow> 'e long_double \<Rightarrow> (string \<times> string \<times> string) list \<Rightarrow> ('e art_set \<times> 'n connection, 'e myval list list) sop" where
  "table_privilege_rows lib ld grants =
     sbind (on_rows (ar_getString ld 2)) (\<lambda>schema.
     sbind (on_rows (ar_getString ld 3)) (\<lambda>table.
       case find (grant_applies schema table) grants of
         None \<Rightarrow> sret []
       | Some (privs, _, _) \<Rightarrow>
           sbind (of_res (priv_tokens privs 0)) (\<lambda>tokens. smapM (\<lambda>privToken.
             sbind (on_con (md_getUserName lib)) (\<lambda>user.
               sret [MyVal_chars ''def'', typeString schema, typeString table, MyVal_chars [], typeString user, typeString privToken, MyVal_chars []]))
             (filter (\<lambda>t. CHR 0x2F \<notin> set t) tokens))))"

definition md_getTablePrivileges ::
    "nat \<Rightarrow> ('n, 'r, 'p, 'd, 'f) md_lib \<Rightarrow> 'e long_double \<Rightarrow> string \<Rightarrow> string \<Rightarrow> ('n connection, 'e art_set) sop" where
  "md_getTablePrivileges fuel lib ld schemaPattern tableNamePattern =
     (let api = nl_result (ml_link lib) in
      sbind (md_show lib ''SHOW GRANTS'') (\<lambda>rs.
      sbind (md_getIdentifierQuoteString (ml_link lib)) (\<lambda>cQuote.
      sbind (md_rows fuel lib (on_rows (sbind (rs_getString api 1) (\<lambda>text. sbind (of_res (parse_grant cQuote text)) (\<lambda>g. sret [g]))))
        (Some rs)) (\<lambda>grants.
      art_result [''TABLE_CAT'', ''TABLE_SCHEM'', ''TABLE_NAME'', ''GRANTOR'', ''GRANTEE'', ''PRIVILEGE'', ''IS_GRANTABLE'']
        (sbind (md_getTables fuel lib schemaPattern tableNamePattern [''TABLE'']) (\<lambda>tables.
          each_row fuel ar_next (table_privilege_rows lib ld grants) tables))))))"

section \<open>Objects\<close>

definition schemata_select_items :: string where "schemata_select_items = [squote] @ ''schema' AS 'OBJECT_TYPE', CATALOG_NAME as 'CATALOG', SCHEMA_NAME as 'SCHEMA', '' @
       ''SCHEMA_NAME as 'NAME'' @ [squote]"
definition tables_select_items :: string where "tables_select_items = [squote] @ ''table' AS 'OBJECT_TYPE', TABLE_CATALOG as 'CATALOG', TABLE_SCHEMA as 'SCHEMA', '' @
       ''TABLE_NAME as 'NAME'' @ [squote]"
definition views_select_items :: string where "views_select_items = [squote] @ ''view' AS 'OBJECT_TYPE', TABLE_CATALOG as 'CATALOG', TABLE_SCHEMA as 'SCHEMA', '' @
       ''TABLE_NAME as 'NAME'' @ [squote]"
definition routines_select_items :: string where "routines_select_items = ''ROUTINE_TYPE AS 'OBJECT_TYPE', ROUTINE_CATALOG as 'CATALOG', ROUTINE_SCHEMA as 'SCHEMA', '' @
       ''ROUTINE_NAME as 'NAME'' @ [squote]"
definition triggers_select_items :: string where "triggers_select_items = [squote] @ ''trigger' AS 'OBJECT_TYPE', TRIGGER_CATALOG as 'CATALOG', TRIGGER_SCHEMA as 'SCHEMA', '' @
       ''TRIGGER_NAME as 'NAME'' @ [squote]"

text \<open>The condition on the schema and on the name; \<open>head\<close> ends with the quote before the schema's name.\<close>

definition where_clause :: "string \<Rightarrow> string \<Rightarrow> string \<Rightarrow> string \<Rightarrow> string" where
  "where_clause head schema column object =
     (if length schema > 0 then head @ schema @ [squote] @ '' '' else []) @
     (if length object > 0 then (if length schema > 0 then '' AND '' else '' WHERE '') @ [squote] @ object @ [squote] @ ''='' @ column else [])"

definition schemata_where :: "string \<Rightarrow> string \<Rightarrow> string" where
  "schemata_where s x = where_clause ('' WHERE schema_name = '' @ [squote]) s ''SCHEMA_NAME'' x"
definition tables_where :: "string \<Rightarrow> string \<Rightarrow> string" where
  "tables_where s x = where_clause ('' WHERE table_type<>'VIEW' AND table_schema = '' @ [squote]) s ''TABLE_NAME'' x"
definition views_where :: "string \<Rightarrow> string \<Rightarrow> string" where
  "views_where s x = where_clause ('' WHERE table_schema = '' @ [squote]) s ''TABLE_NAME'' x"
definition routines_where :: "string \<Rightarrow> string \<Rightarrow> string" where
  "routines_where s x = where_clause ('' WHERE routine_schema = '' @ [squote]) s ''ROUTINE_NAME'' x"
definition triggers_where :: "string \<Rightarrow> string \<Rightarrow> string \<Rightarrow> string" where
  "triggers_where s x t = where_clause ('' WHERE trigger_schema = '' @ [squote]) s ''TRIGGER_NAME'' x @
     (if length t > 0 then (if length s > 0 \<or> length x > 0 then '' AND '' else '' WHERE '') @ [squote] @ t @ [squote] @ ''=EVENT_OBJECT_TABLE'' else [])"

definition objects_query :: "string \<Rightarrow> string \<Rightarrow> string \<Rightarrow> string \<Rightarrow> string res" where
  "objects_query objectType s x t =
     (if objectType = [] then Inr
        (''SELECT '' @ tables_select_items @ '' FROM information_schema.tables '' @ tables_where s x @
         ''UNION SELECT '' @ views_select_items @ '' FROM information_schema.views '' @ views_where s x @
         ''UNION SELECT '' @ routines_select_items @ '' FROM information_schema.routines '' @ routines_where s x @
         ''UNION SELECT '' @ triggers_select_items @ '' FROM information_schema.triggers '' @ triggers_where s x t)
      else if objectType = ''schema'' then Inr (''SELECT '' @ schemata_select_items @ '' FROM information_schema.schemata'' @ schemata_where s x)
      else if objectType = ''table'' then Inr (''SELECT '' @ tables_select_items @ '' FROM information_schema.tables'' @ tables_where s x)
      else if objectType = ''view'' then Inr (''SELECT '' @ views_select_items @ '' FROM information_schema.views'' @ views_where s x)
      else if objectType = ''routine'' then Inr (''SELECT '' @ routines_select_items @ '' FROM information_schema.routines'' @ routines_where s x)
      else if objectType = ''trigger'' then Inr (''SELECT '' @ triggers_select_items @ '' FROM information_schema.triggers'' @ triggers_where s x t)
      else Inl (Sql_invalid_argument (''MySQLMetadata::getSchemaObjects: invalid '' @ [squote] @ ''objectType'' @ [squote])))"

text \<open>The definer of a trigger is stored without quotes.\<close>

definition quoted_definer :: "string \<Rightarrow> string" where
  "quoted_definer d =
     ''`'' @ (case std_find ''@'' d of None \<Rightarrow> d | Some i \<Rightarrow> take i d @ ''`@`'' @ drop (i + 1) d) @ ''`''"

definition object_key :: "string \<Rightarrow> string \<Rightarrow> string" where
  "object_key schema name = ''`'' @ schema @ ''`.`'' @ name @ ''`''"

definition trigger_ddl :: "string \<Rightarrow> string \<Rightarrow> string \<Rightarrow> string \<Rightarrow> string \<Rightarrow> string \<Rightarrow> string \<Rightarrow> string \<Rightarrow> string" where
  "trigger_ddl definer schema name timing manipulation event_schema event_table statement =
     ''CREATE'' @ [CHR 0x0A] @ ''DEFINER='' @ quoted_definer definer @ [CHR 0x0A] @ ''TRIGGER '' @ object_key schema name @ [CHR 0x0A] @
     timing @ '' '' @ manipulation @ '' ON '' @ object_key event_schema event_table @ [CHR 0x0A] @ ''FOR EACH ROW'' @ [CHR 0x0A] @
     statement @ [CHR 0x0A]"

text \<open>A trigger: its key, the statement that creates it, and its name in the list of objects.\<close>

definition trigger_row :: "'r native \<Rightarrow> nat list \<Rightarrow> ('r result_set, (string \<times> string \<times> string) list) sop" where
  "trigger_row api cols =
     sbind (rs_getString api (cols ! 5)) (\<lambda>definer.
     sbind (rs_getString_label api ''schema'') (\<lambda>schema.
     sbind (rs_getString_label api ''name'') (\<lambda>name.
     sbind (rs_getString api (cols ! 4)) (\<lambda>timing.
     sbind (rs_getString api (cols ! 0)) (\<lambda>manipulation.
     sbind (rs_getString api (cols ! 1)) (\<lambda>event_schema.
     sbind (rs_getString api (cols ! 2)) (\<lambda>event_table.
     sbind (rs_getString api (cols ! 3)) (\<lambda>statement.
       sret [(object_key schema name, trigger_ddl definer schema name timing manipulation event_schema event_table statement,
              event_table @ ''.'' @ name)]))))))))"

definition triggers_query :: "string \<Rightarrow> string" where
  "triggers_query clause = ''SELECT '' @ triggers_select_items @
       '', EVENT_MANIPULATION, EVENT_OBJECT_SCHEMA, EVENT_OBJECT_TABLE, ACTION_ORDER, '' @ [CHR 0x09] @
       ''ACTION_CONDITION, ACTION_STATEMENT, ACTION_ORIENTATION, ACTION_TIMING, DEFINER'' @ [CHR 0x09] @
       ''FROM information_schema.triggers '' @
       clause"

definition md_triggers :: "nat \<Rightarrow> ('n, 'r, 'p, 'd, 'f) md_lib \<Rightarrow> string \<Rightarrow> ('n connection, (string \<times> string \<times> string) list) sop" where
  "md_triggers fuel lib clause =
     sbind (md_show lib (triggers_query clause)) (\<lambda>rs.
     sbind (local_read (smapM rs_findColumn
       [''EVENT_MANIPULATION'', ''EVENT_OBJECT_SCHEMA'', ''EVENT_OBJECT_TABLE'', ''ACTION_STATEMENT'', ''ACTION_TIMING'', ''DEFINER'']) rs) (\<lambda>cols.
       md_rows fuel lib (on_rows (trigger_row (nl_result (ml_link lib)) cols)) (Some rs)))"

text \<open>The statement that shows how an object is created, and the column of the answer.\<close>

definition ddl_query :: "string \<Rightarrow> string \<Rightarrow> string \<Rightarrow> (string \<times> string) option res" where
  "ddl_query obj_type schema name =
     (if obj_type = ''schema'' then Inr (Some (''SHOW CREATE SCHEMA `'' @ name @ ''`'', ''Create Database''))
      else if obj_type = ''table'' then Inr (Some (''SHOW CREATE TABLE '' @ object_key schema name, ''Create Table''))
      else if obj_type = ''view'' then Inr (Some (''SHOW CREATE VIEW '' @ object_key schema name, ''Create View''))
      else if obj_type = ''PROCEDURE'' then Inr (Some (''SHOW CREATE PROCEDURE '' @ object_key schema name, ''Create Procedure''))
      else if obj_type = ''FUNCTION'' then Inr (Some (''SHOW CREATE FUNCTION '' @ object_key schema name, ''Create Function''))
      else if obj_type = ''trigger'' then Inr None
      else Inl (Sql_invalid_argument ''MySQL_DatabaseMetaData::getSchemaObjects: invalid OBJECT_TYPE returned from query''))"

definition shown_ddl :: "('n, 'r, 'p, 'd, 'f) md_lib \<Rightarrow> string \<Rightarrow> string \<times> string \<Rightarrow> ('n connection, string) sop" where
  "shown_ddl lib obj_type = (\<lambda>(query, column).
     sbind (md_show lib query) (local_read
       (sthen (rs_next (nl_result (ml_link lib)))
         (sbind (rs_findColumn column) (\<lambda>colIdx.
          sbind (if colIdx = 0 \<and> obj_type = ''table'' then rs_findColumn ''Create View'' else sret colIdx)
            (rs_getString (nl_result (ml_link lib))))))))"

definition object_ddl ::
    "('n, 'r, 'p, 'd, 'f) md_lib \<Rightarrow> bool \<Rightarrow> (string \<rightharpoonup> string) \<Rightarrow> string \<Rightarrow> string \<Rightarrow> string \<Rightarrow> (string \<times> string) option \<Rightarrow> ('n connection, string) sop" where
  "object_ddl lib includingDdl ddl_map obj_type schema name q =
     (if includingDdl then
        (case q of
           None \<Rightarrow> sret (map_or [] ddl_map (object_key schema name))
         | Some s \<Rightarrow> sbind (try_sql (shown_ddl lib obj_type s)) (\<lambda>ddl. sret (case ddl of None \<Rightarrow> [] | Some d \<Rightarrow> d)))
      else sret [])"

definition object_row ::
    "('n, 'r, 'p, 'd, 'f) md_lib \<Rightarrow> bool \<Rightarrow> (string \<times> string \<times> string) list \<Rightarrow> nat list \<Rightarrow> ('r result_set \<times> 'n connection, 'e myval list list) sop" where
  "object_row lib includingDdl triggers cols =
     (let api = nl_result (ml_link lib);
          ddl_map = map_of (rev (map (\<lambda>(k, ddl, name). (k, ddl)) triggers));
          name_map = map_of (rev (map (\<lambda>(k, ddl, name). (k, name)) triggers)) in
      sbind (on_rows (rs_getString api (cols ! 0))) (\<lambda>obj_type.
      sbind (on_rows (rs_getString api (cols ! 2))) (\<lambda>schema.
      sbind (on_rows (rs_getString api (cols ! 3))) (\<lambda>name.
      sbind (on_rows (rs_getString api (cols ! 1))) (\<lambda>catalog.
      sbind (of_res (ddl_query obj_type schema name)) (\<lambda>q.
      sbind (on_con (object_ddl lib includingDdl ddl_map obj_type schema name q)) (\<lambda>ddl.
        sret [[typeString (if obj_type = ''PROCEDURE'' \<or> obj_type = ''FUNCTION'' then ''routine'' else obj_type), typeString catalog, typeString schema,
               typeString (if obj_type = ''trigger'' then map_or [] name_map (object_key schema name) else name), typeString ddl]])))))))"

definition md_getSchemaObjects ::
    "nat \<Rightarrow> ('n, 'r, 'p, 'd, 'f) md_lib \<Rightarrow> string \<Rightarrow> string \<Rightarrow> bool \<Rightarrow> string \<Rightarrow> string \<Rightarrow> ('n connection, 'e art_set) sop" where
  "md_getSchemaObjects fuel lib schemaName objectType includingDdl objectName contextTableName =
     (let link = ml_link lib in
      sbind (con_escapeString link schemaName) (\<lambda>s.
      sbind (con_escapeString link objectName) (\<lambda>x.
      sbind (con_escapeString link contextTableName) (\<lambda>t.
      sbind (of_res (objects_query objectType s x t)) (\<lambda>query.
      sbind (md_show lib query) (\<lambda>native_rs.
      sbind (local_read (smapM rs_findColumn [''OBJECT_TYPE'', ''CATALOG'', ''SCHEMA'', ''NAME'']) native_rs) (\<lambda>cols.
      sbind (if objectType = ''trigger'' \<or> objectType = [] then md_triggers fuel lib (triggers_where s x t) else sret []) (\<lambda>triggers.
      art_result [''OBJECT_TYPE'', ''CATALOG'', ''SCHEMA'', ''NAME'', ''DDL'']
        (md_rows fuel lib (object_row lib includingDdl triggers cols) (Some native_rs))))))))))"

end
