(* ===== verification/Db_Rows.thy ===== *)
theory Db_Rows
  imports Db_Facts Art_Moves Cursor
begin

text \<open>
  Reading the constructed result sets of the database's description: a loop over \<^verbatim>\<open>next\<close> delivers all rows, and the
  rows of \<^verbatim>\<open>getTypeInfo\<close> describe the columns of results under the same names and codes as \<^verbatim>\<open>mysql_util.cpp\<close>.
\<close>

section \<open>Loops over constructed rows\<close>

interpretation art_rows: cursor ar_next "\<lambda>s k. art_ok rows s \<and> ar_position s = k \<and> ar_num_fields s = n" "length rows"
  for rows :: "'d myval list list" and n
proof
  fix s :: "'d art_set" and k assume "art_ok rows s \<and> ar_position s = k \<and> ar_num_fields s = n" "k < length rows"
  then show "\<exists>s'. ar_next s = (Inr True, s') \<and> art_ok rows s' \<and> ar_position s' = k + 1 \<and> ar_num_fields s' = n"
    using art_next [of rows s] art_at_ok [of rows s "k + 1"] by (auto simp: art_at_def)
next
  fix s :: "'d art_set" assume "art_ok rows s \<and> ar_position s = length rows \<and> ar_num_fields s = n"
  then show "\<exists>s'. ar_next s = (Inr False, s') \<and> art_ok rows s' \<and> ar_position s' = length rows + 1 \<and> ar_num_fields s' = n"
    using art_next [of rows s] art_at_ok [of rows s "length rows + 1"] by (auto simp: art_at_def)
qed

text \<open>Two columns of every row, the second as a number.\<close>

definition ar_text_number :: "'d long_double \<Rightarrow> nat \<Rightarrow> nat \<Rightarrow> ('d art_set, string \<times> 64 word) sop" where
  "ar_text_number ld c d = sbind (ar_getString ld c) (\<lambda>t. sbind (ar_getInt64 ld d) (\<lambda>i. sret (t, i)))"

lemma constructed_read:
  assumes "list_all (\<lambda>r. length r = length labels) rows" "1 \<le> c" "c \<le> length labels" "1 \<le> d" "d \<le> length labels"
    and "\<And>r. r \<in> set rows \<Longrightarrow> MyVal_getString ld (r ! (c - 1)) = Inr (f r) \<and> MyVal_getInt64 ld (r ! (d - 1)) = Inr (g r)"
    and "length rows < fuel"
  shows "\<exists>s'. drain fuel ar_next (ar_text_number ld c d) [] (new_ArtResultSet labels rows) = (Inr (map (\<lambda>r. (f r, g r)) rows), s')"
proof -
  have "\<exists>s'. ar_text_number ld c d s = (Inr (f (rows ! (k - 1)), g (rows ! (k - 1))), s')
      \<and> art_ok rows s' \<and> ar_position s' = k \<and> ar_num_fields s' = length labels"
    if "art_ok rows s \<and> ar_position s = k \<and> ar_num_fields s = length labels" "1 \<le> k" "k \<le> length rows" for s k
  proof -
    have h: "hit (length rows) (ar_position s)" using that by (simp add: hit_def)
    have m: "rows ! (k - 1) \<in> set rows" using that by simp
    have t: "ar_getString ld c s = (Inr (f (rows ! (k - 1))), s)"
      using value_on_row [of rows s c "''getString''" "MyVal_getString ld", OF _ h] that(1) assms(2,3) assms(6) [OF m]
      by (simp add: ar_getString_def)
    have i: "ar_getInt64 ld d s = (Inr (g (rows ! (k - 1))), s)"
      using value_on_row [of rows s d "''getInt64''" "MyVal_getInt64 ld", OF _ h] that(1) assms(4,5) assms(6) [OF m]
      by (simp add: ar_getInt64_def)
    show ?thesis using that(1) t i by (simp add: ar_text_number_def)
  qed
  moreover have "art_ok rows (new_ArtResultSet labels rows)" by (rule new_art_ok [OF assms(1)])
  ultimately have "\<exists>s'. drain fuel ar_next (ar_text_number ld c d) [] (new_ArtResultSet labels rows) =
      (Inr (map (\<lambda>k. (f (rows ! k), g (rows ! k))) [0..<length rows]), s')"
    using assms(7) by (intro art_rows.drain_all [where n = "length labels"]) (auto simp: new_ArtResultSet_def)
  moreover have "map (\<lambda>k. (f (rows ! k), g (rows ! k))) [0..<length rows] = map (\<lambda>r. (f r, g r)) rows"
    by (rule nth_equalityI) simp_all
  ultimately show ?thesis by simp
qed

section \<open>The types of columns\<close>

lemma type_info_widths: "list_all (\<lambda>r. length r = length type_info_labels) (map type_info_row mysqlc_types)"
  by (simp add: list_all_length type_info_row_def type_info_labels_def)

definition type_pairs :: "(string \<times> sql_type) list" where
  "type_pairs = map (\<lambda>i. (ti_typeName i, ti_dataType i)) mysqlc_types"

lemmas type_entries =
  type_BIT_def type_TINYINT_def type_TINYINT_UNSIGNED_def type_TINYINT_UNSIGNED_ZEROFILL_def type_BIGINT_def
  type_BIGINT_UNSIGNED_def type_BIGINT_UNSIGNED_ZEROFILL_def type_LONG_VARBINARY_def type_MEDIUMBLOB_def
  type_LONGBLOB_def type_BLOB_def type_TINYBLOB_def type_VARBINARY_def type_BINARY_def type_LONG_VARCHAR_def
  type_MEDIUMTEXT_def type_LONGTEXT_def type_TEXT_def type_TINYTEXT_def type_CHAR_def type_NUMERIC_def
  type_DECIMAL_def type_DECIMAL_UNSIGNED_def type_DECIMAL_UNSIGNED_ZEROFILL_def type_INT_def type_INT_UNSIGNED_def
  type_INT_UNSIGNED_ZEROFILL_def type_MEDIUMINT_def type_MEDIUMINT_UNSIGNED_def type_MEDIUMINT_UNSIGNED_ZEROFILL_def
  type_SMALLINT_def type_SMALLINT_UNSIGNED_def type_SMALLINT_UNSIGNED_ZEROFILL_def type_FLOAT_def
  type_FLOAT_UNSIGNED_def type_FLOAT_UNSIGNED_ZEROFILL_def type_DOUBLE_def type_DOUBLE_UNSIGNED_def
  type_DOUBLE_UNSIGNED_ZEROFILL_def type_REAL_def type_REAL_UNSIGNED_def type_VARCHAR_def type_ENUM_def type_SET_def
  type_DATE_def type_TIME_def type_DATETIME_def type_TIMESTAMP_def type_YEAR_def

lemma type_pairs_list:
  "type_pairs = [
     (''BIT'', DT_BIT), (''TINYINT'', DT_TINYINT), (''TINYINT UNSIGNED'', DT_TINYINT),
     (''TINYINT UNSIGNED ZEROFILL'', DT_TINYINT), (''BIGINT'', DT_BIGINT), (''BIGINT UNSIGNED'', DT_BIGINT),
     (''BIGINT UNSIGNED ZEROFILL'', DT_BIGINT), (''LONG VARBINARY'', DT_LONGVARBINARY),
     (''MEDIUMBLOB'', DT_LONGVARBINARY), (''LONGBLOB'', DT_LONGVARBINARY), (''BLOB'', DT_LONGVARBINARY),
     (''TINYBLOB'', DT_LONGVARBINARY), (''VARBINARY'', DT_VARBINARY), (''BINARY'', DT_BINARY),
     (''LONG VARCHAR'', DT_LONGVARCHAR), (''MEDIUMTEXT'', DT_LONGVARCHAR), (''LONGTEXT'', DT_LONGVARCHAR),
     (''TEXT'', DT_LONGVARCHAR), (''TINYTEXT'', DT_LONGVARCHAR), (''CHAR'', DT_CHAR), (''NUMERIC'', DT_NUMERIC),
     (''DECIMAL'', DT_DECIMAL), (''DECIMAL UNSIGNED'', DT_DECIMAL), (''DECIMAL UNSIGNED ZEROFILL'', DT_DECIMAL),
     (''INT'', DT_INTEGER), (''INT UNSIGNED'', DT_INTEGER), (''INT UNSIGNED ZEROFILL'', DT_INTEGER),
     (''MEDIUMINT'', DT_MEDIUMINT), (''MEDIUMINT UNSIGNED'', DT_MEDIUMINT),
     (''MEDIUMINT UNSIGNED ZEROFILL'', DT_MEDIUMINT), (''SMALLINT'', DT_SMALLINT),
     (''SMALLINT UNSIGNED'', DT_SMALLINT), (''SMALLINT UNSIGNED ZEROFILL'', DT_SMALLINT), (''FLOAT'', DT_REAL),
     (''FLOAT UNSIGNED'', DT_REAL), (''FLOAT UNSIGNED ZEROFILL'', DT_REAL), (''DOUBLE'', DT_DOUBLE),
     (''DOUBLE UNSIGNED'', DT_DOUBLE), (''DOUBLE UNSIGNED ZEROFILL'', DT_DOUBLE), (''REAL'', DT_DOUBLE),
     (''REAL UNSIGNED'', DT_DOUBLE), (''VARCHAR'', DT_VARCHAR), (''ENUM'', DT_ENUM), (''SET'', DT_SET),
     (''DATE'', DT_DATE), (''TIME'', DT_TIME), (''DATETIME'', DT_TIMESTAMP), (''TIMESTAMP'', DT_TIMESTAMP),
     (''YEAR'', DT_YEAR)]"
  by (simp add: type_pairs_def mysqlc_types_def type_entries)

text \<open>What a loop over \<^verbatim>\<open>getTypeInfo\<close> reads of names and codes.\<close>

definition type_codes :: "(string \<times> 64 word) list" where
  "type_codes = map (\<lambda>t. (ti_typeName t, of_nat (sql_type_code (ti_dataType t)))) mysqlc_types"

lemma type_listed_iff: "(n, t) \<in> set type_pairs \<longleftrightarrow> (\<exists>i\<in>set mysqlc_types. ti_typeName i = n \<and> ti_dataType i = t)"
  by (auto simp: type_pairs_def)

lemma chars_of_types: "t \<in> set mysqlc_types \<Longrightarrow> chars (ti_typeName t) = ti_typeName t"
proof -
  have "list_all (\<lambda>(n, t). chars n = n) type_pairs" by (simp add: type_pairs_list chars_def)
  moreover assume "t \<in> set mysqlc_types"
  ultimately show ?thesis by (force simp: type_pairs_def list_all_iff)
qed

lemma type_info_loop:
  assumes "length mysqlc_types < fuel"
  shows "\<exists>s'. drain fuel ar_next (ar_text_number ld 1 2) [] md_getTypeInfo = (Inr type_codes, s')"
proof -
  let ?rows = "map type_info_row mysqlc_types"
  let ?f = "\<lambda>r. case MyVal_getString ld (r ! 0) of Inr v \<Rightarrow> v | Inl _ \<Rightarrow> []"
  let ?g = "\<lambda>r. case MyVal_getInt64 ld (r ! 1) of Inr v \<Rightarrow> v | Inl _ \<Rightarrow> 0"
  have v: "MyVal_getString ld (type_info_row t ! 0) = Inr (ti_typeName t)"
      "MyVal_getInt64 ld (type_info_row t ! 1) = Inr (of_nat (sql_type_code (ti_dataType t)))"
    if "t \<in> set mysqlc_types" for t
    using chars_of_types [OF that] by (simp_all add: type_info_row_def MyVal_chars_def int64_val_def MyVal_getInt64_def MyVal_getString_def)
  have "\<exists>s'. drain fuel ar_next (ar_text_number ld 1 2) [] (new_ArtResultSet type_info_labels ?rows) = (Inr (map (\<lambda>r. (?f r, ?g r)) ?rows), s')"
    by (rule constructed_read [OF type_info_widths]) (use assms v in \<open>auto simp: type_info_labels_def\<close>)
  moreover have "map (\<lambda>r. (?f r, ?g r)) ?rows = type_codes" using v by (simp add: type_codes_def)
  ultimately show ?thesis by (simp add: md_getTypeInfo_def)
qed

text \<open>The codes tell the types apart.\<close>

lemma index_of_nth: "x \<in> set xs \<Longrightarrow> index_of x xs < length xs \<and> xs ! index_of x xs = x"
  by (induction xs) auto

lemma all_sql_types_all: "t \<in> set all_sql_types"
  by (cases t) (simp_all add: all_sql_types_def)

lemma sql_type_code_inj: "sql_type_code s = sql_type_code t \<longleftrightarrow> s = t"
  using index_of_nth [OF all_sql_types_all, of s] index_of_nth [OF all_sql_types_all, of t]
  unfolding sql_type_code_def by metis

lemma sql_type_code_less: "sql_type_code t < 26"
  using index_of_nth [OF all_sql_types_all, of t] by (simp add: sql_type_code_def all_sql_types_def)

text \<open>
  Columns whose flags are those of one type, and the types that the list does not have under the code of its
  columns: four are not listed at all, short texts and blobs are listed as long ones.
\<close>

definition plain_flags :: "mysql_field \<Rightarrow> bool" where
  "plain_flags f \<longleftrightarrow> \<not> (has_flag f ENUM_FLAG \<and> has_flag f SET_FLAG)
     \<and> (fld_charsetnr f = MAGIC_BINARY_CHARSET_NR \<longrightarrow> has_flag f BINARY_FLAG)
     \<and> fld_flags f \<noteq> (BINARY_FLAG OR UNSIGNED_FLAG)"

definition unlisted :: "field_type \<Rightarrow> bool" where
  "unlisted t \<longleftrightarrow> t \<in> {MYSQL_TYPE_NULL, MYSQL_TYPE_NEWDATE, MYSQL_TYPE_GEOMETRY, MYSQL_TYPE_JSON, MYSQL_TYPE_TINY_BLOB}"

lemma described_listed:
  assumes "plain_flags f" "mysql_type_to_string f = Inr name" "\<not> unlisted (fld_type f)"
  shows "\<exists>t. mysql_type_to_datatype f = Inr t \<and> (name, t) \<in> set type_pairs"
  using assms unfolding type_pairs_list
  by (cases "fld_type f")
    (auto simp: unlisted_def plain_flags_def mysql_type_to_string_def mysql_type_to_datatype_def number_name_def blob_name_def
      var_string_name_def blob_type_def string_type_def binary_text_def charset_binary split: if_splits option.splits)

lemma described_unlisted:
  assumes "plain_flags f" "mysql_type_to_string f = Inr name" "unlisted (fld_type f)"
  shows "\<exists>t. mysql_type_to_datatype f = Inr t \<and> (name, t) \<notin> set type_pairs"
  using assms unfolding type_pairs_list
  by (cases "fld_type f")
    (auto simp: unlisted_def plain_flags_def mysql_type_to_string_def mysql_type_to_datatype_def blob_name_def
      blob_type_def binary_text_def charset_binary split: if_splits option.splits)

lemma type_codes_iff: "(n, of_nat (sql_type_code t)) \<in> set type_codes \<longleftrightarrow> (n, t) \<in> set type_pairs"
proof -
  have small: "take_bit 64 (sql_type_code s) = sql_type_code s" for s
    using sql_type_code_less [of s] by (intro take_bit_nat_eq_self) simp
  have eq: "(of_nat (sql_type_code s) :: 64 word) = of_nat (sql_type_code t) \<longleftrightarrow> s = t" for s
    using small [of s] small [of t] by (simp add: word_of_nat_eq_iff sql_type_code_inj)
  have "(n, of_nat (sql_type_code t)) \<in> set type_codes \<longleftrightarrow>
      (\<exists>i\<in>set mysqlc_types. ti_typeName i = n \<and> (of_nat (sql_type_code (ti_dataType i)) :: 64 word) = of_nat (sql_type_code t))"
    by (auto simp: type_codes_def image_iff)
  then show ?thesis unfolding eq type_listed_iff .
qed

theorem columns_described:
  assumes "plain_flags f" "mysql_type_to_string f = Inr name"
  shows "\<exists>t. mysql_type_to_datatype f = Inr t \<and> ((name, of_nat (sql_type_code t)) \<in> set type_codes \<longleftrightarrow> \<not> unlisted (fld_type f))"
  using described_listed [OF assms] described_unlisted [OF assms] unfolding type_codes_iff by blast

text \<open>Short texts and blobs are listed as long ones.\<close>

lemma tiny_types:
  "(''TINYBLOB'', DT_LONGVARBINARY) \<in> set type_pairs" "(''TINYTEXT'', DT_LONGVARCHAR) \<in> set type_pairs"
  "mysql_type_code MYSQL_TYPE_TINY_BLOB f \<noteq> Inr DT_LONGVARBINARY" "mysql_type_code MYSQL_TYPE_TINY_BLOB f \<noteq> Inr DT_LONGVARCHAR"
  by (simp_all add: type_pairs_list blob_type_def split: option.split)

section \<open>Versions and identifiers\<close>

lemma version_parts:
  "md_getDatabaseMajorVersion m * 10000 + md_getDatabaseMinorVersion m * 100 + md_getDatabasePatchVersion m = cm_server_version m"
  "md_getDatabaseMinorVersion m < 100" "md_getDatabasePatchVersion m < 100"
proof -
  have "cm_server_version m mod 10000 mod 100 = cm_server_version m mod 100" by (rule mod_mod_cancel) simp
  then have "cm_server_version m mod 10000 = cm_server_version m mod 10000 div 100 * 100 + cm_server_version m mod 100"
    using div_mult_mod_eq [of "cm_server_version m mod 10000" 100] by simp
  then show "md_getDatabaseMajorVersion m * 10000 + md_getDatabaseMinorVersion m * 100 + md_getDatabasePatchVersion m = cm_server_version m"
    using div_mult_mod_eq [of "cm_server_version m" 10000]
    by (simp only: md_getDatabaseMajorVersion_def md_getDatabaseMinorVersion_def md_getDatabasePatchVersion_def)
qed (simp_all add: md_getDatabaseMinorVersion_def md_getDatabasePatchVersion_def less_mult_imp_div_less)

end
