(* ===== verification/Db_Answers.thy ===== *)
theory Db_Answers
  imports Db_Lists Db_Rows
begin

text \<open>
  What the lists of the database's description hold: the rows the server answers with, in the locales
  \<open>answering\<close> (prepared queries on \<^verbatim>\<open>information_schema\<close>) and \<open>stored_result\<close> (\<^verbatim>\<open>SHOW\<close> statements). Grants and
  lists of privileges are read back as they are printed.
\<close>

section \<open>Loops that only read\<close>

lemma drain_on_rows:
  "drain fuel (on_rows nxt) (on_rows rd) out (s, c) = (case drain fuel nxt rd out s of (r, s') \<Rightarrow> (r, (s', c)))"
proof (induction fuel arbitrary: out s)
  case (Suc fuel)
  then show ?case by (auto simp: on_rows_def split: prod.splits sum.splits)
qed simp

lemma each_row_reads:
  "each_row fuel nxt (on_rows rd) s c = (rbind (fst (drain fuel nxt rd [] s)) (\<lambda>xs. Inr (concat xs)), c)"
  by (simp add: each_row_def drain_on_rows split: prod.splits)

text \<open>Reading several columns of the row a result set is on; \<open>ok\<close> is kept by every read.\<close>

lemma smapM_reads:
  assumes "\<And>s x. ok s \<Longrightarrow> x \<in> set xs \<Longrightarrow> \<exists>s'. f x s = (Inr (g x), s') \<and> ok s'" "ok s"
  shows "\<exists>s'. smapM f xs s = (Inr (map g xs), s') \<and> ok s'"
  using assms
proof (induction xs arbitrary: s)
  case (Cons x xs)
  from Cons.prems(1) [of s x] Cons.prems(2) obtain s1 where s1: "f x s = (Inr (g x), s1)" "ok s1" by auto
  have "\<exists>s'. smapM f xs s1 = (Inr (map g xs), s') \<and> ok s'"
    by (rule Cons.IH) (use Cons.prems(1) s1(2) in \<open>simp_all\<close>)
  with s1 show ?case by auto
qed simp

text \<open>Columns are counted from one.\<close>

lemma map_columns: "map (\<lambda>i. f (r ! (i - 1))) [1..<Suc (length r)] = map f r"
  by (rule nth_equalityI) (simp_all del: upt_Suc)

section \<open>Prepared queries\<close>

text \<open>The texts of a row: every column is read as a text, numbers are printed.\<close>

definition row_texts :: "'f pdouble \<Rightarrow> mysql_field list \<Rightarrow> rcell list \<Rightarrow> string list res" where
  "row_texts pd fs r = rmap (\<lambda>i. read_cell [] (bind_string pd) fs (buffers fs) i r) [1..<Suc (length fs)]"

lemma rmap_nth: "rmap f xs = Inr ys \<Longrightarrow> i < length xs \<Longrightarrow> f (xs ! i) = Inr (ys ! i)"
  by (induction xs arbitrary: ys i) (auto simp: nth_Cons rbind_def split: sum.splits nat.splits)

lemma row_texts_nth:
  assumes "row_texts pd fs r = Inr ts"
  shows "length ts = length fs" "1 \<le> i \<Longrightarrow> i \<le> length fs \<Longrightarrow> read_cell [] (bind_string pd) fs (buffers fs) i r = Inr (ts ! (i - 1))"
proof -
  note t = assms [unfolded row_texts_def]
  show "length ts = length fs" using rmap_Inr_length [OF t] by (simp del: upt_Suc)
  show "read_cell [] (bind_string pd) fs (buffers fs) i r = Inr (ts ! (i - 1))" if "1 \<le> i" "i \<le> length fs"
    using rmap_nth [OF t, of "i - 1"] that by (simp del: upt_Suc)
qed

context stmt_result
begin

lemma texts_on_row:
  assumes "pr_agrees rows_of cur rows fs (buffers fs) s" "hit (length rows) (pr_position s)" "row_texts pd fs (rows ! (pr_position s - 1)) = Inr ts"
  shows "\<exists>s'. pr_texts pd [1..<Suc (length fs)] s = (Inr (map typeString ts :: 'e myval list), s')
    \<and> pr_agrees rows_of cur rows fs (buffers fs) s' \<and> pr_position s' = pr_position s"
proof -
  let ?ok = "\<lambda>t. pr_agrees rows_of cur rows fs (buffers fs) t \<and> pr_position t = pr_position s"
  let ?f = "\<lambda>i. sbind (pr_getString pd i) (\<lambda>v. sret (typeString v :: 'e myval))" and ?g = "\<lambda>i. typeString (ts ! (i - 1)) :: 'e myval"
  have r: "\<exists>t'. ?f i t = (Inr (?g i), t') \<and> ?ok t'" if t: "?ok t" "i \<in> set [1..<Suc (length fs)]" for t i
  proof -
    have i: "1 \<le> i" "i \<le> length fs" using t(2) by auto
    show ?thesis using get_on_row [of rows fs "buffers fs" t i "''getString''" "pr_bad_index ''getString''" "[]" "bind_string pd"]
        t(1) assms(2) row_texts_nth(2) [OF assms(3) i] i by (simp add: pr_getString_def pr_agrees_def)
  qed
  have "map ?g [1..<Suc (length fs)] = map typeString ts"
    unfolding row_texts_nth(1) [OF assms(3), symmetric] by (rule map_columns)
  with smapM_reads [of ?ok "[1..<Suc (length fs)]" ?f ?g s, OF r] assms(1) show ?thesis by (simp add: pr_texts_def del: upt_Suc)
qed

text \<open>The loop over the rows of a stored result of a statement.\<close>

lemma drain_rows:
  assumes "pr_agrees rows_of cur rows fs bs s" "pr_position s = 0" "int (length rows) \<le> INT_MAX" "length rows < fuel"
    and "\<And>s k. pr_agrees rows_of cur rows fs bs s \<Longrightarrow> pr_position s = k \<Longrightarrow> 1 \<le> k \<Longrightarrow> k \<le> length rows \<Longrightarrow>
      \<exists>s'. rd s = (Inr (g (rows ! (k - 1))), s') \<and> pr_agrees rows_of cur rows fs bs s' \<and> pr_position s' = k"
  shows "\<exists>s'. drain fuel (pr_next nr) rd [] s = (Inr (map g rows), s')"
proof -
  have n: "ps_run_move nr Next = pr_next nr" by (simp add: ps_run_move_def)
  have "\<exists>s'. drain fuel (pr_next nr) rd [] s = (Inr (map (\<lambda>k. g (rows ! k)) [0..<length rows]), s')"
    by (rule scroll.forward.drain_all [of rows fs bs, unfolded n]) (use assms in auto)
  moreover have "map (\<lambda>k. g (rows ! k)) [0..<length rows] = map g rows" by (rule nth_equalityI) simp_all
  ultimately show ?thesis by simp
qed

end

lemma set_texts_args:
  fixes s :: "('p, 'd) pstmt"
  shows "set_texts i vs s = bind_args (map letter (map Va_string vs :: 'd vararg list)) i (map Va_string vs) s"
  by (induction vs arbitrary: i s) (auto simp: bind_letter_def split: prod.splits sum.splits)

lemma close_statement:
  assumes "ps_wf t" "ps_proxy t = Some p" "c_proxy c = Some n"
  shows "md_close lib t r c = (r, c\<lparr>c_proxy := Some (nl_stmt_close (ml_link lib) p n)\<rparr>)"
  using delete_statement [OF assms(1)] assms(2,3) by (auto simp: md_close_def con_call_def)

context answering
begin

lemma select_rows:
  assumes lib: "ml_link lib = link" "ml_nres lib = nr"
    and c: "c_valid c" "c_proxy c = Some n" "c_ps_type c = TYPE_SCROLL_INSENSITIVE"
    and texts: "length texts = placeholders False query" "list_all (\<lambda>v. length v \<le> 256 * 1024) texts"
    and cs: "cs = [Bind (map (\<lambda>v. arg_bind (Va_string v)) texts), Run]" "int (length (answer cs)) \<le> INT_MAX" "length (answer cs) < fuel"
    and rd: "\<And>s k. pr_agrees rows_of cur (answer cs) (flds cs) (buffers (flds cs)) s \<Longrightarrow> pr_position s = k \<Longrightarrow> 1 \<le> k \<Longrightarrow> k \<le> length (answer cs) \<Longrightarrow>
      \<exists>s'. rd s = (Inr (g (answer cs ! (k - 1))), s') \<and> pr_agrees rows_of cur (answer cs) (flds cs) (buffers (flds cs)) s' \<and> pr_position s' = k"
  shows "\<exists>n'. md_select fuel lib query texts rd c = (Inr (concat (map g (answer cs))), c\<lparr>c_proxy := Some n'\<rparr>)"
proof -
  let ?args = "map Va_string texts :: 'd vararg list"
  from prepared [OF c(1,2), of no_stream] obtain p n1 where
    p: "con_prepareStatement link no_stream query c = (Inr (new_PreparedStatement (nl_stmt link) p (c_ps_type c) no_stream), c\<lparr>c_proxy := Some n1\<rparr>)"
    "calls p = []" "ns_param_count (nl_stmt link) p = length ?args" using texts(1) by auto
  let ?s = "new_PreparedStatement (nl_stmt link) p (c_ps_type c) no_stream"
  have short: "list_all short_arg ?args" using texts(2) by (simp add: list_all_iff)
  from bind_args_all [OF new_bound [OF p(3)] short, of "c_ps_type c" no_stream] obtain u where
    u: "bind_args (map letter ?args) 1 ?args ?s = (Inr (), u)" "bound_upto ?args 0 u" "ps_proxy u = Some p" "ps_resultset_type u = c_ps_type c"
    by (auto simp: new_PreparedStatement_def)
  have b: "set_texts 1 texts ?s = (Inr (), u)" unfolding set_texts_args by (rule u(1))
  have cs': "cs = calls p @ [Bind (map arg_bind ?args), Run]" using cs(1) p(2) by (simp add: comp_def)
  from query_result [OF u(2,3), of fuel] u(4) c(3) cs' obtain res t where
    res: "ps_query_result fuel (nl_stmt link) nr u = (Inr res, t)" "ps_wf t" "pr_position res = 0"
      "pr_agrees rows_of cur (answer cs) (flds cs) (buffers (flds cs)) res" by auto
  from drain_rows [of "answer cs" "flds cs" "buffers (flds cs)" res fuel rd g, OF res(4,3) cs(2,3) rd] obtain res' where
    d: "drain fuel (pr_next nr) rd [] res = (Inr (map g (answer cs)), res')" by blast
  let ?res = "snd (pr_closeIntern nr res')"
  have "ps_wf (t\<lparr>ps_proxy := Some (pr_proxy ?res)\<rparr>)" using res(2) by (simp add: ps_wf_def)
  from close_statement [OF this, of "pr_proxy ?res" "c\<lparr>c_proxy := Some n1\<rparr>" n1 lib] have
    k: "md_close lib (t\<lparr>ps_proxy := Some (pr_proxy ?res)\<rparr>) r (c\<lparr>c_proxy := Some n1\<rparr>) = (r, c\<lparr>c_proxy := Some (nl_stmt_close link (pr_proxy ?res) n1)\<rparr>)" for r :: "'x list res"
    using lib by simp
  have "md_collect fuel lib rd res t (c\<lparr>c_proxy := Some n1\<rparr>) =
      (Inr (concat (map g (answer cs))), c\<lparr>c_proxy := Some (nl_stmt_close link (pr_proxy ?res) n1)\<rparr>)"
    using d k lib by (simp add: md_collect_def case_prod_beta)
  then have "md_select fuel lib query texts rd c =
      (Inr (concat (map g (answer cs))), c\<lparr>c_proxy := Some (nl_stmt_close link (pr_proxy ?res) n1)\<rparr>)"
    using p(1) b res(1) lib by (simp add: md_select_def)
  then show ?thesis by (rule exI)
qed

text \<open>The texts of the rows are copied, column by column.\<close>

lemma select_texts:
  assumes lib: "ml_link lib = link" "ml_nres lib = nr"
    and c: "c_valid c" "c_proxy c = Some n" "c_ps_type c = TYPE_SCROLL_INSENSITIVE"
    and texts: "length texts = placeholders False query" "list_all (\<lambda>v. length v \<le> 256 * 1024) texts"
    and cs: "cs = [Bind (map (\<lambda>v. arg_bind (Va_string v)) texts), Run]" "int (length (answer cs)) \<le> INT_MAX" "length (answer cs) < fuel"
    and w: "length (flds cs) = w" "map (row_texts (ml_double lib) (flds cs)) (answer cs) = map Inr vals"
  shows "\<exists>n'. md_select_texts fuel lib query texts w c = (Inr (map (map typeString) vals :: 'e myval list list), c\<lparr>c_proxy := Some n'\<rparr>)"
proof -
  let ?rows = "answer cs" and ?bs = "buffers (flds cs)" and ?t = "\<lambda>r. row_texts (ml_double lib) (flds cs) r"
  let ?ok = "\<lambda>s. pr_agrees rows_of cur ?rows (flds cs) ?bs s" and ?g = "\<lambda>r. [map typeString (projr (?t r)) :: 'e myval list]"
  let ?rd = "sbind (pr_texts (ml_double lib) [1..<Suc w]) (\<lambda>row. sret [row])"
  have rd: "\<exists>s'. ?rd s = (Inr (?g (?rows ! (k - 1))), s') \<and> ?ok s' \<and> pr_position s' = k"
    if a: "?ok s" "pr_position s = k" "1 \<le> k" "k \<le> length ?rows" for s k
  proof -
    have h: "hit (length ?rows) (pr_position s)" using a by (simp add: hit_def)
    have l: "length vals = length ?rows" using w(2) map_eq_imp_length_eq by metis
    have t: "?t (?rows ! (pr_position s - 1)) = Inr (vals ! (k - 1))"
      using arg_cong [OF w(2), of "\<lambda>xs. xs ! (k - 1)"] a l by simp
    obtain s' where "pr_texts (ml_double lib) [1..<Suc w] s = (Inr (map typeString (vals ! (k - 1)) :: 'e myval list), s')"
      "?ok s'" "pr_position s' = k" using texts_on_row [OF a(1) h t] a(2) unfolding w(1) by (auto simp del: upt_Suc)
    with t a(2) show ?thesis by (simp del: upt_Suc)
  qed
  have "map ?g ?rows = map (\<lambda>ts. [map typeString ts]) vals"
    using arg_cong [OF w(2), of "map (\<lambda>t. [map typeString (projr t) :: 'e myval list])"] by (simp add: comp_def)
  moreover have "\<exists>n'. md_select fuel lib query texts ?rd c = (Inr (concat (map ?g ?rows)), c\<lparr>c_proxy := Some n'\<rparr>)"
    by (rule select_rows [OF lib c texts cs]) (use rd in blast)
  ultimately show ?thesis by (simp add: md_select_texts_def concat_map_singleton del: upt_Suc)
qed

end

text \<open>The description's switch is read anew.\<close>

lemma refresh_switch:
  assumes "c_meta c = Some m"
  shows "md_refresh c = (Inr (m\<lparr>cm_use_info_schema := c_use_info_schema c\<rparr>), c\<lparr>c_meta := Some (m\<lparr>cm_use_info_schema := c_use_info_schema c\<rparr>)\<rparr>)"
  using assms by (simp add: md_refresh_def md_this_def Let_def)

text \<open>The calls of a query with two arguments.\<close>

definition two_texts :: "string \<Rightarrow> string \<Rightarrow> 'd call list" where
  "two_texts a b = [Bind [arg_bind (Va_string a), arg_bind (Va_string b)], Run]"

text \<open>A connection that is open, with its description, and whose prepared statements store their results.\<close>

definition describing :: "'n connection \<Rightarrow> conn_meta \<Rightarrow> bool" where
  "describing c m \<longleftrightarrow> c_valid c \<and> (\<exists>n. c_proxy c = Some n) \<and> c_ps_type c = TYPE_SCROLL_INSENSITIVE \<and> c_meta c = Some m"

context answering
begin

lemma two_texts_answered:
  assumes "ml_link lib = link" "ml_nres lib = nr" "describing c m" "placeholders False query = 2"
    and "length a \<le> 256 * 1024" "length b \<le> 256 * 1024"
    and "int (length (answer (two_texts a b))) \<le> INT_MAX" "length (answer (two_texts a b)) < fuel"
    and "length (flds (two_texts a b)) = w" "map (row_texts (ml_double lib) (flds (two_texts a b))) (answer (two_texts a b)) = map Inr vals"
  shows "\<exists>n'. md_select_texts fuel lib query [a, b] w c = (Inr (map (map typeString) vals :: 'e myval list list), c\<lparr>c_proxy := Some n'\<rparr>)"
proof -
  obtain n where "c_valid c" "c_proxy c = Some n" "c_ps_type c = TYPE_SCROLL_INSENSITIVE" using assms(3) by (auto simp: describing_def)
  from select_texts [OF assms(1,2) this, of "[a, b]" "two_texts a b" fuel w vals] assms(4-10) show ?thesis by (simp add: two_texts_def)
qed

end

lemma primary_placeholders: "placeholders False primary_keys_query = 2"
  by (simp add: primary_keys_query_def)

text \<open>The primary keys of a table are the server's rows.\<close>

theorem primary_keys_answered:
  assumes "answering link calls log primary_keys_query nr rows_of cur answer flds" "ml_link lib = link" "ml_nres lib = nr"
    and "describing c m" "c_use_info_schema c" "49999 < cm_server_version m"
    and "length schema \<le> 256 * 1024" "length table \<le> 256 * 1024"
    and "int (length (answer (two_texts schema table))) \<le> INT_MAX" "length (answer (two_texts schema table)) < fuel"
    and "length (flds (two_texts schema table)) = 6"
      "map (row_texts (ml_double lib) (flds (two_texts schema table))) (answer (two_texts schema table)) = map Inr vals"
  shows "\<exists>c'. md_getPrimaryKeys fuel lib schema table c =
    (Inr (new_ArtResultSet key_labels (map (map typeString) vals :: 'e myval list list)), c')"
proof -
  let ?m = "m\<lparr>cm_use_info_schema := True\<rparr>"
  have m: "c_meta c = Some m" using assms(4) by (simp add: describing_def)
  have "describing (c\<lparr>c_meta := Some ?m\<rparr>) ?m" using assms(4) by (simp add: describing_def)
  from answering.two_texts_answered [OF assms(1-3) this primary_placeholders assms(7-12)] obtain n' where
    "md_select_texts fuel lib primary_keys_query [schema, table] 6 (c\<lparr>c_meta := Some ?m\<rparr>) =
      (Inr (map (map typeString) vals :: 'e myval list list), c\<lparr>c_meta := Some ?m, c_proxy := Some n'\<rparr>)" by auto
  then show ?thesis using refresh_switch [OF m] assms(5,6) by (simp add: md_getPrimaryKeys_def art_result_def)
qed

text \<open>Reading a column of a constructed result set.\<close>

lemma constructed_column:
  assumes "list_all (\<lambda>r. length r = length labels) rows" "1 \<le> col" "col \<le> length labels" "length rows < fuel"
    and "\<And>r. r \<in> set rows \<Longrightarrow> MyVal_getString ld (r ! (col - 1)) = Inr (f r)"
  shows "\<exists>s'. drain fuel ar_next (ar_getString ld col) [] (new_ArtResultSet labels rows) = (Inr (map f rows), s')"
proof -
  let ?at = "\<lambda>s k. art_ok rows s \<and> ar_position s = k \<and> ar_num_fields s = length labels"
  have "\<exists>s'. ar_getString ld col s = (Inr (f (rows ! (k - 1))), s') \<and> ?at s' k" if "?at s k" "1 \<le> k" "k \<le> length rows" for s k
    using value_on_row [of rows s col "''getString''" "MyVal_getString ld"] that assms(2,3) assms(5) [of "rows ! (k - 1)"]
    by (simp add: ar_getString_def hit_def)
  moreover have "?at (new_ArtResultSet labels rows) 0" using new_art_ok [OF assms(1)] by (simp add: new_ArtResultSet_def)
  ultimately have "\<exists>s'. drain fuel ar_next (ar_getString ld col) [] (new_ArtResultSet labels rows) = (Inr (map (\<lambda>k. f (rows ! k)) [0..<length rows]), s')"
    using assms(4) by (intro art_rows.drain_all [where n = "length labels"]) auto
  moreover have "map (\<lambda>k. f (rows ! k)) [0..<length rows] = map f rows" by (rule nth_equalityI) simp_all
  ultimately show ?thesis by simp
qed

lemma printed_column:
  assumes "map (map (MyVal_getString ld)) rows = map (map Inr) texts" "list_all (\<lambda>ts. length ts = length labels) texts"
    and "1 \<le> col" "col \<le> length labels" "length texts < fuel"
  shows "\<exists>s'. drain fuel ar_next (ar_getString ld col) [] (new_ArtResultSet labels rows) = (Inr (map (\<lambda>ts. ts ! (col - 1)) texts), s')"
proof -
  let ?f = "\<lambda>r. projr (MyVal_getString ld (r ! (col - 1)))"
  have l: "length rows = length texts" using assms(1) map_eq_imp_length_eq by blast
  have m: "map (MyVal_getString ld) (rows ! i) = map Inr (texts ! i)" if "i < length rows" for i
    using arg_cong [OF assms(1), of "\<lambda>xs. xs ! i"] that l by simp
  have w: "length (rows ! i) = length labels" if "i < length rows" for i
    using map_eq_imp_length_eq [OF m [OF that]] assms(2) that l by (simp add: list_all_length)
  have v: "MyVal_getString ld (rows ! i ! (col - 1)) = Inr (texts ! i ! (col - 1))" if "i < length rows" for i
    using arg_cong [OF m [OF that], of "\<lambda>xs. xs ! (col - 1)"] w [OF that] assms(2-4) that l by (simp add: list_all_length)
  have "\<exists>s'. drain fuel ar_next (ar_getString ld col) [] (new_ArtResultSet labels rows) = (Inr (map ?f rows), s')"
    by (rule constructed_column) (use w v l assms(3-5) in \<open>auto simp: list_all_length in_set_conv_nth\<close>)
  moreover have "map ?f rows = map (\<lambda>ts. ts ! (col - 1)) texts" by (rule nth_equalityI) (use l v in simp_all)
  ultimately show ?thesis by simp
qed

lemma printed_texts: "map (map (MyVal_getString ld)) (map (map typeString) texts) = map (map Inr) texts"
  by (simp add: MyVal_getString_def)

end
