(* ===== verification/Db_Shows.thy ===== *)
theory Db_Shows
  imports Db_Answers Opening Table_Columns
begin

text \<open>
  The description of the database on servers without \<^verbatim>\<open>information_schema\<close>: the locale \<open>showing\<close> says how a
  server answers \<^verbatim>\<open>SHOW\<close> statements. Primary keys are the same by both routes, the foreign key in the text
  of \<^verbatim>\<open>SHOW CREATE TABLE\<close> is listed with all its columns, and a statement that fails gives an empty list.
\<close>

section \<open>A server that answers statements\<close>

text \<open>\<open>shown q\<close> are the rows of the query \<open>q\<close> and \<open>fields q\<close> its columns; a query without rows fails.\<close>

locale showing = stored_result "nl_result link" rows_of cur
  for link :: "('n, 'r, 'p, 'd) nlink" and rows_of :: "'r \<Rightarrow> srow list" and cur :: "'r \<Rightarrow> nat" +
  fixes shown :: "string \<rightharpoonup> srow list" and fields :: "string \<Rightarrow> field_meta list"
  assumes query_shown: "shown q = Some rows \<Longrightarrow> \<exists>n1 r n2. nc_query (nl_conn link) q n = (False, n1)
      \<and> nc_store_result (nl_conn link) n1 = (Some r, n2) \<and> rows_of r = rows \<and> cur r = 0 \<and> nat_fields (nl_result link) r = fields q"
    and query_fails: "shown q = None \<Longrightarrow> \<exists>n1. nc_query (nl_conn link) q n = (True, n1) \<and> nc_errNo (nl_conn link) n1 \<noteq> 0"
    and widths: "shown q = Some rows \<Longrightarrow> list_all (\<lambda>r. length r = length (fields q)) rows"

text \<open>An open connection after a call of its service statement: only the server's state and the statement differ.\<close>

definition after_service :: "'n connection \<Rightarrow> 'n connection \<Rightarrow> bool" where
  "after_service c c' \<longleftrightarrow> usable c' \<and> (\<exists>n t. c' = c\<lparr>c_proxy := Some n, c_service := t\<rparr>)"

lemma after_serviceI [intro]: "usable (c\<lparr>c_proxy := Some n, c_service := t\<rparr>) \<Longrightarrow> after_service c (c\<lparr>c_proxy := Some n, c_service := t\<rparr>)"
  unfolding after_service_def by blast

lemma after_service_keeps:
  assumes "after_service c c'"
  shows "usable c'" "\<exists>n. c_proxy c' = Some n" "c_meta c' = c_meta c"
  using assms by (auto simp: after_service_def)

lemma service_error:
  assumes "usable c" "c_proxy c = Some n" "nc_query api q n = (True, n')" "nc_errNo api n' = e" "e \<noteq> 0"
  shows "\<exists>t. con_service (st_executeQuery api rapi q) c = (Inl (Native_error e), c\<lparr>c_proxy := Some n', c_service := t\<rparr>)
    \<and> usable (c\<lparr>c_proxy := Some n', c_service := t\<rparr>)"
  using assms
  by (intro exI [of _ "(c_service c)\<lparr>st_last_update_count := no_update_count, st_proxy := Some n'\<rparr>"])
    (simp add: con_service_def usable_def st_executeQuery_def st_forget_count_def st_do_query_def st_checkClosed_def st_lock_def
      st_call_def st_ask_def)

context showing
begin

lemma show_rows:
  assumes "ml_link lib = link" "usable c" "c_proxy c = Some n" "shown q = Some rows"
  shows "\<exists>rs c'. md_show lib q c = (Inr rs, c') \<and> after_service c c'
    \<and> agrees (nl_result link) rows_of cur rows (fields q) rs \<and> rs_position rs = 0"
proof -
  from query_shown [OF assms(4), of n] obtain n1 r n2 where r: "nc_query (nl_conn link) q n = (False, n1)"
    "nc_store_result (nl_conn link) n1 = (Some r, n2)" "rows_of r = rows" "cur r = 0" "nat_fields (nl_result link) r = fields q" by blast
  let ?rs = "new_ResultSet (nl_result link) r TYPE_SCROLL_INSENSITIVE"
  have a: "agrees (nl_result link) rows_of cur rows (fields q) ?rs" "rs_position ?rs = 0"
    using new_agrees [of TYPE_SCROLL_INSENSITIVE r] r(3-5) by (simp_all add: new_ResultSet_def)
  from service_query [OF assms(2,3) r(1,2), of "nl_result link"] obtain t where
    "md_show lib q c = (Inr ?rs, c\<lparr>c_proxy := Some n2, c_service := t\<rparr>)" "usable (c\<lparr>c_proxy := Some n2, c_service := t\<rparr>)"
    using assms(1) by (auto simp: md_show_def)
  with a show ?thesis by blast
qed

lemma show_fails:
  assumes "ml_link lib = link" "usable c" "c_proxy c = Some n" "shown q = None"
  shows "\<exists>c'. try_sql (md_show lib q) c = (Inr None, c') \<and> after_service c c'"
proof -
  from query_fails [OF assms(4), of n] obtain n1 where "nc_query (nl_conn link) q n = (True, n1)" "nc_errNo (nl_conn link) n1 \<noteq> 0" by blast
  from service_error [OF assms(2,3) this(1) refl this(2), of "nl_result link"] assms(1) show ?thesis
    by (auto simp: try_sql_def md_show_def)
qed

text \<open>A loop over the rows of a result whose body only reads.\<close>

lemma rows_shown:
  assumes "ml_link lib = link" "usable c" "c_proxy c = Some n" "shown q = Some rows" "length rows < fuel"
    and rd: "\<And>s k. on rows (fields q) k s \<Longrightarrow> length (rows ! (k - 1)) = length (fields q) \<Longrightarrow>
      \<exists>s'. rd s = (Inr (g (rows ! (k - 1))), s') \<and> on rows (fields q) k s'"
  shows "\<exists>c'. sbind (try_sql (md_show lib q)) (md_rows fuel lib (on_rows rd)) c = (Inr (concat (map g rows)), c') \<and> after_service c c'"
proof -
  from show_rows [OF assms(1-4)] obtain rs c' where rs: "md_show lib q c = (Inr rs, c')" "after_service c c'"
    "agrees (nl_result link) rows_of cur rows (fields q) rs" "rs_position rs = 0" by blast
  have w: "length (rows ! k) = length (fields q)" if "k < length rows" for k
    using widths [OF assms(4)] that by (simp add: list_all_length)
  have "\<exists>s'. drain fuel (rs_next (nl_result link)) rd [] rs = (Inr (map (\<lambda>k. g (rows ! k)) [0..<length rows]), s')"
    by (rule rows.drain_all [where fs = "fields q"]) (use rd w rs(3,4) assms(5) in \<open>auto simp: on_def\<close>)
  moreover have "map (\<lambda>k. g (rows ! k)) [0..<length rows] = map g rows" by (rule nth_equalityI) simp_all
  ultimately have "fst (drain fuel (rs_next (nl_result link)) rd [] rs) = Inr (map g rows)" by auto
  then show ?thesis using rs(1,2) assms(1) by (simp add: try_sql_def md_rows_def each_row_reads)
qed

text \<open>The rows of \<^verbatim>\<open>SHOW KEYS\<close>.\<close>

lemma text_of:
  assumes "on rows fs k s" "length (rows ! (k - 1)) = length fs" "distinct (map (\<lambda>f. utf8_strup (fm_name f)) fs)" "labelled fs l j"
  shows "\<exists>s'. rs_getString_label (nl_result link) l s = (Inr (cell_string (rows ! (k - 1)) j), s') \<and> on rows fs k s'"
  using getString_label_on [OF assms(1,3) _ _ assms(2), of j l] assms(4) by (auto simp: labelled_def cell_string_def)

end

definition keys_shown :: "field_meta list \<Rightarrow> nat \<Rightarrow> nat \<Rightarrow> nat \<Rightarrow> bool" where
  "keys_shown fs name col seq \<longleftrightarrow> distinct (map (\<lambda>f. utf8_strup (fm_name f)) fs) \<and> 0 < length fs \<and> \<not> fm_bit (fs ! 0)
     \<and> labelled fs ''Key_name'' name \<and> labelled fs ''Column_name'' col \<and> labelled fs ''Seq_in_index'' seq"

definition primary_texts :: "string \<Rightarrow> nat \<Rightarrow> nat \<Rightarrow> nat \<Rightarrow> srow \<Rightarrow> string list" where
  "primary_texts schema name col seq r = [''def'', schema, cell_string r 0, cell_string r col, cell_string r seq, cell_string r name]"

definition is_primary :: "nat \<Rightarrow> srow \<Rightarrow> bool" where
  "is_primary name r \<longleftrightarrow> cell_string r name = ''PRIMARY'' \<or> cell_string r name = ''PRI''"

context showing
begin

lemma key_entry:
  assumes "keys_shown fs name col seq" "on rows fs k s" "length (rows ! (k - 1)) = length fs"
  shows "\<exists>s'. key_row (nl_result link) schema (cell_string (rows ! (k - 1)) name) s =
    (Inr (map typeString (primary_texts schema name col seq (rows ! (k - 1))) :: 'e myval list), s') \<and> on rows fs k s'"
proof -
  let ?r = "rows ! (k - 1)"
  have d: "distinct (map (\<lambda>f. utf8_strup (fm_name f)) fs)" "labelled fs ''Column_name'' col" "labelled fs ''Seq_in_index'' seq"
    using assms(1) by (simp_all add: keys_shown_def)
  obtain s1 where s1: "rs_getString (nl_result link) 1 s = (Inr (cell_string ?r 0), s1)" "on rows fs k s1"
    using getString_on [OF assms(2), of 1] assms by (simp add: keys_shown_def cell_string_def Suc_le_eq)
  obtain s2 where s2: "rs_getString_label (nl_result link) ''Column_name'' s1 = (Inr (cell_string ?r col), s2)" "on rows fs k s2"
    using text_of [OF s1(2) assms(3) d(1,2)] by blast
  obtain s3 where s3: "rs_getString_label (nl_result link) ''Seq_in_index'' s2 = (Inr (cell_string ?r seq), s3)" "on rows fs k s3"
    using text_of [OF s2(2) assms(3) d(1,3)] by blast
  show ?thesis using s1(1) s2(1) s3 by (simp add: key_row_def primary_texts_def MyVal_chars_def chars_def)
qed

lemma primary_keys_shown:
  assumes "ml_link lib = link" "usable c" "c_proxy c = Some n" "shown (show_keys schema table) = Some rows" "length rows < fuel"
    and "keys_shown (fields (show_keys schema table)) name col seq"
  shows "\<exists>c'. sbind (try_sql (md_show lib (show_keys schema table)))
      (md_rows fuel lib (on_rows (primary_row (nl_result (ml_link lib)) schema))) c =
    (Inr (map (map typeString) (map (primary_texts schema name col seq) (filter (is_primary name) rows)) :: 'e myval list list), c') \<and> after_service c c'"
proof -
  let ?fs = "fields (show_keys schema table)"
  let ?g = "\<lambda>r. if is_primary name r then [map typeString (primary_texts schema name col seq r) :: 'e myval list] else []"
  have rd: "\<exists>s'. primary_row (nl_result (ml_link lib)) schema s = (Inr (?g (rows ! (k - 1))), s') \<and> on rows ?fs k s'"
    if a: "on rows ?fs k s" "length (rows ! (k - 1)) = length ?fs" for s k
  proof -
    let ?r = "rows ! (k - 1)"
    obtain s1 where s1: "rs_getString_label (nl_result link) ''Key_name'' s = (Inr (cell_string ?r name), s1)" "on rows ?fs k s1"
      using text_of [OF a, of "''Key_name''" name] assms(6) by (auto simp: keys_shown_def)
    obtain s2 where "key_row (nl_result link) schema (cell_string ?r name) s1 = (Inr (map typeString (primary_texts schema name col seq ?r) :: 'e myval list), s2)"
      "on rows ?fs k s2" using key_entry [OF assms(6) s1(2) a(2)] by blast
    with s1 assms(1) show ?thesis by (auto simp: primary_row_def is_primary_def)
  qed
  have "concat (map ?g rows) = map (map typeString) (map (primary_texts schema name col seq) (filter (is_primary name) rows))" by (induction rows) auto
  with rows_shown [OF assms(1-5), of "primary_row (nl_result (ml_link lib)) schema" ?g, OF rd] show ?thesis by simp
qed

end

section \<open>The lists\<close>

text \<open>A connection that is open and asks no \<^verbatim>\<open>information_schema\<close>.\<close>

definition old_style :: "'n connection \<Rightarrow> conn_meta \<Rightarrow> bool" where
  "old_style c m \<longleftrightarrow> usable c \<and> (\<exists>n. c_proxy c = Some n) \<and> c_meta c = Some m \<and> \<not> c_use_info_schema c"

lemma old_style_refresh:
  assumes "old_style c m"
  shows "\<exists>n. md_refresh c = (Inr (m\<lparr>cm_use_info_schema := False\<rparr>), c\<lparr>c_meta := Some (m\<lparr>cm_use_info_schema := False\<rparr>)\<rparr>)
    \<and> usable (c\<lparr>c_meta := Some (m\<lparr>cm_use_info_schema := False\<rparr>)\<rparr>)
    \<and> c_proxy (c\<lparr>c_meta := Some (m\<lparr>cm_use_info_schema := False\<rparr>)\<rparr>) = Some n"
  using assms refresh_switch [of c m] by (auto simp: old_style_def usable_def)

context showing
begin

lemma primary_keys_by_show:
  assumes "ml_link lib = link" "old_style c m" "shown (show_keys schema table) = Some rows" "length rows < fuel"
    and "keys_shown (fields (show_keys schema table)) name col seq"
  shows "\<exists>c'. md_getPrimaryKeys fuel lib schema table c =
    (Inr (new_ArtResultSet key_labels (map (map typeString) (map (primary_texts schema name col seq) (filter (is_primary name) rows)) :: 'e myval list list)), c')"
proof -
  let ?m = "m\<lparr>cm_use_info_schema := False\<rparr>"
  obtain n where n: "md_refresh c = (Inr ?m, c\<lparr>c_meta := Some ?m\<rparr>)" "usable (c\<lparr>c_meta := Some ?m\<rparr>)" "c_proxy (c\<lparr>c_meta := Some ?m\<rparr>) = Some n"
    using old_style_refresh [OF assms(2)] by blast
  obtain c' where "sbind (try_sql (md_show lib (show_keys schema table)))
      (md_rows fuel lib (on_rows (primary_row (nl_result (ml_link lib)) schema))) (c\<lparr>c_meta := Some ?m\<rparr>) =
    (Inr (map (map typeString) (map (primary_texts schema name col seq) (filter (is_primary name) rows)) :: 'e myval list list), c')"
    using primary_keys_shown [OF assms(1) n(2,3) assms(3-5)] by blast
  then show ?thesis using n(1) by (simp add: md_getPrimaryKeys_def art_result_def)
qed

text \<open>Lists of statements that fail are empty.\<close>

lemma failing_show:
  assumes "ml_link lib = link" "old_style c m"
  shows "shown (show_keys schema table) = None \<Longrightarrow>
      \<exists>c'. md_getPrimaryKeys fuel lib schema table c = (Inr (new_ArtResultSet key_labels []), c')"
    and "shown (show_create_table schema table) = None \<Longrightarrow>
      \<exists>c'. md_getImportedKeys fuel lib ld schema table c = (Inr (new_ArtResultSet foreign_labels []), c')"
    and "shown (''SHOW INDEX FROM `'' @ schema @ ''`.`'' @ table @ ''`'') = None \<Longrightarrow>
      \<exists>c'. md_getIndexInfo fuel lib ld schema table unique c = (Inr (new_ArtResultSet index_labels []), c')"
proof -
  let ?c = "c\<lparr>c_meta := Some (m\<lparr>cm_use_info_schema := False\<rparr>)\<rparr>"
  obtain n where n: "md_refresh c = (Inr (m\<lparr>cm_use_info_schema := False\<rparr>), ?c)" "usable ?c" "c_proxy ?c = Some n"
    using old_style_refresh [OF assms(2)] by blast
  have f: "\<exists>c'. try_sql (md_show lib q) ?c = (Inr None, c')" if "shown q = None" for q
    using show_fails [OF assms(1) n(2,3) that] by blast
  show "\<exists>c'. md_getPrimaryKeys fuel lib schema table c = (Inr (new_ArtResultSet key_labels []), c')"
    if "shown (show_keys schema table) = None"
    using f [OF that] n(1) by (auto simp: md_getPrimaryKeys_def art_result_def md_rows_def)
  show "\<exists>c'. md_getImportedKeys fuel lib ld schema table c = (Inr (new_ArtResultSet foreign_labels []), c')"
    if "shown (show_create_table schema table) = None"
    using f [OF that] n(1) by (auto simp: md_getImportedKeys_def art_result_def created_by_def)
  show "\<exists>c'. md_getIndexInfo fuel lib ld schema table unique c = (Inr (new_ArtResultSet index_labels []), c')"
    if "shown (''SHOW INDEX FROM `'' @ schema @ ''`.`'' @ table @ ''`'') = None"
    using f [OF that] n(1) by (auto simp: md_getIndexInfo_def art_result_def md_rows_def sort_rows_def list_sort_def)
qed

end

section \<open>The foreign key of a created table\<close>

text \<open>Rows in order stay in order.\<close>

lemma list_sort_sorted: "sorted_wrt (\<lambda>x y. \<not> lt y x) xs \<Longrightarrow> list_sort lt xs = xs"
proof (induction xs)
  case (Cons x xs)
  then have "list_sort lt xs = xs" by simp
  with Cons.prems show ?case by (cases xs) (simp_all add: list_sort_def)
qed (simp add: list_sort_def)

lemma sort_rows_sorted:
  assumes "rmap of_row rows = Inr ks" "sorted_wrt (\<lambda>x y. \<not> lt y x) ks" "length ks = length rows"
  shows "sort_rows of_row lt rows = Inr rows"
proof -
  have "sorted_wrt (\<lambda>x y. \<not> lt (fst y) (fst x)) (zip ks rows)"
    using assms(2,3) by (simp add: sorted_wrt_iff_nth_less)
  from list_sort_sorted [of "\<lambda>x y. lt (fst x) (fst y)", OF this] assms(1,3) show ?thesis by (simp add: sort_rows_def)
qed

text \<open>One digit is compared as a number is; with two, as a text.\<close>

lemma digit_order:
  assumes "i < j" "j < 10"
  shows "\<not> case_less (udec j) (udec i)"
proof -
  have "udec j = [char_of (48 + j)]" "udec i = [char_of (48 + i)]" using assms by (subst udec.simps; simp)+
  with assms show ?thesis by (simp add: case_less_def ascii_lower_def)
qed

lemma ten_before_two: "case_less (udec 10) (udec 2)"
  by (subst udec.simps, subst udec.simps, subst udec.simps) (simp add: case_less_def ascii_lower_def)

lemma rmap_of_Inr: "map f xs = map Inr ys \<Longrightarrow> rmap f xs = Inr ys"
  by (induction xs arbitrary: ys) auto

lemma bytes_less_irrefl [simp]: "\<not> bytes_less s s"
  by (induction s) simp_all

text \<open>The texts that the list of a foreign key holds.\<close>

definition key_pair_texts :: "string \<Rightarrow> string \<Rightarrow> string \<Rightarrow> string \<Rightarrow> rule option \<Rightarrow> rule option \<Rightarrow> nat \<times> string \<times> string \<Rightarrow> string list" where
  "key_pair_texts schema table n t del upd = (\<lambda>(i, r, f).
     [''def'', schema, t, r, [], schema, table, f, udec i, udec (code_of upd), udec (code_of del), n, ''PRIMARY'', udec importedKeyNotDeferrable])"

definition key_texts ::
    "string \<Rightarrow> string \<Rightarrow> string \<Rightarrow> string list \<Rightarrow> string \<Rightarrow> string list \<Rightarrow> rule option \<Rightarrow> rule option \<Rightarrow> string list list" where
  "key_texts schema table n fs t rs del upd =
     map (key_pair_texts schema table n t del upd) (zip [1..<Suc (length (zip rs fs))] (zip rs fs))"

lemma text_of_digit:
  assumes "k < 10"
  shows "MyVal_getString ld (int64_val (int k)) = Inr (udec k)"
proof -
  have "sint (word_of_int (int k) :: 64 word) = int k" unfolding sint_sbintrunc' using assms by (simp add: signed_take_bit_int_eq_self)
  then show ?thesis using getString_int_short(1) [of "word_of_int (int k)" ld] assms by (simp add: int64_val_def idec_def)
qed

lemma code_of_digit: "code_of x < 10"
  by (cases x; cases "the x") (simp_all add: code_of_def importedKeyNoAction_def importedKeyRestrict_def importedKeyCascade_def importedKeySetNull_def)

lemma foreign_row_texts:
  assumes "i < 10"
  shows "map (MyVal_getString ld) (foreign_row schema table (read_key n fs t rs del upd) (i, r, f)) = map Inr (key_pair_texts schema table n t del upd (i, r, f))"
  using text_of_digit [OF assms, of ld] text_of_digit [OF code_of_digit, of ld upd] text_of_digit [OF code_of_digit, of ld del]
    text_of_digit [of importedKeyNotDeferrable ld]
  by (simp add: foreign_row_def read_key_def map_or_def key_pair_texts_def MyVal_chars_def chars_def MyVal_getString_def [of _ "typeString x" for x]
      importedKeyNotDeferrable_def)

lemma foreign_rows_texts:
  assumes "length fs < 10"
  shows "map (map (MyVal_getString ld)) (foreign_rows schema table (read_key n fs t rs del upd)) = map (map Inr) (key_texts schema table n fs t rs del upd)"
proof -
  have z: "foreign_rows schema table (read_key n fs t rs del upd) =
      map (foreign_row schema table (read_key n fs t rs del upd)) (zip [1..<Suc (length (zip rs fs))] (zip rs fs))"
    by (simp add: foreign_rows_def read_key_def map_or_def Let_def del: upt_Suc)
  have "fst x < 10" if "x \<in> set (zip [1..<Suc (length (zip rs fs))] (zip rs fs))" for x
  proof -
    have "fst x \<in> set [1..<Suc (length (zip rs fs))]" by (rule set_zip_leftD [of "fst x" "snd x"]) (use that in \<open>simp only: prod.collapse\<close>)
    then show ?thesis using assms by auto
  qed
  then show ?thesis unfolding z key_texts_def by (auto simp del: upt_Suc intro!: foreign_row_texts)
qed

lemma imported_key_texts:
  assumes "map (MyVal_getString ld) row = map Inr ts" "8 < length ts"
  shows "imported_key ld row = Inr (ts ! 1, ts ! 2, ts ! 8)"
proof -
  have "length row = length ts" using assms(1) map_eq_imp_length_eq by blast
  moreover have "MyVal_getString ld (row ! i) = Inr (ts ! i)" if "i < length ts" for i
    using arg_cong [OF assms(1), of "\<lambda>xs. xs ! i"] that calculation by simp
  ultimately show ?thesis using assms(2) by (simp add: imported_key_def)
qed

lemma keys_in_order:
  assumes "length fs < 10"
  shows "sorted_wrt (\<lambda>x y. \<not> compareImportedKeys y x) (map (\<lambda>ts. (ts ! 1, ts ! 2, ts ! 8)) (key_texts schema table n fs t rs del upd))"
proof -
  have "key_texts schema table n fs t rs del upd ! i ! 1 = schema \<and> key_texts schema table n fs t rs del upd ! i ! 2 = t
      \<and> key_texts schema table n fs t rs del upd ! i ! 8 = udec (Suc i)" if "i < length (key_texts schema table n fs t rs del upd)" for i
    using that by (simp add: key_texts_def key_pair_texts_def case_prod_beta nth_zip del: upt_Suc)
  then show ?thesis using assms
    by (auto simp: sorted_wrt_iff_nth_less compareImportedKeys_def digit_order key_texts_def simp del: upt_Suc)
qed

lemma foreign_rows_sorted:
  fixes ld :: "'e long_double"
  assumes "length fs < 10"
  shows "sort_rows (imported_key ld) compareImportedKeys (foreign_rows schema table (read_key n fs t rs del upd)) =
    Inr (foreign_rows schema table (read_key n fs t rs del upd))"
proof -
  let ?rows = "foreign_rows schema table (read_key n fs t rs del upd) :: 'e myval list list" and ?ts = "key_texts schema table n fs t rs del upd"
  note m = foreign_rows_texts [OF assms, of ld schema table n t rs del upd]
  have l: "length ?rows = length ?ts" using m map_eq_imp_length_eq by blast
  have t: "map (MyVal_getString ld) (?rows ! i) = map Inr (?ts ! i)" "8 < length (?ts ! i)" if "i < length ?ts" for i
  proof -
    show "map (MyVal_getString ld) (?rows ! i) = map Inr (?ts ! i)" using arg_cong [OF m, of "\<lambda>xs. xs ! i"] that l by simp
    show "8 < length (?ts ! i)" using that by (simp add: key_texts_def key_pair_texts_def case_prod_beta del: upt_Suc)
  qed
  have "map (imported_key ld) ?rows = map Inr (map (\<lambda>ts. (ts ! 1, ts ! 2, ts ! 8)) ?ts)"
    by (rule nth_equalityI) (use l imported_key_texts [OF t] in simp_all)
  then have "rmap (imported_key ld) ?rows = Inr (map (\<lambda>ts. (ts ! 1, ts ! 2, ts ! 8)) ?ts)" by (rule rmap_of_Inr)
  from sort_rows_sorted [OF this keys_in_order [OF assms]] l show ?thesis by simp
qed

text \<open>The variable that says how names are quoted.\<close>

definition sql_mode_query :: string where
  "sql_mode_query = ''SHOW SESSION VARIABLES LIKE '' @ [squote] @ ''SQL_MODE'' @ [squote]"

definition second_text :: "field_meta list \<Rightarrow> bool" where
  "second_text fs \<longleftrightarrow> 2 \<le> length fs \<and> \<not> fm_bit (fs ! 1)"

context showing
begin

lemma second_column:
  assumes "agrees (nl_result link) rows_of cur (r # rs) (fields q) s" "rs_position s = 0" "shown q = Some (r # rs)" "second_text (fields q)"
  shows "\<exists>s' s''. rs_next (nl_result link) s = (Inr True, s') \<and> rs_getString (nl_result link) 2 s' = (Inr (cell_string r 1), s'')"
proof -
  obtain s' where s': "rs_next (nl_result link) s = (Inr True, s')" "agrees (nl_result link) rows_of cur (r # rs) (fields q) s'" "rs_position s' = 1"
    using fetch_next [OF assms(1)] assms(2) by auto
  have "length r = length (fields q)" using widths [OF assms(3)] by simp
  then show ?thesis using getString_on [of "r # rs" "fields q" 1 s' 2] s' assms(4) by (simp add: on_def second_text_def cell_string_def)
qed

lemma backtick_quoted:
  fixes lib :: "('n, 'r, 'p, 'd, 'f) md_lib"
  assumes "ml_link lib = link" "usable c" "c_proxy c = Some n" "c_meta c = Some m" "32306 \<le> cm_server_version m"
    and "shown sql_mode_query = Some (r # rs)" "second_text (fields sql_mode_query)" "std_find ''ANSI_QUOTES'' (cell_string r 1) = None"
  shows "\<exists>c'. md_getIdentifierQuoteString (ml_link lib) c = (Inr ''`'', c')"
proof -
  from show_rows [OF assms(1-3,6)] obtain s c' where s: "md_show lib sql_mode_query c = (Inr s, c')" "after_service c c'"
    "agrees (nl_result link) rows_of cur (r # rs) (fields sql_mode_query) s" "rs_position s = 0" by blast
  from second_column [OF s(3,4) assms(6,7)] obtain s1 s2 where
    s1: "rs_next (nl_result link) s = (Inr True, s1)" "rs_getString (nl_result link) 2 s1 = (Inr (cell_string r 1), s2)" by blast
  have u: "c_valid c" "\<not> c_cache_sql_mode c" using assms(2) by (simp_all add: usable_def)
  have "con_getSessionVariable link ''SQL_MODE'' c = (Inr (cell_string r 1), c')"
    using s(1) s1 u assms(1)
    by (simp add: con_getSessionVariable_def con_checkClosed_def md_show_def sql_mode_query_def)
  then show ?thesis using assms by (simp add: md_getIdentifierQuoteString_def md_this_def)
qed

lemma created_by_shown:
  assumes "agrees (nl_result link) rows_of cur (r # rs) (fields q) s" "rs_position s = 0" "shown q = Some (r # rs)" "second_text (fields q)"
  shows "created_by (nl_result link) (Some s) = Inr (Some (cell_string r 1))"
  using second_column [OF assms] by (auto simp: created_by_def)

text \<open>A table whose \<^verbatim>\<open>CREATE\<close> statement holds one foreign key: the key's columns are listed in order.\<close>

lemma imported_keys_shown:
  fixes lib :: "('n, 'r, 'p, 'd, 'f) md_lib" and ld :: "'e long_double"
  assumes lib: "ml_link lib = link" "old_style c m" "32306 \<le> cm_server_version m"
    and create: "shown (show_create_table schema table) = Some (r # rows)" "second_text (fields (show_create_table schema table))"
      "parseImportedKeys ''`'' (cell_string r 1) = Inr (Some (read_key n fs t rs del upd))" "length fs < 10"
    and mode: "shown sql_mode_query = Some (v # vs)" "second_text (fields sql_mode_query)" "std_find ''ANSI_QUOTES'' (cell_string v 1) = None"
  shows "\<exists>c'. md_getImportedKeys fuel lib ld schema table c =
    (Inr (new_ArtResultSet foreign_labels (foreign_rows schema table (read_key n fs t rs del upd))), c')"
proof -
  let ?m = "m\<lparr>cm_use_info_schema := False\<rparr>" and ?q = "show_create_table schema table"
  let ?c = "c\<lparr>c_meta := Some ?m\<rparr>" and ?rows = "foreign_rows schema table (read_key n fs t rs del upd) :: 'e myval list list"
  obtain k where k: "md_refresh c = (Inr ?m, ?c)" "usable ?c" "c_proxy ?c = Some k" using old_style_refresh [OF lib(2)] by blast
  obtain s c1 where s: "md_show lib ?q ?c = (Inr s, c1)" "after_service ?c c1"
    "agrees (nl_result link) rows_of cur (r # rows) (fields ?q) s" "rs_position s = 0"
    using show_rows [OF lib(1) k(2,3) create(1)] by blast
  obtain k' where c1: "usable c1" "c_proxy c1 = Some k'" "c_meta c1 = Some ?m" using after_service_keeps [OF s(2)] by auto
  obtain c2 where c2: "md_getIdentifierQuoteString (ml_link lib) c1 = (Inr ''`'', c2)"
    using backtick_quoted [OF lib(1) c1 _ mode] lib(3) by auto
  have "find_pos (cell_string r 1) ''CONSTRAINT'' 0 \<noteq> npos" using create(3) by (auto simp: parseImportedKeys_def)
  then have "imported_from_text lib schema table (cell_string r 1) c1 = (Inr ?rows, c2)"
    using c2 create(3) by (simp add: imported_from_text_def)
  then show ?thesis
    using k(1) s(1) lib(1) created_by_shown [OF s(3,4) create(1,2)] foreign_rows_sorted [OF create(4), of ld schema table n t rs del upd]
    by (simp add: md_getImportedKeys_def art_result_def try_sql_def)
qed

end

section \<open>A server with one table\<close>

text \<open>
  The table \<^verbatim>\<open>sales\<close> of the schema \<^verbatim>\<open>s\<close>, with a primary key of two columns, an index, and a foreign key, as \<^verbatim>\<open>SHOW\<close>
  statements and \<^verbatim>\<open>information_schema\<close> present it. Other statements fail.
\<close>

record 'd desk =
  dk_log :: "'d call list list"
  dk_pending :: "client option"

definition text_field :: "string \<Rightarrow> field_meta" where
  "text_field l = \<lparr>fm_name = l, fm_bit = False, fm_flags = 0, fm_length = 255\<rparr>"

definition sales_create :: string where
  "sales_create = ''CREATE TABLE `sales` (`cust` int, `prod` int, `state` int, '' @
     key_text ''fk1'' [''cust'', ''prod''] ''customers'' [''id'', ''p''] (Some rule.Cascade) None @ '')''"

definition sales_shown :: "string \<rightharpoonup> srow list" where
  "sales_shown q =
     (if q = show_keys ''s'' ''sales'' then Some
        [map Some [''sales'', ''PRIMARY'', ''1'', ''cust''], map Some [''sales'', ''PRIMARY'', ''2'', ''prod''], map Some [''sales'', ''by_state'', ''1'', ''state'']]
      else if q = show_create_table ''s'' ''sales'' then Some [map Some [''sales'', sales_create]]
      else if q = sql_mode_query then Some [map Some [''sql_mode'', ''STRICT_TRANS_TABLES'']]
      else None)"

definition sales_fields :: "string \<Rightarrow> field_meta list" where
  "sales_fields q =
     map text_field
       (if q = show_keys ''s'' ''sales'' then [''Table'', ''Key_name'', ''Seq_in_index'', ''Column_name''] else [''Table'', ''Create Table''])"

definition text_of_cell :: "string \<Rightarrow> rcell" where
  "text_of_cell v = \<lparr>rc_null = False, rc_length = length v, rc_buffer = Buf_bytes v\<rparr>"

definition number_field :: mysql_field where
  "number_field = echo_field\<lparr>fld_type := MYSQL_TYPE_LONG\<rparr>"

definition number_cell :: "int \<Rightarrow> rcell" where
  "number_cell i = \<lparr>rc_null = False, rc_length = 4, rc_buffer = Buf_bytes (le_bytes 4 i)\<rparr>"

definition sales_keys :: "rcell list list" where
  "sales_keys = map (\<lambda>(col, i). map text_of_cell [''def'', ''s'', ''sales'', col] @ [number_cell i, text_of_cell ''PRIMARY'']) [(''cust'', 1), (''prod'', 2)]"

definition statistics_columns :: "mysql_field list" where
  "statistics_columns = [echo_field, echo_field, echo_field, echo_field, number_field, echo_field]"

definition desk_conn :: "('d desk, client) nconn" where
  "desk_conn =
     \<lparr>nc_query = (\<lambda>q d. case sales_shown q of
          None \<Rightarrow> (True, d)
        | Some rows \<Rightarrow> (False, d\<lparr>dk_pending := Some \<lparr>cl_rows = rows, cl_cur = 0, cl_fields = sales_fields q, cl_proxy = Some 0\<rparr>\<rparr>)),
      nc_errNo = (\<lambda>d. 1146), nc_warning_count = (\<lambda>d. 0),
      nc_field_count = (\<lambda>d. case dk_pending d of None \<Rightarrow> 0 | Some r \<Rightarrow> length (cl_fields r)), nc_affected_rows = (\<lambda>d. 0),
      nc_use_result = (\<lambda>d. (dk_pending d, d)), nc_store_result = (\<lambda>d. (dk_pending d, d)),
      nc_more_results = (\<lambda>d. False), nc_next_result = (\<lambda>d. (- 1, d))\<rparr>"

definition desk_link :: "('d desk, client, 'd estmt, 'd) nlink" where
  "desk_link =
     \<lparr>nl_conn = desk_conn, nl_result = client_api,
      nl_stmt = echo_stmt\<lparr>ns_store_result := (\<lambda>p. (False, on_mem (\<lambda>m. \<lparr>ms_rows = sales_keys, ms_cur = 0, ms_fields = statistics_columns\<rparr>) p))\<rparr>,
      nl_autocommit = (\<lambda>b d. (False, d)), nl_commit = (\<lambda>d. (True, d)), nl_rollback = (\<lambda>d. (False, d)),
      nl_server_version = (\<lambda>d. 80011), nl_info = (\<lambda>d. []), nl_escapeString = (\<lambda>s d. s),
      nl_ping = (\<lambda>d. (False, d)), nl_set_reconnect = (\<lambda>b d. d),
      nl_stmt_init = (\<lambda>d. (Some \<lparr>es_calls = [], es_params = 0, es_mem = \<lparr>ms_rows = [], ms_cur = 0, ms_fields = []\<rparr>\<rparr>, d)),
      nl_prepare = (\<lambda>sql p. (False, p\<lparr>es_params := placeholders False sql\<rparr>)),
      nl_stmt_close = (\<lambda>p d. d\<lparr>dk_log := dk_log d @ [es_calls p]\<rparr>)\<rparr>"

interpretation desk: showing desk_link cl_rows cl_cur sales_shown sales_fields
  by unfold_locales (auto simp: desk_link_def desk_conn_def client_api_def sales_shown_def sales_fields_def split: if_splits)

interpretation desk_keys: answering desk_link es_calls dk_log query echo_nres "\<lambda>p. ms_rows (es_mem p)" "\<lambda>p. ms_cur (es_mem p)"
    "\<lambda>_. sales_keys" "\<lambda>_. statistics_columns"
  by unfold_locales
    (auto simp: desk_link_def echo_stmt_def echo_call_def echo_nres_def mem_api_def on_mem_def fetched_def echo_field_def number_field_def
      sales_keys_def statistics_columns_def allocate_buffer_for_field_def)

text \<open>Connections to the server, and its keys as texts.\<close>

definition desk_con :: "bool \<Rightarrow> nat desk connection" where
  "desk_con info = (new_ConnectionData \<lparr>dk_log = [], dk_pending = None\<rparr>)\<lparr>c_valid := True, c_use_info_schema := info,
     c_meta := Some \<lparr>cm_server_version = 80011, cm_lower_case = ''0'', cm_use_info_schema = info\<rparr>\<rparr>"

definition desk_lib :: "'f pdouble \<Rightarrow> (nat desk, client, nat estmt, nat, 'f) md_lib" where
  "desk_lib pd = \<lparr>ml_link = desk_link, ml_nres = echo_nres, ml_double = pd, ml_fields = (\<lambda>r. [])\<rparr>"

lemma desk_lib_simps [simp]: "ml_link (desk_lib pd) = desk_link" "ml_nres (desk_lib pd) = echo_nres" "ml_double (desk_lib pd) = pd"
  by (simp_all add: desk_lib_def)

lemma desk_con_kinds:
  "describing (desk_con True) \<lparr>cm_server_version = 80011, cm_lower_case = ''0'', cm_use_info_schema = True\<rparr>" "c_use_info_schema (desk_con True)"
  "old_style (desk_con False) \<lparr>cm_server_version = 80011, cm_lower_case = ''0'', cm_use_info_schema = False\<rparr>"
  by (simp_all add: describing_def old_style_def usable_def desk_con_def new_ConnectionData_def createServiceStmt_def new_Statement_def)

lemma desk_keys_texts:
  "map (row_texts pd statistics_columns) sales_keys =
    map Inr [[''def'', ''s'', ''sales'', ''cust'', ''1'', ''PRIMARY''], [''def'', ''s'', ''sales'', ''prod'', ''2'', ''PRIMARY'']]"
proof -
  have t: "mysql_type_to_datatype echo_field = Inr DT_VARCHAR" "mysql_type_to_datatype number_field = Inr DT_INTEGER"
    by (simp_all add: echo_field_def number_field_def mysql_type_to_datatype_def string_type_def binary_text_def has_flag_def MAGIC_BINARY_CHARSET_NR_def)
  obtain x where x: "fresh_bind echo_field = Inr x" by (simp add: fresh_bind_def echo_field_def allocate_buffer_for_field_def)
  obtain y where y: "fresh_bind number_field = Inr y" "rb_size y = 4" "\<not> rb_unsigned y"
    by (simp add: fresh_bind_def echo_field_def number_field_def allocate_buffer_for_field_def has_flag_def)
  have b: "buffers statistics_columns = [x, x, x, x, y, x]" using x y by (simp add: buffers_def statistics_columns_def)
  have v: "bind_string pd DT_VARCHAR (x\<lparr>rb_cell := text_of_cell v\<rparr>) = Inr v" for v
    using bind_string_text [of DT_VARCHAR "x\<lparr>rb_cell := text_of_cell v\<rparr>" v pd] by (simp add: text_of_cell_def is_text_type_def)
  have i: "bind_string pd DT_INTEGER (y\<lparr>rb_cell := number_cell i\<rparr>) = Inr (idec i)" if "0 \<le> i" "i < 128" for i
    using bind_values_int(3) [of "y\<lparr>rb_cell := number_cell i\<rparr>" i DT_INTEGER pd] that y by (simp add: number_cell_def holds_int_def is_int_type_def)
  have u: "[1..<Suc (length statistics_columns)] = [1, 2, 3, 4, 5, 6]" by (simp add: statistics_columns_def upt_rec)
  have d: "idec 1 = ''1''" "idec 2 = ''2''" by (simp_all add: idec_def udec.simps char_of_def bit_0)
  have n: "\<not> rc_null (text_of_cell v)" "\<not> rc_null (number_cell k)" for v k by (simp_all add: text_of_cell_def number_cell_def)
  show ?thesis
    unfolding row_texts_def u by (simp add: sales_keys_def read_cell_def b fill_def n t v i d, simp add: statistics_columns_def t v i d)
qed

lemma desk_keys_shown: "keys_shown (sales_fields (show_keys ''s'' ''sales'')) 1 3 2"
proof -
  let ?ls = "[''Table'', ''Key_name'', ''Seq_in_index'', ''Column_name'']"
  have a: "list_all (list_all is_ascii) ?ls" "distinct (map (map ascii_up) ?ls)" by code_simp+
  have "map utf8_strup ?ls = map (map ascii_up) ?ls" using a(1) by (simp add: utf8_strup_ascii)
  then have "distinct (map utf8_strup ?ls)" using a(2) by argo
  then show ?thesis by (simp add: keys_shown_def labelled_def sales_fields_def text_field_def)
qed

end
