(* ===== verification/Db_Grants.thy ===== *)
theory Db_Grants
  imports Db_Lists
begin

text \<open>
  Grants are read as the server prints them: the privileges of a list, the schema and the table of a row of
  \<^verbatim>\<open>SHOW GRANTS\<close>, and the definer of a trigger.
\<close>

section \<open>Lists of privileges\<close>

fun comma_list :: "string list \<Rightarrow> string" where
  "comma_list [] = []"
| "comma_list [p] = p"
| "comma_list (p # q # ps) = p @ '', '' @ comma_list (q # ps)"

definition plain_privilege :: "string \<Rightarrow> bool" where
  "plain_privilege p \<longleftrightarrow> CHR '','' \<notin> set p \<and> p \<noteq> [] \<and> hd p \<noteq> CHR '' ''"

lemma skip_spaces:
  assumes "list_all (\<lambda>c. c = CHR '' '') u" "plain_privilege p"
  shows "skip_while (\<lambda>c. c = CHR '' '') (a @ u @ p @ r) (length a) = Inr (length (a @ u))"
proof -
  obtain c p' where "p = c # p'" "c \<noteq> CHR '' ''" using assms(2) by (cases p) (auto simp: plain_privilege_def)
  then show ?thesis using skip_while_stop [OF assms(1), of c a "p' @ r"] by simp
qed

lemma tokens_read:
  assumes "ps \<noteq> []" "list_all plain_privilege ps" "list_all (\<lambda>c. c = CHR '' '') u" "length (a @ u @ comma_list ps) < npos"
  shows "priv_tokens (a @ u @ comma_list ps) (length a) = Inr ps"
  using assms
proof (induction ps arbitrary: a u rule: comma_list.induct)
  case (2 p)
  have "skip_while (\<lambda>c. c = CHR '' '') (a @ u @ p) (length a) = Inr (length (a @ u))"
    using skip_spaces [of u p a "[]"] 2 by simp
  moreover have "find_pos (a @ u @ p) '','' (length (a @ u)) = npos"
    using find_pos_none [of "'',''" p "a @ u"] 2 by (simp add: std_find_char plain_privilege_def)
  ultimately show ?case using 2 by (subst priv_tokens.simps) (simp add: std_substr_def wsub_le)
next
  case (3 p q ps)
  let ?s = "a @ u @ p @ '', '' @ comma_list (q # ps)"
  have s: "skip_while (\<lambda>c. c = CHR '' '') ?s (length a) = Inr (length (a @ u))"
    using skip_spaces [of u p a "'', '' @ comma_list (q # ps)"] 3 by simp
  have f: "find_pos ?s '','' (length (a @ u)) = length (a @ u) + length p"
    using find_pos_at [of "'',''" "p @ CHR '','' # '' '' @ comma_list (q # ps)" "length p" "a @ u"] 3
      std_find_char_split [of "CHR '',''" p] by (simp add: plain_privilege_def)
  have "priv_tokens ((a @ u @ p @ '','') @ '' '' @ comma_list (q # ps)) (length (a @ u @ p @ '','')) = Inr (q # ps)"
    by (rule "3.IH") (use 3 in simp_all)
  then have r: "priv_tokens ?s (length (a @ u) + length p + 1) = Inr (q # ps)" by (simp add: add.assoc)
  have l: "length (a @ u) + length p < npos" using "3.prems"(4) by simp
  then have t: "std_substr ?s (length (a @ u)) (wsub (length (a @ u) + length p) (length (a @ u))) = Inr p"
    by (simp add: std_substr_def wsub_le)
  have "priv_tokens ?s (length a) = Inr (p # q # ps)"
    by (subst priv_tokens.simps, unfold s Let_def rbind_def sum.case f, unfold t r) (use l in simp)
  then show ?case by simp
qed simp

section \<open>Grants\<close>

definition grant_text :: "string list \<Rightarrow> string \<Rightarrow> string \<Rightarrow> string \<Rightarrow> string" where
  "grant_text ps schema table rest = ''GRANT '' @ comma_list ps @ '' ON `'' @ schema @ ''`.`'' @ table @ ''`'' @ rest"

lemma grant_name_read:
  assumes "plain_name n" "length n < npos - 1"
  shows "grant_name ''`'' (''`'' @ n @ ''`'' @ r) = Inr (n, length n + 1)"
proof -
  note c = plain_name_chars [OF assms(1)]
  have f: "find_pos (''`'' @ n @ ''`'' @ r) ''`'' 1 = length n + 1"
    using find_pos_at [of "''`''" "n @ ''`'' @ r" "length n" "''`''"] std_find_char_split [OF c(1), of r] by simp
  have "(''`'' @ n @ ''`'' @ r) ! length n \<noteq> CHR 0x5C"
    using c(2) by (cases n rule: rev_cases) (auto simp: nth_append)
  with f assms(2) show ?thesis by (simp add: grant_name_def std_substr_def wsub_le)
qed

lemma grant_parts_read:
  assumes "expand_all (drop 6 text) = drop 6 (grant_text ps schema table rest)" "\<not> sublist ''ON'' (comma_list ps)"
    and "plain_name schema" "plain_name table" "length (grant_text ps schema table rest) < npos"
  shows "parse_grant ''`'' text = Inr (comma_list ps, schema, table)"
proof -
  let ?p = "comma_list ps" and ?t = "''`'' @ table @ ''`'' @ rest"
  let ?g = "?p @ '' ON `'' @ schema @ ''`.'' @ ?t"
  have g: "expand_all (drop 6 text) = ?g" using assms(1) by (simp add: grant_text_def)
  have "\<not> sublist ''ON'' (?p @ '' '')" using assms(2) by (simp add: sublist_snoc suffix_def)
  then have "std_find ''ON'' ((?p @ '' '') @ ''ON'' @ '' `'' @ schema @ ''`.'' @ ?t) = Some (length (?p @ '' ''))"
    using std_find_put [of "CHR ''O''" "''N''" "?p @ '' ''"] by simp
  then have f: "find_pos ?g ''ON'' 0 = length ?p + 1" by (simp add: find_pos_def)
  have l: "length ?p + 4 \<le> npos" "length schema < npos - 1" "length table < npos - 1" "length schema + 3 \<le> npos"
    using assms(5) by (simp_all add: grant_text_def)
  have w: "wsub (length ?p + 1) 1 = length ?p" "wadd (length ?p + 1) 3 = length ?p + 4" "wadd (length schema + 1) 2 = length schema + 3"
    using l by (simp_all add: wsub_le wadd_small)
  have n: "grant_name ''`'' (''`'' @ schema @ ''`'' @ CHR ''.'' # ?t) = Inr (schema, length schema + 1)" "grant_name ''`'' ?t = Inr (table, length table + 1)"
    using grant_name_read [OF assms(3) l(2), of "CHR ''.'' # ?t"] grant_name_read [OF assms(4) l(3), of rest] by simp_all
  have d: "drop (length schema + 3) (''`'' @ schema @ ''`'' @ CHR ''.'' # ?t) = ?t" by (simp add: eval_nat_numeral)
  have i: "(schema @ ''`'' @ CHR ''.'' # ?t) ! Suc (Suc (length schema)) = CHR ''`''" by (simp add: nth_append)
  show ?thesis
    using n w d i unfolding parse_grant_def Let_def g f by (simp add: std_substr_from_def std_index_def)
qed

lemma grant_read:
  assumes "\<not> sublist ''ON'' (comma_list ps)" "\<not> sublist ''ALL PRIVILEGES'' (drop 6 (grant_text ps schema table rest))"
    and "plain_name schema" "plain_name table" "length (grant_text ps schema table rest) < npos"
  shows "parse_grant ''`'' (grant_text ps schema table rest) = Inr (comma_list ps, schema, table)"
proof (rule grant_parts_read [OF _ assms(1,3-5)])
  show "expand_all (drop 6 (grant_text ps schema table rest)) = drop 6 (grant_text ps schema table rest)"
    using assms(2) [folded std_find_None_iff] by (simp add: expand_all_def)
qed

text \<open>All privileges are read as those on tables.\<close>

definition table_privileges :: "string list" where
  "table_privileges = [''ALTER'', ''DELETE'', ''DROP'', ''INDEX'', ''INSERT'', ''LOCK TABLES'', ''SELECT'', ''UPDATE'']"

lemma table_privileges_list: "comma_list table_privileges = all_privileges"
  by (simp add: table_privileges_def all_privileges_def)

lemma table_privileges_plain: "\<not> sublist ''ON'' (comma_list table_privileges)" "list_all plain_privilege table_privileges"
  by (simp_all add: table_privileges_def plain_privilege_def sublist_Cons_right)

lemma grant_all_read:
  assumes "plain_name schema" "plain_name table" "length (grant_text table_privileges schema table rest) < npos"
  shows "parse_grant ''`'' (grant_text [''ALL PRIVILEGES''] schema table rest) = Inr (comma_list table_privileges, schema, table)"
proof (rule grant_parts_read [OF _ table_privileges_plain(1) assms])
  have "std_find ''ALL PRIVILEGES'' (''ALL PRIVILEGES'' @ x) = Some 0" for x by (cases x) simp_all
  then show "expand_all (drop 6 (grant_text [''ALL PRIVILEGES''] schema table rest)) = drop 6 (grant_text table_privileges schema table rest)"
    unfolding table_privileges_list [symmetric] by (simp add: expand_all_def grant_text_def table_privileges_list)
qed

text \<open>The definer of a trigger.\<close>

lemma quoted_definer_parts: "CHR ''@'' \<notin> set user \<Longrightarrow> quoted_definer (user @ ''@'' @ host) = ''`'' @ user @ ''`@`'' @ host @ ''`''"
  using std_find_char_split [of "CHR ''@''" user host] by (simp add: quoted_definer_def)

end
