(* ===== verification/Driver.thy ===== *)
theory Driver
  imports Art_Result_Set
begin

text \<open>
  The driver's instances (\<^verbatim>\<open>mysqlconnector/jdbc/driver/mysql_driver.cpp\<close>) and the client libraries behind them
  (\<^verbatim>\<open>nativeapi/mysql_client_api.cpp\<close>, \<^verbatim>\<open>library_loader.cpp\<close>, the constructors of \<^verbatim>\<open>libmysql_dynamic_proxy.cpp\<close> and
  \<^verbatim>\<open>libmysql_static_proxy.cpp\<close>). Both are kept by name in maps that live as long as the process. The dynamic
  linker is a parameter. Objects are positions in lists.
\<close>

section \<open>Loading a library\<close>

text \<open>The calls of the dynamic linker, and those of the library that need no connection; \<open>None\<close> is a null pointer.\<close>

datatype capi = Static_api | Dynamic_api nat

record ('w, 'h, 's) linker =
  lk_open :: "string \<Rightarrow> 'w \<Rightarrow> 'h option \<times> 'w"
  lk_close :: "'h \<Rightarrow> 'w \<Rightarrow> 'w"
  lk_sym :: "'h \<Rightarrow> string \<Rightarrow> 'w \<Rightarrow> 's option \<times> 'w"
  lk_error :: "'w \<Rightarrow> string"
  lk_server_init :: "'s \<Rightarrow> 'w \<Rightarrow> 'w"
  lk_library_init :: "'w \<Rightarrow> 'w"
  lk_thread_init :: "capi \<Rightarrow> 'w \<Rightarrow> 'w"
  lk_thread_end :: "capi \<Rightarrow> 'w \<Rightarrow> 'w"

record ('h, 's) library_loader =
  ll_handle :: "'h option"
  ll_functions :: "string \<rightharpoonup> 's"

text \<open>Left results are the messages of \<^verbatim>\<open>std::runtime_error\<close>, the base of all exceptions thrown here.\<close>

definition new_LibraryLoader :: "('w, 'h, 's) linker \<Rightarrow> string \<Rightarrow> 'w \<Rightarrow> (string + ('h, 's) library_loader) \<times> 'w" where
  "new_LibraryLoader lk path2libFile w =
     (case lk_open lk path2libFile w of
        (None, w') \<Rightarrow> (Inl (''Couldn't load library '' @ path2libFile @ '': '' @ lk_error lk w'), w')
      | (Some h, w') \<Rightarrow> (Inr \<lparr>ll_handle = Some h, ll_functions = Map.empty\<rparr>, w'))"

definition delete_LibraryLoader :: "('w, 'h, 's) linker \<Rightarrow> ('h, 's) library_loader \<Rightarrow> 'w \<Rightarrow> 'w" where
  "delete_LibraryLoader lk l w = (case ll_handle l of None \<Rightarrow> w | Some h \<Rightarrow> lk_close lk h w)"

definition GetProcAddr ::
    "('w, 'h, 's) linker \<Rightarrow> string \<Rightarrow> ('h, 's) library_loader \<Rightarrow> 'w \<Rightarrow> (string + 's option) \<times> ('h, 's) library_loader \<times> 'w" where
  "GetProcAddr lk name l w =
     (case ll_handle l of
        None \<Rightarrow> (Inr None, l, w)
      | Some h \<Rightarrow> (case ll_functions l name of
          Some proc \<Rightarrow> (Inr (Some proc), l, w)
        | None \<Rightarrow> (case lk_sym lk h name w of
            (None, w') \<Rightarrow> (Inl (''Couldn't find symbol '' @ name), l, w')
          | (Some proc, w') \<Rightarrow> (Inr (Some proc), l\<lparr>ll_functions := (ll_functions l)(name \<mapsto> proc)\<rparr>, w'))))"

definition init_loader :: "('w, 'h, 's) linker \<Rightarrow> ('h, 's) library_loader \<Rightarrow> 'w \<Rightarrow> (string + unit) \<times> ('h, 's) library_loader \<times> 'w" where
  "init_loader lk l w =
     (case GetProcAddr lk ''mysql_server_init'' l w of
        (Inl e, l', w') \<Rightarrow> (Inl e, l', w')
      | (Inr None, l', w') \<Rightarrow> (Inl ''Loaded library doesn't contain mysql_library_init'', l', w')
      | (Inr (Some initProc), l', w') \<Rightarrow> (Inr (), l', lk_server_init lk initProc w'))"

definition baseName :: string where "baseName = ''libmysqlclient_r.so''"

text \<open>A constructor that throws closes the library it has loaded.\<close>

definition new_LibmysqlDynamicProxy :: "('w, 'h, 's) linker \<Rightarrow> string \<Rightarrow> 'w \<Rightarrow> (string + ('h, 's) library_loader) \<times> 'w" where
  "new_LibmysqlDynamicProxy lk path2libFile w =
     (case new_LibraryLoader lk (if length path2libFile > 0 then path2libFile else baseName) w of
        (Inl e, w') \<Rightarrow> (Inl e, w')
      | (Inr l, w') \<Rightarrow> (case init_loader lk l w' of
          (Inl e, l', w'') \<Rightarrow> (Inl e, delete_LibraryLoader lk l' w'')
        | (Inr _, l', w'') \<Rightarrow> (Inr l', w'')))"

section \<open>The maps of the process\<close>

record ('w, 'h, 's) process =
  pc_world :: 'w
  pc_instance :: bool  \<comment> \<open>\<^verbatim>\<open>theInstance\<close> of the linked library exists\<close>
  pc_proxies :: "('h, 's) library_loader list"
  pc_wrapper :: "string \<rightharpoonup> nat"
  pc_drivers :: "capi list"
  pc_driver :: "string \<rightharpoonup> nat"

text \<open>\<open>static\<close> says whether the client library is linked (\<^verbatim>\<open>MYSQLCLIENT_STATIC_BINDING\<close>).\<close>

definition theInstance :: "('w, 'h, 's) linker \<Rightarrow> ('w, 'h, 's) process \<Rightarrow> capi \<times> ('w, 'h, 's) process" where
  "theInstance lk s =
     (Static_api, if pc_instance s then s else s\<lparr>pc_instance := True, pc_world := lk_library_init lk (pc_world s)\<rparr>)"

definition getCApiHandle ::
    "bool \<Rightarrow> ('w, 'h, 's) linker \<Rightarrow> string \<Rightarrow> ('w, 'h, 's) process \<Rightarrow> (string + capi) \<times> ('w, 'h, 's) process" where
  "getCApiHandle static lk name s =
     (if static then (case theInstance lk s of (a, s') \<Rightarrow> (Inr a, s'))
      else (case pc_wrapper s name of
        Some i \<Rightarrow> (Inr (Dynamic_api i), s)
      | None \<Rightarrow> (case new_LibmysqlDynamicProxy lk name (pc_world s) of
          (Inl e, w) \<Rightarrow> (Inl e, s\<lparr>pc_world := w\<rparr>)
        | (Inr newWrapper, w) \<Rightarrow>
            (let i = length (pc_proxies s) in
             (Inr (Dynamic_api i), s\<lparr>pc_world := w, pc_proxies := pc_proxies s @ [newWrapper], pc_wrapper := (pc_wrapper s)(name \<mapsto> i)\<rparr>)))))"

definition new_Driver :: "bool \<Rightarrow> ('w, 'h, 's) linker \<Rightarrow> string \<Rightarrow> (('w, 'h, 's) process, capi) sop" where
  "new_Driver static lk clientLib = (\<lambda>s.
     case getCApiHandle static lk clientLib s of
       (Inl e, s') \<Rightarrow> (Inl (Sql_invalid_argument e), s')
     | (Inr api, s') \<Rightarrow> (Inr api, s'))"

definition get_driver_instance_by_name :: "bool \<Rightarrow> ('w, 'h, 's) linker \<Rightarrow> string \<Rightarrow> (('w, 'h, 's) process, nat) sop" where
  "get_driver_instance_by_name static lk clientlib = (\<lambda>s.
     let dummy = chars clientlib in
     case pc_driver s dummy of
       Some i \<Rightarrow> (Inr i, s)
     | None \<Rightarrow> (case new_Driver static lk dummy s of
         (Inl e, s') \<Rightarrow> (Inl e, s')
       | (Inr newDriver, s') \<Rightarrow>
           (let i = length (pc_drivers s') in
            (Inr i, s'\<lparr>pc_drivers := pc_drivers s' @ [newDriver], pc_driver := (pc_driver s')(dummy \<mapsto> i)\<rparr>))))"

definition get_driver_instance :: "bool \<Rightarrow> ('w, 'h, 's) linker \<Rightarrow> (('w, 'h, 's) process, nat) sop" where
  "get_driver_instance static lk = get_driver_instance_by_name static lk []"

text \<open>The methods of a driver; a driver that was never made is undefined.\<close>

definition driver_thread :: "(capi \<Rightarrow> 'w \<Rightarrow> 'w) \<Rightarrow> nat \<Rightarrow> (('w, 'h, 's) process, unit) sop" where
  "driver_thread call i = (\<lambda>s. if i < length (pc_drivers s) then (Inr (), s\<lparr>pc_world := call (pc_drivers s ! i) (pc_world s)\<rparr>)
     else (Inl Undefined_behaviour, s))"

definition driver_threadInit :: "('w, 'h, 's) linker \<Rightarrow> nat \<Rightarrow> (('w, 'h, 's) process, unit) sop" where
  "driver_threadInit lk = driver_thread (lk_thread_init lk)"

definition driver_threadEnd :: "('w, 'h, 's) linker \<Rightarrow> nat \<Rightarrow> (('w, 'h, 's) process, unit) sop" where
  "driver_threadEnd lk = driver_thread (lk_thread_end lk)"

definition driver_getName :: string where "driver_getName = ''MySQL Connector C++ (libmysql)''"

section \<open>One driver per name\<close>

definition new_process :: "'w \<Rightarrow> ('w, 'h, 's) process" where
  "new_process w = \<lparr>pc_world = w, pc_instance = False, pc_proxies = [], pc_wrapper = Map.empty, pc_drivers = [], pc_driver = Map.empty\<rparr>"

text \<open>Requests for drivers, whether they return or throw.\<close>

inductive requests :: "bool \<Rightarrow> ('w, 'h, 's) linker \<Rightarrow> ('w, 'h, 's) process \<Rightarrow> ('w, 'h, 's) process \<Rightarrow> bool" for static lk s where
  none: "requests static lk s s"
| more: "requests static lk s t \<Longrightarrow> get_driver_instance_by_name static lk name t = (r, t') \<Longrightarrow> requests static lk s t'"

text \<open>Numbers are given once; a driver uses the library of its name.\<close>

definition numbered :: "(string \<rightharpoonup> nat) \<Rightarrow> 'a list \<Rightarrow> bool" where
  "numbered f xs \<longleftrightarrow> inj_on f (dom f) \<and> (\<forall>n i. f n = Some i \<longrightarrow> i < length xs)"

definition registered :: "bool \<Rightarrow> ('w, 'h, 's) process \<Rightarrow> bool" where
  "registered static s \<longleftrightarrow> numbered (pc_wrapper s) (pc_proxies s) \<and> numbered (pc_driver s) (pc_drivers s)
     \<and> (\<forall>n i. pc_driver s n = Some i \<longrightarrow>
          (if static then pc_drivers s ! i = Static_api else \<exists>j. pc_wrapper s n = Some j \<and> pc_drivers s ! i = Dynamic_api j))"

lemma numbered_put: "numbered f xs \<Longrightarrow> f n = None \<Longrightarrow> numbered (f(n \<mapsto> length xs)) (xs @ [x])"
  by (fastforce simp: numbered_def inj_on_def dom_def)

lemma numbered_other: "numbered f xs \<Longrightarrow> f n = Some i \<Longrightarrow> f m = Some i \<Longrightarrow> n = m"
  by (auto simp: numbered_def inj_on_def dom_def)

text \<open>What a request for a library changes.\<close>

lemma api_handle_effect:
  assumes "getCApiHandle static lk name s = (r, s')" "numbered (pc_wrapper s) (pc_proxies s)"
  shows "numbered (pc_wrapper s') (pc_proxies s')" "pc_drivers s' = pc_drivers s" "pc_driver s' = pc_driver s"
    "pc_wrapper s n = Some i \<Longrightarrow> pc_wrapper s' n = Some i"
    "r = Inr a \<Longrightarrow> if static then a = Static_api else \<exists>j. pc_wrapper s' name = Some j \<and> a = Dynamic_api j"
  using assms
  by (auto simp: getCApiHandle_def theInstance_def Let_def numbered_put split: if_splits option.splits prod.splits sum.splits)

text \<open>A request finds the driver, fails, or makes a new one.\<close>

lemma request_cases:
  assumes "get_driver_instance_by_name static lk name s = (r, s')"
  obtains (known) i where "pc_driver s (chars name) = Some i" "r = Inr i" "s' = s"
  | (failed) e where "pc_driver s (chars name) = None" "getCApiHandle static lk (chars name) s = (Inl e, s')" "r = Inl (Sql_invalid_argument e)"
  | (made) api t where "pc_driver s (chars name) = None" "getCApiHandle static lk (chars name) s = (Inr api, t)" "r = Inr (length (pc_drivers t))"
      "s' = t\<lparr>pc_drivers := pc_drivers t @ [api], pc_driver := (pc_driver t)(chars name \<mapsto> length (pc_drivers t))\<rparr>"
  using assms
  by (auto simp: get_driver_instance_by_name_def new_Driver_def Let_def split: option.splits prod.splits sum.splits)

lemma request_registered:
  assumes "get_driver_instance_by_name static lk name s = (r, s')" "registered static s"
  shows "registered static s'"
  using assms(1)
proof (cases rule: request_cases)
  case known
  with assms(2) show ?thesis by simp
next
  case (failed e)
  have "numbered (pc_wrapper s) (pc_proxies s)" using assms(2) by (simp add: registered_def)
  note h = api_handle_effect [OF failed(2) this]
  show ?thesis using assms(2) h(1-4) unfolding registered_def h(2,3) by (fastforce split: if_splits)
next
  case (made api t)
  have "numbered (pc_wrapper s) (pc_proxies s)" using assms(2) by (simp add: registered_def)
  note h = api_handle_effect [OF made(2) this]
  have d: "pc_driver s n = Some i \<Longrightarrow> i < length (pc_drivers s)" for n i using assms(2) by (auto simp: registered_def numbered_def)
  have "numbered (pc_driver s') (pc_drivers s')"
    using assms(2) made(1) h(2,3) unfolding made(4) by (simp add: registered_def numbered_put)
  moreover have "if static then pc_drivers s' ! i = Static_api else \<exists>j. pc_wrapper s' n = Some j \<and> pc_drivers s' ! i = Dynamic_api j"
    if n: "pc_driver s' n = Some i" for n i
  proof (cases "n = chars name")
    case True
    then show ?thesis using h(5) [OF refl] n unfolding made(4) by (auto simp: h(2,3))
  next
    case False
    with n have i: "pc_driver s n = Some i" unfolding made(4) by (simp add: h(3))
    then have "if static then pc_drivers s ! i = Static_api else \<exists>j. pc_wrapper s n = Some j \<and> pc_drivers s ! i = Dynamic_api j"
      using assms(2) by (simp add: registered_def)
    then show ?thesis using d [OF i] h(4) unfolding made(4) by (auto simp: h(2,3) nth_append split: if_splits)
  qed
  moreover have "numbered (pc_wrapper s') (pc_proxies s')" using h(1) unfolding made(4) by simp
  ultimately show ?thesis unfolding registered_def by blast
qed

lemma request_keeps:
  assumes "get_driver_instance_by_name static lk name s = (r, s')" "registered static s"
  shows "pc_driver s n = Some i \<Longrightarrow> pc_driver s' n = Some i" "r = Inr i \<Longrightarrow> pc_driver s' (chars name) = Some i"
proof -
  have w: "numbered (pc_wrapper s) (pc_proxies s)" using assms(2) by (simp add: registered_def)
  show "pc_driver s' n = Some i" if "pc_driver s n = Some i"
    using assms(1) by (cases rule: request_cases) (use that api_handle_effect(3) [OF _ w] in auto)
  show "pc_driver s' (chars name) = Some i" if "r = Inr i"
    using assms(1) by (cases rule: request_cases) (use that in auto)
qed

lemma requests_keep:
  assumes "requests static lk s t" "registered static s"
  shows "registered static t \<and> (\<forall>n i. pc_driver s n = Some i \<longrightarrow> pc_driver t n = Some i)"
  using assms by (induction rule: requests.induct) (auto dest: request_registered request_keeps(1))

lemma new_registered: "registered static (new_process w)"
  by (simp add: registered_def numbered_def new_process_def)

lemma own_library: "registered False s \<Longrightarrow> pc_driver s n = Some i \<Longrightarrow> \<exists>j. pc_wrapper s n = Some j \<and> pc_drivers s ! i = Dynamic_api j"
  by (simp add: registered_def)

text \<open>The driver of a name, once made, is found again; another name has another driver.\<close>

lemma instances_shared:
  assumes "registered static s" "get_driver_instance_by_name static lk name s = (Inr i, s')" "requests static lk s' t"
  shows "get_driver_instance_by_name static lk name t = (Inr i, t)"
    and "get_driver_instance_by_name static lk other t = (Inr j, u) \<Longrightarrow> chars other \<noteq> chars name \<Longrightarrow>
      j \<noteq> i \<and> (\<not> static \<longrightarrow> pc_drivers u ! j \<noteq> pc_drivers u ! i)"
proof -
  have r: "registered static s'" by (rule request_registered [OF assms(2,1)])
  have t: "registered static t" "pc_driver t (chars name) = Some i"
    using requests_keep [OF assms(3) r] request_keeps(2) [OF assms(2,1) refl] by blast+
  then show "get_driver_instance_by_name static lk name t = (Inr i, t)" by (simp add: get_driver_instance_by_name_def)
  assume o: "get_driver_instance_by_name static lk other t = (Inr j, u)" "chars other \<noteq> chars name"
  have u: "registered static u" "pc_driver u (chars name) = Some i" "pc_driver u (chars other) = Some j"
    using request_registered [OF o(1) t(1)] request_keeps [OF o(1) t(1)] t(2) by blast+
  have n: "numbered (pc_driver u) (pc_drivers u)" "numbered (pc_wrapper u) (pc_proxies u)" using u(1) by (simp_all add: registered_def)
  have "pc_drivers u ! j \<noteq> pc_drivers u ! i" if ns: "\<not> static"
  proof -
    obtain a b where "pc_wrapper u (chars name) = Some a" "pc_drivers u ! i = Dynamic_api a"
      "pc_wrapper u (chars other) = Some b" "pc_drivers u ! j = Dynamic_api b"
      using own_library [of u "chars name" i] own_library [of u "chars other" j] u ns by auto
    with numbered_other [OF n(2)] o(2) show ?thesis by auto
  qed
  with numbered_other [OF n(1)] u(2,3) o(2) show "j \<noteq> i \<and> (\<not> static \<longrightarrow> pc_drivers u ! j \<noteq> pc_drivers u ! i)" by auto
qed

text \<open>A library that cannot be loaded is reported, and nothing is kept under its name.\<close>

lemma load_failure:
  assumes "pc_driver s (chars name) = None" "pc_wrapper s (chars name) = None"
    and "lk_open lk (if length (chars name) > 0 then chars name else baseName) (pc_world s) = (None, w)"
  shows "get_driver_instance_by_name False lk name s =
    (Inl (Sql_invalid_argument (''Couldn't load library '' @ (if length (chars name) > 0 then chars name else baseName) @ '': '' @ lk_error lk w)),
     s\<lparr>pc_world := w\<rparr>)"
  using assms
  by (simp add: get_driver_instance_by_name_def new_Driver_def getCApiHandle_def new_LibmysqlDynamicProxy_def new_LibraryLoader_def)

text \<open>A linker that knows every library and records what it is asked to open.\<close>

definition open_linker :: "(string list, string, string) linker" where
  "open_linker = \<lparr>lk_open = (\<lambda>p w. (Some p, w @ [p])), lk_close = (\<lambda>h w. w), lk_sym = (\<lambda>h n w. (Some n, w)), lk_error = (\<lambda>w. []),
     lk_server_init = (\<lambda>p w. w), lk_library_init = (\<lambda>w. w),
     lk_thread_init = (\<lambda>a w. w), lk_thread_end = (\<lambda>a w. w)\<rparr>"

end
