(* ===== verification/Connection_Calls.thy ===== *)
theory Connection_Calls
  imports Open_Connection
begin

text \<open>
  All methods of a connection, called in whatever order: the invariant holds throughout, and undefined
  behaviour is exactly that of the client options, which are read and written without asking whether the
  connection is closed, and of a value of the wrong type behind an untyped pointer.
\<close>

section \<open>Methods without effect on the connection\<close>

lemma safe_getters:
  "safe con_wf con_createStatement" "safe con_wf con_getAutoCommit" "safe con_wf (con_escapeString link s)"
  "safe con_wf (con_getCatalog link)" "safe con_wf (con_setCatalog s)" "safe con_wf (con_getLastStatementInfo link)"
  "safe con_wf (con_nativeSQL s)" "safe con_wf con_getMetaData" "safe con_wf con_getTransactionIsolation"
  unfolding con_createStatement_def con_getAutoCommit_def con_escapeString_def con_getCatalog_def con_getLastStatementInfo_def
    con_nativeSQL_def con_getMetaData_def con_getTransactionIsolation_def con_setCatalog_def
  by ((rule safe_con_checked, intro safe_intros)+, simp add: con_checkClosed_def safe_def, (rule safe_con_checked, intro safe_intros)+)

lemma safe_state_only: "safe con_wf con_isClosed" "safe con_wf con_clearWarnings"
  unfolding con_isClosed_def con_clearWarnings_def by (intro safe_intros; simp add: con_wf_def)+

lemma safe_throwing:
  "safe con_wf con_isReadOnly" "safe con_wf (con_setReadOnly b)" "safe con_wf (con_setHoldability i)"
  "safe con_wf con_setSavepoint_unnamed" "safe con_wf (con_prepareStatement_keys s i)"
  "safe con_wf (con_prepareStatement_indexes s is)" "safe con_wf (con_prepareStatement_typed s i j)"
  "safe con_wf (con_prepareStatement_held s i j k)" "safe con_wf (con_prepareStatement_names s ss)"
  unfolding con_isReadOnly_def con_setReadOnly_def con_setHoldability_def con_setSavepoint_unnamed_def
    con_prepareStatement_keys_def con_prepareStatement_indexes_def con_prepareStatement_typed_def
    con_prepareStatement_held_def con_prepareStatement_names_def con_checkClosed_def
  by (simp_all add: safe_def)

section \<open>Client options\<close>

definition has_proxy :: "'n connection \<Rightarrow> bool" where
  "has_proxy c \<longleftrightarrow> c_proxy c \<noteq> None"

lemma safe_ask_proxy [safe_intros]: "safe has_proxy (con_ask f)"
  by (rule safeI) (auto simp: con_ask_def con_call_def has_proxy_def split: option.splits)

lemma keeps_con_call [simp]: "keeps con_wf (con_call f)"
  by (auto simp: keeps_def con_call_def con_wf_def split: option.splits prod.splits)

lemma keeps_con_ask [simp]: "keeps con_wf (con_ask f)"
  by (simp add: con_ask_def)

lemma con_ask_closed: "c_proxy c = None \<Longrightarrow> con_ask f c = (Inl Undefined_behaviour, c)"
  by (simp add: con_ask_def con_call_def)

lemma safe_case_option: "safe I m \<Longrightarrow> (\<And>x. safe I (f x)) \<Longrightarrow> safe I (case a of None \<Rightarrow> m | Some x \<Rightarrow> f x)"
  by (cases a) simp_all

lemma keeps_case_option: "keeps I m \<Longrightarrow> (\<And>x. keeps I (f x)) \<Longrightarrow> keeps I (case a of None \<Rightarrow> m | Some x \<Rightarrow> f x)"
  by (cases a) simp_all

lemma keeps_either: "keeps I m \<Longrightarrow> keeps I n \<Longrightarrow> keeps I (if b then m else n)"
  by simp

lemma get_connection_option_ok:
  "safe has_proxy (get_connection_option no opts name)" "keeps con_wf (get_connection_option no opts name)"
proof (induction opts)
  case (Cons x opts)
  obtain k opt sk where x: "x = (k, opt, sk)" by (cases x)
  {
    case 1
    have "safe has_proxy (case r of Inl what \<Rightarrow> sthrow (Unsupported_option what k) | Inr x \<Rightarrow> sret (Some x))" for r :: "string + opt_value option"
      by (cases r) (auto intro: safe_intros)
    with Cons.IH(1) show ?case by (auto simp: x intro!: safe_intros)
  next
    case 2
    have "keeps con_wf (case r of Inl what \<Rightarrow> sthrow (Unsupported_option what k) | Inr x \<Rightarrow> sret (Some x))" for r :: "string + opt_value option"
      by (cases r) auto
    with Cons.IH(2) show ?case by (auto simp: x intro!: keeps_sbind)
  }
qed (auto intro: safe_intros)

definition plain_option :: "string \<Rightarrow> bool" where
  "plain_option name \<longleftrightarrow> name \<in> {''metadataUseInfoSchema'', ''defaultStatementResultType'', ''defaultPreparedStatementResultType''}"

lemma getClientOption_ptr_undefined:
  "fst (con_getClientOption_ptr version link no name c) = Inl Undefined_behaviour \<longleftrightarrow> c_proxy c = None \<and> \<not> plain_option name"
proof (cases "plain_option name \<or> c_proxy c = None")
  case True
  then show ?thesis by (auto simp: plain_option_def con_getClientOption_ptr_def con_ask_closed)
next
  case False
  have "safe has_proxy (con_getClientOption_ptr version link no name :: ('a connection, _) sop)"
    unfolding con_getClientOption_ptr_def
    by (intro safe_if safe_sget safe_ask_proxy safe_sbind safe_case_option safe_sret get_connection_option_ok(1))
  with False show ?thesis by (auto simp: safe_def has_proxy_def)
qed

lemma getClientOption_undefined:
  assumes "name \<noteq> ''characterSetResults''"
  shows "fst (con_getClientOption link no name c) = Inl Undefined_behaviour \<longleftrightarrow> c_proxy c = None"
proof (cases "c_proxy c = None")
  case True
  with assms show ?thesis by (simp add: con_getClientOption_def con_ask_closed)
next
  case False
  have r: "safe has_proxy (case a of Some (Some (Ov_string x)) \<Rightarrow> sret x | _ \<Rightarrow> sret [])" for a
    by (auto intro: safe_intros split: option.split opt_value.split)
  have "safe has_proxy (con_getClientOption link no name)"
    unfolding con_getClientOption_def using assms by (simp only: if_False) (intro safe_intros get_connection_option_ok(1) r)
  with False show ?thesis by (auto simp: safe_def has_proxy_def)
qed

text \<open>A value of another type than the option's.\<close>

definition ill_typed_value :: "string \<Rightarrow> opt_value \<Rightarrow> bool" where
  "ill_typed_value name v \<longleftrightarrow>
     (name = ''libmysql_debug'' \<and> (case v of Ov_string x \<Rightarrow> False | _ \<Rightarrow> True))
   \<or> (name \<in> {''clientTrace'', ''metadataUseInfoSchema''} \<and> (case v of Ov_bool b \<Rightarrow> False | _ \<Rightarrow> True))
   \<or> (name = ''defaultStatementResultType'' \<and> (case v of Ov_int i \<Rightarrow> False | _ \<Rightarrow> True))"

lemma setClientOption_ptr_undefined:
  "fst (con_setClientOption_ptr no name v c) = Inl Undefined_behaviour \<longleftrightarrow>
     ill_typed_value name v \<or> c_proxy c = None \<and> name = ''libmysql_debug''"
  by (cases v) (auto simp: ill_typed_value_def con_setClientOption_ptr_def con_call_def set_result_type_def split: option.splits)

lemma keeps_options:
  "keeps con_wf (con_getClientOption_ptr version link no name)" "keeps con_wf (con_getClientOption link no name)"
  "keeps con_wf (con_setClientOption_ptr no name v)"
proof -
  have r: "keeps con_wf (case a of Some (Some (Ov_string x)) \<Rightarrow> sret x | _ \<Rightarrow> sret [])" for a
    by (auto split: option.split opt_value.split)
  show "keeps con_wf (con_getClientOption link no name)"
    unfolding con_getClientOption_def by (auto intro!: keeps_sbind keeps_reads(2) get_connection_option_ok(2) r)
  show "keeps con_wf (con_getClientOption_ptr version link no name)"
    unfolding con_getClientOption_ptr_def
    by (intro keeps_either keeps_sget keeps_con_ask keeps_sbind keeps_case_option keeps_sret get_connection_option_ok(2))
  have m: "keeps con_wf (smod (\<lambda>c. c\<lparr>c_use_info_schema := b\<rparr>))" "keeps con_wf (smod (\<lambda>c. c\<lparr>c_stmt_type := k\<rparr>))" for b k
    by (rule keeps_smod, simp add: con_wf_def)+
  have s: "keeps con_wf (set_result_type i)" for i
    unfolding set_result_type_def by (cases "result_type i") (simp_all only: sum.case keeps_sthrow m)
  show "keeps con_wf (con_setClientOption_ptr no name v)"
    unfolding con_setClientOption_ptr_def
    by (cases v) (simp_all only: opt_value.case, (intro keeps_either keeps_sthrow keeps_sret keeps_con_call m s)+)
qed

lemma safe_setClientOption: "safe con_wf (con_setClientOption fuel link name v)"
  unfolding con_setClientOption_def by (intro safe_intros safe_set_variables)

section \<open>Sequences of calls\<close>

datatype con_op =
    Commit | Rollback | Auto_commit bool | Set_schema string | Set_savepoint string | Release_savepoint string
  | Rollback_to string | Set_isolation isolation | Set_variable string string | Set_variable_uint string nat
  | Get_warnings_of_connection | Is_valid | Reconnect | Prepare string | Close_connection
  | Create_statement | Get_auto_commit | Escape_string string | Get_catalog | Set_catalog string | Last_statement_info
  | Native_sql string | Get_meta_data | Get_isolation | Is_closed | Clear_warnings
  | Is_read_only | Set_read_only bool | Set_holdability int | Set_savepoint_unnamed | Prepare_keys string int
  | Prepare_indexes string "int list" | Prepare_typed string int int | Prepare_held string int int int | Prepare_names string "string list"
  | Get_schema | Get_variable string
  | Get_option_ptr string | Get_option string | Set_option_ptr string opt_value | Set_option string string

definition no_result :: "('s, 'a) sop \<Rightarrow> ('s, unit) sop" where
  "no_result m = sthen m (sret ())"

definition idle_stream :: "nat \<Rightarrow> istream" where
  "idle_stream = (\<lambda>_. \<lparr>is_left = [], is_eof = True, is_fail = False, is_bad = False\<rparr>)"

fun run_con :: "nat \<Rightarrow> nat \<Rightarrow> ('n, 'r, 'p, 'd) nlink \<Rightarrow> 'n nopen \<Rightarrow> con_op \<Rightarrow> ('n connection, unit) sop" where
  "run_con fuel version link no Commit = con_commit link"
| "run_con fuel version link no Rollback = con_rollback link"
| "run_con fuel version link no (Auto_commit b) = con_setAutoCommit link b"
| "run_con fuel version link no (Set_schema s) = con_setSchema link s"
| "run_con fuel version link no (Set_savepoint s) = no_result (con_setSavepoint link s)"
| "run_con fuel version link no (Release_savepoint s) = con_releaseSavepoint link s"
| "run_con fuel version link no (Rollback_to s) = con_rollback_to link s"
| "run_con fuel version link no (Set_isolation l) = con_setTransactionIsolation fuel link l"
| "run_con fuel version link no (Set_variable x v) = con_setSessionVariable fuel link x v"
| "run_con fuel version link no (Set_variable_uint x v) = con_setSessionVariable_uint fuel link x v"
| "run_con fuel version link no Get_warnings_of_connection = no_result (con_getWarnings fuel link)"
| "run_con fuel version link no Is_valid = no_result (con_isValid link)"
| "run_con fuel version link no Reconnect = no_result (con_reconnect link)"
| "run_con fuel version link no (Prepare s) = no_result (con_prepareStatement link idle_stream s)"
| "run_con fuel version link no Close_connection = con_close"
| "run_con fuel version link no Create_statement = no_result con_createStatement"
| "run_con fuel version link no Get_auto_commit = no_result con_getAutoCommit"
| "run_con fuel version link no (Escape_string s) = no_result (con_escapeString link s)"
| "run_con fuel version link no Get_catalog = no_result (con_getCatalog link)"
| "run_con fuel version link no (Set_catalog s) = con_setCatalog s"
| "run_con fuel version link no Last_statement_info = no_result (con_getLastStatementInfo link)"
| "run_con fuel version link no (Native_sql s) = no_result (con_nativeSQL s)"
| "run_con fuel version link no Get_meta_data = no_result con_getMetaData"
| "run_con fuel version link no Get_isolation = no_result con_getTransactionIsolation"
| "run_con fuel version link no Is_closed = no_result con_isClosed"
| "run_con fuel version link no Clear_warnings = con_clearWarnings"
| "run_con fuel version link no Is_read_only = no_result con_isReadOnly"
| "run_con fuel version link no (Set_read_only b) = con_setReadOnly b"
| "run_con fuel version link no (Set_holdability i) = con_setHoldability i"
| "run_con fuel version link no Set_savepoint_unnamed = no_result con_setSavepoint_unnamed"
| "run_con fuel version link no (Prepare_keys s i) = no_result (con_prepareStatement_keys s i :: ('n connection, ('p, 'd) pstmt) sop)"
| "run_con fuel version link no (Prepare_indexes s is) = no_result (con_prepareStatement_indexes s is :: ('n connection, ('p, 'd) pstmt) sop)"
| "run_con fuel version link no (Prepare_typed s i j) = no_result (con_prepareStatement_typed s i j :: ('n connection, ('p, 'd) pstmt) sop)"
| "run_con fuel version link no (Prepare_held s i j k) = no_result (con_prepareStatement_held s i j k :: ('n connection, ('p, 'd) pstmt) sop)"
| "run_con fuel version link no (Prepare_names s ss) = no_result (con_prepareStatement_names s ss :: ('n connection, ('p, 'd) pstmt) sop)"
| "run_con fuel version link no Get_schema = no_result (con_getSchema link)"
| "run_con fuel version link no (Get_variable x) = no_result (con_getSessionVariable link x)"
| "run_con fuel version link no (Get_option_ptr x) = no_result (con_getClientOption_ptr version link no x)"
| "run_con fuel version link no (Get_option x) = no_result (con_getClientOption link no x)"
| "run_con fuel version link no (Set_option_ptr x v) = con_setClientOption_ptr no x v"
| "run_con fuel version link no (Set_option x v) = con_setClientOption fuel link x v"

text \<open>
  Calls that read a result the client library hands out; calls that use the library without asking whether the
  connection is closed; and calls with a value of the wrong type.
\<close>

fun reads_result :: "con_op \<Rightarrow> bool" where
  "reads_result Get_schema = True" | "reads_result (Get_variable x) = True"
| "reads_result (Get_option x) = (x = ''characterSetResults'')" | "reads_result a = False"

fun asks_closed :: "con_op \<Rightarrow> bool" where
  "asks_closed (Get_option_ptr x) = (\<not> plain_option x)" | "asks_closed (Get_option x) = True"
| "asks_closed (Set_option_ptr x v) = (x = ''libmysql_debug'')" | "asks_closed a = False"

fun ill_typed :: "con_op \<Rightarrow> bool" where
  "ill_typed (Set_option_ptr x v) = ill_typed_value x v" | "ill_typed a = False"

fun option_call :: "con_op \<Rightarrow> bool" where
  "option_call (Get_option_ptr x) = True" | "option_call (Get_option x) = True"
| "option_call (Set_option_ptr x v) = True" | "option_call a = False"

lemma no_result_fst: "fst (no_result m c) = Inl e \<longleftrightarrow> fst (m c) = Inl e"
  by (auto simp: no_result_def split: prod.splits sum.splits)

lemma keeps_no_result: "keeps I m \<Longrightarrow> keeps I (no_result m)"
  unfolding no_result_def by (intro keeps_sthen keeps_sret)

lemma safe_no_result: "safe I m \<Longrightarrow> safe I (no_result m)"
  unfolding no_result_def by (intro safe_sthen safe_sret)

lemma safe_run_con: "\<not> reads_result a \<Longrightarrow> \<not> option_call a \<Longrightarrow> safe con_wf (run_con fuel version link no a)"
  by (cases a) (simp_all only: run_con.simps reads_result.simps option_call.simps not_True_eq_False simp_thms,
      (intro safe_no_result safe_transactions safe_savepoints safe_isolation safe_set_variables safe_con_getWarnings
        safe_liveness_checks safe_prepare safe_con_close safe_getters safe_state_only safe_throwing safe_setClientOption)+)

lemma keeps_run_con: "keeps con_wf (run_con fuel version link no a)"
proof (cases "reads_result a \<or> option_call a")
  case True
  then show ?thesis by (cases a) (auto intro: keeps_no_result keeps_reads keeps_options)
next
  case False
  then show ?thesis using safe_run_con [of a fuel version link no] by (simp add: safe_def keeps_def)
qed

lemma run_con_undefined:
  assumes "con_wf c" "\<not> reads_result a"
  shows "fst (run_con fuel version link no a c) = Inl Undefined_behaviour \<longleftrightarrow> (asks_closed a \<and> c_proxy c = None) \<or> ill_typed a"
proof (cases "option_call a")
  case True
  with assms(2) show ?thesis
    by (cases a) (auto simp: no_result_fst getClientOption_ptr_undefined getClientOption_undefined setClientOption_ptr_undefined)
next
  case False
  then have "\<not> asks_closed a" "\<not> ill_typed a" by (cases a; simp)+
  then show ?thesis using safe_run_con [OF assms(2) False, of fuel version link no] assms(1) by (simp add: safe_def)
qed

text \<open>The states of a connection from a successful \<^verbatim>\<open>init\<close> on.\<close>

inductive connection_state :: "nat \<Rightarrow> nat \<Rightarrow> ('n, 'r, 'p, 'd) nlink \<Rightarrow> 'n nopen \<Rightarrow> 'n connection \<Rightarrow> bool" for fuel version link no where
  opened: "c_valid c \<Longrightarrow> c_proxy c \<noteq> None \<Longrightarrow> connection_state fuel version link no c"
| op: "connection_state fuel version link no c \<Longrightarrow> run_con fuel version link no a c = (r, c') \<Longrightarrow> connection_state fuel version link no c'"

inductive_cases connection_stateE: "connection_state fuel version link no c"

lemma connection_state_wf: "connection_state fuel version link no c \<Longrightarrow> con_wf c"
proof (induction rule: connection_state.induct)
  case (opened c)
  then show ?case by (simp add: con_wf_def)
next
  case (op c a r c')
  then show ?case using keepsD [OF keeps_run_con] by blast
qed

end
