(* ===== verification/Spec2Isabelle.thy ===== *)
theory Spec2Isabelle
  imports Cond_Semantics User Row_Access Uri Table_Generator Cstr_Replace Table_Columns Prepared_Query Art_Moves Rs_Metadata Program_Connection Db_Shows Db_Grants Driver Connection_Calls
begin

text \<open>
  A query processor for MF and EMF queries (grouping variables with aggregates), and the MySQL driver it
  talks to the database through.

  \<^bold>\<open>The program.\<close> \<^verbatim>\<open>main.cpp\<close> reads a query from a file or the keyboard (\<^verbatim>\<open>lib/user.cpp\<close>), asks the database for
  the columns of the table, parses aggregates and conditions (\<^verbatim>\<open>lib/objects\<close>) and writes a C++ program
  (\<^verbatim>\<open>lib/output.cpp\<close>, \<^verbatim>\<open>lib/structures.cpp\<close>, \<^verbatim>\<open>lib/helpers.cpp\<close>, \<^verbatim>\<open>lib/query.cpp\<close>,
  \<^verbatim>\<open>lib/objects/scan_generator.cpp\<close>) that loads the table and answers the query with one scan per grouping
  variable. \<^verbatim>\<open>generate.cpp\<close> fills the table with random sales. Both, and the emitted program, reach the
  database through \<^verbatim>\<open>SQLConn\<close> (\<^verbatim>\<open>lib/objects/sql.cpp\<close>) and the JDBC part of \<^verbatim>\<open>mysqlconnector\<close>.

  \<^bold>\<open>Theories, from the program's own code to the driver.\<close>
  \<^item> \<open>Prelude\<close>: errors as values (\<open>cpp_error\<close>), strings, \<^verbatim>\<open>std::string\<close> and C library functions.
  \<^item> \<open>Str\<close>: the \<^verbatim>\<open>std::string\<close> half of \<^verbatim>\<open>lib/str.cpp\<close>; \<open>C_Heap\<close>, \<open>Cstr\<close>, \<open>Cstr_Replace\<close>: its C-string half on a
    memory of allocated blocks, and its agreement with the other half.
  \<^item> \<open>Column\<close>, \<open>Aggregate\<close>, \<open>Average\<close>, \<open>Condition\<close>, \<open>Scan_Generator\<close>: the classes of \<^verbatim>\<open>lib/objects\<close>, their
    parsers and the text they print.
  \<^item> \<open>Emitted\<close>: what the emitted scans do (loading, distinct keys, one scan per grouping variable, output);
    \<open>Cond_Semantics\<close>: what the printed conditions mean in them, and which conditions are covered. A specification
    over the table (the rows of a group, sums and counts over them) is refined by the scans.
  \<^item> \<open>Codegen\<close>, \<open>Output\<close>, \<open>User\<close>: the rest of the generated text, the files and the user's input.
  \<^item> \<open>Sql_Base\<close>: operations on an object's state that may throw; \<open>keeps\<close> (an invariant) and \<open>safe\<close> (an
    invariant without undefined behaviour) with their rules.
  \<^item> \<open>Case_Tables\<close>, \<open>Utf8\<close>: upper-casing of column labels (\<^verbatim>\<open>mysql_util.cpp\<close>). \<open>Uri\<close>: \<^verbatim>\<open>mysql_uri.cpp\<close>.
  \<^item> \<open>Result_Set\<close>: \<^verbatim>\<open>mysql_resultset.cpp\<close>; \<open>Cursor\<close>, \<open>Cursor_Moves\<close>, \<open>Row_Access\<close>: the locale \<open>cursor\<close> of loops over
    rows, the locale \<open>stored_result\<close> of what the class relies on of a buffered result, and the movements
    of the cursor as refinements of moves on a position.
  \<^item> \<open>Param_Bind\<close>, \<open>Prepared_Statement\<close>: \<^verbatim>\<open>mysql_prepared_statement.cpp\<close>; \<open>Statement_Safety\<close>: the ownership of
    long strings through all sequences of calls; \<open>Statement_Trace\<close>: the calls an execution makes, in the
    locale \<open>accepting\<close> of a client library that reports no errors.
  \<^item> \<open>Statement\<close>: \<^verbatim>\<open>mysql_statement.cpp\<close> and \<^verbatim>\<open>mysql_warning.cpp\<close>; \<open>Update_Results\<close>: updates over several results, in the
    locale \<open>result_queue\<close> of pending results.
  \<^item> \<open>Connection\<close>: the methods of \<^verbatim>\<open>mysql_connection.cpp\<close>; \<open>Connection_Safety\<close>: its invariant; \<open>Open_Connection\<close>:
    \<^verbatim>\<open>init\<close> with every option, and the untyped client options; \<open>Connection_Calls\<close>: all methods in any order, and when
    they are undefined; \<open>Opening\<close>: which values a connection is made
    with, and what is asked of the library, in the locales \<open>options_known\<close> and \<open>connecting\<close>.
  \<^item> \<open>Column_Types\<close>: character sets and column types (\<^verbatim>\<open>mysql_util.cpp\<close>); \<open>Rs_Metadata\<close>: the descriptions of
    results, prepared results and parameters (\<^verbatim>\<open>mysql_resultset_metadata.cpp\<close>, \<^verbatim>\<open>mysql_ps_resultset_metadata.cpp\<close>,
    \<^verbatim>\<open>mysql_parameter_metadata.cpp\<close>).
  \<^item> \<open>Art_Result_Set\<close>: constructed result sets (\<^verbatim>\<open>mysql_art_resultset.cpp\<close>); \<open>Ps_Result_Set\<close>, \<open>Ps_Values\<close>: results of prepared
    statements and their buffers (\<^verbatim>\<open>mysql_ps_resultset.cpp\<close>, \<^verbatim>\<open>mysql_resultbind.cpp\<close>). \<open>Scrolling\<close> specifies the
    movements of a cursor once, over an abstract position; \<open>Art_Moves\<close> and \<open>Ps_Moves\<close> refine it.
  \<^item> \<open>Db_Types\<close>, \<open>Db_Facts\<close>: the table of types, the constants and the fixed result sets of \<^verbatim>\<open>mysql_metadata.cpp\<close>;
    \<open>Db_Rows\<close>: loops over its rows, through the locale \<open>cursor\<close>; \<open>Foreign_Keys\<close>: its parser of foreign keys, which
    inverts the text the server prints. \<open>Db_Queries\<close>, \<open>Db_Lists\<close>: its lists of schemas, tables, columns, keys, indexes,
    routines, privileges and objects, asked of \<^verbatim>\<open>information_schema\<close> by prepared statements or of old servers by
    \<^verbatim>\<open>SHOW\<close> statements. \<open>Db_Answers\<close>: what a prepared query lists, in the locale \<open>answering\<close>; \<open>Db_Shows\<close>: the
    \<^verbatim>\<open>SHOW\<close> route, in the locale \<open>showing\<close>, which extends \<open>stored_result\<close>; \<open>Db_Grants\<close>: grants are read as printed.
  \<^item> \<open>Driver\<close>: the driver's instances (\<^verbatim>\<open>mysql_driver.cpp\<close>) and the loading of client libraries; one driver per name.
  \<^item> \<open>Sql_Conn\<close>: \<^verbatim>\<open>lib/objects/sql.cpp\<close>, in the locale \<open>preparing\<close>, which extends \<open>accepting\<close> by a connection;
    \<open>Prepared_Query\<close>: its queries with arguments, from the call to the values read, in the locale
    \<open>answering\<close>; \<open>Program_Connection\<close>: its constructors; \<open>Table_Columns\<close>: the columns of a table, from the
    connection on; \<open>Table_Generator\<close>: \<^verbatim>\<open>generate.cpp\<close>.

  \<^bold>\<open>State and operations.\<close> A class is a record, a method an operation \<open>'s \<Rightarrow> 'a res \<times> 's\<close>: it returns a value
  or throws (\<open>Inl\<close> an error), and keeps the changes made before a throw. Pure functions return \<open>'a res\<close>.
  Null dereferences, accesses out of range, signed overflow and freed memory are the error
  \<open>Undefined_behaviour\<close>. The client library of the database (not part of the repository) is a parameter:
  the records \<open>native\<close>, \<open>nstmt\<close>, \<open>nres\<close>, \<open>nconn\<close>, \<open>nlink\<close> and \<open>nopen\<close> hold the calls the driver makes, and the
  locales above state what a theorem relies on. Each locale is interpreted by a model of the library
  (\<open>client\<close>, \<open>recorder\<close>, \<open>sim_conn\<close>, \<open>db\<close>, \<open>mem\<close>, \<open>echo\<close>, \<open>front\<close>, \<open>desk\<close>), which the witnesses use.

  \<^bold>\<open>What is shown.\<close> The emitted programs compute the queries' answers, on the conditions the model covers and tables
  whose sums fit the machine types (and where they do not: aggregates in conditions at the first key, minima
  and maxima, a first key that the having clause rejects); parsing inverts printing; every aggregate reaches its
  scan; the generator writes its two files, and what is in them. Result sets move as specified, but for two
  movements that leave a stale row. No sequence of calls on a prepared statement runs into undefined behaviour;
  on a connection that happens exactly when client options are used after \<^verbatim>\<open>close\<close> or given a value of the wrong
  type. Long strings below \<open>2 ^ 32\<close> bytes arrive whole and are freed once; updates walk through all
  results; arguments of \<^verbatim>\<open>SQLConn::execute\<close> are bound in order; the table generator inserts the rows asked for.
  The three kinds of result sets move alike; a query with arguments reads the server's answer; integers of
  prepared results are exact where the getter's type can hold them. The program's constructor opens one connection
  with its account and chooses the database; options win over the address. A foreign key is read back from the
  statement that creates its table, if it is the first one and no later key has rules; the table of types describes
  the columns of results, but for six types; grants are read back, but for \<^verbatim>\<open>ALL PRIVILEGES\<close>, which becomes a fixed
  list.

  \<^bold>\<open>Bounds and fuel.\<close> Unsigned machine integers are words or reduced modulo their range where they can wrap; signed
  arithmetic that leaves its type is \<open>Undefined_behaviour\<close>. In the emitted programs sums, counts and averages are
  checked at every step; \<open>data_fits\<close> is the condition on the table under which no step overflows. Loops
  that the code bounds are total functions. Fuel bounds the others, and running out is \<open>Diverges\<close>: a loop
  over rows (\<open>drain\<close>) needs more fuel than there are rows, \<open>send_string\<close> more than the string has
  characters (a string of \<open>2 ^ 32\<close> bytes is sent for ever), \<open>update_loop\<close> more than there are results,
  \<open>c_str_replace\<close> more than there are rounds. \<open>str_replace\<close> is a partial function: \<open>None\<close> is a run that
  does not end.

  \<^bold>\<open>Not modelled.\<close> Conditions of the emitted program beyond comparisons of a column with a column (plus or minus a
  constant), an aggregate, a decimal literal or a quoted string: they are the error \<open>Outside_model\<close>; the having
  expression is a parameter. Objects the code uses without constructing them (strings in memory from \<^verbatim>\<open>calloc\<close>) and the
  argument of \<^verbatim>\<open>va_start\<close>, which is not the last parameter, are taken as the code means them. Floating-point members and conversions (parameters), messages on the standard streams,
  logging, locking; methods that only return a pointer, and the version numbers that the build generates;
  the wrappers around the client library, which pass its calls on. The X DevAPI,
  CDK, protocol buffers, TLS and compression libraries bundled with the connector are third-party code the program does not call.
\<close>

section \<open>The emitted programs compute MF and EMF queries\<close>

text \<open>
  A query over a table of sales, used by the witnesses: one grouping variable, the rows of New York,
  their sum, count and average per customer.
\<close>

definition cust :: column where "cust = Column_of_string ''cust'' ''varchar''"
definition quant :: column where "quant = Column_of_string ''quant'' ''int''"
definition sales_columns :: "column list" where
  "sales_columns = [cust, quant, Column_of_string ''state'' ''char'']"

definition sale :: "string \<Rightarrow> int \<Rightarrow> string \<Rightarrow> row" where
  "sale c q s = (\<lambda>n. if n = ''cust'' then StrV c else if n = ''quant'' then IntV q else StrV s)"


definition ny :: "conditions list" where
  "ny = [\<lparr>conds = [\<lparr>cgroup = 1, ccolumn = ''state'', cexp = ''='', cvalue = [dquote] @ ''NY'' @ [dquote]\<rparr>], ops = []\<rparr>]"

definition sum1 :: aggregate where "sum1 = \<lparr>group = 1, func = ''sum'', acol = ''quant''\<rparr>"
definition avg1 :: aggregate where "avg1 = \<lparr>group = 1, func = ''avg'', acol = ''quant''\<rparr>"










text \<open>
  C3: the first scan enumerates every key of the table exactly once, in the order of its first
  occurrence, and only rows of the table.
\<close>

theorem get_uniques_correct:
  "map (key attrs) (get_uniques attrs data) = first_occs (map (key attrs) data)
   \<and> distinct (map (key attrs) (get_uniques attrs data))
   \<and> key attrs ` set (get_uniques attrs data) = key attrs ` set data
   \<and> set (get_uniques attrs data) \<subseteq> set data"
  by (simp add: get_uniques_keys uniques_keys_cover get_uniques_subset)

text \<open>
  C4: a such-that condition that compares with an aggregate is false for the first distinct key, whatever
  the aggregate's value is: the emitted guard is \<^verbatim>\<open>vfind(...) > 0\<close>, and the first key is at position 0.
\<close>

theorem aggregate_condition_first_key:
  assumes "operand_of (cvalue c) cols = Some (OAgg a)" "\<not> contains (ccolumn c) ''avg''"
    and "distinct (map (\<lambda>g. key attrs (gkey g)) (D ! nat (group a)))" "D ! nat (group a) \<noteq> []"
    and "0 \<le> group a" "nat (group a) < length D" "contains (cvalue c) ''avg'' = is_avg a"
    and "key attrs it = key attrs (gkey (D ! nat (group a) ! 0))"
  shows "cond_holds cols attrs c D it xt = Some False"
  using assms agg_operand_first [OF assms(3,4) refl assms(5-8)] by (simp add: cond_holds_def)

definition above_avg :: condition where
  "above_avg = \<lparr>cgroup = 2, ccolumn = ''quant'', cexp = ''>'', cvalue = ''1_avg_quant''\<rparr>"

definition one_key :: groups where
  "one_key = [[], [new_gstruct [''cust''] (sale ''Bo'' 5 ''NY'')]]"

theorem aggregate_condition_first_key_witness:
  "operand_of (cvalue above_avg) sales_columns = Some (OAgg avg1)
   \<and> cond_holds sales_columns [''cust''] above_avg one_key (sale ''Bo'' 500 ''NY'') None = Some False"
proof -
  have o: "operand_of (cvalue above_avg) sales_columns = Some (OAgg avg1)"
    unfolding above_avg_def sales_columns_def cust_def quant_def avg1_def by code_simp
  have a: "\<not> contains (ccolumn above_avg) ''avg''" "contains (cvalue above_avg) ''avg'' = is_avg avg1"
    unfolding above_avg_def avg1_def by code_simp+
  from aggregate_condition_first_key [OF o a(1), of "[''cust'']" one_key "sale ''Bo'' 500 ''NY''" None] o a(2)
  show ?thesis by (simp add: one_key_def avg1_def key_def new_gstruct_def copy_columns_def sale_def)
qed

section \<open>From the query description to the generated files\<close>

text \<open>
  C5: a query file whose sections contain no colon is cut into exactly those sections; the conditions
  are read only when there are grouping variables, and the having clause is everything after the
  character behind the last heading.
\<close>

theorem query_file_sections:
  assumes "body_ok s" "body_ok w" "body_ok n" "body_ok v" "body_ok f" "body_ok c"
    and "rest \<noteq> []" "length (file_text [s, w, n, v, f, c] rest) < 2 ^ 63"
    and "n \<noteq> []" "\<not> is_blank (hd n)" "atoi (n @ nl) = Inr k"
  shows "file_sections (file_text [s, w, n, v, f, c] rest) =
    Inr \<lparr>t_select = s, t_where = w, t_vars = k, t_grouping = v, t_fvect = f,
         t_conds = (if k > 0 then c else []), t_having = tl rest\<rparr>"
  by (rule file_sections_roundtrip [OF assms])

theorem query_file_sections_witness:
  "file_sections (file_text [''cust, 1_sum_quant'', ''year=1997'', ''1'', ''cust'', ''1_sum_quant'', ''1.state=NY''] (nl @ ''1_sum_quant > 5'')) =
    Inr \<lparr>t_select = ''cust, 1_sum_quant'', t_where = ''year=1997'', t_vars = 1, t_grouping = ''cust'',
         t_fvect = ''1_sum_quant'', t_conds = ''1.state=NY'', t_having = ''1_sum_quant > 5''\<rparr>"
proof -
  have k: "atoi (''1'' @ nl) = Inr 1" by code_simp
  show ?thesis
    using query_file_sections [where n = "''1''" and k = 1 and rest = "nl @ ''1_sum_quant > 5''"
        and s = "''cust, 1_sum_quant''" and w = "''year=1997''" and v = "''cust''" and f = "''1_sum_quant''" and c = "''1.state=NY''"] k
    by (simp add: body_ok_def is_blank_def file_text_def parts_def layout_def block_def)
qed

text \<open>
  C6: an aggregate is printed and parsed back to itself, with and without a group number.
\<close>

theorem aggregate_roundtrip:
  assumes "aggr_wf a"
  shows "rbind (toString a) new_Aggregate = Inr a"
  by (rule new_Aggregate_toString [OF assms])

lemma avg1_wf: "aggr_wf avg1" "aggr_wf sum1"
  by (simp_all add: avg1_def sum1_def aggr_wf_def field_ok_def all_blank_def is_blank_def)

theorem aggregate_roundtrip_witness: "rbind (toString avg1) new_Aggregate = Inr avg1"
  using aggregate_roundtrip [OF avg1_wf(1)] .

text \<open>
  C7: different aggregates get different member names in the emitted result structure.
\<close>

theorem member_names_distinct:
  assumes "aggr_wf a" "aggr_wf b" "toABSVar a = toABSVar b"
  shows "a = b"
  by (rule toABSVar_inj [OF assms])

theorem member_names_distinct_witness: "toABSVar avg1 \<noteq> toABSVar sum1"
  using member_names_distinct [OF avg1_wf] by (auto simp: avg1_def sum1_def)

text \<open>
  C8: a condition \<^verbatim>\<open>group.column op value\<close> is parsed into its parts, for every operator of the input
  language; \<^verbatim>\<open><>\<close> becomes \<^verbatim>\<open>!=\<close> and single quotes become double quotes.
\<close>

theorem condition_parse:
  assumes "INT_MIN < g" "g \<le> INT_MAX" "itoa g = Inr s"
    and "list_all (\<lambda>c. \<not> is_op_char c) col" "op \<in> set rel_ops" "v \<noteq> []" "\<not> is_op_char (hd v)"
  shows "new_Condition (s @ ''.'' @ col @ op @ v) =
    Inr \<lparr>cgroup = g, ccolumn = col, cexp = canon_op op, cvalue = requote v\<rparr>"
  by (rule new_Condition_grouped [OF assms])

theorem condition_parse_witness:
  "new_Condition (''1'' @ ''.'' @ ''state'' @ ''<>'' @ [squote] @ ''NY'' @ [squote]) =
    Inr \<lparr>cgroup = 1, ccolumn = ''state'', cexp = ''!='', cvalue = [dquote] @ ''NY'' @ [dquote]\<rparr>"
proof -
  have "itoa 1 = Inr ''1''" by code_simp
  with condition_parse [of 1 "''1''" "''state''" "''<>''" "[squote] @ ''NY'' @ [squote]"]
  show ?thesis by (simp add: is_op_char_def rel_ops_def canon_op_def)
qed

text \<open>
  C9: every aggregate is handed to the scan of its own grouping variable, once, in input order.
\<close>

theorem aggregates_grouped:
  assumes "0 \<le> no_grouping_vars g"
    and "list_all (\<lambda>a. 0 \<le> group a \<and> group a \<le> no_grouping_vars g) (all_aggregates g)"
  shows "group_aggregates g =
    Inr (map (\<lambda>i. filter (\<lambda>a. group a = int i) (all_aggregates g)) [0..<nat (no_grouping_vars g + 1)])"
  by (rule group_aggregates_spec [OF assms])

definition sales_generator :: "int \<Rightarrow> scan_generator" where
  "sales_generator n = \<lparr>no_grouping_vars = n, columns = sales_columns, select_columns = [''cust''],
     select_aggregates = [sum1, avg1], all_aggregates = [sum1, avg1], select_conditions = Some ny,
     having = [], grouping_attr = [''cust''], emf = False\<rparr>"

theorem aggregates_grouped_witness: "group_aggregates (sales_generator 1) = Inr [[], [sum1, avg1]]"
  using aggregates_grouped [of "sales_generator 1"] by (simp add: sales_generator_def sum1_def avg1_def numeral_2_eq_2)

text \<open>
  An aggregate whose group number is not one of the query's grouping variables stops the
  generation with \<^verbatim>\<open>std::out_of_range\<close>, in both kinds of scan.
\<close>

lemma aggregate_group_out_of_range:
  assumes "a \<in> set (all_aggregates g)" "group a < 0 \<or> no_grouping_vars g < group a" "-1 \<le> no_grouping_vars g"
  shows "aggregate_scan g = Inl Out_of_range \<and> emf_aggregate_scan g = Inl Out_of_range"
proof -
  have "list_ex (\<lambda>a. \<not> (0 \<le> group a \<and> group a < int (length (replicate (nat (no_grouping_vars g + 1)) ([] :: aggregate list)))))
      (all_aggregates g)"
    using assms by (auto simp: list_ex_iff intro!: bexI [of _ a])
  from group_loop_fails [OF this] show ?thesis
    by (simp add: aggregate_scan_def emf_aggregate_scan_def group_aggregates_def)
qed






section \<open>Result sets of the driver\<close>

text \<open>A buffered result of two rows and two columns, used by the witnesses.\<close>

definition col_meta :: "string \<Rightarrow> field_meta" where
  "col_meta n = \<lparr>fm_name = n, fm_bit = False, fm_flags = 0, fm_length = 64\<rparr>"

definition two_rows :: "srow list" where
  "two_rows = [[Some ''cust'', Some ''varchar''], [Some ''quant'', Some ''int'']]"

definition two_fields :: "field_meta list" where
  "two_fields = [col_meta ''COLUMN_NAME'', col_meta ''DATA_TYPE'']"

definition two_result :: client where
  "two_result = \<lparr>cl_rows = two_rows, cl_cur = 0, cl_fields = two_fields, cl_proxy = Some 0\<rparr>"

definition two_set :: "client result_set" where
  "two_set = new_ResultSet client_api two_result TYPE_SCROLL_INSENSITIVE"

lemma two_set_agrees: "agrees client_api cl_rows cl_cur two_rows two_fields two_set"
  using client.new_agrees [of TYPE_SCROLL_INSENSITIVE two_result]
  by (simp add: two_set_def two_result_def client_api_def)

lemma two_set_start: "rs_position two_set = 0"
  by (simp add: two_set_def new_ResultSet_def)

text \<open>
  C11: on a buffered result every movement of the cursor (next, previous, first, last, beforeFirst,
  afterLast, absolute, relative) returns whether it ends on a row, ends at the position the JDBC contract gives, and has the
  row of that position loaded; except \<open>unsought\<close> movements to before the first row.
\<close>

theorem cursor_moves_refine:
  assumes "stored_result api rows_of cur" "agrees api rows_of cur rows fs s"
    and "int (length rows) \<le> INT_MAX" "move_int m" "\<not> unsought (length rows) (rs_position s) m"
  shows "\<exists>s'. run_move api m s = (Inr (hit (length rows) (move_pos (length rows) (rs_position s) m)), s')
    \<and> agrees api rows_of cur rows fs s' \<and> rs_position s' = move_pos (length rows) (rs_position s) m"
  by (rule stored_result.move_refines [OF assms])

theorem cursor_moves_refine_witness:
  "\<exists>s'. run_move client_api (Absolute (- 1)) two_set = (Inr True, s')
    \<and> agrees client_api cl_rows cl_cur two_rows two_fields s' \<and> rs_position s' = 2"
  using cursor_moves_refine [OF client.stored_result_axioms two_set_agrees, of "Absolute (- 1)"]
  by (simp add: two_rows_def move_int_def in_int32_def unsought_def move_pos_def clamp_def hit_def two_set_start)

text \<open>
  C12: whatever the client library returns, and whether a movement returns or throws, the position of a
  scrollable result set stays between 0 and one past the number of rows.
\<close>

theorem position_in_range:
  assumes "reached api res kind s" "kind \<noteq> TYPE_FORWARD_ONLY" "int (nat_num_rows api res) \<le> INT_MAX"
  shows "rs_position s \<le> rs_num_rows s + 1 \<and> rs_isScrollable s"
  using reached_pos_ok [OF assms] by (simp add: pos_ok_def)

theorem position_in_range_witness: "rs_position two_set \<le> rs_num_rows two_set + 1 \<and> rs_isScrollable two_set"
  using position_in_range [OF reached.fresh, of TYPE_SCROLL_INSENSITIVE client_api two_result]
  by (simp add: two_set_def client_api_def two_result_def two_rows_def)

text \<open>
  C13: \<^verbatim>\<open>getColumns\<close>, from the connection to the columns: the schema is selected, the query run and its
  stored answer read to the end. There is one column per row, in the order of the rows, named and typed by
  the cells under the two labels, which are found case-insensitively; the files are generated from these.
\<close>

theorem columns_read_from_server:
  assumes "stored_result (nl_result link) rows_of cur"
    and "c_valid c" "c_proxy c = Some n" "c_stmt_type c \<noteq> TYPE_FORWARD_ONLY"
    and "answers link n r" "cur r = 0" "nat_fields (nl_result link) r = fs"
    and "distinct (map (\<lambda>f. utf8_strup (fm_name f)) fs)" "list_all (\<lambda>x. length x = length fs) (rows_of r)"
    and "labelled fs ''COLUMN_NAME'' i" "labelled fs ''DATA_TYPE'' j" "length (rows_of r) < fuel"
  shows "getColumns_db fuel link c = Inr (map (\<lambda>x. Column_of_string (cell_string x i) (cell_string x j)) (rows_of r))
    \<and> parse_query_db fuel link c inp files = parse_query (map (\<lambda>x. (cell_string x i, cell_string x j)) (rows_of r)) inp files"
  using read_columns_stored [OF assms] by (simp_all add: getColumns_db_def parse_query_db_def getColumns_def)

definition columns_server :: "unit db" where
  "columns_server =
     \<lparr>db_conn = \<lparr>sc_script = (\<lambda>q. Some [if q = columns_query then Sim_rows two_result else Sim_count 0]),
        sc_pending = [], sc_errno = 0, sc_log = []\<rparr>, db_log = []\<rparr>"

lemma columns_server_answers: "answers db_link columns_server two_result"
proof -
  have "''USE `'' @ ''information_schema'' @ ''`'' \<noteq> columns_query" by (simp add: columns_query_def)
  then show ?thesis
    by (simp add: answers_def columns_server_def db_link_def db_api_def on_sim_def sim_api_def sim_query_def sim_store_def)
qed

theorem columns_read_from_server_witness:
  "getColumns_db 3 db_link ((new_ConnectionData columns_server)\<lparr>c_valid := True\<rparr>) =
    Inr [Column_of_string ''cust'' ''varchar'', Column_of_string ''quant'' ''int'']"
proof -
  have api: "stored_result (nl_result (db_link :: (unit db, client, unit recorder, unit) nlink)) cl_rows cl_cur"
    by (simp add: db_link_def client.stored_result_axioms)
  have "list_all is_ascii ''COLUMN_NAME''" "list_all is_ascii ''DATA_TYPE''"
    "map ascii_up ''COLUMN_NAME'' \<noteq> map ascii_up ''DATA_TYPE''"
    by code_simp+
  then have "utf8_strup ''COLUMN_NAME'' \<noteq> utf8_strup ''DATA_TYPE''" by (simp add: utf8_strup_ascii)
  then have fs: "distinct (map (\<lambda>f. utf8_strup (fm_name f)) two_fields)" "labelled two_fields ''COLUMN_NAME'' 0"
    "labelled two_fields ''DATA_TYPE'' 1" by (simp_all add: two_fields_def col_meta_def labelled_def)
  show ?thesis
    using columns_read_from_server [OF api _ _ _ columns_server_answers _ _ fs(1) _ fs(2,3),
        of "(new_ConnectionData columns_server)\<lparr>c_valid := True\<rparr>" 3]
    by (simp add: new_ConnectionData_def two_result_def two_rows_def two_fields_def db_link_def client_api_def cell_string_def)
qed

definition big_result :: client where
  "big_result = \<lparr>cl_rows = [[Some ''2147483648'']], cl_cur = 0, cl_fields = [col_meta ''quant''], cl_proxy = Some 0\<rparr>"

text \<open>
  C14: decoding and encoding of UTF-8 are inverse to each other on the code points the driver supports:
  every encoded code point is decoded, and every sequence that is decoded is the encoding (overlong
  forms are rejected).
\<close>

theorem utf8_decode_encode:
  assumes "wc < 0x10000" "list_all is_byte s" "my_utf8_uni s = Inr (n, w)"
  shows "my_utf8_uni (utf8_enc wc @ rest) = Inr (length (utf8_enc wc), wc)
    \<and> my_uni_utf8 w n = Inr (take n s)"
proof -
  have w: "w < 0x10000 \<and> take n s = utf8_enc w" by (rule my_utf8_uni_sound [OF assms(3,2)])
  have "length (utf8_enc w) \<le> n" using w by (metis length_take min.cobounded2)
  with w my_uni_utf8_enc [of w n] my_utf8_uni_enc [OF assms(1)] show ?thesis by simp
qed

theorem utf8_decode_encode_witness:
  "my_utf8_uni (utf8_enc 0x20AC @ []) = Inr (length (utf8_enc 0x20AC), 0x20AC)
    \<and> my_uni_utf8 0xE9 2 = Inr (take 2 [0xC3, 0xA9, 0x41])"
proof -
  have "my_utf8_uni [0xC3, 0xA9, 0x41] = Inr (2, 0xE9)" by code_simp
  moreover have "list_all is_byte [0xC3, 0xA9, 0x41]" by (simp add: is_byte_def)
  ultimately show ?thesis using utf8_decode_encode [of "0x20AC" "[0xC3, 0xA9, 0x41]" 2 "0xE9" "[]"] by simp
qed

text \<open>
  C15: upper-casing a byte string into a buffer at least as long as the string never truncates: the
  result is the upper-cased code points of the decodable prefix, and it is no longer than the string.
\<close>

theorem caseup_fits:
  assumes "list_all is_byte src" "length src \<le> dstlen"
  shows "cppmysql_caseup_utf8 src dstlen = concat (map (\<lambda>wc. utf8_enc (unicase_toupper wc)) (decode_all src))
    \<and> length (cppmysql_caseup_utf8 src dstlen) \<le> length src"
  using caseup_eq [OF assms] by blast

theorem caseup_fits_witness: "length (cppmysql_caseup_utf8 [0xC3, 0xA9, 0x61] 3) \<le> length [0xC3, 0xA9, 0x61::nat]"
proof -
  have "list_all is_byte [0xC3, 0xA9, 0x61]" "length [0xC3, 0xA9, 0x61::nat] \<le> 3" by (simp_all add: is_byte_def)
  from caseup_fits [OF this] show ?thesis by blast
qed

text \<open>
  C16: a connection address \<^verbatim>\<open>tcp://host:port/schema\<close> is taken apart into the host, port and schema it
  was put together from; without a schema the schema is cleared.
\<close>

theorem address_roundtrip:
  assumes "plain host" "host \<noteq> []" "0 \<le> p" "p \<le> INT_MAX" "itoa p = Inr port" "plain schema" "schema \<noteq> []"
  shows "parseUri (''tcp://'' @ host @ '':'' @ port @ ''/'' @ schema) u =
      (Inr True, u\<lparr>u_protocol := PROTOCOL_TCP, u_port := nat p, u_host := host, u_schema := schema\<rparr>)
    \<and> parseUri (''tcp://'' @ host @ '':'' @ port) u =
      (Inr True, u\<lparr>u_protocol := PROTOCOL_TCP, u_port := nat p, u_host := host, u_schema := []\<rparr>)"
proof -
  obtain c cs where "host = c # cs" using assms(2) by (cases host) auto
  with assms(1) have "(host @ x) ! 0 \<noteq> CHR ''[''" for x by (auto simp: plain_def)
  with assms(2) parseUri_tcp [of "host @ '':'' @ port @ ''/'' @ schema" u] parseUri_tcp [of "host @ '':'' @ port" u]
    parse_host_port [OF assms, of u] parse_host_plain [OF assms(1-5), of u]
  show ?thesis by auto
qed

theorem address_roundtrip_witness:
  "parseUri ''tcp://127.0.0.1:3306'' new_Uri =
    (Inr True, \<lparr>u_protocol = PROTOCOL_TCP, u_port = 3306, u_host = ''127.0.0.1'', u_schema = []\<rparr>)"
proof -
  have "itoa 3306 = Inr ''3306''" by code_simp
  with address_roundtrip [of "''127.0.0.1''" 3306 "''3306''" "''x''" new_Uri] show ?thesis
    by (simp add: plain_def new_Uri_def)
qed

section \<open>Prepared statements\<close>

text \<open>
  C17: whatever calls a client makes on a prepared statement, returning or throwing, no call reaches
  freed memory, an array out of range or the closed client library; and from every such state the
  destructor returns and leaves no long string allocated.
\<close>

theorem statement_ownership:
  assumes "statement_state fuel api s"
  shows "fst (run_op fuel api q s) \<noteq> Inl Undefined_behaviour
    \<and> (\<exists>t. delete_PreparedStatement s = (Inr (), t) \<and> pb_heap (ps_params t) = Map.empty)"
  using statement_state_wf [OF assms] safe_run_op [of fuel api q] delete_statement by (simp add: safe_def)

definition one_param :: "(nat recorder, nat) pstmt" where
  "one_param = new_PreparedStatement recorder_api \<lparr>rec_calls = [], rec_params = 1\<rparr> TYPE_SCROLL_INSENSITIVE
     (\<lambda>_. \<lparr>is_left = [], is_eof = False, is_fail = False, is_bad = False\<rparr>)"

lemma one_param_simps [simp]:
  "ps_open one_param" "ps_param_count one_param = 1" "ps_proxy one_param = Some \<lparr>rec_calls = [], rec_params = 1\<rparr>"
  "pb_isAllSet (ps_params one_param) = False" "pb_bind (ps_params one_param) = [zero_bind]"
proof -
  have "ps_wf one_param" unfolding one_param_def by (rule new_PreparedStatement_wf)
  moreover show "ps_proxy one_param = Some \<lparr>rec_calls = [], rec_params = 1\<rparr>"
    "ps_param_count one_param = 1" "pb_isAllSet (ps_params one_param) = False" "pb_bind (ps_params one_param) = [zero_bind]"
    by (simp_all add: one_param_def new_PreparedStatement_def recorder_api_def new_ParamBind_def pb_isAllSet_def)
  moreover have "\<not> ps_closed one_param" by (simp add: one_param_def new_PreparedStatement_def)
  ultimately show "ps_open one_param" by (simp add: ps_open_def)
qed

theorem statement_ownership_witness:
  "\<exists>s. ps_setString 1 (replicate 300000 CHR ''x'') one_param = (Inr (), s) \<and> pb_heap (ps_params s) \<noteq> Map.empty
    \<and> fst (ps_close s) \<noteq> Inl Undefined_behaviour
    \<and> (\<exists>t. delete_PreparedStatement s = (Inr (), t) \<and> pb_heap (ps_params t) = Map.empty)"
proof -
  let ?v = "replicate 300000 CHR ''x''"
  let ?s = "one_param\<lparr>ps_params := acquired 0 ?v (ps_params one_param)\<rparr>"
  have s: "ps_setString 1 ?v one_param = (Inr (), ?s)"
    using setString_long_open(1) [of one_param 1 ?v] by simp
  have "statement_state 1 recorder_api one_param" unfolding one_param_def by (rule constructed)
  then have "statement_state 1 recorder_api ?s"
    by (rule called [where op = "Set_string 1 ?v"]) (simp only: run_op.simps s)
  from statement_ownership [OF this, of Close] show ?thesis
    using s by (auto simp: acquired_def)
qed



text \<open>
  C19: a string of more than 256 KiB, and short enough that its length and one more piece are below \<open>2 ^ 32\<close> (the
  code counts in an \<^verbatim>\<open>unsigned int\<close>), that is bound with \<^verbatim>\<open>setString\<close> reaches the client library whole when the statement
  is executed: its pieces, none of them empty or above \<^verbatim>\<open>MAX_SEND_LONGDATA_CHUNK\<close>, put together are the string. The
  constant is \<^verbatim>\<open>1 << 18\<close>, 256 KiB; the 512k of its comment are not what the code sends.
\<close>

theorem long_string_arrives:
  assumes "accepting api calls" "ps_open s" "ps_proxy s = Some n" "1 \<le> i" "i \<le> ps_param_count s"
    and "256 * 1024 < length v" "length v + MAX_SEND_LONGDATA_CHUNK < 2 ^ 32" "length v < fuel"
    and "\<forall>j < ps_param_count s. j \<noteq> i - 1 \<longrightarrow> pb_set (ps_params s) ! j \<and> sendable fuel (ps_params s) j"
  shows "\<exists>u b t n' cs. ps_setString i v s = (Inr (), u) \<and> ps_execute fuel api u = (Inr b, t) \<and> ps_proxy t = Some n'
    \<and> calls n' = calls n @ [Bind (pb_bind (ps_params u))] @ cs @ [Run]
    \<and> concat (pieces_for (i - 1) cs) = v
    \<and> list_all (\<lambda>c. c \<noteq> [] \<and> length c \<le> 256 * 1024) (pieces_for (i - 1) cs)"
proof -
  have c: "0 < MAX_SEND_LONGDATA_CHUNK" "MAX_SEND_LONGDATA_CHUNK = 256 * 1024" by (simp_all add: MAX_SEND_LONGDATA_CHUNK_def)
  obtain u b t n' cs where cs: "ps_setString i v s = (Inr (), u)" "ps_execute fuel api u = (Inr b, t)" "ps_proxy t = Some n'"
    "calls n' = calls n @ [Bind (pb_bind (ps_params u))] @ cs @ [Run]"
    "pieces_for (i - 1) cs = chunks MAX_SEND_LONGDATA_CHUNK v"
    using accepting.long_string_aux [OF assms(1-8)] assms(9) by blast
  moreover have "concat (pieces_for (i - 1) cs) = v" unfolding cs(5) by (rule concat_chunks [OF c(1)])
  moreover have "list_all (\<lambda>c. c \<noteq> [] \<and> length c \<le> 256 * 1024) (pieces_for (i - 1) cs)"
    unfolding cs(5) using chunks_sizes [OF c(1), of v] unfolding c(2) .
  ultimately show ?thesis by blast
qed

theorem long_string_arrives_witness:
  "\<exists>u t r cs. ps_setString 1 (replicate 300000 CHR ''x'') one_param = (Inr (), u)
    \<and> ps_execute 300001 recorder_api u = (Inr False, t) \<and> ps_proxy t = Some r
    \<and> rec_calls r = [Bind (pb_bind (ps_params u))] @ cs @ [Run] \<and> concat (pieces_for 0 cs) = replicate 300000 CHR ''x''"
proof -
  let ?v = "replicate 300000 CHR ''x''"
  from long_string_arrives [OF recorder.accepting_axioms one_param_simps(1,3), of 1 ?v 300001]
  obtain u b t r cs where r: "ps_setString 1 ?v one_param = (Inr (), u)" "ps_execute 300001 recorder_api u = (Inr b, t)"
    "ps_proxy t = Some r" "rec_calls r = [Bind (pb_bind (ps_params u))] @ cs @ [Run]" "concat (pieces_for 0 cs) = ?v"
    by (auto simp: MAX_SEND_LONGDATA_CHUNK_def)
  have "b = False"
    using r(2) by (auto simp: ps_execute_def ps_ask_def ps_call_def recorder_api_def sbind_def sthen_def
        split: sum.splits prod.splits option.splits)
  with r show ?thesis by blast
qed

section \<open>Statements, connections and the table generator\<close>

text \<open>
  C20: \<^verbatim>\<open>executeUpdate\<close> on a query of several statements returns after it has walked through all results:
  with the row count of the last one (reduced to \<^verbatim>\<open>int\<close>) when all are updates, otherwise with the
  exception that reports a result set, thrown only when no result is pending any more.
\<close>

theorem update_walks_results:
  assumes "result_queue api pending" "\<not> st_closed s" "st_proxy s = Some n" "nc_query api sql n = (False, n1)"
    and "pending n1 = x # xs" "length xs < fuel"
  shows "\<exists>t n'. st_executeUpdate fuel api sql s =
      (if None \<in> set (x # xs) then Inl (Sql_invalid_argument ''Statement returning result set'')
       else Inr (cast_int (the (last (x # xs)))), t)
    \<and> st_proxy t = Some n' \<and> pending n' = [last (x # xs)]"
  by (rule result_queue.executeUpdate_results [OF assms])

definition scripted :: "sim_result list \<Rightarrow> sim_conn" where
  "scripted rs = \<lparr>sc_script = (\<lambda>q. if q = ''go'' then Some rs else None), sc_pending = [], sc_errno = 0, sc_log = []\<rparr>"

theorem update_walks_results_witness:
  "fst (st_executeUpdate 3 sim_api ''go'' (new_Statement (Some (scripted [Sim_count 7, Sim_count 2])) TYPE_SCROLL_INSENSITIVE)) = Inr 2
    \<and> fst (st_executeUpdate 3 sim_api ''go'' (new_Statement (Some (scripted [Sim_count 7, Sim_rows big_result, Sim_count 2])) TYPE_SCROLL_INSENSITIVE))
      = Inl (Sql_invalid_argument ''Statement returning result set'')"
proof -
  have q: "nc_query sim_api ''go'' (scripted rs) = (False, (scripted rs)\<lparr>sc_pending := rs, sc_log := [''go'']\<rparr>)" for rs
    by (simp add: sim_api_def sim_query_def scripted_def)
  have s: "\<not> st_closed (new_Statement (Some (scripted rs)) TYPE_SCROLL_INSENSITIVE)"
    "st_proxy (new_Statement (Some (scripted rs)) TYPE_SCROLL_INSENSITIVE) = Some (scripted rs)" for rs
    by (simp_all add: new_Statement_def)
  note w = update_walks_results [OF sim.result_queue_axioms s q]
  from w [of "[Sim_count 7, Sim_count 2]" "Some 7" "[Some 2]" 3] w [of "[Sim_count 7, Sim_rows big_result, Sim_count 2]" "Some 7" "[None, Some 2]" 3]
  show ?thesis by (auto simp: cast_int_def)
qed


definition open_db :: "nat db connection" where
  "open_db = (new_ConnectionData \<lparr>db_conn = scripted [], db_log = []\<rparr>)\<lparr>c_valid := True\<rparr>"

lemma open_db_simps [simp]: "c_valid open_db" "c_proxy open_db = Some \<lparr>db_conn = scripted [], db_log = []\<rparr>"
  by (simp_all add: open_db_def new_ConnectionData_def)


text \<open>
  C22: \<^verbatim>\<open>SQLConn::execute\<close> with one letter per argument: the statement is prepared, every argument is bound
  at its position with the type its letter names, the statement is executed once and closed; the
  connection stays open.
\<close>

theorem sql_execute_binds:
  assumes "preparing link calls log query" "c_valid (sq_conn s)" "c_proxy (sq_conn s) = Some n"
    and "length args = placeholders False query" "list_all short_arg args"
  shows "\<exists>s' n'. sq_execute fuel link (map letter args) query args s = (Inr (), s')
    \<and> c_valid (sq_conn s') \<and> c_proxy (sq_conn s') = Some n' \<and> log n' = log n @ [[Bind (map arg_bind args), Run]]"
  by (rule preparing.sq_execute_logs [OF assms])

theorem sql_execute_binds_witness:
  "\<exists>s n. sq_execute 1 db_link ''si'' ''INSERT INTO `t` VALUES (?,?)'' [Va_string ''x'', Va_int 5] (new_SQLConn open_db) = (Inr (), s)
    \<and> c_proxy (sq_conn s) = Some n
    \<and> db_log n = [[Bind [arg_bind (Va_string ''x''), arg_bind (Va_int 5)], Run]]"
proof -
  have "length [Va_string ''x'', Va_int 5 :: nat vararg] = placeholders False ''INSERT INTO `t` VALUES (?,?)''" by simp
  from sql_execute_binds [OF db.preparing_axioms _ _ this, where s = "new_SQLConn open_db" and fuel = 1
      and n = "\<lparr>db_conn = scripted [], db_log = []\<rparr>"] show ?thesis
    by (auto simp: new_SQLConn_def)
qed

text \<open>
  C23: the table generator returns, and its connection has executed one \<^verbatim>\<open>INSERT\<close> for every row asked for,
  bound to the seven values of a sale: a known customer, product and state, a day from 1 to 28, a month,
  a year from 1996 to 2017 and a quantity from 1 to 1000.
\<close>

theorem generator_fills_table:
  fixes link :: "('n, 'r, 'p, 'd) nlink"
  assumes "preparing link calls log insert_stmt" "c_valid c" "c_proxy c = Some n" "log n1 = log n"
    and "nc_query (nl_conn link) (''USE `'' @ DATABASE @ ''`'') n = (False, n1)"
    and "length argv \<noteq> 2 \<and> rows = 3000 \<or> length argv = 2 \<and> (\<exists>i. atoi (argv ! 1) = Inr i \<and> rows = nat i)"
  shows "\<exists>s n'. generate_main fuel link rnd c argv = (Inr 0, s) \<and> c_proxy (sq_conn s) = Some n'
    \<and> log n' = log n @ map (\<lambda>j. [Bind (map arg_bind (sale_args rnd j)), Run]) [0..<rows]
    \<and> (\<forall>j. sale_ok (sale_args rnd j :: 'd vararg list))"
proof -
  have "length DATABASE > 0" by (simp add: DATABASE_def)
  with assms(2,3,5) obtain s where s: "new_SQLConn_database link c DATABASE = (Inr (), s)"
    "c_valid (sq_conn s)" "c_proxy (sq_conn s) = Some n1"
    by (simp add: new_SQLConn_database_def update_database_def new_SQLConn_def on_conn_def con_setSchema_def con_run_def
        con_statement_def con_createStatement_def con_checkClosed_def st_execute_def st_do_query_def st_checkClosed_def
        st_lock_def st_ask_def st_call_def new_Statement_def)
  from preparing.generate_loop_logs [OF assms(1) refl s(2,3), of fuel rnd 0 rows] obtain s' n' where
    "generate_loop fuel link rnd 0 rows s = (Inr (), s')" "c_proxy (sq_conn s') = Some n'"
    "log n' = log n @ map (\<lambda>j. [Bind (map arg_bind (sale_args rnd j)), Run]) [0..<rows]" using assms(4) by auto
  with s(1) assms(6) sale_args_ok show ?thesis by (auto simp: generate_main_def)
qed

theorem generator_fills_table_witness:
  "\<exists>(c :: nat db connection) s n. generate_main 1 db_link (\<lambda>k. 3 * k) c [''generate'', ''2''] = (Inr 0, s) \<and> c_proxy (sq_conn s) = Some n
    \<and> length (db_log n) = 2 \<and> sale_ok (sale_args (\<lambda>k. 3 * k) 1 :: nat vararg list)"
proof -
  let ?d = "\<lparr>db_conn = \<lparr>sc_script = (\<lambda>q. Some [Sim_count 0]), sc_pending = [], sc_errno = 0, sc_log = []\<rparr>, db_log = []\<rparr> :: nat db"
  let ?c = "(new_ConnectionData ?d)\<lparr>c_valid := True\<rparr>"
  have c: "c_valid ?c" "c_proxy ?c = Some ?d" by (simp_all add: new_ConnectionData_def)
  obtain n1 where n1: "nc_query (nl_conn (db_link :: (nat db, client, nat recorder, nat) nlink)) (''USE `'' @ DATABASE @ ''`'') ?d = (False, n1)"
    "db_log n1 = db_log ?d"
    by (simp add: db_link_def db_api_def on_sim_def sim_api_def sim_query_def)
  have "atoi ''2'' = Inr 2" by code_simp
  then have "length [''generate'', ''2''] \<noteq> 2 \<and> (2::nat) = 3000
      \<or> length [''generate'', ''2''] = 2 \<and> (\<exists>i. atoi ([''generate'', ''2''] ! 1) = Inr i \<and> (2::nat) = nat i)" by simp
  from generator_fills_table [OF db.preparing_axioms c n1(2,1) this, of 1 "\<lambda>k. 3 * k"] obtain s n where
    "generate_main 1 db_link (\<lambda>k. 3 * k) ?c [''generate'', ''2''] = (Inr 0, s)" "c_proxy (sq_conn s) = Some n"
    "db_log n = map (\<lambda>j. [Bind (map arg_bind (sale_args (\<lambda>k. 3 * k) j)), Run]) [0..<2]"
    "sale_ok (sale_args (\<lambda>k. 3 * k) 1 :: nat vararg list)" by auto
  then show ?thesis by (intro exI [of _ ?c] exI [of _ s] exI [of _ n]) simp
qed
section \<open>Opening a connection\<close>

text \<open>
  C24: the constructor of \<^verbatim>\<open>SQLConn\<close> on the address and account of the program's configuration, whenever the
  server accepts: it returns, and the library has been asked, in this order, for the protocol and the
  character set, for one connection to port 3306 of the local host with that account, for autocommit, for
  the isolation level, for the server's variable, and for the database. The object reports the level and
  the mode that were set.
\<close>

theorem program_opens_connection:
  assumes "connecting no log link rows_of cur names" "database \<noteq> []" "0 < fuel"
  shows "\<exists>s n'. open_SQLConn_database fuel version link no database n = Inr s \<and> sq_database s = database
    \<and> c_proxy (sq_conn s) = Some n' \<and> c_valid (sq_conn s) \<and> c_autocommit (sq_conn s)
    \<and> c_isolation (sq_conn s) = TRANSACTION_REPEATABLE_READ
    \<and> log n' = log n @ library_events version program_uri @ [Ev_connect program_args] @ session_events
        @ [Ev_query (''USE `'' @ database @ ''`'')]"
proof -
  obtain k where "fuel = Suc k" using assms(3) by (cases fuel) simp_all
  with connecting.program_connects [OF assms(1,2), of k version n] show ?thesis by simp
qed

definition new_front :: front where "new_front = \<lparr>fr_log = [], fr_pending = None\<rparr>"

theorem program_opens_connection_witness:
  "\<exists>s n'. open_SQLConn_database 1 80011 (front_link ''0'' :: (front, client, nat recorder, nat) nlink) (front_open True) ''CS562'' new_front = Inr s
    \<and> c_proxy (sq_conn s) = Some n' \<and> c_valid (sq_conn s)
    \<and> fr_log n' = [Ev_protocol PROTOCOL_TCP, Ev_option MYSQL_SET_CHARSET_NAME (Ov_string ''utf8''),
        Ev_connect \<lparr>ca_host = ''127.0.0.1'', ca_user = ''root'', ca_password = ''password'', ca_schema = [], ca_port = 3306,
          ca_socket = [], ca_flags = 131072\<rparr>,
        Ev_autocommit True, Ev_query ''SET SESSION TRANSACTION ISOLATION LEVEL REPEATABLE READ'',
        Ev_query table_names_query, Ev_query ''USE `CS562`'']"
proof -
  obtain s n' where s: "open_SQLConn_database 1 80011 (front_link ''0'' :: (front, client, nat recorder, nat) nlink) (front_open True) ''CS562'' new_front = Inr s"
    "c_proxy (sq_conn s) = Some n'" "c_valid (sq_conn s)"
    "fr_log n' = fr_log new_front @ library_events 80011 program_uri @ [Ev_connect program_args] @ session_events
        @ [Ev_query (''USE `'' @ ''CS562'' @ ''`'')]"
    using program_opens_connection [OF front.connecting_axioms, of "''CS562''" 1 80011 "''0''" new_front] by auto
  have "fr_log n' = [Ev_protocol PROTOCOL_TCP, Ev_option MYSQL_SET_CHARSET_NAME (Ov_string ''utf8''),
        Ev_connect \<lparr>ca_host = ''127.0.0.1'', ca_user = ''root'', ca_password = ''password'', ca_schema = [], ca_port = 3306,
          ca_socket = [], ca_flags = 131072\<rparr>,
        Ev_autocommit True, Ev_query ''SET SESSION TRANSACTION ISOLATION LEVEL REPEATABLE READ'',
        Ev_query table_names_query, Ev_query ''USE `CS562`'']"
    using s(4) by (simp add: new_front_def library_events_def program_uri_def program_args_def login_args_def MYSQL_USERNAME_def
        MYSQL_PASSWORD_def uri_SocketOrPipe_def tcpProtocol_def CLIENT_MULTI_RESULTS_def session_events_def isolation_text_def)
  with s(1-3) show ?thesis by blast
qed

text \<open>
  C25: when the server refuses the connection, the driver's \<^verbatim>\<open>connect\<close> throws the server's error, whatever the
  address and the account, and the connection has no client library any more.
\<close>

theorem refused_connection_reported:
  assumes "options_known no log" "parseUri host new_Uri = (Inr b, u)" "u_protocol u \<noteq> PROTOCOL_PIPE" "uri_Host u = Inr h"
    and "\<And>n. \<exists>n'. no_connect no (login_args h u user password) n = (False, n') \<and> nc_errNo (nl_conn link) n' = e"
  shows "\<exists>c. driver_connect fuel version link no host user password n = (Inl (Native_error e), c) \<and> c_proxy c = None"
  by (rule options_known.refused [OF assms])

theorem refused_connection_reported_witness:
  "\<exists>c. driver_connect 0 50700 (front_link ''0'' :: (front, client, nat recorder, nat) nlink) (front_open False) ''unix:///tmp/mysql.sock''
      ''root'' ''password'' new_front = (Inl (Native_error 2002), c) \<and> c_proxy c = None"
proof -
  let ?u = "new_Uri\<lparr>u_protocol := PROTOCOL_SOCKET, u_host := ''/tmp/mysql.sock''\<rparr>"
  have "parseUri ''unix:///tmp/mysql.sock'' new_Uri = (Inr True, ?u)"
    by (simp add: parseUri_def setSocket_def c_str_def)
  then show ?thesis
    by (rule refused_connection_reported [OF front_options.options_known_axioms])
      (simp_all add: uri_Host_def front_open_def front_link_def front_conn_def)
qed

text \<open>
  C26: the options of a connection win over its address, in whatever order and with whatever other options
  they come: the account is that of the options, and the schema and the port are those of the address
  only when there is no option for them.
\<close>

theorem options_over_address:
  assumes "distinct (map fst ps)" "connect_args_of i = Inr a"
    and "sthen (init_address ps) (sthen (init_loop version no ps) (init_library version no ps)) (new_opening c) = (Inr (), i)"
  shows "ca_user a = (case map_of ps ''userName'' of None \<Rightarrow> [] | Some v \<Rightarrow> text_in v)
    \<and> ca_password a = (case map_of ps ''password'' of None \<Rightarrow> [] | Some v \<Rightarrow> text_in v)
    \<and> ca_schema a = (case map_of ps ''schema'' of None \<Rightarrow> u_schema (address_of ps) | Some v \<Rightarrow> c_str (text_in v))
    \<and> ca_port a = (case map_of ps ''port'' of None \<Rightarrow> u_port (address_of ps) | Some v \<Rightarrow> port_in v)"
  using arguments_of [OF assms] by blast

definition socket_options :: options where
  "socket_options = [(''hostName'', Var_string ''unix:///tmp/mysql.sock''), (''port'', Var_int 3307), (''schema'', Var_string ''CS562'')]"

theorem options_over_address_witness:
  "\<exists>i a. sthen (init_address socket_options) (sthen (init_loop 80011 (front_open True) socket_options)
        (init_library 80011 (front_open True) socket_options)) (new_opening (new_ConnectionData new_front)) = (Inr (), i)
    \<and> connect_args_of i = Inr a \<and> ca_user a = [] \<and> ca_schema a = ''CS562'' \<and> ca_port a = 3307"
proof -
  let ?m = "sthen (init_address socket_options) (sthen (init_loop 80011 (front_open True) socket_options)
        (init_library 80011 (front_open True) socket_options)) (new_opening (new_ConnectionData new_front))"
  obtain i where i: "?m = (Inr (), i)" "uri_Host (in_uri i) = Inr ''/tmp/mysql.sock''"
    by (simp add: socket_options_def host_name_option init_address_def with_string_def parseUri_def setSocket_def c_str_def
        login_option in_set_uri_def setPort_def setSchema_uri_def init_library_def on_in_def con_call_def front_open_def
        new_opening_def new_ConnectionData_def set_option_def uri_Host_def)
  then obtain a where a: "connect_args_of i = Inr a" by (simp add: connect_args_of_def)
  have "distinct (map fst socket_options)" by (simp add: socket_options_def)
  from options_over_address [OF this a i(1)] have "ca_user a = [] \<and> ca_schema a = ''CS562'' \<and> ca_port a = 3307"
    by (simp add: socket_options_def text_in_def port_in_def c_str_def)
  with i(1) a show ?thesis by blast
qed


section \<open>Other result sets and column descriptions\<close>

text \<open>The same two rows as a constructed result set and as the result of a prepared statement.\<close>

definition two_art :: "nat myval list list" where
  "two_art = [[typeString ''cust'', typeString ''varchar''], [typeString ''quant'', typeString ''int'']]"

definition two_art_set :: "nat art_set" where
  "two_art_set = new_ArtResultSet [''COLUMN_NAME'', ''DATA_TYPE''] two_art"

definition text_of :: "string \<Rightarrow> rcell" where
  "text_of v = \<lparr>rc_null = False, rc_length = length v, rc_buffer = Buf_bytes v\<rparr>"

definition two_cells :: "rcell list list" where
  "two_cells = [[text_of ''cust'', text_of ''varchar''], [text_of ''quant'', text_of ''int'']]"

definition two_prepared :: "mem_stmt prs" where
  "two_prepared = \<lparr>pr_proxy = \<lparr>ms_rows = two_cells, ms_cur = 0, ms_fields = [echo_field, echo_field]\<rparr>, pr_last_col = no_column,
     pr_num_fields = 2, pr_num_rows = 2, pr_position = 0, pr_names = Map.empty, pr_valid = True,
     pr_type = TYPE_SCROLL_INSENSITIVE, pr_binds = buffers [echo_field, echo_field],
     pr_fields = [echo_field, echo_field], pr_uses = 1\<rparr>"

lemma two_prepared_agrees: "pr_agrees ms_rows ms_cur two_cells [echo_field, echo_field] (buffers [echo_field, echo_field]) two_prepared"
proof -
  have "length (buffers [echo_field, echo_field]) = length [echo_field, echo_field]"
    by (rule buffers_ok) (simp add: echo_field_def allocate_buffer_for_field_def)
  then show ?thesis by (simp add: pr_agrees_def two_prepared_def two_cells_def hit_def)
qed

text \<open>
  C27: the three kinds of scrollable result sets move alike: on results with the same number of rows, a
  sequence of movements returns the same values, ends at the same position, which is the specified one,
  and leaves each of them consistent (the current row loaded). Excepted are \<^verbatim>\<open>absolute\<close> of the least
  \<^verbatim>\<open>int\<close> and, for the buffered results of plain statements, the \<open>unsought\<close> movements.
\<close>

theorem result_sets_move_alike:
  assumes "stored_result api rows_of cur" "agrees api rows_of cur rows fs s"
    and "stmt_result nr prows pcur" "pr_agrees prows pcur cells pfs pbs t"
    and "art_ok vals u" "n = length rows" "length cells = n" "length vals = n" "int n \<le> INT_MAX"
    and "pr_position t = rs_position s" "ar_position u = rs_position s"
    and "allowed_moves (\<lambda>p m. m \<noteq> Absolute INT_MIN \<and> \<not> unsought n p m) n (rs_position s) ms"
  shows "\<exists>s' t' u'. let (bs, q) = spec_moves n (rs_position s) ms in
      run_moves (run_move api) ms s = (Inr bs, s') \<and> rs_position s' = q \<and> agrees api rows_of cur rows fs s'
    \<and> run_moves (ps_run_move nr) ms t = (Inr bs, t') \<and> pr_position t' = q \<and> pr_agrees prows pcur cells pfs pbs t'
    \<and> run_moves art_run_move ms u = (Inr bs, u') \<and> ar_position u' = q \<and> art_ok vals u'"
proof -
  have a: "allowed_moves (\<lambda>p m. \<not> unsought (length rows) p m) (length rows) (rs_position s) ms"
    "allowed_moves (\<lambda>p m. m \<noteq> Absolute INT_MIN) (length cells) (pr_position t) ms"
    "allowed_moves (\<lambda>p m. m \<noteq> Absolute INT_MIN) (length vals) (ar_position u) ms"
    using allowed_moves_mono [OF assms(12)] assms(6-8,10,11) by auto
  have "int (length rows) \<le> INT_MAX" "int (length cells) \<le> INT_MAX" "int (length vals) \<le> INT_MAX"
    using assms(6-9) by simp_all
  note n = this
  from stored_result.moves_along [OF assms(1,2) n(1) a(1)] stmt_result.moves_along [OF assms(3,4) n(2) a(2)]
    art_moves_along [OF assms(5) n(3) a(3)] assms(6-8,10,11)
  show ?thesis by (simp add: case_prod_unfold Let_def) blast
qed

definition four_moves :: "move list" where
  "four_moves = [Next, Last, Absolute (- 2), Relative 5]"

lemma four_moves_spec:
  "spec_moves 2 0 four_moves = ([True, True, True, False], 3)"
  "allowed_moves (\<lambda>p m. m \<noteq> Absolute INT_MIN \<and> \<not> unsought 2 p m) 2 0 four_moves"
  by (simp_all add: four_moves_def move_int_def in_int32_def unsought_def move_pos_def clamp_def hit_def)

theorem result_sets_move_alike_witness:
  "\<exists>s' t' u'. run_moves (run_move client_api) four_moves two_set = (Inr [True, True, True, False], s')
    \<and> run_moves (ps_run_move mem_api) four_moves two_prepared = (Inr [True, True, True, False], t')
    \<and> run_moves art_run_move four_moves two_art_set = (Inr [True, True, True, False], u')
    \<and> rs_position s' = 3 \<and> pr_position t' = 3 \<and> ar_position u' = 3"
proof -
  have "art_ok two_art two_art_set" unfolding two_art_set_def by (rule new_art_ok) (simp add: two_art_def)
  note all = result_sets_move_alike [OF client.stored_result_axioms two_set_agrees mem.stmt_result_axioms two_prepared_agrees this,
      of 2 four_moves]
  have p: "rs_position two_set = 0" "pr_position two_prepared = 0" "ar_position two_art_set = 0"
    by (simp_all add: two_set_def new_ResultSet_def two_prepared_def two_art_set_def new_ArtResultSet_def)
  have l: "length two_rows = 2" "length two_cells = 2" "length two_art = 2"
    by (simp_all add: two_rows_def two_cells_def two_art_def)
  from all show ?thesis unfolding p l using four_moves_spec by (simp add: p) blast
qed

text \<open>
  C28: a query with arguments through \<^verbatim>\<open>SQLConn::fetch\<close>, and a loop over \<^verbatim>\<open>next\<close> and \<^verbatim>\<open>getString\<close>: the values read
  from a text column are those of the server's answer to the statement run with the arguments bound in
  order, every row once, in order.
\<close>

theorem prepared_query_reads_answer:
  assumes "answering link calls log query nr rows_of cur answer flds"
    and "c_valid (sq_conn s)" "c_proxy (sq_conn s) = Some n" "c_ps_type (sq_conn s) = TYPE_SCROLL_INSENSITIVE"
    and "length args = placeholders False query" "list_all short_arg args"
    and "cs = [Bind (map arg_bind args), Run]" "int (length (answer cs)) \<le> INT_MAX" "length (answer cs) < fuel'"
    and "1 \<le> col" "col \<le> length (flds cs)" "mysql_type_to_datatype (flds cs ! (col - 1)) = Inr t" "is_text_type t"
    and "list_all (\<lambda>r. text_cell (r ! (col - 1))) (answer cs)"
  shows "\<exists>res s' res'. sq_fetch fuel link nr (map letter args) query args s = (Inr res, s')
    \<and> drain fuel' (pr_next nr) (pr_getString pd col) [] res = (Inr (map (\<lambda>r. cell_text (r ! (col - 1))) (answer cs)), res')"
  by (rule answering.fetched_texts [OF assms])

definition two_args :: "nat vararg list" where
  "two_args = [Va_string ''NY'', Va_string ''CT'']"

theorem prepared_query_reads_answer_witness:
  "\<forall>pd :: nat pdouble. \<exists>res s' res'.
      sq_fetch 5 echo_link echo_nres ''ss'' ''SELECT ? UNION ALL SELECT ?'' two_args (new_SQLConn open_db) = (Inr res, s')
    \<and> drain 9 (pr_next echo_nres) (pr_getString pd 1) [] res = (Inr [''NY'', ''CT''], res')"
proof
  fix pd :: "nat pdouble"
  let ?cs = "[Bind (map arg_bind two_args), Run]"
  have "\<exists>res s' res'. sq_fetch 5 echo_link echo_nres (map letter two_args) ''SELECT ? UNION ALL SELECT ?'' two_args (new_SQLConn open_db) = (Inr res, s')
    \<and> drain 9 (pr_next echo_nres) (pr_getString pd 1) [] res = (Inr (map (\<lambda>r. cell_text (r ! (1 - 1))) (echo_rows ?cs)), res')"
    by (rule prepared_query_reads_answer [OF echo.answering_axioms, where t = DT_VARCHAR])
      (simp_all add: new_SQLConn_def open_db_def new_ConnectionData_def two_args_def arg_bind_def text_cell_def echo_field_def
        mysql_type_to_datatype_def string_type_def binary_text_def has_flag_def is_text_type_def)
  then show "\<exists>res s' res'.
      sq_fetch 5 echo_link echo_nres ''ss'' ''SELECT ? UNION ALL SELECT ?'' two_args (new_SQLConn open_db) = (Inr res, s')
    \<and> drain 9 (pr_next echo_nres) (pr_getString pd 1) [] res = (Inr [''NY'', ''CT''], res')"
    by (simp add: two_args_def arg_bind_def cell_text_def)
qed

text \<open>
  C29: integers of a prepared statement's result. The client library wrote the number \<open>i\<close> in its type's size and
  signedness; \<^verbatim>\<open>getInt64\<close> and \<^verbatim>\<open>getUInt64\<close> return it exactly if the type they return can hold it, and reduced modulo
  \<open>2 ^ 64\<close> otherwise (a negative number read as unsigned, an unsigned one above \<open>2 ^ 63 - 1\<close> read as signed);
  \<^verbatim>\<open>getInt\<close> returns its low 32 bits, and \<^verbatim>\<open>getString\<close> a text that reads back as the number.
\<close>

theorem prepared_integers_read:
  assumes "pr_ready s" "1 \<le> col" "col \<le> pr_num_fields s" "holds_int (pr_binds s ! (col - 1)) i"
    and "mysql_type_to_datatype (pr_fields s ! (col - 1)) = Inr t" "is_int_type t"
  shows "fst (pr_getInt64 pd col s) = Inr (if - (2 ^ 63) \<le> i \<and> i < 2 ^ 63 then i else to_int64 i)
    \<and> fst (pr_getUInt64 pd col s) = Inr (if 0 \<le> i \<and> i < 2 ^ 64 then i else to_uint64 i)
    \<and> fst (pr_getInt pd col s) = Inr (to_int32 (to_int64 i))
    \<and> (\<exists>v. fst (pr_getString pd col s) = Inr v \<and> strtol10 v = Some i)"
proof -
  have "to_int64 i = i" if "- (2 ^ 63) \<le> i" "i < 2 ^ 63" using that by (simp add: to_int64_def)
  moreover have "to_uint64 i = i" if "0 \<le> i" "i < 2 ^ 64" using that by (simp add: to_uint64_def)
  ultimately show ?thesis
    using bind_values_int [OF assms(4,6), of pd] assms(4,5)
    by (simp add: pr_get_ready [OF assms(1-3)] pr_getInt64_def pr_getUInt64_def pr_getInt_def pr_getString_def Let_def
        holds_int_def strtol10_idec)
qed

definition quantities :: "mem_stmt prs" where
  "quantities = two_prepared\<lparr>pr_position := 1, pr_num_fields := 1, pr_fields := [echo_field\<lparr>fld_type := MYSQL_TYPE_SHORT\<rparr>],
     pr_binds := [\<lparr>rb_type = MYSQL_TYPE_SHORT, rb_size = 2, rb_unsigned = False,
       rb_cell = \<lparr>rc_null = False, rc_length = 2, rc_buffer = Buf_bytes (le_bytes 2 (- 300))\<rparr>\<rparr>]\<rparr>"

theorem prepared_integers_read_witness:
  "\<forall>pd :: nat pdouble. fst (pr_getInt64 pd 1 quantities) = Inr (- 300) \<and> fst (pr_getUInt64 pd 1 quantities) = Inr (2 ^ 64 - 300)
    \<and> (\<exists>v. fst (pr_getString pd 1 quantities) = Inr v \<and> strtol10 v = Some (- 300))"
proof
  fix pd :: "nat pdouble"
  have q: "pr_ready quantities" "(1::nat) \<le> 1" "1 \<le> pr_num_fields quantities" "holds_int (pr_binds quantities ! (1 - 1)) (- 300)"
    "mysql_type_to_datatype (pr_fields quantities ! (1 - 1)) = Inr DT_SMALLINT" "is_int_type DT_SMALLINT"
    by (simp_all add: quantities_def two_prepared_def pr_ready_def holds_int_def mysql_type_to_datatype_def is_int_type_def)
  show "fst (pr_getInt64 pd 1 quantities) = Inr (- 300) \<and> fst (pr_getUInt64 pd 1 quantities) = Inr (2 ^ 64 - 300)
      \<and> (\<exists>v. fst (pr_getString pd 1 quantities) = Inr v \<and> strtol10 v = Some (- 300))"
    using prepared_integers_read [OF q, of pd] by (simp add: to_uint64_def)
qed

text \<open>
  C30: \<^verbatim>\<open>getString\<close> of a prepared statement's result reads as many bytes as the value has, not as many as the
  buffer: it returns the value when that is at most one byte longer than the column's longest value as the
  library computed it (the buffer's size), and reads behind the buffer otherwise. For results that are
  not stored that length is 0, and every text of two characters or more is read out of bounds.
\<close>

theorem prepared_text_overread:
  assumes "pr_ready s" "1 \<le> col" "col \<le> pr_num_fields s" "f = pr_fields s ! (col - 1)" "b = pr_binds s ! (col - 1)"
    and "fld_type f \<in> {MYSQL_TYPE_STRING, MYSQL_TYPE_VAR_STRING, MYSQL_TYPE_TINY_BLOB, MYSQL_TYPE_MEDIUM_BLOB,
      MYSQL_TYPE_LONG_BLOB, MYSQL_TYPE_BLOB, MYSQL_TYPE_JSON}" "mysql_type_to_datatype f = Inr t" "is_text_type t"
    and "fresh_bind f = Inr b0" "blank b = blank b0"
    and "\<not> rc_null (rb_cell b)" "rc_buffer (rb_cell b) = Buf_bytes bs" "length bs = rb_size b"
  shows "fst (pr_getString pd col s) =
    (if rc_length (rb_cell b) \<le> fld_max_length f + 1 then Inr (take (rc_length (rb_cell b)) bs) else Inl Undefined_behaviour)"
proof -
  have "rb_size b = rb_size b0" using arg_cong [OF assms(10), of rb_size] by (simp add: blank_def)
  also have "\<dots> = fld_max_length f + 1" using assms(6,9) by (auto simp: fresh_bind_def allocate_buffer_for_field_def)
  finally have "rb_size b = fld_max_length f + 1" .
  then show ?thesis
    using bind_string_text [OF assms(8,12), of pd] assms(4,5,7,11,13)
    by (simp add: pr_get_ready [OF assms(1-3)] pr_getString_def Let_def)
qed

text \<open>A result that is not stored: the longest value of its column is not known.\<close>

definition unstored :: "mem_stmt prs" where
  "unstored = two_prepared\<lparr>pr_position := 1, pr_type := TYPE_FORWARD_ONLY, pr_num_fields := 1, pr_fields := [echo_field\<lparr>fld_max_length := 0\<rparr>],
     pr_binds := [\<lparr>rb_type = MYSQL_TYPE_VAR_STRING, rb_size = 1, rb_unsigned = False,
       rb_cell = \<lparr>rc_null = False, rc_length = 4, rc_buffer = Buf_bytes ''c''\<rparr>\<rparr>]\<rparr>"

theorem prepared_text_overread_witness: "\<forall>pd :: nat pdouble. fst (pr_getString pd 1 unstored) = Inl Undefined_behaviour"
proof
  fix pd :: "nat pdouble"
  let ?f = "pr_fields unstored ! (1 - 1)" and ?b = "pr_binds unstored ! (1 - 1)"
  have f: "fresh_bind ?f = Inr (?b\<lparr>rb_cell := \<lparr>rc_null = False, rc_length = 0, rc_buffer = Buf_bytes [CHR 0x00]\<rparr>\<rparr>)"
    by (simp add: unstored_def fresh_bind_def echo_field_def allocate_buffer_for_field_def has_flag_def)
  have "fst (pr_getString pd 1 unstored) =
    (if rc_length (rb_cell ?b) \<le> fld_max_length ?f + 1 then Inr (take (rc_length (rb_cell ?b)) ''c'') else Inl Undefined_behaviour)"
    by (rule prepared_text_overread [OF _ _ _ refl refl _ _ _ f, where t = DT_VARCHAR])
      (simp_all add: unstored_def two_prepared_def pr_ready_def pr_isScrollable_def echo_field_def has_flag_def blank_def
        mysql_type_to_datatype_def string_type_def binary_text_def is_text_type_def)
  then show "fst (pr_getString pd 1 unstored) = Inl Undefined_behaviour" by (simp add: unstored_def)
qed

section \<open>The description of the database\<close>

text \<open>
  C31: a foreign key without a rule for deletions is reported with the rule of a key behind it: the search for
  \<^verbatim>\<open>ON DELETE\<close> does not stop at the end of the key.
\<close>

theorem foreign_key_takes_later_rule:
  assumes "\<not> sublist ''CONSTRAINT'' before" "wf_key n fs t rs" "\<not> sublist ''ON DELETE'' between"
    and "length (before @ key_head n fs t rs @ between @ ''ON DELETE '' @ rule_text x @ behind) < npos"
    and "\<not> sublist ''ON UPDATE'' (drop 1 behind)"
  shows "\<exists>k. parseImportedKeys ''`'' (before @ key_head n fs t rs @ between @ ''ON DELETE '' @ rule_text x @ behind) = Inr (Some k)
    \<and> fk_constraint_name k = n \<and> fk_update_cascade k ''ON DELETE'' = Some (rule_code x)"
  by (rule rule_of_later_key [OF assms])

theorem foreign_key_takes_later_rule_witness:
  "\<exists>k. parseImportedKeys ''`'' ''(CONSTRAINT `a` FOREIGN KEY (`x`) REFERENCES `t` (`i`), CONSTRAINT `b` FOREIGN KEY (`y`) REFERENCES `u` (`j`) ON DELETE CASCADE)'' = Inr (Some k)
    \<and> fk_constraint_name k = ''a'' \<and> fk_update_cascade k ''ON DELETE'' = Some importedKeyCascade"
  using foreign_key_takes_later_rule [of "''(''" "''a''" "[''x'']" "''t''" "[''i'']"
    "'', CONSTRAINT `b` FOREIGN KEY (`y`) REFERENCES `u` (`j`) ''" rule.Cascade "'')''"]
  by (simp add: key_head_def npos_def wf_key_def plain_name_def sublist_Cons_right)



text \<open>
  C33: the primary keys of a table are the same on both routes: if the rows that \<^verbatim>\<open>information_schema\<close> answers with are those
  of \<^verbatim>\<open>SHOW KEYS\<close> for the key \<^verbatim>\<open>PRIMARY\<close>, \<^verbatim>\<open>getPrimaryKeys\<close> returns the same result set with and without \<^verbatim>\<open>information_schema\<close>,
  whose names of columns are read in the server's order.
\<close>

theorem primary_keys_by_both_routes:
  fixes lib :: "('n, 'r, 'p, 'd, 'f) md_lib" and ld :: "'e long_double"
  assumes "answering link calls log primary_keys_query nr stmt_rows stmt_cur answer flds" "showing link rows_of cur shown cols"
    and "ml_link lib = link" "ml_nres lib = nr"
    and "describing c m" "c_use_info_schema c" "49999 < cm_server_version m" "old_style d m'"
    and "length schema \<le> 256 * 1024" "length table \<le> 256 * 1024"
    and "shown (show_keys schema table) = Some rows" "keys_shown (cols (show_keys schema table)) name col seq"
    and "length (flds (two_texts schema table)) = 6"
      "map (row_texts (ml_double lib) (flds (two_texts schema table))) (answer (two_texts schema table)) =
        map Inr (map (primary_texts schema name col seq) (filter (is_primary name) rows))"
    and "int (length rows) \<le> INT_MAX" "length rows < fuel"
  shows "\<exists>res c' d' s'. md_getPrimaryKeys fuel lib schema table c = (Inr res, c') \<and> md_getPrimaryKeys fuel lib schema table d = (Inr res, d')
    \<and> drain fuel ar_next (ar_getString ld 4) [] res = (Inr (map (\<lambda>r. cell_string r col) (filter (is_primary name) rows)), s')"
proof -
  let ?vals = "map (primary_texts schema name col seq) (filter (is_primary name) rows)"
  let ?res = "new_ArtResultSet key_labels (map (map typeString) ?vals :: 'e myval list list)"
  have "length (answer (two_texts schema table)) \<le> length rows"
    using arg_cong [OF assms(14), of length] by simp
  then have l: "int (length (answer (two_texts schema table))) \<le> INT_MAX" "length (answer (two_texts schema table)) < fuel"
    using assms(15,16) by linarith+
  have a: "\<exists>c'. md_getPrimaryKeys fuel lib schema table c = (Inr ?res, c')"
    by (rule primary_keys_answered [OF assms(1,3-7,9,10) l assms(13,14)])
  have b: "\<exists>d'. md_getPrimaryKeys fuel lib schema table d = (Inr ?res, d')"
    by (rule showing.primary_keys_by_show [OF assms(2,3,8,11,16,12)])
  have "\<exists>s'. drain fuel ar_next (ar_getString ld 4) [] ?res = (Inr (map (\<lambda>ts. ts ! (4 - 1)) ?vals), s')"
    using assms(16) le_less_trans [OF length_filter_le [of "is_primary name" rows] assms(16)]
    by (intro printed_column printed_texts) (simp_all add: list_all_iff primary_texts_def key_labels_def)
  moreover have "map (\<lambda>ts. ts ! (4 - 1)) ?vals = map (\<lambda>r. cell_string r col) (filter (is_primary name) rows)"
    by (simp add: primary_texts_def)
  ultimately show ?thesis using a b by auto
qed

theorem primary_keys_by_both_routes_witness:
  "\<forall>pd :: nat pdouble. \<forall>ld :: nat long_double. \<exists>res c' d' s'. md_getPrimaryKeys 9 (desk_lib pd) ''s'' ''sales'' (desk_con True) = (Inr res, c')
    \<and> md_getPrimaryKeys 9 (desk_lib pd) ''s'' ''sales'' (desk_con False) = (Inr res, d')
    \<and> drain 9 ar_next (ar_getString ld 4) [] res = (Inr [''cust'', ''prod''], s')"
proof (intro allI)
  fix pd :: "nat pdouble" and ld :: "nat long_double"
  let ?rows = "the (sales_shown (show_keys ''s'' ''sales''))"
  have r: "sales_shown (show_keys ''s'' ''sales'') = Some ?rows" by (simp add: sales_shown_def)
  have f: "filter (is_primary 1) ?rows = [map Some [''sales'', ''PRIMARY'', ''1'', ''cust''], map Some [''sales'', ''PRIMARY'', ''2'', ''prod'']]"
    by (simp add: sales_shown_def is_primary_def cell_string_def)
  have m: "map (row_texts (ml_double (desk_lib pd)) statistics_columns) sales_keys =
      map Inr (map (primary_texts ''s'' 1 3 2) (filter (is_primary 1) ?rows))"
    unfolding f by (simp add: desk_keys_texts primary_texts_def cell_string_def)
  have l: "length ?rows = 3" by (simp add: sales_shown_def)
  show "\<exists>res c' d' s'. md_getPrimaryKeys 9 (desk_lib pd) ''s'' ''sales'' (desk_con True) = (Inr res, c')
      \<and> md_getPrimaryKeys 9 (desk_lib pd) ''s'' ''sales'' (desk_con False) = (Inr res, d')
      \<and> drain 9 ar_next (ar_getString ld 4) [] res = (Inr [''cust'', ''prod''], s')"
    using primary_keys_by_both_routes [OF desk_keys.answering_axioms desk.showing_axioms desk_lib_simps(1,2) desk_con_kinds(1,2) _ desk_con_kinds(3)
        _ _ r desk_keys_shown _ m, of 9 ld] l f
    by (simp add: statistics_columns_def cell_string_def)
qed

text \<open>
  C34: a table's foreign key, from the server's \<^verbatim>\<open>SHOW CREATE TABLE\<close> to the caller of \<^verbatim>\<open>getImportedKeys\<close> on the route without
  \<^verbatim>\<open>information_schema\<close>: a loop over the result set reads, in every column, the key's parts, one row per pair of columns in the
  key's order. The key is the first \<^verbatim>\<open>CONSTRAINT\<close> of the statement and has at most nine columns; its names are plain and quoted with
  backticks; and no \<^verbatim>\<open>ON DELETE\<close> or \<^verbatim>\<open>ON UPDATE\<close> stands behind it (with a later key that has rules, this key is listed with
  them).
\<close>

theorem created_keys_listed:
  fixes lib :: "('n, 'r, 'p, 'd, 'f) md_lib" and ld :: "'e long_double"
  assumes "showing link rows_of cur shown cols" "ml_link lib = link" "old_style c m" "32306 \<le> cm_server_version m"
    and "shown (show_create_table schema table) = Some (r # rows)" "second_text (cols (show_create_table schema table))"
    and "cell_string r 1 = before @ key_text n fs t rs del upd @ behind" "wf_key n fs t rs" "length fs < 10"
    and "\<not> sublist ''CONSTRAINT'' before" "length (before @ key_text n fs t rs del upd @ behind) < npos"
    and "\<not> sublist ''ON DELETE'' behind" "\<not> sublist ''ON UPDATE'' behind" "behind = [] \<or> hd behind \<noteq> CHR '' ''"
    and "shown sql_mode_query = Some (v # vs)" "second_text (cols sql_mode_query)" "std_find ''ANSI_QUOTES'' (cell_string v 1) = None"
    and "1 \<le> col" "col \<le> 14" "length fs < fuel"
  shows "\<exists>res c' s'. md_getImportedKeys fuel lib ld schema table c = (Inr res, c')
    \<and> drain fuel ar_next (ar_getString ld col) [] res = (Inr (map (\<lambda>ts. ts ! (col - 1)) (key_texts schema table n fs t rs del upd)), s')"
proof -
  let ?k = "read_key n fs t rs del upd" and ?ts = "key_texts schema table n fs t rs del upd"
  have p: "parseImportedKeys ''`'' (cell_string r 1) = Inr (Some ?k)"
    unfolding assms(7) by (rule key_read [OF assms(10,11,8,12-14)])
  have a: "\<exists>c'. md_getImportedKeys fuel lib ld schema table c = (Inr (new_ArtResultSet foreign_labels (foreign_rows schema table ?k)), c')"
    by (rule showing.imported_keys_shown [OF assms(1-6) p assms(9,15-17)])
  have "\<exists>s'. drain fuel ar_next (ar_getString ld col) [] (new_ArtResultSet foreign_labels (foreign_rows schema table ?k)) =
      (Inr (map (\<lambda>ts. ts ! (col - 1)) ?ts), s')"
    using assms(18-20)
    by (intro printed_column foreign_rows_texts [OF assms(9)])
      (auto simp: list_all_iff key_texts_def key_pair_texts_def foreign_labels_def simp del: upt_Suc)
  with a show ?thesis by blast
qed

theorem created_keys_listed_witness:
  "\<forall>pd :: nat pdouble. \<forall>ld :: nat long_double. \<exists>res c' s'. md_getImportedKeys 9 (desk_lib pd) ld ''s'' ''sales'' (desk_con False) = (Inr res, c')
    \<and> drain 9 ar_next (ar_getString ld 8) [] res = (Inr [''cust'', ''prod''], s')"
proof (intro allI)
  fix pd :: "nat pdouble" and ld :: "nat long_double"
  let ?b = "''CREATE TABLE `sales` (`cust` int, `prod` int, `state` int, ''"
  let ?t = "key_text ''fk1'' [''cust'', ''prod''] ''customers'' [''id'', ''p''] (Some rule.Cascade) None"
  have q: "show_create_table ''s'' ''sales'' \<noteq> show_keys ''s'' ''sales''" "sql_mode_query \<noteq> show_keys ''s'' ''sales''"
      "sql_mode_query \<noteq> show_create_table ''s'' ''sales''"
    by (simp_all add: show_create_table_def show_keys_def sql_mode_query_def)
  have s: "sales_shown (show_create_table ''s'' ''sales'') = Some [map Some [''sales'', sales_create]]"
    "sales_shown sql_mode_query = Some [map Some [''sql_mode'', ''STRICT_TRANS_TABLES'']]"
    using q by (simp_all add: sales_shown_def)
  have f: "second_text (sales_fields q)" for q by (simp add: second_text_def sales_fields_def text_field_def)
  have c: "cell_string (map Some [''sales'', sales_create]) 1 = ?b @ ?t @ '')''" by (simp add: cell_string_def sales_create_def)
  have w: "wf_key ''fk1'' [''cust'', ''prod''] ''customers'' [''id'', ''p'']" by (simp add: wf_key_def plain_name_def)
  have o: "\<not> sublist ''CONSTRAINT'' ?b" "length (?b @ ?t @ '')'') < npos" by (simp_all add: sublist_Cons_right key_text_def npos_def)
  have a: "std_find ''ANSI_QUOTES'' (cell_string (map Some [''sql_mode'', ''STRICT_TRANS_TABLES'']) 1) = None"
    by (simp add: cell_string_def)
  show "\<exists>res c' s'. md_getImportedKeys 9 (desk_lib pd) ld ''s'' ''sales'' (desk_con False) = (Inr res, c')
    \<and> drain 9 ar_next (ar_getString ld 8) [] res = (Inr [''cust'', ''prod''], s')"
    using created_keys_listed [OF desk.showing_axioms desk_lib_simps(1) desk_con_kinds(3) _ s(1) f c w _ o _ _ _ s(2) f a, where col = 8 and fuel = 9 and ld = ld]
    by (simp add: sublist_Cons_right key_texts_def key_pair_texts_def upt_rec)
qed

text \<open>
  C35: without \<^verbatim>\<open>information_schema\<close> an error of the server on the statement that lists keys, foreign keys or indexes
  is not reported: the list is an empty result set.
\<close>

theorem failed_lists_are_empty:
  assumes "showing link rows_of cur shown cols" "ml_link lib = link" "old_style c m"
    and "shown (show_keys schema table) = None" "shown (show_create_table schema table) = None"
    and "shown (''SHOW INDEX FROM `'' @ schema @ ''`.`'' @ table @ ''`'') = None"
  shows "\<exists>c1 c2 c3. md_getPrimaryKeys fuel lib schema table c = (Inr (new_ArtResultSet key_labels []), c1)
    \<and> md_getImportedKeys fuel lib ld schema table c = (Inr (new_ArtResultSet foreign_labels []), c2)
    \<and> md_getIndexInfo fuel lib ld schema table unique c = (Inr (new_ArtResultSet index_labels []), c3)"
  using showing.failing_show [OF assms(1-3)] assms(4-6) by blast

theorem failed_lists_are_empty_witness:
  "\<forall>pd :: nat pdouble. \<exists>c'. md_getPrimaryKeys 9 (desk_lib pd) ''s'' ''absent'' (desk_con False) = (Inr (new_ArtResultSet key_labels [] :: nat art_set), c')"
proof
  fix pd :: "nat pdouble"
  have "sales_shown (show_keys ''s'' ''absent'') = None" "sales_shown (show_create_table ''s'' ''absent'') = None"
    "sales_shown (''SHOW INDEX FROM `'' @ ''s'' @ ''`.`'' @ ''absent'' @ ''`'') = None"
    by (simp_all add: sales_shown_def show_create_table_def show_keys_def sql_mode_query_def)
  from failed_lists_are_empty [OF desk.showing_axioms desk_lib_simps(1) desk_con_kinds(3) this]
  show "\<exists>c'. md_getPrimaryKeys 9 (desk_lib pd) ''s'' ''absent'' (desk_con False) = (Inr (new_ArtResultSet key_labels [] :: nat art_set), c')"
    by blast
qed

text \<open>
  C36: a grant on a table is read back from the text the server shows: the schema, the table, and the list of privileges, which is
  taken apart into the privileges again, if names are plain, no privilege contains \<^verbatim>\<open>ON\<close> or a comma, and the text does not
  contain \<^verbatim>\<open>ALL PRIVILEGES\<close>. A grant of \<^verbatim>\<open>ALL PRIVILEGES\<close> is read as a fixed list of eight privileges.
\<close>

theorem grants_read_back:
  assumes "ps \<noteq> []" "list_all plain_privilege ps" "\<not> sublist ''ON'' (comma_list ps)"
    and "\<not> sublist ''ALL PRIVILEGES'' (drop 6 (grant_text ps schema table rest))"
    and "plain_name schema" "plain_name table" "length (grant_text ps schema table rest) + 100 < npos"
  shows "parse_grant ''`'' (grant_text ps schema table rest) = Inr (comma_list ps, schema, table)
    \<and> priv_tokens (comma_list ps) 0 = Inr ps
    \<and> parse_grant ''`'' (grant_text [''ALL PRIVILEGES''] schema table rest) = Inr (all_privileges, schema, table)
    \<and> priv_tokens all_privileges 0 =
        Inr [''ALTER'', ''DELETE'', ''DROP'', ''INDEX'', ''INSERT'', ''LOCK TABLES'', ''SELECT'', ''UPDATE'']"
proof (intro conjI)
  have l: "length (grant_text ps schema table rest) < npos" "length (comma_list ps) < npos"
    "length (grant_text table_privileges schema table rest) < npos" "length (comma_list table_privileges) < npos"
    using assms(7) by (simp_all add: grant_text_def table_privileges_def npos_def)
  show "parse_grant ''`'' (grant_text ps schema table rest) = Inr (comma_list ps, schema, table)"
    by (rule grant_read [OF assms(3-6) l(1)])
  show "priv_tokens (comma_list ps) 0 = Inr ps" using tokens_read [OF assms(1,2), of "[]" "[]"] l(2) by simp
  show "parse_grant ''`'' (grant_text [''ALL PRIVILEGES''] schema table rest) = Inr (all_privileges, schema, table)"
    using grant_all_read [OF assms(5,6) l(3)] by (simp only: table_privileges_list)
  have "table_privileges \<noteq> []" by (simp add: table_privileges_def)
  from tokens_read [OF this table_privileges_plain(2), of "[]" "[]"] l(4)
  show "priv_tokens all_privileges 0 =
      Inr [''ALTER'', ''DELETE'', ''DROP'', ''INDEX'', ''INSERT'', ''LOCK TABLES'', ''SELECT'', ''UPDATE'']"
    by (simp add: table_privileges_list [symmetric]) (simp add: table_privileges_def)
qed

theorem grants_read_back_witness:
  "parse_grant ''`'' ''GRANT SELECT, LOCK TABLES ON `shop`.`sales` TO `u`@`h`'' = Inr (''SELECT, LOCK TABLES'', ''shop'', ''sales'')
    \<and> priv_tokens ''SELECT, LOCK TABLES'' 0 = Inr [''SELECT'', ''LOCK TABLES'']
    \<and> parse_grant ''`'' ''GRANT ALL PRIVILEGES ON `shop`.`sales` TO `u`@`h`'' = Inr (all_privileges, ''shop'', ''sales'')"
  using grants_read_back [of "[''SELECT'', ''LOCK TABLES'']" "''shop''" "''sales''" "'' TO `u`@`h`''"]
  by (simp add: grant_text_def plain_privilege_def plain_name_def sublist_Cons_right npos_def)

section \<open>The driver\<close>

text \<open>
  C37: the driver of a client library is made once: from the start of the process on, after whatever requests for drivers, with
  libraries that load or not, a name that has once been given a driver gets the same driver, without loading anything, and
  another name gets another driver, with a client library of its own if libraries are loaded.
\<close>

theorem driver_instances_shared:
  assumes "requests static lk (new_process w) s" "get_driver_instance_by_name static lk name s = (Inr i, s')" "requests static lk s' t"
  shows "get_driver_instance_by_name static lk name t = (Inr i, t)
    \<and> (\<forall>other j u. get_driver_instance_by_name static lk other t = (Inr j, u) \<and> chars other \<noteq> chars name \<longrightarrow>
        j \<noteq> i \<and> (\<not> static \<longrightarrow> pc_drivers u ! j \<noteq> pc_drivers u ! i))"
proof -
  have r: "registered static s" using requests_keep [OF assms(1) new_registered] by blast
  show ?thesis using instances_shared [OF r assms(2,3)] by blast
qed

theorem driver_instances_shared_witness:
  "\<exists>s t. get_driver_instance False open_linker (new_process []) = (Inr 0, s) \<and> pc_world s = [''libmysqlclient_r.so'']
    \<and> get_driver_instance_by_name False open_linker ''old.so'' s = (Inr 1, t) \<and> get_driver_instance False open_linker t = (Inr 0, t)"
proof -
  let ?n = "new_process [] :: (string list, string, string) process"
  obtain s where s: "get_driver_instance_by_name False open_linker [] ?n = (Inr 0, s)" "pc_world s = [''libmysqlclient_r.so'']"
    by (simp add: get_driver_instance_by_name_def new_Driver_def getCApiHandle_def new_LibmysqlDynamicProxy_def new_LibraryLoader_def
        init_loader_def GetProcAddr_def open_linker_def new_process_def chars_def baseName_def Let_def)
  obtain t where t: "get_driver_instance_by_name False open_linker ''old.so'' s = (Inr 1, t)"
    using s by (auto simp: get_driver_instance_by_name_def new_Driver_def getCApiHandle_def new_LibmysqlDynamicProxy_def new_LibraryLoader_def
        init_loader_def GetProcAddr_def open_linker_def new_process_def chars_def baseName_def Let_def)
  have "requests False open_linker s t" by (rule requests.more [OF requests.none t])
  from driver_instances_shared [OF requests.none s(1) this] s t show ?thesis by (auto simp: get_driver_instance_def)
qed


section \<open>String helpers\<close>

text \<open>
  C38: \<^verbatim>\<open>c_explode\<close> loses nothing: on a non-empty subject it returns, and joining the fields (each
  followed by the separator, or separated by it) gives the subject back up to a blank rest.
\<close>

theorem c_explode_lossless_total:
  assumes "s \<noteq> []"
  shows "\<exists>ws. c_explode q s = Inr ws
    \<and> (\<exists>r. all_blank r \<and> s = concat (map (\<lambda>w. w @ [q]) ws) @ r \<or> ws \<noteq> [] \<and> s = join [q] ws)"
  using c_explode_ok [OF assms, of q] c_explode_lossless [of q s] by blast

theorem c_explode_lossless_total_witness:
  "\<exists>ws. c_explode (CHR ''_'') ''1_sum_quant'' = Inr ws
    \<and> (\<exists>r. all_blank r \<and> ''1_sum_quant'' = concat (map (\<lambda>w. w @ ''_'') ws) @ r \<or> ws \<noteq> [] \<and> ''1_sum_quant'' = join ''_'' ws)"
  using c_explode_lossless_total [of "''1_sum_quant''"] by blast

text \<open>
  C39: replacing one character by a text that does not contain it terminates and replaces every
  occurrence.
\<close>

theorem str_replace_terminates:
  assumes "c \<notin> set rep"
  shows "str_replace [c] rep s = Some (concat (map (\<lambda>x. if x = c then rep else [x]) s))"
  by (rule str_replace_char [OF assms])

theorem str_replace_terminates_witness: "str_replace [squote] [dquote] ([squote] @ ''NY'' @ [squote]) = Some ([dquote] @ ''NY'' @ [dquote])"
  using str_replace_terminates [of squote "[dquote]" "[squote] @ ''NY'' @ [squote]"] by simp


section \<open>C strings\<close>

text \<open>
  C40: the C-string version of \<^verbatim>\<open>str_replace\<close> is equivalent to the version for \<^verbatim>\<open>std::string\<close>: whenever that
  returns, the C version returns too, without undefined behaviour, a string with the same text, and
  every block allocated before the call is as it was. (The strings of the rounds in between stay
  allocated.)
\<close>

theorem c_str_replace_agrees:
  assumes "str_replace ws wr w = Some out" "ws \<noteq> []" "int (length w) < INT_MAX" "int (length out) < INT_MAX"
  shows "\<exists>n. \<forall>fuel h a. n < fuel \<longrightarrow> ch_wf h \<longrightarrow> cstr h s ws \<longrightarrow> cstr h r wr \<longrightarrow> cstr h a w \<longrightarrow>
    (\<exists>b h'. c_str_replace fuel (Some s) (Some r) (Some a) h = (Inr (Some b), h') \<and> cstr h' b out
      \<and> (\<forall>c < ch_fresh h. ch_mem h' c = ch_mem h c))"
  by (rule c_str_replace_spec [OF assms])

definition three_strings :: cheap where
  "three_strings = \<lparr>ch_mem = [0 \<mapsto> map Some ''.'' @ [Some NUL], 1 \<mapsto> map Some ''--'' @ [Some NUL], 2 \<mapsto> map Some ''a.b.'' @ [Some NUL]],
     ch_fresh = 3\<rparr>"

theorem c_str_replace_agrees_witness:
  "\<exists>fuel b h. c_str_replace fuel (Some 0) (Some 1) (Some 2) three_strings = (Inr (Some b), h) \<and> cstr h b ''a--b--''
    \<and> ch_mem h 2 = ch_mem three_strings 2"
proof -
  have r: "str_replace ''.'' ''--'' ''a.b.'' = Some ''a--b--''"
    using str_replace_char [of "CHR ''.''" "''--''" "''a.b.''"] by simp
  have h: "ch_wf three_strings" "cstr three_strings 0 ''.''" "cstr three_strings 1 ''--''" "cstr three_strings 2 ''a.b.''"
    by (auto simp: three_strings_def ch_wf_def cstr_def split: if_splits)
  have b: "''.'' \<noteq> ([] :: string)" "int (length ''a.b.'') < INT_MAX" "int (length ''a--b--'') < INT_MAX" by simp_all
  from c_str_replace_agrees [OF r b, of 0 1] obtain n where
    n: "\<And>fuel h a. n < fuel \<Longrightarrow> ch_wf h \<Longrightarrow> cstr h 0 ''.'' \<Longrightarrow> cstr h 1 ''--'' \<Longrightarrow> cstr h a ''a.b.'' \<Longrightarrow>
      \<exists>b h'. c_str_replace fuel (Some 0) (Some 1) (Some a) h = (Inr (Some b), h') \<and> cstr h' b ''a--b--''
        \<and> (\<forall>c < ch_fresh h. ch_mem h' c = ch_mem h c)" by blast
  have "2 < ch_fresh three_strings" by (simp add: three_strings_def)
  with n [OF lessI h] show ?thesis by blast
qed

end
